(* ===== verification/JsPrelude.thy ===== *)
theory JsPrelude
  imports Main "HOL-Library.Sublist"
begin

text \<open>
  The prelude of the development: the automation collections, the outcome of an awaited
  call, and the list operations that every page of the dashboard performs on its React
  state (toggling a selection, updating, removing and prepending entries by id).  The
  functional updates \<open>setX((current) => ...)\<close> of the pages under
  \<open>frontend/src/app/dashboard\<close> are instances of these operations.
\<close>

named_theorems handler_defs \<open>definitions of event handlers, unfolded in handler proofs\<close>
named_theorems sel_simps \<open>rewrite rules on selections kept as lists of ids\<close>

section \<open>Outcomes of awaited calls\<close>

text \<open>
  A \<open>catch (error)\<close> clause receives an arbitrary value; the pages only distinguish an
  \<open>Error\<close> object, whose message they read, from everything else.
\<close>

datatype thrown = ErrorObj string | NonError

type_synonym 'a outcome = "thrown + 'a"

definition map_outcome :: "('a \<Rightarrow> 'b) \<Rightarrow> 'a outcome \<Rightarrow> 'b outcome" where
  "map_outcome f r = (case r of Inl e \<Rightarrow> Inl e | Inr a \<Rightarrow> Inr (f a))"

lemma map_outcome_simps [simp]:
  "map_outcome f (Inl e) = Inl e"
  "map_outcome f (Inr a) = Inr (f a)"
  by (simp_all add: map_outcome_def)

section \<open>JavaScript's \<open>||\<close> and \<open>??\<close> on the values the pages use\<close>

definition str_or :: "string \<Rightarrow> string \<Rightarrow> string" where
  \<comment> \<open>\<open>a || b\<close> on strings: the empty string is falsy\<close>
  "str_or a b = (if a = [] then b else a)"

definition opt_or :: "string option \<Rightarrow> string \<Rightarrow> string" where
  \<comment> \<open>\<open>a || b\<close> where \<open>a\<close> may be null, undefined or empty\<close>
  "opt_or a b = (case a of None \<Rightarrow> b | Some s \<Rightarrow> str_or s b)"

definition truthy :: "string option \<Rightarrow> bool" where
  "truthy a \<longleftrightarrow> (case a of None \<Rightarrow> False | Some s \<Rightarrow> s \<noteq> [])"

definition nonempty_or_null :: "string \<Rightarrow> string option" where
  \<comment> \<open>\<open>s || null\<close>\<close>
  "nonempty_or_null s = (if s = [] then None else Some s)"

definition or_empty :: "'a list option \<Rightarrow> 'a list" where
  \<comment> \<open>\<open>Array.isArray(xs) ? xs : []\<close>, or \<open>xs || []\<close> where \<open>xs\<close> is an array or null\<close>
  "or_empty xs = (case xs of Some ys \<Rightarrow> ys | None \<Rightarrow> [])"

lemma or_empty_simps [simp]: "or_empty None = []" "or_empty (Some xs) = xs"
  by (simp_all add: or_empty_def)

lemma str_or_simps [simp]:
  "str_or [] b = b"
  "a \<noteq> [] \<Longrightarrow> str_or a b = a"
  by (simp_all add: str_or_def)

lemma str_or_nonempty: "b \<noteq> [] \<Longrightarrow> str_or a b \<noteq> []"
  by (simp add: str_or_def)

lemma opt_or_simps [simp]:
  "opt_or None b = b"
  "opt_or (Some a) b = str_or a b"
  by (simp_all add: opt_or_def)

lemma truthy_simps [simp]:
  "\<not> truthy None"
  "truthy (Some s) \<longleftrightarrow> s \<noteq> []"
  by (simp_all add: truthy_def)

lemma nonempty_or_null_simps [simp]:
  "nonempty_or_null [] = None"
  "nonempty_or_null s = None \<longleftrightarrow> s = []"
  "nonempty_or_null s = Some t \<longleftrightarrow> s = t \<and> s \<noteq> []"
  by (auto simp: nonempty_or_null_def)

section \<open>Selections: lists of ids toggled by the user\<close>

definition toggle :: "'a \<Rightarrow> 'a list \<Rightarrow> 'a list" where
  \<comment> \<open>\<open>current.includes(x) ? current.filter((y) => y !== x) : [...current, x]\<close>\<close>
  "toggle x current =
     (if x \<in> set current then filter (\<lambda>y. y \<noteq> x) current else current @ [x])"

lemma set_toggle [sel_simps]:
  "set (toggle x xs) = (if x \<in> set xs then set xs - {x} else insert x (set xs))"
  by (auto simp: toggle_def)

lemma toggle_flips [simp]: "x \<in> set (toggle x xs) \<longleftrightarrow> x \<notin> set xs"
  by (simp add: set_toggle)

lemma toggle_other [simp]: "y \<noteq> x \<Longrightarrow> y \<in> set (toggle x xs) \<longleftrightarrow> y \<in> set xs"
  by (simp add: set_toggle)

lemma distinct_toggle [simp, intro]: "distinct xs \<Longrightarrow> distinct (toggle x xs)"
  by (simp add: toggle_def)

lemma set_toggle_toggle: "set (toggle x (toggle x xs)) = set xs"
  by (auto simp: set_toggle)

definition ensure_member :: "'a \<Rightarrow> 'a list \<Rightarrow> 'a list" where
  \<comment> \<open>\<open>current.includes(x) ? current : [...current, x]\<close>\<close>
  "ensure_member x current = (if x \<in> set current then current else current @ [x])"

lemma set_ensure_member [sel_simps, simp]: "set (ensure_member x xs) = insert x (set xs)"
  by (auto simp: ensure_member_def)

lemma distinct_ensure_member [simp, intro]: "distinct xs \<Longrightarrow> distinct (ensure_member x xs)"
  by (simp add: ensure_member_def)

definition toggle_all :: "'a list \<Rightarrow> 'a list \<Rightarrow> 'a list" where
  \<comment> \<open>\<open>current.length === all.length ? [] : all\<close>\<close>
  "toggle_all all_ids current = (if length current = length all_ids then [] else all_ids)"

lemma toggle_all_cases:
  "toggle_all a c = [] \<or> toggle_all a c = a"
  by (simp add: toggle_all_def)

lemma set_toggle_all_subset: "set (toggle_all a c) \<subseteq> set a"
  by (simp add: toggle_all_def)

lemma toggle_all_twice: "toggle_all a (toggle_all a a) = a"
  by (simp add: toggle_all_def)

text \<open>A selection of the right size drawn from the list without repetition is the whole list.\<close>

lemma full_selection:
  assumes "distinct sel" and "set sel \<subseteq> set ids" and "distinct ids"
  shows "length sel = length ids \<longleftrightarrow> set sel = set ids"
proof -
  have card: "card (set sel) = length sel" "card (set ids) = length ids"
    using assms by (simp_all add: distinct_card)
  show ?thesis
  proof
    assume "length sel = length ids"
    with card assms(2) show "set sel = set ids"
      by (simp add: card_subset_eq)
  next
    assume "set sel = set ids"
    with card show "length sel = length ids" by simp
  qed
qed

definition uniq :: "'a list \<Rightarrow> 'a list" where
  \<comment> \<open>\<open>Array.from(new Set(xs))\<close>: first occurrences, in order\<close>
  "uniq xs = rev (remdups (rev xs))"

lemma set_uniq [simp]: "set (uniq xs) = set xs"
  by (simp add: uniq_def)

lemma distinct_uniq [simp]: "distinct (uniq xs)"
  by (simp add: uniq_def)

text \<open>Counts per key: over distinct keys that cover the list they add up.\<close>

definition count_key :: "('a \<Rightarrow> 'k) \<Rightarrow> 'a list \<Rightarrow> 'k \<Rightarrow> nat" where
  "count_key f xs k = length (filter (\<lambda>x. f x = k) xs)"

lemma count_key_simps [simp]:
  "count_key f [] k = 0"
  "count_key f (x # xs) k = (if f x = k then 1 else 0) + count_key f xs k"
  by (simp_all add: count_key_def)

lemma sum_list_indicator:
  "distinct ks \<Longrightarrow> sum_list (map (\<lambda>k. if a = k then 1 else 0) ks) = (if a \<in> set ks then 1 else (0 :: nat))"
  by (induction ks) auto

lemma counts_add_up:
  assumes "distinct ks" and "f ` set xs \<subseteq> set ks"
  shows "sum_list (map (count_key f xs) (filter P ks)) = length (filter (\<lambda>x. P (f x)) xs)"
  using assms(2)
proof (induction xs)
  case Nil
  then show ?case by (induction ks) auto
next
  case (Cons x xs)
  have "sum_list (map (count_key f (x # xs)) (filter P ks)) =
      sum_list (map (\<lambda>k. if f x = k then 1 else 0) (filter P ks)) +
      sum_list (map (count_key f xs) (filter P ks))"
    by (induction ks) auto
  with Cons assms(1) show ?case by (simp add: sum_list_indicator del: count_key_simps)
qed

section \<open>Entity lists: entries addressed by an id\<close>

definition update_by :: "('a \<Rightarrow> 'k) \<Rightarrow> 'k \<Rightarrow> ('a \<Rightarrow> 'a) \<Rightarrow> 'a list \<Rightarrow> 'a list" where
  \<comment> \<open>\<open>current.map((x) => (x.id === k ? f(x) : x))\<close>\<close>
  "update_by key k f xs = map (\<lambda>x. if key x = k then f x else x) xs"

definition remove_by :: "('a \<Rightarrow> 'k) \<Rightarrow> 'k \<Rightarrow> 'a list \<Rightarrow> 'a list" where
  \<comment> \<open>\<open>current.filter((x) => x.id !== k)\<close>\<close>
  "remove_by key k xs = filter (\<lambda>x. key x \<noteq> k) xs"

definition find_by :: "('a \<Rightarrow> 'k) \<Rightarrow> 'k \<Rightarrow> 'a list \<Rightarrow> 'a option" where
  \<comment> \<open>\<open>xs.find((x) => x.id === k)\<close>\<close>
  "find_by key k xs = find (\<lambda>x. key x = k) xs"

lemma find_by_simps [simp]:
  "find_by key k [] = None"
  "find_by key k (x # xs) = (if key x = k then Some x else find_by key k xs)"
  by (simp_all add: find_by_def)

lemma find_by_Some: "find_by key k xs = Some x \<Longrightarrow> x \<in> set xs \<and> key x = k"
  by (induction xs) (auto split: if_splits)

lemma find_by_None: "find_by key k xs = None \<longleftrightarrow> k \<notin> key ` set xs"
  by (induction xs) auto

lemma remove_by_simps [simp]:
  "remove_by key k [] = []"
  "remove_by key k (x # xs) = (if key x = k then remove_by key k xs else x # remove_by key k xs)"
  by (simp_all add: remove_by_def)

lemma update_by_simps [simp]:
  "update_by key k f [] = []"
  "update_by key k f (x # xs) = (if key x = k then f x else x) # update_by key k f xs"
  by (simp_all add: update_by_def)

lemma length_update_by [simp]: "length (update_by key k f xs) = length xs"
  by (simp add: update_by_def)

lemma keys_remove_by [simp]: "key ` set (remove_by key k xs) = key ` set xs - {k}"
  by (auto simp: remove_by_def)

lemma distinct_remove_by [simp, intro]:
  "distinct (map key xs) \<Longrightarrow> distinct (map key (remove_by key k xs))"
  by (auto simp: remove_by_def distinct_map_filter)

lemma find_by_remove_by [simp]:
  "find_by key j (remove_by key k xs) = (if j = k then None else find_by key j xs)"
  by (induction xs) auto

text \<open>
  The interface the pages rely on when they merge a server response into an entry: the
  entry keeps its id.  What follows from it -- the ids of the list do not change, a lookup
  sees exactly the merged entry, other entries are untouched -- is proved once here and
  used for the alert rules, the channels, the incidents and the notifications.
\<close>

locale entity_merge =
  fixes ident :: "'a \<Rightarrow> 'k"
    and merge :: "'u \<Rightarrow> 'a \<Rightarrow> 'a"
  assumes ident_merge: "ident (merge u x) = ident x"
begin

lemma map_ident_update: "map ident (update_by ident k (merge u) xs) = map ident xs"
  by (induction xs) (auto simp: ident_merge)

lemma distinct_update:
  "distinct (map ident xs) \<Longrightarrow> distinct (map ident (update_by ident k (merge u) xs))"
  by (simp only: map_ident_update)

lemma find_update:
  "find_by ident j (update_by ident k (merge u) xs) =
     (if j = k then map_option (merge u) (find_by ident j xs) else find_by ident j xs)"
  by (induction xs) (auto simp: ident_merge)

lemma remove_update:
  "remove_by ident k (update_by ident k (merge u) xs) = remove_by ident k xs"
  by (induction xs) (auto simp: ident_merge)

lemma filter_update_other:
  assumes "\<And>x. ident x = k \<Longrightarrow> P (merge u x) = P x"
  shows "length (filter P (update_by ident k (merge u) xs)) = length (filter P xs)"
  using assms by (induction xs) auto

text \<open>Merging marks into the entry of one id lowers a count of unmarked entries by at most one.\<close>

lemma count_merged:
  assumes "distinct (map ident xs)" and "\<And>x. \<not> P (merge u x)"
  shows "length (filter P (update_by ident k (merge u) xs)) =
         length (filter P xs) -
         (case find_by ident k xs of Some x \<Rightarrow> if P x then 1 else 0 | None \<Rightarrow> 0)"
  using assms(1)
proof (induction xs)
  case Nil
  then show ?case by simp
next
  case (Cons x xs)
  show ?case
  proof (cases "ident x = k")
    case True
    with Cons.prems have "update_by ident k (merge u) xs = xs"
      by (auto simp: update_by_def intro!: map_idI) (metis imageI)
    with True assms(2) show ?thesis by simp
  next
    case False
    have "0 < length (filter P xs)" if "find_by ident k xs = Some y" "P y" for y
      using find_by_Some [OF that(1)] that(2) by (auto simp: filter_empty_conv)
    with False Cons show ?thesis by (auto split: option.split)
  qed
qed

end

end
