(* ===== verification/JsString.thy ===== *)
theory JsString
  imports JsPrelude Complex_Main
begin

text \<open>
  The part of JavaScript's string and number library that the pages use, on strings of
  code units below 256 (\<open>char\<close>): \<open>trim\<close>, \<open>toLowerCase\<close>, \<open>includes\<close>, \<open>startsWith\<close>,
  \<open>replace\<close> of a literal, \<open>join\<close>, \<open>Number.parseInt(s, 10)\<close>, \<open>Number.parseFloat\<close>,
  \<open>Number\<close> and the conversion of a number to a string.  A number is NaN, an infinity or
  an exact rational: the rounding of decimal numerals to doubles is not modelled.
\<close>

section \<open>Characters\<close>

definition char_code :: "char \<Rightarrow> int" where
  "char_code c = of_char c"

definition is_ws :: "char \<Rightarrow> bool" where
  \<comment> \<open>WhiteSpace and LineTerminator below U+0100\<close>
  "is_ws c \<longleftrightarrow> char_code c \<in> {9, 10, 11, 12, 13, 32, 160}"

definition is_digit :: "char \<Rightarrow> bool" where
  "is_digit c \<longleftrightarrow> 48 \<le> char_code c \<and> char_code c \<le> 57"

definition digit_of :: "char \<Rightarrow> int" where
  "digit_of c = char_code c - 48"

definition digit_char :: "int \<Rightarrow> char" where
  "digit_char d = char_of (48 + d)"

definition lower_char :: "char \<Rightarrow> char" where
  "lower_char c =
     (if (65 \<le> char_code c \<and> char_code c \<le> 90) \<or> (192 \<le> char_code c \<and> char_code c \<le> 222 \<and> char_code c \<noteq> 215)
      then char_of (char_code c + 32) else c)"

definition upper_char :: "char \<Rightarrow> char" where
  \<comment> \<open>used on ASCII metric names only\<close>
  "upper_char c = (if 97 \<le> char_code c \<and> char_code c \<le> 122 then char_of (char_code c - 32) else c)"

definition to_lower :: "string \<Rightarrow> string" where
  "to_lower s = map lower_char s"

definition to_upper :: "string \<Rightarrow> string" where
  "to_upper s = map upper_char s"

lemma char_code_range [simp]: "char_code c < 256" "0 \<le> char_code c"
proof -
  have "char_code c = char_code c mod 256" by (simp add: char_code_def)
  moreover have "0 \<le> char_code c mod 256" "char_code c mod 256 < 256" by simp_all
  ultimately show "char_code c < 256" "0 \<le> char_code c" by simp_all
qed

lemma char_code_char_of [simp]: "0 \<le> n \<Longrightarrow> n < 256 \<Longrightarrow> char_code (char_of n) = n"
  by (simp add: char_code_def)

lemma is_digit_digit_char [simp]: "0 \<le> d \<Longrightarrow> d < 10 \<Longrightarrow> is_digit (digit_char d)"
  by (simp add: is_digit_def digit_char_def)

lemma digit_of_digit_char [simp]: "0 \<le> d \<Longrightarrow> d < 10 \<Longrightarrow> digit_of (digit_char d) = d"
  by (simp add: digit_of_def digit_char_def)

lemma ws_not_digit [simp]: "is_digit c \<Longrightarrow> \<not> is_ws c"
  by (auto simp: is_digit_def is_ws_def)

lemma lower_char_idem [simp]: "lower_char (lower_char c) = lower_char c"
  by (auto simp: lower_char_def)

lemma to_lower_idem [simp]: "to_lower (to_lower s) = to_lower s"
  by (simp add: to_lower_def)

lemma length_to_lower [simp]: "length (to_lower s) = length s"
  by (simp add: to_lower_def)

lemma to_lower_append: "to_lower (s @ t) = to_lower s @ to_lower t"
  by (simp add: to_lower_def)

section \<open>Trimming\<close>

definition trim_start :: "string \<Rightarrow> string" where
  "trim_start s = dropWhile is_ws s"

definition trim :: "string \<Rightarrow> string" where
  "trim s = rev (dropWhile is_ws (rev (dropWhile is_ws s)))"

lemma trim_Nil [simp]: "trim [] = []"
  by (simp add: trim_def)

lemma dropWhile_rev_dropWhile:
  "dropWhile P (rev (dropWhile P (rev (dropWhile P s)))) = rev (dropWhile P (rev (dropWhile P s)))"
proof -
  let ?d = "dropWhile P s"
  show ?thesis
  proof (cases ?d)
    case Nil
    show ?thesis unfolding Nil by simp
  next
    case (Cons x xs)
    then have x: "\<not> P x" by (metis dropWhile_eq_Cons_conv)
    then have "dropWhile P (rev xs @ [x]) = dropWhile P (rev xs) @ [x]"
      by (simp add: dropWhile_append)
    with Cons x show ?thesis by simp
  qed
qed

lemma trim_trim [simp]: "trim (trim s) = trim s"
proof -
  have "dropWhile is_ws (trim s) = trim s"
    unfolding trim_def by (rule dropWhile_rev_dropWhile)
  moreover have "dropWhile is_ws (rev (trim s)) = rev (trim s)"
    unfolding trim_def by simp
  ultimately show ?thesis by (simp add: trim_def [of "trim s"])
qed

lemma trim_eq_Nil: "trim s = [] \<longleftrightarrow> (\<forall>c \<in> set s. is_ws c)"
proof (cases "dropWhile is_ws s")
  case Nil
  then have "\<forall>c \<in> set s. is_ws c" by (simp add: dropWhile_eq_Nil_conv)
  moreover from Nil have "trim s = []" unfolding trim_def by (simp only: rev.simps dropWhile.simps)
  ultimately show ?thesis by simp
next
  case (Cons x xs)
  then have x: "\<not> is_ws x" by (simp add: dropWhile_eq_Cons_conv)
  from Cons have "x \<in> set s" by (metis list.set_intros(1) set_dropWhileD)
  with x have "\<not> (\<forall>c \<in> set s. is_ws c)" by blast
  moreover from x have "trim s \<noteq> []" by (auto simp: trim_def Cons)
  ultimately show ?thesis by blast
qed

lemma set_trim: "set (trim s) \<subseteq> set s"
  by (auto simp: trim_def dest!: set_dropWhileD)

section \<open>Searching and replacing\<close>

fun str_includes :: "string \<Rightarrow> string \<Rightarrow> bool" where
  \<comment> \<open>\<open>str_includes s q\<close> is \<open>s.includes(q)\<close>\<close>
  "str_includes [] q \<longleftrightarrow> q = []"
| "str_includes (c # cs) q \<longleftrightarrow> prefix q (c # cs) \<or> str_includes cs q"

definition starts_with :: "string \<Rightarrow> string \<Rightarrow> bool" where
  \<comment> \<open>\<open>starts_with s q\<close>: \<open>s.startsWith(q)\<close>\<close>
  "starts_with s q \<longleftrightarrow> prefix q s"

lemma str_includes_sublist: "str_includes s q \<longleftrightarrow> sublist q s"
  by (induction s) (auto simp: sublist_Cons_right)

lemma str_includes_Nil [simp]: "str_includes s []"
  by (simp add: str_includes_sublist)

lemma str_includes_self [simp]: "str_includes s s"
  by (simp add: str_includes_sublist)

lemma str_includes_trans: "str_includes s t \<Longrightarrow> str_includes t q \<Longrightarrow> str_includes s q"
  unfolding str_includes_sublist by (rule sublist_order.order.trans)

lemma str_includes_append: "str_includes (a @ s @ b) s"
  by (auto simp: str_includes_sublist)

definition replace_first :: "string \<Rightarrow> string \<Rightarrow> string" where
  \<comment> \<open>\<open>s.replace(p, '')\<close> where \<open>s\<close> starts with the literal \<open>p\<close>\<close>
  "replace_first p s = (if prefix p s then drop (length p) s else s)"

lemma replace_first_append [simp]: "replace_first p (p @ s) = s"
  by (simp add: replace_first_def)

fun join :: "string \<Rightarrow> string list \<Rightarrow> string" where
  "join sep [] = []"
| "join sep [s] = s"
| "join sep (s # t # ts) = s @ sep @ join sep (t # ts)"

fun split_at :: "'a \<Rightarrow> 'a list \<Rightarrow> 'a list list" where
  \<comment> \<open>\<open>split\<close> at a single character\<close>
  "split_at d [] = [[]]"
| "split_at d (c # cs) =
     (if c = d then [] # split_at d cs
      else (case split_at d cs of [] \<Rightarrow> [[c]] | l # ls \<Rightarrow> (c # l) # ls))"

lemma split_at_nonempty [simp]: "split_at d cs \<noteq> []"
  by (cases cs) (auto split: list.split)

lemma split_at_plain: "d \<notin> set cs \<Longrightarrow> split_at d cs = [cs]"
  by (induction cs) auto

lemma split_at_append: "d \<notin> set xs \<Longrightarrow> split_at d (xs @ d # ys) = xs # split_at d ys"
  by (induction xs) auto

lemma split_at_split: "split_at d (xs @ d # ys) = split_at d xs @ split_at d ys"
  by (induction xs) (auto split: list.split)

lemma split_at_no_sep: "l \<in> set (split_at d cs) \<Longrightarrow> d \<notin> set l"
  by (induction cs arbitrary: l) (auto split: if_splits list.splits)

section \<open>Numbers\<close>

datatype jsnum = NaN | PosInf | NegInf | Fin rat

fun is_finite :: "jsnum \<Rightarrow> bool" where
  "is_finite (Fin _) = True"
| "is_finite _ = False"

fun num_lt :: "jsnum \<Rightarrow> jsnum \<Rightarrow> bool" where
  "num_lt NaN _ = False"
| "num_lt _ NaN = False"
| "num_lt (Fin a) (Fin b) = (a < b)"
| "num_lt NegInf NegInf = False"
| "num_lt NegInf _ = True"
| "num_lt _ NegInf = False"
| "num_lt PosInf _ = False"
| "num_lt (Fin _) PosInf = True"

definition num_or :: "jsnum \<Rightarrow> jsnum \<Rightarrow> jsnum" where
  \<comment> \<open>\<open>a || b\<close> on numbers: NaN and 0 are falsy\<close>
  "num_or a b = (if a = NaN \<or> a = Fin 0 then b else a)"

fun num_times :: "jsnum \<Rightarrow> rat \<Rightarrow> jsnum" where
  \<comment> \<open>multiplication by a positive constant\<close>
  "num_times (Fin a) k = Fin (a * k)"
| "num_times x _ = x"

lemma num_or_Fin [simp]: "num_or (Fin a) b = (if a = 0 then b else Fin a)"
  by (simp add: num_or_def)

lemma num_or_NaN [simp]: "num_or NaN b = b"
  by (simp add: num_or_def)

section \<open>Parsing numbers\<close>

fun digits_val_acc :: "int \<Rightarrow> string \<Rightarrow> int" where
  "digits_val_acc n [] = n"
| "digits_val_acc n (c # cs) = digits_val_acc (10 * n + digit_of c) cs"

definition digits_val :: "string \<Rightarrow> int" where
  "digits_val s = digits_val_acc 0 s"

fun split_sign :: "string \<Rightarrow> bool \<times> string" where
  "split_sign [] = (False, [])"
| "split_sign (c # s) =
     (if c = CHR ''-'' then (True, s) else if c = CHR ''+'' then (False, s) else (False, c # s))"

definition signed :: "bool \<Rightarrow> rat \<Rightarrow> rat" where
  "signed neg q = (if neg then - q else q)"

definition parse_int :: "string \<Rightarrow> jsnum" where
  \<comment> \<open>\<open>Number.parseInt(s, 10)\<close>\<close>
  "parse_int s =
     (let (neg, t) = split_sign (trim_start s);
          ds = takeWhile is_digit t
      in if ds = [] then NaN else Fin (signed neg (of_int (digits_val ds))))"

definition parse_exponent :: "string \<Rightarrow> int \<times> string" where
  \<comment> \<open>the optional exponent part of a decimal literal and what follows it\<close>
  "parse_exponent s =
     (case s of
        [] \<Rightarrow> (0, s)
      | c # r \<Rightarrow>
         (if c = CHR ''e'' \<or> c = CHR ''E'' then
            (let (neg, t) = split_sign r; ds = takeWhile is_digit t
             in if ds = [] then (0, s)
                else ((if neg then - digits_val ds else digits_val ds),
                      dropWhile is_digit t))
          else (0, s)))"

definition pow10 :: "int \<Rightarrow> rat" where
  "pow10 e = (if 0 \<le> e then 10 ^ nat e else 1 / 10 ^ nat (- e))"

definition parse_decimal :: "string \<Rightarrow> (jsnum \<times> string) option" where
  \<comment> \<open>the longest prefix that is a StrDecimalLiteral, and what follows it\<close>
  "parse_decimal s =
     (let (neg, t) = split_sign s
      in if starts_with t ''Infinity'' then Some (if neg then NegInf else PosInf, drop 8 t)
         else
           let ip = takeWhile is_digit t; r = dropWhile is_digit t;
               (fp, r2) = (case r of
                              [] \<Rightarrow> ([], r)
                            | c # u \<Rightarrow>
                                if c = CHR ''.'' then (takeWhile is_digit u, dropWhile is_digit u)
                                else ([], r))
           in if ip = [] \<and> fp = [] then None
              else let (e, r3) = parse_exponent r2
                   in Some (Fin (signed neg (of_int (digits_val (ip @ fp)) *
                              pow10 (e - int (length fp)))), r3))"

definition parse_float :: "string \<Rightarrow> jsnum" where
  \<comment> \<open>\<open>Number.parseFloat(s)\<close>\<close>
  "parse_float s = (case parse_decimal (trim_start s) of None \<Rightarrow> NaN | Some (v, _) \<Rightarrow> v)"

definition hex_val :: "char \<Rightarrow> int option" where
  "hex_val c =
     (if is_digit c then Some (digit_of c)
      else if 97 \<le> char_code c \<and> char_code c \<le> 102 then Some (char_code c - 87)
      else if 65 \<le> char_code c \<and> char_code c \<le> 70 then Some (char_code c - 55)
      else None)"

fun radix_val :: "int \<Rightarrow> int \<Rightarrow> string \<Rightarrow> int option" where
  "radix_val b n [] = Some n"
| "radix_val b n (c # cs) =
     (case hex_val c of None \<Rightarrow> None
      | Some d \<Rightarrow> if d < b then radix_val b (b * n + d) cs else None)"

definition radix_literal :: "string \<Rightarrow> jsnum option" where
  \<comment> \<open>\<open>0x\<close>, \<open>0o\<close> and \<open>0b\<close> literals\<close>
  "radix_literal s =
     (case s of
        z # x # ds \<Rightarrow>
          (let b = (if x \<in> {CHR ''x'', CHR ''X''} then 16
                    else if x \<in> {CHR ''o'', CHR ''O''} then 8
                    else if x \<in> {CHR ''b'', CHR ''B''} then 2 else 0)
           in if z = CHR ''0'' \<and> b \<noteq> 0
              then Some (if ds = [] then NaN
                         else case radix_val b 0 ds of None \<Rightarrow> NaN | Some n \<Rightarrow> Fin (of_int n))
              else None)
      | _ \<Rightarrow> None)"

definition to_number :: "string \<Rightarrow> jsnum" where
  \<comment> \<open>\<open>Number(s)\<close> on a string\<close>
  "to_number s =
     (let t = trim s
      in if t = [] then Fin 0
         else case radix_literal t of
                Some v \<Rightarrow> v
              | None \<Rightarrow> (case parse_decimal t of Some (v, []) \<Rightarrow> v | _ \<Rightarrow> NaN))"

section \<open>Printing numbers\<close>

fun show_nat :: "nat \<Rightarrow> string" where
  "show_nat n = 
     (if n < 10 then [digit_char (int n)]
      else show_nat (n div 10) @ [digit_char (int (n mod 10))])"

declare show_nat.simps [simp del]

definition show_int :: "int \<Rightarrow> string" where
  "show_int i = (if i < 0 then CHR ''-'' # show_nat (nat (- i)) else show_nat (nat i))"

fun frac_digits :: "nat \<Rightarrow> rat \<Rightarrow> string" where
  \<comment> \<open>the decimals of a fraction; 17 of them identify a double\<close>
  "frac_digits 0 f = []"
| "frac_digits (Suc n) f =
     (if f = 0 then []
      else digit_char \<lfloor>10 * f\<rfloor> # frac_digits n (10 * f - of_int \<lfloor>10 * f\<rfloor>))"

definition show_rat :: "rat \<Rightarrow> string" where
  "show_rat q =
     (let a = \<bar>q\<bar>; i = \<lfloor>a\<rfloor>; f = a - of_int i
      in (if q < 0 then ''-'' else []) @ show_nat (nat i) @
         (if f = 0 then [] else CHR ''.'' # frac_digits 17 f))"

fun show_num :: "jsnum \<Rightarrow> string" where
  "show_num NaN = ''NaN''"
| "show_num PosInf = ''Infinity''"
| "show_num NegInf = ''-Infinity''"
| "show_num (Fin q) = show_rat q"

lemma digits_val_acc_append:
  "digits_val_acc n (s @ t) = digits_val_acc (digits_val_acc n s) t"
  by (induction s arbitrary: n) auto

lemma digits_val_show_nat: "digits_val (show_nat n) = int n"
proof (induction n rule: show_nat.induct)
  case (1 n)
  then show ?case
    by (subst show_nat.simps)
      (auto simp: digits_val_def digits_val_acc_append of_nat_div of_nat_mod)
qed

lemma show_nat_digits: "\<forall>c \<in> set (show_nat n). is_digit c"
proof (induction n rule: show_nat.induct)
  case (1 n)
  then show ?case by (subst show_nat.simps) auto
qed

lemma show_nat_nonempty [simp]: "show_nat n \<noteq> []"
  by (subst show_nat.simps) simp

lemma show_nat_inject [simp]: "show_nat m = show_nat n \<longleftrightarrow> m = n"
  by (metis digits_val_show_nat of_nat_eq_iff)

lemma split_sign_digit: "s \<noteq> [] \<Longrightarrow> is_digit (hd s) \<Longrightarrow> split_sign s = (False, s)"
  by (cases s rule: split_sign.cases) (auto simp: is_digit_def char_code_def)

lemma show_nat_hd: "is_digit (hd (show_nat n))"
  using show_nat_digits [of n] by (meson hd_in_set show_nat_nonempty)

lemma trim_start_show_nat: "trim_start (show_nat n @ s) = show_nat n @ s"
proof (cases "show_nat n")
  case Nil
  then show ?thesis by simp
next
  case (Cons c cs)
  then have "is_digit c" using show_nat_hd [of n] by simp
  with Cons show ?thesis by (simp add: trim_start_def)
qed

text \<open>Printing a count and reading it back with \<open>parseInt\<close> gives the count.\<close>

lemma parse_int_show_nat:
  assumes "s = [] \<or> \<not> is_digit (hd s)"
  shows "parse_int (show_nat n @ s) = Fin (of_nat n)"
proof -
  have tw: "takeWhile is_digit (show_nat n @ s) = show_nat n"
    using assms show_nat_digits [of n]
    by (cases s) (auto simp: takeWhile_append2)
  have "split_sign (show_nat n @ s) = (False, show_nat n @ s)"
    by (rule split_sign_digit) (simp_all add: show_nat_hd hd_append2)
  then show ?thesis
    by (simp add: parse_int_def trim_start_show_nat tw digits_val_show_nat signed_def)
qed

lemma parse_int_cases: "parse_int s = NaN \<or> (\<exists>i. parse_int s = Fin (of_int i))"
proof -
  obtain neg t where st: "split_sign (trim_start s) = (neg, t)" by fastforce
  let ?n = "digits_val (takeWhile is_digit t)"
  have "signed neg (of_int ?n) = of_int (if neg then - ?n else ?n)"
    by (simp add: signed_def)
  then show ?thesis by (auto simp: parse_int_def st Let_def)
qed

section \<open>Punctuation of the pages\<close>

definition em_dash :: string where
  \<comment> \<open>the character U+2014 in UTF-8\<close>
  "em_dash = [char_of (226::nat), char_of (128::nat), char_of (148::nat)]"

definition middle_dot :: string where
  "middle_dot = '' '' @ [char_of (194::nat), char_of (183::nat)] @ '' ''"

end
