(* ===== verification/JsJson.thy ===== *)
theory JsJson
  imports JsString
begin

text \<open>
  JSON values as the pages send and receive them, property access on them as JavaScript
  performs it, their truthiness, and the description of a call of \<open>apiClient\<close>.
  \<open>JSON.stringify\<close> is not spelled out: a request body is the value that is stringified.
\<close>

datatype json =
    JNull
  | JBool bool
  | JNum rat
  | JStr string
  | JArr "json list"
  | JObj "(string \<times> json) list"

definition num_json :: "jsnum \<Rightarrow> json" where
  \<comment> \<open>how \<open>JSON.stringify\<close> writes a number: NaN and the infinities become null\<close>
  "num_json x = (case x of Fin q \<Rightarrow> JNum q | _ \<Rightarrow> JNull)"

definition opt_str_json :: "string option \<Rightarrow> json" where
  "opt_str_json s = (case s of None \<Rightarrow> JNull | Some t \<Rightarrow> JStr t)"

definition strs_json :: "string list \<Rightarrow> json" where
  "strs_json xs = JArr (map JStr xs)"

lemma num_json_simps [simp]:
  "num_json (Fin q) = JNum q" "num_json NaN = JNull"
  "num_json PosInf = JNull" "num_json NegInf = JNull"
  by (simp_all add: num_json_def)

lemma opt_str_json_simps [simp]:
  "opt_str_json None = JNull" "opt_str_json (Some t) = JStr t"
  "opt_str_json s = JNull \<longleftrightarrow> s = None" "opt_str_json s = JStr t \<longleftrightarrow> s = Some t"
  by (auto simp: opt_str_json_def split: option.splits)

lemma strs_json_inject [simp]: "strs_json xs = strs_json ys \<longleftrightarrow> xs = ys"
proof
  assume "strs_json xs = strs_json ys"
  then have "map JStr xs = map JStr ys" by (simp add: strs_json_def)
  then show "xs = ys" by (rule map_injective) (simp add: inj_def)
qed simp

section \<open>Property access\<close>

definition field :: "json \<Rightarrow> string \<Rightarrow> json option" where
  \<comment> \<open>\<open>v.k\<close> where \<open>v\<close> is not null: absent properties are undefined\<close>
  "field v k = (case v of JObj kvs \<Rightarrow> map_of kvs k | _ \<Rightarrow> None)"

definition null_error :: "string \<Rightarrow> thrown" where
  "null_error k = ErrorObj (''Cannot read properties of null (reading '' @ k @ '')'')"

definition get :: "json \<Rightarrow> string \<Rightarrow> json option outcome" where
  \<comment> \<open>\<open>v.k\<close>: a TypeError on null\<close>
  "get v k = (if v = JNull then Inl (null_error k) else Inr (field v k))"

definition chain :: "json option \<Rightarrow> string \<Rightarrow> json option" where
  \<comment> \<open>\<open>v?.k\<close>\<close>
  "chain v k = (case v of None \<Rightarrow> None | Some j \<Rightarrow> field j k)"

lemma field_simps [simp]:
  "field JNull k = None"
  "field (JBool b) k = None"
  "field (JNum q) k = None"
  "field (JStr s) k = None"
  "field (JArr xs) k = None"
  "field (JObj kvs) k = map_of kvs k"
  by (simp_all add: field_def)

lemma get_simps [simp]:
  "get JNull k = Inl (null_error k)"
  "v \<noteq> JNull \<Longrightarrow> get v k = Inr (field v k)"
  by (simp_all add: get_def)

lemma chain_simps [simp]: "chain None k = None" "chain (Some j) k = field j k"
  by (simp_all add: chain_def)

fun js_truthy :: "json option \<Rightarrow> bool" where
  "js_truthy None = False"
| "js_truthy (Some JNull) = False"
| "js_truthy (Some (JBool b)) = b"
| "js_truthy (Some (JNum q)) = (q \<noteq> 0)"
| "js_truthy (Some (JStr s)) = (s \<noteq> [])"
| "js_truthy (Some _) = True"

fun to_text :: "json \<Rightarrow> string" where
  \<comment> \<open>\<open>String(v)\<close>, as in a template literal; null entries of an array are empty\<close>
  "to_text JNull = ''null''"
| "to_text (JBool b) = (if b then ''true'' else ''false'')"
| "to_text (JNum q) = show_rat q"
| "to_text (JStr s) = s"
| "to_text (JArr xs) = join '','' (map (\<lambda>x. if x = JNull then [] else to_text x) xs)"
| "to_text (JObj _) = ''[object Object]''"

definition text_or :: "json option \<Rightarrow> string \<Rightarrow> string" where
  \<comment> \<open>\<open>v || d\<close> in a template literal\<close>
  "text_or v d = (case v of Some j \<Rightarrow> if js_truthy v then to_text j else d | None \<Rightarrow> d)"

lemma text_or_simps [simp]:
  "text_or None d = d"
  "text_or (Some JNull) d = d"
  "text_or (Some (JStr s)) d = str_or s d"
  by (simp_all add: text_or_def str_or_def)

definition json_text :: "json option \<Rightarrow> string" where
  \<comment> \<open>\<open>v || ''\<close> of a value that is text where it is there\<close>
  "json_text v = (case v of Some (JStr s) \<Rightarrow> s | _ \<Rightarrow> [])"

definition json_or :: "json option \<Rightarrow> json option \<Rightarrow> json option" where
  \<comment> \<open>\<open>a || b\<close>\<close>
  "json_or a b = (if js_truthy a then a else b)"

definition parseJSON :: "(string \<Rightarrow> json option) \<Rightarrow> json option \<Rightarrow> json option" where
  \<comment> \<open>the helper of several pages: a field that holds JSON text or the value itself;
      \<open>json_parse\<close> is \<open>JSON.parse\<close>, \<open>None\<close> where it throws\<close>
  "parseJSON json_parse v =
     (case v of None \<Rightarrow> None | Some JNull \<Rightarrow> None | Some (JStr s) \<Rightarrow> json_parse s | Some j \<Rightarrow> Some j)"

section \<open>Calls of \<open>apiClient\<close> made by the pages\<close>

record request =
  req_endpoint :: string
  req_method :: string
  req_body :: "json option"

definition request_get :: "string \<Rightarrow> request" where
  "request_get e = \<lparr>req_endpoint = e, req_method = ''GET'', req_body = None\<rparr>"

definition request_send :: "string \<Rightarrow> string \<Rightarrow> json \<Rightarrow> request" where
  "request_send m e b = \<lparr>req_endpoint = e, req_method = m, req_body = Some b\<rparr>"

definition request_bare :: "string \<Rightarrow> string \<Rightarrow> request" where
  \<comment> \<open>a call with a method and no body\<close>
  "request_bare m e = \<lparr>req_endpoint = e, req_method = m, req_body = None\<rparr>"

definition body_field :: "request \<Rightarrow> string \<Rightarrow> json option" where
  "body_field r k = chain (req_body r) k"

lemma request_simps [simp]:
  "req_method (request_get e) = ''GET''"
  "req_endpoint (request_get e) = e"
  "req_body (request_get e) = None"
  "req_method (request_send m e b) = m"
  "req_endpoint (request_send m e b) = e"
  "req_body (request_send m e b) = Some b"
  "req_method (request_bare m e) = m"
  "req_endpoint (request_bare m e) = e"
  "req_body (request_bare m e) = None"
  "body_field (request_send m e b) k = field b k"
  by (simp_all add: request_get_def request_send_def request_bare_def body_field_def)

section \<open>The message a page shows for a failed call\<close>

definition errorMessage :: "thrown \<Rightarrow> string \<Rightarrow> string" where
  \<comment> \<open>\<open>error instanceof Error ? error.message : fallback\<close>\<close>
  "errorMessage e fallback = (case e of ErrorObj m \<Rightarrow> m | NonError \<Rightarrow> fallback)"

definition is_auth_message :: "string \<Rightarrow> bool" where
  \<comment> \<open>the test by which pages recognise an ended session\<close>
  "is_auth_message message \<longleftrightarrow> str_includes message ''token'' \<or> str_includes message ''UNAUTHORIZED''"

lemma errorMessage_simps [simp]:
  "errorMessage (ErrorObj m) f = m" "errorMessage NonError f = f"
  by (simp_all add: errorMessage_def)

definition strip_code :: "string \<Rightarrow> string" where
  \<comment> \<open>\<open>message.replace(/^\[[^\]]+\]\s*/, '')\<close>\<close>
  "strip_code s =
     (case s of
        [] \<Rightarrow> []
      | c # r \<Rightarrow>
         (if c = CHR ''['' then
            (let code_part = takeWhile (\<lambda>x. x \<noteq> CHR '']'') r;
                 rest = dropWhile (\<lambda>x. x \<noteq> CHR '']'') r
             in if code_part \<noteq> [] \<and> rest \<noteq> [] then dropWhile is_ws (tl rest) else s)
          else s))"

definition bracketed :: "string \<Rightarrow> string \<Rightarrow> string" where
  \<comment> \<open>\<open>`[${code}] ${message}`\<close>, the message of every error thrown by \<open>apiClient\<close>\<close>
  "bracketed c m = ''['' @ c @ ''] '' @ m"

lemma strip_code_bracketed:
  assumes "c \<noteq> []" and "CHR '']'' \<notin> set c"
  shows "strip_code (bracketed c m) = dropWhile is_ws m"
proof -
  have tw: "takeWhile (\<lambda>x. x \<noteq> CHR '']'') (c @ CHR '']'' # t) = c"
    and dw: "dropWhile (\<lambda>x. x \<noteq> CHR '']'') (c @ CHR '']'' # t) = CHR '']'' # t" for t
    using assms(2) by (induction c) auto
  have "is_ws CHR '' ''" by (simp add: is_ws_def char_code_def)
  then show ?thesis
    using assms(1) by (simp add: strip_code_def bracketed_def tw dw)
qed

end
