(* ===== verification/ApiClient.thy ===== *)
theory ApiClient
  imports JsJson
begin

text \<open>
  \<open>frontend/src/lib/apiClient.ts\<close>: the token storage of the browser, the exchange of a
  refresh token for a fresh access token, and \<open>apiClient\<close>, the only function through
  which the pages reach the API.  The HTTP server behind \<open>fetch\<close> is a parameter: a
  function of the request and of its own state \<open>'w\<close>.
\<close>

section \<open>Browser storage\<close>

datatype area = LocalStorage | SessionStorage

record browser =
  localStorage :: "string \<Rightarrow> string option"
  sessionStorage :: "string \<Rightarrow> string option"

fun getItem :: "browser \<Rightarrow> area \<Rightarrow> string \<Rightarrow> string option" where
  "getItem b LocalStorage k = localStorage b k"
| "getItem b SessionStorage k = sessionStorage b k"

fun setItem :: "browser \<Rightarrow> area \<Rightarrow> string \<Rightarrow> string \<Rightarrow> browser" where
  "setItem b LocalStorage k v = b\<lparr>localStorage := (localStorage b)(k \<mapsto> v)\<rparr>"
| "setItem b SessionStorage k v = b\<lparr>sessionStorage := (sessionStorage b)(k \<mapsto> v)\<rparr>"

fun removeItem :: "browser \<Rightarrow> area \<Rightarrow> string \<Rightarrow> browser" where
  "removeItem b LocalStorage k = b\<lparr>localStorage := (localStorage b)(k := None)\<rparr>"
| "removeItem b SessionStorage k = b\<lparr>sessionStorage := (sessionStorage b)(k := None)\<rparr>"

text \<open>What the client relies on: the Web Storage contract.\<close>

locale web_storage =
  fixes get_item :: "'b \<Rightarrow> area \<Rightarrow> string \<Rightarrow> string option"
    and set_item :: "'b \<Rightarrow> area \<Rightarrow> string \<Rightarrow> string \<Rightarrow> 'b"
    and remove_item :: "'b \<Rightarrow> area \<Rightarrow> string \<Rightarrow> 'b"
  assumes get_set:
      "get_item (set_item b a k v) a' k' = (if a = a' \<and> k = k' then Some v else get_item b a' k')"
    and get_remove:
      "get_item (remove_item b a k) a' k' = (if a = a' \<and> k = k' then None else get_item b a' k')"
begin

lemma get_store_tokens:
  "get_item (set_item (set_item b a ''access_token'' x) a ''refresh_token'' r) a' k =
     (if a' = a \<and> k = ''access_token'' then Some x
      else if a' = a \<and> k = ''refresh_token'' then Some r else get_item b a' k)"
  by (auto simp: get_set)

lemma get_drop_tokens:
  "get_item (remove_item (remove_item b a ''access_token'') a ''refresh_token'') a' k =
     (if a' = a \<and> k \<in> {''access_token'', ''refresh_token''} then None else get_item b a' k)"
  by (auto simp: get_remove)

end

interpretation ws: web_storage getItem setItem removeItem
proof
  fix b a k v a' k'
  show "getItem (setItem b a k v) a' k' = (if a = a' \<and> k = k' then Some v else getItem b a' k')"
    by (cases a; cases a') auto
  show "getItem (removeItem b a k) a' k' = (if a = a' \<and> k = k' then None else getItem b a' k')"
    by (cases a; cases a') auto
qed

definition getTokenStorage :: "browser \<Rightarrow> area option" where
  "getTokenStorage b =
     (if truthy (getItem b LocalStorage ''refresh_token'') then Some LocalStorage
      else if truthy (getItem b SessionStorage ''refresh_token'') then Some SessionStorage
      else None)"

definition initial_token :: "browser \<Rightarrow> string option" where
  \<comment> \<open>\<open>localStorage.getItem('access_token') || sessionStorage.getItem('access_token')\<close>\<close>
  "initial_token b =
     (if truthy (getItem b LocalStorage ''access_token'')
      then getItem b LocalStorage ''access_token''
      else getItem b SessionStorage ''access_token'')"

lemma getTokenStorage_Some:
  "getTokenStorage b = Some a \<Longrightarrow> truthy (getItem b a ''refresh_token'')"
  by (auto simp: getTokenStorage_def split: if_splits)

section \<open>HTTP\<close>

record http_request =
  url :: string
  http_method :: string
  http_headers :: "string \<Rightarrow> string option"
  http_body :: "json option"

record http_response =
  status :: int
  payload :: "json outcome" \<comment> \<open>the outcome of \<open>response.json()\<close>\<close>

definition ok :: "http_response \<Rightarrow> bool" where
  "ok r \<longleftrightarrow> 200 \<le> status r \<and> status r \<le> 299"

type_synonym 'w server = "http_request \<Rightarrow> 'w \<Rightarrow> http_response outcome \<times> 'w"

record api_options =
  opt_data :: "json option"
  opt_headers :: "string \<Rightarrow> string option"
  opt_method :: "string option"
  opt_body :: "json option"

definition API_BASE_URL :: string where
  \<comment> \<open>the default; the environment may override it\<close>
  "API_BASE_URL = ''/api/v1''"

definition request_config :: "string \<Rightarrow> api_options \<Rightarrow> string option \<Rightarrow> http_request" where
  \<comment> \<open>the closure \<open>request(token)\<close>\<close>
  "request_config endpoint opts token =
     \<lparr>url = API_BASE_URL @ endpoint,
      http_method = (case opt_method opts of
                       Some m \<Rightarrow> m
                     | None \<Rightarrow> if opt_data opts \<noteq> None then ''POST'' else ''GET''),
      http_headers =
        ([''Content-Type'' \<mapsto> ''application/json''] ++
         (case token of
            Some t \<Rightarrow> if t = [] then Map.empty else [''Authorization'' \<mapsto> ''Bearer '' @ t]
          | None \<Rightarrow> Map.empty) ++
         opt_headers opts),
      http_body = (case opt_data opts of Some d \<Rightarrow> Some d | None \<Rightarrow> opt_body opts)\<rparr>"

definition refresh_request :: "string \<Rightarrow> http_request" where
  "refresh_request refreshToken =
     \<lparr>url = API_BASE_URL @ ''/auth/refresh'', http_method = ''POST'',
      http_headers = [''Content-Type'' \<mapsto> ''application/json''],
      http_body = Some (JObj [(''refresh_token'', JStr refreshToken)])\<rparr>"

section \<open>Refreshing the access token\<close>

definition expired :: thrown where
  "expired = ErrorObj ''[UNAUTHORIZED] Your session has expired''"

definition api_error :: "json \<Rightarrow> string \<Rightarrow> string \<Rightarrow> thrown" where
  \<comment> \<open>\<open>new Error(`[${result.error?.code || code}] ${result.error?.message || message}`)\<close>\<close>
  "api_error result code message =
     (case get result ''error'' of
        Inl e \<Rightarrow> e
      | Inr err \<Rightarrow> ErrorObj (bracketed (text_or (chain err ''code'') code)
                                      (text_or (chain err ''message'') message)))"

datatype refreshed = Fresh string string | Rejected thrown | Broken thrown

definition read_refresh :: "http_response \<Rightarrow> refreshed" where
  \<comment> \<open>\<open>Fresh access refresh\<close>; \<open>Rejected\<close> drops the tokens first; \<open>Broken\<close> throws before that\<close>
  "read_refresh response =
     (case payload response of
        Inl e \<Rightarrow> Broken e
      | Inr result \<Rightarrow>
          if \<not> ok response then Rejected (api_error result ''UNAUTHORIZED'' ''Your session has expired'')
          else case get result ''data'' of
                 Inl e \<Rightarrow> Broken e
               | Inr d \<Rightarrow>
                   (case (chain d ''access_token'', chain d ''refresh_token'') of
                      (Some a, Some r) \<Rightarrow>
                        if js_truthy (Some a) \<and> js_truthy (Some r)
                        then Fresh (to_text a) (to_text r)
                        else Rejected (api_error result ''UNAUTHORIZED'' ''Your session has expired'')
                    | _ \<Rightarrow> Rejected (api_error result ''UNAUTHORIZED'' ''Your session has expired'')))"

definition settle_refresh ::
    "area \<Rightarrow> browser \<Rightarrow> http_response outcome \<Rightarrow> string outcome \<times> browser" where
  "settle_refresh a b reply =
     (case reply of
        Inl e \<Rightarrow> (Inl e, b)
      | Inr response \<Rightarrow>
          (case read_refresh response of
             Broken e \<Rightarrow> (Inl e, b)
           | Rejected e \<Rightarrow>
               (Inl e, removeItem (removeItem b a ''access_token'') a ''refresh_token'')
           | Fresh access refresh \<Rightarrow>
               (Inr access,
                setItem (setItem b a ''access_token'' access) a ''refresh_token'' refresh)))"

definition refreshAccessToken ::
    "'w server \<Rightarrow> browser \<Rightarrow> 'w \<Rightarrow> string outcome \<times> browser \<times> 'w" where
  "refreshAccessToken net b w =
     (case getTokenStorage b of
        None \<Rightarrow> (Inl expired, b, w)
      | Some a \<Rightarrow>
          (case getItem b a ''refresh_token'' of
             None \<Rightarrow> (Inl expired, b, w)
           | Some refreshToken \<Rightarrow>
               (if refreshToken = [] then (Inl expired, b, w)
                else let (reply, w') = net (refresh_request refreshToken) w;
                         (r, b') = settle_refresh a b reply
                     in (r, b', w'))))"

section \<open>\<open>apiClient\<close>\<close>

definition finish :: "http_response \<Rightarrow> json option outcome" where
  \<comment> \<open>the code after the last response arrived\<close>
  "finish response =
     (case payload response of
        Inl e \<Rightarrow> Inl e
      | Inr result \<Rightarrow>
          if \<not> ok response then Inl (api_error result ''UNKNOWN'' ''API request failed'')
          else get result ''data'')"

definition needs_refresh :: "string \<Rightarrow> http_response \<Rightarrow> bool" where
  "needs_refresh endpoint response \<longleftrightarrow>
     status response = 401 \<and> \<not> starts_with endpoint ''/auth/''"

definition apiClient ::
    "'w server \<Rightarrow> string \<Rightarrow> api_options \<Rightarrow> browser \<Rightarrow> 'w \<Rightarrow> json option outcome \<times> browser \<times> 'w" where
  "apiClient net endpoint opts b w =
     (let (r1, w1) = net (request_config endpoint opts (initial_token b)) w
      in case r1 of
           Inl e \<Rightarrow> (Inl e, b, w1)
         | Inr response \<Rightarrow>
             if needs_refresh endpoint response then
               (case refreshAccessToken net b w1 of
                  (Inl e, b', w2) \<Rightarrow> (Inl e, b', w2)
                | (Inr freshToken, b', w2) \<Rightarrow>
                    (let (r2, w3) = net (request_config endpoint opts (Some freshToken)) w2
                     in case r2 of
                          Inl e \<Rightarrow> (Inl e, b', w3)
                        | Inr response2 \<Rightarrow> (finish response2, b', w3)))
             else (finish response, b, w1))"

subsection \<open>Lemmas\<close>

lemma api_error_object [simp]:
  "api_error (JObj kvs) c m =
     ErrorObj (bracketed (text_or (chain (map_of kvs ''error'') ''code'') c)
                         (text_or (chain (map_of kvs ''error'') ''message'') m))"
  by (simp add: api_error_def)

lemma settle_refresh_other_area:
  "settle_refresh a b reply = (r, b') \<Longrightarrow> a' \<noteq> a \<Longrightarrow> getItem b' a' k = getItem b a' k"
  by (auto simp: settle_refresh_def ws.get_store_tokens ws.get_drop_tokens
      split: sum.splits refreshed.splits)

lemma settle_refresh_Inr:
  assumes "settle_refresh a b reply = (Inr t, b')"
  obtains r where "getItem b' a ''access_token'' = Some t"
    and "getItem b' a ''refresh_token'' = Some r"
    and "\<And>k. k \<notin> {''access_token'', ''refresh_token''} \<Longrightarrow> getItem b' a k = getItem b a k"
  using assms that
  by (auto simp: settle_refresh_def ws.get_store_tokens split: sum.splits refreshed.splits)

text \<open>
  A run of the client is observed on a server that records the requests it has seen: the
  state is the log, and the reply is a function of the log and the request.
\<close>

definition logging :: "(http_request list \<Rightarrow> http_request \<Rightarrow> http_response outcome) \<Rightarrow>
    http_request list server" where
  "logging reply rq seen = (reply seen rq, seen @ [rq])"

lemma logging_simps [simp]:
  "logging reply rq seen = (reply seen rq, seen @ [rq])"
  by (simp add: logging_def)

lemma url_request_config [simp]: "url (request_config e opts t) = API_BASE_URL @ e"
  by (simp add: request_config_def)

lemma url_refresh_request [simp]: "url (refresh_request t) = API_BASE_URL @ ''/auth/refresh''"
  by (simp add: refresh_request_def)

lemma refreshAccessToken_log:
  assumes "refreshAccessToken (logging reply) b seen = (r, b', seen')"
  shows "(seen' = seen \<and> b' = b \<and> r = Inl expired) \<or>
         (\<exists>a rt. getTokenStorage b = Some a \<and> getItem b a ''refresh_token'' = Some rt \<and>
                 seen' = seen @ [refresh_request rt])"
  using assms
  by (auto simp: refreshAccessToken_def Let_def split: option.splits if_splits prod.splits)

lemma refreshAccessToken_cases:
  assumes "refreshAccessToken net b w = (Inr t, b', w')"
  obtains a rt reply where "getTokenStorage b = Some a"
    and "getItem b a ''refresh_token'' = Some rt" and "rt \<noteq> []"
    and "net (refresh_request rt) w = (reply, w')"
    and "settle_refresh a b reply = (Inr t, b')"
  using assms that
  by (auto simp: refreshAccessToken_def Let_def split: option.splits if_splits prod.splits)

section \<open>Properties\<close>

text \<open>
  C1. One call of \<open>apiClient\<close> never loops: whatever the server answers, it sends the
  request once, possibly one refresh request carrying the stored refresh token, and possibly
  the request a second time with a fresh token.  Below \<open>/auth/\<close> it sends the request only
  and leaves the stored tokens alone, so a rejected login or refresh triggers no refresh.
\<close>

theorem apiClient_requests_bounded:
  assumes "apiClient (logging reply) endpoint opts b [] = (r, b', seen)"
  defines "q \<equiv> request_config endpoint opts (initial_token b)"
  shows "(seen = [q] \<and> b' = b) \<or>
         (\<not> starts_with endpoint ''/auth/'' \<and>
          (\<exists>a rt. getTokenStorage b = Some a \<and> getItem b a ''refresh_token'' = Some rt \<and>
             (seen = [q, refresh_request rt] \<or>
              (\<exists>t. seen = [q, refresh_request rt, request_config endpoint opts (Some t)]))))"
proof (cases "reply [] q")
  case (Inl e)
  with assms show ?thesis by (auto simp: apiClient_def)
next
  case (Inr resp)
  show ?thesis
  proof (cases "needs_refresh endpoint resp")
    case False
    with Inr assms show ?thesis by (auto simp: apiClient_def)
  next
    case True
    then have na: "\<not> starts_with endpoint ''/auth/''" by (simp add: needs_refresh_def)
    obtain r1 b1 w1 where ref: "refreshAccessToken (logging reply) b [q] = (r1, b1, w1)"
      by (metis prod_cases3)
    show ?thesis
    proof (cases r1)
      case (Inl e)
      with assms(1) Inr True ref have "b' = b1" "seen = w1" by (auto simp: apiClient_def q_def)
      with refreshAccessToken_log [OF ref] na show ?thesis by auto
    next
      case (Inr t)
      with assms(1) \<open>reply [] q = Inr resp\<close> True ref
      have "seen = w1 @ [request_config endpoint opts (Some t)]"
        by (auto simp: apiClient_def q_def split: sum.splits)
      with refreshAccessToken_log [OF ref] na Inr show ?thesis by auto
    qed
  qed
qed

text \<open>
  C2. An expired access token is renewed transparently: when the first answer is 401 outside
  \<open>/auth/\<close>, a refresh token is stored and the server grants a new pair, the caller receives
  the answer to the repeated request, which carries the new access token; the new pair
  replaces the old one in the storage it came from and nothing else is touched.
\<close>

theorem apiClient_renews_session:
  assumes "net (request_config endpoint opts (initial_token b)) w = (Inr resp, w1)"
    and "needs_refresh endpoint resp"
    and "getTokenStorage b = Some a" and "getItem b a ''refresh_token'' = Some rt"
    and "net (refresh_request rt) w1 = (Inr grant, w2)"
    and "read_refresh grant = Fresh access refresh"
    and "net (request_config endpoint opts (Some access)) w2 = (Inr resp2, w3)"
  shows "\<exists>b'. apiClient net endpoint opts b w = (finish resp2, b', w3) \<and>
           getItem b' a ''access_token'' = Some access \<and>
           getItem b' a ''refresh_token'' = Some refresh \<and>
           (\<forall>a' k. a' \<noteq> a \<or> k \<notin> {''access_token'', ''refresh_token''} \<longrightarrow>
              getItem b' a' k = getItem b a' k)"
proof -
  have "rt \<noteq> []" using getTokenStorage_Some [OF assms(3)] assms(4) by simp
  with assms show ?thesis
    by (auto simp: apiClient_def refreshAccessToken_def settle_refresh_def ws.get_store_tokens)
qed

definition demo_browser :: browser where
  "demo_browser =
     \<lparr>localStorage = Map.empty,
      sessionStorage = [''access_token'' \<mapsto> ''old'', ''refresh_token'' \<mapsto> ''r1'']\<rparr>"

definition demo_grant :: http_response where
  "demo_grant = \<lparr>status = 200, payload = Inr (JObj [(''data'',
     JObj [(''access_token'', JStr ''new''), (''refresh_token'', JStr ''r2'')])])\<rparr>"

definition demo_reply :: "http_request list \<Rightarrow> http_request \<Rightarrow> http_response outcome" where
  "demo_reply seen rq =
     Inr (if seen = [] then \<lparr>status = 401, payload = Inr JNull\<rparr>
          else if length seen = 1 then demo_grant
          else \<lparr>status = 200, payload = Inr (JObj [(''data'', JNum 7)])\<rparr>)"

definition demo_opts :: api_options where
  "demo_opts = \<lparr>opt_data = None, opt_headers = Map.empty, opt_method = None, opt_body = None\<rparr>"

lemmas demo_defs = demo_browser_def demo_grant_def demo_reply_def demo_opts_def

lemma demo_run:
  "length (snd (snd (apiClient (logging demo_reply) ''/servers'' demo_opts demo_browser []))) = 3"
  "fst (apiClient (logging demo_reply) ''/servers'' demo_opts demo_browser []) = Inr (Some (JNum 7))"
  by (simp_all add: demo_defs apiClient_def refreshAccessToken_def settle_refresh_def finish_def
      needs_refresh_def getTokenStorage_def read_refresh_def ok_def starts_with_def)

theorem apiClient_requests_bounded_witness:
  "\<exists>b' seen t. apiClient (logging demo_reply) ''/servers'' demo_opts demo_browser [] =
        (Inr (Some (JNum 7)), b', seen) \<and>
      seen = [request_config ''/servers'' demo_opts (Some ''old''), refresh_request ''r1'',
              request_config ''/servers'' demo_opts (Some t)]"
proof -
  obtain r b' seen where
    run: "apiClient (logging demo_reply) ''/servers'' demo_opts demo_browser [] = (r, b', seen)"
    by (metis prod_cases3)
  have "length seen = 3" and "r = Inr (Some (JNum 7))" using demo_run by (simp_all add: run)
  moreover have "initial_token demo_browser = Some ''old''"
    and "getTokenStorage demo_browser = Some SessionStorage"
    by (simp_all add: demo_browser_def initial_token_def getTokenStorage_def)
  ultimately show ?thesis
    using apiClient_requests_bounded [OF run] run by (auto simp: demo_browser_def)
qed

theorem apiClient_renews_session_witness:
  "\<exists>b'. apiClient (logging demo_reply) ''/servers'' demo_opts demo_browser [] =
      (Inr (Some (JNum 7)), b',
       [request_config ''/servers'' demo_opts (Some ''old''), refresh_request ''r1'',
        request_config ''/servers'' demo_opts (Some ''new'')]) \<and>
      getItem b' SessionStorage ''access_token'' = Some ''new''"
proof -
  have tok: "initial_token demo_browser = Some ''old''"
    by (simp add: demo_browser_def initial_token_def)
  note run = apiClient_renews_session
    [of "logging demo_reply" "''/servers''" demo_opts demo_browser "[]"
        "\<lparr>status = 401, payload = Inr JNull\<rparr>" _ SessionStorage "''r1''" demo_grant _ "''new''" "''r2''"
        "\<lparr>status = 200, payload = Inr (JObj [(''data'', JNum 7)])\<rparr>"]
  have "finish \<lparr>status = 200, payload = Inr (JObj [(''data'', JNum 7)])\<rparr> = Inr (Some (JNum 7))"
    by (simp add: finish_def ok_def)
  moreover have "read_refresh demo_grant = Fresh ''new'' ''r2''"
    by (simp add: demo_grant_def read_refresh_def ok_def)
  moreover have "getTokenStorage demo_browser = Some SessionStorage"
    "getItem demo_browser SessionStorage ''refresh_token'' = Some ''r1''"
    by (simp_all add: demo_browser_def getTokenStorage_def)
  ultimately show ?thesis
    using run by (fastforce simp: tok demo_reply_def needs_refresh_def starts_with_def)
qed

end
