(* ===== verification/ApiFlight.thy ===== *)
theory ApiFlight
  imports ApiClient
begin

text \<open>
  The concurrent side of \<open>frontend/src/lib/apiClient.ts\<close>: many calls of \<open>apiClient\<close> run at
  once on a page and share the module variable \<open>refreshPromise\<close>.  A step is one call, one
  answer or the settling of the refresh; the user may log in or out at any time.  The
  fields \<open>sent\<close>, \<open>issued\<close> and \<open>lost\<close> are history: the refresh tokens put on the wire, the
  ones the server handed out, and the ones whose answer never arrived in a readable form.
\<close>

datatype phase = Idle | Sent "string option" | Waiting | Again string | Finished | Failed

record sys =
  store :: browser
  refreshPromise :: "(area \<times> string) option"
  phase :: "nat \<Rightarrow> phase"
  sent :: "string list"
  issued :: "string list"
  lost :: "string list"

definition init_sys :: sys where
  "init_sys =
     \<lparr>store = \<lparr>localStorage = Map.empty, sessionStorage = Map.empty\<rparr>, refreshPromise = None,
      phase = (\<lambda>_. Idle), sent = [], issued = [], lost = []\<rparr>"

definition wake :: "phase \<Rightarrow> (nat \<Rightarrow> phase) \<Rightarrow> nat \<Rightarrow> phase" where
  \<comment> \<open>the promise settles: every call awaiting it continues\<close>
  "wake p ph = (\<lambda>i. if ph i = Waiting then p else ph i)"

definition clear_tokens :: "browser \<Rightarrow> browser" where
  \<comment> \<open>\<open>logout\<close> of the dashboard layout\<close>
  "clear_tokens b =
     fold (\<lambda>key b. removeItem (removeItem b LocalStorage key) SessionStorage key)
       [''access_token'', ''refresh_token''] b"

lemma get_clear_tokens [simp]:
  "getItem (clear_tokens b) a k =
     (if k \<in> {''access_token'', ''refresh_token''} then None else getItem b a k)"
  by (cases a) (auto simp: clear_tokens_def ws.get_remove)

inductive api_step :: "sys \<Rightarrow> sys \<Rightarrow> bool" where
  call: "phase s i = Idle \<Longrightarrow>
    api_step s (s\<lparr>phase := (phase s)(i := Sent (initial_token (store s)))\<rparr>)"
| answered: "phase s i = Sent t \<or> phase s i = Again u \<Longrightarrow>
    api_step s (s\<lparr>phase := (phase s)(i := Finished)\<rparr>)"
| failed: "phase s i = Sent t \<or> phase s i = Again u \<Longrightarrow>
    api_step s (s\<lparr>phase := (phase s)(i := Failed)\<rparr>)"
| unauthorized_start: "phase s i = Sent t \<Longrightarrow> refreshPromise s = None \<Longrightarrow>
    getTokenStorage (store s) = Some a \<Longrightarrow> getItem (store s) a ''refresh_token'' = Some rt \<Longrightarrow>
    api_step s (s\<lparr>phase := (phase s)(i := Waiting), refreshPromise := Some (a, rt),
                  sent := sent s @ [rt]\<rparr>)"
| unauthorized_expired: "phase s i = Sent t \<Longrightarrow> refreshPromise s = None \<Longrightarrow>
    getTokenStorage (store s) = None \<Longrightarrow>
    api_step s (s\<lparr>phase := (phase s)(i := Failed)\<rparr>)"
| unauthorized_join: "phase s i = Sent t \<Longrightarrow> refreshPromise s = Some f \<Longrightarrow>
    api_step s (s\<lparr>phase := (phase s)(i := Waiting)\<rparr>)"
| settled_granted: "refreshPromise s = Some (a, rt) \<Longrightarrow>
    read_refresh r = Fresh access refresh \<Longrightarrow>
    settle_refresh a (store s) (Inr r) = (Inr access, b) \<Longrightarrow>
    api_step s (s\<lparr>store := b, refreshPromise := None, phase := wake (Again access) (phase s),
                  issued := issued s @ [refresh]\<rparr>)"
| settled_rejected: "refreshPromise s = Some (a, rt) \<Longrightarrow>
    read_refresh r = Rejected e \<Longrightarrow>
    settle_refresh a (store s) (Inr r) = (Inl e, b) \<Longrightarrow>
    api_step s (s\<lparr>store := b, refreshPromise := None, phase := wake Failed (phase s)\<rparr>)"
| settled_lost: "refreshPromise s = Some (a, rt) \<Longrightarrow>
    reply = Inl e \<or> (reply = Inr r \<and> read_refresh r = Broken e) \<Longrightarrow>
    settle_refresh a (store s) reply = (Inl e, b) \<Longrightarrow>
    api_step s (s\<lparr>store := b, refreshPromise := None, phase := wake Failed (phase s), lost := lost s @ [rt]\<rparr>)"
| login: "api_step s (s\<lparr>store := setItem (setItem (store s) a ''access_token'' x) a ''refresh_token'' y,
                        issued := issued s @ [y]\<rparr>)"
| logout: "api_step s (s\<lparr>store := clear_tokens (store s)\<rparr>)"

inductive reachable :: "sys \<Rightarrow> bool" where
  start: "reachable init_sys"
| step: "reachable s \<Longrightarrow> api_step s t \<Longrightarrow> reachable t"

section \<open>A refresh is in flight exactly while calls wait for it\<close>

definition waiting :: "(nat \<Rightarrow> phase) \<Rightarrow> bool" where
  "waiting ph \<longleftrightarrow> (\<exists>i. ph i = Waiting)"

definition flight_inv :: "sys \<Rightarrow> bool" where
  "flight_inv s \<longleftrightarrow> (waiting (phase s) \<longleftrightarrow> refreshPromise s \<noteq> None)"

lemma waiting_upd:
  "ph i \<noteq> Waiting \<Longrightarrow> waiting (ph(i := p)) \<longleftrightarrow> p = Waiting \<or> waiting ph"
  by (auto simp: waiting_def fun_upd_def)

lemma waiting_wake: "p \<noteq> Waiting \<Longrightarrow> \<not> waiting (wake p ph)"
  by (simp add: waiting_def wake_def)

lemma api_step_flight_inv: "api_step s t \<Longrightarrow> flight_inv s \<Longrightarrow> flight_inv t"
  by (induction rule: api_step.induct) (auto simp: flight_inv_def waiting_upd waiting_wake)

lemma reachable_flight_inv: "reachable s \<Longrightarrow> flight_inv s"
proof (induction rule: reachable.induct)
  case start
  then show ?case by (simp add: flight_inv_def waiting_def init_sys_def)
next
  case (step s t)
  then show ?case by (blast intro: api_step_flight_inv)
qed

section \<open>Refresh tokens are not replayed\<close>

definition stored :: "sys \<Rightarrow> area \<Rightarrow> string option" where
  "stored s a = getItem (store s) a ''refresh_token''"

definition replay_ok ::
    "(area \<Rightarrow> string option) \<Rightarrow> (area \<times> string) option \<Rightarrow> string list \<Rightarrow> string list \<Rightarrow>
     string list \<Rightarrow> bool" where
  "replay_ok st fl snt iss lst \<longleftrightarrow>
     (\<forall>a t. st a = Some t \<longrightarrow> t \<in> set iss) \<and>
     (\<forall>a a' t. st a = Some t \<and> st a' = Some t \<longrightarrow> a = a') \<and>
     set snt \<subseteq> set iss \<and>
     (\<forall>a t. st a = Some t \<and> t \<in> set snt \<longrightarrow> t \<in> set lst \<or> fl = Some (a, t)) \<and>
     (\<forall>t. 1 < count_list snt t \<longrightarrow> t \<in> set lst)"

definition replay_inv :: "sys \<Rightarrow> bool" where
  "replay_inv s \<longleftrightarrow>
     replay_ok (stored s) (refreshPromise s) (sent s) (issued s) (lost s)"

lemma replay_ok_send:
  assumes "replay_ok st None snt iss lst" and "st a = Some rt"
  shows "replay_ok st (Some (a, rt)) (snt @ [rt]) iss lst"
proof -
  have "t \<in> set lst" if "1 < count_list (snt @ [rt]) t" for t
  proof (cases "t = rt")
    case True
    with that have "rt \<in> set snt" by (metis count_list_0_iff count_list_append
        count_list.simps(1) count_list.simps(2) less_numeral_extra(4) add_0 One_nat_def Suc_eq_plus1)
    with True assms show ?thesis by (auto simp: replay_ok_def)
  next
    case False
    with that assms show ?thesis by (auto simp: replay_ok_def)
  qed
  with assms show ?thesis unfolding replay_ok_def by auto
qed

lemma replay_ok_replace:
  assumes "replay_ok st fl snt iss lst" and "y \<notin> set iss"
    and "fl' = fl \<or> (\<exists>t. fl = Some (a, t))"
  shows "replay_ok (st(a := Some y)) fl' snt (iss @ [y]) lst"
  using assms unfolding replay_ok_def by (auto split: if_splits)

lemma replay_ok_clear:
  assumes "replay_ok st fl snt iss lst" and "fl' = fl \<or> (\<exists>t. fl = Some (a, t))"
    and "\<And>a'. st' a' = None \<or> (a' \<noteq> a \<and> st' a' = st a') \<or> (fl' = fl \<and> st' a' = st a')"
  shows "replay_ok st' fl' snt iss lst"
proof -
  have sub: "st' a' = Some t \<Longrightarrow> st a' = Some t" for a' t
    using assms(3) [of a'] by auto
  have "t \<in> set lst \<or> fl' = Some (a', t)" if "st' a' = Some t" "t \<in> set snt" for a' t
    using assms(1,2) assms(3) [of a'] that sub [OF that(1)] by (auto simp: replay_ok_def)
  with sub assms(1) show ?thesis unfolding replay_ok_def by blast
qed

lemma replay_ok_lost:
  assumes "replay_ok st (Some (a, rt)) snt iss lst"
  shows "replay_ok st None snt iss (lst @ [rt])"
  using assms unfolding replay_ok_def by auto

lemma settle_refresh_stored:
  assumes "settle_refresh a (store s) reply = (x, b)"
  shows "reply = Inr r \<Longrightarrow> read_refresh r = Fresh access refresh \<Longrightarrow>
           (\<lambda>a'. getItem b a' ''refresh_token'') = (stored s)(a := Some refresh)"
    and "reply = Inr r \<Longrightarrow> read_refresh r = Rejected e \<Longrightarrow>
           (\<lambda>a'. getItem b a' ''refresh_token'') = (stored s)(a := None)"
    and "reply = Inl e' \<or> (reply = Inr r \<and> read_refresh r = Broken e') \<Longrightarrow> b = store s"
  using assms
  by (auto simp: settle_refresh_def stored_def fun_eq_iff ws.get_store_tokens ws.get_drop_tokens)

lemma stored_update: "stored (s\<lparr>store := b\<rparr>) = (\<lambda>a. getItem b a ''refresh_token'')"
  by (simp add: stored_def fun_eq_iff)

lemma stored_irrelevant [simp]:
  "stored (s\<lparr>phase := p\<rparr>) = stored s" "stored (s\<lparr>refreshPromise := f\<rparr>) = stored s"
  "stored (s\<lparr>sent := l\<rparr>) = stored s" "stored (s\<lparr>issued := l\<rparr>) = stored s"
  "stored (s\<lparr>lost := l\<rparr>) = stored s"
  by (simp_all add: stored_def fun_eq_iff)

lemma api_step_replay_inv:
  "api_step s t \<Longrightarrow> replay_inv s \<Longrightarrow> distinct (issued t) \<Longrightarrow> replay_inv t"
proof (induction rule: api_step.induct)
  case (unauthorized_start s i t a rt)
  then show ?case by (simp add: replay_inv_def replay_ok_send stored_def)
next
  case (settled_granted s a rt r access refresh b)
  have "stored (s\<lparr>store := b\<rparr>) = (stored s)(a := Some refresh)"
    unfolding stored_update
    by (rule settle_refresh_stored(1) [OF settled_granted(3) refl settled_granted(2)])
  moreover have "replay_ok ((stored s)(a := Some refresh)) None (sent s) (issued s @ [refresh]) (lost s)"
    using settled_granted by (intro replay_ok_replace) (auto simp: replay_inv_def)
  ultimately show ?case by (simp add: replay_inv_def)
next
  case (settled_rejected s a rt r e b)
  have "stored (s\<lparr>store := b\<rparr>) = (stored s)(a := None)"
    unfolding stored_update
    by (rule settle_refresh_stored(2) [OF settled_rejected(3) refl settled_rejected(2)])
  moreover have "replay_ok ((stored s)(a := None)) None (sent s) (issued s) (lost s)"
    using settled_rejected
    by (intro replay_ok_clear [of "stored s" "refreshPromise s" _ _ _ None a])
      (auto simp: replay_inv_def)
  ultimately show ?case by (simp add: replay_inv_def)
next
  case (settled_lost s a rt reply e r b)
  have "b = store s"
    using settle_refresh_stored(3) [OF settled_lost(3), of e r] settled_lost(2) by blast
  moreover have "replay_ok (stored s) None (sent s) (issued s) (lost s @ [rt])"
    using settled_lost by (intro replay_ok_lost) (simp add: replay_inv_def)
  ultimately show ?case by (simp add: replay_inv_def stored_update flip: stored_def)
next
  case (login s y a x)
  have "(\<lambda>a'. getItem (setItem (setItem (store s) a ''access_token'' x) a ''refresh_token'' y) a'
           ''refresh_token'') = (stored s)(a := Some y)"
    by (auto simp: stored_def fun_eq_iff ws.get_store_tokens)
  with login show ?case
    by (auto simp: replay_inv_def stored_update intro: replay_ok_replace)
next
  case (logout s)
  then show ?case
    by (auto simp: replay_inv_def stored_update intro!: replay_ok_clear [of "stored s" "refreshPromise s"])
qed (simp_all add: replay_inv_def)

lemma api_step_issued: "api_step s t \<Longrightarrow> \<exists>ys. issued t = issued s @ ys"
  by (induction rule: api_step.induct) auto

lemma reachable_replay_inv: "reachable s \<Longrightarrow> distinct (issued s) \<Longrightarrow> replay_inv s"
proof (induction rule: reachable.induct)
  case start
  have "getItem (store init_sys) a k = None" for a k by (cases a) (simp_all add: init_sys_def)
  then show ?case
    by (simp add: replay_inv_def replay_ok_def stored_def) (simp add: init_sys_def)
next
  case (step s t)
  from api_step_issued [OF step.hyps(2)] step.prems have "distinct (issued s)" by auto
  with step show ?case by (blast intro: api_step_replay_inv)
qed

section \<open>Properties\<close>

text \<open>
  C3. Concurrent calls share one refresh: in every reachable state calls wait for a refresh
  exactly when one is in flight, there is never more than one, and when it settles every
  waiting call continues (with the new token or with the failure), so none waits forever.
\<close>

theorem refresh_is_shared:
  assumes "reachable s"
  shows "((\<exists>i. phase s i = Waiting) \<longleftrightarrow> refreshPromise s \<noteq> None) \<and>
         (\<forall>t. api_step s t \<and> refreshPromise s \<noteq> None \<longrightarrow>
            sent t = sent s \<and> (refreshPromise t = None \<longrightarrow> (\<forall>i. phase t i \<noteq> Waiting)))"
proof -
  have wait: "(\<exists>i. phase u i = Waiting) \<longleftrightarrow> refreshPromise u \<noteq> None" if "reachable u" for u
    using reachable_flight_inv [OF that] by (simp add: flight_inv_def waiting_def)
  have "sent t = sent s" if "api_step s t" "refreshPromise s \<noteq> None" for t
    using that by (cases rule: api_step.cases) auto
  then show ?thesis using wait wait [OF reachable.step [OF assms]] assms by blast
qed

text \<open>
  C4. Refresh tokens are single use: if the server never hands out the same refresh token
  twice, then in every reachable state -- whatever the interleaving of calls, answers, logins
  and logouts -- a token sent more than once is one whose answer was lost.
\<close>

theorem refresh_token_not_replayed:
  assumes "reachable s" and "distinct (issued s)" and "1 < count_list (sent s) t"
  shows "t \<in> set (lost s)"
  using reachable_replay_inv [OF assms(1,2)] assms(3) by (simp add: replay_inv_def replay_ok_def)

text \<open>A run: a login, a call, its refresh lost on the wire, a second call that refreshes again.\<close>

definition demo_store :: browser where
  "demo_store = \<lparr>localStorage = [''access_token'' \<mapsto> ''x'', ''refresh_token'' \<mapsto> ''y''],
                 sessionStorage = Map.empty\<rparr>"

definition demo_sys :: "(nat \<Rightarrow> phase) \<Rightarrow> (area \<times> string) option \<Rightarrow> string list \<Rightarrow> string list \<Rightarrow> sys" where
  "demo_sys ph fl snt lst =
     \<lparr>store = demo_store, refreshPromise = fl, phase = ph, sent = snt, issued = [''y''], lost = lst\<rparr>"

lemma demo_login_reachable: "reachable (demo_sys (\<lambda>_. Idle) None [] [])"
proof -
  have "api_step init_sys (demo_sys (\<lambda>_. Idle) None [] [])"
    using api_step.login [where s = init_sys and a = LocalStorage and x = "''x''" and y = "''y''"]
    by (simp add: demo_sys_def demo_store_def init_sys_def)
  then show ?thesis by (rule reachable.step [OF reachable.start])
qed

lemma demo_send:
  assumes r: "reachable (demo_sys ph None l m)" and "ph i = Idle"
  shows "reachable (demo_sys (ph(i := Waiting)) (Some (LocalStorage, ''y'')) (l @ [''y'']) m)"
proof -
  have "api_step (demo_sys ph None l m) (demo_sys (ph(i := Sent (Some ''x''))) None l m)"
    using api_step.call [of "demo_sys ph None l m" i] assms(2)
    by (simp add: demo_sys_def demo_store_def initial_token_def)
  then have r1: "reachable (demo_sys (ph(i := Sent (Some ''x''))) None l m)"
    by (rule reachable.step [OF r])
  have "api_step (demo_sys (ph(i := Sent (Some ''x''))) None l m)
          (demo_sys (ph(i := Waiting)) (Some (LocalStorage, ''y'')) (l @ [''y'']) m)"
    using api_step.unauthorized_start
      [of "demo_sys (ph(i := Sent (Some ''x''))) None l m" i "Some ''x''" LocalStorage "''y''"]
    by (simp add: demo_sys_def demo_store_def getTokenStorage_def)
  then show ?thesis by (rule reachable.step [OF r1])
qed

lemma demo_lose:
  assumes r: "reachable (demo_sys ph (Some (LocalStorage, ''y'')) l m)"
  shows "reachable (demo_sys (wake Failed ph) None l (m @ [''y'']))"
proof -
  have "api_step (demo_sys ph (Some (LocalStorage, ''y'')) l m)
          (demo_sys (wake Failed ph) None l (m @ [''y'']))"
    using api_step.settled_lost [of "demo_sys ph (Some (LocalStorage, ''y'')) l m" LocalStorage
        "''y''" "Inl NonError" NonError _ demo_store]
    by (simp add: demo_sys_def settle_refresh_def)
  then show ?thesis by (rule reachable.step [OF r])
qed

definition demo_phases :: "nat \<Rightarrow> phase" where
  "demo_phases = wake Failed ((\<lambda>_. Idle)(0 := Waiting))"

lemma demo_replayed:
  "reachable (demo_sys (demo_phases(1 := Waiting)) (Some (LocalStorage, ''y'')) [''y'', ''y''] [''y''])"
proof -
  have "reachable (demo_sys demo_phases None [''y''] [''y''])"
    using demo_lose [OF demo_send [OF demo_login_reachable, of 0]] by (simp add: demo_phases_def)
  from demo_send [OF this, of 1] show ?thesis by (simp add: demo_phases_def wake_def)
qed

theorem refresh_is_shared_witness:
  "\<exists>s. reachable s \<and> refreshPromise s = Some (LocalStorage, ''y'') \<and> (\<exists>i. phase s i = Waiting)"
  using refresh_is_shared [OF demo_replayed] demo_replayed
  by (intro exI [of _ "demo_sys (demo_phases(1 := Waiting)) (Some (LocalStorage, ''y'')) [''y'', ''y''] [''y'']"])
    (simp add: demo_sys_def)

theorem refresh_token_not_replayed_witness:
  "\<exists>s. reachable s \<and> count_list (sent s) ''y'' = 2 \<and> ''y'' \<in> set (lost s)"
  using refresh_token_not_replayed [OF demo_replayed, of "''y''"] demo_replayed
  by (intro exI [of _ "demo_sys (demo_phases(1 := Waiting)) (Some (LocalStorage, ''y'')) [''y'', ''y''] [''y'']"])
    (simp add: demo_sys_def)

end
