(* ===== verification/AlertTypes.thy ===== *)
theory AlertTypes
  imports JsJson
begin

text \<open>
  The Alert Center, \<open>frontend/src/app/dashboard/alerts/page.tsx\<close>: the entities it shows, the
  React state of the page grouped by concern (the fields carry the names of the
  \<open>useState\<close> variables), and the helpers all its handlers share.  Fields the page never
  reads are left out of the entities.
\<close>

section \<open>Entities\<close>

record network_target =
  nt_id :: string
  nt_agent_id :: string
  nt_name :: string
  nt_host :: string
  nt_tag :: string
  nt_probe_method :: string

record rule_channel =
  rc_id :: string
  rc_name :: string

record alert_server =
  as_id :: string
  as_name :: string
  as_status :: string
  as_ip_address :: "string option"
  as_hostname :: "string option"

record alert_rule =
  ar_id :: string
  ar_name :: string
  ar_metric :: string
  ar_operator :: string
  ar_threshold :: rat
  ar_duration_minutes :: rat
  ar_enabled :: bool
  ar_server_id :: "string option"
  ar_server_name :: "string option"
  ar_channel_ids :: "string list"
  ar_channels :: "rule_channel list"
  ar_repeat_interval_minutes :: "rat option"
  ar_target_name :: "string option"

record alert_channel =
  ac_id :: string
  ac_name :: string
  ac_type :: string
  ac_config :: json
  ac_enabled :: bool
  ac_usage_count :: nat

record alert_website =
  aw_id :: string
  aw_name :: string
  aw_url :: string
  aw_status :: string

record incident_metadata =
  md_failed_at :: "string option"
  md_recovered_at :: "string option"
  md_downtime_duration :: "string option"
  md_rule_name :: "string option"
  md_server_name :: "string option"

record incident =
  in_id :: string
  in_kind :: string
  in_severity :: string
  in_title :: string
  in_message :: string
  in_server_name :: "string option"
  in_rule_name :: "string option"
  in_metadata :: "incident_metadata option"
  in_read_at :: "string option"
  in_created_at :: string

datatype alert_tab = TabRules | TabCreate | TabChannels | TabIncidents

datatype alert_category =
  CatStatus | CatContainer | CatService | CatMetric | CatWebsite | CatNetwork

section \<open>State of the page\<close>

record alert_data =
  rules :: "alert_rule list"
  channels :: "alert_channel list"
  servers :: "alert_server list"
  websites :: "alert_website list"
  incidents :: "incident list"
  networkTargets :: "network_target list"
  unreadIncidentsCount :: int

record alert_ui =
  activeTab :: alert_tab
  loading :: bool
  refreshing :: bool
  loadingIncidents :: bool
  savingRule :: bool
  savingChannel :: bool
  testingNewChannel :: bool
  testingChannelId :: "string option"
  testingRuleId :: "string option"
  errorMessage :: string
  successMessage :: string
  deleteRuleTarget :: "alert_rule option"
  deleteChannelTarget :: "alert_channel option"
  deletingRule :: bool
  deletingChannel :: bool
  userRole :: string

record rule_edit =
  editingRule :: "alert_rule option"
  editName :: string
  editMetric :: string
  editOperator :: string
  editThreshold :: jsnum
  editDuration :: jsnum
  editRepeat :: jsnum
  editServerId :: string
  editTargetName :: string
  editChannelIds :: "string list"
  editServerSearchQuery :: string
  editWebsiteSearchQuery :: string
  savingEdit :: bool

datatype rule_status_filter = StatusAll | StatusActive | StatusDisabled
datatype incident_filter = IncidentAll | IncidentUnread | IncidentRead

record rule_filters =
  ruleCategoryFilter :: "alert_category option" \<comment> \<open>None is 'all'\<close>
  ruleStatusFilter :: rule_status_filter
  ruleSearchQuery :: string
  incidentFilter :: incident_filter

record rule_form =
  selectedCategory :: alert_category
  ruleName :: string
  ruleMetric :: string
  ruleTargetName :: string
  ruleRepeatInterval :: string
  ruleOperator :: string
  ruleThreshold :: string
  ruleDuration :: string
  selectedServerIds :: "string list"
  scopeSearchQuery :: string
  selectedWebsiteIds :: "string list"
  websiteSearchQuery :: string
  selectedChannelIds :: "string list"
  showCustomDuration :: bool

record channel_form =
  channelName :: string
  channelType :: string
  channelToken :: string
  channelChatId :: string
  channelWebhook :: string
  channelSMTPHost :: string
  channelSMTPPort :: string
  channelSMTPUsername :: string
  channelSMTPPassword :: string
  channelEmailFrom :: string
  channelEmailTo :: string
  channelUseTLS :: bool

record channel_edit =
  editingChannel :: "alert_channel option"
  editChannel :: channel_form \<comment> \<open>the \<open>editChannelX\<close> twins of the form's fields\<close>
  savingEditChannel :: bool
  testingEditChannel :: bool

record alerts =
  data :: alert_data
  ui :: alert_ui
  form :: rule_form
  edit :: rule_edit
  filters :: rule_filters
  cform :: channel_form
  cedit :: channel_edit

definition init_channel_form :: channel_form where
  "init_channel_form =
     \<lparr>channelName = [], channelType = ''telegram'', channelToken = [], channelChatId = [],
      channelWebhook = [], channelSMTPHost = [], channelSMTPPort = ''587'',
      channelSMTPUsername = [], channelSMTPPassword = [], channelEmailFrom = [],
      channelEmailTo = [], channelUseTLS = False\<rparr>"

definition init_rule_form :: rule_form where
  "init_rule_form =
     \<lparr>selectedCategory = CatStatus, ruleName = ''Server Offline Alert'', ruleMetric = ''status'',
      ruleTargetName = [], ruleRepeatInterval = ''0'', ruleOperator = ''>'',
      ruleThreshold = ''90'', ruleDuration = ''1'', selectedServerIds = [],
      scopeSearchQuery = [], selectedWebsiteIds = [], websiteSearchQuery = [],
      selectedChannelIds = [], showCustomDuration = False\<rparr>"

definition init_alerts :: "string \<Rightarrow> alerts" where
  \<comment> \<open>the initial values of the \<open>useState\<close> calls; the role comes from \<open>getUserRole()\<close>\<close>
  "init_alerts role =
     \<lparr>data = \<lparr>rules = [], channels = [], servers = [], websites = [], incidents = [],
              networkTargets = [], unreadIncidentsCount = 0\<rparr>,
      ui = \<lparr>activeTab = TabRules, loading = True, refreshing = False, loadingIncidents = False,
            savingRule = False, savingChannel = False, testingNewChannel = False,
            testingChannelId = None, testingRuleId = None, errorMessage = [],
            successMessage = [], deleteRuleTarget = None, deleteChannelTarget = None,
            deletingRule = False, deletingChannel = False, userRole = role\<rparr>,
      form = init_rule_form,
      edit = \<lparr>editingRule = None, editName = [], editMetric = ''cpu'', editOperator = ''>'',
              editThreshold = Fin 80, editDuration = Fin 5, editRepeat = Fin 60,
              editServerId = [], editTargetName = [], editChannelIds = [],
              editServerSearchQuery = [], editWebsiteSearchQuery = [], savingEdit = False\<rparr>,
      filters = \<lparr>ruleCategoryFilter = None, ruleStatusFilter = StatusAll,
                 ruleSearchQuery = [], incidentFilter = IncidentAll\<rparr>,
      cform = init_channel_form,
      cedit = \<lparr>editingChannel = None, editChannel = init_channel_form,
               savingEditChannel = False, testingEditChannel = False\<rparr>\<rparr>"

section \<open>Shared helpers\<close>

definition set_error :: "string \<Rightarrow> alerts \<Rightarrow> alerts" where
  "set_error m s = ui_update (\<lambda>u. u\<lparr>errorMessage := m\<rparr>) s"

definition set_success :: "string \<Rightarrow> alerts \<Rightarrow> alerts" where
  "set_success m s = ui_update (\<lambda>u. u\<lparr>successMessage := m\<rparr>) s"

definition clear_messages :: "alerts \<Rightarrow> alerts" where
  \<comment> \<open>\<open>setErrorMessage(''); setSuccessMessage('');\<close>\<close>
  "clear_messages s = set_success [] (set_error [] s)"

definition isViewer :: "alerts \<Rightarrow> bool" where
  "isViewer s \<longleftrightarrow> userRole (ui s) = ''viewer''"

definition getApiErrorMessage :: "thrown \<Rightarrow> string \<Rightarrow> string" where
  "getApiErrorMessage error fallback =
     (case error of
        ErrorObj m \<Rightarrow> if trim m \<noteq> [] then strip_code m else fallback
      | NonError \<Rightarrow> fallback)"

lemma message_fields [simp]:
  "data (set_error m s) = data s" "form (set_error m s) = form s" "edit (set_error m s) = edit s"
  "filters (set_error m s) = filters s" "cform (set_error m s) = cform s"
  "cedit (set_error m s) = cedit s"
  "data (set_success m s) = data s" "form (set_success m s) = form s"
  "edit (set_success m s) = edit s" "filters (set_success m s) = filters s"
  "cform (set_success m s) = cform s" "cedit (set_success m s) = cedit s"
  "errorMessage (ui (set_error m s)) = m" "successMessage (ui (set_success m s)) = m"
  "errorMessage (ui (set_success m s)) = errorMessage (ui s)"
  "successMessage (ui (set_error m s)) = successMessage (ui s)"
  by (simp_all add: set_error_def set_success_def)

lemma clear_messages_fields [simp]:
  "data (clear_messages s) = data s" "form (clear_messages s) = form s"
  "edit (clear_messages s) = edit s" "filters (clear_messages s) = filters s"
  "cform (clear_messages s) = cform s" "cedit (clear_messages s) = cedit s"
  "errorMessage (ui (clear_messages s)) = []" "successMessage (ui (clear_messages s)) = []"
  by (simp_all add: clear_messages_def)

lemma message_viewer [simp]:
  "isViewer (set_error m s) = isViewer s" "isViewer (set_success m s) = isViewer s"
  "isViewer (clear_messages s) = isViewer s"
  by (simp_all add: isViewer_def set_error_def set_success_def clear_messages_def)

section \<open>Interfaces of the entity lists\<close>

text \<open>
  The two ways the page merges an answer into an entry of a list: a new \<open>enabled\<close> flag of a
  rule and a read mark of an incident.
\<close>

definition merge_enabled :: "bool \<Rightarrow> alert_rule \<Rightarrow> alert_rule" where
  "merge_enabled b r = r\<lparr>ar_enabled := b\<rparr>"

definition mark_read :: "string \<Rightarrow> incident \<Rightarrow> incident" where
  "mark_read now item = item\<lparr>in_read_at := Some now\<rparr>"

interpretation rule_list: entity_merge ar_id merge_enabled
  by unfold_locales (simp add: merge_enabled_def)

interpretation incident_list: entity_merge in_id mark_read
  by unfold_locales (simp add: mark_read_def)

end
