(* ===== verification/AlertForm.thy ===== *)
theory AlertForm
  imports AlertTypes
begin

text \<open>
  The create-rule form of the Alert Center (\<open>alerts/page.tsx\<close>): the effects that initialise
  it, every control of the form as a function on its state, the derived lists and the code
  summary, and \<open>createRule\<close>, split at its \<open>await\<close> into the part before the request
  (\<open>createRule_begin\<close>) and the part after the answer (\<open>createRule_finish\<close>).
\<close>

section \<open>Effects\<close>

record url_params =
  paramTab :: "string option"
  paramCategory :: "string option"
  paramTarget :: "string option"
  paramServerId :: "string option"
  paramMetric :: "string option"

definition effect_servers :: "url_params \<Rightarrow> alerts \<Rightarrow> alerts" where
  "effect_servers p s =
     (if servers (data s) = [] then s
      else case paramServerId p of
             Some i \<Rightarrow>
               if i \<noteq> [] \<and> (\<exists>x \<in> set (servers (data s)). as_id x = i)
               then form_update (\<lambda>f. f\<lparr>selectedServerIds := [i]\<rparr>) s
               else form_update (\<lambda>f. f\<lparr>selectedServerIds :=
                      (if selectedServerIds f = [] then map as_id (servers (data s))
                       else selectedServerIds f)\<rparr>) s
           | None \<Rightarrow> form_update (\<lambda>f. f\<lparr>selectedServerIds :=
                      (if selectedServerIds f = [] then map as_id (servers (data s))
                       else selectedServerIds f)\<rparr>) s)"

definition effect_websites :: "url_params \<Rightarrow> alerts \<Rightarrow> alerts" where
  "effect_websites p s =
     (let ws = websites (data s);
          default = form_update (\<lambda>f. f\<lparr>selectedWebsiteIds :=
                      (if selectedWebsiteIds f = [] then map aw_id ws
                       else selectedWebsiteIds f)\<rparr>) s
      in if ws = [] then s
         else case paramTarget p of
                None \<Rightarrow> default
              | Some t \<Rightarrow>
                  if t = [] then default
                  else case find_by aw_name t ws of
                         Some found \<Rightarrow> form_update (\<lambda>f. f\<lparr>selectedWebsiteIds := [aw_id found]\<rparr>) s
                       | None \<Rightarrow> default)"

definition tab_of :: "string \<Rightarrow> alert_tab option" where
  "tab_of t =
     (if t = ''create'' then Some TabCreate else if t = ''rules'' then Some TabRules
      else if t = ''channels'' then Some TabChannels
      else if t = ''incidents'' then Some TabIncidents else None)"

definition category_of :: "string \<Rightarrow> alert_category option" where
  "category_of c =
     (if c = ''network'' then Some CatNetwork else if c = ''status'' then Some CatStatus
      else if c = ''metric'' then Some CatMetric else if c = ''container'' then Some CatContainer
      else if c = ''service'' then Some CatService
      else if c = ''website'' then Some CatWebsite else None)"

definition url_network :: "url_params \<Rightarrow> rule_form \<Rightarrow> rule_form" where
  \<comment> \<open>the \<open>network\<close> branch of the URL effect\<close>
  "url_network p f =
     (let met = (if paramMetric p = Some ''network_loss'' then ''network_loss'' else ''network_latency'');
          tgt = opt_or (paramTarget p) [];
          f1 = f\<lparr>ruleMetric := met, ruleTargetName := tgt\<rparr>;
          f2 = (if truthy (paramServerId p)
                then f1\<lparr>selectedServerIds := [the (paramServerId p)]\<rparr> else f1)
      in if tgt \<noteq> []
         then f2\<lparr>ruleName := ''Network '' @
                   (if met = ''network_loss'' then ''Packet Loss'' else ''Latency'') @ '': '' @ tgt\<rparr>
         else f2)"

definition url_website :: "url_params \<Rightarrow> alert_website list \<Rightarrow> rule_form \<Rightarrow> rule_form" where
  "url_website p ws f =
     (let f1 = f\<lparr>ruleMetric := (if paramMetric p = Some ''ssl'' then ''ssl'' else ''website'')\<rparr>
      in if truthy (paramTarget p) then
           (let tgt = the (paramTarget p); f2 = f1\<lparr>ruleTargetName := tgt\<rparr>
            in case find_by aw_name tgt ws of
                 Some found \<Rightarrow> f2\<lparr>selectedWebsiteIds := [aw_id found]\<rparr>
               | None \<Rightarrow> f2)
         else f1)"

definition effect_url :: "url_params \<Rightarrow> alerts \<Rightarrow> alerts" where
  "effect_url p s =
     (let s1 = (case Option.bind (paramTab p) tab_of of
                  Some t \<Rightarrow> ui_update (\<lambda>u. u\<lparr>activeTab := t\<rparr>) s
                | None \<Rightarrow> s)
      in case Option.bind (paramCategory p) category_of of
           None \<Rightarrow> s1
         | Some cat \<Rightarrow>
             form_update (\<lambda>f.
               (let f1 = f\<lparr>selectedCategory := cat\<rparr>
                in case cat of
                     CatNetwork \<Rightarrow> url_network p f1
                   | CatWebsite \<Rightarrow> url_website p (websites (data s)) f1
                   | _ \<Rightarrow> f1)) s1)"

section \<open>Choosing what to watch\<close>

definition select_category_form :: "alert_category \<Rightarrow> rule_form \<Rightarrow> rule_form" where
  "select_category_form cat f0 =
     (let f = f0\<lparr>selectedCategory := cat, showCustomDuration := False,
                 scopeSearchQuery := [], websiteSearchQuery := []\<rparr>
      in case cat of
           CatStatus \<Rightarrow>
             f\<lparr>ruleMetric := ''status'', ruleName := ''Server Offline Alert'',
               ruleDuration := ''1'', ruleTargetName := []\<rparr>
         | CatContainer \<Rightarrow>
             f\<lparr>ruleMetric := ''container'',
               ruleName := (if ruleTargetName f0 \<noteq> [] then ''Docker: '' @ ruleTargetName f0
                            else ''Docker Container Alert''),
               ruleDuration := ''1''\<rparr>
         | CatService \<Rightarrow>
             f\<lparr>ruleMetric := ''service'',
               ruleName := (if ruleTargetName f0 \<noteq> [] then ''Service: '' @ ruleTargetName f0
                            else ''Systemd Service Alert''),
               ruleDuration := ''1''\<rparr>
         | CatMetric \<Rightarrow>
             f\<lparr>ruleMetric := ''cpu'', ruleName := ''High CPU Usage (> 90%)'',
               ruleOperator := ''>'', ruleThreshold := ''90'', ruleDuration := ''1'',
               ruleTargetName := []\<rparr>
         | CatNetwork \<Rightarrow>
             f\<lparr>ruleMetric := ''network_latency'', ruleName := ''High Network Latency (> 100ms)'',
               ruleOperator := ''>'', ruleThreshold := ''100'', ruleDuration := ''1'',
               ruleTargetName := []\<rparr>
         | CatWebsite \<Rightarrow>
             f\<lparr>ruleMetric := ''website'', ruleName := ''Website Down Alert'',
               ruleOperator := ''=='', ruleThreshold := ''0'', ruleDuration := ''1'',
               ruleTargetName := []\<rparr>)"

definition handleSelectCategory :: "alert_category \<Rightarrow> alerts \<Rightarrow> alerts" where
  "handleSelectCategory cat s = form_update (select_category_form cat) (set_error [] s)"

definition pick_duration :: "string \<Rightarrow> rule_form \<Rightarrow> rule_form" where
  "pick_duration v f = f\<lparr>showCustomDuration := False, ruleDuration := v\<rparr>"

definition high_alert_name :: "string \<Rightarrow> string \<Rightarrow> string" where
  "high_alert_name metric threshold = ''High '' @ to_upper metric @ '' Alert (> '' @ threshold @ ''%)''"

definition pick_metric :: "string \<Rightarrow> rule_form \<Rightarrow> rule_form" where
  \<comment> \<open>the resource metric selector\<close>
  "pick_metric v f = f\<lparr>ruleMetric := v, ruleName := high_alert_name v (ruleThreshold f)\<rparr>"

definition pick_threshold :: "string \<Rightarrow> rule_form \<Rightarrow> rule_form" where
  \<comment> \<open>a preset button or the number field of the resource threshold\<close>
  "pick_threshold p f = f\<lparr>ruleThreshold := p, ruleName := high_alert_name (ruleMetric f) p\<rparr>"

definition pick_network_metric :: "string \<Rightarrow> rule_form \<Rightarrow> rule_form" where
  "pick_network_metric v f =
     (if v = ''network_latency'' then
        f\<lparr>ruleMetric := v, ruleThreshold := ''100'',
          ruleName := (if ruleTargetName f \<noteq> []
                       then ''Network Latency: '' @ ruleTargetName f @ '' (> 100ms)''
                       else ''High Network Latency (> 100ms)'')\<rparr>
      else
        f\<lparr>ruleMetric := v, ruleThreshold := ''10'',
          ruleName := (if ruleTargetName f \<noteq> []
                       then ''Packet Loss: '' @ ruleTargetName f @ '' (> 10%)''
                       else ''High Packet Loss (> 10%)'')\<rparr>)"

definition net_unit :: "rule_form \<Rightarrow> string" where
  "net_unit f = (if ruleMetric f = ''network_latency'' then ''ms'' else ''%'')"

definition net_mname :: "rule_form \<Rightarrow> string" where
  "net_mname f = (if ruleMetric f = ''network_latency'' then ''Latency'' else ''Packet Loss'')"

definition net_cond :: "rule_form \<Rightarrow> string \<Rightarrow> string" where
  "net_cond f threshold = '' ('' @ ruleOperator f @ '' '' @ threshold @ net_unit f @ '')''"

definition pick_network_target :: "string \<Rightarrow> rule_form \<Rightarrow> rule_form" where
  \<comment> \<open>the target selector: all targets, a tag group or one target\<close>
  "pick_network_target v f =
     (if v = ''__ALL__'' then
        f\<lparr>ruleTargetName := [],
          ruleName := ''Network '' @ net_mname f @ '' Alert'' @ net_cond f (ruleThreshold f)\<rparr>
      else if starts_with v ''tag:'' then
        (let tag = replace_first ''tag:'' v
         in f\<lparr>ruleTargetName := tag,
              ruleName := ''Network '' @ net_mname f @ '': Tag ['' @ tag @ '']'' @
                          net_cond f (ruleThreshold f)\<rparr>)
      else if starts_with v ''target:'' then
        (let targetName = replace_first ''target:'' v
         in f\<lparr>ruleTargetName := targetName,
              ruleName := ''Network '' @ net_mname f @ '': '' @ targetName @
                          net_cond f (ruleThreshold f)\<rparr>)
      else f)"

definition pick_network_threshold :: "string \<Rightarrow> rule_form \<Rightarrow> rule_form" where
  "pick_network_threshold p f =
     f\<lparr>ruleThreshold := p,
       ruleName := (if ruleTargetName f \<noteq> []
                    then ''Network '' @ net_mname f @ '': '' @ ruleTargetName f @ net_cond f p
                    else ''Network '' @ net_mname f @ '' Alert'' @ net_cond f p)\<rparr>"

definition type_container :: "string \<Rightarrow> rule_form \<Rightarrow> rule_form" where
  "type_container v f =
     f\<lparr>ruleTargetName := v,
       ruleName := (if v \<noteq> [] then ''Docker: '' @ v else ''Docker Container Alert'')\<rparr>"

definition type_service :: "string \<Rightarrow> rule_form \<Rightarrow> rule_form" where
  "type_service v f =
     f\<lparr>ruleTargetName := v,
       ruleName := (if v \<noteq> [] then ''Service: '' @ v else ''Systemd Service Alert'')\<rparr>"

record website_condition =
  wc_metric :: string
  wc_threshold :: string
  wc_defaultName :: string

definition website_conditions :: "rule_form \<Rightarrow> website_condition list" where
  \<comment> \<open>the three buttons of the website condition\<close>
  "website_conditions f =
     (let t = ruleTargetName f
      in [\<lparr>wc_metric = ''website'', wc_threshold = ''0'',
           wc_defaultName = (if t \<noteq> [] then ''Website Down: '' @ t else ''Website Down Alert'')\<rparr>,
          \<lparr>wc_metric = ''ssl'', wc_threshold = ''14'',
           wc_defaultName = (if t \<noteq> [] then ''SSL Expiration (<= 14d): '' @ t
                             else ''SSL Certificate Expiration Alert (<= 14 days)'')\<rparr>,
          \<lparr>wc_metric = ''ssl'', wc_threshold = ''30'',
           wc_defaultName = (if t \<noteq> [] then ''SSL Expiration (<= 30d): '' @ t
                             else ''SSL Certificate Expiration Alert (<= 30 days)'')\<rparr>])"

definition pick_website_condition :: "website_condition \<Rightarrow> rule_form \<Rightarrow> rule_form" where
  "pick_website_condition item f =
     f\<lparr>ruleMetric := wc_metric item, ruleThreshold := wc_threshold item,
       ruleName := wc_defaultName item\<rparr>"

section \<open>Scope and channels\<close>

definition toggleServer :: "string \<Rightarrow> alerts \<Rightarrow> alerts" where
  "toggleServer i s =
     form_update (\<lambda>f. f\<lparr>selectedServerIds := toggle i (selectedServerIds f)\<rparr>) s"

definition toggleAllServers :: "alerts \<Rightarrow> alerts" where
  "toggleAllServers s =
     form_update (\<lambda>f. f\<lparr>selectedServerIds :=
       toggle_all (map as_id (servers (data s))) (selectedServerIds (form s))\<rparr>) s"

definition toggleWebsite :: "string \<Rightarrow> alerts \<Rightarrow> alerts" where
  "toggleWebsite i s =
     form_update (\<lambda>f. f\<lparr>selectedWebsiteIds := toggle i (selectedWebsiteIds f)\<rparr>) s"

definition toggleAllWebsites :: "alerts \<Rightarrow> alerts" where
  "toggleAllWebsites s =
     form_update (\<lambda>f. f\<lparr>selectedWebsiteIds :=
       toggle_all (map aw_id (websites (data s))) (selectedWebsiteIds (form s))\<rparr>) s"

definition toggleChannel :: "string \<Rightarrow> alerts \<Rightarrow> alerts" where
  "toggleChannel i s =
     form_update (\<lambda>f. f\<lparr>selectedChannelIds := toggle i (selectedChannelIds f)\<rparr>) s"

definition enabledChannels :: "alerts \<Rightarrow> alert_channel list" where
  "enabledChannels s = filter ac_enabled (channels (data s))"

definition toggle_all_channels :: "alerts \<Rightarrow> alerts" where
  "toggle_all_channels s =
     form_update (\<lambda>f. f\<lparr>selectedChannelIds :=
       toggle_all (map ac_id (enabledChannels s)) (selectedChannelIds (form s))\<rparr>) s"

section \<open>Searching the scope\<close>

definition matches_opt :: "string option \<Rightarrow> string \<Rightarrow> bool" where
  \<comment> \<open>\<open>v && v.toLowerCase().includes(q)\<close>\<close>
  "matches_opt v q \<longleftrightarrow> truthy v \<and> str_includes (to_lower (the v)) q"

definition search_servers :: "string \<Rightarrow> alert_server list \<Rightarrow> alert_server list" where
  "search_servers query xs =
     (if trim query = [] then xs
      else let q = to_lower (trim query)
           in filter (\<lambda>x. str_includes (to_lower (as_name x)) q \<or>
                          matches_opt (as_hostname x) q \<or> matches_opt (as_ip_address x) q) xs)"

definition search_websites :: "string \<Rightarrow> alert_website list \<Rightarrow> alert_website list" where
  "search_websites query xs =
     (if trim query = [] then xs
      else let q = to_lower (trim query)
           in filter (\<lambda>x. str_includes (to_lower (aw_name x)) q \<or>
                          (aw_url x \<noteq> [] \<and> str_includes (to_lower (aw_url x)) q)) xs)"

definition filteredServers :: "alerts \<Rightarrow> alert_server list" where
  "filteredServers s = search_servers (scopeSearchQuery (form s)) (servers (data s))"

definition filteredWebsites :: "alerts \<Rightarrow> alert_website list" where
  "filteredWebsites s = search_websites (websiteSearchQuery (form s)) (websites (data s))"

definition filteredEditServers :: "alerts \<Rightarrow> alert_server list" where
  "filteredEditServers s = search_servers (editServerSearchQuery (edit s)) (servers (data s))"

definition filteredEditWebsites :: "alerts \<Rightarrow> alert_website list" where
  "filteredEditWebsites s = search_websites (editWebsiteSearchQuery (edit s)) (websites (data s))"

definition discoveredNetworkTags :: "alerts \<Rightarrow> string list" where
  "discoveredNetworkTags s = uniq (filter (\<lambda>t. t \<noteq> []) (map nt_tag (networkTargets (data s))))"

definition relevantNetworkTargets :: "alerts \<Rightarrow> network_target list" where
  "relevantNetworkTargets s =
     (let sel = selectedServerIds (form s)
      in if sel \<noteq> [] \<and> length sel < length (servers (data s))
         then filter (\<lambda>t. nt_agent_id t \<in> set sel) (networkTargets (data s))
         else networkTargets (data s))"

definition matchedNetworkTargets :: "alerts \<Rightarrow> network_target list" where
  "matchedNetworkTargets s =
     (if selectedCategory (form s) \<noteq> CatNetwork then []
      else let q = to_lower (trim (ruleTargetName (form s)))
           in filter (\<lambda>t. q = [] \<or> str_includes (to_lower (nt_name t)) q \<or>
                          str_includes (to_lower (nt_tag t)) q \<or>
                          str_includes (to_lower (nt_host t)) q)
                (relevantNetworkTargets s))"

end
