(* ===== verification/AlertCreate.thy ===== *)
theory AlertCreate
  imports AlertForm
begin

text \<open>
  Creating an alert rule (\<open>createRule\<close> of \<open>alerts/page.tsx\<close>), the code summary and the
  checklist shown under the form.  \<open>createRule_begin\<close> runs up to the request,
  \<open>createRule_finish c\<close> from the answer on, where \<open>c\<close> is the state the handler closed over.
\<close>

section \<open>The code summary\<close>

record code_summary =
  cs_cond :: string
  cs_scope :: string
  cs_notify :: string
  cs_repeat :: string

definition summary_cond :: "rule_form \<Rightarrow> string" where
  "summary_cond f =
     (case selectedCategory f of
        CatStatus \<Rightarrow>
          ''heartbeat_missing > '' @
          show_num (num_times (to_number (str_or (ruleDuration f) ''1'')) 60) @ ''s''
      | CatMetric \<Rightarrow>
          ruleMetric f @ '' '' @ ruleOperator f @ '' '' @ ruleThreshold f @ ''% ('' @ ruleDuration f @ ''m)''
      | CatNetwork \<Rightarrow>
          ''network_'' @ (if ruleMetric f = ''network_latency'' then ''latency'' else ''loss'') @
          (if ruleTargetName f \<noteq> [] then ''['' @ ruleTargetName f @ '']'' else ''all_targets'') @
          '' '' @ ruleOperator f @ '' '' @ ruleThreshold f @ net_unit f @ '' ('' @ ruleDuration f @ ''m)''
      | CatContainer \<Rightarrow> ''container['' @ str_or (ruleTargetName f) ''*'' @ ''] != running''
      | CatService \<Rightarrow> ''service['' @ str_or (ruleTargetName f) ''*'' @ ''] != active''
      | CatWebsite \<Rightarrow>
          if ruleMetric f = ''ssl'' then ''ssl_expires <= '' @ ruleThreshold f @ ''d''
          else ''http_status != 200'')"

definition scope_text :: "string \<Rightarrow> string \<Rightarrow> string list \<Rightarrow> nat \<Rightarrow> (string \<Rightarrow> string option) \<Rightarrow> string" where
  \<comment> \<open>the scope part, for sites and for agents\<close>
  "scope_text one many sel n_all name_of =
     (if sel = [] then ''no '' @ many @ '' selected''
      else if length sel = n_all
      then ''all ('' @ show_nat n_all @ '' '' @ one @ (if n_all = 1 then [] else ''s'') @ '')''
      else if length sel = 1
      then one @ '' ('' @ opt_or (name_of (hd sel)) (''1 '' @ one) @ '')''
      else show_nat (length sel) @ '' '' @ many)"

definition summary_scope :: "alerts \<Rightarrow> string" where
  "summary_scope s =
     (if selectedCategory (form s) = CatWebsite
      then scope_text ''site'' ''sites'' (selectedWebsiteIds (form s)) (length (websites (data s)))
             (\<lambda>i. map_option aw_name (find_by aw_id i (websites (data s))))
      else scope_text ''agent'' ''agents'' (selectedServerIds (form s)) (length (servers (data s)))
             (\<lambda>i. map_option as_name (find_by as_id i (servers (data s)))))"

definition summary_notify :: "alerts \<Rightarrow> string" where
  "summary_notify s =
     (if selectedChannelIds (form s) = [] then ''notify none''
      else ''notify '' @ join '', ''
             (map (\<lambda>c. to_lower (ac_name c))
                (filter (\<lambda>c. ac_id c \<in> set (selectedChannelIds (form s))) (channels (data s)))))"

definition summary_repeat :: "rule_form \<Rightarrow> string" where
  "summary_repeat f =
     (if ruleRepeatInterval f = ''15'' then ''repeat every 15m''
      else if ruleRepeatInterval f = ''30'' then ''repeat every 30m''
      else if ruleRepeatInterval f = ''60'' then ''repeat every 1h''
      else if ruleRepeatInterval f = ''120'' then ''repeat every 2h''
      else ''repeat once'')"

definition codeSummary :: "alerts \<Rightarrow> code_summary" where
  "codeSummary s =
     \<lparr>cs_cond = summary_cond (form s), cs_scope = summary_scope s,
      cs_notify = summary_notify s, cs_repeat = summary_repeat (form s)\<rparr>"

section \<open>The checklist that enables the submit button\<close>

definition isConditionValid :: "rule_form \<Rightarrow> bool" where
  "isConditionValid f \<longleftrightarrow>
     \<not> (selectedCategory f = CatContainer \<or> selectedCategory f = CatService) \<or>
     trim (ruleTargetName f) \<noteq> []"

definition isScopeValid :: "rule_form \<Rightarrow> bool" where
  "isScopeValid f \<longleftrightarrow>
     (if selectedCategory f = CatWebsite then selectedWebsiteIds f \<noteq> []
      else selectedServerIds f \<noteq> [])"

definition isFormValid :: "rule_form \<Rightarrow> bool" where
  "isFormValid f \<longleftrightarrow>
     trim (ruleName f) \<noteq> [] \<and> selectedChannelIds f \<noteq> [] \<and> isScopeValid f \<and> isConditionValid f"

section \<open>\<open>createRule\<close>\<close>

definition isSpecialMetric :: "string \<Rightarrow> bool" where
  "isSpecialMetric m \<longleftrightarrow>
     m = ''status'' \<or> m = ''container'' \<or> m = ''service'' \<or> m = ''website'' \<or> m = ''ssl''"

definition out_of_range :: "jsnum \<Rightarrow> rat \<Rightarrow> rat \<Rightarrow> bool" where
  \<comment> \<open>\<open>!Number.isFinite(x) || x < lo || x > hi\<close>\<close>
  "out_of_range x lo hi \<longleftrightarrow> \<not> is_finite x \<or> num_lt x (Fin lo) \<or> num_lt (Fin hi) x"

definition threshold_error :: "rule_form \<Rightarrow> string option" where
  "threshold_error f =
     (let threshold = parse_float (ruleThreshold f)
      in if isSpecialMetric (ruleMetric f) then None
         else if ruleMetric f = ''network_latency'' then
           (if out_of_range threshold 0 60000
            then Some ''Network latency threshold must be between 0 and 60,000 ms.'' else None)
         else (if out_of_range threshold 0 100
               then Some ''Threshold percentage must be between 0 and 100%.'' else None))"

definition createRule_check :: "rule_form \<Rightarrow> string option" where
  \<comment> \<open>the first failing check, as the message it sets\<close>
  "createRule_check f =
     (if selectedChannelIds f = []
      then Some ''Please select at least one notification channel (Discord, Telegram, or Email).''
      else if selectedCategory f = CatWebsite \<and> selectedWebsiteIds f = []
      then Some ''Please select at least one website in scope.''
      else if selectedCategory f \<noteq> CatWebsite \<and> selectedServerIds f = []
      then Some ''Please select at least one agent in scope.''
      else if (ruleMetric f = ''container'' \<or> ruleMetric f = ''service'') \<and> trim (ruleTargetName f) = []
      then Some (''Please enter the '' @
                 (if ruleMetric f = ''container'' then ''Container'' else ''Service'') @
                 '' name to monitor.'')
      else case threshold_error f of
             Some m \<Rightarrow> Some m
           | None \<Rightarrow>
               if out_of_range (parse_int (ruleDuration f)) 1 1440
               then Some ''Duration must be between 1 and 1440 minutes.'' else None)"

definition payloadServerId :: "alerts \<Rightarrow> string option" where
  "payloadServerId s =
     (if selectedCategory (form s) = CatWebsite then None
      else case selectedServerIds (form s) of [i] \<Rightarrow> Some i | _ \<Rightarrow> None)"

definition payloadServerIds :: "alerts \<Rightarrow> string list" where
  "payloadServerIds s =
     (let sel = selectedServerIds (form s);
          isFleetWide = (length sel = length (servers (data s)) \<or> sel = []);
          isSingleServer = (length sel = 1)
      in if selectedCategory (form s) = CatWebsite then []
         else if \<not> isFleetWide \<and> \<not> isSingleServer then sel else [])"

definition payloadTargetName :: "alerts \<Rightarrow> string option" where
  "payloadTargetName s =
     (let f = form s; typed = nonempty_or_null (trim (ruleTargetName f))
      in if selectedCategory f = CatWebsite then
           (case selectedWebsiteIds f of
              [i] \<Rightarrow> (case find_by aw_id i (websites (data s)) of
                        Some site \<Rightarrow> if aw_name site \<noteq> [] then Some (aw_name site) else typed
                      | None \<Rightarrow> typed)
            | _ \<Rightarrow> typed)
         else if ruleMetric f \<in> {''container'', ''service'', ''network_latency'', ''network_loss''}
         then typed
         else None)"

definition payload_operator :: "rule_form \<Rightarrow> string" where
  "payload_operator f = (if isSpecialMetric (ruleMetric f) then ''=='' else ruleOperator f)"

definition payload_threshold :: "rule_form \<Rightarrow> jsnum" where
  "payload_threshold f =
     (let threshold = parse_float (ruleThreshold f)
      in if ruleMetric f = ''ssl'' then num_or threshold (Fin 14)
         else if isSpecialMetric (ruleMetric f) then Fin 0 else threshold)"

definition createRule_body :: "alerts \<Rightarrow> json" where
  "createRule_body s =
     (let f = form s
      in JObj [(''name'', JStr (trim (ruleName f))),
               (''metric'', JStr (ruleMetric f)),
               (''operator'', JStr (payload_operator f)),
               (''threshold'', num_json (payload_threshold f)),
               (''duration_minutes'', num_json (parse_int (ruleDuration f))),
               (''server_id'', opt_str_json (payloadServerId s)),
               (''server_ids'', strs_json (payloadServerIds s)),
               (''channel_ids'', strs_json (selectedChannelIds f)),
               (''repeat_interval_minutes'', num_json (num_or (parse_int (ruleRepeatInterval f)) (Fin 0))),
               (''target_name'', opt_str_json (payloadTargetName s))])"

definition createRule_begin :: "alerts \<Rightarrow> alerts \<times> request option" where
  "createRule_begin s =
     (let s0 = clear_messages s
      in case createRule_check (form s) of
           Some m \<Rightarrow> (set_error m s0, None)
         | None \<Rightarrow> (ui_update (\<lambda>u. u\<lparr>savingRule := True\<rparr>) s0,
                    Some (request_send ''POST'' ''/alerts/rules'' (createRule_body s))))"

datatype created = Many "alert_rule list" | One alert_rule \<comment> \<open>\<open>Array.isArray(resData)\<close>\<close>

definition reset_form :: "alerts \<Rightarrow> rule_form \<Rightarrow> rule_form" where
  \<comment> \<open>the scope is reset to the lists the handler closed over\<close>
  "reset_form c f =
     f\<lparr>ruleName := ''Server Offline Alert'', selectedCategory := CatStatus,
       ruleMetric := ''status'', ruleTargetName := [], ruleRepeatInterval := ''0'',
       ruleThreshold := ''90'', ruleDuration := ''1'',
       selectedServerIds := map as_id (servers (data c)),
       selectedWebsiteIds := map aw_id (websites (data c)),
       scopeSearchQuery := [], websiteSearchQuery := [], selectedChannelIds := []\<rparr>"

definition createRule_finish :: "alerts \<Rightarrow> created outcome \<Rightarrow> alerts \<Rightarrow> alerts" where
  "createRule_finish c reply s =
     ui_update (\<lambda>u. u\<lparr>savingRule := False\<rparr>)
       (case reply of
          Inl error \<Rightarrow> set_error (getApiErrorMessage error ''Unable to create alert rule.'') s
        | Inr resData \<Rightarrow>
            (let s1 = (case resData of
                   Many rs \<Rightarrow>
                     set_success (show_nat (length rs) @ '' alert rules created successfully!'')
                       (data_update (\<lambda>d. d\<lparr>rules := rs @ rules d\<rparr>) s)
                 | One r \<Rightarrow>
                     set_success (''Alert rule \"'' @ str_or (ar_name r) (trim (ruleName (form c))) @
                                  ''\" created successfully!'')
                       (data_update (\<lambda>d. d\<lparr>rules := r # rules d\<rparr>) s))
             in form_update (reset_form c) (ui_update (\<lambda>u. u\<lparr>activeTab := TabRules\<rparr>) s1)))"

definition createRule :: "(request \<Rightarrow> created outcome) \<Rightarrow> alerts \<Rightarrow> alerts" where
  \<comment> \<open>the handler when nothing else happens while it awaits the answer\<close>
  "createRule api s =
     (case createRule_begin s of
        (s1, None) \<Rightarrow> s1
      | (s1, Some rq) \<Rightarrow> createRule_finish s (api rq) s1)"

end
