(* ===== verification/AlertCreateProps.thy ===== *)
theory AlertCreateProps
  imports AlertCreate
begin

text \<open>
  Correctness of the create-rule form: the form invariant that ties the metric to the chosen
  category, what the checks before the request guarantee about the body that is sent, and
  how the body's scope fields denote the user's selection.
\<close>

section \<open>The form invariant\<close>

definition category_metrics :: "alert_category \<Rightarrow> string list" where
  "category_metrics cat =
     (case cat of
        CatStatus \<Rightarrow> [''status''] | CatContainer \<Rightarrow> [''container''] | CatService \<Rightarrow> [''service'']
      | CatMetric \<Rightarrow> [''cpu'', ''ram'', ''disk''] | CatWebsite \<Rightarrow> [''website'', ''ssl'']
      | CatNetwork \<Rightarrow> [''network_latency'', ''network_loss''])"

definition form_ok :: "rule_form \<Rightarrow> bool" where
  "form_ok f \<longleftrightarrow> ruleMetric f \<in> set (category_metrics (selectedCategory f))"

text \<open>
  The events that write the form.  A control only exists while its category is selected;
  the options of a selector are the ones the page offers.
\<close>

inductive form_step :: "url_params \<Rightarrow> alerts \<Rightarrow> alerts \<Rightarrow> bool" for p where
  category: "form_step p s (handleSelectCategory cat s)"
| duration: "form_step p s (form_update (pick_duration v) s)"
| duration_typed: "form_step p s (form_update (\<lambda>f. f\<lparr>ruleDuration := v\<rparr>) s)"
| metric: "selectedCategory (form s) = CatMetric \<Longrightarrow> v \<in> {''cpu'', ''ram'', ''disk''} \<Longrightarrow>
    form_step p s (form_update (pick_metric v) s)"
| threshold: "selectedCategory (form s) = CatMetric \<Longrightarrow>
    form_step p s (form_update (pick_threshold v) s)"
| operator: "form_step p s (form_update (\<lambda>f. f\<lparr>ruleOperator := v\<rparr>) s)"
| network_metric: "selectedCategory (form s) = CatNetwork \<Longrightarrow>
    v \<in> {''network_latency'', ''network_loss''} \<Longrightarrow>
    form_step p s (form_update (pick_network_metric v) s)"
| network_target: "selectedCategory (form s) = CatNetwork \<Longrightarrow>
    form_step p s (form_update (pick_network_target v) s)"
| network_threshold: "selectedCategory (form s) = CatNetwork \<Longrightarrow>
    form_step p s (form_update (pick_network_threshold v) s)"
| container: "selectedCategory (form s) = CatContainer \<Longrightarrow>
    form_step p s (form_update (type_container v) s)"
| service: "selectedCategory (form s) = CatService \<Longrightarrow>
    form_step p s (form_update (type_service v) s)"
| website: "selectedCategory (form s) = CatWebsite \<Longrightarrow> item \<in> set (website_conditions (form s)) \<Longrightarrow>
    form_step p s (form_update (pick_website_condition item) s)"
| toggle_server: "form_step p s (toggleServer i s)"
| toggle_servers: "form_step p s (toggleAllServers s)"
| toggle_website: "form_step p s (toggleWebsite i s)"
| toggle_websites: "form_step p s (toggleAllWebsites s)"
| toggle_channel: "form_step p s (toggleChannel i s)"
| toggle_channels: "form_step p s (toggle_all_channels s)"
| name: "form_step p s (form_update (\<lambda>f. f\<lparr>ruleName := v\<rparr>) s)"
| repeat: "form_step p s (form_update (\<lambda>f. f\<lparr>ruleRepeatInterval := v\<rparr>) s)"
| servers_loaded: "form_step p s (effect_servers p (data_update (\<lambda>d. d\<lparr>servers := xs\<rparr>) s))"
| websites_loaded:
    "form_step p s (effect_url p (effect_websites p (data_update (\<lambda>d. d\<lparr>websites := ws\<rparr>) s)))"
| submit: "form_step p s (fst (createRule_begin s))"
| answered: "form_step p s (createRule_finish c reply s)"

inductive form_reachable :: "url_params \<Rightarrow> alerts \<Rightarrow> bool" for p where
  start: "form_reachable p (effect_url p (init_alerts role))"
| step: "form_reachable p s \<Longrightarrow> form_step p s t \<Longrightarrow> form_reachable p t"

definition linked_category_supported :: "url_params \<Rightarrow> bool" where
  \<comment> \<open>the URL names no category, or one whose metric the URL effect also sets\<close>
  "linked_category_supported p \<longleftrightarrow>
     Option.bind (paramCategory p) category_of \<in> {None, Some CatNetwork, Some CatWebsite}"

named_theorems form_fields \<open>what each event does to the category and the metric\<close>

lemma metric_fields [form_fields]:
  "ruleMetric (pick_duration v f) = ruleMetric f"
  "selectedCategory (pick_duration v f) = selectedCategory f"
  "ruleMetric (pick_metric v f) = v" "selectedCategory (pick_metric v f) = selectedCategory f"
  "ruleMetric (pick_threshold v f) = ruleMetric f"
  "selectedCategory (pick_threshold v f) = selectedCategory f"
  "ruleMetric (pick_network_metric v f) = v"
  "selectedCategory (pick_network_metric v f) = selectedCategory f"
  "ruleMetric (pick_network_target v f) = ruleMetric f"
  "selectedCategory (pick_network_target v f) = selectedCategory f"
  "ruleMetric (pick_network_threshold v f) = ruleMetric f"
  "selectedCategory (pick_network_threshold v f) = selectedCategory f"
  "ruleMetric (type_container v f) = ruleMetric f"
  "selectedCategory (type_container v f) = selectedCategory f"
  "ruleMetric (type_service v f) = ruleMetric f"
  "selectedCategory (type_service v f) = selectedCategory f"
  "ruleMetric (pick_website_condition item f) = wc_metric item"
  "selectedCategory (pick_website_condition item f) = selectedCategory f"
  by (simp_all add: pick_duration_def pick_metric_def pick_threshold_def pick_network_metric_def
      pick_network_target_def pick_network_threshold_def type_container_def type_service_def
      pick_website_condition_def Let_def)

lemma scope_fields [form_fields]:
  "ruleMetric (form (toggleServer i s)) = ruleMetric (form s)"
  "selectedCategory (form (toggleServer i s)) = selectedCategory (form s)"
  "ruleMetric (form (toggleAllServers s)) = ruleMetric (form s)"
  "selectedCategory (form (toggleAllServers s)) = selectedCategory (form s)"
  "ruleMetric (form (toggleWebsite i s)) = ruleMetric (form s)"
  "selectedCategory (form (toggleWebsite i s)) = selectedCategory (form s)"
  "ruleMetric (form (toggleAllWebsites s)) = ruleMetric (form s)"
  "selectedCategory (form (toggleAllWebsites s)) = selectedCategory (form s)"
  "ruleMetric (form (toggleChannel i s)) = ruleMetric (form s)"
  "selectedCategory (form (toggleChannel i s)) = selectedCategory (form s)"
  "ruleMetric (form (toggle_all_channels s)) = ruleMetric (form s)"
  "selectedCategory (form (toggle_all_channels s)) = selectedCategory (form s)"
  by (simp_all add: toggleServer_def toggleAllServers_def toggleWebsite_def
      toggleAllWebsites_def toggleChannel_def toggle_all_channels_def)

lemma effect_fields [form_fields]:
  "ruleMetric (form (effect_servers p s)) = ruleMetric (form s)"
  "selectedCategory (form (effect_servers p s)) = selectedCategory (form s)"
  "ruleMetric (form (effect_websites p s)) = ruleMetric (form s)"
  "selectedCategory (form (effect_websites p s)) = selectedCategory (form s)"
  by (simp_all add: effect_servers_def effect_websites_def Let_def split: option.split)

lemma form_ok_select_category: "form_ok (select_category_form cat f)"
  by (cases cat) (simp_all add: form_ok_def category_metrics_def select_category_form_def Let_def)

lemma form_ok_effect_url:
  assumes "linked_category_supported p" and "form_ok (form s)"
  shows "form_ok (form (effect_url p s))"
proof -
  have "form (case t of Some t \<Rightarrow> ui_update (\<lambda>u. u\<lparr>activeTab := t\<rparr>) s | None \<Rightarrow> s) = form s" for t
    by (simp split: option.split)
  with assms show ?thesis
    by (auto simp: effect_url_def form_ok_def linked_category_supported_def category_metrics_def
        url_network_def url_website_def Let_def split: option.split)
qed

lemma form_ok_finish: "form_ok (form s) \<Longrightarrow> form_ok (form (createRule_finish c reply s))"
  by (auto simp: createRule_finish_def reset_form_def form_ok_def category_metrics_def Let_def
      split: sum.split created.split)

lemma form_begin [simp]: "form (fst (createRule_begin s)) = form s"
  by (simp add: createRule_begin_def Let_def split: option.split)

lemma form_step_ok:
  assumes "form_step p s t" and "linked_category_supported p" and "form_ok (form s)"
  shows "form_ok (form t)"
  using assms
proof (induction rule: form_step.induct)
  case (website s item)
  then show ?case
    by (auto simp: form_ok_def form_fields category_metrics_def website_conditions_def Let_def)
next
  case (websites_loaded s ws)
  then show ?case by (intro form_ok_effect_url) (simp_all add: form_ok_def form_fields)
next
  case (answered s c reply)
  then show ?case by (simp add: form_ok_finish)
next
  case (category s cat)
  then show ?case by (simp add: handleSelectCategory_def form_ok_select_category)
qed (auto simp: form_ok_def form_fields category_metrics_def)

section \<open>Checks and payload\<close>

lemma out_of_range_iff:
  "\<not> out_of_range x lo hi \<longleftrightarrow> (\<exists>q. x = Fin q \<and> lo \<le> q \<and> q \<le> hi)"
  by (cases x) (auto simp: out_of_range_def)

lemma createRule_check_None:
  "createRule_check f = None \<longleftrightarrow>
     selectedChannelIds f \<noteq> [] \<and> isScopeValid f \<and>
     ((ruleMetric f = ''container'' \<or> ruleMetric f = ''service'') \<longrightarrow> trim (ruleTargetName f) \<noteq> []) \<and>
     threshold_error f = None \<and> \<not> out_of_range (parse_int (ruleDuration f)) 1 1440"
  by (auto simp: createRule_check_def isScopeValid_def split: option.split)

lemma threshold_error_None:
  assumes "\<not> isSpecialMetric (ruleMetric f)"
  shows "threshold_error f = None \<longleftrightarrow>
     (\<exists>q. parse_float (ruleThreshold f) = Fin q \<and> 0 \<le> q \<and>
          q \<le> (if ruleMetric f = ''network_latency'' then 60000 else 100))"
  using assms out_of_range_iff by (auto simp: threshold_error_def Let_def)

lemma createRule_begin_Some:
  "createRule_begin s = (s', Some rq) \<longleftrightarrow>
     createRule_check (form s) = None \<and>
     s' = ui_update (\<lambda>u. u\<lparr>savingRule := True\<rparr>) (clear_messages s) \<and>
     rq = request_send ''POST'' ''/alerts/rules'' (createRule_body s)"
  by (auto simp: createRule_begin_def Let_def split: option.split)

lemma body_fields:
  "field (createRule_body s) ''name'' = Some (JStr (trim (ruleName (form s))))"
  "field (createRule_body s) ''metric'' = Some (JStr (ruleMetric (form s)))"
  "field (createRule_body s) ''operator'' = Some (JStr (payload_operator (form s)))"
  "field (createRule_body s) ''threshold'' = Some (num_json (payload_threshold (form s)))"
  "field (createRule_body s) ''duration_minutes'' =
     Some (num_json (parse_int (ruleDuration (form s))))"
  "field (createRule_body s) ''server_id'' = Some (opt_str_json (payloadServerId s))"
  "field (createRule_body s) ''server_ids'' = Some (strs_json (payloadServerIds s))"
  "field (createRule_body s) ''channel_ids'' = Some (strs_json (selectedChannelIds (form s)))"
  "field (createRule_body s) ''target_name'' = Some (opt_str_json (payloadTargetName s))"
  by (simp_all add: createRule_body_def Let_def)

definition denoted_servers :: "string set \<Rightarrow> string option \<Rightarrow> string list \<Rightarrow> string set" where
  \<comment> \<open>which servers a rule covers: the listed ones, else the single one, else the whole fleet\<close>
  "denoted_servers fleet server_id server_ids =
     (if server_ids \<noteq> [] then set server_ids
      else case server_id of Some i \<Rightarrow> {i} | None \<Rightarrow> fleet)"

lemma payload_scope_exact:
  assumes "selectedCategory (form s) \<noteq> CatWebsite"
    and "selectedServerIds (form s) \<noteq> []" and "distinct (selectedServerIds (form s))"
    and "distinct (map as_id (servers (data s)))"
    and "set (selectedServerIds (form s)) \<subseteq> as_id ` set (servers (data s))"
  shows "denoted_servers (as_id ` set (servers (data s))) (payloadServerId s) (payloadServerIds s) =
         set (selectedServerIds (form s))"
proof -
  let ?sel = "selectedServerIds (form s)" and ?ids = "map as_id (servers (data s))"
  have full: "length ?sel = length ?ids \<longleftrightarrow> set ?sel = set ?ids"
    using assms by (intro full_selection) auto
  obtain i xs where sel: "?sel = i # xs" using assms(2) by (cases ?sel) auto
  show ?thesis
  proof (cases xs)
    case Nil
    with sel assms(1) show ?thesis
      by (simp add: denoted_servers_def payloadServerId_def payloadServerIds_def)
  next
    case (Cons j ys)
    with sel have "payloadServerId s = None" by (simp add: payloadServerId_def)
    with Cons sel assms(1) full show ?thesis
      by (auto simp: denoted_servers_def payloadServerIds_def Let_def)
  qed
qed

lemma form_reachable_ok:
  assumes "form_reachable p s" and "linked_category_supported p"
  shows "form_ok (form s)"
  using assms
proof (induction rule: form_reachable.induct)
  case (start role)
  have "form_ok (form (init_alerts role))"
    by (simp add: form_ok_def init_alerts_def init_rule_form_def category_metrics_def)
  with start show ?case by (intro form_ok_effect_url)
next
  case (step s t)
  then show ?case by (blast intro: form_step_ok)
qed

section \<open>Properties\<close>

text \<open>
  C6. The form never sends a metric of another category: from the page's first render on,
  whatever the user clicks or types and however the lists load and the answers arrive, the
  metric is one of the chosen category's -- provided the page was opened without a category in
  its URL, or with one for which the URL effect also sets the metric.
\<close>

theorem form_metric_matches_category:
  assumes "form_reachable p s" and "linked_category_supported p"
  shows "ruleMetric (form s) \<in> set (category_metrics (selectedCategory (form s)))"
  using form_reachable_ok [OF assms] by (simp add: form_ok_def)

definition no_params :: url_params where
  "no_params = \<lparr>paramTab = None, paramCategory = None, paramTarget = None,
                paramServerId = None, paramMetric = None\<rparr>"

theorem form_metric_matches_category_witness:
  "ruleMetric (form (handleSelectCategory CatNetwork (effect_url no_params (init_alerts ''admin''))))
     \<in> {''network_latency'', ''network_loss''}"
proof -
  let ?s = "handleSelectCategory CatNetwork (effect_url no_params (init_alerts ''admin''))"
  have "form_reachable no_params ?s"
    by (rule form_reachable.step [OF form_reachable.start form_step.category])
  moreover have "linked_category_supported no_params"
    by (simp add: linked_category_supported_def no_params_def)
  moreover have "selectedCategory (form ?s) = CatNetwork"
    by (simp add: handleSelectCategory_def select_category_form_def Let_def)
  ultimately show ?thesis
    using form_metric_matches_category [of no_params ?s] by (simp add: category_metrics_def)
qed

text \<open>
  The proviso of the form invariant is needed: opened with \<open>?category=container\<close>, the page
  shows the container form while the metric is still \<open>status\<close>, and submitting it with a
  container name sends a \<open>status\<close> rule without a target: the name the user typed is dropped.
\<close>

theorem linked_container_form_sends_status_rule:
  assumes "paramCategory p = Some ''container''"
  shows "\<exists>s. s = form_update (type_container ''nginx'')
                  (form_update (\<lambda>f. f\<lparr>selectedServerIds := [''a''], selectedChannelIds := [''c'']\<rparr>)
                     (effect_url p (init_alerts role))) \<and>
           selectedCategory (form s) = CatContainer \<and> isFormValid (form s) \<and>
           (\<exists>s' rq. createRule_begin s = (s', Some rq) \<and>
              body_field rq ''metric'' = Some (JStr ''status'') \<and>
              body_field rq ''target_name'' = Some JNull)"
proof -
  define s where "s = form_update (type_container ''nginx'')
                  (form_update (\<lambda>f. f\<lparr>selectedServerIds := [''a''], selectedChannelIds := [''c'']\<rparr>)
                     (effect_url p (init_alerts role)))"
  have tabs: "form (case t of Some t \<Rightarrow> ui_update (\<lambda>u. u\<lparr>activeTab := t\<rparr>) u | None \<Rightarrow> u) = form u"
    for t u by (simp split: option.split)
  have f: "form s = init_rule_form\<lparr>selectedCategory := CatContainer, selectedServerIds := [''a''],
      selectedChannelIds := [''c''], ruleTargetName := ''nginx'', ruleName := ''Docker: nginx''\<rparr>"
    by (simp add: s_def effect_url_def assms category_of_def tabs init_alerts_def
        init_rule_form_def type_container_def Let_def)
  have "createRule_check (form s) = None" and "isFormValid (form s)"
    unfolding f by code_simp+
  then show ?thesis
    unfolding s_def [symmetric]
    by (auto simp: createRule_begin_Some body_fields f init_rule_form_def payloadTargetName_def Let_def)
qed

theorem linked_container_form_sends_status_rule_witness:
  "\<exists>s s' rq. selectedCategory (form s) = CatContainer \<and> createRule_begin s = (s', Some rq) \<and>
     body_field rq ''metric'' = Some (JStr ''status'')"
proof -
  have "paramCategory (no_params\<lparr>paramCategory := Some ''container''\<rparr>) = Some ''container''" by simp
  from linked_container_form_sends_status_rule [OF this, of "''admin''"] show ?thesis by blast
qed

definition missing_target :: "rule_form \<Rightarrow> bool" where
  "missing_target f \<longleftrightarrow>
     (ruleMetric f = ''container'' \<or> ruleMetric f = ''service'') \<and> trim (ruleTargetName f) = []"

lemma valid_not_missing: "form_ok f \<Longrightarrow> isFormValid f \<Longrightarrow> \<not> missing_target f"
  by (cases "selectedCategory f")
    (auto simp: form_ok_def category_metrics_def isFormValid_def isConditionValid_def missing_target_def)

lemma check_None_iff:
  "isFormValid f \<Longrightarrow> createRule_check f = None \<longleftrightarrow>
     \<not> (missing_target f \<or> threshold_error f \<noteq> None \<or> out_of_range (parse_int (ruleDuration f)) 1 1440)"
  by (auto simp: createRule_check_None isFormValid_def missing_target_def)

lemma check_message: "createRule_check f = Some m \<Longrightarrow> m \<noteq> []"
  by (auto simp: createRule_check_def threshold_error_def Let_def split: if_splits)

text \<open>
  C7. The enabled submit button is honest.  In every state the form can reach, a green checklist means
  that \<open>createRule\<close> sends the request, unless the threshold or the duration is out of range, or the rule
  watches a container or a service without a name under another category; the last happens only where
  the address of the page names a category whose metric the URL effect leaves as it is.  Whenever it refuses,
  it sends nothing, shows why, and leaves form and data as they were.
\<close>

theorem submit_enabled_means_sent:
  assumes "form_reachable p s" and "isFormValid (form s)"
  shows "if missing_target (form s) \<or> threshold_error (form s) \<noteq> None \<or>
            out_of_range (parse_int (ruleDuration (form s))) 1 1440
         then (\<exists>s'. createRule_begin s = (s', None) \<and> errorMessage (ui s') \<noteq> [] \<and>
                form s' = form s \<and> data s' = data s) \<and>
              \<not> (missing_target (form s) \<and> linked_category_supported p)
         else \<exists>s'. createRule_begin s =
                (s', Some (request_send ''POST'' ''/alerts/rules'' (createRule_body s)))"
proof (cases "createRule_check (form s)")
  case None
  with check_None_iff [OF assms(2)] show ?thesis by (auto simp: createRule_begin_Some)
next
  case (Some m)
  then have "createRule_begin s = (set_error m (clear_messages s), None)" "m \<noteq> []"
    by (simp_all add: createRule_begin_def Let_def check_message)
  moreover have "\<not> (missing_target (form s) \<and> linked_category_supported p)"
    using form_reachable_ok [OF assms(1)] valid_not_missing [OF _ assms(2)] by blast
  ultimately show ?thesis using check_None_iff [OF assms(2)] Some by simp
qed

definition demo_form_state :: alerts where
  "demo_form_state =
     form_update (\<lambda>f. f\<lparr>selectedServerIds := [''a''], selectedChannelIds := [''c'']\<rparr>)
       (data_update (\<lambda>d. d\<lparr>servers :=
            [\<lparr>as_id = ''a'', as_name = ''alpha'', as_status = ''online'', as_ip_address = None, as_hostname = None\<rparr>,
             \<lparr>as_id = ''b'', as_name = ''beta'', as_status = ''online'', as_ip_address = None, as_hostname = None\<rparr>]\<rparr>)
         (init_alerts ''admin''))"

lemma demo_form_state_facts:
  "form demo_form_state =
     init_rule_form\<lparr>selectedServerIds := [''a''], selectedChannelIds := [''c'']\<rparr>"
  "map as_id (servers (data demo_form_state)) = [''a'', ''b'']"
  "as_id ` set (servers (data demo_form_state)) = {''a'', ''b''}"
  "createRule_check (form demo_form_state) = None"
  "isFormValid (form demo_form_state)"
  "form_ok (form demo_form_state)"
proof -
  show f: "form demo_form_state =
     init_rule_form\<lparr>selectedServerIds := [''a''], selectedChannelIds := [''c'']\<rparr>"
    by (simp add: demo_form_state_def init_alerts_def)
  show "createRule_check (form demo_form_state) = None" "isFormValid (form demo_form_state)"
    "form_ok (form demo_form_state)"
    unfolding f by code_simp+
  show "map as_id (servers (data demo_form_state)) = [''a'', ''b'']"
    "as_id ` set (servers (data demo_form_state)) = {''a'', ''b''}"
    by (simp_all add: demo_form_state_def)
qed

lemma demo_form_reachable: "form_reachable no_params demo_form_state"
proof -
  let ?xs = "servers (data demo_form_state)"
  let ?s0 = "effect_url no_params (init_alerts ''admin'')"
  let ?s1 = "effect_servers no_params (data_update (\<lambda>d. d\<lparr>servers := ?xs\<rparr>) ?s0)"
  let ?s2 = "toggleServer ''b'' ?s1"
  have "form_reachable no_params ?s1"
    by (rule form_reachable.step [OF form_reachable.start form_step.servers_loaded])
  then have "form_reachable no_params ?s2"
    by (rule form_reachable.step [OF _ form_step.toggle_server])
  then have "form_reachable no_params (toggleChannel ''c'' ?s2)"
    by (rule form_reachable.step [OF _ form_step.toggle_channel])
  moreover have "toggleChannel ''c'' ?s2 = demo_form_state"
    by (simp add: demo_form_state_def effect_url_def effect_servers_def no_params_def toggleServer_def
        toggleChannel_def toggle_def init_alerts_def init_rule_form_def Let_def)
  ultimately show ?thesis by simp
qed

theorem submit_enabled_means_sent_witness:
  "\<exists>s'. createRule_begin demo_form_state =
     (s', Some (request_send ''POST'' ''/alerts/rules'' (createRule_body demo_form_state)))"
proof -
  have "\<not> (missing_target (form demo_form_state) \<or> threshold_error (form demo_form_state) \<noteq> None \<or>
            out_of_range (parse_int (ruleDuration (form demo_form_state))) 1 1440)"
    using demo_form_state_facts(4,5) check_None_iff by blast
  then show ?thesis
    using submit_enabled_means_sent [OF demo_form_reachable demo_form_state_facts(5)] by auto
qed

text \<open>
  The exception is reachable: on a page opened with \<open>?category=status\<close> the user chooses the container
  category, the list of websites arrives late, and the URL effect runs again and shows the status
  category over the metric \<open>container\<close>.  The checklist is green, and every submission is refused for a
  container name that the form has no field for.
\<close>

theorem late_websites_block_form:
  "\<exists>s. form_reachable (no_params\<lparr>paramCategory := Some ''status''\<rparr>) s \<and> isFormValid (form s) \<and>
      selectedCategory (form s) = CatStatus \<and>
      errorMessage (ui (fst (createRule_begin s))) = ''Please enter the Container name to monitor.'' \<and>
      snd (createRule_begin s) = None"
proof -
  let ?p = "no_params\<lparr>paramCategory := Some ''status''\<rparr>" and ?xs = "servers (data demo_form_state)"
  let ?s0 = "effect_url ?p (init_alerts ''admin'')"
  let ?s1 = "effect_servers ?p (data_update (\<lambda>d. d\<lparr>servers := ?xs\<rparr>) ?s0)"
  let ?s2 = "handleSelectCategory CatContainer ?s1"
  let ?s3 = "effect_url ?p (effect_websites ?p (data_update (\<lambda>d. d\<lparr>websites := []\<rparr>) ?s2))"
  let ?s = "toggleChannel ''c'' ?s3"
  have "form_reachable ?p ?s1"
    by (rule form_reachable.step [OF form_reachable.start form_step.servers_loaded])
  then have "form_reachable ?p ?s2" by (rule form_reachable.step [OF _ form_step.category])
  then have "form_reachable ?p ?s3" by (rule form_reachable.step [OF _ form_step.websites_loaded])
  then have reach: "form_reachable ?p ?s" by (rule form_reachable.step [OF _ form_step.toggle_channel])
  have f: "form ?s = (select_category_form CatContainer init_rule_form)
      \<lparr>selectedServerIds := [''a'', ''b''], selectedCategory := CatStatus, selectedChannelIds := [''c'']\<rparr>"
    by (simp add: demo_form_state_def effect_url_def effect_servers_def effect_websites_def no_params_def
        handleSelectCategory_def select_category_form_def toggleChannel_def toggle_def init_alerts_def
        init_rule_form_def category_of_def Let_def)
  have check: "createRule_check (form ?s) = Some ''Please enter the Container name to monitor.''"
    and "isFormValid (form ?s)" "selectedCategory (form ?s) = CatStatus"
    unfolding f by code_simp+
  moreover have "createRule_begin ?s = (set_error ''Please enter the Container name to monitor.'' (clear_messages ?s), None)"
    using check by (simp add: createRule_begin_def Let_def)
  ultimately show ?thesis using reach by (intro exI [of _ ?s]) simp
qed

text \<open>
  Every rule that is sent is well formed: one notification channel at least, the duration
  a whole number of minutes within a day, the threshold of a measured metric a finite number
  within its range, and equality with a fixed threshold for the event metrics.
\<close>

theorem created_rule_well_formed:
  assumes "createRule_begin s = (s', Some rq)"
  shows "body_field rq ''channel_ids'' = Some (strs_json (selectedChannelIds (form s))) \<and>
         selectedChannelIds (form s) \<noteq> [] \<and>
         (\<exists>d. body_field rq ''duration_minutes'' = Some (JNum (of_int d)) \<and> 1 \<le> d \<and> d \<le> 1440) \<and>
         (if isSpecialMetric (ruleMetric (form s))
          then body_field rq ''operator'' = Some (JStr ''=='') \<and>
               (ruleMetric (form s) \<noteq> ''ssl'' \<longrightarrow> body_field rq ''threshold'' = Some (JNum 0))
          else body_field rq ''operator'' = Some (JStr (ruleOperator (form s))) \<and>
               (\<exists>q. body_field rq ''threshold'' = Some (JNum q) \<and> 0 \<le> q \<and>
                    q \<le> (if ruleMetric (form s) = ''network_latency'' then 60000 else 100)))"
proof -
  let ?f = "form s"
  from assms have check: "createRule_check ?f = None"
    and rq: "rq = request_send ''POST'' ''/alerts/rules'' (createRule_body s)"
    by (simp_all add: createRule_begin_Some)
  note parts = check [unfolded createRule_check_None]
  from parts obtain q where q: "parse_int (ruleDuration ?f) = Fin q" "1 \<le> q" "q \<le> 1440"
    using out_of_range_iff by blast
  with parse_int_cases [of "ruleDuration ?f"] obtain d where "q = of_int d" by auto
  with q have dur: "\<exists>d. body_field rq ''duration_minutes'' = Some (JNum (of_int d)) \<and> 1 \<le> d \<and> d \<le> 1440"
    by (auto simp: rq body_fields)
  have "payload_threshold ?f = parse_float (ruleThreshold ?f)" if "\<not> isSpecialMetric (ruleMetric ?f)"
    using that by (auto simp: payload_threshold_def isSpecialMetric_def Let_def)
  with parts threshold_error_None [of ?f] dur show ?thesis
    by (auto simp: rq body_fields payload_operator_def payload_threshold_def isSpecialMetric_def Let_def)
qed

theorem created_rule_well_formed_witness:
  "\<exists>s' rq. createRule_begin demo_form_state = (s', Some rq) \<and>
     (\<exists>d. body_field rq ''duration_minutes'' = Some (JNum (of_int d)) \<and> 1 \<le> d \<and> d \<le> 1440)"
proof -
  obtain s' rq where b: "createRule_begin demo_form_state = (s', Some rq)"
    using demo_form_state_facts(4) by (simp add: createRule_begin_def)
  from created_rule_well_formed [OF b] b show ?thesis by blast
qed

text \<open>
  The scope fields of the request cover exactly the agents the user selected: a single
  agent, a list, or the whole fleet, whichever of the three encodings the code picks.
\<close>

theorem created_rule_scope:
  assumes "createRule_begin s = (s', Some rq)" and "selectedCategory (form s) \<noteq> CatWebsite"
    and "distinct (selectedServerIds (form s))" and "distinct (map as_id (servers (data s)))"
    and "set (selectedServerIds (form s)) \<subseteq> as_id ` set (servers (data s))"
  shows "\<exists>sid sids. body_field rq ''server_id'' = Some (opt_str_json sid) \<and>
           body_field rq ''server_ids'' = Some (strs_json sids) \<and>
           denoted_servers (as_id ` set (servers (data s))) sid sids = set (selectedServerIds (form s))"
proof -
  from assms(1) have rq: "rq = request_send ''POST'' ''/alerts/rules'' (createRule_body s)"
    and "createRule_check (form s) = None"
    by (simp_all add: createRule_begin_Some)
  then have "selectedServerIds (form s) \<noteq> []"
    using assms(2) by (simp add: createRule_check_None isScopeValid_def)
  from payload_scope_exact [OF assms(2) this assms(3-5)] show ?thesis
    by (auto simp: rq body_fields)
qed

theorem created_rule_scope_witness:
  "\<exists>s' rq sid sids. createRule_begin demo_form_state = (s', Some rq) \<and>
     body_field rq ''server_id'' = Some (opt_str_json sid) \<and>
     denoted_servers {''a'', ''b''} sid sids = {''a''}"
proof -
  obtain s' rq where b: "createRule_begin demo_form_state = (s', Some rq)"
    using demo_form_state_facts(4) by (simp add: createRule_begin_def)
  from created_rule_scope [OF b] b show ?thesis
    by (fastforce simp: demo_form_state_facts init_rule_form_def)
qed

text \<open>
  The selection of websites is not transmitted once it has more than one member: two
  selections of several sites, whichever and however many, produce the same request body,
  with the typed target name or null as the only target.  The summary bar nevertheless shows
  the number of selected sites as the scope of the rule.
\<close>

theorem website_selection_not_sent:
  assumes "selectedCategory (form s) = CatWebsite"
    and "length (selectedWebsiteIds (form s)) \<ge> 2" and "length sel \<ge> 2"
  shows "createRule_body (form_update (\<lambda>f. f\<lparr>selectedWebsiteIds := sel\<rparr>) s) = createRule_body s \<and>
         field (createRule_body s) ''target_name'' =
           Some (opt_str_json (nonempty_or_null (trim (ruleTargetName (form s))))) \<and>
         (length sel \<noteq> length (websites (data s)) \<longrightarrow>
            summary_scope (form_update (\<lambda>f. f\<lparr>selectedWebsiteIds := sel\<rparr>) s) =
              show_nat (length sel) @ '' sites'')"
proof (intro conjI impI)
  have typed: "payloadTargetName u = nonempty_or_null (trim (ruleTargetName (form u)))"
    if "selectedCategory (form u) = CatWebsite" "length (selectedWebsiteIds (form u)) \<ge> 2" for u
    using that by (auto simp: payloadTargetName_def Let_def split: list.split)
  from typed [OF assms(1,2)] show "field (createRule_body s) ''target_name'' =
           Some (opt_str_json (nonempty_or_null (trim (ruleTargetName (form s)))))"
    by (simp add: body_fields)
  let ?u = "form_update (\<lambda>f. f\<lparr>selectedWebsiteIds := sel\<rparr>) s"
  have "payloadTargetName ?u = payloadTargetName s"
    using assms typed [of s] typed [of ?u] by simp
  then show "createRule_body ?u = createRule_body s"
    using assms(1)
    by (simp add: createRule_body_def payload_operator_def payload_threshold_def
        payloadServerId_def payloadServerIds_def Let_def)
  assume "length sel \<noteq> length (websites (data s))"
  with assms show "summary_scope ?u = show_nat (length sel) @ '' sites''"
    by (auto simp: summary_scope_def scope_text_def)
qed

definition demo_sites :: alerts where
  "demo_sites =
     form_update (\<lambda>f. f\<lparr>selectedCategory := CatWebsite, ruleMetric := ''website'',
                        selectedWebsiteIds := [''w1'', ''w2'']\<rparr>)
       (data_update (\<lambda>d. d\<lparr>websites := map (\<lambda>i. \<lparr>aw_id = i, aw_name = i, aw_url = i, aw_status = ''up''\<rparr>)
                                    [''w1'', ''w2'', ''w3'', ''w4'']\<rparr>) (init_alerts ''admin''))"

theorem website_selection_not_sent_witness:
  "createRule_body (form_update (\<lambda>f. f\<lparr>selectedWebsiteIds := [''w2'', ''w3'', ''w4'']\<rparr>) demo_sites) =
     createRule_body demo_sites \<and>
   field (createRule_body demo_sites) ''target_name'' = Some JNull"
  using website_selection_not_sent [of demo_sites "[''w2'', ''w3'', ''w4'']"]
  by (simp add: demo_sites_def init_alerts_def init_rule_form_def)

end
