(* ===== verification/AlertRules.thy ===== *)
theory AlertRules
  imports AlertForm "HOL-Library.Multiset"
begin

text \<open>
  The rules tab of the Alert Center (\<open>alerts/page.tsx\<close>): loading the rules, the edit modal,
  the enable switch, the test button, deletion and the filtered list.  A handler that awaits
  the API is split at its \<open>await\<close>: \<open>X_begin\<close> ends with the request it sends, \<open>X_finish\<close>
  takes the closed-over state, the answer and the state at that time.
\<close>

section \<open>Loading\<close>

definition fetchRules_request :: request where
  "fetchRules_request = request_get ''/alerts/rules''"

definition fetchRules_finish :: "alert_rule list option outcome \<Rightarrow> alerts \<Rightarrow> alerts" where
  "fetchRules_finish reply s =
     (case reply of
        Inr d \<Rightarrow> data_update (\<lambda>x. x\<lparr>rules := or_empty d\<rparr>) s
      | Inl error \<Rightarrow> set_error (getApiErrorMessage error ''Unable to load alert rules.'') s)"

section \<open>The edit modal\<close>

definition openEditModal :: "alert_rule \<Rightarrow> alerts \<Rightarrow> alerts" where
  "openEditModal rule s =
     edit_update (\<lambda>e. e\<lparr>editingRule := Some rule, editName := ar_name rule,
         editMetric := ar_metric rule, editOperator := ar_operator rule,
         editThreshold := Fin (ar_threshold rule), editDuration := Fin (ar_duration_minutes rule),
         editRepeat := Fin (case ar_repeat_interval_minutes rule of Some r \<Rightarrow> r | None \<Rightarrow> 0),
         editServerId := opt_or (ar_server_id rule) [],
         editTargetName := opt_or (ar_target_name rule) [],
         editChannelIds := (if ar_channels rule \<noteq> [] then map rc_id (ar_channels rule)
                            else ar_channel_ids rule),
         editServerSearchQuery := [], editWebsiteSearchQuery := []\<rparr>) s"

definition closeEditModal :: "alerts \<Rightarrow> alerts" where
  "closeEditModal s = edit_update (\<lambda>e. e\<lparr>editingRule := None\<rparr>) s"

definition toggleEditChannel :: "string \<Rightarrow> alerts \<Rightarrow> alerts" where
  "toggleEditChannel i s =
     edit_update (\<lambda>e. e\<lparr>editChannelIds := toggle i (editChannelIds e)\<rparr>) s"

definition toggle_all_edit_channels :: "alerts \<Rightarrow> alerts" where
  "toggle_all_edit_channels s =
     edit_update (\<lambda>e. e\<lparr>editChannelIds :=
       toggle_all (map ac_id (channels (data s))) (editChannelIds (edit s))\<rparr>) s"

definition isEventMetric :: "string \<Rightarrow> bool" where
  "isEventMetric m \<longleftrightarrow> m = ''status'' \<or> m = ''container'' \<or> m = ''service''"

definition hasTarget :: "string \<Rightarrow> bool" where
  "hasTarget m \<longleftrightarrow>
     m = ''container'' \<or> m = ''service'' \<or> m = ''network_latency'' \<or> m = ''network_loss'' \<or>
     m = ''website'' \<or> m = ''ssl''"

definition editServerId_payload :: "rule_edit \<Rightarrow> string option" where
  "editServerId_payload e =
     (if editServerId e \<noteq> [] \<and> editServerId e \<noteq> ''all'' then Some (editServerId e) else None)"

definition editTargetName_payload :: "rule_edit \<Rightarrow> string option" where
  "editTargetName_payload e =
     (if hasTarget (editMetric e) then nonempty_or_null (trim (editTargetName e)) else None)"

definition editRule_body :: "rule_edit \<Rightarrow> json" where
  "editRule_body e =
     JObj [(''name'', JStr (trim (editName e))),
           (''metric'', JStr (editMetric e)),
           (''operator'', JStr (if isEventMetric (editMetric e) then ''=='' else editOperator e)),
           (''threshold'', num_json (if isEventMetric (editMetric e) then Fin 0 else editThreshold e)),
           (''duration_minutes'', num_json (editDuration e)),
           (''repeat_interval_minutes'', num_json (editRepeat e)),
           (''server_id'', opt_str_json (editServerId_payload e)),
           (''target_name'', opt_str_json (editTargetName_payload e)),
           (''channel_ids'', strs_json (editChannelIds e))]"

definition handleSaveEdit_begin :: "alerts \<Rightarrow> alerts \<times> request option" where
  "handleSaveEdit_begin s =
     (case editingRule (edit s) of
        None \<Rightarrow> (s, None)
      | Some rule \<Rightarrow>
          if trim (editName (edit s)) = [] then (set_error ''Rule name is required.'' s, None)
          else if editChannelIds (edit s) = []
          then (set_error ''Please select at least one notification channel.'' s, None)
          else (set_error [] (edit_update (\<lambda>e. e\<lparr>savingEdit := True\<rparr>) s),
                Some (request_send ''PUT'' (''/alerts/rules/'' @ ar_id rule) (editRule_body (edit s)))))"

definition handleSaveEdit_answered :: "alerts \<Rightarrow> unit outcome \<Rightarrow> alerts \<Rightarrow> alerts \<times> request option" where
  \<comment> \<open>after the PUT: on success the rules are loaded again before the handler ends\<close>
  "handleSaveEdit_answered c reply s =
     (case reply of
        Inl err \<Rightarrow>
          (edit_update (\<lambda>e. e\<lparr>savingEdit := False\<rparr>)
             (set_error (getApiErrorMessage err ''Failed to update alert rule.'') s), None)
      | Inr _ \<Rightarrow>
          (closeEditModal
             (set_success (''Alert rule \"'' @ trim (editName (edit c)) @ ''\" updated successfully!'') s),
           Some fetchRules_request))"

definition handleSaveEdit_finish :: "alert_rule list option outcome \<Rightarrow> alerts \<Rightarrow> alerts" where
  "handleSaveEdit_finish reply s =
     edit_update (\<lambda>e. e\<lparr>savingEdit := False\<rparr>) (fetchRules_finish reply s)"

section \<open>Switching, testing and deleting a rule\<close>

definition toggleRule_begin :: "string \<Rightarrow> bool \<Rightarrow> alerts \<Rightarrow> alerts \<times> request" where
  "toggleRule_begin ruleId currentEnabled s =
     (clear_messages s,
      request_send ''PATCH'' (''/alerts/rules/'' @ ruleId @ ''/toggle'')
        (JObj [(''enabled'', JBool (\<not> currentEnabled))]))"

definition toggleRule_finish :: "string \<Rightarrow> bool outcome \<Rightarrow> alerts \<Rightarrow> alerts" where
  \<comment> \<open>the answer is the \<open>enabled\<close> flag the API reports\<close>
  "toggleRule_finish ruleId reply s =
     (case reply of
        Inl error \<Rightarrow> set_error (getApiErrorMessage error ''Unable to update alert rule status.'') s
      | Inr enabled \<Rightarrow>
          set_success (if enabled then ''Alert rule enabled.'' else ''Alert rule disabled.'')
            (data_update (\<lambda>d. d\<lparr>rules := update_by ar_id ruleId (merge_enabled enabled) (rules d)\<rparr>) s))"

definition testAlertRule_begin :: "string \<Rightarrow> alerts \<Rightarrow> alerts \<times> request" where
  "testAlertRule_begin i s =
     (ui_update (\<lambda>u. u\<lparr>testingRuleId := Some i\<rparr>) (clear_messages s),
      request_bare ''POST'' (''/alerts/rules/'' @ i @ ''/test''))"

definition testAlertRule_finish :: "string \<Rightarrow> string option outcome \<Rightarrow> alerts \<Rightarrow> alerts" where
  \<comment> \<open>the answer is \<open>res?.message\<close>\<close>
  "testAlertRule_finish name reply s =
     ui_update (\<lambda>u. u\<lparr>testingRuleId := None\<rparr>)
       (case reply of
          Inr message \<Rightarrow>
            set_success (opt_or message (''Test alert sent for rule \"'' @ name @ ''\" successfully!'')) s
        | Inl error \<Rightarrow>
            set_error (getApiErrorMessage error
              (''Failed to send test alert for rule \"'' @ name @ ''\".'')) s)"

definition confirmDeleteRule_begin :: "alerts \<Rightarrow> alerts \<times> request option" where
  "confirmDeleteRule_begin s =
     (case deleteRuleTarget (ui s) of
        None \<Rightarrow> (s, None)
      | Some target \<Rightarrow>
          if isViewer s then
            (ui_update (\<lambda>u. u\<lparr>deleteRuleTarget := None\<rparr>)
               (set_error ''Deleting alert rules requires Admin or Operator role.'' s), None)
          else
            (set_error [] (ui_update (\<lambda>u. u\<lparr>deletingRule := True\<rparr>) s),
             Some (request_bare ''DELETE'' (''/alerts/rules/'' @ ar_id target))))"

definition confirmDeleteRule_finish :: "alert_rule \<Rightarrow> unit outcome \<Rightarrow> alerts \<Rightarrow> alerts" where
  \<comment> \<open>\<open>target\<close> is the rule the handler closed over\<close>
  "confirmDeleteRule_finish target reply s =
     ui_update (\<lambda>u. u\<lparr>deletingRule := False\<rparr>)
       (case reply of
          Inr _ \<Rightarrow>
            ui_update (\<lambda>u. u\<lparr>deleteRuleTarget := None\<rparr>)
              (set_success (''Alert rule \"'' @ ar_name target @ ''\" deleted.'')
                 (data_update (\<lambda>d. d\<lparr>rules := remove_by ar_id (ar_id target) (rules d)\<rparr>) s))
        | Inl error \<Rightarrow> set_error (getApiErrorMessage error ''Unable to delete alert rule.'') s)"

section \<open>The filtered list\<close>

definition status_hides :: "rule_status_filter \<Rightarrow> alert_rule \<Rightarrow> bool" where
  "status_hides flt rule \<longleftrightarrow>
     (flt = StatusActive \<and> \<not> ar_enabled rule) \<or> (flt = StatusDisabled \<and> ar_enabled rule)"

definition category_hides :: "alert_category option \<Rightarrow> alert_rule \<Rightarrow> bool" where
  "category_hides flt rule \<longleftrightarrow>
     (let m = ar_metric rule in
      (flt = Some CatStatus \<and> m \<noteq> ''status'') \<or>
      (flt = Some CatContainer \<and> m \<noteq> ''container'') \<or>
      (flt = Some CatService \<and> m \<noteq> ''service'') \<or>
      (flt = Some CatMetric \<and> m \<notin> {''cpu'', ''ram'', ''disk''}) \<or>
      (flt = Some CatWebsite \<and> m \<notin> {''website'', ''ssl''}) \<or>
      (flt = Some CatNetwork \<and> m \<notin> {''network_latency'', ''network_loss''}))"

definition query_matches :: "string \<Rightarrow> alert_rule \<Rightarrow> bool" where
  \<comment> \<open>the query is tested trimmed but searched for as typed\<close>
  "query_matches query rule \<longleftrightarrow>
     trim query = [] \<or>
     (let q = to_lower query
      in str_includes (to_lower (ar_name rule)) q \<or>
         str_includes (to_lower (ar_metric rule)) q \<or>
         str_includes (to_lower (opt_or (ar_target_name rule) [])) q \<or>
         str_includes (to_lower (opt_or (ar_server_name rule) [])) q)"

definition filter_rules :: "rule_filters \<Rightarrow> alert_rule list \<Rightarrow> alert_rule list" where
  "filter_rules flt rs =
     filter (\<lambda>rule. \<not> status_hides (ruleStatusFilter flt) rule \<and>
                    \<not> category_hides (ruleCategoryFilter flt) rule \<and>
                    query_matches (ruleSearchQuery flt) rule) rs"

definition filteredRules :: "alerts \<Rightarrow> alert_rule list" where
  "filteredRules s = filter_rules (filters s) (rules (data s))"

definition activeRulesCount :: "alerts \<Rightarrow> nat" where
  "activeRulesCount s = length (filter ar_enabled (rules (data s)))"

section \<open>Properties\<close>

definition plain_rule :: "alert_rule \<Rightarrow> bool" where
  \<comment> \<open>what the API stores: trimmed texts, normalised operator and threshold of event metrics\<close>
  "plain_rule r \<longleftrightarrow>
     ar_name r \<noteq> [] \<and> trim (ar_name r) = ar_name r \<and>
     (isEventMetric (ar_metric r) \<longrightarrow> ar_operator r = ''=='' \<and> ar_threshold r = 0) \<and>
     ar_server_id r \<notin> {Some [], Some ''all''} \<and>
     (case ar_target_name r of None \<Rightarrow> True
      | Some t \<Rightarrow> t \<noteq> [] \<and> trim t = t \<and> hasTarget (ar_metric r)) \<and>
     ar_channels r \<noteq> []"

text \<open>
  C31. Opening the edit modal and saving without a change is the identity on the rule: the
  request updates the rule's own id and carries every field with the rule's value, for every
  rule as the API stores it.
\<close>

theorem edit_unchanged_roundtrip:
  assumes "plain_rule r"
  shows "\<exists>s'. handleSaveEdit_begin (openEditModal r s) =
     (s', Some (request_send ''PUT'' (''/alerts/rules/'' @ ar_id r)
        (JObj [(''name'', JStr (ar_name r)), (''metric'', JStr (ar_metric r)),
               (''operator'', JStr (ar_operator r)), (''threshold'', JNum (ar_threshold r)),
               (''duration_minutes'', JNum (ar_duration_minutes r)),
               (''repeat_interval_minutes'',
                 JNum (case ar_repeat_interval_minutes r of Some m \<Rightarrow> m | None \<Rightarrow> 0)),
               (''server_id'', opt_str_json (ar_server_id r)),
               (''target_name'', opt_str_json (ar_target_name r)),
               (''channel_ids'', strs_json (map rc_id (ar_channels r)))])))"
proof -
  have server: "editServerId_payload (edit (openEditModal r s)) = ar_server_id r"
    using assms by (cases "ar_server_id r")
      (auto simp: plain_rule_def str_or_def editServerId_payload_def openEditModal_def)
  have target: "editTargetName_payload (edit (openEditModal r s)) = ar_target_name r"
    using assms by (cases "ar_target_name r")
      (auto simp: plain_rule_def str_or_def editTargetName_payload_def openEditModal_def)
  have "editRule_body (edit (openEditModal r s)) =
      JObj [(''name'', JStr (ar_name r)), (''metric'', JStr (ar_metric r)),
               (''operator'', JStr (ar_operator r)), (''threshold'', JNum (ar_threshold r)),
               (''duration_minutes'', JNum (ar_duration_minutes r)),
               (''repeat_interval_minutes'',
                 JNum (case ar_repeat_interval_minutes r of Some m \<Rightarrow> m | None \<Rightarrow> 0)),
               (''server_id'', opt_str_json (ar_server_id r)),
               (''target_name'', opt_str_json (ar_target_name r)),
               (''channel_ids'', strs_json (map rc_id (ar_channels r)))]"
    using assms by (simp add: editRule_body_def server target) (simp add: openEditModal_def plain_rule_def)
  then show ?thesis
    using assms by (simp add: handleSaveEdit_begin_def plain_rule_def) (simp add: openEditModal_def)
qed

definition demo_rule :: "string \<Rightarrow> string \<Rightarrow> alert_rule" where
  "demo_rule i n =
     \<lparr>ar_id = i, ar_name = n, ar_metric = ''cpu'', ar_operator = ''>'', ar_threshold = 90,
      ar_duration_minutes = 5, ar_enabled = True, ar_server_id = Some ''a'', ar_server_name = Some ''alpha'',
      ar_channel_ids = [''c''], ar_channels = [\<lparr>rc_id = ''c'', rc_name = ''ops''\<rparr>],
      ar_repeat_interval_minutes = Some 60, ar_target_name = None\<rparr>"

theorem edit_unchanged_roundtrip_witness:
  "\<exists>s' rq. handleSaveEdit_begin (openEditModal (demo_rule ''r1'' ''cpu high'') (init_alerts ''admin'')) = (s', Some rq) \<and>
     body_field rq ''threshold'' = Some (JNum 90) \<and> body_field rq ''server_id'' = Some (JStr ''a'')"
proof -
  have "plain_rule (demo_rule ''r1'' ''cpu high'')" by code_simp
  from edit_unchanged_roundtrip [OF this, of "init_alerts ''admin''"] show ?thesis
    by (auto simp: demo_rule_def)
qed

lemma count_enabled_update:
  assumes "distinct (map ar_id xs)"
  shows "length (filter ar_enabled (update_by ar_id k (merge_enabled b) xs)) \<le>
           Suc (length (filter ar_enabled xs)) \<and>
         length (filter ar_enabled xs) \<le>
           Suc (length (filter ar_enabled (update_by ar_id k (merge_enabled b) xs)))"
  using assms
proof (induction xs)
  case Nil
  then show ?case by simp
next
  case (Cons x xs)
  have other: "update_by ar_id k (merge_enabled b) xs = xs" if "ar_id x = k"
    using Cons.prems that by (auto simp: update_by_def intro!: map_idI) (metis imageI)
  show ?case
  proof (cases "ar_id x = k")
    case True
    from other [OF this] this show ?thesis by simp
  next
    case False
    then show ?thesis using Cons by simp
  qed
qed

text \<open>
  Switching a rule changes that rule only: the list keeps its ids and order, the addressed
  rule gets the flag the API reported, every other rule is the same, and the counter of active
  rules moves by at most one.
\<close>

theorem toggleRule_frame:
  fixes ruleId :: string and b :: bool
  assumes "distinct (map ar_id (rules (data s)))"
  defines "t \<equiv> toggleRule_finish ruleId (Inr b) s"
  shows "map ar_id (rules (data t)) = map ar_id (rules (data s)) \<and>
         find_by ar_id ruleId (rules (data t)) =
           map_option (\<lambda>r. r\<lparr>ar_enabled := b\<rparr>) (find_by ar_id ruleId (rules (data s))) \<and>
         (\<forall>i. i \<noteq> ruleId \<longrightarrow> find_by ar_id i (rules (data t)) = find_by ar_id i (rules (data s))) \<and>
         activeRulesCount t \<le> Suc (activeRulesCount s) \<and> activeRulesCount s \<le> Suc (activeRulesCount t)"
proof -
  have t: "rules (data t) = update_by ar_id ruleId (merge_enabled b) (rules (data s))"
    by (simp add: t_def toggleRule_finish_def)
  show ?thesis
    using count_enabled_update [OF assms(1), of ruleId b]
    by (simp add: t activeRulesCount_def rule_list.map_ident_update rule_list.find_update)
      (simp add: merge_enabled_def [abs_def])
qed

definition demo_rules :: alerts where
  "demo_rules = data_update (\<lambda>d. d\<lparr>rules := [demo_rule ''r1'' ''a'', demo_rule ''r2'' ''b'']\<rparr>) (init_alerts ''admin'')"

theorem toggleRule_frame_witness:
  "map ar_id (rules (data (toggleRule_finish ''r1'' (Inr False) demo_rules))) = [''r1'', ''r2'']"
  using toggleRule_frame [of demo_rules "''r1''" False] by (simp add: demo_rules_def demo_rule_def)

text \<open>
  The status filter splits the rules: under any category filter and query, a rule is shown
  by 'all' exactly when it is shown by exactly one of 'active' and 'disabled', and filtering
  never reorders the rules or shows one that is not there.
\<close>

lemma status_filter_partitions:
  "mset (filter_rules (flt\<lparr>ruleStatusFilter := StatusAll\<rparr>) rs) =
     mset (filter_rules (flt\<lparr>ruleStatusFilter := StatusActive\<rparr>) rs) +
     mset (filter_rules (flt\<lparr>ruleStatusFilter := StatusDisabled\<rparr>) rs) \<and>
   subseq (filter_rules flt rs) rs \<and>
   list_all ar_enabled (filter_rules (flt\<lparr>ruleStatusFilter := StatusActive\<rparr>) rs)"
proof (intro conjI)
  show "mset (filter_rules (flt\<lparr>ruleStatusFilter := StatusAll\<rparr>) rs) =
     mset (filter_rules (flt\<lparr>ruleStatusFilter := StatusActive\<rparr>) rs) +
     mset (filter_rules (flt\<lparr>ruleStatusFilter := StatusDisabled\<rparr>) rs)"
    by (induction rs) (auto simp: filter_rules_def status_hides_def)
  show "subseq (filter_rules flt rs) rs"
    by (simp add: filter_rules_def subseq_filter_left)
  show "list_all ar_enabled (filter_rules (flt\<lparr>ruleStatusFilter := StatusActive\<rparr>) rs)"
    by (auto simp: filter_rules_def status_hides_def list_all_iff)
qed

end
