(* ===== verification/AlertChannels.thy ===== *)
theory AlertChannels
  imports AlertRules
begin

text \<open>
  The notification channels of the Alert Center (\<open>alerts/page.tsx\<close>): the form that creates a
  channel, the modal that edits one, the test buttons and deletion.  The secrets of a channel
  (bot token, webhook URL, SMTP password) are write-only for the dialogs: the lists of the API mask
  them and no field of a dialog is filled with them.
\<close>

section \<open>Creating a channel\<close>

definition smtp_port :: "string \<Rightarrow> jsnum" where
  \<comment> \<open>\<open>Number.parseInt(port, 10) || 587\<close>\<close>
  "smtp_port p = num_or (parse_int p) (Fin 587)"

definition getChannelConfig :: "channel_form \<Rightarrow> json" where
  "getChannelConfig f =
     (if channelType f = ''telegram'' then
        JObj [(''bot_token'', JStr (trim (channelToken f))), (''chat_id'', JStr (trim (channelChatId f)))]
      else if channelType f = ''discord'' then
        JObj [(''webhook_url'', JStr (trim (channelWebhook f)))]
      else
        JObj [(''smtp_host'', JStr (trim (channelSMTPHost f))),
              (''smtp_port'', num_json (smtp_port (channelSMTPPort f))),
              (''username'', JStr (trim (channelSMTPUsername f))),
              (''password'', JStr (channelSMTPPassword f)),
              (''from'', JStr (trim (channelEmailFrom f))),
              (''to'', JStr (trim (channelEmailTo f))),
              (''use_tls'', JBool (channelUseTLS f))])"

definition discord_url :: "string \<Rightarrow> bool" where
  "discord_url trimmed \<longleftrightarrow>
     starts_with trimmed ''https://discord.com/api/webhooks/'' \<or>
     starts_with trimmed ''https://discordapp.com/api/webhooks/''"

definition discord_error :: string where
  "discord_error =
     ''Please enter a valid Discord Webhook URL (starting with https://discord.com/api/webhooks/...).''"

definition smtp_error :: string where
  "smtp_error = ''Please enter SMTP host, From, and Recipient addresses.''"

definition smtp_incomplete :: "channel_form \<Rightarrow> bool" where
  "smtp_incomplete f \<longleftrightarrow>
     trim (channelSMTPHost f) = [] \<or> trim (channelEmailFrom f) = [] \<or> trim (channelEmailTo f) = []"

definition testNewChannel_check :: "channel_form \<Rightarrow> string option" where
  "testNewChannel_check f =
     (if channelType f = ''discord'' then
        (if discord_url (trim (channelWebhook f)) then None else Some discord_error)
      else if channelType f = ''telegram'' then
        (if trim (channelToken f) = [] \<or> trim (channelChatId f) = []
         then Some ''Please enter both Telegram Bot Token and Chat ID.'' else None)
      else if channelType f = ''email'' then
        (if smtp_incomplete f then Some smtp_error else None)
      else None)"

definition testNewChannel_begin :: "alerts \<Rightarrow> alerts \<times> request option" where
  "testNewChannel_begin s =
     (let f = cform s; s0 = clear_messages s
      in case testNewChannel_check f of
           Some m \<Rightarrow> (set_error m s0, None)
         | None \<Rightarrow>
             (ui_update (\<lambda>u. u\<lparr>testingNewChannel := True\<rparr>) s0,
              Some (request_send ''POST'' ''/alerts/channels/test''
                (JObj [(''name'', JStr (str_or (trim (channelName f)) ''Test Channel'')),
                       (''type'', JStr (channelType f)),
                       (''config'', getChannelConfig f)]))))"

definition testNewChannel_finish :: "unit outcome \<Rightarrow> alerts \<Rightarrow> alerts" where
  "testNewChannel_finish reply s =
     ui_update (\<lambda>u. u\<lparr>testingNewChannel := False\<rparr>)
       (case reply of
          Inr _ \<Rightarrow> set_success
            ''Test notification sent successfully! Please verify your notification channel.'' s
        | Inl error \<Rightarrow> set_error (getApiErrorMessage error
            ''Failed to send test notification. Please verify channel configuration.'') s)"

definition testExistingChannel_begin :: "string \<Rightarrow> alerts \<Rightarrow> alerts \<times> request" where
  "testExistingChannel_begin i s =
     (ui_update (\<lambda>u. u\<lparr>testingChannelId := Some i\<rparr>) (clear_messages s),
      request_bare ''POST'' (''/alerts/channels/'' @ i @ ''/test''))"

definition testExistingChannel_finish :: "string \<Rightarrow> unit outcome \<Rightarrow> alerts \<Rightarrow> alerts" where
  "testExistingChannel_finish name reply s =
     ui_update (\<lambda>u. u\<lparr>testingChannelId := None\<rparr>)
       (case reply of
          Inr _ \<Rightarrow> set_success (''Test notification sent to channel \"'' @ name @ ''\" successfully!'') s
        | Inl error \<Rightarrow> set_error (getApiErrorMessage error
            (''Failed to send test notification to channel \"'' @ name @ ''\".'')) s)"

definition createChannel_begin :: "alerts \<Rightarrow> alerts \<times> request option" where
  "createChannel_begin s =
     (let f = cform s;
          s0 = ui_update (\<lambda>u. u\<lparr>savingChannel := True\<rparr>) (clear_messages s)
      in if channelType f = ''discord'' \<and> \<not> discord_url (trim (channelWebhook f))
         then (ui_update (\<lambda>u. u\<lparr>savingChannel := False\<rparr>) (set_error discord_error s0), None)
         else (s0, Some (request_send ''POST'' ''/alerts/channels''
                     (JObj [(''name'', JStr (trim (channelName f))),
                            (''type'', JStr (channelType f)),
                            (''config'', getChannelConfig f)]))))"

definition clear_channel_form :: "channel_form \<Rightarrow> channel_form" where
  \<comment> \<open>everything but the type\<close>
  "clear_channel_form f = init_channel_form\<lparr>channelType := channelType f\<rparr>"

definition createChannel_finish :: "alert_channel outcome \<Rightarrow> alerts \<Rightarrow> alerts" where
  "createChannel_finish reply s =
     ui_update (\<lambda>u. u\<lparr>savingChannel := False\<rparr>)
       (case reply of
          Inl error \<Rightarrow>
            set_error (getApiErrorMessage error ''Unable to create notification channel.'') s
        | Inr created \<Rightarrow>
            set_success (''Notification channel \"'' @ ac_name created @ ''\" created successfully!'')
              (cform_update clear_channel_form
                (form_update (\<lambda>f. f\<lparr>selectedChannelIds :=
                     ensure_member (ac_id created) (selectedChannelIds f)\<rparr>)
                   (data_update (\<lambda>d. d\<lparr>channels := created # channels d\<rparr>) s))))"

section \<open>Deleting a channel\<close>

definition request_delete_channel :: "alert_channel \<Rightarrow> alerts \<Rightarrow> alerts" where
  \<comment> \<open>the trash button of a channel card; it is disabled for viewers\<close>
  "request_delete_channel channel s =
     (if isViewer s then s
      else if ac_usage_count channel > 0 then
        set_error (''This channel is currently used by '' @ show_nat (ac_usage_count channel) @
                   '' alert rule(s). Please unlink or delete those rules first.'') s
      else ui_update (\<lambda>u. u\<lparr>deleteChannelTarget := Some channel\<rparr>) s)"

definition confirmDeleteChannel_begin :: "alerts \<Rightarrow> alerts \<times> request option" where
  "confirmDeleteChannel_begin s =
     (case deleteChannelTarget (ui s) of
        None \<Rightarrow> (s, None)
      | Some target \<Rightarrow>
          if isViewer s then
            (ui_update (\<lambda>u. u\<lparr>deleteChannelTarget := None\<rparr>)
               (set_error ''Deleting notification channels requires Admin or Operator role.'' s), None)
          else
            (clear_messages (ui_update (\<lambda>u. u\<lparr>deletingChannel := True\<rparr>) s),
             Some (request_bare ''DELETE'' (''/alerts/channels/'' @ ac_id target))))"

definition confirmDeleteChannel_deleted :: "alert_channel \<Rightarrow> alerts \<Rightarrow> alerts" where
  \<comment> \<open>the answer to the request was a success\<close>
  "confirmDeleteChannel_deleted target s =
     ui_update (\<lambda>u. u\<lparr>deletingChannel := False, deleteChannelTarget := None\<rparr>)
       (set_success (''Notification channel \"'' @ ac_name target @ ''\" deleted.'')
         (form_update (\<lambda>f. f\<lparr>selectedChannelIds :=
              filter (\<lambda>i. i \<noteq> ac_id target) (selectedChannelIds f)\<rparr>)
           (data_update (\<lambda>d. d\<lparr>channels := remove_by ac_id (ac_id target) (channels d)\<rparr>) s)))"

definition confirmDeleteChannel_failed :: "thrown \<Rightarrow> alerts \<Rightarrow> alerts" where
  \<comment> \<open>after the rules, channels and servers were loaded again\<close>
  "confirmDeleteChannel_failed error s =
     ui_update (\<lambda>u. u\<lparr>deletingChannel := False\<rparr>)
       (set_error (getApiErrorMessage error ''Unable to delete notification channel.'') s)"

section \<open>Editing a channel\<close>

definition config_string :: "json \<Rightarrow> string \<Rightarrow> string" where
  \<comment> \<open>\<open>typeof cfg.k === 'string' ? cfg.k : ''\<close>\<close>
  "config_string cfg k = (case field cfg k of Some (JStr t) \<Rightarrow> t | _ \<Rightarrow> [])"

definition config_port :: "json \<Rightarrow> string" where
  "config_port cfg =
     (case field cfg ''smtp_port'' of
        Some v \<Rightarrow> if js_truthy (Some v) then to_text v else ''587''
      | None \<Rightarrow> ''587'')"

definition edit_channel_fields :: "alert_channel \<Rightarrow> channel_form \<Rightarrow> channel_form" where
  "edit_channel_fields channel f0 =
     (let cfg = ac_config channel;
          f = f0\<lparr>channelName := ac_name channel, channelType := ac_type channel,
                 channelToken := [], channelWebhook := [], channelSMTPPassword := []\<rparr>;
          plain = f\<lparr>channelChatId := [], channelSMTPHost := [], channelSMTPPort := ''587'',
                    channelSMTPUsername := [], channelEmailFrom := [], channelEmailTo := [],
                    channelUseTLS := False\<rparr>
      in if ac_type channel = ''telegram'' then plain\<lparr>channelChatId := config_string cfg ''chat_id''\<rparr>
         else if ac_type channel = ''discord'' then plain
         else if ac_type channel = ''email'' then
           f\<lparr>channelChatId := [],
             channelSMTPHost := config_string cfg ''smtp_host'',
             channelSMTPPort := config_port cfg,
             channelSMTPUsername := config_string cfg ''username'',
             channelEmailFrom := config_string cfg ''from'',
             channelEmailTo := config_string cfg ''to'',
             channelUseTLS := js_truthy (field cfg ''use_tls'')\<rparr>
         else f)"

definition openEditChannelModal :: "alert_channel \<Rightarrow> alerts \<Rightarrow> alerts" where
  "openEditChannelModal channel s =
     cedit_update (\<lambda>e. e\<lparr>editingChannel := Some channel,
                         editChannel := edit_channel_fields channel (editChannel e)\<rparr>) s"

definition getEditChannelConfig :: "channel_form \<Rightarrow> json" where
  "getEditChannelConfig f =
     (if channelType f = ''telegram'' then
        JObj ([(''chat_id'', JStr (trim (channelChatId f)))] @
              (if trim (channelToken f) \<noteq> [] then [(''bot_token'', JStr (trim (channelToken f)))] else []))
      else if channelType f = ''discord'' then
        JObj (if trim (channelWebhook f) \<noteq> []
              then [(''webhook_url'', JStr (trim (channelWebhook f)))] else [])
      else
        JObj ([(''smtp_host'', JStr (trim (channelSMTPHost f))),
               (''smtp_port'', num_json (smtp_port (channelSMTPPort f))),
               (''username'', JStr (trim (channelSMTPUsername f))),
               (''from'', JStr (trim (channelEmailFrom f))),
               (''to'', JStr (trim (channelEmailTo f))),
               (''use_tls'', JBool (channelUseTLS f))] @
              (if channelSMTPPassword f \<noteq> []
               then [(''password'', JStr (channelSMTPPassword f))] else [])))"

definition saveEditChannel_check :: "channel_form \<Rightarrow> string option" where
  "saveEditChannel_check f =
     (if trim (channelName f) = [] then Some ''Channel display name is required.''
      else if channelType f = ''discord'' \<and> trim (channelWebhook f) \<noteq> [] \<and>
              \<not> discord_url (trim (channelWebhook f)) then Some discord_error
      else if channelType f = ''telegram'' \<and> trim (channelChatId f) = []
      then Some ''Telegram Chat ID is required.''
      else if channelType f = ''email'' \<and> smtp_incomplete f then Some smtp_error
      else None)"

definition handleSaveEditChannel_begin :: "alerts \<Rightarrow> alerts \<times> request option" where
  "handleSaveEditChannel_begin s =
     (case editingChannel (cedit s) of
        None \<Rightarrow> (s, None)
      | Some channel \<Rightarrow>
          if isViewer s then
            (set_error ''Editing notification channels requires Admin or Operator role.'' s, None)
          else
            (let f = editChannel (cedit s)
             in case saveEditChannel_check f of
                  Some m \<Rightarrow> (set_error m s, None)
                | None \<Rightarrow>
                    (set_error [] (cedit_update (\<lambda>e. e\<lparr>savingEditChannel := True\<rparr>) s),
                     Some (request_send ''PUT'' (''/alerts/channels/'' @ ac_id channel)
                       (JObj [(''name'', JStr (trim (channelName f))),
                              (''type'', JStr (channelType f)),
                              (''config'', getEditChannelConfig f)])))))"

record channel_patch =
  \<comment> \<open>the properties present in the answer to the update\<close>
  cp_id :: "string option"
  cp_name :: "string option"
  cp_type :: "string option"
  cp_config :: "json option"
  cp_enabled :: "bool option"
  cp_usage_count :: "nat option"

definition patched :: "'a option \<Rightarrow> 'a \<Rightarrow> 'a" where
  "patched p x = (case p of Some y \<Rightarrow> y | None \<Rightarrow> x)"

definition apply_patch :: "channel_patch \<Rightarrow> alert_channel \<Rightarrow> alert_channel" where
  \<comment> \<open>\<open>{ ...ch, ...updated }\<close>\<close>
  "apply_patch p c =
     \<lparr>ac_id = patched (cp_id p) (ac_id c), ac_name = patched (cp_name p) (ac_name c),
      ac_type = patched (cp_type p) (ac_type c), ac_config = patched (cp_config p) (ac_config c),
      ac_enabled = patched (cp_enabled p) (ac_enabled c),
      ac_usage_count = patched (cp_usage_count p) (ac_usage_count c)\<rparr>"

definition handleSaveEditChannel_finish :: "alerts \<Rightarrow> channel_patch outcome \<Rightarrow> alerts \<Rightarrow> alerts" where
  "handleSaveEditChannel_finish c reply s =
     cedit_update (\<lambda>e. e\<lparr>savingEditChannel := False\<rparr>)
       (case (reply, editingChannel (cedit c)) of
          (Inr updated, Some channel) \<Rightarrow>
            cedit_update (\<lambda>e. e\<lparr>editingChannel := None\<rparr>)
              (set_success (''Notification channel \"'' @ trim (channelName (editChannel (cedit c))) @
                            ''\" updated successfully!'')
                (data_update (\<lambda>d. d\<lparr>channels :=
                    update_by ac_id (ac_id channel) (apply_patch updated) (channels d)\<rparr>) s))
        | (Inl err, _) \<Rightarrow>
            set_error (getApiErrorMessage err ''Failed to update notification channel.'') s
        | (Inr _, None) \<Rightarrow> s)"

definition hasNewSecret :: "channel_form \<Rightarrow> bool" where
  "hasNewSecret f \<longleftrightarrow>
     (channelType f = ''telegram'' \<and> trim (channelToken f) \<noteq> []) \<or>
     (channelType f = ''discord'' \<and> trim (channelWebhook f) \<noteq> []) \<or>
     (channelType f = ''email'' \<and> channelSMTPPassword f \<noteq> [])"

definition testEditChannel_begin :: "alerts \<Rightarrow> alerts \<times> request option" where
  "testEditChannel_begin s =
     (case editingChannel (cedit s) of
        None \<Rightarrow> (s, None)
      | Some channel \<Rightarrow>
          (let f = editChannel (cedit s);
               s0 = cedit_update (\<lambda>e. e\<lparr>testingEditChannel := True\<rparr>) (clear_messages s)
           in if hasNewSecret f then
                (if channelType f = ''discord'' \<and> \<not> discord_url (trim (channelWebhook f))
                 then (cedit_update (\<lambda>e. e\<lparr>testingEditChannel := False\<rparr>) (set_error discord_error s0), None)
                 else (s0, Some (request_send ''POST'' ''/alerts/channels/test''
                         (JObj [(''name'', JStr (str_or (trim (channelName f)) ''Test Channel'')),
                                (''type'', JStr (channelType f)),
                                (''config'', getEditChannelConfig f)]))))
              else (s0, Some (request_bare ''POST'' (''/alerts/channels/'' @ ac_id channel @ ''/test'')))))"

definition testEditChannel_finish :: "alerts \<Rightarrow> unit outcome \<Rightarrow> alerts \<Rightarrow> alerts" where
  "testEditChannel_finish c reply s =
     cedit_update (\<lambda>e. e\<lparr>testingEditChannel := False\<rparr>)
       (case reply of
          Inr _ \<Rightarrow>
            set_success (''Test notification sent successfully to \"'' @
              (case editingChannel (cedit c) of
                 Some ch \<Rightarrow> str_or (channelName (editChannel (cedit c))) (ac_name ch)
               | None \<Rightarrow> channelName (editChannel (cedit c))) @ ''\"!'') s
        | Inl error \<Rightarrow> set_error (getApiErrorMessage error
            ''Failed to send test notification. Please verify channel configuration.'') s)"

section \<open>Properties\<close>

definition secret_keys :: "string list" where
  "secret_keys = [''bot_token'', ''webhook_url'', ''password'']"

lemma edit_channel_fields_secrets:
  "channelToken (edit_channel_fields c f) = []" "channelWebhook (edit_channel_fields c f) = []"
  "channelSMTPPassword (edit_channel_fields c f) = []"
  "channelName (edit_channel_fields c f) = ac_name c"
  "channelType (edit_channel_fields c f) = ac_type c"
  by (simp_all add: edit_channel_fields_def Let_def)

lemma edit_config_no_secret:
  assumes "trim (channelToken f) = []" "trim (channelWebhook f) = []" "channelSMTPPassword f = []"
    and "k \<in> set secret_keys"
  shows "field (getEditChannelConfig f) k = None"
  using assms by (auto simp: getEditChannelConfig_def secret_keys_def)

lemma saveEditChannel_Some:
  "handleSaveEditChannel_begin s = (s', Some rq) \<longleftrightarrow>
     (\<exists>channel. editingChannel (cedit s) = Some channel \<and> \<not> isViewer s \<and>
        saveEditChannel_check (editChannel (cedit s)) = None \<and>
        s' = set_error [] (cedit_update (\<lambda>e. e\<lparr>savingEditChannel := True\<rparr>) s) \<and>
        rq = request_send ''PUT'' (''/alerts/channels/'' @ ac_id channel)
               (JObj [(''name'', JStr (trim (channelName (editChannel (cedit s))))),
                      (''type'', JStr (channelType (editChannel (cedit s)))),
                      (''config'', getEditChannelConfig (editChannel (cedit s)))]))"
  by (auto simp: handleSaveEditChannel_begin_def Let_def split: option.split)

definition secrets_untyped :: "channel_form \<Rightarrow> bool" where
  "secrets_untyped f \<longleftrightarrow>
     trim (channelToken f) = [] \<and> trim (channelWebhook f) = [] \<and> channelSMTPPassword f = []"

lemma open_untyped: "secrets_untyped (editChannel (cedit (openEditChannelModal channel s)))"
  by (simp add: secrets_untyped_def openEditChannelModal_def edit_channel_fields_secrets)

text \<open>
  Stored secrets survive an edit: opening the edit modal shows none, and until the user
  types a new secret a save mentions no secret key, so the API keeps the stored ones, and the
  test button exercises the stored channel instead of a configuration that lacks its secret.
\<close>

theorem edit_keeps_stored_secrets:
  assumes "editingChannel (cedit s) = Some channel"
    and "secrets_untyped (editChannel (cedit s))"
  shows "(\<forall>s' rq k. handleSaveEditChannel_begin s = (s', Some rq) \<and> k \<in> set secret_keys \<longrightarrow>
            (\<exists>cfg. body_field rq ''config'' = Some cfg \<and> field cfg k = None)) \<and>
         snd (testEditChannel_begin s) =
           Some (request_bare ''POST'' (''/alerts/channels/'' @ ac_id channel @ ''/test'')) \<and>
         secrets_untyped (editChannel (cedit (openEditChannelModal c s)))"
proof (intro conjI allI impI)
  have untyped: "\<not> hasNewSecret (editChannel (cedit s))"
    using assms(2) by (auto simp: hasNewSecret_def secrets_untyped_def)
  then show "snd (testEditChannel_begin s) =
      Some (request_bare ''POST'' (''/alerts/channels/'' @ ac_id channel @ ''/test''))"
    by (simp add: testEditChannel_begin_def assms(1) Let_def)
  fix s' rq k
  assume "handleSaveEditChannel_begin s = (s', Some rq) \<and> k \<in> set secret_keys"
  moreover have "k \<in> set secret_keys \<Longrightarrow> field (getEditChannelConfig (editChannel (cedit s))) k = None"
    using assms(2) by (intro edit_config_no_secret) (simp_all add: secrets_untyped_def)
  ultimately show "\<exists>cfg. body_field rq ''config'' = Some cfg \<and> field cfg k = None"
    by (auto simp: saveEditChannel_Some)
qed (rule open_untyped)

definition demo_channel :: alert_channel where
  "demo_channel =
     \<lparr>ac_id = ''c1'', ac_name = ''ops'', ac_type = ''telegram'',
      ac_config = JObj [(''chat_id'', JStr ''42'')], ac_enabled = True, ac_usage_count = 0\<rparr>"

theorem edit_keeps_stored_secrets_witness:
  "\<exists>s' rq cfg. handleSaveEditChannel_begin (openEditChannelModal demo_channel (init_alerts ''admin'')) =
       (s', Some rq) \<and> body_field rq ''config'' = Some cfg \<and>
     field cfg ''chat_id'' = Some (JStr ''42'') \<and> field cfg ''bot_token'' = None"
proof -
  let ?s = "openEditChannelModal demo_channel (init_alerts ''admin'')"
  have ed: "editingChannel (cedit ?s) = Some demo_channel"
    by (simp add: openEditChannelModal_def)
  have f: "editChannel (cedit ?s) = edit_channel_fields demo_channel init_channel_form"
    by (simp add: openEditChannelModal_def init_alerts_def)
  have "saveEditChannel_check (edit_channel_fields demo_channel init_channel_form) = None"
    and cfg: "getEditChannelConfig (edit_channel_fields demo_channel init_channel_form) =
           JObj [(''chat_id'', JStr ''42'')]"
    by code_simp+
  moreover have "\<not> isViewer ?s"
    by (simp add: isViewer_def openEditChannelModal_def init_alerts_def)
  ultimately obtain s' rq where b: "handleSaveEditChannel_begin ?s = (s', Some rq)"
    by (auto simp: saveEditChannel_Some ed f)
  with edit_keeps_stored_secrets [OF ed open_untyped] obtain c
    where "body_field rq ''config'' = Some c" "field c ''bot_token'' = None"
    by (auto simp: secret_keys_def)
  with b show ?thesis by (auto simp: saveEditChannel_Some f cfg)
qed

text \<open>
  A viewer cannot delete or edit from this page: for the viewer role no state of the page
  makes the delete or the save buttons issue a request, the lists stay as they are, and an
  open delete confirmation is closed with an explanation.
\<close>

theorem viewer_sends_no_write:
  assumes "isViewer s"
  shows "snd (confirmDeleteRule_begin s) = None \<and> snd (confirmDeleteChannel_begin s) = None \<and>
         snd (handleSaveEditChannel_begin s) = None \<and>
         data (fst (confirmDeleteRule_begin s)) = data s \<and>
         data (fst (confirmDeleteChannel_begin s)) = data s \<and>
         deleteRuleTarget (ui (fst (confirmDeleteRule_begin s))) = None \<and>
         deleteChannelTarget (ui (fst (confirmDeleteChannel_begin s))) = None \<and>
         request_delete_channel channel s = s"
  using assms
  by (auto simp: confirmDeleteRule_begin_def confirmDeleteChannel_begin_def
      handleSaveEditChannel_begin_def request_delete_channel_def set_error_def split: option.splits)

theorem viewer_sends_no_write_witness:
  "snd (confirmDeleteRule_begin (ui_update (\<lambda>u. u\<lparr>deleteRuleTarget := Some (demo_rule ''r'' ''n'')\<rparr>)
     (init_alerts ''viewer''))) = None"
  using viewer_sends_no_write
    [of "ui_update (\<lambda>u. u\<lparr>deleteRuleTarget := Some (demo_rule ''r'' ''n'')\<rparr>) (init_alerts ''viewer'')"]
  by (simp add: isViewer_def init_alerts_def)

text \<open>
  Deleting a channel is complete and exact: after the API confirmed it, the channel is
  gone from the list and from the selection of the create form, and every other channel and
  selected id is still there, in order; a channel linked to a rule never gets that far.
\<close>

theorem delete_channel_exact:
  "channels (data (confirmDeleteChannel_deleted target s)) =
     filter (\<lambda>c. ac_id c \<noteq> ac_id target) (channels (data s)) \<and>
   ac_id target \<notin> set (selectedChannelIds (form (confirmDeleteChannel_deleted target s))) \<and>
   (set (selectedChannelIds (form s)) \<subseteq> ac_id ` set (channels (data s)) \<longrightarrow>
      set (selectedChannelIds (form (confirmDeleteChannel_deleted target s))) \<subseteq>
        ac_id ` set (channels (data (confirmDeleteChannel_deleted target s)))) \<and>
   (ac_usage_count channel > 0 \<longrightarrow>
      deleteChannelTarget (ui (request_delete_channel channel s)) = deleteChannelTarget (ui s))"
  by (auto simp: confirmDeleteChannel_deleted_def remove_by_def request_delete_channel_def
      set_success_def set_error_def)

definition demo_channels :: alerts where
  "demo_channels =
     form_update (\<lambda>f. f\<lparr>selectedChannelIds := [''c2'', ''c1'']\<rparr>)
       (data_update (\<lambda>d. d\<lparr>channels := [demo_channel, demo_channel\<lparr>ac_id := ''c2''\<rparr>]\<rparr>)
         (init_alerts ''admin''))"

theorem delete_channel_exact_witness:
  "map ac_id (channels (data (confirmDeleteChannel_deleted demo_channel demo_channels))) = [''c2''] \<and>
   set (selectedChannelIds (form (confirmDeleteChannel_deleted demo_channel demo_channels))) \<subseteq> {''c2''}"
proof -
  let ?t = "confirmDeleteChannel_deleted demo_channel demo_channels"
  have sel: "set (selectedChannelIds (form demo_channels)) \<subseteq> ac_id ` set (channels (data demo_channels))"
    and rest: "filter (\<lambda>c. ac_id c \<noteq> ac_id demo_channel) (channels (data demo_channels)) =
           [demo_channel\<lparr>ac_id := ''c2''\<rparr>]"
    by (simp_all add: demo_channels_def demo_channel_def)
  note facts = delete_channel_exact [of demo_channel demo_channels demo_channel]
  have "channels (data ?t) = [demo_channel\<lparr>ac_id := ''c2''\<rparr>]"
    using facts rest by simp
  moreover from this have "set (selectedChannelIds (form ?t)) \<subseteq> {''c2''}"
    using facts sel by (metis (no_types, lifting) alert_channel.select_convs(1) alert_channel.update_convs(1)
        image_empty image_insert list.set(1) list.set(2) alert_channel.surjective)
  ultimately show ?thesis by simp
qed

end
