(* ===== verification/AlertIncidents.thy ===== *)
theory AlertIncidents
  imports AlertChannels
begin

text \<open>
  The incident timeline of the Alert Center and the loading of the page (\<open>alerts/page.tsx\<close>):
  the unread counter and the read marks, what a card shows, the six fetches and
  \<open>refreshAllData\<close>.  \<open>now\<close> stands for \<open>new Date().toISOString()\<close> and \<open>fmt\<close> for the
  formatting of a timestamp in the local time zone.
\<close>

section \<open>Loading the page\<close>

definition fetchChannels_finish :: "alert_channel list option outcome \<Rightarrow> alerts \<Rightarrow> alerts" where
  "fetchChannels_finish reply s =
     (case reply of
        Inr d \<Rightarrow> data_update (\<lambda>x. x\<lparr>channels := or_empty d\<rparr>) s
      | Inl error \<Rightarrow> set_error (getApiErrorMessage error ''Unable to load notification channels.'') s)"

definition fetchServers_finish :: "alert_server list option outcome \<Rightarrow> alerts \<Rightarrow> alerts" where
  "fetchServers_finish reply s =
     (case reply of
        Inr d \<Rightarrow> data_update (\<lambda>x. x\<lparr>servers := or_empty d\<rparr>) s
      | Inl error \<Rightarrow> set_error (getApiErrorMessage error ''Unable to load servers.'') s)"

definition fetchWebsites_finish :: "alert_website list option outcome \<Rightarrow> alerts \<Rightarrow> alerts" where
  "fetchWebsites_finish reply s =
     (case reply of
        Inr d \<Rightarrow> data_update (\<lambda>x. x\<lparr>websites := or_empty d\<rparr>) s
      | Inl error \<Rightarrow> s)"

definition fetchNetworkTargets_finish :: "network_target list option outcome \<Rightarrow> alerts \<Rightarrow> alerts" where
  "fetchNetworkTargets_finish reply s =
     (case reply of
        Inr d \<Rightarrow> data_update (\<lambda>x. x\<lparr>networkTargets := or_empty d\<rparr>) s
      | Inl error \<Rightarrow> s)"

record incident_page =
  ip_items :: "incident list option"
  ip_unread_count :: "int option"

definition fetchIncidents_begin :: "alerts \<Rightarrow> alerts \<times> request" where
  "fetchIncidents_begin s =
     (ui_update (\<lambda>u. u\<lparr>loadingIncidents := True\<rparr>) s,
      request_get ''/alerts/notifications?limit=50'')"

definition fetchIncidents_finish :: "incident_page option outcome \<Rightarrow> alerts \<Rightarrow> alerts" where
  "fetchIncidents_finish reply s =
     ui_update (\<lambda>u. u\<lparr>loadingIncidents := False\<rparr>)
       (case reply of
          Inr page \<Rightarrow>
            data_update (\<lambda>d. d\<lparr>
              incidents := (case Option.bind page ip_items of Some xs \<Rightarrow> xs | None \<Rightarrow> []),
              unreadIncidentsCount :=
                (case Option.bind page ip_unread_count of Some n \<Rightarrow> n | None \<Rightarrow> 0)\<rparr>) s
        | Inl error \<Rightarrow> s)"

datatype load =
    LoadRules "alert_rule list option outcome"
  | LoadChannels "alert_channel list option outcome"
  | LoadServers "alert_server list option outcome"
  | LoadWebsites "alert_website list option outcome"
  | LoadIncidents "incident_page option outcome"
  | LoadTargets "network_target list option outcome"

fun apply_load :: "load \<Rightarrow> alerts \<Rightarrow> alerts" where
  "apply_load (LoadRules r) s = fetchRules_finish r s"
| "apply_load (LoadChannels r) s = fetchChannels_finish r s"
| "apply_load (LoadServers r) s = fetchServers_finish r s"
| "apply_load (LoadWebsites r) s = fetchWebsites_finish r s"
| "apply_load (LoadIncidents r) s = fetchIncidents_finish r s"
| "apply_load (LoadTargets r) s = fetchNetworkTargets_finish r s"

definition refreshAllData :: "load list \<Rightarrow> alerts \<Rightarrow> alerts" where
  \<comment> \<open>the answers in the order they arrive; \<open>Promise.all\<close> waits for all six\<close>
  "refreshAllData answers s =
     ui_update (\<lambda>u. u\<lparr>refreshing := False\<rparr>)
       (set_success ''Alert Center data refreshed.''
         (fold apply_load answers
           (fst (fetchIncidents_begin (ui_update (\<lambda>u. u\<lparr>refreshing := True\<rparr>) s)))))"

definition loadData :: "load list \<Rightarrow> alerts \<Rightarrow> alerts" where
  \<comment> \<open>the effect of the first render\<close>
  "loadData answers s =
     ui_update (\<lambda>u. u\<lparr>loading := False\<rparr>)
       (fold apply_load answers (fst (fetchIncidents_begin s)))"

section \<open>Read marks\<close>

definition is_unread :: "incident \<Rightarrow> bool" where
  "is_unread item \<longleftrightarrow> \<not> truthy (in_read_at item)"

definition unread_items :: "alerts \<Rightarrow> nat" where
  "unread_items s = length (filter is_unread (incidents (data s)))"

definition markAllIncidentsRead_finish :: "string \<Rightarrow> unit outcome \<Rightarrow> alerts \<Rightarrow> alerts" where
  "markAllIncidentsRead_finish now reply s =
     (case reply of
        Inr _ \<Rightarrow>
          set_success ''All notifications marked as read.''
            (data_update (\<lambda>d. d\<lparr>incidents := map (mark_read now) (incidents d),
                               unreadIncidentsCount := 0\<rparr>) s)
      | Inl error \<Rightarrow> set_error (getApiErrorMessage error ''Unable to update notification status.'') s)"

definition markIncidentRead_request :: "string \<Rightarrow> request" where
  "markIncidentRead_request i = request_bare ''PATCH'' (''/alerts/notifications/'' @ i @ ''/read'')"

definition markIncidentRead_finish :: "string \<Rightarrow> string \<Rightarrow> unit outcome \<Rightarrow> alerts \<Rightarrow> alerts" where
  "markIncidentRead_finish now i reply s =
     (case reply of
        Inr _ \<Rightarrow>
          data_update (\<lambda>d. d\<lparr>incidents := update_by in_id i (mark_read now) (incidents d),
                             unreadIncidentsCount := max 0 (unreadIncidentsCount d - 1)\<rparr>) s
      | Inl error \<Rightarrow> s)"

section \<open>What the timeline shows\<close>

definition shown_incidents :: "alerts \<Rightarrow> incident list" where
  "shown_incidents s =
     filter (\<lambda>item. case incidentFilter (filters s) of
               IncidentUnread \<Rightarrow> is_unread item
             | IncidentRead \<Rightarrow> \<not> is_unread item
             | IncidentAll \<Rightarrow> True) (incidents (data s))"

definition isFiring :: "incident \<Rightarrow> bool" where
  "isFiring i \<longleftrightarrow> in_kind i = ''alert_firing'' \<or> in_severity i = ''critical'' \<or> in_kind i = ''website_down''"

definition activeFiringCount :: "alerts \<Rightarrow> nat" where
  "activeFiringCount s = length (filter (\<lambda>i. isFiring i \<and> is_unread i) (incidents (data s)))"

record incident_card =
  card_isFiring :: bool
  card_isResolved :: bool
  card_isReminder :: bool
  card_isTest :: bool
  card_serverName :: string
  card_ruleName :: string
  card_failedAt :: string
  card_recoveredAt :: string
  card_downtime :: string

definition incident_card_of :: "(string \<Rightarrow> string) \<Rightarrow> incident \<Rightarrow> incident_card" where
  "incident_card_of fmt item =
     (let md = in_metadata item;
          firing = isFiring item;
          resolved = (in_kind item = ''alert_resolved'' \<or> in_severity item = ''resolved'' \<or>
                      in_kind item = ''website_up'');
          test = (in_kind item = ''test_alert'')
      in \<lparr>card_isFiring = firing, card_isResolved = resolved,
          card_isReminder = (in_kind item = ''alert_reminder''), card_isTest = test,
          card_serverName = opt_or (in_server_name item)
             (opt_or (Option.bind md md_server_name) ''Control Plane''),
          card_ruleName = opt_or (in_rule_name item)
             (opt_or (Option.bind md md_rule_name)
                (if test then ''Test Alert''
                 else if firing \<or> resolved then ''Systemd Service Alert'' else ''System Alert'')),
          card_failedAt = opt_or (Option.bind md md_failed_at) (fmt (in_created_at item)),
          card_recoveredAt = opt_or (Option.bind md md_recovered_at)
             (if resolved then fmt (in_created_at item) else []),
          card_downtime = opt_or (Option.bind md md_downtime_duration) ''1m''\<rparr>)"

section \<open>Properties\<close>

lemma mark_read_read [simp]: "now \<noteq> [] \<Longrightarrow> \<not> is_unread (mark_read now item)"
  by (simp add: is_unread_def mark_read_def)

lemma count_after_mark:
  assumes "distinct (map in_id xs)" and "now \<noteq> []"
  shows "length (filter is_unread (update_by in_id i (mark_read now) xs)) =
         length (filter is_unread xs) -
         (case find_by in_id i xs of Some x \<Rightarrow> if is_unread x then 1 else 0 | None \<Rightarrow> 0)"
  by (rule incident_list.count_merged [OF assms(1)]) (simp add: assms(2))

text \<open>
  Read marks and counter agree: marking an unread incident lowers the counter and the
  number of unread cards by one each, so a counter that was right stays right, and marking all
  leaves none unread and the counter at zero, with the incidents themselves unchanged.
\<close>

theorem mark_read_counts:
  assumes "now \<noteq> []" and "distinct (map in_id (incidents (data s)))"
    and "find_by in_id i (incidents (data s)) = Some item" and "is_unread item"
    and "int (unread_items s) \<le> unreadIncidentsCount (data s)"
  defines "t \<equiv> markIncidentRead_finish now i (Inr ()) s"
    and "u \<equiv> markAllIncidentsRead_finish now (Inr ()) s"
  shows "unreadIncidentsCount (data t) = unreadIncidentsCount (data s) - 1 \<and>
         unread_items t = unread_items s - 1 \<and>
         unreadIncidentsCount (data u) = 0 \<and> unread_items u = 0 \<and>
         map in_id (incidents (data t)) = map in_id (incidents (data s)) \<and>
         map in_id (incidents (data u)) = map in_id (incidents (data s))"
proof -
  have pos: "0 < unread_items s"
    using find_by_Some [OF assms(3)] assms(4) by (auto simp: unread_items_def filter_empty_conv)
  then have "unreadIncidentsCount (data t) = unreadIncidentsCount (data s) - 1"
    using assms(5) by (simp add: t_def markIncidentRead_finish_def)
  moreover have "unread_items t = unread_items s - 1"
    using count_after_mark [OF assms(2,1), of i] assms(3,4)
    by (simp add: t_def markIncidentRead_finish_def unread_items_def)
  moreover have "unread_items u = 0"
    using assms(1) by (simp add: u_def markAllIncidentsRead_finish_def unread_items_def filter_empty_conv)
  moreover have "map in_id (incidents (data u)) = map in_id (incidents (data s))"
    by (simp add: u_def markAllIncidentsRead_finish_def mark_read_def)
  ultimately show ?thesis
    by (simp add: t_def u_def markIncidentRead_finish_def markAllIncidentsRead_finish_def
        incident_list.map_ident_update)
qed

definition demo_incident :: "string \<Rightarrow> incident" where
  "demo_incident i =
     \<lparr>in_id = i, in_kind = ''alert_firing'', in_severity = ''critical'', in_title = ''t'', in_message = ''m'',
      in_server_name = None, in_rule_name = None, in_metadata = None, in_read_at = None,
      in_created_at = ''2026-01-01''\<rparr>"

definition demo_incidents :: alerts where
  "demo_incidents =
     data_update (\<lambda>d. d\<lparr>incidents := [demo_incident ''i1'', demo_incident ''i2''],
                         unreadIncidentsCount := 2\<rparr>) (init_alerts ''admin'')"

theorem mark_read_counts_witness:
  "unreadIncidentsCount (data (markIncidentRead_finish ''now'' ''i2'' (Inr ()) demo_incidents)) = 1 \<and>
   unread_items (markIncidentRead_finish ''now'' ''i2'' (Inr ()) demo_incidents) = 1"
proof -
  have facts: "incidents (data demo_incidents) = [demo_incident ''i1'', demo_incident ''i2'']"
    "unreadIncidentsCount (data demo_incidents) = 2" "unread_items demo_incidents = 2"
    by (simp_all add: demo_incidents_def unread_items_def is_unread_def demo_incident_def)
  have "unreadIncidentsCount (data (markIncidentRead_finish ''now'' ''i2'' (Inr ()) demo_incidents)) = 2 - 1 \<and>
        unread_items (markIncidentRead_finish ''now'' ''i2'' (Inr ()) demo_incidents) = 2 - 1"
    using mark_read_counts [of "''now''" demo_incidents "''i2''" "demo_incident ''i2''"]
    by (simp add: facts) (simp add: demo_incident_def is_unread_def)
  then show ?thesis by simp
qed

text \<open>
  The counter drifts when the same incident is marked twice: the button stays usable while
  the first request runs, and the second answer lowers the counter again although the card is
  already read, so with two incidents unread the counter reports none while one still is.
\<close>

theorem double_mark_drifts:
  assumes "now \<noteq> []" and "distinct (map in_id (incidents (data s)))"
    and "find_by in_id i (incidents (data s)) = Some item" and "is_unread item"
    and "unreadIncidentsCount (data s) = int (unread_items s)" and "unread_items s \<ge> 2"
  defines "t \<equiv> markIncidentRead_finish now i (Inr ()) (markIncidentRead_finish now i (Inr ()) s)"
  shows "unread_items t = unread_items s - 1 \<and>
         unreadIncidentsCount (data t) = int (unread_items t) - 1"
proof -
  let ?u = "markIncidentRead_finish now i (Inr ()) s"
  have one: "unread_items ?u = unread_items s - 1"
    using count_after_mark [OF assms(2,1), of i] assms(3,4)
    by (simp add: markIncidentRead_finish_def unread_items_def)
  have "distinct (map in_id (incidents (data ?u)))"
    using incident_list.distinct_update [OF assms(2)] by (simp add: markIncidentRead_finish_def)
  moreover have "find_by in_id i (incidents (data ?u)) = Some (mark_read now item)"
    using assms(3) by (simp add: markIncidentRead_finish_def incident_list.find_update)
  ultimately have "unread_items t = unread_items ?u"
    using count_after_mark [of "incidents (data ?u)" now i] assms(1)
    by (simp add: t_def markIncidentRead_finish_def [of _ _ _ ?u] unread_items_def)
  with one assms(5,6) show ?thesis
    by (simp add: t_def markIncidentRead_finish_def)
qed

theorem double_mark_drifts_witness:
  "\<exists>t. t = markIncidentRead_finish ''now'' ''i2'' (Inr ())
             (markIncidentRead_finish ''now'' ''i2'' (Inr ()) demo_incidents) \<and>
     unread_items t = 1 \<and> unreadIncidentsCount (data t) = 0"
proof -
  have facts: "incidents (data demo_incidents) = [demo_incident ''i1'', demo_incident ''i2'']"
    "unreadIncidentsCount (data demo_incidents) = 2" "unread_items demo_incidents = 2"
    by (simp_all add: demo_incidents_def unread_items_def is_unread_def demo_incident_def)
  show ?thesis
    using double_mark_drifts [of "''now''" demo_incidents "''i2''" "demo_incident ''i2''"]
    by (simp add: facts) (simp add: demo_incident_def is_unread_def)
qed

end
