(* ===== verification/JsNumber.thy ===== *)
theory JsNumber
  imports JsJson
begin

text \<open>
  The numeric conversions of the charts and tables: \<open>Number(v)\<close> on an API value,
  \<open>toFixed\<close>, \<open>Math.round\<close>, \<open>Math.min\<close> and \<open>Math.max\<close> over a list and the stable numeric sorts.
  Finite numbers are exact rationals: the rounding of a double below the printed decimals
  is not modelled.
\<close>

definition js_number :: "json option \<Rightarrow> jsnum" where
  \<comment> \<open>\<open>Number(v)\<close>; \<open>None\<close> is undefined\<close>
  "js_number v =
     (case v of
        None \<Rightarrow> NaN
      | Some JNull \<Rightarrow> Fin 0
      | Some (JBool b) \<Rightarrow> Fin (if b then 1 else 0)
      | Some (JNum q) \<Rightarrow> Fin q
      | Some j \<Rightarrow> to_number (to_text j))"

definition finite_number :: "json option \<Rightarrow> rat option" where
  \<comment> \<open>\<open>Number(v)\<close> where \<open>Number.isFinite\<close> holds of it\<close>
  "finite_number v = (case js_number v of Fin q \<Rightarrow> Some q | _ \<Rightarrow> None)"

definition nullish :: "json option \<Rightarrow> bool" where
  \<comment> \<open>\<open>v == null\<close>\<close>
  "nullish v \<longleftrightarrow> v = None \<or> v = Some JNull"

lemma finite_number_simps [simp]:
  "finite_number None = None"
  "finite_number (Some JNull) = Some 0"
  "finite_number (Some (JNum q)) = Some q"
  by (simp_all add: finite_number_def js_number_def)

lemma nullish_simps [simp]:
  "nullish None" "nullish (Some JNull)" "\<not> nullish (Some (JNum q))" "\<not> nullish (Some (JStr s))"
  by (simp_all add: nullish_def)

definition js_round :: "rat \<Rightarrow> int" where
  \<comment> \<open>\<open>Math.round\<close>: halves go up\<close>
  "js_round q = \<lfloor>q + 1 / 2\<rfloor>"

definition fixed :: "nat \<Rightarrow> rat \<Rightarrow> rat" where
  \<comment> \<open>\<open>Number(q.toFixed(n))\<close>: the nearest multiple, halves away from zero\<close>
  "fixed n q =
     (if q < 0 then - (of_int (js_round (- q * 10 ^ n)) / 10 ^ n)
      else of_int (js_round (q * 10 ^ n)) / 10 ^ n)"

definition show_fixed :: "nat \<Rightarrow> rat \<Rightarrow> string" where
  \<comment> \<open>\<open>q.toFixed(n)\<close>, with all its decimals\<close>
  "show_fixed n q =
     (let m = js_round (\<bar>q\<bar> * 10 ^ n); p = 10 ^ n; ds = show_nat (nat (m mod p))
      in (if q < 0 then ''-'' else []) @ show_nat (nat (m div p)) @
         (if n = 0 then [] else CHR ''.'' # replicate (n - length ds) CHR ''0'' @ ds))"

lemma js_round_bounds: "of_int (js_round q) \<le> q + 1 / 2" "q - 1 / 2 < of_int (js_round q)"
  unfolding js_round_def by linarith+

lemma js_round_of_int [simp]: "js_round (of_int i) = i"
  unfolding js_round_def by linarith

lemma js_round_nonneg: "0 \<le> q \<Longrightarrow> 0 \<le> js_round q"
  unfolding js_round_def by linarith

lemma js_round_mono: "p \<le> q \<Longrightarrow> js_round p \<le> js_round q"
  unfolding js_round_def by (rule floor_mono) simp

lemma fixed_nonneg [simp]: "0 \<le> q \<Longrightarrow> 0 \<le> fixed n q"
  by (simp add: fixed_def js_round_nonneg)

lemma js_round_literals [simp]: "js_round 0 = 0" "js_round 1 = 1" "js_round (numeral k) = numeral k"
  using js_round_of_int [of 0] js_round_of_int [of 1] js_round_of_int [of "numeral k"] by simp_all

lemma fixed_0 [simp]: "fixed n 0 = 0"
  by (simp add: fixed_def)

text \<open>\<open>toFixed\<close> moves a number by at most half a unit of its last decimal.\<close>

lemma fixed_error: "\<bar>fixed n q - q\<bar> \<le> 1 / (2 * 10 ^ n)"
proof -
  define p :: rat where "p = 10 ^ n"
  have p: "p > 0" by (simp add: p_def)
  have near: "\<bar>of_int (js_round (x * p)) / p - x\<bar> \<le> 1 / (2 * p)" for x
  proof -
    have "\<bar>of_int (js_round (x * p)) - x * p\<bar> \<le> 1 / 2"
      using js_round_bounds [of "x * p"] by linarith
    moreover have "of_int (js_round (x * p)) - x * p = (of_int (js_round (x * p)) / p - x) * p"
      using p by (simp add: left_diff_distrib)
    ultimately have "\<bar>of_int (js_round (x * p)) / p - x\<bar> * p \<le> 1 / 2"
      using p by (simp add: abs_mult)
    with p show ?thesis by (simp add: pos_le_divide_eq algebra_simps)
  qed
  show ?thesis
  proof (cases "q < 0")
    case True
    then show ?thesis using near [of "- q"] by (simp add: fixed_def p_def [symmetric] abs_minus_commute)
  next
    case False
    then show ?thesis using near [of q] by (simp add: fixed_def p_def [symmetric])
  qed
qed

lemma fixed_le: "fixed n q \<le> q + 1 / (2 * 10 ^ n)"
  using fixed_error [of n q] by (simp add: abs_le_iff)

lemma fixed_ge: "q - 1 / (2 * 10 ^ n) \<le> fixed n q"
  using fixed_error [of n q] by (simp add: abs_le_iff)

text \<open>Numbers that already have at most \<open>n\<close> decimals are left alone.\<close>

definition decimals :: "nat \<Rightarrow> rat \<Rightarrow> bool" where
  "decimals n q \<longleftrightarrow> (\<exists>i. q = of_int i / 10 ^ n)"

lemma decimals_fixed [simp]: "decimals n (fixed n q)"
proof (cases "q < 0")
  case True
  then show ?thesis
    by (auto simp: decimals_def fixed_def intro!: exI [of _ "- js_round (- q * 10 ^ n)"])
next
  case False
  then show ?thesis by (auto simp: decimals_def fixed_def)
qed

lemma fixed_decimals: "decimals n q \<Longrightarrow> fixed n q = q"
proof -
  assume "decimals n q"
  then obtain i where q: "q = of_int i / 10 ^ n" by (auto simp: decimals_def)
  then have "q * 10 ^ n = of_int i" by simp
  moreover from this have "- q * 10 ^ n = of_int (- i)" by simp
  ultimately have "js_round (q * 10 ^ n) = i" "js_round (- q * 10 ^ n) = - i"
    by (simp_all only: js_round_of_int)
  then show ?thesis using q by (simp add: fixed_def)
qed

lemma fixed_fixed [simp]: "fixed n (fixed n q) = fixed n q"
  by (rule fixed_decimals) simp

lemma decimals_add: "decimals n p \<Longrightarrow> decimals n q \<Longrightarrow> decimals n (p + q)"
  unfolding decimals_def by (metis add_divide_distrib of_int_add)

lemma decimals_diff: "decimals n p \<Longrightarrow> decimals n q \<Longrightarrow> decimals n (p - q)"
  unfolding decimals_def by (metis diff_divide_distrib of_int_diff)

lemma decimals_0 [simp]: "decimals n 0"
  by (auto simp: decimals_def intro!: exI [of _ 0])

lemma decimals_sum_list: "(\<And>x. x \<in> set xs \<Longrightarrow> decimals n x) \<Longrightarrow> decimals n (sum_list xs)"
  by (induction xs) (auto intro: decimals_add)

section \<open>Printing a number and reading it back\<close>

lemma decimals_int: "decimals n (of_int i)"
  unfolding decimals_def by (rule exI [of _ "i * 10 ^ n"]) simp

lemma decimals_step:
  assumes "decimals (Suc n) f" shows "decimals n (10 * f - of_int i)"
proof -
  obtain j where "f = of_int j / 10 ^ Suc n" using assms by (auto simp: decimals_def)
  then have "decimals n (10 * f)" by (auto simp: decimals_def)
  then show ?thesis by (rule decimals_diff) (rule decimals_int)
qed

lemma next_digit:
  fixes f :: rat
  assumes "0 \<le> f" and "f < 1"
  shows "0 \<le> \<lfloor>10 * f\<rfloor>" and "\<lfloor>10 * f\<rfloor> < 10"
    and "0 \<le> 10 * f - of_int \<lfloor>10 * f\<rfloor>" and "10 * f - of_int \<lfloor>10 * f\<rfloor> < 1"
  using assms by linarith+

lemma frac_digits_value:
  assumes "0 \<le> f" and "f < 1" and "decimals n f"
  shows "of_int (digits_val_acc a (frac_digits n f)) = (of_int a + f) * 10 ^ length (frac_digits n f)"
  using assms
proof (induction n arbitrary: f a)
  case 0
  then obtain i :: int where "f = of_int i" by (auto simp: decimals_def)
  with 0 have "f = 0" by simp
  then show ?case by simp
next
  case (Suc n)
  define d f' where "d = \<lfloor>10 * f\<rfloor>" and "f' = 10 * f - of_int d"
  have "of_int (digits_val_acc (10 * a + d) (frac_digits n f')) =
          (of_int (10 * a + d) + f') * 10 ^ length (frac_digits n f')"
    using Suc.IH [of f' "10 * a + d"] next_digit [OF Suc.prems(1,2)] decimals_step [OF Suc.prems(3)]
    by (simp add: d_def f'_def)
  moreover have "of_int (10 * a + d) + f' = 10 * (of_int a + f)" by (simp add: f'_def)
  ultimately have "of_int (digits_val_acc (10 * a + d) (frac_digits n f')) =
      (of_int a + f) * 10 ^ Suc (length (frac_digits n f'))" by simp
  moreover have "frac_digits (Suc n) f = (if f = 0 then [] else digit_char d # frac_digits n f')"
    by (simp add: d_def f'_def)
  moreover have "digit_of (digit_char d) = d"
    using next_digit [OF Suc.prems(1,2)] by (simp add: d_def)
  ultimately show ?case by (simp add: mult.commute)
qed

lemma frac_digits_digits:
  assumes "0 \<le> f" and "f < 1"
  shows "\<forall>c \<in> set (frac_digits n f). is_digit c"
  using assms
proof (induction n arbitrary: f)
  case (Suc n)
  then show ?case using next_digit [OF Suc.prems] Suc.IH [of "10 * f - of_int \<lfloor>10 * f\<rfloor>"] by simp
qed simp

lemma parse_plain_decimal:
  assumes "\<forall>c \<in> set fd. is_digit c"
  shows "parse_float (show_nat i @ (if fd = [] then [] else CHR ''.'' # fd)) =
           Fin (of_int (digits_val_acc (int i) fd) * pow10 (- int (length fd)))"
proof -
  define r where "r = (if fd = [] then [] else CHR ''.'' # fd)"
  have nd: "r = [] \<or> \<not> is_digit (hd r)" by (simp add: r_def is_digit_def char_code_def)
  have tw: "takeWhile is_digit (show_nat i @ r) = show_nat i" "dropWhile is_digit (show_nat i @ r) = r"
    using nd show_nat_digits [of i] by (cases r; simp add: takeWhile_append2 dropWhile_append2)+
  have fd: "takeWhile is_digit fd = fd" "dropWhile is_digit fd = []"
    using assms by (simp_all add: takeWhile_eq_all_conv dropWhile_eq_Nil_conv)
  have sg: "split_sign (show_nat i @ r) = (False, show_nat i @ r)"
    by (rule split_sign_digit) (simp_all add: show_nat_hd hd_append2)
  have ni: "\<not> starts_with (show_nat i @ r) ''Infinity''"
  proof (cases "show_nat i")
    case (Cons c cs)
    then have "is_digit c" using show_nat_hd [of i] by simp
    with Cons show ?thesis by (auto simp: starts_with_def is_digit_def char_code_def)
  qed simp
  have dv: "digits_val (show_nat i @ fd) = digits_val_acc (int i) fd"
    by (simp add: digits_val_def digits_val_acc_append) (simp add: digits_val_show_nat flip: digits_val_def)
  show ?thesis unfolding r_def [symmetric]
    by (simp add: parse_float_def trim_start_show_nat parse_decimal_def sg ni tw Let_def)
      (auto simp: r_def fd parse_exponent_def dv signed_def digits_val_show_nat)
qed

text \<open>A nonnegative number with at most 17 decimals survives \<open>toString\<close> and \<open>parseFloat\<close>.\<close>

lemma parse_show_rat:
  assumes "0 \<le> q" and "decimals 17 q"
  shows "parse_float (show_rat q) = Fin q"
proof -
  define i f where "i = \<lfloor>q\<rfloor>" and "f = q - of_int i"
  have f: "0 \<le> f" "f < 1" and i: "0 \<le> i" using assms(1) unfolding f_def i_def by linarith+
  have dec: "decimals 17 f" unfolding f_def by (rule decimals_diff [OF assms(2) decimals_int])
  define fd where "fd = frac_digits 17 f"
  have fd0: "fd = [] \<longleftrightarrow> f = 0"
    unfolding fd_def by (cases "f = 0") (simp_all add: eval_nat_numeral)
  have "show_rat q = show_nat (nat i) @ (if f = 0 then [] else CHR ''.'' # fd)"
    using assms(1) by (simp add: show_rat_def Let_def i_def f_def fd_def)
  then have shown: "show_rat q = show_nat (nat i) @ (if fd = [] then [] else CHR ''.'' # fd)"
    by (simp only: fd0)
  have "of_int (digits_val_acc (int (nat i)) fd) * pow10 (- int (length fd)) = q"
  proof -
    have "of_int (digits_val_acc i fd) = (of_int i + f) * 10 ^ length fd"
      unfolding fd_def by (rule frac_digits_value [OF f dec])
    then show ?thesis using i by (cases "fd = []") (simp_all add: pow10_def f_def)
  qed
  then show ?thesis
    unfolding shown using parse_plain_decimal [of fd "nat i"] frac_digits_digits [OF f, of 17]
    by (simp add: fd_def)
qed

lemma show_rat_nonempty [simp]: "show_rat q \<noteq> []"
  by (simp add: show_rat_def Let_def)

section \<open>Lists of numbers\<close>

definition list_max :: "rat list \<Rightarrow> rat" where
  \<comment> \<open>\<open>Math.max(...xs)\<close> of a nonempty list\<close>
  "list_max xs = fold max (tl xs) (hd xs)"

definition list_min :: "rat list \<Rightarrow> rat" where
  "list_min xs = fold min (tl xs) (hd xs)"

definition average :: "rat list \<Rightarrow> rat" where
  "average xs = sum_list xs / of_nat (length xs)"

lemma fold_max_ge: "(a :: rat) \<le> fold max xs a \<and> (\<forall>x \<in> set xs. x \<le> fold max xs a)"
  by (induction xs arbitrary: a) (auto simp: max_def, (meson order_trans linear)+)

lemma fold_min_le: "fold min xs (a :: rat) \<le> a \<and> (\<forall>x \<in> set xs. fold min xs a \<le> x)"
  by (induction xs arbitrary: a) (auto simp: min_def, (meson order_trans linear)+)

lemma list_max_ge: "x \<in> set xs \<Longrightarrow> x \<le> list_max xs"
  using fold_max_ge [of "hd xs" "tl xs"] by (cases xs) (auto simp: list_max_def)

lemma list_min_le: "x \<in> set xs \<Longrightarrow> list_min xs \<le> x"
  using fold_min_le [of "tl xs" "hd xs"] by (cases xs) (auto simp: list_min_def)

lemma fold_max_in: "fold max xs (a :: rat) = a \<or> fold max xs a \<in> set xs"
proof (induction xs arbitrary: a)
  case (Cons x xs)
  show ?case using Cons [of "max x a"] by (auto simp: max_def split: if_splits)
qed simp

lemma fold_min_in: "fold min xs (a :: rat) = a \<or> fold min xs a \<in> set xs"
proof (induction xs arbitrary: a)
  case (Cons x xs)
  show ?case using Cons [of "min x a"] by (auto simp: min_def split: if_splits)
qed simp

lemma list_min_in: "xs \<noteq> [] \<Longrightarrow> list_min xs \<in> set xs"
  using fold_min_in [of "tl xs" "hd xs"] by (cases xs) (auto simp: list_min_def)

lemma list_max_in: "xs \<noteq> [] \<Longrightarrow> list_max xs \<in> set xs"
  using fold_max_in [of "tl xs" "hd xs"] by (cases xs) (auto simp: list_max_def)

lemma sum_list_bounds:
  "(\<And>x. x \<in> set xs \<Longrightarrow> lo \<le> x \<and> x \<le> (hi :: rat)) \<Longrightarrow>
     of_nat (length xs) * lo \<le> sum_list xs \<and> sum_list xs \<le> of_nat (length xs) * hi"
  by (induction xs) (auto simp: algebra_simps add_mono)

lemma average_bounds:
  assumes "xs \<noteq> []"
  shows "list_min xs \<le> average xs \<and> average xs \<le> list_max xs"
proof -
  have pos: "(0 :: rat) < of_nat (length xs)" using assms by simp
  have "of_nat (length xs) * list_min xs \<le> sum_list xs \<and> sum_list xs \<le> of_nat (length xs) * list_max xs"
    by (rule sum_list_bounds) (simp add: list_min_le list_max_ge)
  with pos show ?thesis
    by (simp add: average_def pos_le_divide_eq pos_divide_le_eq mult.commute del: length_greater_0_conv)
qed

definition sort_desc :: "('a \<Rightarrow> rat) \<Rightarrow> 'a list \<Rightarrow> 'a list" where
  \<comment> \<open>\<open>[...xs].sort((a, b) => b.k - a.k)\<close>: stable, as ECMAScript requires\<close>
  "sort_desc k xs = sort_key (\<lambda>x. - k x) xs"

lemma set_sort_desc [simp]: "set (sort_desc k xs) = set xs"
  by (simp add: sort_desc_def)

lemma length_sort_desc [simp]: "length (sort_desc k xs) = length xs"
  by (simp add: sort_desc_def)

end
