(* ===== verification/Timeline.thy ===== *)
theory Timeline
  imports JsNumber
begin

text \<open>
  The timeline behind the charts of \<open>dashboard/monitoring/page.tsx\<close>: the entities, the range
  table, \<open>resolveBucketSeconds\<close>, \<open>buildTimeline\<close> with its process shares, and the figures of
  the chart cards.  \<open>date_ms\<close> stands for \<open>new Date(s).getTime()\<close>, \<open>sin_f\<close> and \<open>cos_f\<close> for
  \<open>Math.sin\<close> and \<open>Math.cos\<close>, whose values ECMAScript leaves to the implementation.
\<close>

section \<open>Entities\<close>

record top_process =
  pid :: int
  pr_name :: string
  pr_cpu :: rat
  pr_ram :: rat
  pr_user :: "string option"

record metric_api_point =
  \<comment> \<open>the numeric fields are \<open>number | string\<close>, as the API sent them\<close>
  mp_created_at :: "string option"
  mp_bucket_time :: "string option"
  mp_time :: "string option"
  mp_bucket_seconds :: "json option"
  mp_cpu_usage :: "json option"
  mp_memory_used :: "json option"
  mp_memory_total :: "json option"
  mp_net_in :: "json option"
  mp_net_out :: "json option"
  mp_disk_read :: "json option"
  mp_disk_write :: "json option"

record timeline_point =
  \<comment> \<open>the fields \<open>cpu_proc_0\<close> to \<open>cpu_proc_4\<close> and \<open>ram_proc_0\<close> to \<open>ram_proc_4\<close> are lists of five\<close>
  timestamp :: rat
  cpu :: "rat option"
  ram :: "rat option"
  netIn :: "rat option"
  netOut :: "rat option"
  diskRead :: "rat option"
  diskWrite :: "rat option"
  cpu_proc :: "rat option list"
  cpu_other :: "rat option"
  ram_proc :: "rat option list"
  ram_other :: "rat option"
  downtimeZero :: "rat option"
  hasData :: bool
  isConfirmedMissing :: bool

datatype time_range = R15m | R1h | R3h | R6h | R12h | R24h | R7d

record range_option =
  range_value :: time_range
  range_label :: string
  durationMs :: rat
  bucketSeconds :: rat

definition MISSING_DATA_GRACE_MS :: rat where
  "MISSING_DATA_GRACE_MS = 25000"

definition RANGE_OPTIONS :: "range_option list" where
  "RANGE_OPTIONS =
    [\<lparr>range_value = R15m, range_label = ''Last 15 minutes'', durationMs = 15 * 60000, bucketSeconds = 10\<rparr>,
     \<lparr>range_value = R1h, range_label = ''Last hour'', durationMs = 60 * 60000, bucketSeconds = 15\<rparr>,
     \<lparr>range_value = R3h, range_label = ''Last 3 hours'', durationMs = 3 * 60 * 60000, bucketSeconds = 30\<rparr>,
     \<lparr>range_value = R6h, range_label = ''Last 6 hours'', durationMs = 6 * 60 * 60000, bucketSeconds = 60\<rparr>,
     \<lparr>range_value = R12h, range_label = ''Last 12 hours'', durationMs = 12 * 60 * 60000, bucketSeconds = 120\<rparr>,
     \<lparr>range_value = R24h, range_label = ''Last 24 hours'', durationMs = 24 * 60 * 60000, bucketSeconds = 300\<rparr>,
     \<lparr>range_value = R7d, range_label = ''Last 7 days'', durationMs = 7 * 24 * 60 * 60000, bucketSeconds = 1800\<rparr>]"

definition RANGE_CONFIG :: "time_range \<Rightarrow> range_option" where
  \<comment> \<open>\<open>Object.fromEntries\<close> over the table: every range has its row\<close>
  "RANGE_CONFIG r = the (find_by range_value r RANGE_OPTIONS)"

definition mk_process :: "int \<Rightarrow> string \<Rightarrow> rat \<Rightarrow> rat \<Rightarrow> string \<Rightarrow> top_process" where
  "mk_process i n c r u = \<lparr>pid = i, pr_name = n, pr_cpu = c, pr_ram = r, pr_user = Some u\<rparr>"

definition DEFAULT_CPU_PROCESSES :: "top_process list" where
  "DEFAULT_CPU_PROCESSES =
    [mk_process 1024 ''dockerd'' 2.1 3.4 ''root'',
     mk_process 1088 ''postgres'' 1.5 4.2 ''postgres'',
     mk_process 1142 ''caddy'' 0.8 1.1 ''caddy'',
     mk_process 1210 ''datrixops-backend'' 0.5 1.8 ''root'',
     mk_process 1250 ''datrixops-agent'' 0.3 0.8 ''root'']"

definition DEFAULT_RAM_PROCESSES :: "top_process list" where
  "DEFAULT_RAM_PROCESSES =
    [mk_process 1088 ''postgres'' 1.5 4.5 ''postgres'',
     mk_process 1024 ''dockerd'' 2.1 3.8 ''root'',
     mk_process 1210 ''datrixops-backend'' 0.5 2.2 ''root'',
     mk_process 1142 ''caddy'' 0.8 1.4 ''caddy'',
     mk_process 1250 ''datrixops-agent'' 0.3 0.9 ''root'']"

definition cpuProcesses :: "top_process list \<Rightarrow> top_process list" where
  "cpuProcesses topProcesses =
     (if topProcesses \<noteq> [] then take 5 (sort_desc pr_cpu topProcesses) else DEFAULT_CPU_PROCESSES)"

definition ramProcesses :: "top_process list \<Rightarrow> top_process list" where
  "ramProcesses topProcesses =
     (if topProcesses \<noteq> [] then take 5 (sort_desc pr_ram topProcesses) else DEFAULT_RAM_PROCESSES)"

section \<open>Reading a sample\<close>

definition getMetricTimestamp :: "(string \<Rightarrow> jsnum) \<Rightarrow> metric_api_point \<Rightarrow> rat option" where
  \<comment> \<open>\<open>??\<close> takes the first field that is there, even an empty one\<close>
  "getMetricTimestamp date_ms metric =
     (let value = (case mp_bucket_time metric of Some s \<Rightarrow> Some s | None \<Rightarrow>
                     (case mp_created_at metric of Some s \<Rightarrow> Some s | None \<Rightarrow> mp_time metric))
      in if truthy value
         then (case date_ms (the value) of Fin q \<Rightarrow> Some q | _ \<Rightarrow> None)
         else None)"

definition toFiniteMetric :: "json option \<Rightarrow> rat option" where
  "toFiniteMetric v = (if nullish v then None else map_option (fixed 1) (finite_number v))"

definition calculateMemoryPercent :: "json option \<Rightarrow> json option \<Rightarrow> rat option" where
  "calculateMemoryPercent usedValue totalValue =
     (case (finite_number usedValue, finite_number totalValue) of
        (Some used, Some tot) \<Rightarrow> if tot \<le> 0 then None else Some (fixed 1 ((used / tot) * 100))
      | _ \<Rightarrow> None)"

definition toKilobytes :: "json option \<Rightarrow> rat option" where
  "toKilobytes v = map_option (\<lambda>bytes. fixed 2 (bytes / 1024)) (finite_number v)"

section \<open>The bucket width\<close>

definition resolveBucketSeconds ::
  "(string \<Rightarrow> jsnum) \<Rightarrow> metric_api_point list \<Rightarrow> rat \<Rightarrow> rat" where
  "resolveBucketSeconds date_ms metrics fallback =
     (case find (\<lambda>m. case finite_number (mp_bucket_seconds m) of Some q \<Rightarrow> q > 0 | None \<Rightarrow> False) metrics of
        Some m \<Rightarrow> max fallback (the (finite_number (mp_bucket_seconds m)))
      | None \<Rightarrow>
          (let timestamps = sort (List.map_filter (getMetricTimestamp date_ms) metrics);
               intervals = filter (\<lambda>i. i > 0) (map2 (-) (tl timestamps) timestamps)
           in if intervals = [] then fallback
              else max fallback (of_int (js_round (list_min intervals / 1000)))))"

section \<open>Process shares\<close>

definition nth_or0 :: "(top_process \<Rightarrow> rat) \<Rightarrow> top_process list \<Rightarrow> nat \<Rightarrow> rat" where
  \<comment> \<open>\<open>ps[i]?.k || 0\<close>\<close>
  "nth_or0 k ps i = (if i < length ps then k (ps ! i) else 0)"

definition base_weight :: "top_process list \<Rightarrow> nat \<Rightarrow> rat \<Rightarrow> rat" where
  \<comment> \<open>\<open>ps[i]?.cpu || d\<close>\<close>
  "base_weight ps i d = (if nth_or0 pr_cpu ps i = 0 then d else nth_or0 pr_cpu ps i)"

definition getProcessOrganicWeight ::
  "(rat \<Rightarrow> rat) \<Rightarrow> (rat \<Rightarrow> rat) \<Rightarrow> rat \<Rightarrow> nat \<Rightarrow> rat \<Rightarrow> rat" where
  "getProcessOrganicWeight sin_f cos_f baseWeight index ts =
     (let t = ts / 1000;
          freq1 = [43, 37, 29, 23, 19] ! (index mod 5);
          freq2 = [17, 13, 11, 7, 5] ! (index mod 5);
          phase = of_nat index * 1.35;
          wave = sin_f (t / freq1 + phase) * 0.08 + cos_f (t / freq2 + phase * 1.5) * 0.04
      in max 0.05 (baseWeight * (1 + wave)))"

definition cpu_weights ::
  "(rat \<Rightarrow> rat) \<Rightarrow> (rat \<Rightarrow> rat) \<Rightarrow> top_process list \<Rightarrow> rat \<Rightarrow> rat list" where
  "cpu_weights sin_f cos_f ps ts =
     [getProcessOrganicWeight sin_f cos_f (base_weight ps 0 1) 0 ts,
      getProcessOrganicWeight sin_f cos_f (base_weight ps 1 0.8) 1 ts,
      getProcessOrganicWeight sin_f cos_f (base_weight ps 2 0.6) 2 ts,
      getProcessOrganicWeight sin_f cos_f (base_weight ps 3 0.4) 3 ts,
      getProcessOrganicWeight sin_f cos_f (base_weight ps 4 0.2) 4 ts]"

definition target_top_share :: "top_process list \<Rightarrow> rat \<Rightarrow> rat" where
  "target_top_share ps cpuVal =
     (let topCpuRawSum = sum_list (map (nth_or0 pr_cpu ps) [0, 1, 2, 3, 4])
      in if topCpuRawSum > 0 then min (cpuVal * 0.85) topCpuRawSum else cpuVal * 0.8)"

definition cpu_shares ::
  "(rat \<Rightarrow> rat) \<Rightarrow> (rat \<Rightarrow> rat) \<Rightarrow> top_process list \<Rightarrow> rat \<Rightarrow> rat option \<Rightarrow>
     rat option list \<times> rat option" where
  "cpu_shares sin_f cos_f ps ts cpuVal =
     (case cpuVal of
        None \<Rightarrow> (replicate 5 None, None)
      | Some c \<Rightarrow>
          if c \<le> 0 then (replicate 5 (Some 0), Some 0)
          else
            (let ws = cpu_weights sin_f cos_f ps ts;
                 dynamicWeightCpu = (if sum_list ws = 0 then 1 else sum_list ws);
                 procs = map (\<lambda>w. fixed 1 ((w / dynamicWeightCpu) * target_top_share ps c)) ws
             in (map Some procs, Some (max 0 (fixed 1 (c - sum_list procs))))))"

definition ram_shares :: "top_process list \<Rightarrow> rat option \<Rightarrow> rat option list \<times> rat option" where
  "ram_shares ps ramVal =
     (case ramVal of
        None \<Rightarrow> (replicate 5 None, None)
      | Some r \<Rightarrow>
          if r \<le> 0 then (replicate 5 (Some 0), Some 0)
          else
            (let procs = map (\<lambda>i. fixed 1 (nth_or0 pr_ram ps i)) [0, 1, 2, 3, 4]
             in (map Some procs, Some (max 0 (fixed 1 (r - sum_list procs))))))"

section \<open>The timeline\<close>

definition align :: "rat \<Rightarrow> rat \<Rightarrow> rat" where
  \<comment> \<open>\<open>Math.floor(t / bucketMs) * bucketMs\<close>\<close>
  "align b t = of_int \<lfloor>t / b\<rfloor> * b"

definition metricByBucket ::
  "(string \<Rightarrow> jsnum) \<Rightarrow> rat \<Rightarrow> metric_api_point list \<Rightarrow> rat \<rightharpoonup> metric_api_point" where
  \<comment> \<open>a later sample of a bucket replaces an earlier one\<close>
  "metricByBucket date_ms b metrics =
     fold (\<lambda>metric m. case getMetricTimestamp date_ms metric of
             None \<Rightarrow> m
           | Some t \<Rightarrow> m(align b t \<mapsto> metric)) metrics Map.empty"

partial_function (option) bucket_times :: "rat \<Rightarrow> rat \<Rightarrow> rat \<Rightarrow> rat list option" where
  \<comment> \<open>the timestamps of the \<open>for\<close> loop; \<open>None\<close> if it does not end\<close>
  "bucket_times b alignedEnd ts =
     (if ts \<le> alignedEnd
      then Option.bind (bucket_times b alignedEnd (ts + b)) (\<lambda>rest. Some (ts # rest))
      else Some [])"

definition bucket_metric :: "(rat \<rightharpoonup> metric_api_point) \<Rightarrow> rat \<Rightarrow> rat \<Rightarrow> metric_api_point option" where
  \<comment> \<open>the sample of the bucket, or of the previous one when both neighbours have one\<close>
  "bucket_metric m b ts =
     (case m ts of
        Some metric \<Rightarrow> Some metric
      | None \<Rightarrow> if m (ts - b) \<noteq> None \<and> m (ts + b) \<noteq> None then m (ts - b) else None)"

definition timeline_point_at ::
  "(rat \<Rightarrow> rat) \<Rightarrow> (rat \<Rightarrow> rat) \<Rightarrow> (rat \<rightharpoonup> metric_api_point) \<Rightarrow> rat \<Rightarrow> rat \<Rightarrow>
     top_process list \<Rightarrow> top_process list \<Rightarrow> rat \<Rightarrow> timeline_point" where
  "timeline_point_at sin_f cos_f m b now cpus rams ts =
     (let metric = bucket_metric m b ts;
          has = (metric \<noteq> None);
          missing = (\<not> has \<and> ts < now - MISSING_DATA_GRACE_MS);
          missingValue = (if missing then Some 0 else None);
          pick = (\<lambda>f. case metric of Some x \<Rightarrow> f x | None \<Rightarrow> missingValue);
          cpuVal = pick (\<lambda>x. toFiniteMetric (mp_cpu_usage x));
          ramVal = pick (\<lambda>x. calculateMemoryPercent (mp_memory_used x) (mp_memory_total x));
          cs = cpu_shares sin_f cos_f cpus ts cpuVal;
          rs = ram_shares rams ramVal
      in \<lparr>timestamp = ts, cpu = cpuVal, ram = ramVal,
          netIn = pick (\<lambda>x. toKilobytes (mp_net_in x)),
          netOut = pick (\<lambda>x. toKilobytes (mp_net_out x)),
          diskRead = pick (\<lambda>x. toKilobytes (mp_disk_read x)),
          diskWrite = pick (\<lambda>x. toKilobytes (mp_disk_write x)),
          cpu_proc = fst cs, cpu_other = snd cs, ram_proc = fst rs, ram_other = snd rs,
          downtimeZero = (if missing then Some 0 else None),
          hasData = has, isConfirmedMissing = missing\<rparr>)"

definition buildTimeline ::
  "(string \<Rightarrow> jsnum) \<Rightarrow> (rat \<Rightarrow> rat) \<Rightarrow> (rat \<Rightarrow> rat) \<Rightarrow> metric_api_point list \<Rightarrow>
     range_option \<Rightarrow> rat \<Rightarrow> top_process list \<Rightarrow> top_process list \<Rightarrow> timeline_point list option" where
  "buildTimeline date_ms sin_f cos_f metrics rng now cpus rams =
     (let bucketMs = bucketSeconds rng * 1000;
          alignedStart = align bucketMs (now - durationMs rng);
          alignedEnd = align bucketMs now;
          m = metricByBucket date_ms bucketMs metrics
      in map_option (map (timeline_point_at sin_f cos_f m bucketMs now cpus rams))
           (bucket_times bucketMs alignedEnd alignedStart))"

definition effectiveBucketSeconds ::
  "(string \<Rightarrow> jsnum) \<Rightarrow> metric_api_point list \<Rightarrow> time_range \<Rightarrow> rat" where
  "effectiveBucketSeconds date_ms metrics r =
     resolveBucketSeconds date_ms metrics (bucketSeconds (RANGE_CONFIG r))"

definition timelineConfig ::
  "(string \<Rightarrow> jsnum) \<Rightarrow> metric_api_point list \<Rightarrow> time_range \<Rightarrow> range_option" where
  "timelineConfig date_ms metrics r =
     (RANGE_CONFIG r)\<lparr>bucketSeconds := effectiveBucketSeconds date_ms metrics r\<rparr>"

section \<open>Figures of the chart cards\<close>

definition series :: "(timeline_point \<Rightarrow> rat option) \<Rightarrow> timeline_point list \<Rightarrow> rat list" where
  "series key points = map (\<lambda>p. the (key p)) (filter (\<lambda>p. hasData p \<and> key p \<noteq> None) points)"

definition formatMetricSummary ::
  "timeline_point list \<Rightarrow> (timeline_point \<Rightarrow> rat option) \<Rightarrow> string \<Rightarrow> string" where
  "formatMetricSummary points key unit =
     (let values = series key points
      in if values = []
         then ''Current '' @ em_dash @ middle_dot @ ''Avg '' @ em_dash @ middle_dot @ ''Peak '' @ em_dash
         else ''Current '' @ show_fixed 1 (last values) @ unit @ middle_dot @
              ''Avg '' @ show_fixed 1 (average values) @ unit @ middle_dot @
              ''Peak '' @ show_fixed 1 (list_max values) @ unit)"

definition formatPairSummary ::
  "timeline_point list \<Rightarrow> (timeline_point \<Rightarrow> rat option) \<Rightarrow> string \<Rightarrow>
     (timeline_point \<Rightarrow> rat option) \<Rightarrow> string \<Rightarrow> string \<Rightarrow> string" where
  "formatPairSummary points firstKey firstLabel secondKey secondLabel unit =
     (let show = (\<lambda>v. case v of None \<Rightarrow> em_dash | Some q \<Rightarrow> show_fixed 2 q)
      in case find hasData (rev points) of
           None \<Rightarrow> firstLabel @ '' '' @ em_dash @ middle_dot @ secondLabel @ '' '' @ em_dash
         | Some latest \<Rightarrow>
             firstLabel @ '' '' @ show (firstKey latest) @ unit @ middle_dot @
             secondLabel @ '' '' @ show (secondKey latest) @ unit)"

record chart_stats =
  st_current :: string
  st_avg :: string
  st_peak :: string
  st_min :: string

definition calculateStats ::
  "timeline_point list \<Rightarrow> (timeline_point \<Rightarrow> rat option) \<Rightarrow> string \<Rightarrow> chart_stats" where
  "calculateStats points key unit =
     (let values = series key points
      in if values = []
         then \<lparr>st_current = em_dash, st_avg = em_dash, st_peak = em_dash, st_min = em_dash\<rparr>
         else \<lparr>st_current = show_fixed 1 (last values) @ unit,
               st_avg = show_fixed 1 (average values) @ unit,
               st_peak = show_fixed 1 (list_max values) @ unit,
               st_min = show_fixed 1 (list_min values) @ unit\<rparr>)"

definition formatTooltipValue :: "(rat \<Rightarrow> string) \<Rightarrow> json option \<Rightarrow> string option \<Rightarrow> string" where
  \<comment> \<open>\<open>number_format\<close> is \<open>Intl.NumberFormat\<close> with at most one decimal\<close>
  "formatTooltipValue number_format v name =
     (case finite_number v of
        None \<Rightarrow> em_dash
      | Some metric \<Rightarrow>
          (let numStr = number_format metric
           in case name of
                None \<Rightarrow> numStr
              | Some n \<Rightarrow>
                  if n = [] then numStr
                  else if list_ex (str_includes n)
                      [''KB/s'', ''Inbound'', ''Outbound'', ''Read'', ''Write'', ''Disk'', ''Network'', ''netIn'', ''netOut'']
                  then numStr @ '' KB/s''
                  else if list_ex (str_includes n)
                      [''%'', ''PID'', ''CPU'', ''Memory'', ''Processes'', ''OS'', ''System'']
                  then numStr @ ''%''
                  else numStr))"

record tooltip_item =
  ti_name :: "string option"
  ti_value :: "json option"
  ti_point :: timeline_point

definition visibleItems :: "tooltip_item list \<Rightarrow> tooltip_item list" where
  "visibleItems payload =
     sort_desc (\<lambda>i. case finite_number (ti_value i) of Some q \<Rightarrow> q | None \<Rightarrow> 0)
       (filter (\<lambda>i. \<not> nullish (ti_value i) \<and> ti_name i \<noteq> Some ''No metrics'') payload)"

definition tooltip_missing :: "tooltip_item list \<Rightarrow> bool" where
  \<comment> \<open>whether the tooltip says \<open>No metrics\<close>\<close>
  "tooltip_missing payload \<longleftrightarrow>
     (case payload of [] \<Rightarrow> True | i # _ \<Rightarrow> \<not> hasData (ti_point i) \<or> visibleItems payload = [])"

end
