(* ===== verification/TimelineProps.thy ===== *)
theory TimelineProps
  imports Timeline
begin

text \<open>
  What the monitoring charts show is right: the timeline ends and covers exactly the chosen
  range, a point is marked as downtime only when no sample supports it, and the process layers
  add up to the total they decompose.
\<close>

section \<open>The loop over the buckets\<close>

declare bucket_times.simps [simp del]

lemma bucket_times_upto:
  assumes "b > 0"
  shows "bucket_times b (of_int j * b) (of_int i * b) = Some (map (\<lambda>k. of_int k * b) [i..j])"
proof (induction "nat (j + 1 - i)" arbitrary: i)
  case 0
  then have "j < i" by simp
  with assms show ?case by (subst bucket_times.simps) simp
next
  case (Suc n)
  then have le: "i \<le> j" by simp
  have nxt: "of_int i * b + b = of_int (i + 1) * b" by (simp add: algebra_simps)
  have "n = nat (j + 1 - (i + 1))" using Suc.hyps(2) by simp
  from Suc.hyps(1) [OF this] le assms show ?case
    by (subst bucket_times.simps) (simp add: nxt del: of_int_add, simp add: upto_rec1)
qed

lemma resolve_ge: "fallback \<le> resolveBucketSeconds date_ms metrics fallback"
  by (auto simp: resolveBucketSeconds_def Let_def split: option.splits)

lemma range_config:
  "bucketSeconds (RANGE_CONFIG r) > 0"
  "0 \<le> durationMs (RANGE_CONFIG r)"
  "durationMs (RANGE_CONFIG r) \<le> 360 * (bucketSeconds (RANGE_CONFIG r) * 1000)"
  by (cases r; simp add: RANGE_CONFIG_def RANGE_OPTIONS_def)+

lemma config_bucket:
  "bucketSeconds (RANGE_CONFIG r) \<le> bucketSeconds (timelineConfig date_ms metrics r)"
  "durationMs (timelineConfig date_ms metrics r) = durationMs (RANGE_CONFIG r)"
  by (simp_all add: timelineConfig_def effectiveBucketSeconds_def resolve_ge)

lemma buildTimeline_eq:
  assumes "b = bucketSeconds rng * 1000" and "b > 0"
  shows "buildTimeline date_ms sin_f cos_f metrics rng now cpus rams =
    Some (map (\<lambda>k. timeline_point_at sin_f cos_f (metricByBucket date_ms b metrics) b now cpus rams
                (of_int k * b)) [\<lfloor>(now - durationMs rng) / b\<rfloor>..\<lfloor>now / b\<rfloor>])"
  using assms by (simp add: buildTimeline_def align_def bucket_times_upto Let_def o_def)

lemma timestamp_point_at [simp]:
  "timestamp (timeline_point_at sin_f cos_f m b now cpus rams ts) = ts"
  by (simp add: timeline_point_at_def Let_def)

lemma hd_last_upto: "i \<le> j \<Longrightarrow> hd [i..j] = i" "i \<le> j \<Longrightarrow> last [i..j] = j"
  by (simp add: upto_rec1) (simp add: upto_rec2)

lemma floor_window:
  fixes x y :: rat
  assumes "0 \<le> y" and "y \<le> 360"
  shows "\<lfloor>x - y\<rfloor> \<le> \<lfloor>x\<rfloor>" and "\<lfloor>x\<rfloor> - \<lfloor>x - y\<rfloor> \<le> 360"
  using assms by linarith+

lemma align_le: "b > 0 \<Longrightarrow> align b t \<le> t" "b > 0 \<Longrightarrow> t < align b t + b"
proof -
  assume b: "b > 0"
  have fl: "of_int \<lfloor>t / b\<rfloor> \<le> t / b" "t / b < of_int \<lfloor>t / b\<rfloor> + 1" by linarith+
  have "of_int \<lfloor>t / b\<rfloor> * b \<le> t" using fl(1) b by (simp only: pos_le_divide_eq)
  moreover have "t < (of_int \<lfloor>t / b\<rfloor> + 1) * b" using fl(2) b by (simp only: pos_divide_less_eq)
  ultimately have "of_int \<lfloor>t / b\<rfloor> * b \<le> t" "t < (of_int \<lfloor>t / b\<rfloor> + 1) * b" by simp_all
  then show "align b t \<le> t" "t < align b t + b" by (simp_all add: align_def algebra_simps)
qed

text \<open>
  C16. The timeline of every range is built in bounded work and covers it: whatever bucket
  width the samples declare, the loop ends with at most 361 points, equally spaced one bucket
  apart, from the bucket in which the range begins to the one that holds the present.
\<close>

theorem timeline_covers_range:
  defines "cfg \<equiv> \<lambda>date_ms metrics r. timelineConfig date_ms metrics r"
    and "w \<equiv> \<lambda>date_ms metrics r. bucketSeconds (timelineConfig date_ms metrics r) * 1000"
  shows "\<exists>tl. buildTimeline date_ms sin_f cos_f metrics (cfg date_ms metrics r) now cpus rams = Some tl \<and>
     length tl \<in> {1..361} \<and>
     map timestamp tl = map (\<lambda>i. timestamp (hd tl) + of_nat i * w date_ms metrics r) [0..<length tl] \<and>
     timestamp (hd tl) \<le> now - durationMs (RANGE_CONFIG r) \<and>
     now - durationMs (RANGE_CONFIG r) < timestamp (hd tl) + w date_ms metrics r \<and>
     timestamp (last tl) \<le> now \<and> now < timestamp (last tl) + w date_ms metrics r"
proof -
  define b d where "b = w date_ms metrics r" and "d = durationMs (RANGE_CONFIG r)"
  have b: "b > 0" and d: "0 \<le> d / b" "d / b \<le> 360"
  proof -
    have ge: "bucketSeconds (RANGE_CONFIG r) * 1000 \<le> b"
      using config_bucket(1) [of r date_ms metrics] by (simp add: b_def w_def)
    then show pos: "b > 0" using range_config(1) [of r] by linarith
    show "0 \<le> d / b" using pos range_config(2) [of r] by (simp add: d_def)
    have "d \<le> 360 * b" using range_config(3) [of r] ge by (simp add: d_def)
    with pos show "d / b \<le> 360" by (simp add: pos_divide_le_eq)
  qed
  define lo hi where "lo = \<lfloor>(now - d) / b\<rfloor>" and "hi = \<lfloor>now / b\<rfloor>"
  have le: "lo \<le> hi" "hi - lo \<le> 360"
    using floor_window [OF d, of "now / b"] by (simp_all add: lo_def hi_def diff_divide_distrib)
  define pt where "pt = timeline_point_at sin_f cos_f (metricByBucket date_ms b metrics) b now cpus rams"
  define tl where "tl = map (\<lambda>k. pt (of_int k * b)) [lo..hi]"
  have tl: "buildTimeline date_ms sin_f cos_f metrics (cfg date_ms metrics r) now cpus rams = Some tl"
    using buildTimeline_eq [of b "timelineConfig date_ms metrics r"] b
    by (simp add: cfg_def b_def w_def config_bucket tl_def lo_def hi_def d_def pt_def)
  have ts: "map timestamp tl = map (\<lambda>k. of_int k * b) [lo..hi]"
    by (simp add: tl_def pt_def)
  have hd: "timestamp (hd tl) = of_int lo * b" and last: "timestamp (last tl) = of_int hi * b"
    using le(1) hd_last_upto [OF le(1)] by (simp_all add: tl_def pt_def hd_map last_map)
  have "map timestamp tl = map (\<lambda>i. timestamp (hd tl) + of_nat i * b) [0..<length tl]"
    unfolding ts hd by (rule nth_equalityI) (simp_all add: tl_def algebra_simps)
  moreover have "length tl \<in> {1..361}" using le by (auto simp: tl_def)
  moreover have "of_int lo * b \<le> now - d" "now - d < of_int lo * b + b"
    "of_int hi * b \<le> now" "now < of_int hi * b + b"
    using align_le [OF b, of "now - d"] align_le [OF b, of now] by (simp_all add: align_def lo_def hi_def)
  ultimately show ?thesis using tl hd last by (simp add: b_def d_def)
qed

section \<open>Samples, gaps and downtime\<close>

definition samples_in :: "(string \<Rightarrow> jsnum) \<Rightarrow> rat \<Rightarrow> metric_api_point list \<Rightarrow> rat \<Rightarrow> metric_api_point list" where
  "samples_in date_ms b metrics t =
     filter (\<lambda>x. map_option (align b) (getMetricTimestamp date_ms x) = Some t) metrics"

lemma metricByBucket_snoc:
  "metricByBucket date_ms b (xs @ [x]) =
     (case getMetricTimestamp date_ms x of
        None \<Rightarrow> metricByBucket date_ms b xs
      | Some t \<Rightarrow> (metricByBucket date_ms b xs)(align b t \<mapsto> x))"
  by (simp add: metricByBucket_def split: option.split)

lemma metricByBucket_last:
  "metricByBucket date_ms b metrics t =
     (if samples_in date_ms b metrics t = [] then None
      else Some (last (samples_in date_ms b metrics t)))"
proof (induction metrics rule: rev_induct)
  case Nil
  then show ?case by (simp add: samples_in_def metricByBucket_def)
next
  case (snoc x xs)
  then show ?case
    by (cases "getMetricTimestamp date_ms x") (simp_all add: metricByBucket_snoc samples_in_def)
qed

lemma point_at_fields [simp]:
  "hasData (timeline_point_at sin_f cos_f m b now cpus rams ts) \<longleftrightarrow> bucket_metric m b ts \<noteq> None"
  "isConfirmedMissing (timeline_point_at sin_f cos_f m b now cpus rams ts) \<longleftrightarrow>
     bucket_metric m b ts = None \<and> ts < now - MISSING_DATA_GRACE_MS"
  "downtimeZero (timeline_point_at sin_f cos_f m b now cpus rams ts) =
     (if bucket_metric m b ts = None \<and> ts < now - MISSING_DATA_GRACE_MS then Some 0 else None)"
  "cpu (timeline_point_at sin_f cos_f m b now cpus rams ts) =
     (case bucket_metric m b ts of
        Some x \<Rightarrow> toFiniteMetric (mp_cpu_usage x)
      | None \<Rightarrow> if ts < now - MISSING_DATA_GRACE_MS then Some 0 else None)"
  "ram (timeline_point_at sin_f cos_f m b now cpus rams ts) =
     (case bucket_metric m b ts of
        Some x \<Rightarrow> calculateMemoryPercent (mp_memory_used x) (mp_memory_total x)
      | None \<Rightarrow> if ts < now - MISSING_DATA_GRACE_MS then Some 0 else None)"
  by (simp_all add: timeline_point_at_def Let_def split: option.splits)

lemma in_timeline:
  assumes "buildTimeline date_ms sin_f cos_f metrics rng now cpus rams = Some points" and "p \<in> set points"
  shows "p = timeline_point_at sin_f cos_f (metricByBucket date_ms (bucketSeconds rng * 1000) metrics)
               (bucketSeconds rng * 1000) now cpus rams (timestamp p)"
  using assms by (auto simp: buildTimeline_def Let_def)

text \<open>
  C17. Downtime is never invented and never hidden: a point of the timeline is drawn as
  downtime exactly when its bucket holds no sample, the gap is not a single bucket between two
  filled ones, and the bucket began more than 25 seconds ago; where the bucket has samples the
  point shows the last of them, and before the grace period has passed an empty bucket stays
  blank instead of dropping to zero.
\<close>

theorem downtime_only_when_missing:
  assumes "buildTimeline date_ms sin_f cos_f metrics rng now cpus rams = Some points" and "p \<in> set points"
  defines "b \<equiv> bucketSeconds rng * 1000"
  defines "sampled \<equiv> \<lambda>t. samples_in date_ms b metrics t \<noteq> []"
  shows "(downtimeZero p = Some 0 \<longleftrightarrow>
            \<not> sampled (timestamp p) \<and> \<not> (sampled (timestamp p - b) \<and> sampled (timestamp p + b)) \<and>
            timestamp p < now - 25000) \<and>
         (sampled (timestamp p) \<longrightarrow>
            hasData p \<and> cpu p = toFiniteMetric (mp_cpu_usage (last (samples_in date_ms b metrics (timestamp p))))) \<and>
         (\<not> hasData p \<and> timestamp p \<ge> now - 25000 \<longrightarrow> cpu p = None \<and> ram p = None)"
proof -
  obtain t where p: "p = timeline_point_at sin_f cos_f (metricByBucket date_ms b metrics) b now cpus rams t"
    using in_timeline [OF assms(1,2)] by (auto simp: b_def)
  show ?thesis
    by (simp add: p sampled_def bucket_metric_def metricByBucket_last MISSING_DATA_GRACE_MS_def)
qed

definition demo_sample :: "string \<Rightarrow> rat \<Rightarrow> metric_api_point" where
  "demo_sample t c =
     \<lparr>mp_created_at = Some t, mp_bucket_time = None, mp_time = None, mp_bucket_seconds = None,
      mp_cpu_usage = Some (JNum c), mp_memory_used = Some (JNum 1), mp_memory_total = Some (JNum 20),
      mp_net_in = None, mp_net_out = None, mp_disk_read = None, mp_disk_write = None\<rparr>"

definition demo_range :: range_option where
  "demo_range = \<lparr>range_value = R15m, range_label = ''demo'', durationMs = 40000, bucketSeconds = 10\<rparr>"

definition demo_date :: "string \<Rightarrow> jsnum" where
  "demo_date s = Fin (of_nat (length s) * 1000)"

definition demo_samples :: "metric_api_point list" where
  "demo_samples = [demo_sample (replicate 10 CHR ''.'') 50, demo_sample (replicate 10 CHR ''.'') 30,
                   demo_sample (replicate 30 CHR ''.'') 20]"

lemma demo_timestamps:
  "getMetricTimestamp demo_date (demo_sample t c) = (if t = [] then None else Some (of_nat (length t) * 1000))"
  by (simp add: getMetricTimestamp_def demo_sample_def demo_date_def)

lemma demo_sampled:
  "samples_in demo_date 10000 demo_samples 10000 = [demo_sample (replicate 10 CHR ''.'') 50, demo_sample (replicate 10 CHR ''.'') 30]"
  "samples_in demo_date 10000 demo_samples 0 = []"
  "samples_in demo_date 10000 demo_samples 20000 = []"
  "samples_in demo_date 10000 demo_samples (- 10000) = []"
  by (simp_all add: samples_in_def demo_samples_def demo_timestamps align_def)

definition demo_point :: "rat \<Rightarrow> timeline_point" where
  "demo_point = timeline_point_at (\<lambda>x. 0) (\<lambda>x. 1) (metricByBucket demo_date 10000 demo_samples) 10000 40000
                  (cpuProcesses []) (ramProcesses [])"

definition demo_timeline :: "timeline_point list" where
  "demo_timeline = map (\<lambda>k. demo_point (of_int k * 10000)) [0..4]"

lemma demo_timeline:
  "buildTimeline demo_date (\<lambda>x. 0) (\<lambda>x. 1) demo_samples demo_range 40000 (cpuProcesses []) (ramProcesses []) =
     Some demo_timeline"
  using buildTimeline_eq [of 10000 demo_range]
  by (simp add: demo_range_def demo_timeline_def demo_point_def)

lemma demo_points:
  "demo_point 0 \<in> set demo_timeline" "demo_point 10000 \<in> set demo_timeline"
  "timestamp (demo_point t) = t"
  by (auto simp: demo_timeline_def demo_point_def intro: image_eqI [of _ _ 0] image_eqI [of _ _ 1])

lemma demo_values: "cpu (demo_point 10000) = Some 30" "ram (demo_point 10000) = Some 5"
  by (simp_all add: demo_point_def bucket_metric_def metricByBucket_last demo_sampled toFiniteMetric_def
      calculateMemoryPercent_def demo_sample_def fixed_def)

theorem downtime_only_when_missing_witness:
  "\<exists>p q. p \<in> set demo_timeline \<and> downtimeZero p = Some 0 \<and>
         q \<in> set demo_timeline \<and> timestamp q = 10000 \<and> cpu q = Some 30"
proof -
  have b: "bucketSeconds demo_range * 1000 = 10000" by (simp add: demo_range_def)
  have "downtimeZero (demo_point 0) = Some 0"
    using downtime_only_when_missing [OF demo_timeline demo_points(1)]
    by (simp add: b demo_points demo_sampled)
  moreover have "cpu (demo_point 10000) = Some 30"
    using downtime_only_when_missing [OF demo_timeline demo_points(2)] demo_values
    by (simp add: b demo_points)
  ultimately show ?thesis using demo_points by blast
qed

section \<open>The process layers\<close>

definition layer_sum :: "rat option list \<Rightarrow> rat option \<Rightarrow> rat" where
  \<comment> \<open>the height of a stacked area chart at one point\<close>
  "layer_sum procs other = sum_list (List.map_filter id procs) + (case other of Some q \<Rightarrow> q | None \<Rightarrow> 0)"

lemma map_filter_id_Some [simp]: "List.map_filter id (map Some xs) = xs"
  by (induction xs) (simp_all add: List.map_filter_simps)

lemma map_filter_id_Some_map [simp]: "List.map_filter id (map (\<lambda>x. Some (f x)) xs) = map f xs"
  by (induction xs) (simp_all add: List.map_filter_simps)

lemma weight_pos: "getProcessOrganicWeight sin_f cos_f w i ts > 0"
  by (simp add: getProcessOrganicWeight_def Let_def less_max_iff_disj)

lemma sum_list_scaled: "sum_list (map (\<lambda>w. (w / W) * T) ws) = (sum_list ws / W) * (T :: rat)"
  by (induction ws) (simp_all add: algebra_simps add_divide_distrib)

lemma target_bounds:
  assumes "c > 0" shows "0 < target_top_share ps c" and "target_top_share ps c \<le> c * 0.85"
  using assms by (auto simp: target_top_share_def Let_def min_def)

lemma sum_fixed_le:
  assumes "\<And>x. x \<in> set xs \<Longrightarrow> 0 \<le> x"
  shows "sum_list (map (fixed 1) xs) \<le> sum_list xs + of_nat (length xs) / 20"
proof (induction xs)
  case Nil
  then show ?case by simp
next
  case (Cons x xs)
  then show ?case using fixed_le [of 1 x] by (simp add: add_divide_distrib)
qed

lemma decimals_fixed_list: "decimals n (sum_list (map (fixed n) xs))"
  by (rule decimals_sum_list) auto

text \<open>The shares of the five processes take at most 85 per cent of the total, up to rounding.\<close>

lemma cpu_shares_pos:
  assumes "c > 0" and "decimals 1 c"
  obtains S where "layer_sum (fst (cpu_shares sin_f cos_f ps ts (Some c)))
                     (snd (cpu_shares sin_f cos_f ps ts (Some c))) = max S c"
    and "S \<le> c * 0.85 + 1 / 4"
proof -
  define ws where "ws = cpu_weights sin_f cos_f ps ts"
  define W where "W = sum_list ws"
  define T where "T = target_top_share ps c"
  define xs where "xs = map (\<lambda>w. (w / W) * T) ws"
  define S where "S = sum_list (map (fixed 1) xs)"
  have pos: "\<And>w. w \<in> set ws \<Longrightarrow> 0 < w" by (auto simp: ws_def cpu_weights_def weight_pos)
  have five: "length ws = 5" by (simp add: ws_def cpu_weights_def)
  have W: "W > 0"
    by (simp add: W_def ws_def cpu_weights_def weight_pos add_pos_pos)
  have T: "0 < T" "T \<le> c * 0.85" using target_bounds [OF assms(1)] by (simp_all add: T_def)
  have "sum_list xs = T"
  proof -
    have "sum_list xs = (sum_list ws / W) * T"
      unfolding xs_def by (rule sum_list_scaled)
    with W show ?thesis by (simp add: W_def)
  qed
  moreover have "S \<le> sum_list xs + of_nat (length xs) / 20"
    unfolding S_def by (rule sum_fixed_le) (use pos W T in \<open>auto simp: xs_def less_imp_le\<close>)
  ultimately have "S \<le> c * 0.85 + 1 / 4" using T five by (simp add: xs_def)
  moreover have "fixed 1 (c - S) = c - S"
    unfolding S_def by (rule fixed_decimals [OF decimals_diff [OF assms(2) decimals_fixed_list]])
  then have "layer_sum (fst (cpu_shares sin_f cos_f ps ts (Some c)))
               (snd (cpu_shares sin_f cos_f ps ts (Some c))) = max S c"
    using assms(1) W
    by (simp add: cpu_shares_def layer_sum_def Let_def ws_def [symmetric] W_def [symmetric]
        T_def [symmetric] S_def xs_def o_def max_def)
  ultimately show ?thesis using that by blast
qed

text \<open>
  C18. The layers of the stacked CPU chart add up to the CPU usage they break down: at every
  point with a positive usage the five process layers and the remainder reach at least the
  measured value and exceed it by at most a quarter of a percent point, whatever the sine and
  cosine used for the animation return, and from 5/3 per cent on they add up exactly.
\<close>

theorem cpu_layers_add_up:
  assumes "buildTimeline date_ms sin_f cos_f metrics rng now cpus rams = Some points"
    and "p \<in> set points" and "cpu p = Some c" and "c > 0"
  shows "c \<le> layer_sum (cpu_proc p) (cpu_other p) \<and>
         layer_sum (cpu_proc p) (cpu_other p) \<le> c + 1 / 4 \<and>
         (5 / 3 \<le> c \<longrightarrow> layer_sum (cpu_proc p) (cpu_other p) = c)"
proof -
  obtain m b ts where p: "p = timeline_point_at sin_f cos_f m b now cpus rams ts"
    using in_timeline [OF assms(1,2)] by blast
  have shares: "cpu_proc p = fst (cpu_shares sin_f cos_f cpus ts (cpu p))"
    "cpu_other p = snd (cpu_shares sin_f cos_f cpus ts (cpu p))"
    unfolding p by (simp_all add: timeline_point_at_def Let_def)
  have "decimals 1 c"
    using assms(3,4) by (auto simp: p toFiniteMetric_def split: option.splits if_splits)
  then obtain S where "layer_sum (cpu_proc p) (cpu_other p) = max S c" "S \<le> c * 0.85 + 1 / 4"
    using cpu_shares_pos [OF assms(4)] shares assms(3) by metis
  with assms(4) show ?thesis by (auto simp: max_def)
qed

theorem cpu_layers_add_up_witness:
  "\<exists>p \<in> set demo_timeline. layer_sum (cpu_proc p) (cpu_other p) = 30"
  using cpu_layers_add_up [OF demo_timeline demo_points(2) demo_values(1)] demo_points by auto

text \<open>
  The RAM chart invents processes: for a server that reported none, every point with a
  memory usage of at most 12.8 per cent shows the five built-in processes at their fixed sizes,
  so the layers add up to 12.8 per cent however little memory is in use.
\<close>

theorem ram_layers_invented:
  assumes "buildTimeline date_ms sin_f cos_f metrics rng now (cpuProcesses []) (ramProcesses []) = Some points"
    and "p \<in> set points" and "ram p = Some r" and "0 < r" and "r \<le> 12.8"
  shows "ram_proc p = map Some [4.5, 3.8, 2.2, 1.4, 0.9] \<and>
         layer_sum (ram_proc p) (ram_other p) = 12.8"
proof -
  obtain m b ts where p: "p = timeline_point_at sin_f cos_f m b now (cpuProcesses []) (ramProcesses []) ts"
    using in_timeline [OF assms(1,2)] by blast
  have shares: "ram_proc p = fst (ram_shares (ramProcesses []) (Some r))"
    "ram_other p = snd (ram_shares (ramProcesses []) (Some r))"
    unfolding assms(3) [symmetric] unfolding p by (simp_all add: timeline_point_at_def Let_def)
  have "decimals 1 r"
    using assms(3,4)
    by (auto simp: p calculateMemoryPercent_def split: option.splits if_splits)
  moreover have ten: "decimals 1 12.8"
    by (auto simp: decimals_def intro!: exI [of _ 128])
  ultimately have rest: "fixed 1 (r - 64 / 5) = r - 64 / 5" by (intro fixed_decimals decimals_diff) simp_all
  have procs: "map (\<lambda>i. fixed 1 (nth_or0 pr_ram (ramProcesses []) i)) [0, 1, 2, 3, 4] = [4.5, 3.8, 2.2, 1.4, 0.9]"
    by (simp add: ramProcesses_def DEFAULT_RAM_PROCESSES_def mk_process_def nth_or0_def fixed_def)
  have "sum_list [4.5, 3.8, 2.2, 1.4, 0.9] = (64 / 5 :: rat)" by simp
  with assms(4,5) rest procs show ?thesis unfolding shares ram_shares_def
    by (simp only: Let_def option.case fst_conv snd_conv if_False not_le)
      (simp add: layer_sum_def List.map_filter_simps max_def)
qed

theorem ram_layers_invented_witness:
  "ram (demo_point 10000) = Some 5 \<and>
   layer_sum (ram_proc (demo_point 10000)) (ram_other (demo_point 10000)) = 12.8"
proof -
  have "0 < (5 :: rat)" "(5 :: rat) \<le> 12.8" by simp_all
  from ram_layers_invented [OF demo_timeline demo_points(2) demo_values(2) this] demo_values(2)
  show ?thesis by blast
qed

section \<open>The figures beside the charts\<close>

text \<open>
  The figures of a chart card are those of the measured points: with at least one measured
  value the card prints the latest, the mean, the largest and the smallest of exactly the points
  that carry data, the downtime zeros not among them, and the mean lies between the extremes;
  with none it prints dashes.
\<close>

theorem chart_card_figures:
  "(calculateStats points key unit =
      \<lparr>st_current = em_dash, st_avg = em_dash, st_peak = em_dash, st_min = em_dash\<rparr> \<and>
    series key points = []) \<or>
   (\<exists>cur avg peak low. calculateStats points key unit =
        \<lparr>st_current = show_fixed 1 cur @ unit, st_avg = show_fixed 1 avg @ unit,
         st_peak = show_fixed 1 peak @ unit, st_min = show_fixed 1 low @ unit\<rparr> \<and>
      low \<le> avg \<and> avg \<le> peak \<and>
      (\<exists>q. hasData q \<and> key q = Some cur \<and> q \<in> set points) \<and>
      avg * of_nat (length (series key points)) = sum_list (series key points) \<and>
      {cur, peak, low} \<subseteq> set (series key points) \<and>
      list_all (\<lambda>v. low \<le> v \<and> v \<le> peak) (series key points))"
proof (cases "series key points = []")
  case True
  then show ?thesis by (simp add: calculateStats_def Let_def)
next
  case False
  have "last (series key points) \<in> set (series key points)" using False by simp
  then obtain q where "hasData q" "key q = Some (last (series key points))" "q \<in> set points"
    by (auto simp: series_def)
  then show ?thesis
    using average_bounds [OF False] list_max_in [OF False] list_min_in [OF False] False
    by (intro disjI2 exI [of _ "last (series key points)"] exI [of _ "average (series key points)"]
        exI [of _ "list_max (series key points)"] exI [of _ "list_min (series key points)"] conjI)
      (auto simp: calculateStats_def Let_def list_all_iff list_min_le list_max_ge average_def)
qed

end
