(* ===== verification/Monitoring.thy ===== *)
theory Monitoring
  imports TimelineProps ApiClient
begin

text \<open>
  The state of \<open>dashboard/monitoring/page.tsx\<close>: the choice of the server, the metric requests
  with their \<open>AbortController\<close>s, the effect that restarts them and the expanded charts.  A
  controller is a number; \<open>flights\<close> remembers for each what was asked.  The interval timer is
  the step \<open>tick\<close>; \<open>json_parse\<close> stands for \<open>JSON.parse\<close>, \<open>None\<close> where it throws.
\<close>

section \<open>State\<close>

record monitoring_server =
  ms_id :: string
  ms_name :: string
  ms_status :: string

datatype metric_type = MCpu | MRam | MNetwork | MDisk

datatype refresh_interval = IOff | I5s | I10s | I30s | I1m | I5m

definition REFRESH_INTERVAL_OPTIONS :: "(refresh_interval \<times> nat) list" where
  "REFRESH_INTERVAL_OPTIONS =
     [(IOff, 0), (I5s, 5000), (I10s, 10000), (I30s, 30000), (I1m, 60000), (I5m, 300000)]"

definition currentIntervalMs :: "refresh_interval \<Rightarrow> nat" where
  "currentIntervalMs i =
     (case map_of REFRESH_INTERVAL_OPTIONS i of Some ms \<Rightarrow> ms | None \<Rightarrow> 10000)"

record monitoring =
  mservers :: "monitoring_server list"
  selectedServerId :: string
  timeRange :: time_range
  rawMetrics :: "metric_api_point list"
  topProcesses :: "top_process list"
  initialLoading :: bool
  mrefreshing :: bool
  metricsLoaded :: bool
  metricsError :: string
  refreshInterval :: refresh_interval
  expandedOrder :: "metric_type list"
  hiddenSeries :: "string list"
  activeMetricsRequest :: "nat option"
  flights :: "nat \<rightharpoonup> string \<times> time_range"
  nextController :: nat
  toLogin :: bool

definition init_monitoring :: monitoring where
  "init_monitoring =
     \<lparr>mservers = [], selectedServerId = [], timeRange = R15m, rawMetrics = [], topProcesses = [],
      initialLoading = False, mrefreshing = False, metricsLoaded = False, metricsError = [],
      refreshInterval = I10s, expandedOrder = [], hiddenSeries = [], activeMetricsRequest = None,
      flights = Map.empty, nextController = 0, toLogin = False\<rparr>"

definition toggleExpand :: "metric_type \<Rightarrow> monitoring \<Rightarrow> monitoring" where
  "toggleExpand metric s = s\<lparr>expandedOrder := toggle metric (expandedOrder s)\<rparr>"

definition collapsedList :: "monitoring \<Rightarrow> metric_type list" where
  "collapsedList s = filter (\<lambda>m. m \<notin> set (expandedOrder s)) [MCpu, MRam, MNetwork, MDisk]"

definition toggleSeries :: "string \<Rightarrow> monitoring \<Rightarrow> monitoring" where
  \<comment> \<open>all series start visible, so the record of flags is the list of the hidden ones\<close>
  "toggleSeries key s = s\<lparr>hiddenSeries := toggle key (hiddenSeries s)\<rparr>"

section \<open>Which server is shown\<close>

definition url_target :: "string option \<Rightarrow> string option \<Rightarrow> string option" where
  \<comment> \<open>\<open>urlParams.get('server_id') || urlParams.get('id')\<close>\<close>
  "url_target server_id id_param = (if truthy server_id then server_id else id_param)"

definition has_server :: "string option \<Rightarrow> monitoring_server list \<Rightarrow> bool" where
  \<comment> \<open>\<open>id && servers.some((s) => s.id === id)\<close>\<close>
  "has_server i ss \<longleftrightarrow> truthy i \<and> the i \<in> ms_id ` set ss"

definition next_selection :: "string option \<Rightarrow> monitoring_server list \<Rightarrow> string \<Rightarrow> string" where
  "next_selection target nextServers current =
     (if has_server target nextServers then the target
      else if current \<noteq> [] \<and> current \<in> ms_id ` set nextServers then current
      else case nextServers of [] \<Rightarrow> [] | s # _ \<Rightarrow> ms_id s)"

section \<open>Requests for metrics\<close>

definition fetchMetrics :: "bool \<Rightarrow> bool \<Rightarrow> monitoring \<Rightarrow> monitoring" where
  \<comment> \<open>up to the two calls; replacing a request aborts its controller\<close>
  "fetchMetrics background replaceActiveRequest s =
     (if selectedServerId s = [] \<or> (activeMetricsRequest s \<noteq> None \<and> \<not> replaceActiveRequest) then s
      else s\<lparr>activeMetricsRequest := Some (nextController s),
             flights := (flights s)(nextController s \<mapsto> (selectedServerId s, timeRange s)),
             nextController := Suc (nextController s),
             mrefreshing := background \<or> mrefreshing s,
             initialLoading := \<not> background \<or> initialLoading s\<rparr>)"

definition metrics_endpoint :: "string \<Rightarrow> string \<Rightarrow> string" where
  "metrics_endpoint sid r = ''/servers/'' @ sid @ ''/metrics?range='' @ r"

definition snapshot_processes ::
  "(string \<Rightarrow> json option) \<Rightarrow> json option \<Rightarrow> json list option" where
  \<comment> \<open>the process list of the stored snapshot, where there is a nonempty one\<close>
  "snapshot_processes json_parse serverData =
     (case chain serverData ''snapshot'' of
        Some (JStr s) \<Rightarrow>
          (if s = [] then None
           else case chain (json_parse s) ''top_processes'' of
                  Some (JArr (p # ps)) \<Rightarrow> Some (p # ps)
                | _ \<Rightarrow> None)
      | _ \<Rightarrow> None)"

definition as_process :: "json \<Rightarrow> top_process" where
  \<comment> \<open>the cast \<open>as TopProcess\<close>: the fields the charts read\<close>
  "as_process j =
     (let num = (\<lambda>k. case field j k of Some (JNum q) \<Rightarrow> q | _ \<Rightarrow> 0);
          str = (\<lambda>k. case field j k of Some (JStr s) \<Rightarrow> Some s | _ \<Rightarrow> None)
      in \<lparr>pid = \<lfloor>num ''pid''\<rfloor>, pr_name = (case str ''name'' of Some n \<Rightarrow> n | None \<Rightarrow> []),
          pr_cpu = num ''cpu'', pr_ram = num ''ram'', pr_user = str ''user''\<rparr>)"

datatype metrics_reply =
    Metrics "metric_api_point list option" "json option"
      \<comment> \<open>the metrics, \<open>None\<close> if not an array, and the server, null if its call failed\<close>
  | Aborted
  | Failed_with thrown

definition settle_request :: "nat \<Rightarrow> monitoring \<Rightarrow> monitoring" where
  \<comment> \<open>the \<open>finally\<close> block\<close>
  "settle_request c s =
     (if activeMetricsRequest s = Some c
      then s\<lparr>activeMetricsRequest := None, initialLoading := False, mrefreshing := False\<rparr>
      else s)"

definition fetchMetrics_finish ::
  "(string \<Rightarrow> json option) \<Rightarrow> nat \<Rightarrow> metrics_reply \<Rightarrow> monitoring \<Rightarrow> monitoring" where
  "fetchMetrics_finish json_parse c reply s =
     settle_request c
       (case reply of
          Metrics ms serverData \<Rightarrow>
            if activeMetricsRequest s \<noteq> Some c then s
            else s\<lparr>rawMetrics := (case ms of Some xs \<Rightarrow> xs | None \<Rightarrow> []),
                   topProcesses := (case snapshot_processes json_parse serverData of
                                      Some ps \<Rightarrow> map as_process ps | None \<Rightarrow> topProcesses s),
                   metricsLoaded := True, metricsError := []\<rparr>
        | Aborted \<Rightarrow> s
        | Failed_with e \<Rightarrow>
            (let message = (case e of ErrorObj m \<Rightarrow> m | NonError \<Rightarrow> ''Unable to load metrics'')
             in if is_auth_message message then s\<lparr>toLogin := True\<rparr>
                else s\<lparr>metricsError := message\<rparr>))"

definition restart_requests :: "monitoring \<Rightarrow> monitoring" where
  \<comment> \<open>the clean-up of the effect and the effect itself\<close>
  "restart_requests s =
     (let s1 = s\<lparr>activeMetricsRequest := None\<rparr>
      in if selectedServerId s1 = [] then s1
         else fetchMetrics False True
                (s1\<lparr>rawMetrics := [], metricsLoaded := False, metricsError := []\<rparr>))"

definition select_server :: "string \<Rightarrow> monitoring \<Rightarrow> monitoring" where
  "select_server sid s =
     (if sid = selectedServerId s then s else restart_requests (s\<lparr>selectedServerId := sid\<rparr>))"

definition select_range :: "time_range \<Rightarrow> monitoring \<Rightarrow> monitoring" where
  "select_range r s = (if r = timeRange s then s else restart_requests (s\<lparr>timeRange := r\<rparr>))"

definition select_interval :: "refresh_interval \<Rightarrow> monitoring \<Rightarrow> monitoring" where
  \<comment> \<open>the effect depends on the milliseconds, not on the option\<close>
  "select_interval i s =
     (if currentIntervalMs i = currentIntervalMs (refreshInterval s) then s\<lparr>refreshInterval := i\<rparr>
      else restart_requests (s\<lparr>refreshInterval := i\<rparr>))"

definition tick :: "monitoring \<Rightarrow> monitoring" where
  "tick s = (if currentIntervalMs (refreshInterval s) = 0 then s else fetchMetrics True False s)"

definition fetchServers_done ::
  "string option \<Rightarrow> monitoring_server list option outcome \<Rightarrow> monitoring \<Rightarrow> monitoring" where
  "fetchServers_done target reply s =
     (case reply of
        Inr d \<Rightarrow>
          (let nextServers = (case d of Some xs \<Rightarrow> xs | None \<Rightarrow> [])
           in select_server (next_selection target nextServers (selectedServerId s))
                (s\<lparr>mservers := nextServers\<rparr>))
      | Inl e \<Rightarrow>
          (let message = (case e of ErrorObj m \<Rightarrow> m | NonError \<Rightarrow> [])
           in if is_auth_message message then s\<lparr>toLogin := True\<rparr> else s))"

section \<open>What the page derives\<close>

definition selectedServer :: "monitoring \<Rightarrow> monitoring_server option" where
  "selectedServer s = find_by ms_id (selectedServerId s) (mservers s)"

definition serverOnline :: "monitoring \<Rightarrow> bool" where
  "serverOnline s \<longleftrightarrow> map_option ms_status (selectedServer s) = Some ''online''"

definition dataPoints :: "timeline_point list \<Rightarrow> nat" where
  "dataPoints points = length (filter hasData points)"

definition xDomain :: "rat \<Rightarrow> monitoring \<Rightarrow> rat \<times> rat" where
  "xDomain now s = (now - durationMs (RANGE_CONFIG (timeRange s)), now)"

section \<open>Steps\<close>

text \<open>
  \<open>answers sid r ms\<close> says that the API may answer a request for the metrics of server \<open>sid\<close>
  over range \<open>r\<close> with \<open>ms\<close>.
\<close>

inductive mon_step ::
  "(string \<Rightarrow> time_range \<Rightarrow> metric_api_point list option \<Rightarrow> bool) \<Rightarrow> (string \<Rightarrow> json option) \<Rightarrow>
     monitoring \<Rightarrow> monitoring \<Rightarrow> bool"
  for answers json_parse where
  servers: "mon_step answers json_parse s (fetchServers_done target reply s)"
| server: "mon_step answers json_parse s (select_server sid s)"
| rng: "mon_step answers json_parse s (select_range r s)"
| interval: "mon_step answers json_parse s (select_interval i s)"
| ticked: "mon_step answers json_parse s (tick s)"
| refresh: "mon_step answers json_parse s (fetchMetrics False True s)"
| expand: "mon_step answers json_parse s (toggleExpand m s)"
| series: "mon_step answers json_parse s (toggleSeries k s)"
| answered: "flights s c = Some (sid, r) \<Longrightarrow> answers sid r ms \<Longrightarrow>
    mon_step answers json_parse s (fetchMetrics_finish json_parse c (Metrics ms sd) s)"
| aborted: "flights s c \<noteq> None \<Longrightarrow> mon_step answers json_parse s (fetchMetrics_finish json_parse c Aborted s)"
| failed: "flights s c \<noteq> None \<Longrightarrow>
    mon_step answers json_parse s (fetchMetrics_finish json_parse c (Failed_with e) s)"

inductive mon_reachable ::
  "(string \<Rightarrow> time_range \<Rightarrow> metric_api_point list option \<Rightarrow> bool) \<Rightarrow> (string \<Rightarrow> json option) \<Rightarrow>
     monitoring \<Rightarrow> bool"
  for answers json_parse where
  start: "mon_reachable answers json_parse init_monitoring"
| step: "mon_reachable answers json_parse s \<Longrightarrow> mon_step answers json_parse s t \<Longrightarrow>
    mon_reachable answers json_parse t"

section \<open>Properties\<close>

definition shown_answer ::
  "(string \<Rightarrow> time_range \<Rightarrow> metric_api_point list option \<Rightarrow> bool) \<Rightarrow> monitoring \<Rightarrow> bool" where
  \<comment> \<open>what the charts show answers the present choice\<close>
  "shown_answer answers s \<longleftrightarrow>
     (selectedServerId s \<noteq> [] \<and> rawMetrics s \<noteq> [] \<longrightarrow>
        answers (selectedServerId s) (timeRange s) (Some (rawMetrics s)))"

definition active_ok :: "monitoring \<Rightarrow> bool" where
  "active_ok s \<longleftrightarrow>
     (\<forall>c. activeMetricsRequest s = Some c \<longrightarrow> flights s c = Some (selectedServerId s, timeRange s)) \<and>
     (\<forall>c. flights s c \<noteq> None \<longrightarrow> c < nextController s)"

definition mon_inv where
  "mon_inv answers s \<longleftrightarrow> active_ok s \<and> shown_answer answers s \<and>
     (selectedServerId s = [] \<longrightarrow> activeMetricsRequest s = None)"

lemma inv_restart:
  assumes "\<forall>c. flights s c \<noteq> None \<longrightarrow> c < nextController s"
  shows "mon_inv answers (restart_requests s)"
  using assms
  by (auto simp: mon_inv_def active_ok_def shown_answer_def restart_requests_def fetchMetrics_def Let_def
      less_Suc_eq)

lemma inv_flights: "mon_inv answers s \<Longrightarrow> flights s c \<noteq> None \<Longrightarrow> c < nextController s"
  by (auto simp: mon_inv_def active_ok_def)

lemma inv_fetch: "mon_inv answers s \<Longrightarrow> mon_inv answers (fetchMetrics b r s)"
  by (auto simp: mon_inv_def active_ok_def shown_answer_def fetchMetrics_def less_Suc_eq)

lemma inv_frame:
  assumes "mon_inv answers s"
  shows "mon_inv answers (s\<lparr>mservers := a\<rparr>)" "mon_inv answers (s\<lparr>toLogin := b\<rparr>)"
    "mon_inv answers (s\<lparr>metricsError := e\<rparr>)" "mon_inv answers (s\<lparr>refreshInterval := i\<rparr>)"
    "mon_inv answers (s\<lparr>expandedOrder := m\<rparr>)" "mon_inv answers (s\<lparr>hiddenSeries := h\<rparr>)"
    "mon_inv answers (settle_request c s)"
  using assms by (auto simp: mon_inv_def active_ok_def shown_answer_def settle_request_def)

lemma inv_select:
  assumes "mon_inv answers s"
  shows "mon_inv answers (select_server sid s)" "mon_inv answers (select_range r s)"
    "mon_inv answers (select_interval i s)"
  using assms inv_flights [OF assms]
  by (auto simp: select_server_def select_range_def select_interval_def intro!: inv_restart inv_frame)

lemma inv_answer:
  assumes "mon_inv answers s" and "flights s c = Some (sid, r)" and "answers sid r ms"
  shows "mon_inv answers (fetchMetrics_finish json_parse c (Metrics ms sd) s)"
  using assms
  by (cases ms) (auto simp: fetchMetrics_finish_def settle_request_def mon_inv_def active_ok_def shown_answer_def)

lemma inv_step: "mon_step answers json_parse s t \<Longrightarrow> mon_inv answers s \<Longrightarrow> mon_inv answers t"
proof (induction rule: mon_step.induct)
  case (servers target reply s)
  then show ?case
    by (auto simp: fetchServers_done_def Let_def split: sum.split thrown.split
        intro!: inv_select inv_frame)
next
  case (failed s c e)
  then show ?case
    by (auto simp: fetchMetrics_finish_def Let_def split: thrown.split intro!: inv_frame)
next
  case (aborted s c)
  then show ?case by (auto simp: fetchMetrics_finish_def intro!: inv_frame)
qed (auto simp: tick_def toggleExpand_def toggleSeries_def intro!: inv_select inv_fetch inv_frame inv_answer)

lemma inv_reachable: "mon_reachable answers json_parse s \<Longrightarrow> mon_inv answers s"
proof (induction rule: mon_reachable.induct)
  case start
  show ?case by (simp add: mon_inv_def active_ok_def shown_answer_def init_monitoring_def)
qed (rule inv_step)

text \<open>
  The charts never show the wrong server: in every order of selections, ticks, manual
  refreshes and answers, late ones included, the metrics on the page are an answer the API gave
  for the server and the range that are selected now, and the request that is still active asks
  for them.
\<close>

theorem charts_show_selection:
  assumes "mon_reachable answers json_parse s" and "selectedServerId s \<noteq> []"
  shows "(rawMetrics s = [] \<or> answers (selectedServerId s) (timeRange s) (Some (rawMetrics s))) \<and>
         (activeMetricsRequest s = None \<or>
          flights s (the (activeMetricsRequest s)) = Some (selectedServerId s, timeRange s))"
  using inv_reachable [OF assms(1)] assms(2)
  by (cases "activeMetricsRequest s") (auto simp: mon_inv_def active_ok_def shown_answer_def)

definition demo_answers :: "string \<Rightarrow> time_range \<Rightarrow> metric_api_point list option \<Rightarrow> bool" where
  "demo_answers sid r ms \<longleftrightarrow> ms = Some (if sid = ''a'' then demo_samples else [])"

definition demo_mon :: "nat \<Rightarrow> monitoring" where
  "demo_mon n = [init_monitoring,
     select_server ''a'' init_monitoring,
     fetchMetrics_finish (\<lambda>s. None) 0 (Metrics (Some demo_samples) None) (select_server ''a'' init_monitoring)] ! n"

lemma demo_mon_reachable: "mon_reachable demo_answers (\<lambda>s. None) (demo_mon 2)"
proof -
  have "mon_reachable demo_answers (\<lambda>s. None) (select_server ''a'' init_monitoring)"
    by (rule mon_reachable.step [OF mon_reachable.start]) (rule mon_step.server)
  moreover have "flights (select_server ''a'' init_monitoring) 0 = Some (''a'', R15m)"
    by (simp add: select_server_def init_monitoring_def restart_requests_def fetchMetrics_def)
  moreover from this have "mon_step demo_answers (\<lambda>s. None) (select_server ''a'' init_monitoring)
      (fetchMetrics_finish (\<lambda>s. None) 0 (Metrics (Some demo_samples) None) (select_server ''a'' init_monitoring))"
    by (intro mon_step.answered [of _ 0 "''a''" R15m]) (simp_all add: demo_answers_def)
  ultimately show ?thesis by (auto simp: demo_mon_def intro: mon_reachable.step)
qed

lemma demo_mon_shows: "rawMetrics (demo_mon 2) = demo_samples" "selectedServerId (demo_mon 2) = ''a''"
  by (simp_all add: demo_mon_def fetchMetrics_finish_def settle_request_def select_server_def
      init_monitoring_def restart_requests_def fetchMetrics_def snapshot_processes_def)

theorem charts_show_selection_witness:
  "rawMetrics (demo_mon 2) \<noteq> [] \<and> demo_answers ''a'' (timeRange (demo_mon 2)) (Some (rawMetrics (demo_mon 2)))"
  using charts_show_selection [OF demo_mon_reachable] demo_mon_shows by (simp add: demo_samples_def)

text \<open>
  The processes of another server stay on screen: selecting a different server clears the
  metrics but not the process list, and when the new server reports no processes the page counts
  as loaded while it still splits the new server's CPU and RAM by the old server's processes.
\<close>

theorem processes_survive_selection:
  fixes ms :: "metric_api_point list"
  assumes "sid \<noteq> []" and "sid \<noteq> selectedServerId s" and "snapshot_processes json_parse sd = None"
  defines "t \<equiv> select_server sid s"
  defines "u \<equiv> fetchMetrics_finish json_parse (nextController s) (Metrics (Some ms) sd) t"
  shows "rawMetrics t = [] \<and> metricsLoaded u \<and> selectedServerId u = sid \<and> rawMetrics u = ms \<and>
         topProcesses u = topProcesses s"
  using assms
  by (auto simp: t_def u_def select_server_def restart_requests_def fetchMetrics_def
      fetchMetrics_finish_def settle_request_def Let_def)

theorem processes_survive_selection_witness:
  "topProcesses (fetchMetrics_finish (\<lambda>s. None) 0 (Metrics (Some []) None)
      (select_server ''b'' (init_monitoring\<lparr>selectedServerId := ''a'', topProcesses := DEFAULT_CPU_PROCESSES\<rparr>))) =
   DEFAULT_CPU_PROCESSES"
  using processes_survive_selection [of "''b''" "init_monitoring\<lparr>selectedServerId := ''a'', topProcesses := DEFAULT_CPU_PROCESSES\<rparr>"
      "\<lambda>s. None" None "[]"]
  by (simp add: snapshot_processes_def init_monitoring_def)

text \<open>
  A deep link pins the selection: while the page's address names a server that exists, every
  reload of the server list, which the page performs each 30 seconds, throws away whatever server
  the user selected in the meantime and goes back to the one in the address.
\<close>

theorem deep_link_pins_selection:
  assumes "has_server target ss"
  shows "selectedServerId (fetchServers_done target (Inr (Some ss)) (select_server sid s)) = the target"
  using assms
  by (auto simp: fetchServers_done_def next_selection_def select_server_def restart_requests_def
      fetchMetrics_def Let_def has_server_def)

theorem deep_link_pins_selection_witness:
  "selectedServerId (fetchServers_done (Some ''a'')
      (Inr (Some [\<lparr>ms_id = ''a'', ms_name = ''x'', ms_status = ''online''\<rparr>, \<lparr>ms_id = ''b'', ms_name = ''y'', ms_status = ''online''\<rparr>]))
      (select_server ''b'' init_monitoring)) = ''a''"
  using deep_link_pins_selection [of "Some ''a''" "[\<lparr>ms_id = ''a'', ms_name = ''x'', ms_status = ''online''\<rparr>, \<lparr>ms_id = ''b'', ms_name = ''y'', ms_status = ''online''\<rparr>]"]
  by (simp add: has_server_def)

end
