(* ===== verification/LatestWins.thy ===== *)
theory LatestWins
  imports JsPrelude
begin

text \<open>
  Refinement.  A locale states what it takes for a page, a step relation over its React state, to
  implement an abstract machine, with an invariant of the page and an abstraction function, and
  carries reachability and safety over.  The abstract machine here is the contract of a page
  that shows the answer to the user's latest choice: it has no controllers, no late answers and
  no interleaving.
\<close>

section \<open>Reachability\<close>

inductive reach :: "'s \<Rightarrow> ('s \<Rightarrow> 's \<Rightarrow> bool) \<Rightarrow> 's \<Rightarrow> bool" for s0 step where
  start: "reach s0 step s0"
| further: "reach s0 step s \<Longrightarrow> step s t \<Longrightarrow> reach s0 step t"

lemma reach_invariant:
  assumes "reach s0 step s" and "P s0" and "\<And>s t. P s \<Longrightarrow> step s t \<Longrightarrow> P t"
  shows "P s"
  using assms by (induction rule: reach.induct) auto

locale refinement =
  fixes cinit :: 'c
    and cstep :: "'c \<Rightarrow> 'c \<Rightarrow> bool"
    and cinv :: "'c \<Rightarrow> bool"
    and ainit :: 'a
    and astep :: "'a \<Rightarrow> 'a \<Rightarrow> bool"
    and abs :: "'c \<Rightarrow> 'a"
  assumes inv_init: "cinv cinit"
    and inv_step: "cinv s \<Longrightarrow> cstep s t \<Longrightarrow> cinv t"
    and abs_init: "abs cinit = ainit"
    and simulates: "cinv s \<Longrightarrow> cstep s t \<Longrightarrow> abs t = abs s \<or> astep (abs s) (abs t)"
begin

lemma reachable_inv: "reach cinit cstep s \<Longrightarrow> cinv s"
  by (rule reach_invariant [of cinit cstep]) (auto intro: inv_init inv_step)

lemma reachable_abs: "reach cinit cstep s \<Longrightarrow> reach ainit astep (abs s)"
proof (induction rule: reach.induct)
  case start
  then show ?case by (simp add: abs_init reach.start)
next
  case (further s t)
  then show ?case
    using simulates [OF reachable_inv, of s t] by (auto intro: reach.further)
qed

text \<open>A safety property of the abstract machine holds of the page, read through the abstraction.\<close>

lemma safety_transfer:
  assumes "reach cinit cstep s" and "P ainit" and "\<And>a b. P a \<Longrightarrow> astep a b \<Longrightarrow> P b"
  shows "P (abs s)"
  using reach_invariant [OF reachable_abs [OF assms(1)], of P] assms(2,3) by blast

end

section \<open>The latest choice wins\<close>

record ('q, 'a) latest =
  choice :: 'q
  waiting :: bool
  shown :: "'a option"

text \<open>
  \<open>ok q a\<close> says that \<open>a\<close> may be the answer to the choice \<open>q\<close>; \<open>clears\<close> says whether a new
  choice clears what was shown.  An answer is taken only for the present choice, and only while
  one is awaited.
\<close>

inductive latest_step ::
  "('q \<Rightarrow> 'a \<Rightarrow> bool) \<Rightarrow> bool \<Rightarrow> ('q, 'a) latest \<Rightarrow> ('q, 'a) latest \<Rightarrow> bool" for ok clears where
  choose: "latest_step ok clears v
    (v\<lparr>choice := q, waiting := w, shown := (if clears then None else shown v)\<rparr>)"
| ask: "latest_step ok clears v (v\<lparr>waiting := True\<rparr>)"
| receive: "waiting v \<Longrightarrow> ok (choice v) a \<Longrightarrow> latest_step ok clears v (v\<lparr>waiting := False, shown := Some a\<rparr>)"
| give_up: "latest_step ok clears v (v\<lparr>waiting := False\<rparr>)"

inductive_cases latest_stepE: "latest_step ok clears v w"

definition answers_choice :: "('q \<Rightarrow> 'a \<Rightarrow> bool) \<Rightarrow> ('q, 'a) latest \<Rightarrow> bool" where
  "answers_choice ok v \<longleftrightarrow> pred_option (ok (choice v)) (shown v)"

definition answers_some_choice :: "('q \<Rightarrow> 'a \<Rightarrow> bool) \<Rightarrow> ('q, 'a) latest \<Rightarrow> bool" where
  "answers_some_choice ok v \<longleftrightarrow> pred_option (\<lambda>a. \<exists>q. ok q a) (shown v)"

lemma clearing_is_safe:
  "answers_choice ok v \<Longrightarrow> latest_step ok True v w \<Longrightarrow> answers_choice ok w"
  by (erule latest_stepE) (simp_all add: answers_choice_def)

lemma keeping_is_safe:
  "answers_some_choice ok v \<Longrightarrow> latest_step ok clears v w \<Longrightarrow> answers_some_choice ok w"
  by (erule latest_stepE) (auto simp: answers_some_choice_def)

end
