(* ===== verification/MonitoringSpec.thy ===== *)
theory MonitoringSpec
  imports Monitoring LatestWins
begin

text \<open>
  The monitoring page implements the abstract page of \<open>LatestWins\<close> whose choice is a server and
  a range and whose new choices clear the charts: its controllers, its timer and its late
  answers do not show.
\<close>

definition mon_abs :: "monitoring \<Rightarrow> (string \<times> time_range, metric_api_point list) latest" where
  \<comment> \<open>without a server nothing counts as shown\<close>
  "mon_abs s =
     \<lparr>choice = (selectedServerId s, timeRange s), waiting = (activeMetricsRequest s \<noteq> None),
      shown = (if selectedServerId s = [] \<or> \<not> metricsLoaded s then None else Some (rawMetrics s))\<rparr>"

definition mon_ok ::
  "(string \<Rightarrow> time_range \<Rightarrow> metric_api_point list option \<Rightarrow> bool) \<Rightarrow> string \<times> time_range \<Rightarrow>
     metric_api_point list \<Rightarrow> bool" where
  \<comment> \<open>an answer that is not an array counts as an empty one\<close>
  "mon_ok answers q xs \<longleftrightarrow>
     answers (fst q) (snd q) (Some xs) \<or> xs = [] \<and> answers (fst q) (snd q) None"

abbreviation mon_spec where
  "mon_spec answers \<equiv> latest_step (mon_ok answers) True"

definition simulated ::
  "(string \<Rightarrow> time_range \<Rightarrow> metric_api_point list option \<Rightarrow> bool) \<Rightarrow> monitoring \<Rightarrow> monitoring \<Rightarrow> bool" where
  "simulated answers s t \<longleftrightarrow> mon_abs t = mon_abs s \<or> mon_spec answers (mon_abs s) (mon_abs t)"

lemma abs_frame [simp]:
  "mon_abs (s\<lparr>mservers := a\<rparr>) = mon_abs s"
  "mon_abs (s\<lparr>toLogin := b\<rparr>) = mon_abs s"
  "mon_abs (s\<lparr>metricsError := e\<rparr>) = mon_abs s"
  "mon_abs (s\<lparr>refreshInterval := i\<rparr>) = mon_abs s"
  "mon_abs (s\<lparr>expandedOrder := m\<rparr>) = mon_abs s"
  "mon_abs (s\<lparr>hiddenSeries := h\<rparr>) = mon_abs s"
  by (simp_all add: mon_abs_def)

lemma abs_restart:
  "mon_abs (restart_requests s) =
     (mon_abs s)\<lparr>waiting := (selectedServerId s \<noteq> []), shown := None\<rparr>"
  by (simp add: mon_abs_def restart_requests_def fetchMetrics_def Let_def)

lemma simulated_refl: "simulated answers s s"
  by (simp add: simulated_def)

lemma simulated_restart:
  assumes "mon_abs s' = (mon_abs s)\<lparr>choice := q, shown := x\<rparr>"
  shows "simulated answers s (restart_requests s')"
proof -
  have "mon_abs (restart_requests s') =
      (mon_abs s)\<lparr>choice := q, waiting := (selectedServerId s' \<noteq> []), shown := (if True then None else shown (mon_abs s))\<rparr>"
    by (simp add: abs_restart assms)
  then show ?thesis
    using latest_step.choose [where ok = "mon_ok answers" and clears = True and v = "mon_abs s" and q = q and w = "selectedServerId s' \<noteq> []"]
    by (simp add: simulated_def)
qed

lemma abs_choice: "choice (mon_abs s) = (selectedServerId s, timeRange s)"
  by (simp add: mon_abs_def)

lemma abs_select:
  "mon_abs (s\<lparr>selectedServerId := sid\<rparr>) =
     (mon_abs s)\<lparr>choice := (sid, timeRange s), shown := shown (mon_abs (s\<lparr>selectedServerId := sid\<rparr>))\<rparr>"
  "mon_abs (s\<lparr>timeRange := r\<rparr>) = (mon_abs s)\<lparr>choice := (selectedServerId s, r), shown := shown (mon_abs s)\<rparr>"
  "mon_abs s = (mon_abs s)\<lparr>choice := choice (mon_abs s), shown := shown (mon_abs s)\<rparr>"
  by (simp_all add: mon_abs_def)

lemma simulated_select:
  "simulated answers s (select_server sid s)"
  "simulated answers s (select_range r s)"
  "simulated answers s (select_interval i s)"
proof -
  show "simulated answers s (select_server sid s)"
    unfolding select_server_def
    by (auto intro: simulated_refl simulated_restart abs_select)
  show "simulated answers s (select_range r s)"
    unfolding select_range_def
    by (auto intro: simulated_refl simulated_restart abs_select)
  have "mon_abs (s\<lparr>refreshInterval := i\<rparr>) = (mon_abs s)\<lparr>choice := choice (mon_abs s), shown := shown (mon_abs s)\<rparr>"
    by (simp flip: abs_select(3))
  then have "simulated answers s (restart_requests (s\<lparr>refreshInterval := i\<rparr>))"
    by (rule simulated_restart)
  moreover have "simulated answers s (s\<lparr>refreshInterval := i\<rparr>)" by (simp add: simulated_def)
  ultimately show "simulated answers s (select_interval i s)"
    by (simp add: select_interval_def)
qed

lemma simulated_fetch: "simulated answers s (fetchMetrics b r s)"
proof -
  have "fetchMetrics b r s = s \<or> mon_abs (fetchMetrics b r s) = (mon_abs s)\<lparr>waiting := True\<rparr>"
    by (simp add: fetchMetrics_def mon_abs_def)
  then show ?thesis by (auto simp: simulated_def intro: latest_step.ask)
qed

lemma simulated_settle:
  assumes "mon_abs s' = mon_abs s"
  shows "simulated answers s (settle_request c s')"
proof -
  have "mon_abs (settle_request c s') = mon_abs s \<or>
      mon_abs (settle_request c s') = (mon_abs s)\<lparr>waiting := False\<rparr>"
    unfolding assms [symmetric] by (simp add: settle_request_def mon_abs_def)
  then show ?thesis by (auto simp: simulated_def intro: latest_step.give_up)
qed

lemma simulated_answer:
  assumes "mon_inv answers s" and "flights s c = Some (sid, r)" and "answers sid r ms"
  shows "simulated answers s (fetchMetrics_finish json_parse c (Metrics ms sd) s)"
proof (cases "activeMetricsRequest s = Some c")
  case True
  let ?xs = "case ms of Some xs \<Rightarrow> xs | None \<Rightarrow> []"
  have q: "selectedServerId s = sid" "timeRange s = r" "sid \<noteq> []"
    using assms(1,2) True by (auto simp: mon_inv_def active_ok_def)
  have "mon_ok answers (choice (mon_abs s)) ?xs"
    using assms(3) by (cases ms) (simp_all add: mon_ok_def abs_choice q)
  moreover have "waiting (mon_abs s)" using True by (simp add: mon_abs_def)
  moreover have "mon_abs (fetchMetrics_finish json_parse c (Metrics ms sd) s) =
      (mon_abs s)\<lparr>waiting := False, shown := Some ?xs\<rparr>"
    using True q by (simp add: mon_abs_def fetchMetrics_finish_def settle_request_def)
  ultimately show ?thesis by (auto simp: simulated_def intro: latest_step.receive)
next
  case False
  then show ?thesis by (simp add: simulated_def fetchMetrics_finish_def settle_request_def)
qed

lemma simulated_step:
  "mon_step answers json_parse s t \<Longrightarrow> mon_inv answers s \<Longrightarrow> simulated answers s t"
proof (induction rule: mon_step.induct)
  case (servers s target reply)
  have "simulated answers s (select_server sid (s\<lparr>mservers := x\<rparr>))" for sid x
    using simulated_select(1) [of answers "s\<lparr>mservers := x\<rparr>" sid] by (simp add: simulated_def)
  then show ?case
    by (auto simp: fetchServers_done_def Let_def simulated_refl split: sum.split)
      (simp_all add: simulated_def)
next
  case (failed s c e)
  then show ?case
    by (simp add: fetchMetrics_finish_def simulated_settle Let_def)
next
  case (aborted s c)
  then show ?case by (simp add: fetchMetrics_finish_def simulated_settle)
next
  case (expand s m)
  then show ?case by (simp add: toggleExpand_def simulated_def)
next
  case (series s k)
  then show ?case by (simp add: toggleSeries_def simulated_def)
qed (auto simp: tick_def intro: simulated_select simulated_fetch simulated_answer simulated_refl)

definition mon_start :: "(string \<times> time_range, metric_api_point list) latest" where
  "mon_start = \<lparr>choice = ([], R15m), waiting = False, shown = None\<rparr>"

lemma inv_start: "mon_inv answers init_monitoring"
  by (simp add: mon_inv_def active_ok_def shown_answer_def init_monitoring_def)

interpretation mon: refinement init_monitoring "mon_step answers json_parse" "mon_inv answers"
    mon_start "mon_spec answers" mon_abs
  for answers json_parse
proof unfold_locales
  show "mon_inv answers init_monitoring" by (rule inv_start)
  show "mon_abs init_monitoring = mon_start"
    by (simp add: mon_abs_def init_monitoring_def mon_start_def)
qed (auto intro: inv_step dest: simulated_step simp: simulated_def)

lemma reachable_reach:
  "mon_reachable answers json_parse s \<Longrightarrow> reach init_monitoring (mon_step answers json_parse) s"
  by (induction rule: mon_reachable.induct) (auto intro: reach.intros)

text \<open>
  C5. The monitoring page implements the contract 'the latest choice wins': from every state it can
  reach, each of its steps -- selections, timer, refreshes, answers in any order -- is one step of
  the abstract page or none at all, so every state it reaches stands for a state of the abstract
  page; there a new choice clears what is shown, an answer is taken only while one is awaited and
  only if it answers the present choice, and so whatever is shown answers it.
\<close>

theorem monitoring_refines_latest:
  assumes "mon_reachable answers json_parse s" and "mon_step answers json_parse s t"
  shows "reach mon_start (latest_step (mon_ok answers) True) (mon_abs s) \<and>
         (mon_abs t = mon_abs s \<or> latest_step (mon_ok answers) True (mon_abs s) (mon_abs t)) \<and>
         answers_choice (mon_ok answers) (mon_abs t)"
proof -
  note r = reachable_reach [OF assms(1)]
  then have "reach init_monitoring (mon_step answers json_parse) t"
    using assms(2) by (rule reach.further)
  then have "answers_choice (mon_ok answers) (mon_abs t)"
    by (rule mon.safety_transfer)
      (simp add: mon_start_def answers_choice_def, rule clearing_is_safe)
  then show ?thesis
    using mon.reachable_abs [OF r] mon.simulates [OF mon.reachable_inv [OF r] assms(2)] by blast
qed

theorem monitoring_refines_latest_witness:
  "reach mon_start (latest_step (mon_ok demo_answers) True) (mon_abs (demo_mon 2)) \<and>
   shown (mon_abs (demo_mon 2)) \<noteq> None"
proof -
  have "mon_step demo_answers (\<lambda>s. None) (demo_mon 2) (tick (demo_mon 2))" by (rule mon_step.ticked)
  moreover have "metricsLoaded (demo_mon 2)"
    by (simp add: demo_mon_def fetchMetrics_finish_def settle_request_def select_server_def
        init_monitoring_def restart_requests_def fetchMetrics_def)
  then have "shown (mon_abs (demo_mon 2)) \<noteq> None" by (simp add: mon_abs_def demo_mon_shows)
  ultimately show ?thesis using monitoring_refines_latest [OF demo_mon_reachable] by blast
qed

end
