(* ===== verification/Network.thy ===== *)
theory Network
  imports JsNumber
begin

text \<open>
  The network quality page (\<open>dashboard/network/page.tsx\<close>): the targets probed by the agents, the
  filters over them, the form that creates and edits targets, the overview by tag and the
  history chart.  Toasts are kept as the list of messages shown, latest first.  Each request for
  history points is a step of its own, so that answers may arrive in any order.
\<close>

section \<open>Entities\<close>

record server_option =
  so_id :: string
  so_name :: string
  so_status :: string
  so_ip_address :: "string option"

record target_result =
  tr_id :: string
  tr_target_id :: string
  tr_latency_ms :: "rat option"
  tr_packet_loss :: "rat option"
  tr_total_probes :: nat
  tr_successful_probes :: nat
  tr_failed_probes :: nat
  tr_status :: string
  tr_measured_at :: string

record net_target =
  nt_id :: string
  nt_agent_id :: string
  nt_server_name :: "string option"
  nt_name :: string
  nt_host :: string
  nt_port :: rat
  nt_tag :: string
  nt_probe_method :: string
  nt_probes_per_run :: rat
  nt_warning_ms :: "rat option"
  nt_critical_ms :: "rat option"
  nt_loss_pct :: "rat option"
  nt_enabled :: bool
  nt_is_gateway :: bool
  nt_latest_result :: "target_result option"

record tag_overview =
  to_tag :: string
  to_total_targets :: nat
  to_total_agents :: nat
  to_avg_latency_ms :: rat
  to_max_loss_pct :: rat
  to_status :: string
  to_is_wide_area_issue :: bool

record target_preset =
  tp_name :: string
  tp_host :: string
  tp_port :: rat
  tp_tag :: string
  tp_probe_method :: string
  tp_probes_per_run :: rat
  tp_warning_ms :: "rat option"
  tp_critical_ms :: "rat option"
  tp_loss_pct :: "rat option"
  tp_is_gateway :: bool

record net_rule =
  nr_id :: string
  nr_name :: string
  nr_metric :: string
  nr_target_name :: "string option"
  nr_server_id :: "string option"
  nr_enabled :: bool

record target_form =
  tf_name :: string
  tf_host :: string
  tf_port :: rat
  tf_tag :: string
  tf_probe_method :: string
  tf_probes_per_run :: rat
  tf_warning_ms :: string
  tf_critical_ms :: string
  tf_loss_pct :: string
  tf_enabled :: bool
  tf_is_gateway :: bool

datatype history_range = H6h | H24h | H7d

record network =
  nservers :: "server_option list"
  targets :: "net_target list"
  overviews :: "tag_overview list"
  presets :: "target_preset list"
  alertRules :: "net_rule list"
  nloading :: bool
  nrefreshing :: bool
  selectedAgentId :: string
  selectedTag :: string
  selectedStatus :: string
  nsearchQuery :: string
  targetModalOpen :: bool
  editingTarget :: "net_target option"
  selectedAgentIds :: "string list"
  formData :: target_form
  savingTarget :: bool
  testingTargetId :: "string option"
  historyModalOpen :: bool
  historyTarget :: "net_target option"
  historyData :: "target_result list"
  loadingHistory :: bool
  historyRange :: history_range
  deleteConfirmTarget :: "net_target option"
  deletingTarget :: bool
  toasts :: "string list"
  address_agent :: "string option"
    \<comment> \<open>the \<open>agent_id\<close> of the page's address, which the page keeps in step\<close>

definition empty_target_form :: target_form where
  "empty_target_form =
     \<lparr>tf_name = [], tf_host = [], tf_port = 0, tf_tag = ''Domestic'', tf_probe_method = ''ICMP'',
      tf_probes_per_run = 5, tf_warning_ms = [], tf_critical_ms = [], tf_loss_pct = [],
      tf_enabled = True, tf_is_gateway = False\<rparr>"

definition init_network :: "string option \<Rightarrow> network" where
  "init_network agent =
     \<lparr>nservers = [], targets = [], overviews = [], presets = [], alertRules = [], nloading = True,
      nrefreshing = False, selectedAgentId = opt_or agent [], selectedTag = ''all'',
      selectedStatus = ''all'', nsearchQuery = [], targetModalOpen = False, editingTarget = None,
      selectedAgentIds = [], formData = empty_target_form, savingTarget = False,
      testingTargetId = None, historyModalOpen = False, historyTarget = None, historyData = [],
      loadingHistory = False, historyRange = H24h, deleteConfirmTarget = None,
      deletingTarget = False, toasts = [], address_agent = agent\<rparr>"

definition toast :: "string \<Rightarrow> network \<Rightarrow> network" where
  "toast m s = s\<lparr>toasts := m # toasts s\<rparr>"

definition error_message :: "thrown \<Rightarrow> string" where
  \<comment> \<open>\<open>(err as Error).message\<close> in a concatenation\<close>
  "error_message e = (case e of ErrorObj m \<Rightarrow> m | NonError \<Rightarrow> ''undefined'')"

section \<open>Addresses\<close>

definition hex_digit :: "nat \<Rightarrow> char" where
  "hex_digit n = (if n < 10 then char_of (48 + n) else char_of (55 + n))"

definition uri_unreserved :: "char \<Rightarrow> bool" where
  "uri_unreserved c \<longleftrightarrow> is_digit c \<or> (65 \<le> char_code c \<and> char_code c \<le> 90) \<or>
     (97 \<le> char_code c \<and> char_code c \<le> 122) \<or> c \<in> set ''-_.!~*()'' \<or> char_code c = 39"

definition encodeURIComponent :: "string \<Rightarrow> string" where
  \<comment> \<open>on the UTF-8 bytes of the text\<close>
  "encodeURIComponent s =
     concat (map (\<lambda>c. if uri_unreserved c then [c]
                      else [CHR ''%'', hex_digit (nat (char_code c) div 16), hex_digit (nat (char_code c) mod 16)]) s)"

section \<open>Loading\<close>

definition overview_url :: "string option \<Rightarrow> network \<Rightarrow> string" where
  "overview_url agentFilterOverride s =
     (let activeAgent = (case agentFilterOverride of Some a \<Rightarrow> a | None \<Rightarrow> selectedAgentId s)
      in if activeAgent \<noteq> []
         then ''/network-targets/overview?agent_id='' @ encodeURIComponent activeAgent
         else ''/network-targets/overview'')"

record net_data =
  \<comment> \<open>the answers of the five calls; null where \<open>None\<close>\<close>
  nd_servers :: "server_option list option"
  nd_targets :: "net_target list option"
  nd_overviews :: "tag_overview list option"
  nd_presets :: "target_preset list option"
  nd_rules :: "net_rule list option"

definition loadData_finish :: "bool \<Rightarrow> net_data outcome \<Rightarrow> network \<Rightarrow> network" where
  "loadData_finish showToast reply s =
     (case reply of
        Inr d \<Rightarrow>
          (let s1 = s\<lparr>nservers := or_empty (nd_servers d), targets := or_empty (nd_targets d),
                      overviews := or_empty (nd_overviews d), presets := or_empty (nd_presets d),
                      alertRules := or_empty (nd_rules d)\<rparr>
           in if showToast then toast ''Network quality data refreshed'' s1 else s1)
      | Inl e \<Rightarrow> toast (''Failed to load network targets: '' @ error_message e) s)
     \<lparr>nloading := False, nrefreshing := False\<rparr>"

section \<open>Derived lists\<close>

definition discoveredTags :: "network \<Rightarrow> string list" where
  "discoveredTags s = uniq (filter (\<lambda>t. t \<noteq> []) (map nt_tag (targets s)))"

record select_option =
  opt_value :: string
  opt_label :: string
  opt_sub :: "string option"

definition serverSelectOptions :: "network \<Rightarrow> select_option list" where
  "serverSelectOptions s =
     \<lparr>opt_value = [], opt_label = ''All Servers ('' @ show_nat (length (nservers s)) @ '')'', opt_sub = None\<rparr> #
     map (\<lambda>v. \<lparr>opt_value = so_id v, opt_label = so_name v, opt_sub = Some (opt_or (so_ip_address v) ''No IP'')\<rparr>)
       (nservers s)"

definition tagSelectOptions :: "network \<Rightarrow> select_option list" where
  "tagSelectOptions s =
     \<lparr>opt_value = ''all'', opt_label = ''All Tags'', opt_sub = None\<rparr> #
     map (\<lambda>t. \<lparr>opt_value = t, opt_label = ''Tag: '' @ t, opt_sub = None\<rparr>) (discoveredTags s)"

definition statusSelectOptions :: "select_option list" where
  "statusSelectOptions =
     [\<lparr>opt_value = ''all'', opt_label = ''All Statuses'', opt_sub = None\<rparr>,
      \<lparr>opt_value = ''optimal'', opt_label = ''Optimal'', opt_sub = None\<rparr>,
      \<lparr>opt_value = ''warning'', opt_label = ''Warning'', opt_sub = None\<rparr>,
      \<lparr>opt_value = ''critical'', opt_label = ''Critical'', opt_sub = None\<rparr>]"

definition nselectedServer :: "network \<Rightarrow> server_option option" where
  "nselectedServer s = find_by so_id (selectedAgentId s) (nservers s)"

definition networkAlertRules :: "network \<Rightarrow> net_rule list" where
  "networkAlertRules s =
     filter (\<lambda>r. nr_metric r = ''network_latency'' \<or> nr_metric r = ''network_loss'') (alertRules s)"

definition universal_rule :: "net_rule \<Rightarrow> bool" where
  "universal_rule r \<longleftrightarrow> \<not> truthy (nr_target_name r) \<or> trim (the (nr_target_name r)) = []"

definition rule_filter_text :: "net_rule \<Rightarrow> string" where
  "rule_filter_text r = trim (to_lower (the (nr_target_name r)))"

definition getTargetAlerts :: "net_target \<Rightarrow> network \<Rightarrow> net_rule list" where
  "getTargetAlerts target s =
     filter (\<lambda>r. nr_enabled r \<and>
                 \<not> (truthy (nr_server_id r) \<and> the (nr_server_id r) \<noteq> nt_agent_id target) \<and>
                 (universal_rule r \<or>
                  str_includes (to_lower (nt_name target)) (rule_filter_text r) \<or>
                  str_includes (to_lower (nt_tag target)) (rule_filter_text r) \<or>
                  str_includes (to_lower (nt_host target)) (rule_filter_text r)))
       (networkAlertRules s)"

definition getTagAlerts :: "string \<Rightarrow> network \<Rightarrow> net_rule list" where
  "getTagAlerts tag s =
     filter (\<lambda>r. nr_enabled r \<and>
                 (universal_rule r \<or>
                  str_includes (to_lower tag) (rule_filter_text r) \<or>
                  str_includes (rule_filter_text r) (to_lower tag)))
       (networkAlertRules s)"

definition target_shown :: "network \<Rightarrow> net_target \<Rightarrow> bool" where
  "target_shown s t \<longleftrightarrow>
     \<not> (selectedAgentId s \<noteq> [] \<and> nt_agent_id t \<noteq> selectedAgentId s) \<and>
     \<not> (selectedTag s \<noteq> ''all'' \<and> to_lower (nt_tag t) \<noteq> to_lower (selectedTag s)) \<and>
     (let st = opt_or (map_option tr_status (nt_latest_result t)) ''optimal''
      in \<not> (selectedStatus s \<noteq> ''all'' \<and> to_lower st \<noteq> to_lower (selectedStatus s))) \<and>
     (trim (nsearchQuery s) = [] \<or>
      (let q = to_lower (nsearchQuery s)
       in str_includes (to_lower (nt_name t)) q \<or> str_includes (to_lower (nt_host t)) q \<or>
          str_includes (to_lower (opt_or (nt_server_name t) [])) q \<or> str_includes (to_lower (nt_tag t)) q))"

definition filteredTargets :: "network \<Rightarrow> net_target list" where
  "filteredTargets s = filter (target_shown s) (targets s)"

datatype badge = Pending | Critical | Warning | Optimal

definition renderStatusBadge :: "string option \<Rightarrow> badge" where
  "renderStatusBadge status =
     (if \<not> truthy status then Pending
      else (let s = to_lower (the status)
            in if s = ''critical'' \<or> s = ''unreachable'' then Critical
               else if s = ''warning'' then Warning else Optimal))"

section \<open>Filters\<close>

definition pick_agent :: "string \<Rightarrow> network \<Rightarrow> network" where
  "pick_agent val s =
     s\<lparr>selectedAgentId := val, address_agent := (if val \<noteq> [] then Some val else None)\<rparr>"

definition reset_filters :: "network \<Rightarrow> network" where
  "reset_filters s =
     s\<lparr>selectedAgentId := [], selectedTag := ''all'', selectedStatus := ''all'', nsearchQuery := [],
       address_agent := None\<rparr>"

section \<open>The target form\<close>

definition openCreateModal :: "network \<Rightarrow> network" where
  "openCreateModal s =
     s\<lparr>editingTarget := None,
       selectedAgentIds := (if selectedAgentId s \<noteq> [] then [selectedAgentId s] else map so_id (nservers s)),
       formData := empty_target_form, targetModalOpen := True\<rparr>"

definition opt_text :: "rat option \<Rightarrow> string" where
  \<comment> \<open>\<open>v?.toString() || ''\<close>\<close>
  "opt_text v = (case v of Some q \<Rightarrow> show_rat q | None \<Rightarrow> [])"

definition target_openEditModal :: "net_target \<Rightarrow> network \<Rightarrow> network" where
  "target_openEditModal target s =
     s\<lparr>editingTarget := Some target, selectedAgentIds := [nt_agent_id target],
       formData :=
         \<lparr>tf_name = nt_name target, tf_host = nt_host target, tf_port = nt_port target,
          tf_tag = nt_tag target, tf_probe_method = nt_probe_method target,
          tf_probes_per_run = nt_probes_per_run target, tf_warning_ms = opt_text (nt_warning_ms target),
          tf_critical_ms = opt_text (nt_critical_ms target), tf_loss_pct = opt_text (nt_loss_pct target),
          tf_enabled = nt_enabled target, tf_is_gateway = nt_is_gateway target\<rparr>,
       targetModalOpen := True\<rparr>"

definition preset_text :: "rat option \<Rightarrow> string" where
  \<comment> \<open>\<open>v ? v.toString() : ''\<close>: a zero counts as absent\<close>
  "preset_text v = (case v of Some q \<Rightarrow> if q = 0 then [] else show_rat q | None \<Rightarrow> [])"

definition applyPreset :: "target_preset \<Rightarrow> network \<Rightarrow> network" where
  "applyPreset p s =
     toast (''Applied preset: '' @ tp_name p)
       (s\<lparr>formData := (formData s)
            \<lparr>tf_name := tp_name p, tf_host := tp_host p, tf_port := tp_port p, tf_tag := tp_tag p,
             tf_probe_method := tp_probe_method p, tf_probes_per_run := tp_probes_per_run p,
             tf_warning_ms := preset_text (tp_warning_ms p), tf_critical_ms := preset_text (tp_critical_ms p),
             tf_loss_pct := preset_text (tp_loss_pct p), tf_is_gateway := tp_is_gateway p\<rparr>\<rparr>)"

definition internal_tag :: string where
  \<comment> \<open>the Vietnamese tag of gateway targets, in UTF-8\<close>
  "internal_tag =
     ''H'' @ map char_of [225::nat, 186, 161] @ '' t'' @ map char_of [225::nat, 186, 167] @ ''ng n'' @
     map char_of [225::nat, 187, 153] @ ''i b'' @ map char_of [225::nat, 187, 153]"

definition check_gateway :: "bool \<Rightarrow> network \<Rightarrow> network" where
  "check_gateway chk s =
     (let f = formData s
      in s\<lparr>formData := f\<lparr>tf_is_gateway := chk,
             tf_host := (if chk then ''gateway'' else if tf_host f = ''gateway'' then [] else tf_host f),
             tf_tag := (if chk then internal_tag else tf_tag f)\<rparr>\<rparr>)"

definition check_agent :: "string \<Rightarrow> bool \<Rightarrow> network \<Rightarrow> network" where
  "check_agent i checked s =
     s\<lparr>selectedAgentIds := (if checked then selectedAgentIds s @ [i]
                              else filter (\<lambda>j. j \<noteq> i) (selectedAgentIds s))\<rparr>"

definition select_all_agents :: "network \<Rightarrow> network" where
  "select_all_agents s = s\<lparr>selectedAgentIds := map so_id (nservers s)\<rparr>"

definition clear_agents :: "network \<Rightarrow> network" where
  "clear_agents s = s\<lparr>selectedAgentIds := []\<rparr>"

section \<open>Saving\<close>

definition saveTarget_check :: "network \<Rightarrow> string option" where
  "saveTarget_check s =
     (if trim (tf_name (formData s)) = [] then Some ''Target name is required''
      else if trim (tf_host (formData s)) = [] \<and> \<not> tf_is_gateway (formData s)
      then Some ''Host IP/Domain is required''
      else if selectedAgentIds s = [] then Some ''Select at least one server for this target''
      else None)"

definition optional_number :: "string \<Rightarrow> json option" where
  \<comment> \<open>\<open>s ? parseFloat(s) : undefined\<close>, as the payload carries it\<close>
  "optional_number t = (if t = [] then None else Some (num_json (parse_float t)))"

definition defined :: "(string \<times> json option) list \<Rightarrow> (string \<times> json) list" where
  \<comment> \<open>\<open>JSON.stringify\<close> leaves out undefined properties\<close>
  "defined kvs = List.map_filter (\<lambda>(k, v). map_option (Pair k) v) kvs"

definition target_payload :: "target_form \<Rightarrow> (string \<times> json) list" where
  "target_payload f =
     defined
       [(''name'', Some (JStr (trim (tf_name f)))),
        (''host'', Some (JStr (str_or (trim (tf_host f)) ''gateway''))),
        (''port'', Some (JNum (tf_port f))),
        (''tag'', Some (JStr (str_or (trim (tf_tag f)) ''default''))),
        (''probe_method'', Some (JStr (tf_probe_method f))),
        (''probes_per_run'', Some (JNum (if tf_probes_per_run f = 0 then 5 else tf_probes_per_run f))),
        (''alert_latency_warning_ms'', optional_number (tf_warning_ms f)),
        (''alert_latency_critical_ms'', optional_number (tf_critical_ms f)),
        (''alert_loss_critical_pct'', optional_number (tf_loss_pct f)),
        (''enabled'', Some (JBool (tf_enabled f))),
        (''is_gateway'', Some (JBool (tf_is_gateway f)))]"

definition handleSaveTarget_begin :: "network \<Rightarrow> network \<times> request option" where
  "handleSaveTarget_begin s =
     (case saveTarget_check s of
        Some m \<Rightarrow> (toast m s, None)
      | None \<Rightarrow>
          (s\<lparr>savingTarget := True\<rparr>,
           Some (case editingTarget s of
                   Some t \<Rightarrow>
                     request_send ''PUT'' (''/network-targets/'' @ nt_id t) (JObj (target_payload (formData s)))
                 | None \<Rightarrow>
                     request_send ''POST'' ''/network-targets''
                       (JObj ((''agent_ids'', strs_json (selectedAgentIds s)) # target_payload (formData s))))))"

definition handleSaveTarget_finish :: "unit outcome \<Rightarrow> network \<Rightarrow> network" where
  \<comment> \<open>the state when the reload with \<open>loadData(false, '')\<close> starts\<close>
  "handleSaveTarget_finish reply s =
     (case reply of
        Inr _ \<Rightarrow>
          (let q = ''\"'' @ tf_name (formData s) @ ''\"'';
               n = show_nat (length (selectedAgentIds s));
               s1 = (if editingTarget s \<noteq> None then toast (''Updated target '' @ q) s
                     else if length (selectedAgentIds s) > 1 \<or>
                        (selectedAgentId s \<noteq> [] \<and> selectedAgentId s \<notin> set (selectedAgentIds s))
                     then toast (''Created target '' @ q @ '' across '' @ n @ '' servers (switched to All Servers view)'')
                            (s\<lparr>selectedAgentId := [], selectedTag := ''all'', selectedStatus := ''all'',
                               address_agent := None\<rparr>)
                     else toast (''Created target '' @ q @ '' on '' @ n @ '' server(s)'') s)
           in s1\<lparr>targetModalOpen := False\<rparr>)
      | Inl e \<Rightarrow> toast (''Failed to save target: '' @ error_message e) s)
     \<lparr>savingTarget := False\<rparr>"

section \<open>Deleting, testing, history\<close>

definition handleDeleteTarget_begin :: "network \<Rightarrow> network \<times> request option" where
  "handleDeleteTarget_begin s =
     (case deleteConfirmTarget s of
        None \<Rightarrow> (s, None)
      | Some t \<Rightarrow> (s\<lparr>deletingTarget := True\<rparr>, Some (request_bare ''DELETE'' (''/network-targets/'' @ nt_id t))))"

definition handleDeleteTarget_finish :: "net_target \<Rightarrow> unit outcome \<Rightarrow> network \<Rightarrow> network" where
  "handleDeleteTarget_finish t reply s =
     (case reply of
        Inr _ \<Rightarrow> toast (''Deleted target \"'' @ nt_name t @ ''\"'') s\<lparr>deleteConfirmTarget := None\<rparr>
      | Inl e \<Rightarrow> toast (''Failed to delete target: '' @ error_message e) s)
     \<lparr>deletingTarget := False\<rparr>"

record probe =
  pb_latency_ms :: "rat option"
  pb_packet_loss :: "rat option"
  pb_status :: "string option"

definition handleTestTargetNow_begin :: "net_target \<Rightarrow> network \<Rightarrow> network \<times> request" where
  "handleTestTargetNow_begin t s =
     (s\<lparr>testingTargetId := Some (nt_id t)\<rparr>,
      request_bare ''POST'' (''/network-targets/'' @ nt_id t @ ''/test-now''))"

definition handleTestTargetNow_finish :: "net_target \<Rightarrow> probe option outcome \<Rightarrow> network \<Rightarrow> network" where
  "handleTestTargetNow_finish t reply s =
     (case reply of
        Inr p \<Rightarrow>
          (let statusText = opt_or (Option.bind p pb_status) ''completed'';
               lossText = (case Option.bind p pb_packet_loss of
                             Some l \<Rightarrow> '', Loss: '' @ show_rat l @ ''%'' | None \<Rightarrow> []);
               latText = (case Option.bind p pb_latency_ms of
                            Some l \<Rightarrow> if l = 0 then [] else '', Latency: '' @ show_fixed 1 l @ ''ms''
                          | None \<Rightarrow> [])
           in toast (''Tested '' @ nt_name t @ '' ['' @ to_upper statusText @ '']'' @ latText @ lossText) s)
      | Inl e \<Rightarrow> toast (''Test failed for '' @ nt_name t @ '': '' @ error_message e) s)
     \<lparr>testingTargetId := None\<rparr>"

definition history_span_ms :: "history_range \<Rightarrow> int" where
  "history_span_ms r =
     (case r of H6h \<Rightarrow> 6 * 60 * 60 * 1000 | H24h \<Rightarrow> 24 * 60 * 60 * 1000 | H7d \<Rightarrow> 7 * 24 * 60 * 60 * 1000)"

definition openHistoryModal ::
  "(int \<Rightarrow> string) \<Rightarrow> int \<Rightarrow> net_target \<Rightarrow> history_range \<Rightarrow> network \<Rightarrow> network \<times> request" where
  \<comment> \<open>\<open>to_iso\<close> is \<open>toISOString\<close>\<close>
  "openHistoryModal to_iso now target r s =
     (s\<lparr>historyTarget := Some target, historyRange := r, historyModalOpen := True, loadingHistory := True\<rparr>,
      request_get (''/network-targets/'' @ nt_id target @ ''/history?from='' @
        encodeURIComponent (to_iso (now - history_span_ms r)) @ ''&to='' @ encodeURIComponent (to_iso now) @ ''&limit=150''))"

definition history_answered :: "target_result list option outcome \<Rightarrow> network \<Rightarrow> network" where
  "history_answered reply s =
     (case reply of
        Inr d \<Rightarrow> s\<lparr>historyData := or_empty d\<rparr>
      | Inl e \<Rightarrow> toast (''Failed to load target history: '' @ error_message e) s)
     \<lparr>loadingHistory := False\<rparr>"

end
