(* ===== verification/NetworkProps.thy ===== *)
theory NetworkProps
  imports Network
begin

text \<open>
  Properties of the network quality page: the edit form gives back what it was given, the status
  filter against the badge on the cards, and the history chart under overtaking answers.
\<close>

section \<open>The edit form\<close>

definition stored_threshold :: "rat option \<Rightarrow> bool" where
  \<comment> \<open>what the API stores: nothing, or a number a double prints in full\<close>
  "stored_threshold v \<longleftrightarrow> (case v of None \<Rightarrow> True | Some q \<Rightarrow> 0 \<le> q \<and> decimals 17 q)"

lemma optional_number_opt_text:
  "stored_threshold v \<Longrightarrow> optional_number (opt_text v) = map_option JNum v"
  by (cases v) (auto simp: stored_threshold_def optional_number_def opt_text_def parse_show_rat)

definition trimmed :: "string \<Rightarrow> bool" where
  "trimmed s \<longleftrightarrow> trim s = s \<and> s \<noteq> []"

definition stored_fields :: "net_target \<Rightarrow> (string \<times> json) list" where
  \<comment> \<open>the editable part of a target as the API sent it\<close>
  "stored_fields t =
     defined
       [(''name'', Some (JStr (nt_name t))), (''host'', Some (JStr (nt_host t))),
        (''port'', Some (JNum (nt_port t))), (''tag'', Some (JStr (nt_tag t))),
        (''probe_method'', Some (JStr (nt_probe_method t))),
        (''probes_per_run'', Some (JNum (nt_probes_per_run t))),
        (''alert_latency_warning_ms'', map_option JNum (nt_warning_ms t)),
        (''alert_latency_critical_ms'', map_option JNum (nt_critical_ms t)),
        (''alert_loss_critical_pct'', map_option JNum (nt_loss_pct t)),
        (''enabled'', Some (JBool (nt_enabled t))), (''is_gateway'', Some (JBool (nt_is_gateway t)))]"

text \<open>
  C36. Editing a network target without changing anything sends the target back unchanged: opening
  the form and saving it at once issues one PUT for that target whose body holds its stored name,
  host, port, tag, probe settings, thresholds and flags, each threshold printed and read back.
\<close>

theorem target_edit_roundtrip:
  assumes "trimmed (nt_name t)" and "trimmed (nt_host t)" and "trimmed (nt_tag t)"
    and "nt_probes_per_run t \<noteq> 0"
    and "stored_threshold (nt_warning_ms t)" and "stored_threshold (nt_critical_ms t)"
    and "stored_threshold (nt_loss_pct t)"
  shows "handleSaveTarget_begin (target_openEditModal t s) =
           ((target_openEditModal t s)\<lparr>savingTarget := True\<rparr>,
            Some (request_send ''PUT'' (''/network-targets/'' @ nt_id t) (JObj (stored_fields t))))"
proof -
  have "target_payload (formData (target_openEditModal t s)) = stored_fields t"
    using assms
    by (simp add: target_payload_def stored_fields_def target_openEditModal_def trimmed_def
        optional_number_opt_text)
  moreover have "saveTarget_check (target_openEditModal t s) = None"
    using assms by (simp add: saveTarget_check_def target_openEditModal_def trimmed_def)
  ultimately show ?thesis
    by (simp add: handleSaveTarget_begin_def) (simp add: target_openEditModal_def)
qed

definition demo_target :: net_target where
  "demo_target =
     \<lparr>nt_id = ''t1'', nt_agent_id = ''a'', nt_server_name = None, nt_name = ''dns'', nt_host = ''1.1.1.1'',
      nt_port = 53, nt_tag = ''Domestic'', nt_probe_method = ''TCP'', nt_probes_per_run = 5,
      nt_warning_ms = Some 12.5, nt_critical_ms = None, nt_loss_pct = Some 10, nt_enabled = True,
      nt_is_gateway = False, nt_latest_result = None\<rparr>"

theorem target_edit_roundtrip_witness:
  "body_field (the (snd (handleSaveTarget_begin (target_openEditModal demo_target (init_network None)))))
     ''alert_latency_warning_ms'' = Some (JNum 12.5)"
proof -
  have "trim ''dns'' = ''dns''" "trim ''1.1.1.1'' = ''1.1.1.1''" "trim ''Domestic'' = ''Domestic''"
    by code_simp+
  moreover have "decimals 17 (25 / 2 :: rat)" "decimals 17 (10 :: rat)"
    unfolding decimals_def
    by (rule exI [of _ "1250000000000000000"], simp) (rule exI [of _ "1000000000000000000"], simp)
  ultimately show ?thesis
    using target_edit_roundtrip [of demo_target "init_network None"]
    by (simp add: demo_target_def trimmed_def stored_threshold_def stored_fields_def defined_def
        List.map_filter_simps)
qed

section \<open>Badges and the status filter\<close>

text \<open>
  The status filter misses what the badge shows: a TCP target whose last probe failed has the
  status unreachable and wears the badge Critical, and one that answered has the status reachable
  and wears Optimal, but every status offered by the filter except 'all' hides both; a target
  without a result wears Pending and is listed under 'optimal'.
\<close>

theorem status_filter_misses_tcp:
  assumes "nt_latest_result t = Some r" and "to_lower (tr_status r) = ''unreachable'' \<or> to_lower (tr_status r) = ''reachable''"
    and "selectedStatus s \<in> set (map opt_value statusSelectOptions)"
  shows "renderStatusBadge (Some (tr_status r)) =
           (if to_lower (tr_status r) = ''unreachable'' then Critical else Optimal) \<and>
         (target_shown s t \<longrightarrow> selectedStatus s = ''all'') \<and>
         (nt_latest_result t' = None \<and> target_shown (s\<lparr>selectedStatus := ''all''\<rparr>) t' \<longrightarrow>
            renderStatusBadge (map_option tr_status (nt_latest_result t')) = Pending \<and>
            target_shown (s\<lparr>selectedStatus := ''optimal''\<rparr>) t')"
proof -
  have ne: "tr_status r \<noteq> []" using assms(2) by (auto simp: to_lower_def)
  have low: "to_lower ''optimal'' = ''optimal''" "to_lower ''warning'' = ''warning''"
    "to_lower ''critical'' = ''critical''"
    by code_simp+
  have st: "selectedStatus s \<in> {''all'', ''optimal'', ''warning'', ''critical''}"
    using assms(3) by (simp add: statusSelectOptions_def)
  have "renderStatusBadge (Some (tr_status r)) =
      (if to_lower (tr_status r) = ''unreachable'' then Critical else Optimal)"
    using assms(2) ne by (auto simp: renderStatusBadge_def)
  moreover have "target_shown s t \<longrightarrow> selectedStatus s = ''all''"
    using assms(1,2) ne st low by (auto simp: target_shown_def)
  ultimately show ?thesis
    using low by (auto simp: target_shown_def renderStatusBadge_def)
qed

definition demo_result :: target_result where
  "demo_result =
     \<lparr>tr_id = ''x'', tr_target_id = ''t1'', tr_latency_ms = None, tr_packet_loss = None, tr_total_probes = 5,
      tr_successful_probes = 0, tr_failed_probes = 5, tr_status = ''unreachable'', tr_measured_at = ''''\<rparr>"

theorem status_filter_misses_tcp_witness:
  "renderStatusBadge (Some ''unreachable'') = Critical \<and>
   \<not> target_shown ((init_network None)\<lparr>selectedStatus := ''critical''\<rparr>) (demo_target\<lparr>nt_latest_result := Some demo_result\<rparr>)"
proof -
  have "to_lower ''unreachable'' = ''unreachable''" by code_simp
  then show ?thesis
    using status_filter_misses_tcp [of "demo_target\<lparr>nt_latest_result := Some demo_result\<rparr>" demo_result
        "(init_network None)\<lparr>selectedStatus := ''critical''\<rparr>" demo_target]
    by (simp add: demo_result_def statusSelectOptions_def)
qed

section \<open>The history chart\<close>

text \<open>
  The history chart can show another target: an answer is stored without asking for whom it
  was requested, so when the chart of a first target is still loading while the user opens that
  of a second one, and the first answer comes last, the chart headed by the second target and its
  range holds the points of the first and counts as loaded.
\<close>

theorem history_overtaken:
  "let s1 = fst (openHistoryModal to_iso now first r1 s);
       s2 = fst (openHistoryModal to_iso now' second r2 s1);
       s3 = history_answered (Inr (Some points1)) (history_answered (Inr (Some points2)) s2)
   in historyTarget s3 = Some second \<and> historyRange s3 = r2 \<and> historyData s3 = points1 \<and>
      \<not> loadingHistory s3"
  by (simp add: openHistoryModal_def history_answered_def or_empty_def)

end
