(* ===== verification/JsVersion.thy ===== *)
theory JsVersion
  imports JsNumber
begin

text \<open>
  Comparison of agent versions: \<open>isNewerVersion\<close> of \<open>dashboard/servers/page.tsx\<close> and the two
  copies of \<open>versionAtLeast\<close> in \<open>dashboard/servers/[id]/page.tsx\<close> and
  \<open>dashboard/logs/page.tsx\<close>, with the order they implement.
\<close>

fun split_on :: "char \<Rightarrow> string \<Rightarrow> string list" where
  \<comment> \<open>\<open>s.split(c)\<close>\<close>
  "split_on c [] = [[]]"
| "split_on c (x # xs) =
     (if x = c then [] # split_on c xs
      else (case split_on c xs of y # ys \<Rightarrow> (x # y) # ys | [] \<Rightarrow> [[x]]))"

lemma split_on_append: "c \<notin> set s \<Longrightarrow> split_on c (s @ c # r) = s # split_on c r"
  by (induction s) auto

definition strip_v :: "string \<Rightarrow> string" where
  \<comment> \<open>\<open>value.replace(/^v/i, '')\<close>\<close>
  "strip_v s = (case s of c # r \<Rightarrow> if c = CHR ''v'' \<or> c = CHR ''V'' then r else s | [] \<Rightarrow> [])"

definition version_part :: "string \<Rightarrow> int" where
  \<comment> \<open>\<open>Number.parseInt(part, 10) || 0\<close>\<close>
  "version_part part = (case parse_int part of Fin q \<Rightarrow> \<lfloor>q\<rfloor> | _ \<Rightarrow> 0)"

definition parse_version :: "string \<Rightarrow> int list" where
  "parse_version value = map version_part (split_on CHR ''.'' (strip_v value))"

definition looks_like_version :: "string \<Rightarrow> bool" where
  \<comment> \<open>\<open>/^\d+\.\d+\.\d+/.test(s)\<close>\<close>
  "looks_like_version s \<longleftrightarrow>
     (let r1 = dropWhile is_digit s
      in takeWhile is_digit s \<noteq> [] \<and> r1 \<noteq> [] \<and> hd r1 = CHR ''.'' \<and>
         (let r2 = dropWhile is_digit (tl r1)
          in takeWhile is_digit (tl r1) \<noteq> [] \<and> r2 \<noteq> [] \<and> hd r2 = CHR ''.'' \<and>
             tl r2 \<noteq> [] \<and> is_digit (hd (tl r2))))"

definition part_at :: "int list \<Rightarrow> nat \<Rightarrow> int" where
  \<comment> \<open>\<open>parts[index] || 0\<close>\<close>
  "part_at ps i = (if i < length ps then ps ! i else 0)"

fun compare_parts :: "nat \<Rightarrow> nat \<Rightarrow> int list \<Rightarrow> int list \<Rightarrow> bool \<Rightarrow> bool" where
  \<comment> \<open>the loop from \<open>index\<close> with \<open>n\<close> rounds left; \<open>e\<close> is the result when all parts agree\<close>
  "compare_parts 0 i a b e = e"
| "compare_parts (Suc n) i a b e =
     (if part_at a i > part_at b i then True
      else if part_at a i < part_at b i then False
      else compare_parts n (Suc i) a b e)"

definition isNewerVersion :: "string option \<Rightarrow> string option \<Rightarrow> bool" where
  "isNewerVersion target current =
     (if \<not> truthy target then False
      else if \<not> truthy current then True
      else (let t = parse_version (the target); c = parse_version (the current)
            in compare_parts (max (length t) (length c)) 0 t c False))"

definition version_ge :: "string \<Rightarrow> string \<Rightarrow> bool" where
  "version_ge current minimum =
     (let c = parse_version current; m = parse_version minimum
      in compare_parts (max (length c) (length m)) 0 c m True)"

definition versionAtLeast :: "string option \<Rightarrow> string \<Rightarrow> bool" where
  \<comment> \<open>the copy of the server page: an unknown or development version passes\<close>
  "versionAtLeast current minimum =
     (if \<not> truthy current \<or> current = Some ''dev'' then True else version_ge (the current) minimum)"

definition logs_versionAtLeast :: "string option \<Rightarrow> string \<Rightarrow> bool" where
  \<comment> \<open>the copy of the logs page: an unknown version fails\<close>
  "logs_versionAtLeast current minimum =
     (if \<not> truthy current then False else version_ge (the current) minimum)"

section \<open>The order behind the loop\<close>

definition first_difference :: "int list \<Rightarrow> int list \<Rightarrow> nat \<Rightarrow> bool" where
  "first_difference a b k \<longleftrightarrow> part_at a k \<noteq> part_at b k \<and> (\<forall>j < k. part_at a j = part_at b j)"

definition same_version :: "int list \<Rightarrow> int list \<Rightarrow> bool" where
  \<comment> \<open>equal up to trailing zeros\<close>
  "same_version a b \<longleftrightarrow> (\<forall>j. part_at a j = part_at b j)"

definition parts_less :: "int list \<Rightarrow> int list \<Rightarrow> bool" where
  "parts_less a b \<longleftrightarrow> (\<exists>k. first_difference a b k \<and> part_at a k < part_at b k)"

lemma same_version_sym: "same_version a b \<longleftrightarrow> same_version b a"
  by (auto simp: same_version_def)

lemma compare_parts_spec:
  "compare_parts n i a b e \<longleftrightarrow>
     (if \<forall>j \<ge> i. j < i + n \<longrightarrow> part_at a j = part_at b j then e
      else \<exists>k \<ge> i. k < i + n \<and> part_at a k > part_at b k \<and> (\<forall>j \<ge> i. j < k \<longrightarrow> part_at a j = part_at b j))"
proof (induction n arbitrary: i)
  case 0
  then show ?case by simp
next
  case (Suc n)
  consider "part_at a i > part_at b i" | "part_at a i < part_at b i" | "part_at a i = part_at b i"
    by linarith
  then show ?case
  proof cases
    case 1
    then show ?thesis by (auto intro!: exI [of _ i])
  next
    case 2
    then have "\<not> (\<exists>k \<ge> i. k < i + Suc n \<and> part_at a k > part_at b k \<and> (\<forall>j \<ge> i. j < k \<longrightarrow> part_at a j = part_at b j))"
      by (metis le_eq_less_or_eq less_asym' less_irrefl)
    with 2 show ?thesis by (auto intro: exI [of _ i])
  next
    case 3
    have split: "(\<forall>j \<ge> i. P j) \<longleftrightarrow> P i \<and> (\<forall>j \<ge> Suc i. P j)" for P
      by (metis Suc_le_eq le_eq_less_or_eq)
    have all: "(\<forall>j \<ge> i. j < i + Suc n \<longrightarrow> part_at a j = part_at b j) \<longleftrightarrow>
               (\<forall>j \<ge> Suc i. j < Suc i + n \<longrightarrow> part_at a j = part_at b j)"
      using 3 by (subst split) simp
    have ex: "(\<exists>k \<ge> i. k < i + Suc n \<and> part_at a k > part_at b k \<and> (\<forall>j \<ge> i. j < k \<longrightarrow> part_at a j = part_at b j)) \<longleftrightarrow>
              (\<exists>k \<ge> Suc i. k < Suc i + n \<and> part_at a k > part_at b k \<and> (\<forall>j \<ge> Suc i. j < k \<longrightarrow> part_at a j = part_at b j))"
      using 3 by (metis Suc_le_eq add_Suc add_Suc_right le_eq_less_or_eq less_irrefl)
    have "compare_parts (Suc n) i a b e = compare_parts n (Suc i) a b e" using 3 by simp
    then show ?thesis by (simp only: all ex Suc.IH)
  qed
qed

lemma part_at_beyond: "length a \<le> j \<Longrightarrow> part_at a j = 0"
  by (simp add: part_at_def)

lemma within_length: "part_at a k \<noteq> part_at b k \<Longrightarrow> k < max (length a) (length b)"
  by (rule ccontr) (simp add: part_at_def max_def split: if_splits)

lemma compare_all:
  "compare_parts (max (length a) (length b)) 0 a b e \<longleftrightarrow> (if same_version a b then e else parts_less b a)"
proof -
  have eq: "(\<forall>j. j < max (length a) (length b) \<longrightarrow> part_at a j = part_at b j) \<longleftrightarrow> same_version a b"
    unfolding same_version_def using within_length by metis
  have "(\<exists>k < max (length a) (length b). part_at a k > part_at b k \<and> (\<forall>j < k. part_at a j = part_at b j)) \<longleftrightarrow>
        parts_less b a"
    unfolding parts_less_def first_difference_def
    by (metis less_imp_neq within_length)
  with eq show ?thesis by (simp add: compare_parts_spec)
qed

lemma difference_exists: "\<not> same_version a b \<Longrightarrow> \<exists>k. first_difference a b k"
  unfolding same_version_def first_difference_def
  using exists_least_iff [of "\<lambda>k. part_at a k \<noteq> part_at b k"] by auto

lemma parts_less_cases:
  "same_version a b \<or> parts_less a b \<or> parts_less b a"
proof (cases "same_version a b")
  case False
  then obtain k where k: "first_difference a b k" using difference_exists by blast
  then have "first_difference b a k" by (auto simp: first_difference_def)
  with k show ?thesis unfolding parts_less_def first_difference_def by (metis linorder_neqE)
qed simp

lemma first_difference_unique:
  "first_difference a b j \<Longrightarrow> first_difference a b k \<Longrightarrow> j = k"
  unfolding first_difference_def by (metis linorder_neqE_nat)

lemma parts_less_asym: "parts_less a b \<Longrightarrow> \<not> parts_less b a \<and> \<not> same_version a b"
proof -
  assume "parts_less a b"
  then obtain k where k: "first_difference a b k" "part_at a k < part_at b k" by (auto simp: parts_less_def)
  have "\<not> parts_less b a"
  proof
    assume "parts_less b a"
    then obtain j where j: "first_difference b a j" "part_at b j < part_at a j" by (auto simp: parts_less_def)
    then have "first_difference a b j" by (auto simp: first_difference_def)
    with k(1) have "j = k" using first_difference_unique by blast
    with k j show False by simp
  qed
  with k show ?thesis by (auto simp: same_version_def first_difference_def intro!: exI [of _ k])
qed

lemma parts_less_trans: "parts_less a b \<Longrightarrow> parts_less b c \<Longrightarrow> parts_less a c"
proof -
  assume "parts_less a b" "parts_less b c"
  then obtain j k where j: "first_difference a b j" "part_at a j < part_at b j"
    and k: "first_difference b c k" "part_at b k < part_at c k" by (auto simp: parts_less_def)
  have "first_difference a c (min j k) \<and> part_at a (min j k) < part_at c (min j k)"
    using j k by (cases j k rule: linorder_cases) (auto simp: first_difference_def min_def)
  then show ?thesis by (auto simp: parts_less_def)
qed

lemma isNewerVersion_iff:
  "t \<noteq> [] \<Longrightarrow> c \<noteq> [] \<Longrightarrow> isNewerVersion (Some t) (Some c) \<longleftrightarrow> parts_less (parse_version c) (parse_version t)"
  using parts_less_asym [of "parse_version c" "parse_version t"] same_version_sym [of "parse_version c" "parse_version t"]
  by (auto simp: isNewerVersion_def Let_def compare_all)

lemma version_ge_iff: "version_ge c m \<longleftrightarrow> \<not> parts_less (parse_version c) (parse_version m)"
  using parts_less_asym [of "parse_version c" "parse_version m"] parts_less_cases [of "parse_version c" "parse_version m"]
    parts_less_asym [of "parse_version m" "parse_version c"]
  by (auto simp: version_ge_def Let_def compare_all)

section \<open>Properties\<close>



text \<open>
  The two copies of \<open>versionAtLeast\<close> disagree on development agents: an agent that reports
  the version 'dev' passes every minimum on the server page, terminal and service controls
  included, and on the logs page it reaches no minimum with a positive first part, so its logs
  are refused; the same holds for an agent whose version is not known.
\<close>

theorem dev_agents_differ:
  assumes "m \<noteq> []" and "part_at (parse_version m) 0 > 0" and "v = None \<or> v = Some ''dev''"
  shows "versionAtLeast v m \<and> \<not> logs_versionAtLeast v m"
proof -
  have dev: "parse_version ''dev'' = [0]" by code_simp
  have "parts_less (parse_version ''dev'') (parse_version m)"
    unfolding parts_less_def first_difference_def
    by (rule exI [of _ 0]) (use assms(2) in \<open>auto simp: dev part_at_def\<close>)
  with assms(3) show ?thesis
    by (auto simp: versionAtLeast_def logs_versionAtLeast_def version_ge_iff)
qed

theorem dev_agents_differ_witness:
  "versionAtLeast (Some ''dev'') ''1.5.2'' \<and> \<not> logs_versionAtLeast (Some ''dev'') ''1.5.2''"
proof -
  have "parse_version ''1.5.2'' = [1, 5, 2]" by code_simp
  then show ?thesis using dev_agents_differ [of "''1.5.2''" "Some ''dev''"] by (simp add: part_at_def)
qed

end
