(* ===== verification/AgentTasks.thy ===== *)
theory AgentTasks
  imports JsVersion
begin

text \<open>
  Tasks of an agent as several pages see them: the record the control plane answers with, its
  states, the endpoint, the body that queues an agent update, and the polling loop of the log
  explorer and of the service controls (\<open>dashboard/servers/page.tsx\<close>,
  \<open>dashboard/servers/[id]/page.tsx\<close>, \<open>dashboard/logs/page.tsx\<close>).
\<close>

section \<open>Tasks\<close>

record update_task =
  ut_id :: string
  ut_status :: string
  ut_result :: "string option"

definition is_active_status :: "string \<Rightarrow> bool" where
  "is_active_status st \<longleftrightarrow> st \<in> set [''pending'', ''processing'']"

definition is_failed_status :: "string \<Rightarrow> bool" where
  "is_failed_status st \<longleftrightarrow> st \<in> set [''failed'', ''expired'', ''timed_out'']"

definition is_final_status :: "string \<Rightarrow> bool" where
  "is_final_status st \<longleftrightarrow> st \<in> set [''completed'', ''failed'', ''expired'', ''timed_out'']"

lemma final_status_cases: "is_final_status st \<longleftrightarrow> st = ''completed'' \<or> is_failed_status st"
  by (auto simp: is_final_status_def is_failed_status_def)

lemma status_kinds_disjoint:
  "is_active_status st \<Longrightarrow> \<not> is_final_status st"
  "is_failed_status st \<Longrightarrow> st \<noteq> ''completed''"
  by (auto simp: is_final_status_def is_active_status_def is_failed_status_def)

definition tasks_endpoint :: "string \<Rightarrow> string" where
  "tasks_endpoint i = ''/servers/'' @ i @ ''/tasks''"

definition task_endpoint :: "string \<Rightarrow> string \<Rightarrow> string" where
  "task_endpoint i t = tasks_endpoint i @ CHR ''/'' # t"

definition update_task_body :: "string \<Rightarrow> json" where
  "update_task_body payload =
     JObj [(''type'', JStr ''agent_update''), (''payload'', JStr payload), (''timeout_seconds'', JNum 300)]"

section \<open>The polling loop\<close>

fun poll_until :: "('t \<Rightarrow> bool) \<Rightarrow> (nat \<Rightarrow> 't outcome) \<Rightarrow> nat \<Rightarrow> nat \<Rightarrow> 't \<Rightarrow> 't outcome \<times> nat" where
  \<comment> \<open>the remaining attempts, the requests sent and the last answer; \<open>replies k\<close> is the answer
      to request \<open>k\<close>, and a failed request leaves the loop by an exception\<close>
  "poll_until ended replies 0 sent latest = (Inr latest, sent)"
| "poll_until ended replies (Suc left) sent latest =
     (case replies sent of
        Inl e \<Rightarrow> (Inl e, Suc sent)
      | Inr t \<Rightarrow> if ended t then (Inr t, Suc sent) else poll_until ended replies left (Suc sent) t)"

lemma poll_sent: "snd (poll_until ended replies left sent t) \<le> sent + left"
proof (induction left arbitrary: sent t)
  case 0
  then show ?case by simp
next
  case (Suc left)
  show ?case
    using Suc [of "Suc sent"] by (auto split: sum.split)
qed

lemma poll_ends_at:
  assumes "\<forall>j < k. \<exists>u. replies (sent + j) = Inr u \<and> \<not> ended u"
    and "replies (sent + k) = Inr r" and "ended r" and "k < left"
  shows "poll_until ended replies left sent t = (Inr r, sent + k + 1)"
  using assms
proof (induction k arbitrary: sent left t)
  case 0
  then show ?case by (cases left) auto
next
  case (Suc k)
  from Suc.prems(1) obtain u where u: "replies sent = Inr u" "\<not> ended u"
    by (metis add_0_right zero_less_Suc)
  obtain m where m: "left = Suc m" "k < m" using Suc.prems(4) by (cases left) auto
  have "\<forall>j < k. \<exists>u. replies (Suc sent + j) = Inr u \<and> \<not> ended u"
    using Suc.prems(1) by (metis Suc_less_eq add_Suc_shift)
  then have "poll_until ended replies m (Suc sent) u = (Inr r, Suc sent + k + 1)"
    using Suc.prems(2,3) m(2) by (intro Suc.IH) auto
  then show ?case by (simp add: m(1) u)
qed

text \<open>What the loop hands over: an answer it received, or the last one before it gave up.\<close>

lemma poll_result:
  assumes "fst (poll_until ended replies left sent t) = Inr r"
  shows "ended r \<and> (\<exists>k. replies k = Inr r) \<or>
         \<not> ended r \<and> (r = t \<or> (\<exists>k. replies k = Inr r)) \<or> left = 0"
  using assms
proof (induction left arbitrary: sent t)
  case 0
  then show ?case by simp
next
  case (Suc left)
  show ?case
  proof (cases "replies sent")
    case (Inl e)
    with Suc.prems show ?thesis by simp
  next
    case (Inr u)
    with Suc show ?thesis by (cases left) (fastforce split: if_splits)+
  qed
qed

lemma poll_fails: "fst (poll_until ended replies left sent t) = Inl e \<Longrightarrow> \<exists>k. replies k = Inl e"
  by (induction left arbitrary: sent t) (fastforce split: sum.splits if_splits)+

end
