(* ===== verification/Servers.thy ===== *)
theory Servers
  imports AgentTasks
begin

text \<open>
  The server list (\<open>dashboard/servers/page.tsx\<close>): versions and update checks, the update tasks
  and their polling, bulk actions on the selection, filters, the dialogs for deleting,
  restarting and editing a server, and the install command.  Toasts are kept latest first;
  \<open>json_parse\<close> stands for \<open>JSON.parse\<close>.
\<close>

section \<open>State\<close>

record server_record =
  sr_id :: string
  sr_name :: string
  sr_status :: string
  sr_ip_address :: "string option"
  sr_group_name :: "string option"
  sr_tags :: "string list option"
  sr_provider :: "string option"
  sr_region :: "string option"
  sr_environment :: "string option"
  sr_os_info :: "json option"
  sr_snapshot :: "json option"
  sr_inventory :: "json option"
  sr_version :: "string option"
  sr_update_available :: bool
  sr_latest_agent_version :: "string option"
  sr_auto_update_agent :: bool
  sr_deletion_status :: "string option"
  sr_active_task :: "update_task option"

record system_info =
  si_agent_version :: "string option"
  si_agent_artifact_base_url :: "string option"
  si_agent_release_layout :: "string option"
  si_latest_agent_version :: "string option"
    \<comment> \<open>\<open>update_check?.latest_agent_version\<close>\<close>

datatype status_filter = FAll | FOnline | FOffline | FCritical | FUpdate

datatype os_choice = Linux | MacOS | Windows

record delete_dialog =
  dd_id :: string
  dd_name :: string
  dd_status :: string
  dd_deletionStatus :: "string option"
  dd_uninstallSupported :: bool

record update_dialog =
  ud_id :: string
  ud_name :: string
  ud_currentVersion :: string
  ud_targetVersion :: string
  ud_hasUpdate :: bool

record meta_form =
  mf_name :: string
  mf_group :: string
  mf_tags :: string
  mf_provider :: string
  mf_region :: string
  mf_environment :: string

record servers_page =
  servers :: "server_record list"
  loading :: bool
  searchQuery :: string
  statusFilter :: status_filter
  selectedServerIds :: "string list"
  isBulkProcessing :: bool
  isAddServerModalOpen :: bool
  newServerName :: string
  generatedAgentToken :: "string option"
  selectedOs :: os_choice
  customServices :: string
  serverToRestart :: "(string \<times> string) option"
  confirmRestartText :: string
  serverToDelete :: "delete_dialog option"
  confirmDeleteText :: string
  isDeletingServer :: bool
  editMetaServer :: "server_record option"
  editMeta :: meta_form
  serverToUpdate :: "update_dialog option"
  isUpdatingAgent :: bool
  isUpdateAllOpen :: bool
  isUpdatingAll :: bool
  agentUpdateTasks :: "string \<rightharpoonup> update_task"
  updatingAutoUpdatePolicyId :: "string option"
  userRole :: string
  checkingUpdateServerId :: "string option"
  systemData :: "system_info option"
  toasts :: "string list"
  toLogin :: bool

definition empty_meta_form :: meta_form where
  "empty_meta_form =
     \<lparr>mf_name = [], mf_group = [], mf_tags = [], mf_provider = [], mf_region = [], mf_environment = []\<rparr>"

definition init_servers :: "string \<Rightarrow> servers_page" where
  "init_servers role =
     \<lparr>servers = [], loading = True, searchQuery = [], statusFilter = FAll, selectedServerIds = [],
      isBulkProcessing = False, isAddServerModalOpen = False, newServerName = [],
      generatedAgentToken = None, selectedOs = Linux, customServices = [], serverToRestart = None,
      confirmRestartText = [], serverToDelete = None, confirmDeleteText = [],
      isDeletingServer = False, editMetaServer = None, editMeta = empty_meta_form,
      serverToUpdate = None, isUpdatingAgent = False, isUpdateAllOpen = False,
      isUpdatingAll = False, agentUpdateTasks = Map.empty, updatingAutoUpdatePolicyId = None,
      userRole = role, checkingUpdateServerId = None, systemData = None, toasts = [], toLogin = False\<rparr>"

definition toast :: "string \<Rightarrow> servers_page \<Rightarrow> servers_page" where
  "toast m s = s\<lparr>toasts := m # toasts s\<rparr>"

definition isViewer :: "servers_page \<Rightarrow> bool" where
  "isViewer s \<longleftrightarrow> userRole s = ''viewer''"

definition isAdmin :: "servers_page \<Rightarrow> bool" where
  \<comment> \<open>the name notwithstanding, everyone but a viewer\<close>
  "isAdmin s \<longleftrightarrow> userRole s \<noteq> ''viewer''"

definition servers_me :: "string option outcome \<Rightarrow> servers_page \<Rightarrow> servers_page" where
  \<comment> \<open>the role in the answer of \<open>/auth/me\<close>\<close>
  "servers_me reply s =
     (case reply of Inr (Some r) \<Rightarrow> (if r \<noteq> [] then s\<lparr>userRole := r\<rparr> else s) | _ \<Rightarrow> s)"

section \<open>The latest agent version\<close>

definition latest_version ::
  "system_info option outcome \<Rightarrow> string option outcome \<Rightarrow> string" where
  \<comment> \<open>the control plane's answer and then the version file, which is \<open>None\<close> when not ok\<close>
  "latest_version info_reply file_reply =
     (let candidate =
            (case info_reply of
               Inr (Some info) \<Rightarrow>
                 (if truthy (si_agent_version info) then the (si_agent_version info)
                  else if truthy (si_latest_agent_version info) then the (si_latest_agent_version info)
                  else ''1.5.13'')
             | _ \<Rightarrow> ''1.5.13'')
      in case file_reply of
           Inr (Some raw) \<Rightarrow>
             (let txt = trim raw
              in if looks_like_version txt \<and> isNewerVersion (Some txt) (Some candidate) then txt else candidate)
         | _ \<Rightarrow> candidate)"

definition release_url :: "string \<Rightarrow> string" where
  "release_url v = ''https://github.com/luuvandien2604/DatrixOps/releases/download/agent-v'' @ v"

definition refreshLatestAgentVersion ::
  "system_info option outcome \<Rightarrow> string option outcome \<Rightarrow> servers_page \<Rightarrow> servers_page" where
  "refreshLatestAgentVersion info_reply file_reply s =
     (let clean = trim (strip_v (latest_version info_reply file_reply));
          prev = (case systemData s of Some d \<Rightarrow> d
                  | None \<Rightarrow> \<lparr>si_agent_version = None, si_agent_artifact_base_url = None,
                            si_agent_release_layout = None, si_latest_agent_version = None\<rparr>)
      in s\<lparr>systemData := Some (prev\<lparr>si_agent_version := Some clean,
                                     si_agent_artifact_base_url := Some (release_url clean)\<rparr>)\<rparr>)"

definition running_version :: "(string \<Rightarrow> json option) \<Rightarrow> server_record \<Rightarrow> json option" where
  \<comment> \<open>the version the agent reported, in the places where it may stand\<close>
  "running_version json_parse server =
     (let osInfo = parseJSON json_parse (sr_os_info server);
          inventory = parseJSON json_parse (sr_inventory server);
          snapshot = parseJSON json_parse (sr_snapshot server)
      in json_or (chain osInfo ''version'')
           (json_or (chain inventory ''agent_version'')
             (json_or (chain (chain snapshot ''inventory'') ''agent_version'')
               (json_or (map_option JStr (sr_version server)) (Some (JStr ''1.5.12''))))))"

definition handleCheckUpdateForServer ::
  "(string \<Rightarrow> json option) \<Rightarrow> server_record \<Rightarrow> system_info option outcome \<Rightarrow> string option outcome \<Rightarrow>
     servers_page \<Rightarrow> servers_page" where
  "handleCheckUpdateForServer json_parse server info_reply file_reply s =
     (case running_version json_parse server of
        Some (JStr raw) \<Rightarrow>
          (let cleanRunning = trim (strip_v raw);
               cleanTarget = trim (strip_v (latest_version info_reply file_reply));
               hasUpdate = isNewerVersion (Some cleanTarget) (Some cleanRunning);
               s1 = s\<lparr>serverToUpdate := Some \<lparr>ud_id = sr_id server, ud_name = sr_name server,
                        ud_currentVersion = CHR ''v'' # cleanRunning,
                        ud_targetVersion = CHR ''v'' # cleanTarget, ud_hasUpdate = hasUpdate\<rparr>\<rparr>
           in if hasUpdate then s1
              else toast (sr_name server @ '' is running the latest Agent (v'' @ cleanRunning @ '')'') s1)
      | _ \<Rightarrow> toast ''Failed to check for updates'' s)
     \<lparr>checkingUpdateServerId := None\<rparr>"

definition check_update_click :: "bool \<Rightarrow> server_record \<Rightarrow> servers_page \<Rightarrow> servers_page" where
  \<comment> \<open>with whether an update of that server is in progress; the answers are those of
      \<open>handleCheckUpdateForServer\<close>\<close>
  "check_update_click updateInProgress server s =
     (if isViewer s \<or> checkingUpdateServerId s = Some (sr_id server) \<or> updateInProgress then s
      else s\<lparr>checkingUpdateServerId := Some (sr_id server)\<rparr>)"

section \<open>Loading and update tasks\<close>

definition merge_task :: "server_record \<Rightarrow> (string \<rightharpoonup> update_task) \<Rightarrow> (string \<rightharpoonup> update_task)" where
  "merge_task server m =
     (case sr_active_task server of
        Some t \<Rightarrow> m(sr_id server \<mapsto> t)
      | None \<Rightarrow> (case m (sr_id server) of
                   Some t \<Rightarrow> if is_active_status (ut_status t) then m else m(sr_id server := None)
                 | None \<Rightarrow> m))"

definition fetchServers_finish ::
  "bool \<Rightarrow> server_record list option outcome \<Rightarrow> servers_page \<Rightarrow> servers_page" where
  "fetchServers_finish silent reply s =
     (case reply of
        Inr d \<Rightarrow> s\<lparr>servers := or_empty d,
                   agentUpdateTasks := fold merge_task (or_empty d) (agentUpdateTasks s)\<rparr>
      | Inl e \<Rightarrow> if is_auth_message (errorMessage e ''Unable to load servers'')
                 then s\<lparr>toLogin := True\<rparr> else s)
     \<lparr>loading := (if silent then loading s else False)\<rparr>"

definition activeEntries :: "(string \<rightharpoonup> update_task) \<Rightarrow> string \<Rightarrow> bool" where
  "activeEntries m i \<longleftrightarrow> (case m i of Some t \<Rightarrow> is_active_status (ut_status t) | None \<Rightarrow> False)"

definition task_toast :: "update_task outcome \<Rightarrow> string option" where
  "task_toast reply =
     (case reply of
        Inl e \<Rightarrow> Some (errorMessage e ''Unable to refresh agent update status'')
      | Inr t \<Rightarrow> if ut_status t = ''completed'' then Some ''Agent update completed and confirmed''
                 else if is_failed_status (ut_status t)
                 then Some (opt_or (ut_result t) (''Agent update '' @ ut_status t))
                 else None)"

definition poll_tasks ::
  "(string \<rightharpoonup> update_task) \<Rightarrow> (string \<times> update_task outcome) list \<Rightarrow> servers_page \<Rightarrow> servers_page" where
  \<comment> \<open>the timer's round: \<open>captured\<close> is the task table of the render that armed the timer, and the
      answers are those of its active entries, in the order they came\<close>
  "poll_tasks captured answers s =
     (let nextTasks = fold (\<lambda>(i, r) m. case r of Inr t \<Rightarrow> m(i \<mapsto> t) | Inl e \<Rightarrow> m) answers captured;
          shown = List.map_filter (\<lambda>(i, r). task_toast r) answers
      in s\<lparr>toasts := rev shown @ toasts s, agentUpdateTasks := nextTasks\<rparr>)"

section \<open>Policies and bulk actions\<close>

definition policy_endpoint :: "string \<Rightarrow> string" where
  "policy_endpoint i = ''/servers/'' @ i @ ''/agent-update-policy''"

definition toggleAutoUpdatePolicy_begin ::
  "string \<Rightarrow> bool \<Rightarrow> servers_page \<Rightarrow> servers_page \<times> request option" where
  "toggleAutoUpdatePolicy_begin i currentEnabled s =
     (if \<not> isAdmin s then (toast ''Changing auto-update policy requires Admin role permission.'' s, None)
      else (s\<lparr>updatingAutoUpdatePolicyId := Some i\<rparr>,
            Some (request_send ''PUT'' (policy_endpoint i) (JObj [(''enabled'', JBool (\<not> currentEnabled))]))))"

definition set_auto_update :: "bool \<Rightarrow> server_record \<Rightarrow> server_record" where
  "set_auto_update b r = r\<lparr>sr_auto_update_agent := b\<rparr>"

interpretation server_list: entity_merge sr_id set_auto_update
  by unfold_locales (simp add: set_auto_update_def)

definition toggleAutoUpdatePolicy_finish ::
  "string \<Rightarrow> bool \<Rightarrow> unit outcome \<Rightarrow> servers_page \<Rightarrow> servers_page" where
  "toggleAutoUpdatePolicy_finish i currentEnabled reply s =
     (case reply of
        Inr _ \<Rightarrow> toast (''Auto-update '' @ (if \<not> currentEnabled then ''enabled'' else ''disabled'') @ '' for server'')
                   (s\<lparr>servers := update_by sr_id i (set_auto_update (\<not> currentEnabled)) (servers s)\<rparr>)
      | Inl e \<Rightarrow> toast (errorMessage e ''Failed to update auto-update policy'') s)
     \<lparr>updatingAutoUpdatePolicyId := None\<rparr>"

definition handleBulkAutoUpdate_begin :: "bool \<Rightarrow> servers_page \<Rightarrow> servers_page \<times> request list" where
  "handleBulkAutoUpdate_begin enable s =
     (if selectedServerIds s = [] then (s, [])
      else if \<not> isAdmin s then (toast ''Changing auto-update policy requires Admin role permission.'' s, [])
      else (s\<lparr>isBulkProcessing := True\<rparr>,
            map (\<lambda>i. request_send ''PUT'' (policy_endpoint i) (JObj [(''enabled'', JBool enable)]))
              (selectedServerIds s)))"

definition handleBulkAutoUpdate_finish :: "bool \<Rightarrow> unit outcome list \<Rightarrow> servers_page \<Rightarrow> servers_page" where
  "handleBulkAutoUpdate_finish enable replies s =
     (let successCount = length (filter (\<lambda>r. case r of Inr _ \<Rightarrow> True | Inl _ \<Rightarrow> False) replies)
      in if successCount > 0
         then toast (''Auto-update '' @ (if enable then ''enabled'' else ''disabled'') @ '' for '' @
                show_nat successCount @ '' server(s)'') s
         else toast ''Failed to update auto-update policy. Check your permissions.'' s)
     \<lparr>isBulkProcessing := False\<rparr>"

definition handleBulkUpdateAgents_begin :: "servers_page \<Rightarrow> servers_page \<times> request list" where
  "handleBulkUpdateAgents_begin s =
     (if selectedServerIds s = [] then (s, [])
      else if isViewer s
      then (toast ''Triggering agent updates requires Operator or Admin role permission.'' s, [])
      else (s\<lparr>isBulkProcessing := True\<rparr>,
            map (\<lambda>i. request_send ''POST'' (tasks_endpoint i) (update_task_body ''{}'')) (selectedServerIds s)))"

definition bulk_task_queued :: "string \<Rightarrow> update_task \<Rightarrow> servers_page \<Rightarrow> servers_page" where
  "bulk_task_queued i task s = s\<lparr>agentUpdateTasks := (agentUpdateTasks s)(i \<mapsto> task)\<rparr>"

definition handleBulkUpdateAgents_finish ::
  "(string \<times> update_task outcome) list \<Rightarrow> servers_page \<Rightarrow> servers_page" where
  "handleBulkUpdateAgents_finish replies s =
     (let queued = List.map_filter (\<lambda>(i, r). case r of Inr t \<Rightarrow> Some (i, t) | Inl _ \<Rightarrow> None) replies;
          s1 = fold (\<lambda>(i, t). bulk_task_queued i t) queued s
      in if queued \<noteq> []
         then toast (''Queued agent update for '' @ show_nat (length queued) @ '' server(s)'') s1
         else toast ''Failed to queue agent updates. Check your permissions.'' s1)
     \<lparr>isBulkProcessing := False\<rparr>"

section \<open>Filters and selection\<close>

definition cpu_number :: "json option \<Rightarrow> jsnum" where
  \<comment> \<open>\<open>Number(osInfo?.cpu_usage || 0)\<close>\<close>
  "cpu_number osInfo =
     (let v = chain osInfo ''cpu_usage'' in if js_truthy v then js_number v else Fin 0)"

definition server_matches :: "(string \<Rightarrow> json option) \<Rightarrow> string \<Rightarrow> server_record \<Rightarrow> bool" where
  "server_matches json_parse q server =
     (let osInfo = parseJSON json_parse (sr_os_info server);
          ip = opt_or (sr_ip_address server)
                 (json_text (chain (chain (chain osInfo ''snapshot'') ''system_info'') ''public_ip''));
          has = (\<lambda>t. str_includes (to_lower t) (to_lower q))
      in has (sr_name server) \<or> has ip \<or>
         (case sr_group_name server of Some g \<Rightarrow> has g | None \<Rightarrow> False) \<or>
         list_ex has (or_empty (sr_tags server)))"

definition status_matches :: "(string \<Rightarrow> json option) \<Rightarrow> status_filter \<Rightarrow> server_record \<Rightarrow> bool" where
  "status_matches json_parse f server =
     (case f of
        FOnline \<Rightarrow> sr_status server = ''online''
      | FOffline \<Rightarrow> sr_status server \<noteq> ''online''
      | FCritical \<Rightarrow> sr_status server = ''online'' \<and>
                     num_lt (Fin 90) (cpu_number (parseJSON json_parse (sr_os_info server)))
      | FUpdate \<Rightarrow> sr_update_available server
      | FAll \<Rightarrow> True)"

definition filteredServers :: "(string \<Rightarrow> json option) \<Rightarrow> servers_page \<Rightarrow> server_record list" where
  "filteredServers json_parse s =
     filter (\<lambda>v. server_matches json_parse (searchQuery s) v \<and> status_matches json_parse (statusFilter s) v)
       (servers s)"

definition clearFilters :: "servers_page \<Rightarrow> servers_page" where
  "clearFilters s = s\<lparr>searchQuery := [], statusFilter := FAll\<rparr>"

definition isAllSelected :: "(string \<Rightarrow> json option) \<Rightarrow> servers_page \<Rightarrow> bool" where
  "isAllSelected json_parse s \<longleftrightarrow>
     filteredServers json_parse s \<noteq> [] \<and>
     list_all (\<lambda>v. sr_id v \<in> set (selectedServerIds s)) (filteredServers json_parse s)"

definition onlineCount :: "servers_page \<Rightarrow> nat" where
  "onlineCount s = length (filter (\<lambda>v. sr_status v = ''online'') (servers s))"

definition offlineCount :: "servers_page \<Rightarrow> nat" where
  "offlineCount s = length (servers s) - onlineCount s"

definition toggleSelectAll :: "(string \<Rightarrow> json option) \<Rightarrow> servers_page \<Rightarrow> servers_page" where
  "toggleSelectAll json_parse s =
     s\<lparr>selectedServerIds := (if isAllSelected json_parse s then []
                              else map sr_id (filteredServers json_parse s))\<rparr>"

definition toggleSelectServer :: "string \<Rightarrow> servers_page \<Rightarrow> servers_page" where
  "toggleSelectServer i s = s\<lparr>selectedServerIds := toggle i (selectedServerIds s)\<rparr>"

section \<open>Deleting, restarting, adding\<close>

definition open_delete_dialog ::
  "(string \<Rightarrow> json option) \<Rightarrow> server_record \<Rightarrow> servers_page \<Rightarrow> servers_page" where
  "open_delete_dialog json_parse server s =
     s\<lparr>serverToDelete := Some
        \<lparr>dd_id = sr_id server, dd_name = sr_name server, dd_status = sr_status server,
         dd_deletionStatus = sr_deletion_status server,
         dd_uninstallSupported =
           js_truthy (chain (parseJSON json_parse (sr_os_info server)) ''remote_uninstall_supported'')\<rparr>\<rparr>"

definition deletion_pending :: "server_record \<Rightarrow> bool" where
  "deletion_pending server \<longleftrightarrow> opt_or (sr_deletion_status server) [] \<in> {''pending'', ''uninstalling''}"

definition table_delete_click ::
  "(string \<Rightarrow> json option) \<Rightarrow> server_record \<Rightarrow> servers_page \<Rightarrow> servers_page" where
  "table_delete_click json_parse server s =
     (if \<not> isAdmin s \<or> deletion_pending server then s else open_delete_dialog json_parse server s)"

definition grid_delete_click ::
  "(string \<Rightarrow> json option) \<Rightarrow> server_record \<Rightarrow> servers_page \<Rightarrow> servers_page" where
  \<comment> \<open>the card does not look at the role\<close>
  "grid_delete_click json_parse server s =
     (if deletion_pending server then s else open_delete_dialog json_parse server s)"

definition closeDeleteDialog :: "servers_page \<Rightarrow> servers_page" where
  "closeDeleteDialog s =
     (if isDeletingServer s then s else s\<lparr>serverToDelete := None, confirmDeleteText := []\<rparr>)"

definition requestServerDeletion_begin :: "bool \<Rightarrow> servers_page \<Rightarrow> servers_page \<times> request option" where
  "requestServerDeletion_begin force s =
     (case serverToDelete s of
        None \<Rightarrow> (s, None)
      | Some d \<Rightarrow>
          if confirmDeleteText s \<noteq> dd_name d then (s, None)
          else (s\<lparr>isDeletingServer := True\<rparr>,
                Some (request_bare ''DELETE'' (''/servers/'' @ dd_id d @ (if force then ''?force=true'' else [])))))"

definition requestServerDeletion_finish ::
  "bool \<Rightarrow> delete_dialog \<Rightarrow> string option outcome \<Rightarrow> servers_page \<Rightarrow> servers_page" where
  \<comment> \<open>a success carries \<open>result?.message\<close>\<close>
  "requestServerDeletion_finish force d reply s =
     (case reply of
        Inr m \<Rightarrow>
          (toast (if force then ''Server '' @ dd_name d @ '' record deleted''
                  else opt_or m (''Agent uninstall queued for '' @ dd_name d)) s)
            \<lparr>serverToDelete := None, confirmDeleteText := []\<rparr>
      | Inl e \<Rightarrow> toast (errorMessage e ''Unable to delete server'') s)
     \<lparr>isDeletingServer := False\<rparr>"

definition open_restart_dialog :: "server_record \<Rightarrow> servers_page \<Rightarrow> servers_page" where
  \<comment> \<open>also the whole handler of the card\<close>
  "open_restart_dialog server s = s\<lparr>serverToRestart := Some (sr_id server, sr_name server)\<rparr>"

definition table_restart_click :: "server_record \<Rightarrow> servers_page \<Rightarrow> servers_page" where
  "table_restart_click server s = (if isViewer s then s else open_restart_dialog server s)"

definition confirm_restart_begin :: "servers_page \<Rightarrow> request option" where
  \<comment> \<open>the button is disabled until the name is typed\<close>
  "confirm_restart_begin s =
     (case serverToRestart s of
        None \<Rightarrow> None
      | Some (i, n) \<Rightarrow>
          if confirmRestartText s \<noteq> n then None
          else Some (request_send ''POST'' (tasks_endpoint i)
                       (JObj [(''type'', JStr ''vps_reboot''), (''payload'', JStr ''{}'')])))"

definition confirm_restart_finish :: "string \<Rightarrow> unit outcome \<Rightarrow> servers_page \<Rightarrow> servers_page" where
  "confirm_restart_finish n reply s =
     (case reply of
        Inr _ \<Rightarrow> (toast (''Restart command sent to '' @ n) s)\<lparr>serverToRestart := None, confirmRestartText := []\<rparr>
      | Inl e \<Rightarrow> toast (errorMessage e ''Unable to send restart command'') s)"

definition add_server_begin :: "servers_page \<Rightarrow> request option" where
  "add_server_begin s =
     (if trim (newServerName s) = [] then None
      else Some (request_send ''POST'' ''/servers'' (JObj [(''name'', JStr (trim (newServerName s)))])))"

definition add_server_finish ::
  "(string option \<times> string option) outcome \<Rightarrow> system_info option \<Rightarrow> servers_page \<Rightarrow> servers_page" where
  \<comment> \<open>the enrollment and the agent token of the answer, and the system information if it came\<close>
  "add_server_finish reply sysInfo s =
     (case reply of
        Inr (enrollment, agent) \<Rightarrow>
          toast ''Installation command created successfully!''
            (s\<lparr>systemData := (if sysInfo = None then systemData s else sysInfo),
               generatedAgentToken := (if truthy enrollment then enrollment else agent)\<rparr>)
      | Inl e \<Rightarrow> toast (errorMessage e ''Unable to create installation token'') s)"

section \<open>Editing the metadata\<close>

definition fill_meta_form :: "server_record \<Rightarrow> servers_page \<Rightarrow> servers_page" where
  \<comment> \<open>also the whole handler of the card\<close>
  "fill_meta_form server s =
     s\<lparr>editMetaServer := Some server,
       editMeta := \<lparr>mf_name = sr_name server, mf_group = opt_or (sr_group_name server) [],
         mf_tags = join '', '' (or_empty (sr_tags server)),
         mf_provider = opt_or (sr_provider server) [], mf_region = opt_or (sr_region server) [],
         mf_environment = opt_or (sr_environment server) []\<rparr>\<rparr>"

definition open_meta_form :: "server_record \<Rightarrow> servers_page \<Rightarrow> servers_page" where
  \<comment> \<open>the handler of the table\<close>
  "open_meta_form server s = (if \<not> isAdmin s then s else fill_meta_form server s)"

definition parse_tags :: "string \<Rightarrow> string list" where
  "parse_tags t = filter (\<lambda>x. x \<noteq> []) (map trim (split_on CHR '','' t))"

definition save_meta_body :: "meta_form \<Rightarrow> json" where
  "save_meta_body f =
     JObj [(''name'', JStr (trim (mf_name f))), (''group_name'', JStr (trim (mf_group f))),
           (''tags'', strs_json (parse_tags (mf_tags f))), (''provider'', JStr (trim (mf_provider f))),
           (''region'', JStr (trim (mf_region f))), (''environment'', JStr (trim (mf_environment f)))]"

definition save_meta_begin :: "servers_page \<Rightarrow> request option" where
  "save_meta_begin s =
     map_option (\<lambda>v. request_send ''PUT'' (''/servers/'' @ sr_id v @ ''/meta'') (save_meta_body (editMeta s)))
       (editMetaServer s)"

definition save_meta_finish :: "unit outcome \<Rightarrow> servers_page \<Rightarrow> servers_page" where
  "save_meta_finish reply s =
     (case reply of
        Inr _ \<Rightarrow> (toast ''Server information updated!'' s)\<lparr>editMetaServer := None\<rparr>
      | Inl e \<Rightarrow> toast (errorMessage e ''Unable to update server information'') s)"

section \<open>Updating one agent and all agents\<close>

definition start_update_begin :: "servers_page \<Rightarrow> servers_page \<times> request option" where
  \<comment> \<open>the payload is \<open>JSON.stringify({ target_version })\<close> of a version, which needs no escapes\<close>
  "start_update_begin s =
     (case serverToUpdate s of
        None \<Rightarrow> (s, None)
      | Some d \<Rightarrow>
          (s\<lparr>isUpdatingAgent := True\<rparr>,
           Some (request_send ''POST'' (tasks_endpoint (ud_id d))
                   (update_task_body (''{\"target_version\":\"'' @ strip_v (ud_targetVersion d) @ ''\"}'')))))"

definition start_update_finish ::
  "update_dialog \<Rightarrow> update_task outcome \<Rightarrow> servers_page \<Rightarrow> servers_page" where
  "start_update_finish d reply s =
     (case reply of
        Inr task \<Rightarrow>
          (toast (''Update task dispatched for '' @ ud_name d @ '' to v'' @ strip_v (ud_targetVersion d))
            (bulk_task_queued (ud_id d) task s))\<lparr>serverToUpdate := None\<rparr>
      | Inl e \<Rightarrow> toast (errorMessage e ''Error updating agent'') s)
     \<lparr>isUpdatingAgent := False\<rparr>"

definition update_all_begin :: "servers_page \<Rightarrow> servers_page \<times> request" where
  "update_all_begin s =
     (s\<lparr>isUpdatingAll := True\<rparr>, request_send ''POST'' ''/servers/actions/update-agents'' (JObj []))"

definition update_all_finish :: "(nat \<times> nat) outcome \<Rightarrow> servers_page \<Rightarrow> servers_page" where
  \<comment> \<open>the numbers of queued and skipped agents\<close>
  "update_all_finish reply s =
     (case reply of
        Inr (queued, skipped) \<Rightarrow>
          (toast (show_nat queued @ '' agent update'' @ (if queued = 1 then [] else ''s'') @ '' queued; '' @
             show_nat skipped @ '' skipped.'') s)\<lparr>isUpdateAllOpen := False\<rparr>
      | Inl e \<Rightarrow> toast (errorMessage e ''Unable to queue all agent updates'') s)
     \<lparr>isUpdatingAll := False\<rparr>"

section \<open>A row of the table\<close>

record server_row =
  row_updateInProgress :: bool
  row_updateStalled :: bool
  row_updateFailed :: bool
  row_badge :: string
  row_isCritical :: bool
  row_cpuText :: string
  row_ramText :: string
  row_diskText :: string

definition dash :: string where
  "dash = [char_of (226::nat), char_of (128::nat), char_of (148::nat)]"

definition pos_number :: "json option \<Rightarrow> string \<Rightarrow> rat" where
  \<comment> \<open>\<open>Number(info.k || 0)\<close> of a numeric field\<close>
  "pos_number info k =
     (let v = chain info k
      in if js_truthy v then (case js_number v of Fin q \<Rightarrow> q | _ \<Rightarrow> 0) else 0)"

definition server_row_of ::
  "(string \<Rightarrow> json option) \<Rightarrow> servers_page \<Rightarrow> server_record \<Rightarrow> server_row" where
  "server_row_of json_parse s server =
     (let osInfo = parseJSON json_parse (sr_os_info server);
          updateAvailable = sr_update_available server;
          latest = opt_or (sr_latest_agent_version server) [];
          updateTask = (case agentUpdateTasks s (sr_id server) of Some t \<Rightarrow> Some t | None \<Rightarrow> sr_active_task server);
          st = (case updateTask of Some t \<Rightarrow> ut_status t | None \<Rightarrow> []);
          inProgress = (updateTask \<noteq> None \<and> is_active_status st);
          stalled = (st = ''completed'' \<and> updateAvailable);
          failed = (updateTask \<noteq> None \<and> (is_failed_status st \<or> stalled) \<and> updateAvailable);
          liveInfo = (if sr_status server \<noteq> ''online'' then None else osInfo);
          pct = (\<lambda>q. show_fixed 1 q @ ''%'');
          known = js_truthy liveInfo
      in \<lparr>row_updateInProgress = inProgress, row_updateStalled = stalled, row_updateFailed = failed,
          row_badge =
            (if inProgress then (if st = ''processing'' then ''Updating agent...'' else ''Update queued...'')
             else if failed then (if stalled then ''Update needs retry'' else ''Update '' @ st)
             else if latest \<noteq> [] then ''Update available: '' @ latest else ''Update available''),
          row_isCritical = (known \<and> num_lt (Fin 90) (cpu_number liveInfo)),
          row_cpuText = (if known then pct (pos_number liveInfo ''cpu_usage'') else dash),
          row_ramText =
            (if known \<and> pos_number liveInfo ''memory_total'' > 0
             then pct (pos_number liveInfo ''memory_used'' / pos_number liveInfo ''memory_total'' * 100) else dash),
          row_diskText =
            (if known \<and> pos_number liveInfo ''disk_total'' > 0 then pct (pos_number liveInfo ''disk_usage'') else dash)\<rparr>)"

section \<open>The install command\<close>

definition install_version :: "servers_page \<Rightarrow> string" where
  "install_version s =
     trim (strip_v (opt_or (Option.bind (systemData s) si_agent_version) ''1.5.13''))"

definition artifact_url :: "servers_page \<Rightarrow> string" where
  "artifact_url s =
     (let v = install_version s; u = Option.bind (systemData s) si_agent_artifact_base_url
      in if truthy u \<and> str_includes (the u) v then the u else release_url v)"

definition getInstallCommand :: "string \<Rightarrow> servers_page \<Rightarrow> string" where
  "getInstallCommand origin s =
     (let services = trim (customServices s);
          v = install_version s; u = artifact_url s;
          layout = opt_or (Option.bind (systemData s) si_agent_release_layout) ''legacy_direct'';
          insecure = (starts_with origin ''http://'' \<and>
                      \<not> (str_includes origin ''localhost'' \<or> str_includes origin ''127.0.0.1''));
          token = (case generatedAgentToken s of Some t \<Rightarrow> t | None \<Rightarrow> ''null'');
          sh = (\<lambda>script. ''curl -fsSL '' @ u @ ''/'' @ script @ '' | sudo bash -s -- --server '' @ origin @
                  '' --token '' @ token @ '' --agent-version '' @ v @ '' --agent-artifact-base-url '' @ u @
                  '' --agent-release-layout '' @ layout @
                  (if insecure then '' --allow-insecure-http'' else []) @
                  (if services \<noteq> [] then '' --services \"'' @ services @ ''\"'' else []))
      in case selectedOs s of
           Linux \<Rightarrow> sh ''install.sh''
         | MacOS \<Rightarrow> sh ''install-mac.sh''
         | Windows \<Rightarrow>
             ''Invoke-WebRequest -Uri \"'' @ origin @ ''/install.ps1\" -OutFile \"install.ps1\"; .'' @ [CHR 0x5C] @
             ''install.ps1 -Token \"'' @ token @ ''\" -ServerUrl \"'' @ origin @ ''\" -AgentVersion \"'' @ v @
             ''\" -AgentArtifactBaseUrl \"'' @ u @ ''\" -AgentReleaseLayout \"'' @ layout @ ''\"'' @
             (if insecure then '' -AllowInsecureHttp'' else []) @
             (if services \<noteq> [] then '' -Services \"'' @ services @ ''\"'' else []))"

definition selfHostServer :: "servers_page \<Rightarrow> server_record option" where
  "selfHostServer s =
     find (\<lambda>v. str_includes (to_lower (sr_name v)) ''control plane'' \<or>
               str_includes (to_lower (sr_name v)) ''datrixops'' \<or>
               to_lower (sr_name v) = ''server'' \<or>
               ''self-host'' \<in> set (or_empty (sr_tags v)) \<or>
               ''control-plane'' \<in> set (or_empty (sr_tags v))) (servers s)"

end
