(* ===== verification/ServersProps.thy ===== *)
theory ServersProps
  imports Servers
begin

text \<open>
  Properties of the server list: the metadata form gives the stored tags back, the version an
  update is offered against never falls behind the control plane's, and two defects of the bulk
  actions.
\<close>

section \<open>Tags\<close>

definition tag_ok :: "string \<Rightarrow> bool" where
  \<comment> \<open>a tag as the form stores it\<close>
  "tag_ok t \<longleftrightarrow> t \<noteq> [] \<and> trim t = t \<and> CHR '','' \<notin> set t"

lemma split_on_no_sep: "c \<notin> set s \<Longrightarrow> split_on c s = [s]"
  by (induction s) auto

lemma trim_space: "trim (CHR '' '' # s) = trim s"
  by (simp add: trim_def trim_start_def is_ws_def char_code_def)

lemma map_trim_join:
  "list_all tag_ok ts \<Longrightarrow> ts \<noteq> [] \<Longrightarrow> map trim (split_on CHR '','' (join '', '' ts)) = ts"
proof (induction ts rule: induct_list012)
  case (2 t)
  then show ?case by (simp add: tag_ok_def split_on_no_sep)
next
  case (3 t u ts)
  have t: "CHR '','' \<notin> set t" "trim t = t" using 3(3) by (simp_all add: tag_ok_def)
  have sp: "split_on CHR '','' (CHR '' '' # r) =
      (case split_on CHR '','' r of y # ys \<Rightarrow> (CHR '' '' # y) # ys | [] \<Rightarrow> [[CHR '' '']])" for r
    by simp
  have ne: "split_on CHR '','' r \<noteq> []" for r by (induction r) (auto split: list.splits)
  have rest: "map trim (split_on CHR '','' (CHR '' '' # r)) = map trim (split_on CHR '','' r)" for r
    using ne [of r] by (cases "split_on CHR '','' r") (simp_all add: trim_space del: split_on.simps add: sp)
  have "join '', '' (t # u # ts) = t @ CHR '','' # CHR '' '' # join '', '' (u # ts)" by simp
  then have "map trim (split_on CHR '','' (join '', '' (t # u # ts))) =
      t # map trim (split_on CHR '','' (CHR '' '' # join '', '' (u # ts)))"
    by (simp only: split_on_append [OF t(1)] list.map t(2))
  then show ?case using 3 by (simp only: rest) (simp add: tag_ok_def)
qed simp

lemma parse_tags_join: "list_all tag_ok ts \<Longrightarrow> parse_tags (join '', '' ts) = ts"
proof (cases "ts = []")
  case True
  then show ?thesis by (simp add: parse_tags_def)
next
  case False
  assume "list_all tag_ok ts"
  moreover from this have "filter (\<lambda>x. x \<noteq> []) ts = ts"
    by (induction ts) (auto simp: tag_ok_def)
  ultimately show ?thesis using False by (simp add: parse_tags_def map_trim_join)
qed

definition meta_stored :: "string option \<Rightarrow> bool" where
  "meta_stored v \<longleftrightarrow> trim (opt_or v []) = opt_or v []"

text \<open>
  Saving the metadata form of a server unchanged sends the stored values back: name, group,
  provider, region and environment, and the list of tags, which the form shows as one line of
  comma separated text, with every tag intact and in order.
\<close>

theorem meta_roundtrip:
  assumes "isAdmin s" and "list_all tag_ok (or_empty (sr_tags v))" and "trim (sr_name v) = sr_name v"
    and "meta_stored (sr_group_name v)" and "meta_stored (sr_provider v)"
    and "meta_stored (sr_region v)" and "meta_stored (sr_environment v)"
  shows "save_meta_begin (open_meta_form v s) =
    Some (request_send ''PUT'' (''/servers/'' @ sr_id v @ ''/meta'')
      (JObj [(''name'', JStr (sr_name v)), (''group_name'', JStr (opt_or (sr_group_name v) [])),
             (''tags'', strs_json (or_empty (sr_tags v))), (''provider'', JStr (opt_or (sr_provider v) [])),
             (''region'', JStr (opt_or (sr_region v) [])), (''environment'', JStr (opt_or (sr_environment v) []))]))"
  using assms
  by (simp add: save_meta_begin_def open_meta_form_def fill_meta_form_def save_meta_body_def parse_tags_join meta_stored_def)

definition demo_server :: "string \<Rightarrow> server_record" where
  "demo_server i =
     \<lparr>sr_id = i, sr_name = ''db'', sr_status = ''online'', sr_ip_address = None, sr_group_name = None,
      sr_tags = Some [''prod'', ''eu west''], sr_provider = None, sr_region = None, sr_environment = None,
      sr_os_info = None, sr_snapshot = None, sr_inventory = None, sr_version = None,
      sr_update_available = False, sr_latest_agent_version = None, sr_auto_update_agent = False,
      sr_deletion_status = None, sr_active_task = None\<rparr>"

theorem meta_roundtrip_witness:
  "body_field (the (save_meta_begin (open_meta_form (demo_server ''a'') (init_servers ''admin'')))) ''tags'' =
     Some (strs_json [''prod'', ''eu west''])"
proof -
  have "trim ''prod'' = ''prod''" "trim ''eu west'' = ''eu west''" "trim ''db'' = ''db''" by code_simp+
  then show ?thesis
    using meta_roundtrip [of "init_servers ''admin''" "demo_server ''a''"]
    by (simp add: demo_server_def isAdmin_def init_servers_def tag_ok_def meta_stored_def)
qed

section \<open>The version offered\<close>

text \<open>
  The version an update is offered against never falls behind the control plane: whatever the
  version file on the release branch contains, or if it cannot be read, the agent version reported
  by the control plane is not newer than the one the page settles on; and when the page settles on
  another version, that one has the form of a version number and is newer.
\<close>

theorem latest_version_not_behind:
  fixes file_reply :: "string option outcome"
  assumes "truthy (si_agent_version info)"
  defines "v \<equiv> latest_version (Inr (Some info)) file_reply"
  shows "\<not> isNewerVersion (si_agent_version info) (Some v) \<and>
         (Some v \<noteq> si_agent_version info \<longrightarrow>
            looks_like_version v \<and> isNewerVersion (Some v) (si_agent_version info))"
proof -
  obtain a where a: "si_agent_version info = Some a" "a \<noteq> []"
    using assms(1) by (cases "si_agent_version info") auto
  have ord: "\<not> isNewerVersion (Some a) (Some a)"
    "b \<noteq> [] \<Longrightarrow> isNewerVersion (Some b) (Some a) \<Longrightarrow> \<not> isNewerVersion (Some a) (Some b)" for b
    using a(2) parts_less_asym by (auto simp: isNewerVersion_iff)
  have "looks_like_version t \<Longrightarrow> t \<noteq> []" for t by (auto simp: looks_like_version_def)
  then show ?thesis
    using a ord by (auto simp: v_def latest_version_def Let_def split: sum.split option.split)
qed

definition demo_info :: system_info where
  "demo_info =
     \<lparr>si_agent_version = Some ''1.5.13'', si_agent_artifact_base_url = None,
      si_agent_release_layout = None, si_latest_agent_version = None\<rparr>"

theorem latest_version_not_behind_witness:
  "\<not> isNewerVersion (Some ''1.5.13'') (Some (latest_version (Inr (Some demo_info)) (Inr (Some ''1.6.0 ''))))"
  using latest_version_not_behind [of demo_info "Inr (Some ''1.6.0 '')"] by (simp add: demo_info_def)

section \<open>Defects of the bulk actions\<close>

text \<open>
  A deleted server stays selected: after the deletion was confirmed and the list reloaded
  without the server, its id is still in the selection, so a bulk change of the update policy
  still issues a request for it, for every role that may use the bulk bar.
\<close>

theorem deleted_server_stays_selected:
  fixes m :: "string option" and force b :: bool
  assumes "isAdmin s" and "dd_id d \<in> set (selectedServerIds s)" and "dd_id d \<notin> sr_id ` set rest"
  defines "t \<equiv> fetchServers_finish True (Inr (Some rest)) (requestServerDeletion_finish force d (Inr m) s)"
  shows "find_by sr_id (dd_id d) (servers t) = None \<and> dd_id d \<in> set (selectedServerIds t) \<and>
         request_send ''PUT'' (policy_endpoint (dd_id d)) (JObj [(''enabled'', JBool b)]) \<in>
           set (snd (handleBulkAutoUpdate_begin b t))"
proof -
  have sel: "selectedServerIds t = selectedServerIds s" and role: "isAdmin t" and list: "servers t = rest"
    using assms(1)
    by (simp_all add: t_def fetchServers_finish_def requestServerDeletion_finish_def toast_def isAdmin_def)
  then show ?thesis
    using assms(2,3) by (auto simp: find_by_None handleBulkAutoUpdate_begin_def)
qed

theorem deleted_server_stays_selected_witness:
  "\<exists>t. servers t = [demo_server ''b''] \<and> snd (handleBulkAutoUpdate_begin True t) \<noteq> []"
proof -
  define d :: delete_dialog where
    "d = \<lparr>dd_id = ''a'', dd_name = ''db'', dd_status = ''online'', dd_deletionStatus = None, dd_uninstallSupported = True\<rparr>"
  let ?s = "(init_servers ''admin'')\<lparr>selectedServerIds := [''a'']\<rparr>"
  let ?t = "fetchServers_finish True (Inr (Some [demo_server ''b''])) (requestServerDeletion_finish False d (Inr None) ?s)"
  have "request_send ''PUT'' (policy_endpoint ''a'') (JObj [(''enabled'', JBool True)]) \<in>
      set (snd (handleBulkAutoUpdate_begin True ?t))"
    using deleted_server_stays_selected [of ?s d "[demo_server ''b'']" False None True]
    by (simp add: d_def isAdmin_def init_servers_def demo_server_def)
  moreover have "servers ?t = [demo_server ''b'']" by (simp add: fetchServers_finish_def)
  ultimately show ?thesis by (metis empty_iff list.set(1))
qed

text \<open>
  The poll of the update tasks loses tasks: a task that is queued while a round of polling is
  waiting for its answers is dropped when the round ends, because the round writes back the table
  it captured at its start; until a later reload of the list brings it back, the page neither
  shows nor polls it.
\<close>

theorem poll_loses_new_task:
  assumes "captured = agentUpdateTasks s" and "captured i = None" and "i \<notin> fst ` set answers"
    and "is_active_status (ut_status task)"
  defines "t \<equiv> poll_tasks captured answers (bulk_task_queued i task s)"
  shows "activeEntries (agentUpdateTasks (bulk_task_queued i task s)) i \<and>
         agentUpdateTasks t i = None \<and> \<not> activeEntries (agentUpdateTasks t) i"
proof -
  have "fold (\<lambda>(j, r) m. case r of Inr u \<Rightarrow> m(j \<mapsto> u) | Inl e \<Rightarrow> m) xs m i = m i"
    if "i \<notin> fst ` set xs" for xs :: "(string \<times> update_task outcome) list" and m
    using that by (induction xs arbitrary: m) (auto split: sum.split)
  then have "agentUpdateTasks t i = None"
    using assms(2,3) by (simp add: t_def poll_tasks_def Let_def)
  then show ?thesis using assms(4) by (simp add: activeEntries_def bulk_task_queued_def)
qed

definition demo_task :: "string \<Rightarrow> update_task" where
  "demo_task st = \<lparr>ut_id = ''t'', ut_status = st, ut_result = None\<rparr>"

theorem poll_loses_new_task_witness:
  "agentUpdateTasks
     (poll_tasks [''b'' \<mapsto> demo_task ''processing''] [(''b'', Inr (demo_task ''completed''))]
       (bulk_task_queued ''a'' (demo_task ''pending'')
         ((init_servers ''admin'')\<lparr>agentUpdateTasks := [''b'' \<mapsto> demo_task ''processing'']\<rparr>))) ''a'' = None"
  using poll_loses_new_task [of "[''b'' \<mapsto> demo_task ''processing'']"
      "(init_servers ''admin'')\<lparr>agentUpdateTasks := [''b'' \<mapsto> demo_task ''processing'']\<rparr>" "''a''"
      "[(''b'', Inr (demo_task ''completed''))]" "demo_task ''pending''"]
  by (simp add: demo_task_def is_active_status_def)

end
