(* ===== verification/ServerGates.thy ===== *)
theory ServerGates
  imports Servers
begin

text \<open>
  What a viewer can do on the list of servers (\<open>dashboard/servers/page.tsx\<close>): the page as a step
  relation over its handlers, in the table view or with the card view as well, and the write
  requests its buttons send.
\<close>

section \<open>The requests of the buttons\<close>

definition header_update_all :: "servers_page \<Rightarrow> servers_page" where
  "header_update_all s =
     (if \<not> isAdmin s \<or> servers s = [] \<or> isUpdatingAll s then s else s\<lparr>isUpdateAllOpen := True\<rparr>)"

definition header_add_server :: "servers_page \<Rightarrow> servers_page" where
  "header_add_server s = (if \<not> isAdmin s then s else s\<lparr>isAddServerModalOpen := True\<rparr>)"

definition of_option :: "'a option \<Rightarrow> 'a list" where
  "of_option x = (case x of Some a \<Rightarrow> [a] | None \<Rightarrow> [])"

definition write_requests :: "servers_page \<Rightarrow> request list" where
  \<comment> \<open>what pressing the buttons of the page in this state can send: the open dialogs, the policies of the
      rows and the bulk actions\<close>
  "write_requests s =
     of_option (confirm_restart_begin s) @
     of_option (snd (requestServerDeletion_begin False s)) @
     of_option (snd (requestServerDeletion_begin True s)) @
     of_option (save_meta_begin s) @ of_option (snd (start_update_begin s)) @
     (if isAddServerModalOpen s then of_option (add_server_begin s) else []) @
     (if isUpdateAllOpen s then [snd (update_all_begin s)] else []) @
     concat (map (\<lambda>r. of_option (snd (toggleAutoUpdatePolicy_begin (sr_id r) (sr_auto_update_agent r) s)))
       (servers s)) @
     snd (handleBulkAutoUpdate_begin True s) @ snd (handleBulkAutoUpdate_begin False s) @
     snd (handleBulkUpdateAgents_begin s)"

section \<open>The page as a step relation\<close>

inductive servers_step :: "bool \<Rightarrow> (string \<Rightarrow> json option) \<Rightarrow> servers_page \<Rightarrow> servers_page \<Rightarrow> bool"
  for grid json_parse where
  loaded: "servers_step grid json_parse s (fetchServers_finish silent reply s)"
| polled: "servers_step grid json_parse s (poll_tasks captured answers s)"
| searched: "servers_step grid json_parse s (s\<lparr>searchQuery := q, statusFilter := f\<rparr>)"
| cleared: "servers_step grid json_parse s (clearFilters s)"
| all_toggled: "servers_step grid json_parse s (toggleSelectAll json_parse s)"
| one_toggled: "servers_step grid json_parse s (toggleSelectServer i s)"
| policy: "servers_step grid json_parse s (fst (toggleAutoUpdatePolicy_begin i b s))"
| policy_done: "servers_step grid json_parse s (toggleAutoUpdatePolicy_finish i b r s)"
| bulk_policy: "servers_step grid json_parse s (fst (handleBulkAutoUpdate_begin b s))"
| bulk_policy_done: "servers_step grid json_parse s (handleBulkAutoUpdate_finish b rs s)"
| bulk_update: "servers_step grid json_parse s (fst (handleBulkUpdateAgents_begin s))"
| bulk_queued: "servers_step grid json_parse s (bulk_task_queued i t s)"
| bulk_update_done: "servers_step grid json_parse s (handleBulkUpdateAgents_finish ts s)"
| check: "servers_step grid json_parse s (check_update_click p r s)"
| checked: "checkingUpdateServerId s = Some (sr_id r) \<Longrightarrow>
    servers_step grid json_parse s (handleCheckUpdateForServer json_parse r info_reply file_reply s)"
| table_restart: "servers_step grid json_parse s (table_restart_click r s)"
| table_delete: "servers_step grid json_parse s (table_delete_click json_parse r s)"
| table_meta: "servers_step grid json_parse s (open_meta_form r s)"
| card_restart: "grid \<Longrightarrow> servers_step grid json_parse s (open_restart_dialog r s)"
| card_delete: "grid \<Longrightarrow> servers_step grid json_parse s (grid_delete_click json_parse r s)"
| card_meta: "grid \<Longrightarrow> servers_step grid json_parse s (fill_meta_form r s)"
| typed: "servers_step grid json_parse s
    (s\<lparr>confirmRestartText := a, confirmDeleteText := b, editMeta := m, newServerName := n, customServices := c\<rparr>)"
| delete_closed: "servers_step grid json_parse s (closeDeleteDialog s)"
| deleting: "servers_step grid json_parse s (fst (requestServerDeletion_begin b s))"
| deleted: "servers_step grid json_parse s (requestServerDeletion_finish b d dr s)"
| restarted: "servers_step grid json_parse s (confirm_restart_finish n u s)"
| meta_saved: "servers_step grid json_parse s (save_meta_finish u s)"
| dialogs_closed: "servers_step grid json_parse s
    (s\<lparr>serverToRestart := None, editMetaServer := None, serverToUpdate := None, isUpdateAllOpen := False,
       isAddServerModalOpen := False\<rparr>)"
| updating: "servers_step grid json_parse s (fst (start_update_begin s))"
| updated: "servers_step grid json_parse s (start_update_finish ud ut s)"
| update_all_opened: "servers_step grid json_parse s (header_update_all s)"
| updating_all: "servers_step grid json_parse s (fst (update_all_begin s))"
| all_updated: "servers_step grid json_parse s (update_all_finish ua s)"
| add_opened: "servers_step grid json_parse s (header_add_server s)"
| added: "servers_step grid json_parse s (add_server_finish ar si s)"

inductive viewer_page :: "bool \<Rightarrow> (string \<Rightarrow> json option) \<Rightarrow> servers_page \<Rightarrow> bool" for grid json_parse where
  first: "viewer_page grid json_parse (init_servers ''viewer'')"
| confirmed: "viewer_page grid json_parse s \<Longrightarrow> reply \<in> {Inr (Some ''viewer''), Inr None, Inl e} \<Longrightarrow>
    viewer_page grid json_parse (servers_me reply s)"
| step: "viewer_page grid json_parse s \<Longrightarrow> servers_step grid json_parse s t \<Longrightarrow> viewer_page grid json_parse t"

section \<open>The gate of the table\<close>

definition gated :: "servers_page \<Rightarrow> bool" where
  "gated s \<longleftrightarrow>
     userRole s = ''viewer'' \<and> serverToRestart s = None \<and> serverToDelete s = None \<and> editMetaServer s = None \<and>
     serverToUpdate s = None \<and> \<not> isUpdateAllOpen s \<and> \<not> isAddServerModalOpen s \<and>
     checkingUpdateServerId s = None"

lemma gated_toast [simp]: "gated (toast m s) = gated s"
  by (simp add: gated_def toast_def)

lemma gated_roles: "gated s \<Longrightarrow> isViewer s \<and> \<not> isAdmin s"
  by (simp add: gated_def isViewer_def isAdmin_def)

lemma gated_writes:
  assumes "gated s"
  shows "write_requests s = []"
  using assms gated_roles [OF assms]
  by (simp add: gated_def write_requests_def of_option_def confirm_restart_begin_def
      requestServerDeletion_begin_def save_meta_begin_def start_update_begin_def
      toggleAutoUpdatePolicy_begin_def handleBulkAutoUpdate_begin_def handleBulkUpdateAgents_begin_def)

lemma gated_processing [simp]: "gated (s\<lparr>isBulkProcessing := b\<rparr>) = gated s"
  by (simp add: gated_def)

lemma gated_queued [simp]: "gated (bulk_task_queued i t s) = gated s"
  by (simp add: gated_def bulk_task_queued_def)

lemma gated_fold: "gated (fold (\<lambda>(i, t). bulk_task_queued i t) ts s) = gated s"
  by (induction ts arbitrary: s) (simp_all add: split_beta)

lemma gated_step:
  assumes "servers_step False json_parse s t" and "gated s"
  shows "gated t"
  using assms(1)
proof cases
  case polled
  then show ?thesis using assms(2) by (simp add: gated_def poll_tasks_def Let_def)
next
  case (bulk_update_done ts)
  then show ?thesis
    using assms(2) by (simp add: handleBulkUpdateAgents_finish_def Let_def gated_fold)
qed (use assms(2) gated_roles [OF assms(2)] in
    \<open>auto simp: gated_def fetchServers_finish_def clearFilters_def toggleSelectAll_def toggleSelectServer_def
      toggleAutoUpdatePolicy_begin_def toggleAutoUpdatePolicy_finish_def handleBulkAutoUpdate_begin_def
      handleBulkAutoUpdate_finish_def handleBulkUpdateAgents_begin_def handleBulkUpdateAgents_finish_def
      bulk_task_queued_def check_update_click_def table_restart_click_def table_delete_click_def
      open_meta_form_def fill_meta_form_def closeDeleteDialog_def requestServerDeletion_begin_def
      requestServerDeletion_finish_def confirm_restart_finish_def save_meta_finish_def start_update_begin_def
      start_update_finish_def header_update_all_def update_all_begin_def update_all_finish_def
      header_add_server_def add_server_finish_def toast_def Let_def split: sum.splits option.splits prod.splits\<close>)

lemma gated_page: "viewer_page grid json_parse s \<Longrightarrow> \<not> grid \<Longrightarrow> gated s"
proof (induction rule: viewer_page.induct)
  case first
  show ?case by (simp add: gated_def init_servers_def)
next
  case (confirmed s reply e)
  then show ?case by (auto simp: gated_def servers_me_def)
next
  case (step s t)
  then have "servers_step False json_parse s t" by simp
  with step show ?case using gated_step by blast
qed

section \<open>The gap of the cards\<close>

definition reboot_request :: "server_record \<Rightarrow> request" where
  "reboot_request r =
     request_send ''POST'' (tasks_endpoint (sr_id r)) (JObj [(''type'', JStr ''vps_reboot''), (''payload'', JStr ''{}'')])"

definition delete_request :: "server_record \<Rightarrow> request" where
  "delete_request r = request_bare ''DELETE'' (''/servers/'' @ sr_id r @ ''?force=true'')"

text \<open>
  C24. The role gates of the table hold and those of the cards do not: from a viewer's first render, as
  long as the table is shown, no sequence of handlers and answers opens a dialog or brings the page
  into a state where a button sends a write; in the card view, from every state, one click and the
  typed name let a viewer send the reboot of a server and, unless it is being deleted already, its
  forced deletion, and one click its metadata.
\<close>

theorem viewer_gates:
  fixes r json_parse s
  assumes "viewer_page grid json_parse s"
  defines "r_open \<equiv> (open_restart_dialog r s)\<lparr>confirmRestartText := sr_name r\<rparr>"
    and "d_open \<equiv> (grid_delete_click json_parse r s)\<lparr>confirmDeleteText := sr_name r\<rparr>"
  shows "(if \<not> grid then write_requests s = [] \<and> serverToRestart s = None \<and> serverToDelete s = None
          else viewer_page grid json_parse (open_restart_dialog r s) \<and>
               viewer_page grid json_parse (grid_delete_click json_parse r s) \<and>
               reboot_request r \<in> set (write_requests r_open) \<and>
               (if deletion_pending r then True else delete_request r \<in> set (write_requests d_open)) \<and>
               list_ex (\<lambda>q. req_method q = ''PUT'') (write_requests (fill_meta_form r s)))"
proof (cases grid)
  case False
  then show ?thesis using gated_page [OF assms(1)] gated_writes by (simp add: gated_def)
next
  case True
  have "reboot_request r \<in> set (write_requests r_open)"
    by (simp add: write_requests_def of_option_def confirm_restart_begin_def r_open_def
        open_restart_dialog_def reboot_request_def)
  moreover have "delete_request r \<in> set (write_requests d_open)" if "\<not> deletion_pending r"
    using that
    by (simp add: write_requests_def of_option_def requestServerDeletion_begin_def d_open_def
        grid_delete_click_def open_delete_dialog_def delete_request_def)
  moreover have "list_ex (\<lambda>q. req_method q = ''PUT'') (write_requests (fill_meta_form r s))"
    by (simp add: write_requests_def of_option_def save_meta_begin_def fill_meta_form_def)
  moreover have "viewer_page grid json_parse (open_restart_dialog r s)"
    "viewer_page grid json_parse (grid_delete_click json_parse r s)"
    using viewer_page.step [OF assms(1)] card_restart card_delete True by blast+
  ultimately show ?thesis using True by simp
qed

definition card_record :: server_record where
  "card_record =
     \<lparr>sr_id = ''a'', sr_name = ''web'', sr_status = ''online'', sr_ip_address = None, sr_group_name = None,
      sr_tags = None, sr_provider = None, sr_region = None, sr_environment = None, sr_os_info = None,
      sr_snapshot = None, sr_inventory = None, sr_version = None, sr_update_available = False,
      sr_latest_agent_version = None, sr_auto_update_agent = False, sr_deletion_status = None,
      sr_active_task = None\<rparr>"

theorem viewer_gates_witness:
  "write_requests (init_servers ''viewer'') = [] \<and>
   delete_request card_record \<in>
     set (write_requests ((grid_delete_click (\<lambda>t. None) card_record (init_servers ''viewer''))
       \<lparr>confirmDeleteText := ''web''\<rparr>))"
  using viewer_gates [OF viewer_page.first [where grid = False and json_parse = "\<lambda>t. None"], of card_record]
    viewer_gates [OF viewer_page.first [where grid = True and json_parse = "\<lambda>t. None"], of card_record]
  by (simp add: card_record_def deletion_pending_def)

end
