(* ===== verification/Logs.thy ===== *)
theory Logs
  imports AgentTasks
begin

text \<open>
  The log explorer (\<open>dashboard/logs/page.tsx\<close>): the audit rows turned into log entries, the
  time window, the filters, what is known of the selected server and the remote fetch with its
  polling.  \<open>date_ms\<close> stands for \<open>new Date(s).getTime()\<close> (\<open>None\<close> for an invalid date),
  \<open>to_iso\<close> for \<open>toISOString\<close>, \<open>json_parse\<close> and \<open>stringify\<close> for \<open>JSON.parse\<close> and
  \<open>JSON.stringify\<close>, \<open>now\<close> for \<open>Date.now()\<close>.  Times are milliseconds.
\<close>

section \<open>Entities and state\<close>

datatype log_level = LInfo | LWarn | LError | LDebug

record log_entry =
  le_id :: string
  le_timestamp :: string
  le_server_id :: "string option"
  le_server_name :: string
  le_level :: log_level
  le_source :: string
  le_message :: string

record audit_log =
  al_id :: string
  al_action :: string
  al_resource_type :: string
  al_resource_id :: string
  al_details :: "json option"
  al_created_at :: string

record log_server =
  ls_id :: string
  ls_name :: string
  ls_status :: "string option"
  ls_os_info :: "json option"
  ls_snapshot :: "json option"

datatype log_type = TAll | TAudit | TSystem | TDocker | TAgent

datatype log_time_range = L15m | L1h | L3h | L6h | L24h | L7d | LAll | LCustom

definition MAX_VISIBLE_LOGS :: nat where
  "MAX_VISIBLE_LOGS = 500"

definition MAX_DETAIL_LENGTH :: nat where
  "MAX_DETAIL_LENGTH = 600"

definition MIN_LOG_READ_AGENT_VERSION :: string where
  "MIN_LOG_READ_AGENT_VERSION = ''1.5.2''"

record logs_page =
  servers :: "log_server list"
  logs :: "log_entry list"
  loading :: bool
  loadError :: "string option"
  selectedServerId :: string
  logLevel :: "log_level option"
    \<comment> \<open>\<open>None\<close> is \<open>'all'\<close>\<close>
  logType :: log_type
  timeRange :: log_time_range
  fromDate :: string
  fromTime :: string
  toDate :: string
  toTime :: string
  timeRangeError :: string
  remoteLogSource :: string
  remoteLogUnit :: string
  remoteLogLines :: string
  searchQuery :: string
  copied :: bool
  fetchingRemoteLogs :: bool
  toasts :: "string list"

definition init_logs :: logs_page where
  "init_logs =
     \<lparr>servers = [], logs = [], loading = True, loadError = None, selectedServerId = ''all'',
      logLevel = None, logType = TAll, timeRange = LAll, fromDate = [], fromTime = ''00:00'',
      toDate = [], toTime = ''23:59'', timeRangeError = [], remoteLogSource = ''journal'',
      remoteLogUnit = [], remoteLogLines = ''200'', searchQuery = [], copied = False,
      fetchingRemoteLogs = False, toasts = []\<rparr>"

definition toast :: "string \<Rightarrow> logs_page \<Rightarrow> logs_page" where
  "toast m s = s\<lparr>toasts := m # toasts s\<rparr>"

section \<open>Audit rows as log entries\<close>

definition classifyAuditLevel :: "string \<Rightarrow> log_level" where
  "classifyAuditLevel action =
     (let n = to_lower action; has = (\<lambda>w. str_includes n w)
      in if has ''fail'' \<or> has ''delete'' \<or> has ''uninstall'' then LError
         else if has ''update'' \<or> has ''restart'' \<or> has ''reboot'' then LWarn
         else LInfo)"

definition classifyLineLevel :: "string \<Rightarrow> log_level" where
  "classifyLineLevel line =
     (let n = to_lower line; has = (\<lambda>w. str_includes n w)
      in if has ''error'' \<or> has ''failed'' \<or> has ''panic'' then LError
         else if has ''warn'' \<or> has ''denied'' \<or> has ''timeout'' then LWarn
         else if has ''debug'' then LDebug
         else LInfo)"

definition stringifyDetail :: "(json \<Rightarrow> string) \<Rightarrow> json \<Rightarrow> string" where
  "stringifyDetail stringify v =
     (case v of
        JNull \<Rightarrow> []
      | JStr s \<Rightarrow> s
      | JNum q \<Rightarrow> to_text v
      | JBool b \<Rightarrow> to_text v
      | _ \<Rightarrow> stringify v)"

definition compactDetail :: "(json \<Rightarrow> string) \<Rightarrow> json \<Rightarrow> string" where
  "compactDetail stringify v =
     (let t = stringifyDetail stringify v
      in if MAX_DETAIL_LENGTH < length t then take MAX_DETAIL_LENGTH t @ ''...'' else t)"

definition object_entries :: "json \<Rightarrow> (string \<times> json) list" where
  \<comment> \<open>\<open>Object.entries\<close>; numbers and booleans have none\<close>
  "object_entries v =
     (case v of
        JObj kvs \<Rightarrow> kvs
      | JArr xs \<Rightarrow> zip (map show_nat [0..<length xs]) xs
      | JStr s \<Rightarrow> zip (map show_nat [0..<length s]) (map (\<lambda>c. JStr [c]) s)
      | _ \<Rightarrow> [])"

definition formatAuditMessage :: "(json \<Rightarrow> string) \<Rightarrow> audit_log \<Rightarrow> string" where
  "formatAuditMessage stringify a =
     (let details = (if js_truthy (al_details a) then the (al_details a) else JObj []);
          detailPairs = map (\<lambda>(k, v). k @ ''='' @ compactDetail stringify v)
            (filter (\<lambda>(k, v). v \<noteq> JNull \<and> v \<noteq> JStr []) (object_entries details));
          subject = trim (str_or (al_resource_type a) ''RESOURCE'' @ '' '' @ al_resource_id a)
      in al_action a @ (if subject \<noteq> [] then '' on '' @ subject else []) @
         (if detailPairs \<noteq> [] then '' | '' @ join '' '' detailPairs else []))"

definition server_by_id :: "log_server list \<Rightarrow> string \<Rightarrow> log_server option" where
  \<comment> \<open>\<open>new Map(\<dots>).get(id)\<close>: the last entry of an id counts\<close>
  "server_by_id ss i = find_by ls_id i (rev ss)"

definition audit_entry :: "(json \<Rightarrow> string) \<Rightarrow> log_server list \<Rightarrow> audit_log \<Rightarrow> log_entry" where
  "audit_entry stringify ss a =
     \<lparr>le_id = al_id a, le_timestamp = al_created_at a,
      le_server_id = (if al_resource_type a = ''SERVER'' then Some (al_resource_id a) else None),
      le_server_name = opt_or (map_option ls_name (server_by_id ss (al_resource_id a)))
        (str_or (al_resource_type a) ''control-plane''),
      le_level = classifyAuditLevel (al_action a),
      le_source = ''audit:'' @ to_lower (str_or (al_resource_type a) ''system''),
      le_message = formatAuditMessage stringify a\<rparr>"

section \<open>The time window\<close>

record custom_range =
  cr_fromISO :: string
  cr_toISO :: string
  cr_fromTs :: rat
  cr_toTs :: "rat option"
    \<comment> \<open>\<open>None\<close> is \<open>Infinity\<close>\<close>
  cr_error :: string

definition failed_range :: "string \<Rightarrow> custom_range" where
  "failed_range e = \<lparr>cr_fromISO = [], cr_toISO = [], cr_fromTs = 0, cr_toTs = None, cr_error = e\<rparr>"

definition from_text :: "logs_page \<Rightarrow> string" where
  "from_text s = fromDate s @ ''T'' @ str_or (fromTime s) ''00:00'' @ '':00''"

definition to_text_end :: "logs_page \<Rightarrow> string" where
  "to_text_end s = toDate s @ ''T'' @ str_or (toTime s) ''23:59'' @ '':59''"

definition range_order :: "custom_range \<Rightarrow> custom_range" where
  \<comment> \<open>the last check\<close>
  "range_order r =
     (case cr_toTs r of
        Some t \<Rightarrow> if cr_fromTs r > 0 \<and> cr_fromTs r > t
                  then failed_range ''Start time cannot be after end time.'' else r
      | None \<Rightarrow> r)"

definition range_end :: "(string \<Rightarrow> rat option) \<Rightarrow> (rat \<Rightarrow> string) \<Rightarrow> logs_page \<Rightarrow> custom_range \<Rightarrow> custom_range" where
  "range_end date_ms to_iso s r =
     (if toDate s = [] then range_order r
      else case date_ms (to_text_end s) of
             None \<Rightarrow> failed_range ''Invalid end date''
           | Some t \<Rightarrow> range_order (r\<lparr>cr_toTs := Some t, cr_toISO := to_iso t\<rparr>))"

definition getCustomRange ::
  "(string \<Rightarrow> rat option) \<Rightarrow> (rat \<Rightarrow> string) \<Rightarrow> rat \<Rightarrow> logs_page \<Rightarrow> custom_range" where
  "getCustomRange date_ms to_iso now s =
     (if fromDate s = [] \<and> toDate s = [] then failed_range []
      else if fromDate s = [] then range_end date_ms to_iso s (failed_range [])
      else case date_ms (from_text s) of
             None \<Rightarrow> failed_range ''Invalid start date''
           | Some t \<Rightarrow>
               if t > now + 5 * 60 * 1000 then failed_range ''Time window cannot be in the future.''
               else range_end date_ms to_iso s ((failed_range [])\<lparr>cr_fromTs := t, cr_fromISO := to_iso t\<rparr>))"

section \<open>Loading\<close>

definition form_encode :: "string \<Rightarrow> string" where
  \<comment> \<open>how \<open>URLSearchParams\<close> writes a value, on its UTF-8 bytes\<close>
  "form_encode s =
     concat (map (\<lambda>c.
       if is_digit c \<or> (65 \<le> char_code c \<and> char_code c \<le> 90) \<or> (97 \<le> char_code c \<and> char_code c \<le> 122) \<or>
          c \<in> set ''*-._'' then [c]
       else if c = CHR '' '' then ''+''
       else (let h = (\<lambda>n. if n < 10 then digit_char n else char_of (55 + n))
             in [CHR ''%'', h (char_code c div 16), h (char_code c mod 16)])) s)"

fun range_name :: "log_time_range \<Rightarrow> string" where
  "range_name L15m = ''15m''"
| "range_name L1h = ''1h''"
| "range_name L3h = ''3h''"
| "range_name L6h = ''6h''"
| "range_name L24h = ''24h''"
| "range_name L7d = ''7d''"
| "range_name LAll = ''all''"
| "range_name LCustom = ''custom''"

definition audit_params :: "custom_range \<Rightarrow> log_time_range \<Rightarrow> (string \<times> string) list" where
  "audit_params r w =
     (if w = LAll then []
      else if w = LCustom
      then (if cr_fromISO r \<noteq> [] then [(''from'', cr_fromISO r)] else []) @
           (if cr_toISO r \<noteq> [] then [(''to'', cr_toISO r)] else [])
      else [(''range'', range_name w)])"

definition audit_url :: "custom_range \<Rightarrow> log_time_range \<Rightarrow> string" where
  "audit_url r w =
     (let ps = audit_params r w
      in if ps = [] then ''/audit-logs''
         else ''/audit-logs?'' @ join ''&'' (map (\<lambda>(k, v). k @ ''='' @ form_encode v) ps))"

definition loadLogs_begin ::
  "(string \<Rightarrow> rat option) \<Rightarrow> (rat \<Rightarrow> string) \<Rightarrow> rat \<Rightarrow> logs_page \<Rightarrow> logs_page \<times> request list" where
  "loadLogs_begin date_ms to_iso now s =
     (let r = getCustomRange date_ms to_iso now s
      in if timeRange s = LCustom \<and> cr_error r \<noteq> []
         then (s\<lparr>timeRangeError := cr_error r\<rparr>, [])
         else (s\<lparr>timeRangeError := [], loading := True, loadError := None\<rparr>,
               [request_get ''/servers'', request_get (audit_url r (timeRange s))]))"

definition loadLogs_finish ::
  "(json \<Rightarrow> string) \<Rightarrow> log_server list option outcome \<Rightarrow> audit_log list option outcome \<Rightarrow>
     logs_page \<Rightarrow> logs_page" where
  "loadLogs_finish stringify server_reply audit_reply s =
     (case audit_reply of
        Inr rows \<Rightarrow>
          (let serverList = (case server_reply of Inr d \<Rightarrow> or_empty d | Inl e \<Rightarrow> [])
           in s\<lparr>servers := serverList, logs := map (audit_entry stringify serverList) (or_empty rows)\<rparr>)
      | Inl e \<Rightarrow> s\<lparr>logs := [], loadError := Some (errorMessage e ''Failed to load logs'')\<rparr>)
     \<lparr>loading := False\<rparr>"

record url_params =
  up_server_id :: "string option"
  up_source :: "string option"
  up_unit :: "string option"
  up_q :: "string option"

definition apply_url_params :: "url_params \<Rightarrow> logs_page \<Rightarrow> logs_page" where
  "apply_url_params u s =
     s\<lparr>selectedServerId := opt_or (up_server_id u) (selectedServerId s),
       remoteLogSource := opt_or (up_source u) (remoteLogSource s),
       remoteLogUnit := opt_or (up_unit u) (remoteLogUnit s),
       searchQuery := opt_or (up_q u) (searchQuery s)\<rparr>"

definition load_effect ::
  "(string \<Rightarrow> rat option) \<Rightarrow> (rat \<Rightarrow> string) \<Rightarrow> rat \<Rightarrow> url_params \<Rightarrow> logs_page \<Rightarrow>
     logs_page \<times> request list" where
  \<comment> \<open>the effect of the page\<close>
  "load_effect date_ms to_iso now u s =
     (let (s1, reqs) = loadLogs_begin date_ms to_iso now s in (apply_url_params u s1, reqs))"

definition loadLogs_deps :: "logs_page \<Rightarrow> log_time_range \<times> string \<times> string \<times> string \<times> string" where
  \<comment> \<open>what \<open>loadLogs\<close> is memoised on; the effect runs again when one of them changes\<close>
  "loadLogs_deps s = (timeRange s, fromDate s, fromTime s, toDate s, toTime s)"

section \<open>Filters\<close>

definition window_from :: "custom_range \<Rightarrow> rat \<Rightarrow> log_time_range \<Rightarrow> rat" where
  "window_from r now w =
     (case w of
        L15m \<Rightarrow> now - 15 * 60 * 1000
      | L1h \<Rightarrow> now - 60 * 60 * 1000
      | L3h \<Rightarrow> now - 3 * 3600 * 1000
      | L6h \<Rightarrow> now - 6 * 3600 * 1000
      | L24h \<Rightarrow> now - 24 * 3600 * 1000
      | L7d \<Rightarrow> now - 7 * 86400 * 1000
      | LCustom \<Rightarrow> if cr_error r = [] then cr_fromTs r else 0
      | LAll \<Rightarrow> 0)"

definition window_to :: "custom_range \<Rightarrow> log_time_range \<Rightarrow> rat option" where
  "window_to r w = (if w = LCustom \<and> cr_error r = [] then cr_toTs r else None)"

definition in_window :: "(string \<Rightarrow> rat option) \<Rightarrow> rat \<Rightarrow> rat option \<Rightarrow> log_entry \<Rightarrow> bool" where
  "in_window date_ms lo hi e \<longleftrightarrow>
     (if lo > 0 \<or> hi \<noteq> None
      then (case date_ms (le_timestamp e) of
              None \<Rightarrow> True
            | Some t \<Rightarrow> \<not> (t < lo \<or> (case hi of Some h \<Rightarrow> t > h | None \<Rightarrow> False)))
      else True)"

definition of_type :: "log_type \<Rightarrow> log_entry \<Rightarrow> bool" where
  "of_type ty e \<longleftrightarrow>
     (case ty of
        TAll \<Rightarrow> True
      | TAudit \<Rightarrow> starts_with (le_source e) ''audit''
      | TSystem \<Rightarrow> str_includes (le_source e) ''systemd'' \<or> str_includes (le_source e) ''kernel''
      | TDocker \<Rightarrow> starts_with (le_source e) ''docker''
      | TAgent \<Rightarrow> str_includes (le_source e) ''agent'')"

definition mentions :: "string \<Rightarrow> log_entry \<Rightarrow> bool" where
  "mentions q e \<longleftrightarrow>
     q = [] \<or> str_includes (to_lower (le_message e)) q \<or> str_includes (to_lower (le_server_name e)) q \<or>
     str_includes (to_lower (le_source e)) q \<or> str_includes (to_lower (opt_or (le_server_id e) [])) q"

definition filteredLogs ::
  "(string \<Rightarrow> rat option) \<Rightarrow> (rat \<Rightarrow> string) \<Rightarrow> rat \<Rightarrow> logs_page \<Rightarrow> log_entry list" where
  "filteredLogs date_ms to_iso now s =
     (let r = getCustomRange date_ms to_iso now s;
          q = to_lower (trim (searchQuery s))
      in filter (\<lambda>e.
           in_window date_ms (window_from r now (timeRange s)) (window_to r (timeRange s)) e \<and>
           (selectedServerId s = ''all'' \<or> le_server_id e = Some (selectedServerId s)) \<and>
           (case logLevel s of None \<Rightarrow> True | Some l \<Rightarrow> le_level e = l) \<and>
           of_type (logType s) e \<and> mentions q e) (logs s))"

definition visibleLogs ::
  "(string \<Rightarrow> rat option) \<Rightarrow> (rat \<Rightarrow> string) \<Rightarrow> rat \<Rightarrow> logs_page \<Rightarrow> log_entry list" where
  "visibleLogs date_ms to_iso now s = take MAX_VISIBLE_LOGS (filteredLogs date_ms to_iso now s)"

fun level_name :: "log_level \<Rightarrow> string" where
  "level_name LInfo = ''info''"
| "level_name LWarn = ''warn''"
| "level_name LError = ''error''"
| "level_name LDebug = ''debug''"

definition log_line :: "log_entry \<Rightarrow> string" where
  "log_line e =
     ''['' @ le_timestamp e @ ''] ['' @ to_upper (level_name (le_level e)) @ ''] ['' @ le_server_name e @
     ''] ['' @ le_source e @ ''] '' @ le_message e"

definition copyAllLogs_text :: "log_entry list \<Rightarrow> string" where
  \<comment> \<open>the text of the clipboard and of the exported file\<close>
  "copyAllLogs_text visible = join [CHR 0x0A] (map log_line visible)"

definition copyAllLogs_finish :: "bool \<Rightarrow> logs_page \<Rightarrow> logs_page" where
  \<comment> \<open>the flag falls back after two seconds\<close>
  "copyAllLogs_finish ok s =
     (if ok then toast ''Logs copied to clipboard'' (s\<lparr>copied := True\<rparr>) else toast ''Failed to copy logs'' s)"

definition clear_range :: "logs_page \<Rightarrow> logs_page" where
  "clear_range s =
     s\<lparr>fromDate := [], toDate := [], fromTime := ''00:00'', toTime := ''23:59'', timeRangeError := []\<rparr>"

section \<open>The selected server\<close>

definition selectedServer :: "logs_page \<Rightarrow> log_server option" where
  "selectedServer s = find_by ls_id (selectedServerId s) (servers s)"

definition server_os_info :: "logs_page \<Rightarrow> json option" where
  "server_os_info s = Option.bind (selectedServer s) ls_os_info"

definition selectedServerOSInfo :: "(string \<Rightarrow> json option) \<Rightarrow> logs_page \<Rightarrow> json" where
  "selectedServerOSInfo json_parse s =
     (if \<not> js_truthy (server_os_info s) then JObj []
      else case the (server_os_info s) of
             JObj kvs \<Rightarrow> JObj kvs
           | JArr xs \<Rightarrow> JArr xs
           | j \<Rightarrow> (case json_parse (to_text j) of Some v \<Rightarrow> v | None \<Rightarrow> JObj []))"

definition selectedServerOS :: "(string \<Rightarrow> json option) \<Rightarrow> logs_page \<Rightarrow> string outcome" where
  \<comment> \<open>a description that is the text \<open>null\<close> makes the render throw\<close>
  "selectedServerOS json_parse s =
     (let info = selectedServerOSInfo json_parse s
      in if \<not> js_truthy (server_os_info s) then Inr ''unknown''
         else if info = JNull then Inl (null_error ''os_family'')
         else Inr (to_lower (text_or (json_or (field info ''os_family'')
                (json_or (field info ''os_name'') (field info ''platform''))) [])))"

definition selectedServerAgentVersion :: "(string \<Rightarrow> json option) \<Rightarrow> logs_page \<Rightarrow> string outcome" where
  "selectedServerAgentVersion json_parse s =
     (let info = selectedServerOSInfo json_parse s
      in if info = JNull then Inl (null_error ''version'')
         else Inr (case field info ''version'' of Some (JStr v) \<Rightarrow> trim v | _ \<Rightarrow> []))"

fun service_names :: "json list \<Rightarrow> string list option" where
  \<comment> \<open>\<open>svcs.map((s) => s.name?.trim()).filter(Boolean)\<close>, \<open>None\<close> where it throws\<close>
  "service_names [] = Some []"
| "service_names (v # vs) =
     (if v = JNull then None
      else case field v ''name'' of
             None \<Rightarrow> service_names vs
           | Some JNull \<Rightarrow> service_names vs
           | Some (JStr n) \<Rightarrow>
               map_option (\<lambda>r. if trim n \<noteq> [] then trim n # r else r) (service_names vs)
           | Some _ \<Rightarrow> None)"

definition availableServices :: "(string \<Rightarrow> json option) \<Rightarrow> logs_page \<Rightarrow> string list" where
  "availableServices json_parse s =
     (let snapshot = Option.bind (selectedServer s) ls_snapshot
      in if \<not> js_truthy snapshot then []
         else case chain (parseJSON json_parse snapshot) ''services'' of
                Some (JArr svcs) \<Rightarrow> or_empty (service_names svcs)
              | _ \<Rightarrow> [])"

definition selectedServerIsLinux :: "string \<Rightarrow> bool" where
  "selectedServerIsLinux os =
     list_ex (str_includes os)
       [''linux'', ''ubuntu'', ''debian'', ''centos'', ''rocky'', ''alma'', ''fedora'', ''alpine'']"

definition selectedServerSupportsLogRead :: "string \<Rightarrow> bool" where
  "selectedServerSupportsLogRead v = logs_versionAtLeast (Some v) MIN_LOG_READ_AGENT_VERSION"

definition canFetchRemoteLogs :: "string \<Rightarrow> string \<Rightarrow> logs_page \<Rightarrow> bool" where
  "canFetchRemoteLogs os v s \<longleftrightarrow>
     selectedServerId s \<noteq> ''all'' \<and>
     Option.bind (selectedServer s) ls_status = Some ''online'' \<and>
     selectedServerIsLinux os \<and> selectedServerSupportsLogRead v"

definition ready_text :: string where
  "ready_text = ''Ready to fetch read-only logs''"

definition remoteLogReadiness :: "string \<Rightarrow> string \<Rightarrow> logs_page \<Rightarrow> string" where
  "remoteLogReadiness os v s =
     (if fetchingRemoteLogs s
      then ''Fetching log snapshot'' @ [CHR 0xE2, CHR 0x80, CHR 0xA6]
      else if selectedServerId s = ''all'' then ''Select a server to fetch logs''
      else if selectedServer s = None then ''Selected server is unavailable''
      else if Option.bind (selectedServer s) ls_status \<noteq> Some ''online'' then ''Selected server is offline''
      else if \<not> selectedServerIsLinux os then ''Only online Linux agents are supported''
      else if \<not> selectedServerSupportsLogRead v
      then ''Update Agent to '' @ MIN_LOG_READ_AGENT_VERSION @ ''+ before reading logs'' @
           (if v \<noteq> [] then '' (current '' @ v @ '')'' else [])
      else ready_text)"

section \<open>The remote fetch\<close>

record log_task =
  lt_id :: string
  lt_status :: string
  lt_result :: "string option"

definition sinceVal :: "logs_page \<Rightarrow> string" where
  "sinceVal s =
     (case timeRange s of
        L15m \<Rightarrow> ''15 minutes ago''
      | L1h \<Rightarrow> ''1 hour ago''
      | L3h \<Rightarrow> ''3 hours ago''
      | L6h \<Rightarrow> ''6 hours ago''
      | L24h \<Rightarrow> ''24 hours ago''
      | L7d \<Rightarrow> ''7 days ago''
      | LCustom \<Rightarrow> (if fromDate s \<noteq> [] then fromDate s @ '' '' @ str_or (fromTime s) ''00:00'' @ '':00'' else [])
      | LAll \<Rightarrow> [])"

definition log_read_payload :: "logs_page \<Rightarrow> json" where
  "log_read_payload s =
     JObj ([(''source'', JStr (remoteLogSource s)), (''unit'', JStr (trim (remoteLogUnit s))),
            (''lines'', JStr (remoteLogLines s))] @
           (if trim (searchQuery s) \<noteq> [] then [(''grep'', JStr (trim (searchQuery s)))] else []) @
           (if sinceVal s \<noteq> [] then [(''since'', JStr (sinceVal s))] else []))"

definition log_read_request :: "(json \<Rightarrow> string) \<Rightarrow> rat \<Rightarrow> log_server \<Rightarrow> logs_page \<Rightarrow> request" where
  "log_read_request stringify now server s =
     request_send ''POST'' (tasks_endpoint (ls_id server))
       (JObj [(''type'', JStr ''log_read''),
              (''payload'', JStr (stringify (log_read_payload s))),
              (''idempotency_key'',
                 JStr (''log-read-'' @ ls_id server @ ''-'' @ remoteLogSource s @ ''-'' @ show_rat now)),
              (''timeout_seconds'', JNum 60)])"

definition fetchRemoteLogs_begin ::
  "(json \<Rightarrow> string) \<Rightarrow> rat \<Rightarrow> string \<Rightarrow> string \<Rightarrow> logs_page \<Rightarrow> logs_page \<times> request option" where
  \<comment> \<open>up to the first request; \<open>os\<close> and \<open>v\<close> are the system and the version of the selected server\<close>
  "fetchRemoteLogs_begin stringify now os v s =
     (case selectedServer s of
        Some server \<Rightarrow>
          (if canFetchRemoteLogs os v s
           then (s\<lparr>fetchingRemoteLogs := True\<rparr>, Some (log_read_request stringify now server s))
           else (toast (remoteLogReadiness os v s) s, None))
      | None \<Rightarrow> (toast (remoteLogReadiness os v s) s, None))"

definition task_done :: "log_task option \<Rightarrow> bool" where
  "task_done t \<longleftrightarrow> (case t of Some r \<Rightarrow> lt_status r \<in> set [''completed'', ''failed''] | None \<Rightarrow> False)"

definition poll_task ::
  "(nat \<Rightarrow> log_task option outcome) \<Rightarrow> nat \<Rightarrow> nat \<Rightarrow> log_task option \<Rightarrow>
     log_task option outcome \<times> nat" where
  "poll_task replies = poll_until task_done replies"

definition MAX_POLLS :: nat where
  "MAX_POLLS = 18"

definition iso_template :: "(char \<Rightarrow> bool) list" where
  \<comment> \<open>\<open>\d{4}-\d{2}-\d{2}T\d{2}:\d{2}:\d{2}\<close>\<close>
  "iso_template =
     (let d = is_digit; is = (\<lambda>a c. c = a)
      in [d, d, d, d, is CHR ''-'', d, d, is CHR ''-'', d, d, is CHR ''T'',
          d, d, is CHR '':'', d, d, is CHR '':'', d, d])"

definition iso_match :: "string \<Rightarrow> string option" where
  "iso_match line =
     (if 19 \<le> length line \<and> list_all2 (\<lambda>p c. p c) iso_template (take 19 line)
      then Some (take 19 line @ takeWhile (\<lambda>c. \<not> is_ws c) (drop 19 line)) else None)"

definition line_timestamp ::
  "(string \<Rightarrow> rat option) \<Rightarrow> (rat \<Rightarrow> string) \<Rightarrow> rat \<Rightarrow> string \<Rightarrow> string" where
  "line_timestamp date_ms to_iso now line =
     (case Option.bind (iso_match line) date_ms of Some t \<Rightarrow> to_iso t | None \<Rightarrow> to_iso now)"

definition unsupported :: "string \<Rightarrow> bool" where
  \<comment> \<open>\<open>agentDoesNotSupportLogRead\<close>\<close>
  "unsupported resultText \<longleftrightarrow> str_includes (to_lower resultText) ''unknown task type: log_read''"

definition displayText :: "string \<Rightarrow> string" where
  "displayText resultText =
     (if unsupported resultText
      then ''Agent update required: read-only log fetch needs Agent '' @ MIN_LOG_READ_AGENT_VERSION @
           '' or newer. This agent has not activated the log_read handler yet.''
      else resultText)"

definition last_lines :: "nat \<Rightarrow> 'a list \<Rightarrow> 'a list" where
  \<comment> \<open>\<open>xs.slice(-n)\<close>\<close>
  "last_lines n xs = drop (length xs - n) xs"

definition remote_entry ::
  "(string \<Rightarrow> rat option) \<Rightarrow> (rat \<Rightarrow> string) \<Rightarrow> rat \<Rightarrow> logs_page \<Rightarrow> log_server \<Rightarrow> string \<Rightarrow> log_task \<Rightarrow>
     nat \<Rightarrow> string \<Rightarrow> log_entry" where
  "remote_entry date_ms to_iso now c server taskId r index line =
     (let u = trim (remoteLogUnit c)
      in \<lparr>le_id = ''remote-'' @ taskId @ ''-'' @ show_nat index,
          le_timestamp = line_timestamp date_ms to_iso now line,
          le_server_id = Some (ls_id server), le_server_name = ls_name server,
          le_level = (if lt_status r = ''failed'' \<or> unsupported (opt_or (lt_result r) []) then LError
                      else classifyLineLevel line),
          le_source = ''agent:'' @ remoteLogSource c @ (if u \<noteq> [] then CHR '':'' # u else []),
          le_message = line\<rparr>)"

definition remote_entries ::
  "(string \<Rightarrow> rat option) \<Rightarrow> (rat \<Rightarrow> string) \<Rightarrow> rat \<Rightarrow> logs_page \<Rightarrow> log_server \<Rightarrow> string \<Rightarrow> log_task \<Rightarrow>
     log_entry list" where
  "remote_entries date_ms to_iso now c server taskId r =
     (let ls = last_lines 500
                 (filter (\<lambda>l. l \<noteq> []) (split_on (CHR 0x0A) (displayText (opt_or (lt_result r) []))))
      in map (\<lambda>(i, l). remote_entry date_ms to_iso now c server taskId r i l) (zip [0..<length ls] ls))"

definition show_result ::
  "(string \<Rightarrow> rat option) \<Rightarrow> (rat \<Rightarrow> string) \<Rightarrow> rat \<Rightarrow> logs_page \<Rightarrow> log_server \<Rightarrow> string \<Rightarrow> log_task \<Rightarrow>
     logs_page \<Rightarrow> logs_page" where
  \<comment> \<open>what follows the loop when the task has ended\<close>
  "show_result date_ms to_iso now c server taskId r s =
     (let entries = remote_entries date_ms to_iso now c server taskId r;
          s1 = (if unsupported (opt_or (lt_result r) [])
                then toast (''Update this agent to '' @ MIN_LOG_READ_AGENT_VERSION @ ''+ before fetching logs'') s
                else s)
      in toast (''Fetched '' @ show_nat (length entries) @ '' log lines'')
           (s1\<lparr>logs := take 1000 (entries @ logs s1), logType := TAll,
               timeRange := (if timeRange c = LCustom then LAll else timeRange s1)\<rparr>))"

definition fetchRemoteLogs_finish ::
  "(string \<Rightarrow> rat option) \<Rightarrow> (rat \<Rightarrow> string) \<Rightarrow> rat \<Rightarrow> logs_page \<Rightarrow> log_server \<Rightarrow>
     log_task option outcome \<Rightarrow> (nat \<Rightarrow> log_task option outcome) \<Rightarrow> logs_page \<Rightarrow> logs_page" where
  \<comment> \<open>from the answer to the first request on; \<open>c\<close> is the page of the render that holds the handler\<close>
  "fetchRemoteLogs_finish date_ms to_iso now c server task_reply replies s =
     (let failed = (\<lambda>e. toast (errorMessage e ''Failed to fetch remote logs'') s)
      in case task_reply of
           Inl e \<Rightarrow> failed e
         | Inr None \<Rightarrow> failed (null_error ''id'')
         | Inr (Some task) \<Rightarrow>
             (case fst (poll_task replies MAX_POLLS 0 None) of
                Inl e \<Rightarrow> failed e
              | Inr t \<Rightarrow>
                  (if task_done t
                   then show_result date_ms to_iso now c server (lt_id task) (the t) s
                   else toast ''Log read task is still running. Try again in a few seconds.'' s)))
     \<lparr>fetchingRemoteLogs := False\<rparr>"

end
