(* ===== verification/LogsProps.thy ===== *)
theory LogsProps
  imports Logs
begin

text \<open>
  Properties of the log explorer: the polling of a log task, what a fetch does to the list,
  the agreement of the button with the readiness text, and the reload that discards fetched
  lines.
\<close>

section \<open>The lines of an answer\<close>

lemma length_last_lines [simp]: "length (last_lines n xs) = min n (length xs)"
  by (simp add: last_lines_def)

lemma set_last_lines: "set (last_lines n xs) \<subseteq> set xs"
  by (simp add: last_lines_def set_drop_subset)

lemma split_on_parts: "l \<in> set (split_on c s) \<Longrightarrow> c \<notin> set l"
proof (induction s arbitrary: l)
  case Nil
  then show ?case by simp
next
  case (Cons x s)
  then show ?case by (auto split: if_splits list.splits)
qed

definition remote_line :: "log_server \<Rightarrow> log_entry \<Rightarrow> bool" where
  \<comment> \<open>an entry made from one line of the answer of that server's agent\<close>
  "remote_line server e \<longleftrightarrow>
     le_server_id e = Some (ls_id server) \<and> le_server_name e = ls_name server \<and>
     starts_with (le_source e) ''agent:'' \<and> le_message e \<noteq> [] \<and> CHR 0x0A \<notin> set (le_message e)"

lemma remote_entries_lines:
  "length (remote_entries date_ms to_iso now c server i r) \<le> 500 \<and>
   list_all (remote_line server) (remote_entries date_ms to_iso now c server i r)"
proof -
  define ls where "ls = last_lines 500
    (filter (\<lambda>l. l \<noteq> []) (split_on (CHR 0x0A) (displayText (opt_or (lt_result r) []))))"
  have eq: "remote_entries date_ms to_iso now c server i r =
      map (\<lambda>(k, l). remote_entry date_ms to_iso now c server i r k l) (zip [0..<length ls] ls)"
    by (simp add: remote_entries_def ls_def Let_def)
  have "l \<noteq> [] \<and> CHR 0x0A \<notin> set l" if "l \<in> set ls" for l
    using that set_last_lines split_on_parts unfolding ls_def by fastforce
  then have "list_all (remote_line server) (remote_entries date_ms to_iso now c server i r)"
    unfolding eq
    by (auto simp: list_all_iff remote_line_def remote_entry_def starts_with_def Let_def
        dest!: set_zip_rightD)
  moreover have "length ls \<le> 500" by (simp add: ls_def)
  ultimately show ?thesis by (simp add: eq)
qed

lemma audit_entry_source: "starts_with (le_source (audit_entry stringify ss a)) ''audit:''"
  by (simp add: audit_entry_def starts_with_def)

lemma loaded_are_audit:
  "list_all (\<lambda>e. starts_with (le_source e) ''audit:'') (logs (loadLogs_finish stringify sr ar s))"
  by (auto simp: loadLogs_finish_def list_all_iff audit_entry_source Let_def split: sum.split)

section \<open>Properties\<close>

text \<open>
  Under a custom range a remote fetch is undone by the page itself: the answer is put on
  top of the list and announced, but the range is switched to 'all' with it, which makes
  \<open>loadLogs\<close> a new function, so its effect runs again and asks for the audit rows, and whatever
  comes back, failure included, none of the fetched lines is in the list afterwards.
\<close>

theorem custom_range_lines_discarded:
  assumes "timeRange c = LCustom" and "timeRange s = LCustom"
    and "fst (poll_task replies MAX_POLLS 0 None) = Inr (Some r)" and "task_done (Some r)"
    and "remote_entries date_ms to_iso now c server (lt_id task) r \<noteq> []"
  defines "t \<equiv> fetchRemoteLogs_finish date_ms to_iso now c server (Inr (Some task)) replies s"
  shows "take 500 (logs t) \<noteq> [] \<and> remote_line server (hd (logs t)) \<and>
         loadLogs_deps t \<noteq> loadLogs_deps s \<and>
         snd (load_effect date_ms to_iso now' u t) = [request_get ''/servers'', request_get ''/audit-logs''] \<and>
         list_all (\<lambda>e. \<not> remote_line server e)
           (logs (loadLogs_finish stringify sr ar (fst (load_effect date_ms to_iso now' u t))))"
proof -
  let ?new = "remote_entries date_ms to_iso now c server (lt_id task) r"
  obtain e es where new: "?new = e # es" using assms(5) by (cases ?new) auto
  have t: "logs t = take 1000 (?new @ logs s)" "timeRange t = LAll"
    using assms(1,3,4)
    by (simp_all add: t_def fetchRemoteLogs_finish_def show_result_def toast_def Let_def)
  have "remote_line server e"
    using remote_entries_lines [of date_ms to_iso now c server "lt_id task" r] new by simp
  moreover have "snd (load_effect date_ms to_iso now' u t) =
      [request_get ''/servers'', request_get ''/audit-logs'']"
    by (simp add: load_effect_def loadLogs_begin_def t(2) audit_url_def audit_params_def Let_def)
  moreover have "list_all (\<lambda>e. \<not> remote_line server e) (logs (loadLogs_finish stringify sr ar w))" for w
    using loaded_are_audit [of stringify sr ar w]
    by (auto simp: list_all_iff remote_line_def starts_with_def prefix_def)
  ultimately show ?thesis
    by (simp add: t new loadLogs_deps_def assms(2))
qed

definition demo_server :: log_server where
  "demo_server = \<lparr>ls_id = ''s1'', ls_name = ''web'', ls_status = Some ''online'',
     ls_os_info = None, ls_snapshot = None\<rparr>"

definition demo_task :: "string \<Rightarrow> log_task" where
  "demo_task out = \<lparr>lt_id = ''t1'', lt_status = ''completed'', lt_result = Some out\<rparr>"

definition demo_custom :: logs_page where
  "demo_custom = init_logs\<lparr>timeRange := LCustom, servers := [demo_server], selectedServerId := ''s1''\<rparr>"

theorem custom_range_lines_discarded_witness:
  "\<exists>t. t = fetchRemoteLogs_finish (\<lambda>x. None) (\<lambda>x. ''iso'') 0 demo_custom demo_server
             (Inr (Some (demo_task []))) (\<lambda>k. Inr (Some (demo_task ''started''))) demo_custom \<and>
       remote_line demo_server (hd (logs t)) \<and> loadLogs_deps t \<noteq> loadLogs_deps demo_custom"
proof -
  let ?r = "demo_task ''started''"
  have "timeRange demo_custom = LCustom" by (simp add: demo_custom_def)
  moreover have "task_done (Some ?r)" by (simp add: task_done_def demo_task_def)
  moreover have "fst (poll_task (\<lambda>k. Inr (Some ?r)) MAX_POLLS 0 None) = Inr (Some ?r)"
    using poll_ends_at [of 0 "\<lambda>k. Inr (Some ?r)" 0 task_done "Some ?r" MAX_POLLS None] calculation(2)
    by (simp add: MAX_POLLS_def poll_task_def)
  moreover have "remote_entries (\<lambda>x. None) (\<lambda>x. ''iso'') 0 demo_custom demo_server
      (lt_id (demo_task [])) ?r \<noteq> []"
    by code_simp
  ultimately show ?thesis
    using custom_range_lines_discarded [of demo_custom demo_custom "\<lambda>k. Inr (Some ?r)" ?r
        "\<lambda>x. None" "\<lambda>x. ''iso''" 0 demo_server "demo_task []"]
    by blast
qed

text \<open>
  A remote fetch is bounded whatever the server answers: at most 18 requests for the state of
  the task, the button free again at the end, at most 500 new entries, each of them one line
  of the selected server without a line break, put in front of the entries shown before, and
  the list never longer than 1000 entries unless it already was.
\<close>

theorem remote_fetch_bounded:
  fixes date_ms to_iso now c server task_reply replies s
  defines "t \<equiv> fetchRemoteLogs_finish date_ms to_iso now c server task_reply replies s"
  shows "snd (poll_task replies MAX_POLLS 0 None) \<le> 18 \<and>
         \<not> fetchingRemoteLogs t \<and>
         length (logs t) \<le> max 1000 (length (logs s)) \<and>
         (\<exists>new n. length new \<le> 500 \<and> list_all (remote_line server) new \<and>
            logs t = take n (new @ logs s) \<and> (n = 1000 \<or> n = length (logs s)))"
proof -
  have "\<exists>new n. length new \<le> 500 \<and> list_all (remote_line server) new \<and>
      logs t = take n (new @ logs s) \<and> (n = 1000 \<or> n = length (logs s))"
  proof (cases "\<exists>i r. logs t = take 1000 (remote_entries date_ms to_iso now c server i r @ logs s)")
    case True
    then show ?thesis using remote_entries_lines by blast
  next
    case False
    then have "logs t = logs s"
      by (auto simp: t_def fetchRemoteLogs_finish_def show_result_def toast_def Let_def
          split: sum.splits option.splits if_splits)
    then have "logs t = take (length (logs s)) ([] @ logs s)" by simp
    then show ?thesis
      by (intro exI [of _ "[]"] exI [of _ "length (logs s)"]) simp
  qed
  moreover from this have "length (logs t) \<le> max 1000 (length (logs s))" by auto
  moreover have "\<not> fetchingRemoteLogs t" by (simp add: t_def fetchRemoteLogs_finish_def)
  ultimately show ?thesis
    using poll_sent [of task_done replies MAX_POLLS 0 None] by (simp add: MAX_POLLS_def poll_task_def)
qed

text \<open>
  The text beside the button, the button and the handler follow one condition: the text says
  'ready' exactly when a fetch is possible and none is running, and the handler sends its
  request exactly when a fetch is possible. The difference is a running fetch: the handler,
  which the Enter key calls without looking at the button, then starts a second one.
\<close>

theorem readiness_agrees:
  "(remoteLogReadiness os v s = ready_text \<longleftrightarrow> canFetchRemoteLogs os v s \<and> \<not> fetchingRemoteLogs s) \<and>
   (snd (fetchRemoteLogs_begin stringify now os v s) \<noteq> None \<longleftrightarrow> canFetchRemoteLogs os v s) \<and>
   (snd (fetchRemoteLogs_begin stringify now os v (s\<lparr>fetchingRemoteLogs := True\<rparr>)) =
      snd (fetchRemoteLogs_begin stringify now os v s)) \<and>
   logs (fst (fetchRemoteLogs_begin stringify now os v s)) = logs s"
proof -
  have sel: "selectedServer (s\<lparr>fetchingRemoteLogs := b\<rparr>) = selectedServer s" for b
    by (simp add: selectedServer_def)
  have can: "canFetchRemoteLogs os v (s\<lparr>fetchingRemoteLogs := b\<rparr>) = canFetchRemoteLogs os v s" for b
    by (simp add: canFetchRemoteLogs_def sel)
  have since: "sinceVal (s\<lparr>fetchingRemoteLogs := b\<rparr>) = sinceVal s" for b
    by (cases "timeRange s") (simp_all add: sinceVal_def)
  have req: "log_read_request stringify now server (s\<lparr>fetchingRemoteLogs := b\<rparr>) =
      log_read_request stringify now server s" for b server
    by (simp add: log_read_request_def log_read_payload_def since)
  have "selectedServer s \<noteq> None" if "canFetchRemoteLogs os v s"
    using that by (cases "selectedServer s") (auto simp: canFetchRemoteLogs_def)
  then show ?thesis
    by (auto simp: remoteLogReadiness_def ready_text_def canFetchRemoteLogs_def
        fetchRemoteLogs_begin_def sel can req toast_def split: option.splits)
qed

end
