(* ===== verification/JsDate.thy ===== *)
theory JsDate
  imports JsNumber
begin

text \<open>
  The calendar behind \<open>Date\<close>: days since the epoch as year, month and day of the proleptic
  Gregorian calendar in UTC, \<open>toISOString().slice(0, 10)\<close> and the reading of a
  \<open>YYYY-MM-DD\<close> date at midnight UTC, with their round trips.  Times are milliseconds, so
  \<open>d.setUTCDate(d.getUTCDate() + k)\<close> adds \<open>k\<close> times the length of a day.
\<close>

section \<open>Years and months\<close>

definition leap_year :: "nat \<Rightarrow> bool" where
  "leap_year y \<longleftrightarrow> 4 dvd y \<and> (\<not> 100 dvd y \<or> 400 dvd y)"

definition year_days :: "nat \<Rightarrow> nat" where
  "year_days y = (if leap_year y then 366 else 365)"

definition month_days :: "bool \<Rightarrow> nat list" where
  "month_days leap = [31, if leap then 29 else 28, 31, 30, 31, 30, 31, 31, 30, 31, 30, 31]"

lemma year_days_pos [simp]: "0 < year_days y"
  by (simp add: year_days_def)

function split_year :: "nat \<Rightarrow> nat \<Rightarrow> nat \<times> nat" where
  \<comment> \<open>the year that contains day \<open>n\<close> counted from the start of year \<open>y\<close>, and the day within it\<close>
  "split_year y n = (if n < year_days y then (y, n) else split_year (Suc y) (n - year_days y))"
  by pat_completeness auto
termination
  by (relation "measure snd") (auto simp: year_days_def)

declare split_year.simps [simp del]

fun split_month :: "nat \<Rightarrow> nat list \<Rightarrow> nat \<Rightarrow> nat \<times> nat" where
  "split_month m [] n = (m, n)"
| "split_month m (l # ls) n = (if n < l then (m, n) else split_month (Suc m) ls (n - l))"

definition CYCLE :: int where
  \<comment> \<open>the days of 400 years\<close>
  "CYCLE = 146097"

definition EPOCH :: int where
  \<comment> \<open>the days from 0000-01-01 to 1970-01-01\<close>
  "EPOCH = 719528"

definition civil_of_day :: "int \<Rightarrow> int \<times> nat \<times> nat" where
  "civil_of_day day =
     (let n = day + EPOCH;
          (y, k) = split_year 0 (nat (n mod CYCLE));
          (m, d) = split_month 1 (month_days (leap_year y)) k
      in (400 * (n div CYCLE) + int y, m, d + 1))"

fun days_before_year :: "nat \<Rightarrow> nat" where
  "days_before_year 0 = 0"
| "days_before_year (Suc y) = days_before_year y + year_days y"

definition day_of_civil :: "int \<times> nat \<times> nat \<Rightarrow> int" where
  "day_of_civil c =
     (case c of (year, m, d) \<Rightarrow>
        (let y = nat (year mod 400)
         in CYCLE * (year div 400) +
            int (days_before_year y + sum_list (take (m - 1) (month_days (leap_year y))) + (d - 1)) - EPOCH))"

lemma split_year_spec:
  "split_year y n = (y', k) \<Longrightarrow>
     y \<le> y' \<and> k < year_days y' \<and> days_before_year y + n = days_before_year y' + k"
proof (induction y n rule: split_year.induct)
  case (1 y n)
  show ?case
  proof (cases "n < year_days y")
    case True
    with 1 show ?thesis by (simp add: split_year.simps [of y n])
  next
    case False
    with 1 have "Suc y \<le> y' \<and> k < year_days y' \<and>
        days_before_year (Suc y) + (n - year_days y) = days_before_year y' + k"
      by (simp add: split_year.simps [of y n])
    with False show ?thesis by simp
  qed
qed

lemma days_before_year_mono: "y \<le> z \<Longrightarrow> days_before_year y \<le> days_before_year z"
  by (induction z) (auto simp: le_Suc_eq)

lemma days_before_year_less: "y < z \<Longrightarrow> days_before_year y + year_days y \<le> days_before_year z"
  using days_before_year_mono [of "Suc y" z] by simp

lemma div_Suc_dvd: "n \<noteq> 0 \<Longrightarrow> Suc y div n = (if n dvd Suc y then Suc (y div n) else y div n)"
  unfolding dvd_eq_mod_eq_0 by (rule div_Suc)

lemma days_before_closed: "days_before_year (Suc y) + y div 100 = 365 * Suc y + 1 + y div 4 + y div 400"
proof (induction y)
  case 0
  show ?case by (simp add: year_days_def leap_year_def)
next
  case (Suc y)
  have "100 dvd Suc y \<Longrightarrow> 4 dvd Suc y" "400 dvd Suc y \<Longrightarrow> 100 dvd Suc y"
    using dvd_trans [of 4 100 "Suc y"] dvd_trans [of 100 400 "Suc y"] by simp_all
  then have "year_days (Suc y) + Suc y div 100 + y div 4 + y div 400 =
      365 + y div 100 + Suc y div 4 + Suc y div 400"
    by (cases "4 dvd Suc y"; cases "100 dvd Suc y"; cases "400 dvd Suc y")
      (simp_all add: year_days_def leap_year_def div_Suc_dvd)
  with Suc show ?case by simp
qed

lemma days_before_400: "days_before_year 400 = 146097"
  using days_before_closed [of 399] by (simp del: days_before_year.simps)

lemma split_month_spec:
  assumes "n < sum_list ls"
  shows "\<exists>j d. split_month m ls n = (m + j, d) \<and> j < length ls \<and> d < ls ! j \<and> sum_list (take j ls) + d = n"
  using assms
proof (induction ls arbitrary: m n)
  case Nil
  then show ?case by simp
next
  case (Cons l ls)
  show ?case
  proof (cases "n < l")
    case True
    then show ?thesis by (intro exI [of _ 0] exI [of _ n]) simp
  next
    case False
    with Cons.prems have "n - l < sum_list ls" by simp
    from Cons.IH [OF this, of "Suc m"] obtain j d where
      "split_month (Suc m) ls (n - l) = (Suc m + j, d)" "j < length ls" "d < ls ! j"
      "sum_list (take j ls) + d = n - l"
      by blast
    with False show ?thesis by (intro exI [of _ "Suc j"] exI [of _ d]) simp
  qed
qed

lemma length_month_days [simp]: "length (month_days b) = 12"
  by (simp add: month_days_def)

lemma sum_month_days [simp]: "sum_list (month_days (leap_year y)) = year_days y"
  by (simp add: month_days_def year_days_def)

lemma leap_year_mod: "leap_year (y mod 400) = leap_year y"
proof -
  have "4 dvd y mod 400 \<longleftrightarrow> 4 dvd y" "100 dvd y mod 400 \<longleftrightarrow> 100 dvd y" "400 dvd y mod 400 \<longleftrightarrow> 400 dvd y"
    by (simp_all add: dvd_mod_iff)
  then show ?thesis by (simp add: leap_year_def)
qed

text \<open>Every day is the day of its own date, and the date is one of the calendar.\<close>

definition valid_civil :: "int \<times> nat \<times> nat \<Rightarrow> bool" where
  "valid_civil c \<longleftrightarrow>
     (case c of (year, m, d) \<Rightarrow>
        1 \<le> m \<and> m \<le> 12 \<and> 1 \<le> d \<and> d \<le> month_days (leap_year (nat (year mod 400))) ! (m - 1))"

lemma year_in_cycle:
  assumes "split_year 0 (nat (n mod CYCLE)) = (y, k)"
  shows "y < 400"
proof -
  have "nat (n mod CYCLE) < 146097" by (simp add: CYCLE_def nat_less_iff)
  moreover have "nat (n mod CYCLE) = days_before_year y + k"
    using split_year_spec [OF assms] by simp
  ultimately show ?thesis
    using days_before_year_mono [of 400 y] days_before_400 by (cases "y < 400") auto
qed

lemma civil_roundtrip: "day_of_civil (civil_of_day day) = day \<and> valid_civil (civil_of_day day)"
proof -
  define n where "n = day + EPOCH"
  define r where "r = nat (n mod CYCLE)"
  obtain y k where yk: "split_year 0 r = (y, k)" by fastforce
  have r: "int r = n mod CYCLE" "r < 146097" by (simp_all add: r_def CYCLE_def nat_less_iff)
  from split_year_spec [OF yk] have y: "k < year_days y" "r = days_before_year y + k" by simp_all
  have "y < 400"
    using yk unfolding r_def by (rule year_in_cycle)
  have "k < sum_list (month_days (leap_year y))" using y(1) by simp
  from split_month_spec [OF this, of 1] obtain j d where
    jd: "split_month 1 (month_days (leap_year y)) k = (1 + j, d)" "j < length (month_days (leap_year y))"
    "d < month_days (leap_year y) ! j" "sum_list (take j (month_days (leap_year y))) + d = k"
    by blast
  have c: "civil_of_day day = (400 * (n div CYCLE) + int y, 1 + j, d + 1)"
    by (simp add: civil_of_day_def n_def [symmetric] r_def [symmetric] yk jd(1) [simplified])
  have "day_of_civil (civil_of_day day) = CYCLE * (n div CYCLE) + int r - EPOCH"
    using \<open>y < 400\<close> by (simp add: c day_of_civil_def y(2) jd(4) [symmetric])
  also have "\<dots> = day" by (simp add: r(1) n_def)
  finally show ?thesis
    using jd(2,3) \<open>y < 400\<close> by (simp add: c valid_civil_def)
qed

section \<open>Dates as text\<close>

definition pad :: "nat \<Rightarrow> nat \<Rightarrow> string" where
  \<comment> \<open>\<open>k\<close> decimal digits\<close>
  "pad k n = map (\<lambda>i. digit_char (int (n div 10 ^ i mod 10))) (rev [0..<k])"

definition iso_year :: "int \<Rightarrow> string" where
  "iso_year y =
     (if 0 \<le> y \<and> y \<le> 9999 then pad 4 (nat y)
      else (if y < 0 then ''-'' else ''+'') @ pad 6 (nat \<bar>y\<bar>))"

definition iso_day :: "int \<Rightarrow> string" where
  \<comment> \<open>\<open>toISOString().slice(0, 10)\<close>\<close>
  "iso_day day =
     (case civil_of_day day of (y, m, d) \<Rightarrow>
        take 10 (iso_year y @ ''-'' @ pad 2 m @ ''-'' @ pad 2 d))"

definition MS_PER_DAY :: rat where
  "MS_PER_DAY = 86400000"

definition day_of_ms :: "rat \<Rightarrow> int" where
  "day_of_ms t = \<lfloor>t / MS_PER_DAY\<rfloor>"

definition ms_of_day :: "int \<Rightarrow> rat" where
  "ms_of_day d = of_int d * MS_PER_DAY"

definition parse_day :: "string \<Rightarrow> int option" where
  \<comment> \<open>\<open>new Date(s + 'T00:00:00Z')\<close> for a date of four-digit year, as a day; \<open>None\<close> for an
      invalid date\<close>
  "parse_day s =
     (let y = take 4 s; m = take 2 (drop 5 s); d = take 2 (drop 8 s);
          c = (digits_val y, nat (digits_val m), nat (digits_val d))
      in if length s = 10 \<and> s ! 4 = CHR ''-'' \<and> s ! 7 = CHR ''-'' \<and>
            list_all is_digit (y @ m @ d) \<and> valid_civil c
         then Some (day_of_civil c) else None)"

lemma length_pad [simp]: "length (pad k n) = k"
  by (simp add: pad_def)

lemma pad_Suc: "pad (Suc k) n = digit_char (int (n div 10 ^ k mod 10)) # pad k n"
  by (simp add: pad_def)

lemma pad_digits [simp]: "list_all is_digit (pad k n)"
  by (auto simp: pad_def list_all_iff)

lemma digits_val_pad_acc: "digits_val_acc a (pad k n) = a * 10 ^ k + int (n mod 10 ^ k)"
proof (induction k arbitrary: a)
  case 0
  then show ?case by (simp add: pad_def)
next
  case (Suc k)
  have "n mod 10 ^ Suc k = (n div 10 ^ k mod 10) * 10 ^ k + n mod 10 ^ k"
    by (metis mod_mult2_eq mult.commute power_Suc2)
  then show ?case by (simp add: pad_Suc Suc algebra_simps)
qed

lemma digits_val_pad: "n < 10 ^ k \<Longrightarrow> digits_val (pad k n) = int n"
  by (simp add: digits_val_def digits_val_pad_acc)

definition four_digit_year :: "int \<Rightarrow> bool" where
  "four_digit_year day \<longleftrightarrow> 0 \<le> fst (civil_of_day day) \<and> fst (civil_of_day day) \<le> 9999"

lemma four_digit_range:
  assumes "- 719528 \<le> day" and "day < 2932897"
  shows "four_digit_year day"
proof -
  define n where "n = day + EPOCH"
  obtain y k where yk: "split_year 0 (nat (n mod CYCLE)) = (y, k)" by fastforce
  obtain m d where md: "split_month 1 (month_days (leap_year y)) k = (m, d)" by fastforce
  have "fst (civil_of_day day) = 400 * (n div CYCLE) + int y"
    by (simp add: civil_of_day_def n_def [symmetric] yk md [simplified])
  moreover have "0 \<le> n div CYCLE" "n div CYCLE \<le> 24"
    using assms by (simp_all add: n_def EPOCH_def CYCLE_def)
  ultimately show ?thesis
    using year_in_cycle [OF yk] by (simp add: four_digit_year_def)
qed

lemma month_days_le: "m - 1 < 12 \<Longrightarrow> month_days b ! (m - 1) \<le> 31"
proof -
  assume "m - 1 < 12"
  then have "month_days b ! (m - 1) \<in> set (month_days b)"
    by (intro nth_mem) (simp add: month_days_def)
  moreover have "\<forall>k \<in> set (month_days b). k \<le> 31" by (simp add: month_days_def)
  ultimately show ?thesis by blast
qed

lemma parse_iso_day:
  assumes "four_digit_year day"
  shows "parse_day (iso_day day) = Some day" and "length (iso_day day) = 10"
proof -
  obtain y m d where c: "civil_of_day day = (y, m, d)" by (metis prod_cases3)
  have rt: "day_of_civil (y, m, d) = day" "valid_civil (y, m, d)"
    using civil_roundtrip [of day] by (simp_all add: c)
  have y: "0 \<le> y" "y \<le> 9999" using assms by (simp_all add: four_digit_year_def c)
  have "m - 1 < 12" using rt(2) by (auto simp: valid_civil_def)
  from month_days_le [OF this, of "leap_year (nat (y mod 400))"] rt(2)
  have md: "m < 100" "d < 100" by (auto simp: valid_civil_def simp del: One_nat_def)
  let ?Y = "pad 4 (nat y)" and ?M = "pad 2 m" and ?D = "pad 2 d"
  have s: "iso_day day = ?Y @ CHR ''-'' # ?M @ CHR ''-'' # ?D"
    using y by (simp add: iso_day_def c iso_year_def)
  show len: "length (iso_day day) = 10" by (simp add: s)
  have parts: "take 4 (iso_day day) = ?Y" "take 2 (drop 5 (iso_day day)) = ?M"
    "take 2 (drop 8 (iso_day day)) = ?D" "iso_day day ! 4 = CHR ''-''" "iso_day day ! 7 = CHR ''-''"
    unfolding s by (simp_all add: nth_append)
  have "digits_val ?Y = y" "nat (digits_val ?M) = m" "nat (digits_val ?D) = d"
    using y md by (simp_all add: digits_val_pad nat_less_iff)
  then show "parse_day (iso_day day) = Some day"
    by (simp add: parse_day_def Let_def parts rt len)
qed

end
