(* ===== verification/Websites.thy ===== *)
theory Websites
  imports JsDate
begin

text \<open>
  The uptime page (\<open>dashboard/websites/page.tsx\<close>): websites and servers as loaded, the window
  of 90 days and its navigation, checks, the add, edit and delete dialogs, the figures of the
  overview cards and the bars of both tabs.  \<open>now\<close> stands for \<open>Date.now()\<close>, \<open>date_ms\<close> for
  \<open>new Date(s).getTime()\<close> on a timestamp and \<open>rnd k\<close> for the value of the k-th call of
  \<open>Math.random()\<close>.
\<close>

section \<open>Entities and state\<close>

record website =
  ws_id :: string
  ws_name :: string
  ws_url :: string
  ws_status :: "string option"
  ws_ssl_days_remaining :: "rat option"
  ws_response_time_ms :: "rat option"
  ws_history_24h :: "rat list option"
  ws_down_started_at :: "string option"

record host =
  ho_id :: string
  ho_name :: string
  ho_status :: "string option"
  ho_ip_address :: "string option"
  ho_created_at :: string
  ho_availability_30d :: "rat option"
  ho_downtime_seconds_30d :: "rat option"
  ho_snapshot :: "json option"
  ho_os_info :: "json option"

datatype day_status = Operational | Degraded | Outage | NoData

record day_bar =
  db_date :: string
  db_status :: day_status
  db_uptime_pct :: rat
  db_downtime_seconds :: rat
  db_avg_latency_ms :: rat
  db_incident_title :: "string option"

record summary_item =
  si_id :: string
  si_name :: string
  si_url :: "string option"
  si_current_status :: string
  si_overall_uptime_pct :: rat
  si_days :: "day_bar list"

record uptime_summary =
  us_start_date :: "string option"
  us_end_date :: "string option"
  us_items :: "summary_item list"

record websites_page =
  websites :: "website list"
  servers :: "host list"
  uptimeSummary :: "uptime_summary option"
  loadingUptimeSummary :: bool
  selectedEndDate :: string
  loadingWebsites :: bool
  loadingServers :: bool
  isModalOpen :: bool
  checkingId :: "string option"
  currentTimestamp :: rat
  pendingDeleteWebsite :: "(string \<times> string) option"
  deletingWebsite :: bool
  newName :: string
  newUrl :: string
  submitting :: bool
  form_error :: string
  editingWebsite :: "website option"
  editName :: string
  editUrl :: string
  isEditModalOpen :: bool
  updatingWebsite :: bool
  editError :: string
  userRole :: string
  toasts :: "string list"

definition init_websites :: "string \<Rightarrow> websites_page" where
  "init_websites role =
     \<lparr>websites = [], servers = [], uptimeSummary = None, loadingUptimeSummary = True,
      selectedEndDate = [], loadingWebsites = True, loadingServers = True, isModalOpen = False,
      checkingId = None, currentTimestamp = 0, pendingDeleteWebsite = None, deletingWebsite = False,
      newName = [], newUrl = [], submitting = False, form_error = [], editingWebsite = None,
      editName = [], editUrl = [], isEditModalOpen = False, updatingWebsite = False, editError = [],
      userRole = role, toasts = []\<rparr>"

definition toast :: "string \<Rightarrow> websites_page \<Rightarrow> websites_page" where
  "toast m s = s\<lparr>toasts := m # toasts s\<rparr>"

definition isViewer :: "websites_page \<Rightarrow> bool" where
  "isViewer s \<longleftrightarrow> userRole s = ''viewer''"

section \<open>Loading\<close>

definition summary_request :: "string \<Rightarrow> request" where
  "summary_request endDate =
     request_get (''/websites/uptime-summary'' @
       (if endDate \<noteq> [] then ''?days=90&end_date='' @ endDate else ''?days=90''))"

definition fetchUptimeSummary_begin :: "string \<Rightarrow> websites_page \<Rightarrow> websites_page \<times> request" where
  "fetchUptimeSummary_begin endDate s = (s\<lparr>loadingUptimeSummary := True\<rparr>, summary_request endDate)"

definition fetchUptimeSummary_finish :: "uptime_summary option outcome \<Rightarrow> websites_page \<Rightarrow> websites_page" where
  \<comment> \<open>\<open>None\<close> is an answer without a list of items\<close>
  "fetchUptimeSummary_finish reply s =
     (case reply of Inr (Some d) \<Rightarrow> s\<lparr>uptimeSummary := Some d\<rparr> | _ \<Rightarrow> s)\<lparr>loadingUptimeSummary := False\<rparr>"

definition random_int :: "rat \<Rightarrow> rat \<Rightarrow> rat \<Rightarrow> rat" where
  \<comment> \<open>\<open>Math.floor(r * width + base)\<close>\<close>
  "random_int r width base = of_int \<lfloor>r * width + base\<rfloor>"

definition enhance :: "(nat \<Rightarrow> rat) \<Rightarrow> website \<Rightarrow> nat \<Rightarrow> website \<times> nat" where
  \<comment> \<open>one website, and the number of the next random value\<close>
  "enhance rnd w k =
     (let has = (ws_response_time_ms w \<noteq> None \<and> ws_response_time_ms w \<noteq> Some 0);
          k1 = (if has then k else k + 1);
          (h, k2) = (case ws_history_24h w of
                       Some xs \<Rightarrow> (xs, k1)
                     | None \<Rightarrow> (map (\<lambda>j. random_int (rnd (k1 + j)) 90 20) [0..<24], k1 + 24))
      in (w\<lparr>ws_response_time_ms := (if has then ws_response_time_ms w else Some (random_int (rnd k) 80 30)),
            ws_history_24h := Some h\<rparr>, k2))"

fun enhance_all :: "(nat \<Rightarrow> rat) \<Rightarrow> website list \<Rightarrow> nat \<Rightarrow> website list" where
  "enhance_all rnd [] k = []"
| "enhance_all rnd (w # ws) k = (let (w', k') = enhance rnd w k in w' # enhance_all rnd ws k')"

definition fetchWebsites_finish ::
  "(nat \<Rightarrow> rat) \<Rightarrow> website list option outcome \<Rightarrow> websites_page \<Rightarrow> websites_page" where
  "fetchWebsites_finish rnd reply s =
     (case reply of Inr d \<Rightarrow> s\<lparr>websites := enhance_all rnd (or_empty d) 0\<rparr> | Inl e \<Rightarrow> s)
     \<lparr>loadingWebsites := False\<rparr>"

definition fetchServers_finish :: "host list option outcome \<Rightarrow> websites_page \<Rightarrow> websites_page" where
  "fetchServers_finish reply s =
     (case reply of Inr d \<Rightarrow> s\<lparr>servers := or_empty d\<rparr> | Inl e \<Rightarrow> s)\<lparr>loadingServers := False\<rparr>"

definition refreshAll :: "websites_page \<Rightarrow> websites_page \<times> request list" where
  "refreshAll s =
     (let (s1, r) = fetchUptimeSummary_begin (selectedEndDate s) s
      in (s1, [request_get ''/websites'', request_get ''/servers'', r]))"

definition timer_tick :: "rat \<Rightarrow> websites_page \<Rightarrow> websites_page \<times> request list" where
  "timer_tick now s = refreshAll (s\<lparr>currentTimestamp := now\<rparr>)"

section \<open>The window\<close>

definition str_ge :: "string \<Rightarrow> string \<Rightarrow> bool" where
  \<comment> \<open>\<open>a >= b\<close> on strings: by code units\<close>
  "str_ge a b \<longleftrightarrow> \<not> (a, b) \<in> lexord {(x, y). char_code x < char_code y}"

definition show_window :: "string \<Rightarrow> websites_page \<Rightarrow> websites_page \<times> request" where
  \<comment> \<open>\<open>setSelectedEndDate(e); void fetchUptimeSummary(e)\<close>\<close>
  "show_window e s = fetchUptimeSummary_begin e (s\<lparr>selectedEndDate := e\<rparr>)"

definition handlePreviousDateRange :: "int \<Rightarrow> websites_page \<Rightarrow> (websites_page \<times> request) option" where
  \<comment> \<open>\<open>today\<close> is the current day; \<open>None\<close>: \<open>toISOString\<close> throws on an invalid date\<close>
  "handlePreviousDateRange today s =
     (let base = opt_or (Option.bind (uptimeSummary s) us_end_date) (iso_day today)
      in map_option (\<lambda>d. show_window (iso_day (d - 30)) s) (parse_day base))"

definition handleNextDateRange :: "int \<Rightarrow> websites_page \<Rightarrow> (websites_page \<times> request option) option" where
  "handleNextDateRange today s =
     (if selectedEndDate s = [] then Some (s, None)
      else map_option
             (\<lambda>d. let (s1, r) = (if str_ge (iso_day (d + 30)) (iso_day today) then show_window [] s
                                 else show_window (iso_day (d + 30)) s)
                  in (s1, Some r))
             (parse_day (selectedEndDate s)))"

definition handleResetDateRange :: "websites_page \<Rightarrow> websites_page \<times> request" where
  "handleResetDateRange s = show_window [] s"

definition month_short :: "nat \<Rightarrow> string" where
  "month_short m =
     [''Jan'', ''Feb'', ''Mar'', ''Apr'', ''May'', ''Jun'', ''Jul'', ''Aug'', ''Sep'', ''Oct'', ''Nov'', ''Dec''] ! (m - 1)"

definition date_parts :: "string \<Rightarrow> string \<times> string \<times> string" where
  \<comment> \<open>the day, the short month and the year as printed\<close>
  "date_parts s =
     (case parse_day s of
        None \<Rightarrow> (''NaN'', ''Invalid Date'', ''NaN'')
      | Some n \<Rightarrow> (case civil_of_day n of (y, m, d) \<Rightarrow> (show_nat d, month_short m, show_int y)))"

definition formatMonthYearRange :: "string option \<Rightarrow> string option \<Rightarrow> string" where
  "formatMonthYearRange startStr endStr =
     (if \<not> truthy startStr \<or> \<not> truthy endStr then ''Jun 2026 - Sep 2026''
      else let (d1, m1, y1) = date_parts (the startStr); (d2, m2, y2) = date_parts (the endStr)
           in if y1 = y2 \<and> m1 = m2 \<and> y1 \<noteq> ''NaN'' then m1 @ '' '' @ y1
              else m1 @ '' '' @ y1 @ '' - '' @ m2 @ '' '' @ y2)"

definition formatTooltipDate :: "string \<Rightarrow> string" where
  "formatTooltipDate s = (let (d, m, y) = date_parts s in d @ '' '' @ m @ '' '' @ y)"

section \<open>Checks and dialogs\<close>

definition reload_requests :: "websites_page \<Rightarrow> request list" where
  \<comment> \<open>\<open>await fetchWebsites(); await fetchUptimeSummary(selectedEndDate)\<close>, of the render that holds
      the handler\<close>
  "reload_requests c = [request_get ''/websites'', summary_request (selectedEndDate c)]"

definition handleManualCheck_begin :: "string \<Rightarrow> websites_page \<Rightarrow> websites_page \<times> request" where
  "handleManualCheck_begin i s =
     (s\<lparr>checkingId := Some i\<rparr>, request_bare ''POST'' (''/websites/'' @ i @ ''/check''))"

definition handleManualCheck_finish ::
  "websites_page \<Rightarrow> string \<Rightarrow> unit outcome \<Rightarrow> websites_page \<Rightarrow> websites_page \<times> request list" where
  \<comment> \<open>up to the reload; a failed check is swallowed\<close>
  "handleManualCheck_finish c name reply s =
     (toast (''Triggered health check for '' @ name) s, reload_requests c)"

definition handleManualCheck_end :: "websites_page \<Rightarrow> websites_page" where
  \<comment> \<open>after the reload\<close>
  "handleManualCheck_end s = s\<lparr>checkingId := None\<rparr>"

definition openAddModal :: "websites_page \<Rightarrow> websites_page" where
  "openAddModal s =
     (if isViewer s then toast ''Adding websites requires Operator or Admin role'' s
      else s\<lparr>isModalOpen := True\<rparr>)"

definition website_body :: "string \<Rightarrow> string \<Rightarrow> json" where
  "website_body n u = JObj [(''name'', JStr n), (''url'', JStr u)]"

definition handleAddWebsite_begin :: "websites_page \<Rightarrow> websites_page \<times> request" where
  \<comment> \<open>a call with \<open>data\<close> and no method is a POST\<close>
  "handleAddWebsite_begin s =
     (s\<lparr>submitting := True, form_error := []\<rparr>,
      request_send ''POST'' ''/websites'' (website_body (newName s) (newUrl s)))"

definition handleAddWebsite_finish ::
  "websites_page \<Rightarrow> unit outcome \<Rightarrow> websites_page \<Rightarrow> websites_page \<times> request list" where
  "handleAddWebsite_finish c reply s =
     (case reply of
        Inr _ \<Rightarrow> (s\<lparr>isModalOpen := False, newName := [], newUrl := []\<rparr>, reload_requests c)
      | Inl e \<Rightarrow> (s\<lparr>form_error := errorMessage e ''Unable to add website'', submitting := False\<rparr>, []))"

definition handleAddWebsite_end :: "websites_page \<Rightarrow> websites_page" where
  "handleAddWebsite_end s = (toast ''Website added to monitoring suite'' s)\<lparr>submitting := False\<rparr>"

definition openEditModal :: "website \<Rightarrow> websites_page \<Rightarrow> websites_page" where
  "openEditModal w s =
     (if isViewer s then toast ''Editing websites requires Operator or Admin role'' s
      else s\<lparr>editingWebsite := Some w, editName := ws_name w, editUrl := ws_url w, editError := [],
             isEditModalOpen := True\<rparr>)"

definition edit_target :: "summary_item \<Rightarrow> websites_page \<Rightarrow> website" where
  \<comment> \<open>the website of a row of bars, or one made up from the row\<close>
  "edit_target item s =
     (case find_by ws_id (si_id item) (websites s) of
        Some w \<Rightarrow> w
      | None \<Rightarrow> \<lparr>ws_id = si_id item, ws_name = si_name item, ws_url = opt_or (si_url item) [],
                 ws_status = Some (si_current_status item), ws_ssl_days_remaining = None,
                 ws_response_time_ms = None, ws_history_24h = None, ws_down_started_at = None\<rparr>)"

definition handleEditWebsite_begin :: "websites_page \<Rightarrow> websites_page \<times> request option" where
  "handleEditWebsite_begin s =
     (case editingWebsite s of
        None \<Rightarrow> (s, None)
      | Some w \<Rightarrow> (s\<lparr>updatingWebsite := True, editError := []\<rparr>,
                   Some (request_send ''PUT'' (''/websites/'' @ ws_id w)
                     (website_body (editName s) (editUrl s)))))"

definition handleEditWebsite_finish ::
  "websites_page \<Rightarrow> unit outcome \<Rightarrow> websites_page \<Rightarrow> websites_page \<times> request list" where
  "handleEditWebsite_finish c reply s =
     (case reply of
        Inr _ \<Rightarrow> (s\<lparr>isEditModalOpen := False, editingWebsite := None\<rparr>, reload_requests c)
      | Inl e \<Rightarrow> (s\<lparr>editError := errorMessage e ''Unable to update website'', updatingWebsite := False\<rparr>, []))"

definition handleEditWebsite_end :: "websites_page \<Rightarrow> websites_page" where
  "handleEditWebsite_end s = (toast ''Website configuration updated'' s)\<lparr>updatingWebsite := False\<rparr>"

definition ask_delete :: "string \<Rightarrow> string \<Rightarrow> websites_page \<Rightarrow> websites_page" where
  "ask_delete i n s = (if isViewer s then s else s\<lparr>pendingDeleteWebsite := Some (i, n)\<rparr>)"

definition confirmDeleteWebsite_begin :: "websites_page \<Rightarrow> websites_page \<times> request option" where
  "confirmDeleteWebsite_begin s =
     (case pendingDeleteWebsite s of
        None \<Rightarrow> (s, None)
      | Some (i, n) \<Rightarrow> (s\<lparr>deletingWebsite := True\<rparr>, Some (request_bare ''DELETE'' (''/websites/'' @ i))))"

definition confirmDeleteWebsite_finish ::
  "websites_page \<Rightarrow> string \<Rightarrow> unit outcome \<Rightarrow> websites_page \<Rightarrow> websites_page \<times> request list" where
  "confirmDeleteWebsite_finish c n reply s =
     (case reply of
        Inr _ \<Rightarrow> ((toast (''Website '' @ n @ '' removed'') s)\<lparr>pendingDeleteWebsite := None\<rparr>, reload_requests c)
      | Inl e \<Rightarrow> ((toast (errorMessage e ''Failed to delete website'') s)\<lparr>deletingWebsite := False\<rparr>, []))"

definition confirmDeleteWebsite_end :: "websites_page \<Rightarrow> websites_page" where
  "confirmDeleteWebsite_end s = s\<lparr>deletingWebsite := False\<rparr>"

section \<open>Durations and percentages\<close>

definition whole :: "rat \<Rightarrow> rat \<Rightarrow> rat \<Rightarrow> nat" where
  \<comment> \<open>\<open>Math.floor((x % m) / d)\<close> of \<open>x \<ge> 0\<close>\<close>
  "whole x m d = nat \<lfloor>(x - m * of_int \<lfloor>x / m\<rfloor>) / d\<rfloor>"

definition formatOutageDuration :: "rat \<Rightarrow> string" where
  "formatOutageDuration seconds =
     (let hrs = nat \<lfloor>seconds / 3600\<rfloor>; mins = whole seconds 3600 60
      in if seconds \<le> 0 then ''0 mins''
         else if hrs > 0 \<and> mins > 0 then show_nat hrs @ '' hrs '' @ show_nat mins @ '' mins''
         else if hrs > 0 then show_nat hrs @ (if hrs = 1 then '' hr'' else '' hrs'')
         else if mins > 0 then show_nat mins @ '' mins''
         else ''< 1 min'')"

definition formatUptimeSeconds :: "rat \<Rightarrow> string" where
  "formatUptimeSeconds seconds =
     (let d = nat \<lfloor>seconds / 86400\<rfloor>; h = whole seconds 86400 3600; m = whole seconds 3600 60
      in if seconds \<le> 0 then [CHR 0xE2, CHR 0x80, CHR 0x94]
         else if d > 0 then show_nat d @ ''d '' @ show_nat h @ ''h '' @ show_nat m @ ''m''
         else if h > 0 then show_nat h @ ''h '' @ show_nat m @ ''m''
         else show_nat m @ ''m'')"

definition formatDowntime ::
  "(string \<Rightarrow> rat option) \<Rightarrow> string option \<Rightarrow> websites_page \<Rightarrow> string option" where
  \<comment> \<open>a timestamp that is no date gives \<open>NaN\<close> everywhere\<close>
  "formatDowntime date_ms startedAt s =
     (if \<not> truthy startedAt \<or> currentTimestamp s = 0 then None
      else case date_ms (the startedAt) of
             None \<Rightarrow> Some ''down NaNh NaNm''
           | Some t \<Rightarrow>
               (let diffMs = currentTimestamp s - t; mins = nat \<lfloor>diffMs / 60000\<rfloor>
                in if diffMs < 0 then None
                   else if mins < 1 then Some ''down < 1m''
                   else if mins < 60 then Some (''down '' @ show_nat mins @ ''m'')
                   else Some (''down '' @ show_nat (mins div 60) @ ''h '' @ show_nat (mins mod 60) @ ''m'')))"

definition formatDowntimeDuration :: "rat option \<Rightarrow> string" where
  "formatDowntimeDuration secs =
     (case secs of
        None \<Rightarrow> ''0m downtime''
      | Some x \<Rightarrow>
          (let d = nat \<lfloor>x / 86400\<rfloor>; h = whole x 86400 3600; m = whole x 3600 60
           in if x \<le> 0 then ''0m downtime''
              else if d > 0 then show_nat d @ ''d '' @ show_nat h @ ''h downtime''
              else if h > 0 then show_nat h @ ''h '' @ show_nat m @ ''m downtime''
              else if m > 0 then show_nat m @ ''m downtime''
              else ''< 1m downtime''))"

definition formatPercent :: "rat option \<Rightarrow> string" where
  \<comment> \<open>of a number\<close>
  "formatPercent val =
     (case val of
        None \<Rightarrow> ''0%''
      | Some x \<Rightarrow> if of_int \<lfloor>x\<rfloor> = x then show_int (js_round x) @ ''%'' else show_rat (fixed 1 x) @ ''%'')"

section \<open>The figures of the cards\<close>

definition is_up :: "website \<Rightarrow> bool" where
  "is_up w \<longleftrightarrow>
     (case ws_status w of
        None \<Rightarrow> False
      | Some t \<Rightarrow> to_upper t = ''UP'' \<or> to_lower t = ''online'')"

definition is_online :: "host \<Rightarrow> bool" where
  "is_online h \<longleftrightarrow> map_option to_lower (ho_status h) = Some ''online''"

definition upWebsites :: "websites_page \<Rightarrow> website list" where
  "upWebsites s = filter is_up (websites s)"

definition downWebsites :: "websites_page \<Rightarrow> website list" where
  "downWebsites s = filter (\<lambda>w. \<not> is_up w) (websites s)"

definition onlineServers :: "websites_page \<Rightarrow> host list" where
  "onlineServers s = filter is_online (servers s)"

definition offlineServers :: "websites_page \<Rightarrow> host list" where
  "offlineServers s = filter (\<lambda>h. \<not> is_online h) (servers s)"

definition availability :: "host \<Rightarrow> rat" where
  "availability h =
     (case ho_availability_30d h of Some a \<Rightarrow> a | None \<Rightarrow> if is_online h then 100 else 0)"

definition avgServerAvailability :: "websites_page \<Rightarrow> rat" where
  "avgServerAvailability s =
     (if servers s \<noteq> [] then sum_list (map availability (servers s)) / of_nat (length (servers s)) else 100)"

definition overallAvailabilityRaw :: "websites_page \<Rightarrow> rat" where
  "overallAvailabilityRaw s =
     (let monitored = of_nat (length (websites s) + length (servers s))
      in if monitored > 0
         then (of_nat (length (upWebsites s)) * 100 + avgServerAvailability s * of_nat (length (servers s))) /
              (monitored * 100) * 100
         else 100)"

definition overallAvailability :: "websites_page \<Rightarrow> string" where
  "overallAvailability s = formatPercent (Some (overallAvailabilityRaw s))"

definition expiringSslCount :: "websites_page \<Rightarrow> nat" where
  "expiringSslCount s =
     length (filter (\<lambda>w. (case ws_ssl_days_remaining w of Some d \<Rightarrow> d | None \<Rightarrow> 999) \<le> 14) (websites s))"

section \<open>The bars\<close>

definition assumed_day :: "rat \<Rightarrow> website \<Rightarrow> nat \<Rightarrow> day_bar" where
  "assumed_day now w i =
     \<lparr>db_date = iso_day (day_of_ms now - (89 - int i)), db_status = Operational, db_uptime_pct = 100,
      db_downtime_seconds = 0,
      db_avg_latency_ms = (case ws_response_time_ms w of Some q \<Rightarrow> if q = 0 then 45 else q | None \<Rightarrow> 45),
      db_incident_title = None\<rparr>"

definition displayItems :: "rat \<Rightarrow> websites_page \<Rightarrow> summary_item list" where
  "displayItems now s =
     (let assumed = map (\<lambda>w. \<lparr>si_id = ws_id w, si_name = ws_name w, si_url = Some (ws_url w),
                     si_current_status = opt_or (ws_status w) ''UP'', si_overall_uptime_pct = 100,
                     si_days = map (assumed_day now w) [0..<90]\<rparr>) (websites s)
      in case uptimeSummary s of
           Some u \<Rightarrow> if us_items u \<noteq> [] then us_items u else assumed
         | None \<Rightarrow> assumed)"

record server_bar =
  sb_date :: string
  sb_status :: day_status
  sb_downtime_seconds :: rat

definition host_uptime :: "(string \<Rightarrow> json option) \<Rightarrow> host \<Rightarrow> rat" where
  \<comment> \<open>a numeric field\<close>
  "host_uptime json_parse h =
     (let v = json_or (chain (chain (parseJSON json_parse (ho_snapshot h)) ''system_info'') ''uptime'')
                (json_or (chain (parseJSON json_parse (ho_os_info h)) ''uptime'') (Some (JNum 0)))
      in case js_number v of Fin q \<Rightarrow> q | _ \<Rightarrow> 0)"

definition base_date :: "rat \<Rightarrow> websites_page \<Rightarrow> rat option" where
  "base_date now s =
     (if selectedEndDate s \<noteq> [] then map_option ms_of_day (parse_day (selectedEndDate s)) else Some now)"

definition server_bar_of ::
  "bool \<Rightarrow> rat \<Rightarrow> rat \<Rightarrow> rat \<Rightarrow> rat option \<Rightarrow> rat \<Rightarrow> nat \<Rightarrow> server_bar" where
  \<comment> \<open>\<open>created\<close> is \<open>None\<close> where the creation time is no date\<close>
  "server_bar_of isOnline avail downtimeSecs uptimeStart created baseDate i =
     (let d = baseDate - (89 - of_nat i) * MS_PER_DAY; dayEnd = d + 86400000;
          (st, down) =
            (if (case created of Some t \<Rightarrow> t > dayEnd | None \<Rightarrow> False) then (NoData, 0)
             else if \<not> isOnline \<and> i = 89 then (Outage, if downtimeSecs > 0 then downtimeSecs else 86400)
             else if isOnline \<and> (dayEnd \<ge> uptimeStart \<or> i \<ge> 80) then (Operational, 0)
             else if avail < 95 then (Outage, 3600)
             else if avail < 99 then (Degraded, 600)
             else (Operational, 0))
      in \<lparr>sb_date = iso_day (day_of_ms d), sb_status = st, sb_downtime_seconds = down\<rparr>)"

definition serverBars ::
  "(string \<Rightarrow> rat option) \<Rightarrow> (string \<Rightarrow> json option) \<Rightarrow> rat \<Rightarrow> websites_page \<Rightarrow> host \<Rightarrow> server_bar list option" where
  \<comment> \<open>\<open>None\<close>: an invalid end date makes \<open>toISOString\<close> throw\<close>
  "serverBars date_ms json_parse now s h =
     map_option
       (\<lambda>baseDate.
          let created = (if ho_created_at h \<noteq> [] then date_ms (ho_created_at h) else Some 0);
              reference = (if currentTimestamp s \<noteq> 0 then currentTimestamp s else baseDate);
              uptimeStart = reference - host_uptime json_parse h * 1000;
              downtimeSecs = (case ho_downtime_seconds_30d h of Some q \<Rightarrow> q | None \<Rightarrow> 0)
          in map (server_bar_of (is_online h) (availability h) downtimeSecs uptimeStart created baseDate) [0..<90])
       (base_date now s)"

end
