(* ===== verification/WebsitesProps.thy ===== *)
theory WebsitesProps
  imports Websites
begin

text \<open>
  Properties of the uptime page: the navigation of the 90-day window, the range of the overall
  availability, and where the bars of the two tabs come from.
\<close>

section \<open>Figures\<close>

lemma avg_availability_bounds:
  assumes "list_all (\<lambda>h. 0 \<le> availability h \<and> availability h \<le> 100) (servers s)"
  shows "0 \<le> avgServerAvailability s \<and> avgServerAvailability s \<le> 100"
proof (cases "servers s = []")
  case True
  then show ?thesis by (simp add: avgServerAvailability_def)
next
  case False
  let ?xs = "map availability (servers s)"
  have "of_nat (length ?xs) * 0 \<le> sum_list ?xs \<and> sum_list ?xs \<le> of_nat (length ?xs) * 100"
    by (rule sum_list_bounds) (use assms in \<open>auto simp: list_all_iff\<close>)
  with False show ?thesis
    by (simp add: avgServerAvailability_def divide_le_eq)
qed

text \<open>The availability of the overview is a percentage whenever those of the servers are.\<close>

lemma overall_availability_bounds:
  assumes "list_all (\<lambda>h. 0 \<le> availability h \<and> availability h \<le> 100) (servers s)"
  shows "0 \<le> overallAvailabilityRaw s \<and> overallAvailabilityRaw s \<le> 100"
proof (cases "length (websites s) + length (servers s) = 0")
  case True
  then show ?thesis by (simp add: overallAvailabilityRaw_def)
next
  case False
  define w u n a :: rat where "w = of_nat (length (websites s))" and "u = of_nat (length (upWebsites s))"
    and "n = of_nat (length (servers s))" and "a = avgServerAvailability s"
  have a: "0 \<le> a" "a \<le> 100" using avg_availability_bounds [OF assms] by (simp_all add: a_def)
  have u: "0 \<le> u" "u \<le> w" by (simp_all add: u_def w_def upWebsites_def length_filter_le)
  have "w + n = of_nat (length (websites s) + length (servers s))" by (simp add: n_def w_def)
  with False have n: "0 \<le> n" "0 < w + n" by (simp_all add: n_def del: of_nat_add)
  have "0 \<le> a * n" "a * n \<le> 100 * n" using a n(1) by (simp_all add: mult_right_mono)
  then have "0 \<le> u * 100 + a * n" "u * 100 + a * n \<le> (w + n) * 100" using u by simp_all
  moreover have "overallAvailabilityRaw s =
      (if 0 < w + n then (u * 100 + a * n) / ((w + n) * 100) * 100 else 100)"
    unfolding overallAvailabilityRaw_def Let_def w_def u_def n_def a_def of_nat_add ..
  ultimately show ?thesis using n(2) by (simp add: divide_le_eq mult.commute)
qed

section \<open>Properties\<close>

lemma iso_day_nonempty: "four_digit_year d \<Longrightarrow> iso_day d \<noteq> []"
  using parse_iso_day(2) by fastforce

text \<open>
  The arrows of the window undo each other: from a window that ends on a day, the left arrow
  asks for the window that ends 30 days before, and the right arrow then asks for the window of
  the first day again, or for the current one when that day is not in the past; a second click
  on the left arrow before its answer has come asks for the same window once more.
\<close>

theorem window_navigation_roundtrip:
  fixes s :: websites_page and e today :: int
  assumes "Option.bind (uptimeSummary s) us_end_date = Some (iso_day e)"
    and "four_digit_year e" and "four_digit_year (e - 30)"
  defines "back \<equiv> (if str_ge (iso_day e) (iso_day today) then [] else iso_day e)"
  shows "\<exists>s1 s2. handlePreviousDateRange today s = Some (s1, summary_request (iso_day (e - 30))) \<and>
           selectedEndDate s1 = iso_day (e - 30) \<and>
           handlePreviousDateRange today s1 = Some (s1, summary_request (iso_day (e - 30))) \<and>
           handleNextDateRange today s1 = Some (s2, Some (summary_request back)) \<and>
           selectedEndDate s2 = back"
proof -
  define s1 where "s1 = fst (show_window (iso_day (e - 30)) s)"
  have prev: "handlePreviousDateRange today t = Some (show_window (iso_day (e - 30)) t)"
    if "uptimeSummary t = uptimeSummary s" for t
    using assms(1,2) that
    by (simp add: handlePreviousDateRange_def Let_def parse_iso_day iso_day_nonempty)
  have s1: "show_window (iso_day (e - 30)) s = (s1, summary_request (iso_day (e - 30)))"
    "show_window (iso_day (e - 30)) s1 = (s1, summary_request (iso_day (e - 30)))"
    "selectedEndDate s1 = iso_day (e - 30)" "uptimeSummary s1 = uptimeSummary s"
    by (simp_all add: s1_def show_window_def fetchUptimeSummary_begin_def)
  have next_s1: "handleNextDateRange today s1 =
      Some (fst (show_window back s1), Some (summary_request back))"
    using assms(3) iso_day_nonempty [OF assms(3)]
    by (simp add: handleNextDateRange_def s1(3) parse_iso_day(1) back_def show_window_def
        fetchUptimeSummary_begin_def)
  moreover have "selectedEndDate (fst (show_window back s1)) = back"
    by (simp add: show_window_def fetchUptimeSummary_begin_def)
  ultimately show ?thesis
    using prev [of s] prev [of s1] s1 by auto
qed

definition demo_window :: websites_page where
  "demo_window = (init_websites ''admin'')
     \<lparr>uptimeSummary := Some \<lparr>us_start_date = None, us_end_date = Some (iso_day 20500), us_items = []\<rparr>\<rparr>"

theorem window_navigation_roundtrip_witness:
  "\<exists>s1 s2. handlePreviousDateRange 20500 demo_window = Some (s1, summary_request (iso_day 20470)) \<and>
     handleNextDateRange 20500 s1 = Some (s2, Some (summary_request []))"
proof -
  have "Option.bind (uptimeSummary demo_window) us_end_date = Some (iso_day 20500)"
    by (simp add: demo_window_def)
  moreover have "four_digit_year 20500" "four_digit_year (20500 - 30)"
    by (simp_all add: four_digit_range)
  moreover have "str_ge (iso_day 20500) (iso_day 20500)"
    by (simp add: str_ge_def lexord_irreflexive)
  ultimately show ?thesis
    using window_navigation_roundtrip [of demo_window 20500 20500] by auto
qed

text \<open>
  The bars of a server are not a record of its past. For an offline server that was
  enrolled before the window, 89 of the 90 days have one and the same status, chosen by its
  availability over the last 30 days, and the last one is an outage, whichever window is
  selected: below 95 percent the whole window is drawn as an outage, and a window that ended
  months ago shows an outage on its last day because the server is offline now.
\<close>

theorem server_bars_invented:
  assumes "\<not> is_online h" and "base_date now s = Some b"
    and "ho_created_at h \<noteq> []" and "date_ms (ho_created_at h) = Some created"
    and "created \<le> b - 88 * MS_PER_DAY"
  shows "\<exists>bars. serverBars date_ms json_parse now s h = Some bars \<and>
           map sb_status bars =
             replicate 89 (if availability h < 95 then Outage
                           else if availability h < 99 then Degraded else Operational) @ [Outage]"
proof -
  let ?c = "if availability h < 95 then Outage
            else if availability h < 99 then Degraded else Operational"
  define bar where "bar = (\<lambda>up dn. server_bar_of (is_online h) (availability h) dn up (Some created) b)"
  have enrolled: "created \<le> b - (89 - of_nat i) * MS_PER_DAY + 86400000" for i
    using assms(5) by (simp add: MS_PER_DAY_def algebra_simps)
  have early: "sb_status (bar up dn i) = ?c" if "i < 89" for i up dn
    using that assms(1) enrolled [of i]
    by (simp add: bar_def server_bar_of_def Let_def not_less [symmetric])
  have final: "sb_status (bar up dn 89) = Outage" for up dn
    using assms(1) enrolled [of 89] by (simp add: bar_def server_bar_of_def Let_def)
  have days: "[0..<90] = [0..<89] @ [89]" by (simp add: upt_rec)
  have "map (\<lambda>i. sb_status (bar up dn i)) [0..<90] = map (\<lambda>i. ?c) [0..<89] @ [Outage]" for up dn
    unfolding days map_append using early final by simp
  then have "map (\<lambda>i. sb_status (bar up dn i)) [0..<90] = replicate 89 ?c @ [Outage]" for up dn
    by (simp only: map_replicate_const length_upt diff_zero)
  then show ?thesis
    using assms(2,3,4) by (simp add: serverBars_def bar_def comp_def Let_def)
qed

definition demo_host :: host where
  "demo_host = \<lparr>ho_id = ''h'', ho_name = ''web'', ho_status = Some ''offline'', ho_ip_address = None,
     ho_created_at = ''2020-01-01'', ho_availability_30d = Some 90,
     ho_downtime_seconds_30d = None, ho_snapshot = None, ho_os_info = None\<rparr>"

theorem server_bars_invented_witness:
  "\<exists>bars. serverBars (\<lambda>x. Some 0) (\<lambda>x. None) 10000000000 (init_websites ''admin'') demo_host = Some bars \<and>
     map sb_status bars = replicate 90 Outage"
proof -
  have "\<not> is_online demo_host" by code_simp
  moreover have "base_date 10000000000 (init_websites ''admin'') = Some 10000000000"
    by (simp add: base_date_def init_websites_def)
  moreover have "availability demo_host < 95" by (simp add: availability_def demo_host_def)
  moreover have "ho_created_at demo_host \<noteq> []" by (simp add: demo_host_def)
  moreover have "replicate 90 Outage = replicate 89 Outage @ [Outage]"
    by (simp add: replicate_append_same flip: replicate_Suc)
  ultimately show ?thesis
    using server_bars_invented [of demo_host 10000000000 "init_websites ''admin''" 10000000000
        "\<lambda>x. Some 0" 0 "\<lambda>x. None"]
    by (simp add: MS_PER_DAY_def)
qed

end
