(* ===== verification/Layout.thy ===== *)
theory Layout
  imports JsNumber
begin

text \<open>
  The frame around every page of the dashboard (\<open>dashboard/layout.tsx\<close>): the fleet summary
  with its poll, the bell with its notifications, counter and synchronisation event, the role
  and the update badge.  \<open>now\<close> stands for \<open>new Date().toISOString()\<close>.
\<close>

section \<open>State\<close>

record notification =
  no_id :: string
  no_kind :: string
  no_severity :: string
  no_title :: string
  no_message :: string
  no_server_name :: "string option"
  no_read_at :: "string option"
  no_created_at :: string

record notification_response =
  nr_items :: "notification list option"
  nr_unread_count :: "json option"

record update_check =
  uc_current_version :: "string option"
  uc_latest_version :: "string option"
  uc_latest_agent_version :: "string option"
  uc_update_available :: bool
  uc_agent_update_available :: bool

record fleet_summary =
  total_servers :: int
  online_servers :: int
  open_incidents :: int

record layout =
  role :: string
  userEmail :: string
  workspaceEdition :: string
  systemVersion :: string
  fleetSummary :: "fleet_summary option"
  fleetSyncFailed :: bool
  requestInFlight :: bool
  layoutActive :: bool
    \<comment> \<open>the closure variable \<open>active\<close> of the fleet effect\<close>
  notificationsOpen :: bool
  notifications :: "notification list"
  unreadNotificationCount :: jsnum
  notificationsLoading :: bool
  notificationError :: string
  updateCheck :: "update_check option"

definition init_layout :: "string \<Rightarrow> layout" where
  "init_layout version =
     \<lparr>role = ''user'', userEmail = [], workspaceEdition = ''community'', systemVersion = version,
      fleetSummary = None, fleetSyncFailed = False, requestInFlight = False, layoutActive = True,
      notificationsOpen = False, notifications = [], unreadNotificationCount = Fin 0,
      notificationsLoading = True, notificationError = [], updateCheck = None\<rparr>"

definition isUserAdmin :: "layout \<Rightarrow> bool" where
  "isUserAdmin s \<longleftrightarrow> role s \<in> set [''admin'', ''superadmin'', ''owner'']"

section \<open>Session and system information\<close>

record system_answer =
  sa_edition :: "json option"
  sa_control_plane_version :: "string option"
  sa_version :: "string option"
  sa_update_check :: "update_check option"

definition system_info_finish :: "system_answer option outcome \<Rightarrow> layout \<Rightarrow> layout" where
  "system_info_finish reply s =
     (case reply of
        Inr (Some info) \<Rightarrow>
          (let ver = (if truthy (sa_control_plane_version info) then sa_control_plane_version info
                      else sa_version info)
           in s\<lparr>workspaceEdition := (case sa_edition info of Some (JStr e) \<Rightarrow> e | _ \<Rightarrow> workspaceEdition s),
                systemVersion := (if truthy ver \<and> ver \<noteq> Some ''dev'' then the ver else systemVersion s),
                updateCheck := (if sa_update_check info = None then updateCheck s else sa_update_check info)\<rparr>)
      | _ \<Rightarrow> s)"

record me_answer =
  me_role :: "string option"
  me_username :: "string option"
  me_email :: "string option"

definition auth_me_finish :: "me_answer option outcome \<Rightarrow> layout \<Rightarrow> layout" where
  "auth_me_finish reply s =
     (case reply of
        Inr (Some user) \<Rightarrow>
          s\<lparr>role := opt_or (me_role user) (role s),
            userEmail := opt_or (me_username user) (opt_or (me_email user) (userEmail s))\<rparr>
      | _ \<Rightarrow> s)"

section \<open>The fleet summary\<close>

definition fetchFleetSummary_begin :: "layout \<Rightarrow> layout \<times> request option" where
  "fetchFleetSummary_begin s =
     (if requestInFlight s then (s, None)
      else (s\<lparr>requestInFlight := True\<rparr>, Some (request_get ''/dashboard/overview?range=1h'')))"

definition fetchFleetSummary_finish :: "fleet_summary option outcome \<Rightarrow> layout \<Rightarrow> layout" where
  \<comment> \<open>the answer carries \<open>overview.summary\<close>\<close>
  "fetchFleetSummary_finish reply s =
     (if \<not> layoutActive s then s
      else case reply of
             Inr d \<Rightarrow> s\<lparr>fleetSummary := d, fleetSyncFailed := False\<rparr>
           | Inl e \<Rightarrow> s\<lparr>fleetSyncFailed := True\<rparr>)
     \<lparr>requestInFlight := False\<rparr>"

definition unmount_fleet :: "layout \<Rightarrow> layout" where
  "unmount_fleet s = s\<lparr>layoutActive := False\<rparr>"

definition fleet_text :: "layout \<Rightarrow> string" where
  "fleet_text s =
     (if fleetSyncFailed s then ''Live data unavailable''
      else case fleetSummary s of
             Some f \<Rightarrow> show_int (online_servers f) @ '' / '' @ show_int (total_servers f) @ '' connected''
           | None \<Rightarrow> ''Syncing live status'' @ [CHR 0xE2, CHR 0x80, CHR 0xA6])"

section \<open>Notifications\<close>

definition fetchNotifications_begin :: "bool \<Rightarrow> layout \<Rightarrow> layout \<times> request" where
  "fetchNotifications_begin silent s =
     ((if silent then s else s\<lparr>notificationsLoading := True\<rparr>),
      request_get ''/alerts/notifications?limit=20'')"

definition fetchNotifications_finish ::
  "bool \<Rightarrow> notification_response option outcome \<Rightarrow> layout \<Rightarrow> layout" where
  "fetchNotifications_finish silent reply s =
     (case reply of
        Inr d \<Rightarrow> s\<lparr>notifications := or_empty (Option.bind d nr_items),
                   unreadNotificationCount := num_or (js_number (Option.bind d nr_unread_count)) (Fin 0),
                   notificationError := []\<rparr>
      | Inl e \<Rightarrow> s\<lparr>notificationError := errorMessage e ''Unable to load notifications'',
                   notifications := [], unreadNotificationCount := Fin 0\<rparr>)
     \<lparr>notificationsLoading := (if silent then notificationsLoading s else False)\<rparr>"

definition is_unread :: "notification \<Rightarrow> bool" where
  "is_unread n \<longleftrightarrow> \<not> truthy (no_read_at n)"

definition set_read :: "string \<Rightarrow> notification \<Rightarrow> notification" where
  "set_read now n = n\<lparr>no_read_at := Some now\<rparr>"

definition keep_or_read :: "string \<Rightarrow> notification \<Rightarrow> notification" where
  \<comment> \<open>\<open>{ ...item, read_at: item.read_at || new Date().toISOString() }\<close>\<close>
  "keep_or_read now n = n\<lparr>no_read_at := Some (opt_or (no_read_at n) now)\<rparr>"

interpretation bell_set: entity_merge no_id set_read
  by unfold_locales (simp add: set_read_def)

interpretation bell_sync: entity_merge no_id keep_or_read
  by unfold_locales (simp add: keep_or_read_def)

definition less_one :: "jsnum \<Rightarrow> jsnum" where
  \<comment> \<open>\<open>Math.max(0, current - 1)\<close>\<close>
  "less_one c = (case c of Fin q \<Rightarrow> Fin (max 0 (q - 1)) | NegInf \<Rightarrow> Fin 0 | x \<Rightarrow> x)"

record sync_event =
  ev_unreadCount :: "jsnum option"
  ev_readId :: "string option"
  ev_allRead :: bool

definition handleNotificationSync :: "string \<Rightarrow> sync_event \<Rightarrow> layout \<Rightarrow> layout \<times> request" where
  "handleNotificationSync now e s =
     fetchNotifications_begin True
       (if ev_allRead e
        then s\<lparr>notifications := map (keep_or_read now) (notifications s), unreadNotificationCount := Fin 0\<rparr>
        else if truthy (ev_readId e)
        then s\<lparr>notifications := update_by no_id (the (ev_readId e)) (keep_or_read now) (notifications s),
               unreadNotificationCount :=
                 (case ev_unreadCount e of Some n \<Rightarrow> n | None \<Rightarrow> less_one (unreadNotificationCount s))\<rparr>
        else case ev_unreadCount e of
               Some n \<Rightarrow> s\<lparr>unreadNotificationCount := n\<rparr>
             | None \<Rightarrow> s)"

definition markNotificationRead_begin :: "string \<Rightarrow> layout \<Rightarrow> request option" where
  "markNotificationRead_begin i s =
     (case find_by no_id i (notifications s) of
        Some n \<Rightarrow> if is_unread n then Some (request_bare ''PATCH'' (''/alerts/notifications/'' @ i @ ''/read''))
                  else None
      | None \<Rightarrow> None)"

definition markNotificationRead_finish ::
  "string \<Rightarrow> string \<Rightarrow> unit outcome \<Rightarrow> layout \<Rightarrow> layout \<times> request option" where
  \<comment> \<open>the counter's updater raises the event, whose listener is this frame's own\<close>
  "markNotificationRead_finish now i reply s =
     (case reply of
        Inr _ \<Rightarrow>
          (let nxt = less_one (unreadNotificationCount s);
               s1 = s\<lparr>notifications := update_by no_id i (set_read now) (notifications s),
                       unreadNotificationCount := nxt\<rparr>;
               (s2, r) = handleNotificationSync now
                           \<lparr>ev_unreadCount = Some nxt, ev_readId = Some i, ev_allRead = False\<rparr> s1
           in (s2, Some r))
      | Inl e \<Rightarrow> (s\<lparr>notificationError := errorMessage e ''Unable to mark notification as read''\<rparr>, None))"

definition markAllNotificationsRead_begin :: "layout \<Rightarrow> request option" where
  "markAllNotificationsRead_begin s =
     (if unreadNotificationCount s = Fin 0 then None
      else Some (request_bare ''POST'' ''/alerts/notifications/read-all''))"

definition markAllNotificationsRead_finish ::
  "string \<Rightarrow> unit outcome \<Rightarrow> layout \<Rightarrow> layout \<times> request option" where
  "markAllNotificationsRead_finish now reply s =
     (case reply of
        Inr _ \<Rightarrow>
          (let s1 = s\<lparr>notifications :=
                        map (\<lambda>n. if is_unread n then set_read now n else n) (notifications s),
                       unreadNotificationCount := Fin 0\<rparr>;
               (s2, r) = handleNotificationSync now
                           \<lparr>ev_unreadCount = Some (Fin 0), ev_readId = None, ev_allRead = True\<rparr> s1
           in (s2, Some r))
      | Inl e \<Rightarrow> (s\<lparr>notificationError := errorMessage e ''Unable to mark all notifications as read''\<rparr>, None))"

definition toggle_bell :: "layout \<Rightarrow> layout \<times> request option" where
  \<comment> \<open>opening the menu loads the notifications\<close>
  "toggle_bell s =
     (if notificationsOpen s then (s\<lparr>notificationsOpen := False\<rparr>, None)
      else let (s1, r) = fetchNotifications_begin False (s\<lparr>notificationsOpen := True\<rparr>) in (s1, Some r))"

definition open_notification :: "notification \<Rightarrow> layout \<Rightarrow> layout \<times> request option" where
  \<comment> \<open>a click on the text of a notification\<close>
  "open_notification n s =
     (s\<lparr>notificationsOpen := False\<rparr>,
      if is_unread n then markNotificationRead_begin (no_id n) s else None)"

section \<open>The badge\<close>

definition updateCount :: "layout \<Rightarrow> rat" where
  "updateCount s =
     (if isUserAdmin s
      then (case updateCheck s of
              Some u \<Rightarrow> (if uc_update_available u then 1 else 0) + (if uc_agent_update_available u then 1 else 0)
            | None \<Rightarrow> 0)
      else 0)"

definition totalUnreadBadge :: "layout \<Rightarrow> jsnum" where
  "totalUnreadBadge s =
     (case unreadNotificationCount s of Fin q \<Rightarrow> Fin (q + updateCount s) | x \<Rightarrow> x)"

definition badge_text :: "layout \<Rightarrow> string option" where
  "badge_text s =
     (let b = totalUnreadBadge s
      in if num_lt (Fin 0) b then Some (if num_lt (Fin 99) b then ''99+'' else show_num b) else None)"

definition relative_unit :: "rat \<Rightarrow> int \<times> string" where
  \<comment> \<open>the number and the unit handed to the formatter, of a difference in milliseconds\<close>
  "relative_unit diff =
     (let seconds = js_round (diff / 1000); minutes = js_round (of_int seconds / 60);
          hours = js_round (of_int minutes / 60)
      in if \<bar>seconds\<bar> < 60 then (seconds, ''second'')
         else if \<bar>minutes\<bar> < 60 then (minutes, ''minute'')
         else if \<bar>hours\<bar> < 24 then (hours, ''hour'')
         else (js_round (of_int hours / 24), ''day''))"

definition formatNotificationTime ::
  "(string \<Rightarrow> rat option) \<Rightarrow> (int \<Rightarrow> string \<Rightarrow> string) \<Rightarrow> rat \<Rightarrow> string \<Rightarrow> string" where
  \<comment> \<open>\<open>fmt\<close> is \<open>Intl.RelativeTimeFormat\<close>; \<open>clock\<close> is \<open>Date.now()\<close>\<close>
  "formatNotificationTime date_ms fmt clock v =
     (case date_ms v of
        None \<Rightarrow> []
      | Some t \<Rightarrow> (case relative_unit (t - clock) of (n, u) \<Rightarrow> fmt n u))"

section \<open>Properties\<close>

definition unread_items :: "layout \<Rightarrow> nat" where
  "unread_items s = length (filter is_unread (notifications s))"

lemma keep_or_read_read [simp]: "\<not> is_unread n \<Longrightarrow> keep_or_read now n = n"
  by (cases n) (auto simp: is_unread_def keep_or_read_def truthy_def split: option.splits)

lemma set_read_read [simp]: "now \<noteq> [] \<Longrightarrow> \<not> is_unread (set_read now n)"
  by (simp add: is_unread_def set_read_def)

lemma sync_after_set:
  assumes "now \<noteq> []"
  shows "update_by no_id i (keep_or_read now) (update_by no_id i (set_read now) xs) =
         update_by no_id i (set_read now) xs"
  using assms by (induction xs) (auto simp: set_read_def is_unread_def)

lemma sync_keeps:
  "notifications (fst (handleNotificationSync now \<lparr>ev_unreadCount = Some n, ev_readId = Some i, ev_allRead = False\<rparr> s)) =
     (if i = [] then notifications s else update_by no_id i (keep_or_read now) (notifications s))"
  "unreadNotificationCount (fst (handleNotificationSync now
     \<lparr>ev_unreadCount = Some n, ev_readId = Some i, ev_allRead = False\<rparr> s)) = n"
  by (auto simp: handleNotificationSync_def fetchNotifications_begin_def)

lemma mark_result:
  assumes "now \<noteq> []"
  shows "notifications (fst (markNotificationRead_finish now i (Inr ()) s)) =
           update_by no_id i (set_read now) (notifications s)"
    and "unreadNotificationCount (fst (markNotificationRead_finish now i (Inr ()) s)) =
           less_one (unreadNotificationCount s)"
    and "snd (markNotificationRead_finish now i (Inr ()) s) =
           Some (request_get ''/alerts/notifications?limit=20'')"
  using assms
  by (simp_all add: markNotificationRead_finish_def sync_keeps sync_after_set Let_def split: prod.split)
    (auto simp: handleNotificationSync_def fetchNotifications_begin_def sync_after_set)

lemma mark_all_result:
  assumes "now \<noteq> []"
  shows "list_all (\<lambda>n. \<not> is_unread n) (notifications (fst (markAllNotificationsRead_finish now (Inr ()) s)))"
    and "unreadNotificationCount (fst (markAllNotificationsRead_finish now (Inr ()) s)) = Fin 0"
  using assms
  by (auto simp: markAllNotificationsRead_finish_def handleNotificationSync_def
      fetchNotifications_begin_def list_all_iff)

text \<open>
  C35. The bell counts right: marking an unread notification lowers its counter and the number of
  unread entries by exactly one, whatever the event it raises to itself does, leaves the list
  otherwise as it is, asks for the list again, and marking it once more sends nothing; marking
  all leaves no entry unread and the counter at zero.
\<close>

theorem bell_counts_right:
  assumes "now \<noteq> []" and "distinct (map no_id (notifications s))"
    and "find_by no_id i (notifications s) = Some n" and "is_unread n"
    and "unreadNotificationCount s = Fin c" and "1 \<le> c"
  defines "t \<equiv> fst (markNotificationRead_finish now i (Inr ()) s)"
    and "u \<equiv> fst (markAllNotificationsRead_finish now (Inr ()) s)"
  shows "markNotificationRead_begin i s \<noteq> None \<and>
         unreadNotificationCount t = Fin (c - 1) \<and> unread_items t = unread_items s - 1 \<and>
         map no_id (notifications t) = map no_id (notifications s) \<and>
         snd (markNotificationRead_finish now i (Inr ()) s) =
           Some (request_get ''/alerts/notifications?limit=20'') \<and>
         markNotificationRead_begin i t = None \<and>
         unread_items u = 0 \<and> unreadNotificationCount u = Fin 0"
proof -
  have t: "notifications t = update_by no_id i (set_read now) (notifications s)"
    unfolding t_def by (rule mark_result(1) [OF assms(1)])
  have "unread_items t = unread_items s - 1"
    using bell_set.count_merged [OF assms(2), of is_unread now i] assms(1,3,4)
    by (simp add: unread_items_def t)
  moreover have "find_by no_id i (notifications t) = Some (set_read now n)"
    by (simp add: t bell_set.find_update assms(3))
  then have "markNotificationRead_begin i t = None"
    using assms(1) by (simp add: markNotificationRead_begin_def)
  moreover have "unreadNotificationCount t = Fin (c - 1)"
    using assms(5,6) by (simp add: t_def mark_result(2) [OF assms(1)] less_one_def)
  moreover have "map no_id (notifications t) = map no_id (notifications s)"
    unfolding t by (rule bell_set.map_ident_update)
  moreover have "unread_items u = 0"
    using mark_all_result(1) [OF assms(1), of s]
    by (simp add: unread_items_def u_def list_all_iff filter_empty_conv)
  ultimately show ?thesis
    using assms(3,4) mark_all_result(2) [OF assms(1), of s] mark_result(3) [OF assms(1)]
    by (simp add: markNotificationRead_begin_def u_def)
qed

definition demo_note :: "string \<Rightarrow> notification" where
  "demo_note i =
     \<lparr>no_id = i, no_kind = ''alert_firing'', no_severity = ''critical'', no_title = ''t'', no_message = ''m'',
      no_server_name = None, no_read_at = None, no_created_at = ''2026-01-01''\<rparr>"

definition demo_bell :: layout where
  "demo_bell = (init_layout ''1.8.46'')
     \<lparr>notifications := [demo_note ''a'', demo_note ''b''], unreadNotificationCount := Fin 2\<rparr>"

theorem bell_counts_right_witness:
  "unread_items (fst (markNotificationRead_finish ''now'' ''b'' (Inr ()) demo_bell)) = 1 \<and>
   unreadNotificationCount (fst (markNotificationRead_finish ''now'' ''b'' (Inr ()) demo_bell)) = Fin 1"
proof -
  have facts: "notifications demo_bell = [demo_note ''a'', demo_note ''b'']"
    "unreadNotificationCount demo_bell = Fin 2" "unread_items demo_bell = 2"
    by (simp_all add: demo_bell_def unread_items_def is_unread_def demo_note_def)
  have "unread_items (fst (markNotificationRead_finish ''now'' ''b'' (Inr ()) demo_bell)) = 2 - 1 \<and>
        unreadNotificationCount (fst (markNotificationRead_finish ''now'' ''b'' (Inr ()) demo_bell)) = Fin (2 - 1)"
    using bell_counts_right [of "''now''" demo_bell "''b''" "demo_note ''b''" 2]
    by (simp add: facts) (simp add: demo_note_def is_unread_def)
  then show ?thesis by simp
qed

end
