(* ===== verification/ServerTypes.thy ===== *)
theory ServerTypes
  imports AgentTasks
begin

text \<open>
  What the control plane answers to the page of one server
  (\<open>dashboard/servers/[id]/page.tsx\<close>): the server, the snapshot and inventory of its agent, and
  the network diagnosis.  Counters are natural numbers, measurements rationals; an optional
  property is an option.
\<close>

section \<open>What the agent reports\<close>

record top_process =
  tp_pid :: int
  tp_name :: string
  tp_cpu :: rat
  tp_ram :: rat
  tp_user :: string

record service_status =
  ss_name :: string
  ss_display_name :: "string option"
  ss_status :: string
  ss_sub_status :: "string option"
  ss_startup_type :: "string option"
  ss_source :: "string option"
  ss_description :: "string option"
  ss_last_checked_at :: "string option"

record host_info =
  hi_kernel :: string
  hi_uptime :: nat
  hi_public_ip :: string
  hi_virtualization :: string

record docker_container =
  dc_id :: string
  dc_name :: string
  dc_image :: string
  dc_state :: string
  dc_status :: string
  dc_cpu :: string
  dc_ram :: string

record inventory_disk =
  id_device :: string
  id_mountpoint :: string
  id_file_system :: string
  id_total_bytes :: nat

record inventory =
  in_os_family :: "string option"
  in_hostname :: string
  in_architecture :: string
  in_platform :: string
  in_platform_version :: string
  in_kernel_version :: string
  in_cpu_model :: string
  in_logical_cores :: nat
  in_physical_cores :: nat
  in_memory_total :: nat
  in_boot_time :: nat
  in_agent_version :: string
  in_private_ips :: "string list"
  in_disks :: "inventory_disk list"
  in_collected_at :: string

record net_interface =
  ni_name :: string
  ni_is_physical :: bool
  ni_is_default :: bool
    \<comment> \<open>read by the network tab, which asserts it\<close>
  ni_is_up :: bool
  ni_ip_addresses :: "string list option"
  ni_mac_address :: string
  ni_bytes_sent :: nat
  ni_bytes_recv :: nat
  ni_packets_sent :: nat
  ni_packets_recv :: nat
  ni_errors_in :: nat
  ni_errors_out :: nat
  ni_drop_in :: nat
  ni_drop_out :: nat
  ni_delta_errors_in :: nat
  ni_delta_errors_out :: nat
  ni_delta_drop_in :: nat
  ni_delta_drop_out :: nat
  ni_error_rate :: rat
  ni_drop_rate :: rat

record net_sample =
  ns_timestamp :: nat
  ns_rx_bytes_per_sec :: rat
  ns_tx_bytes_per_sec :: rat
  ns_delta_drops :: nat
  ns_delta_errors :: nat
  ns_gateway_loss :: rat
  ns_gateway_latency_ms :: rat

record net_diagnostics =
  nd_status :: string
  nd_primary_uplink :: string
  nd_default_gateway :: string
  nd_gateway_reachable :: bool
  nd_gateway_packet_loss :: rat
  nd_gateway_latency_ms :: rat
  nd_dns_resolvable :: bool
  nd_dns_latency_ms :: rat
  nd_internet_connected :: bool
  nd_transient_errors :: bool
  nd_persistent_errors :: bool
  nd_diagnosis :: string
  nd_recent_samples :: "net_sample list option"
  nd_interfaces :: "net_interface list option"

record snapshot =
  sn_os_family :: "string option"
  sn_system_info :: "host_info option"
  sn_inventory :: "inventory option"
  sn_top_processes :: "top_process list option"
  sn_services :: "service_status list option"
  sn_docker_containers :: "docker_container list option"
  sn_package_update :: "nat option"
  sn_network_diagnostics :: "net_diagnostics option"
  sn_network_interfaces :: "net_interface list option"

record server_details =
  sd_id :: string
  sd_name :: string
  sd_status :: string
  sd_ip_address :: string
  sd_latest_agent_version :: "string option"
  sd_update_available :: bool
  sd_auto_update_agent :: bool
  sd_active_task :: "update_task option"
  sd_os_info :: "json option"
  sd_snapshot :: "string option"
  sd_inventory :: "string option"
  sd_inventory_updated_at :: "string option"
  sd_provider :: "string option"
  sd_region :: "string option"
  sd_environment :: "string option"

section \<open>What a network diagnosis reports\<close>

record target_probe =
  np_id :: string
  np_target_id :: "string option"
  np_name :: string
  np_tag :: string
  np_host :: string
  np_port :: nat
  np_location :: "string option"
  np_is_gateway :: bool
  np_probe_method :: string
  np_probe_status :: string
  np_total_probes :: nat
  np_successful_probes :: nat
  np_failed_probes :: nat
  np_packet_loss :: "rat option"
  np_latency_ms :: rat
  np_min_latency_ms :: rat
  np_max_latency_ms :: rat
  np_status :: string
  np_error_message :: "string option"

record pillar =
  pi_status :: string
  pi_latency_ms :: rat
  pi_packet_loss :: "rat option"
  pi_total_probes :: nat
  pi_successful_probes :: nat
  pi_failed_probes :: nat
  pi_measurement_method :: string
  pi_summary :: string

record alert_evaluation =
  ae_is_triggered :: bool
  ae_severity :: string
  ae_reasons :: "string list"
  ae_suggested_action :: "string option"

record diagnostic_report =
  dr_server_id :: string
  dr_server_name :: string
  dr_timestamp :: string
  dr_sample_size :: nat
  dr_gateway :: "pillar option"
  dr_groups :: "(string \<times> pillar) list option"
  dr_group_order :: "string list option"
  dr_probes :: "target_probe list option"
  dr_alert_evaluation :: alert_evaluation
  dr_telemetry_gateway :: "string option"
    \<comment> \<open>\<open>server_telemetry?.default_gateway\<close>, all the page reads of it\<close>

end
