(* ===== verification/ServerDetail.thy ===== *)
theory ServerDetail
  imports ServerTypes
begin

text \<open>
  The page of one server (\<open>dashboard/servers/[id]/page.tsx\<close>): its state, loading, the poll of an
  agent update, container and service actions, and the history of a network probe.  What the
  page derives from this state is in \<open>ServerView\<close>.  \<open>parse_snapshot\<close> and \<open>parse_inventory\<close>
  stand for \<open>JSON.parse\<close> with the type the page asserts (\<open>Inl\<close> where it throws, \<open>None\<close> for the
  text \<open>null\<close>), \<open>stringify\<close> for \<open>JSON.stringify\<close>, \<open>encode\<close> for \<open>encodeURIComponent\<close>,
  \<open>to_iso\<close> for \<open>toISOString\<close> of a time in milliseconds.  Toasts are kept latest first.
\<close>

section \<open>State\<close>

datatype history_range = H6h | H24h | H7d

datatype service_action = Start | Stop | Restart | Reload

fun action_name :: "service_action \<Rightarrow> string" where
  "action_name Start = ''start''"
| "action_name Stop = ''stop''"
| "action_name Restart = ''restart''"
| "action_name Reload = ''reload''"

datatype sort_field = SortCpu | SortRam

datatype sort_order = Asc | Desc

record logs_modal =
  lm_isOpen :: bool
  lm_containerId :: string
  lm_logs :: string
  lm_loading :: bool

definition MIN_SERVICE_CONTROL_AGENT_VERSION :: string where
  "MIN_SERVICE_CONTROL_AGENT_VERSION = ''1.3.0''"

definition MIN_TERMINAL_AGENT_VERSION :: string where
  "MIN_TERMINAL_AGENT_VERSION = ''1.4.1''"

record server_page =
  server :: "server_details option"
  snap :: "snapshot option"
  invent :: "inventory option"
  serviceSearch :: string
  serviceFilter :: string
  loading :: bool
  activeTab :: string
  logsModal :: logs_modal
  processSortField :: sort_field
  processSortOrder :: sort_order
  serviceActionRequest :: "(service_action \<times> service_status) option"
  serviceActionBusy :: bool
  queueingAgentUpdate :: bool
  agentUpdateTask :: "update_task option"
  netReport :: "diagnostic_report option"
  netReportFailed :: bool
  netTargetFilter :: string
  historyTargetProbe :: "target_probe option"
  historyData :: "json list"
  loadingHistory :: bool
  historyRange :: history_range
  userRole :: string
  toasts :: "string list"

definition closed_modal :: logs_modal where
  "closed_modal = \<lparr>lm_isOpen = False, lm_containerId = [], lm_logs = [], lm_loading = False\<rparr>"

definition init_server_page :: "string \<Rightarrow> server_page" where
  "init_server_page role =
     \<lparr>server = None, snap = None, invent = None, serviceSearch = [], serviceFilter = ''all'',
      loading = True, activeTab = ''overview'', logsModal = closed_modal, processSortField = SortCpu,
      processSortOrder = Desc, serviceActionRequest = None, serviceActionBusy = False,
      queueingAgentUpdate = False, agentUpdateTask = None, netReport = None, netReportFailed = False,
      netTargetFilter = ''all'', historyTargetProbe = None, historyData = [], loadingHistory = False,
      historyRange = H24h, userRole = role, toasts = []\<rparr>"

definition toast :: "string \<Rightarrow> server_page \<Rightarrow> server_page" where
  "toast m s = s\<lparr>toasts := m # toasts s\<rparr>"

definition isViewer :: "server_page \<Rightarrow> bool" where
  "isViewer s \<longleftrightarrow> userRole s = ''viewer''"

definition role_answer :: "string option outcome \<Rightarrow> server_page \<Rightarrow> server_page" where
  \<comment> \<open>the answer of \<open>/auth/me\<close>; failures keep the role read from the token\<close>
  "role_answer reply s =
     (case reply of Inr (Some r) \<Rightarrow> (if r \<noteq> [] then s\<lparr>userRole := r\<rparr> else s) | _ \<Rightarrow> s)"

section \<open>Loading\<close>

type_synonym 'a parser = "string \<Rightarrow> 'a option outcome"

definition read_snapshot :: "snapshot parser \<Rightarrow> server_details \<Rightarrow> server_page \<Rightarrow> server_page \<times> bool" where
  \<comment> \<open>with whether the handler goes on; a snapshot that is the text \<open>null\<close> is stored, and reading
      its inventory throws\<close>
  "read_snapshot parse_snapshot d s =
     (if truthy (sd_snapshot d) \<and> sd_snapshot d \<noteq> Some ''{}''
      then (case parse_snapshot (the (sd_snapshot d)) of
              Inl e \<Rightarrow> (s, False)
            | Inr None \<Rightarrow> (s\<lparr>snap := None\<rparr>, False)
            | Inr (Some n) \<Rightarrow> (s\<lparr>snap := Some n, invent := sn_inventory n\<rparr>, True))
      else (s, True))"

definition read_inventory :: "inventory parser \<Rightarrow> server_details \<Rightarrow> server_page \<Rightarrow> server_page" where
  \<comment> \<open>a text that does not parse leaves what the snapshot gave\<close>
  "read_inventory parse_inventory d s =
     (if truthy (sd_inventory d) \<and> sd_inventory d \<noteq> Some ''{}''
      then (case parse_inventory (the (sd_inventory d)) of
              Inl e \<Rightarrow> s
            | Inr i \<Rightarrow> s\<lparr>invent := i\<rparr>)
      else s)"

definition fetchServer_finish ::
  "snapshot parser \<Rightarrow> inventory parser \<Rightarrow> server_details option outcome \<Rightarrow> server_page \<Rightarrow> server_page" where
  \<comment> \<open>a null answer clears the server and throws at the next line\<close>
  "fetchServer_finish parse_snapshot parse_inventory reply s =
     (case reply of
        Inl e \<Rightarrow> s
      | Inr None \<Rightarrow> s\<lparr>server := None\<rparr>
      | Inr (Some d) \<Rightarrow>
          (let (s1, go) = read_snapshot parse_snapshot d
                            (s\<lparr>server := Some d, agentUpdateTask := sd_active_task d\<rparr>)
           in if go then read_inventory parse_inventory d s1 else s1))
     \<lparr>loading := False\<rparr>"

definition open_from_url :: "string option \<Rightarrow> string option \<Rightarrow> server_page \<Rightarrow> server_page" where
  \<comment> \<open>the parameters \<open>tab\<close> and \<open>view\<close> of the address\<close>
  "open_from_url tab view s =
     (if truthy tab then s\<lparr>activeTab := the tab\<rparr>
      else if view = Some ''terminal'' then s\<lparr>activeTab := ''terminal''\<rparr>
      else s)"

definition diagnose_effect :: "string \<Rightarrow> server_page \<Rightarrow> request option" where
  \<comment> \<open>the request that runs at once and then every minute\<close>
  "diagnose_effect i s =
     (if activeTab s = ''network'' \<and> i \<noteq> [] then Some (request_get (''/servers/'' @ i @ ''/diagnose-network''))
      else None)"

definition diagnose_finish ::
  "bool \<Rightarrow> diagnostic_report option outcome \<Rightarrow> server_page \<Rightarrow> server_page" where
  "diagnose_finish isMounted reply s =
     (case reply of
        Inr (Some d) \<Rightarrow> (if isMounted then s\<lparr>netReport := Some d, netReportFailed := False\<rparr> else s)
      | Inr None \<Rightarrow> s
      | Inl e \<Rightarrow> (if isMounted then s\<lparr>netReportFailed := True\<rparr> else s))"

section \<open>The agent update\<close>

definition task_poll_request :: "string \<Rightarrow> server_page \<Rightarrow> request option" where
  \<comment> \<open>the effect polls only while the task has not ended\<close>
  "task_poll_request i s =
     (case agentUpdateTask s of
        Some t \<Rightarrow> if is_final_status (ut_status t) then None else Some (request_get (task_endpoint i (ut_id t)))
      | None \<Rightarrow> None)"

definition task_poll_finish ::
  "snapshot parser \<Rightarrow> inventory parser \<Rightarrow> update_task outcome \<Rightarrow> server_details option outcome \<Rightarrow>
     server_page \<Rightarrow> server_page" where
  \<comment> \<open>one round: the task and the server are asked together, and the task is written last\<close>
  "task_poll_finish parse_snapshot parse_inventory task_reply server_reply s =
     (let s1 = fetchServer_finish parse_snapshot parse_inventory server_reply s
      in case task_reply of
           Inr t \<Rightarrow>
             (let s2 = s1\<lparr>agentUpdateTask := Some t\<rparr>
              in if ut_status t = ''completed''
                 then toast ''Agent update completed and confirmed by heartbeat'' s2
                 else if is_failed_status (ut_status t)
                 then toast (opt_or (ut_result t) (''Agent update '' @ ut_status t)) s2
                 else s2)
         | Inl e \<Rightarrow> toast (errorMessage e ''Unable to refresh agent update status'') s1)"

definition queueAgentUpdate_begin :: "server_page \<Rightarrow> server_page \<times> request option" where
  "queueAgentUpdate_begin s =
     (case server s of
        None \<Rightarrow> (s, None)
      | Some d \<Rightarrow>
          (if isViewer s then (toast ''Agent update requires Operator or Admin role permission.'' s, None)
           else (s\<lparr>queueingAgentUpdate := True\<rparr>,
                 Some (request_send ''POST'' (tasks_endpoint (sd_id d)) (update_task_body ''{}'')))))"

definition queueAgentUpdate_finish ::
  "snapshot parser \<Rightarrow> inventory parser \<Rightarrow> string \<Rightarrow> update_task outcome \<Rightarrow>
     server_details option outcome \<Rightarrow> server_page \<Rightarrow> server_page" where
  \<comment> \<open>\<open>name\<close> is that of the server the handler started with; the server is loaded again at the end\<close>
  "queueAgentUpdate_finish parse_snapshot parse_inventory name reply server_reply s =
     (case reply of
        Inr t \<Rightarrow> fetchServer_finish parse_snapshot parse_inventory server_reply
                   (toast (''Agent update queued for '' @ name) (s\<lparr>agentUpdateTask := Some t\<rparr>))
      | Inl e \<Rightarrow> toast (errorMessage e ''Unable to queue agent update'') s)
     \<lparr>queueingAgentUpdate := False\<rparr>"

definition cancelAgentUpdate_begin :: "server_page \<Rightarrow> server_page \<times> request option" where
  "cancelAgentUpdate_begin s =
     (case server s of
        None \<Rightarrow> (s, None)
      | Some d \<Rightarrow>
          (if isViewer s then (toast ''Cancelling update task requires Operator or Admin role permission.'' s, None)
           else (s, Some (request_bare ''POST'' (tasks_endpoint (sd_id d) @ ''/cancel-update'')))))"

definition cancelAgentUpdate_finish ::
  "snapshot parser \<Rightarrow> inventory parser \<Rightarrow> unit outcome \<Rightarrow> server_details option outcome \<Rightarrow>
     server_page \<Rightarrow> server_page" where
  "cancelAgentUpdate_finish parse_snapshot parse_inventory reply server_reply s =
     (case reply of
        Inr _ \<Rightarrow> fetchServer_finish parse_snapshot parse_inventory server_reply
                   (toast ''Agent update task was cancelled'' (s\<lparr>agentUpdateTask := None\<rparr>))
      | Inl e \<Rightarrow> toast (errorMessage e ''Unable to cancel update task'') s)"

section \<open>Container actions\<close>

definition final_statuses_failed :: "update_task \<Rightarrow> string" where
  \<comment> \<open>the text of a log task that failed\<close>
  "final_statuses_failed r =
     ''Unable to retrieve logs:'' @ [CHR 0x0A] @ opt_or (ut_result r) (''Task '' @ ut_status r)"

definition docker_request :: "(json \<Rightarrow> string) \<Rightarrow> string \<Rightarrow> string \<Rightarrow> string \<Rightarrow> request" where
  "docker_request stringify i action containerId =
     request_send ''POST'' (tasks_endpoint i)
       (JObj [(''type'', JStr action),
              (''payload'', JStr (stringify (JObj [(''container_id'', JStr containerId)])))])"

definition handleDockerAction_begin ::
  "(json \<Rightarrow> string) \<Rightarrow> string \<Rightarrow> string \<Rightarrow> string \<Rightarrow> server_page \<Rightarrow> server_page \<times> request option" where
  "handleDockerAction_begin stringify i action containerId s =
     (if isViewer s
      then (toast ''Docker container actions require Operator or Admin role permission.'' s, None)
      else (if action = ''docker_logs''
            then s\<lparr>logsModal := \<lparr>lm_isOpen = True, lm_containerId = containerId,
                     lm_logs = ''Requesting container logs...'', lm_loading = True\<rparr>\<rparr>
            else toast (action @ '' command sent to container '' @ containerId @
                   ''. Execution may take about 15 seconds.'') s,
            Some (docker_request stringify i action containerId)))"

definition handleDockerAction_finish ::
  "string \<Rightarrow> update_task outcome \<Rightarrow> server_page \<Rightarrow> server_page \<times> string option" where
  \<comment> \<open>with the task a timer polls from now on, every two seconds\<close>
  "handleDockerAction_finish action reply s =
     (case reply of
        Inr task \<Rightarrow> (s, if action = ''docker_logs'' then Some (ut_id task) else None)
      | Inl e \<Rightarrow>
          (let s1 = toast ''An error occurred while sending the command.'' s
           in (if action = ''docker_logs''
               then s1\<lparr>logsModal := (logsModal s1)\<lparr>lm_loading := False, lm_logs := ''The API request failed.''\<rparr>\<rparr>
               else s1, None)))"

definition pollLogs_tick :: "string \<Rightarrow> update_task outcome \<Rightarrow> server_page \<Rightarrow> server_page \<times> bool" where
  \<comment> \<open>one answer to the timer of the container's logs, with whether the timer goes on\<close>
  "pollLogs_tick containerId reply s =
     (let show_text = (\<lambda>text. s\<lparr>logsModal := \<lparr>lm_isOpen = True, lm_containerId = containerId,
                                            lm_logs = text, lm_loading = False\<rparr>\<rparr>)
      in case reply of
           Inr r \<Rightarrow>
             (if ut_status r = ''completed'' then (show_text (opt_or (ut_result r) ''No logs available.''), False)
              else if is_failed_status (ut_status r) then (show_text (final_statuses_failed r), False)
              else (s, True))
         | Inl e \<Rightarrow> (s, False))"

definition closeLogs :: "server_page \<Rightarrow> server_page" where
  "closeLogs s = s\<lparr>logsModal := closed_modal\<rparr>"

section \<open>Service actions\<close>

definition service_request :: "(json \<Rightarrow> string) \<Rightarrow> string \<Rightarrow> service_action \<Rightarrow> service_status \<Rightarrow> request" where
  "service_request stringify i action service =
     request_send ''POST'' (tasks_endpoint i)
       (JObj [(''type'', JStr (''service_'' @ action_name action)),
              (''payload'', JStr (stringify (JObj [(''service_name'', JStr (ss_name service)),
                                                 (''service_manager'', JStr (opt_or (ss_source service) []))]))),
              (''timeout_seconds'', JNum 90)])"

definition handleServiceAction_begin ::
  "(json \<Rightarrow> string) \<Rightarrow> string \<Rightarrow> server_page \<Rightarrow> server_page \<times> request option" where
  "handleServiceAction_begin stringify i s =
     (case serviceActionRequest s of
        None \<Rightarrow> (s, None)
      | Some (action, service) \<Rightarrow>
          (if \<not> truthy (ss_source service) then (s, None)
           else if isViewer s
           then (toast ''System service actions require Operator or Admin role permission.'' s, None)
           else (s\<lparr>serviceActionBusy := True\<rparr>, Some (service_request stringify i action service))))"

definition SERVICE_POLLS :: nat where
  "SERVICE_POLLS = 45"

definition service_ended :: "update_task option \<Rightarrow> bool" where
  "service_ended t \<longleftrightarrow> (case t of Some r \<Rightarrow> is_final_status (ut_status r) | None \<Rightarrow> False)"

definition poll_service :: "(nat \<Rightarrow> update_task outcome) \<Rightarrow> update_task option outcome \<times> nat" where
  \<comment> \<open>the outcome of the loop, \<open>None\<close> or a task that has not ended when it ran out of attempts, and
      the requests it sent\<close>
  "poll_service replies = poll_until service_ended (\<lambda>k. map_outcome Some (replies k)) SERVICE_POLLS 0 None"

definition replace_service ::
  "service_status \<Rightarrow> service_status \<Rightarrow> service_status list \<Rightarrow> service_status list" where
  "replace_service service new =
     map (\<lambda>item. if ss_name item = ss_name service \<and> ss_source item = ss_source service then new else item)"

definition service_label :: "service_status \<Rightarrow> string" where
  "service_label service = opt_or (ss_display_name service) (ss_name service)"

definition service_completed ::
  "(string \<Rightarrow> service_status option outcome) \<Rightarrow> service_action \<Rightarrow> service_status \<Rightarrow> update_task \<Rightarrow>
     server_page \<Rightarrow> server_page" where
  \<comment> \<open>\<open>parse_result\<close> reads the new state of the service out of the result, \<open>Inl\<close> for plain text\<close>
  "service_completed parse_result action service r s =
     (let s1 = (case parse_result (opt_or (ut_result r) ''{}'') of
                  Inr (Some new) \<Rightarrow>
                    s\<lparr>snap := map_option (\<lambda>n. n\<lparr>sn_services :=
                        map_option (replace_service service new) (sn_services n)\<rparr>) (snap s)\<rparr>
                | _ \<Rightarrow> s)
      in (toast (service_label service @ '': '' @ action_name action @ '' completed'') s1)
           \<lparr>serviceActionRequest := None\<rparr>)"

definition handleServiceAction_finish ::
  "(string \<Rightarrow> service_status option outcome) \<Rightarrow> service_action \<Rightarrow> service_status \<Rightarrow>
     update_task outcome \<Rightarrow> (nat \<Rightarrow> update_task outcome) \<Rightarrow> server_page \<Rightarrow> server_page" where
  "handleServiceAction_finish parse_result action service task_reply replies s =
     (let failed = (\<lambda>e. toast (errorMessage e (''Unable to '' @ action_name action @ '' service'')) s)
      in case task_reply of
           Inl e \<Rightarrow> failed e
         | Inr task \<Rightarrow>
             (case fst (poll_service replies) of
                Inl e \<Rightarrow> failed e
              | Inr None \<Rightarrow> failed (ErrorObj ''Timed out waiting for the agent response'')
              | Inr (Some r) \<Rightarrow>
                  (if ut_status r = ''completed'' then service_completed parse_result action service r s
                   else if is_failed_status (ut_status r)
                   then failed (ErrorObj (opt_or (ut_result r) (''Service task '' @ ut_status r)))
                   else failed (ErrorObj ''Timed out waiting for the agent response''))))
     \<lparr>serviceActionBusy := False\<rparr>"

section \<open>The history of a network probe\<close>

fun range_hours :: "history_range \<Rightarrow> rat" where
  "range_hours H6h = 6"
| "range_hours H24h = 24"
| "range_hours H7d = 7 * 24"

definition openProbeHistory_begin ::
  "(string \<Rightarrow> string) \<Rightarrow> (rat \<Rightarrow> string) \<Rightarrow> rat \<Rightarrow> target_probe \<Rightarrow> history_range \<Rightarrow> server_page \<Rightarrow>
     server_page \<times> request" where
  "openProbeHistory_begin encode to_iso now probe r s =
     (let fromDate = now - range_hours r * 60 * 60 * 1000
      in (s\<lparr>historyTargetProbe := Some probe, historyRange := r, loadingHistory := True\<rparr>,
          request_get (''/network-targets/'' @ opt_or (np_target_id probe) (np_id probe) @ ''/history?from='' @
            encode (to_iso fromDate) @ ''&to='' @ encode (to_iso now) @ ''&limit=150'')))"

definition openProbeHistory_finish :: "json list option outcome \<Rightarrow> server_page \<Rightarrow> server_page" where
  "openProbeHistory_finish reply s =
     (case reply of
        Inr d \<Rightarrow> s\<lparr>historyData := or_empty d\<rparr>
      | Inl e \<Rightarrow> s\<lparr>historyData := []\<rparr>)\<lparr>loadingHistory := False\<rparr>"

end
