(* ===== verification/Units.thy ===== *)
theory Units
  imports JsNumber
begin

text \<open>
  The three copies of \<open>formatBytes\<close> (\<open>dashboard/servers/[id]/page.tsx\<close>, \<open>dashboard/page.tsx\<close>,
  \<open>dashboard/manage/audit/page.tsx\<close>) and \<open>formatUptime\<close>.  Byte counts are whole numbers; the
  exponent is the exact \<open>floor(log bytes / log 1024)\<close>.
\<close>

section \<open>The exponent\<close>

fun byte_exponent :: "nat \<Rightarrow> nat \<Rightarrow> nat" where
  \<comment> \<open>\<open>Math.min(Math.floor(Math.log(b) / Math.log(1024)), cap)\<close> of a positive count\<close>
  "byte_exponent 0 b = 0"
| "byte_exponent (Suc cap) b = (if b < 1024 then 0 else Suc (byte_exponent cap (b div 1024)))"

lemma byte_exponent_le: "byte_exponent cap b \<le> cap"
  by (induction cap b rule: byte_exponent.induct) auto

lemma byte_exponent_lower: "0 < b \<Longrightarrow> 1024 ^ byte_exponent cap b \<le> b"
proof (induction cap b rule: byte_exponent.induct)
  case (2 cap b)
  show ?case
  proof (cases "b < 1024")
    case False
    with 2 have "1024 ^ byte_exponent cap (b div 1024) \<le> b div 1024" by (simp add: div_greater_zero_iff)
    then have "1024 * 1024 ^ byte_exponent cap (b div 1024) \<le> 1024 * (b div 1024)" by simp
    also have "\<dots> \<le> b" by simp
    finally show ?thesis using False by simp
  qed (use 2 in simp)
qed simp

lemma byte_exponent_upper: "byte_exponent cap b < cap \<Longrightarrow> b < 1024 ^ Suc (byte_exponent cap b)"
proof (induction cap b rule: byte_exponent.induct)
  case (2 cap b)
  show ?case
  proof (cases "b < 1024")
    case False
    with 2 have "b div 1024 < 1024 ^ Suc (byte_exponent cap (b div 1024))" by simp
    then have "b < 1024 ^ Suc (byte_exponent cap (b div 1024)) * 1024"
      by (simp add: div_less_iff_less_mult)
    with False show ?thesis by (simp add: mult.commute)
  qed simp
qed simp

definition mantissa :: "nat \<Rightarrow> nat \<Rightarrow> rat" where
  "mantissa cap b = of_nat b / 1024 ^ byte_exponent cap b"

text \<open>The number printed before the unit: at least one, and below 1024 unless the units run out.\<close>

lemma mantissa_range:
  assumes "0 < b"
  shows "1 \<le> mantissa cap b" and "byte_exponent cap b < cap \<Longrightarrow> mantissa cap b < 1024"
proof -
  have pos: "(0 :: rat) < 1024 ^ byte_exponent cap b" by simp
  have "(of_nat (1024 ^ byte_exponent cap b) :: rat) \<le> of_nat b"
    using byte_exponent_lower [OF assms] by (simp only: of_nat_le_iff)
  then show "1 \<le> mantissa cap b" using pos by (simp add: mantissa_def pos_le_divide_eq)
  assume "byte_exponent cap b < cap"
  then have "(of_nat b :: rat) < of_nat (1024 ^ Suc (byte_exponent cap b))"
    by (simp only: of_nat_less_iff byte_exponent_upper)
  then show "mantissa cap b < 1024" using pos by (simp add: mantissa_def pos_divide_less_eq)
qed

section \<open>The copies\<close>

definition server_units :: "string list" where
  "server_units = [''B'', ''KB'', ''MB'', ''GB'', ''TB'']"

definition server_formatBytes :: "nat \<Rightarrow> string" where
  "server_formatBytes b =
     (if b = 0 then ''Unknown''
      else (let e = byte_exponent (length server_units - 1) b
            in show_fixed (if e > 2 then 1 else 0) (of_nat b / 1024 ^ e) @ '' '' @ server_units ! e))"

definition overview_units :: "string list" where
  "overview_units = [''B'', ''KB'', ''MB'', ''GB'', ''TB'', ''PB'']"

definition overview_formatBytes :: "nat \<Rightarrow> string" where
  "overview_formatBytes b =
     (if b = 0 then ''0 B''
      else (let e = byte_exponent (length overview_units - 1) b; v = of_nat b / 1024 ^ e
            in show_fixed (if v \<ge> 10 then 1 else 2) v @ '' '' @ overview_units ! e))"

definition audit_units :: "string list" where
  "audit_units = [''B'', ''KB'', ''MB'', ''GB'']"

definition audit_formatBytes :: "nat \<Rightarrow> string" where
  \<comment> \<open>the exponent is not capped: beyond the table JavaScript prints \<open>undefined\<close>; a number of at
      most 53 bits has an exponent of at most five\<close>
  "audit_formatBytes b =
     (if b = 0 then ''0 B''
      else (let e = byte_exponent 102 b
            in show_rat (fixed 1 (of_nat b / 1024 ^ e)) @ '' '' @
               (if e < length audit_units then audit_units ! e else ''undefined'')))"

definition formatUptime :: "nat \<Rightarrow> string" where
  "formatUptime seconds =
     show_nat (seconds div (3600 * 24)) @ ''d '' @ show_nat (seconds mod (3600 * 24) div 3600) @ ''h '' @
     show_nat (seconds mod 3600 div 60) @ ''m''"

lemma split_unit: "(n :: nat) = n div k * k + n mod k"
  by simp

lemma uptime_parts:
  "seconds div (3600 * 24) * 86400 + seconds mod (3600 * 24) div 3600 * 3600 +
     seconds mod 3600 div 60 * 60 + seconds mod 60 = (seconds :: nat)"
proof -
  have m: "seconds mod 86400 mod 3600 = seconds mod 3600" "seconds mod 3600 mod 60 = seconds mod 60"
    by (rule mod_mod_cancel, simp)+
  have "seconds = seconds div 86400 * 86400 + seconds mod 86400" by (rule split_unit)
  also have "seconds mod 86400 = seconds mod 86400 div 3600 * 3600 + seconds mod 3600"
    using split_unit [of "seconds mod 86400" 3600] by (simp only: m)
  also have "seconds mod 3600 = seconds mod 3600 div 60 * 60 + seconds mod 60"
    using split_unit [of "seconds mod 3600" 60] by (simp only: m)
  finally show ?thesis by simp
qed

lemma audit_unit_undefined:
  assumes "1024 ^ 4 \<le> b"
  shows "audit_formatBytes b =
         show_rat (fixed 1 (mantissa 102 b)) @ '' undefined''"
proof -
  have "4 \<le> byte_exponent 102 b"
  proof (rule ccontr)
    assume "\<not> 4 \<le> byte_exponent 102 b"
    then have less: "byte_exponent 102 b < 102" and "Suc (byte_exponent 102 b) \<le> 4" by auto
    then have "(1024 :: nat) ^ Suc (byte_exponent 102 b) \<le> 1024 ^ 4" by (intro power_increasing) auto
    with byte_exponent_upper [OF less] assms show False by linarith
  qed
  moreover have "b \<noteq> 0" using assms by (intro notI) simp
  ultimately show ?thesis by (simp add: audit_formatBytes_def audit_units_def mantissa_def Let_def)
qed

end
