(* ===== verification/ServerView.thy ===== *)
theory ServerView
  imports ServerDetail Units
begin

text \<open>
  What the page of one server derives from its state (\<open>dashboard/servers/[id]/page.tsx\<close>): the
  operating system, the state of the terminal, the services and their controls, the agent
  update, the processes and the network tab.  \<open>json_parse\<close> is \<open>JSON.parse\<close>, \<open>None\<close> where it
  throws.  Fields of the system description other than the \<open>terminal_\<close> ones, whose types the
  page tests, are read as the type the page declares.
\<close>

section \<open>The operating system\<close>

definition dash :: string where
  "dash = [char_of (226::nat), char_of (128::nat), char_of (148::nat)]"

definition parsedOSInfo :: "(string \<Rightarrow> json option) \<Rightarrow> server_details \<Rightarrow> json" where
  \<comment> \<open>\<open>JNull\<close> where the description is the text \<open>null\<close>: the page then fails to render\<close>
  "parsedOSInfo json_parse d =
     (if \<not> js_truthy (sd_os_info d) then JObj []
      else case the (sd_os_info d) of
             JStr t \<Rightarrow> (case json_parse t of Some v \<Rightarrow> v | None \<Rightarrow> JObj [])
           | j \<Rightarrow> j)"

definition info_text :: "json \<Rightarrow> string \<Rightarrow> string" where
  \<comment> \<open>a declared text field, empty where it is absent\<close>
  "info_text info k = json_text (field info k)"

definition explicitOSFamily :: "snapshot option \<Rightarrow> inventory option \<Rightarrow> json \<Rightarrow> string" where
  "explicitOSFamily sn iv info =
     to_lower (str_or (opt_or (Option.bind sn sn_os_family) [])
                (str_or (opt_or (Option.bind iv in_os_family) []) (info_text info ''os_family'')))"

definition monitoredOS :: "snapshot option \<Rightarrow> inventory option \<Rightarrow> json \<Rightarrow> string" where
  "monitoredOS sn iv info =
     str_or (opt_or (map_option in_platform iv) [])
       (str_or (info_text info ''os_name'')
         (str_or (info_text info ''platform'')
           (str_or (explicitOSFamily sn iv info) ''Unknown OS'')))"

definition normalizedOS :: "snapshot option \<Rightarrow> inventory option \<Rightarrow> json \<Rightarrow> string" where
  "normalizedOS sn iv info =
     to_lower (opt_or (map_option in_platform iv) [] @ CHR '' '' # monitoredOS sn iv info)"

definition reportedServices :: "snapshot option \<Rightarrow> service_status list" where
  "reportedServices sn = or_empty (Option.bind sn sn_services)"

definition reportedServiceManager :: "snapshot option \<Rightarrow> string option" where
  "reportedServiceManager sn =
     Option.bind (find (\<lambda>v. truthy (ss_source v)) (reportedServices sn)) ss_source"

datatype os_family = OSWindows | OSMac | OSLinux | OSUnknown

definition osFamily :: "snapshot option \<Rightarrow> inventory option \<Rightarrow> json \<Rightarrow> os_family" where
  "osFamily sn iv info =
     (let e = explicitOSFamily sn iv info;
          has = str_includes (normalizedOS sn iv info);
          manager = reportedServiceManager sn
      in if e = ''windows'' \<or> has ''windows'' \<or> manager = Some ''windows-scm'' then OSWindows
         else if e = ''macos'' \<or> e = ''darwin'' \<or> has ''darwin'' \<or> has ''mac'' \<or> manager = Some ''launchd''
         then OSMac
         else if e = ''linux'' \<or> has ''linux'' \<or> manager = Some ''systemd'' \<or>
                 list_ex has [''ubuntu'', ''debian'', ''centos'', ''fedora'', ''alpine'']
         then OSLinux
         else OSUnknown)"

fun serviceManager :: "os_family \<Rightarrow> string" where
  "serviceManager OSMac = ''launchd''"
| "serviceManager OSWindows = ''windows-scm''"
| "serviceManager _ = ''systemd''"

section \<open>A view: the values of one render\<close>

text \<open>
  The page reads one server, its snapshot and inventory, and the parsed description; \<open>view\<close>
  collects them.
\<close>

record view =
  v_server :: server_details
  v_snap :: "snapshot option"
  v_inv :: "inventory option"
  v_info :: json

definition view_of :: "(string \<Rightarrow> json option) \<Rightarrow> server_page \<Rightarrow> view option" where
  \<comment> \<open>\<open>None\<close> while loading, without a server, and where the render throws\<close>
  "view_of json_parse s =
     (if loading s then None
      else case server s of
             None \<Rightarrow> None
           | Some d \<Rightarrow>
               (let info = parsedOSInfo json_parse d
                in if info = JNull then None
                   else Some \<lparr>v_server = d, v_snap = snap s, v_inv = invent s, v_info = info\<rparr>))"

definition v_family :: "view \<Rightarrow> os_family" where
  "v_family v = osFamily (v_snap v) (v_inv v) (v_info v)"

definition online :: "view \<Rightarrow> bool" where
  "online v \<longleftrightarrow> sd_status (v_server v) = ''online''"

definition reportedAgentVersion :: "view \<Rightarrow> string option" where
  \<comment> \<open>the heartbeat's version, then the inventory's\<close>
  "reportedAgentVersion v =
     (if info_text (v_info v) ''version'' \<noteq> [] then Some (info_text (v_info v) ''version'')
      else map_option in_agent_version (v_inv v))"

section \<open>The terminal\<close>

definition is_boolean :: "json option \<Rightarrow> bool" where
  "is_boolean j \<longleftrightarrow> (case j of Some (JBool b) \<Rightarrow> True | _ \<Rightarrow> False)"

definition trimmed_text :: "json option \<Rightarrow> string" where
  \<comment> \<open>\<open>typeof x === 'string' ? x.trim() : ''\<close>\<close>
  "trimmed_text j = (case j of Some (JStr t) \<Rightarrow> trim t | _ \<Rightarrow> [])"

definition terminalEnvironmentUnsupported :: "view \<Rightarrow> bool" where
  "terminalEnvironmentUnsupported v \<longleftrightarrow>
     (if is_boolean (field (v_info v) ''terminal_supported'')
      then field (v_info v) ''terminal_supported'' = Some (JBool False)
      else v_family v \<noteq> OSLinux)"

definition terminalChannelReported :: "view \<Rightarrow> bool" where
  "terminalChannelReported v \<longleftrightarrow> is_boolean (field (v_info v) ''terminal_channel_connected'')"

definition terminalChannelConnected :: "view \<Rightarrow> bool" where
  "terminalChannelConnected v \<longleftrightarrow> field (v_info v) ''terminal_channel_connected'' = Some (JBool True)"

definition terminalUnsupportedReasonReported :: "view \<Rightarrow> string" where
  "terminalUnsupportedReasonReported v = trimmed_text (field (v_info v) ''terminal_unsupported_reason'')"

definition terminal_version_ok :: "view \<Rightarrow> bool" where
  "terminal_version_ok v \<longleftrightarrow> versionAtLeast (reportedAgentVersion v) MIN_TERMINAL_AGENT_VERSION"

definition terminalDisabledReason :: "view \<Rightarrow> string option" where
  "terminalDisabledReason v =
     (if terminalEnvironmentUnsupported v then
        Some (if terminalUnsupportedReasonReported v \<noteq> [] then terminalUnsupportedReasonReported v
              else if v_family v = OSWindows
              then ''Web Terminal is not supported on Windows agents. The Agent service runs outside the signed-in desktop session.''
              else if v_family v = OSMac
              then ''Web Terminal is not supported on macOS agents. The launchd service runs outside the signed-in desktop session.''
              else ''Web Terminal is supported only on Linux server agents.'')
      else if \<not> online v then Some ''The agent must be online before a terminal session can start.''
      else if \<not> terminal_version_ok v
      then Some (''Agent '' @ MIN_TERMINAL_AGENT_VERSION @ '' or newer is required for reverse terminal support.'')
      else if \<not> terminalChannelReported v
      then Some ''This agent version does not report reverse terminal channel health. Update the agent to the latest patch release before opening Web Terminal.''
      else None)"

definition terminalCanAttempt :: "view \<Rightarrow> bool" where
  "terminalCanAttempt v \<longleftrightarrow>
     online v \<and> terminal_version_ok v \<and> \<not> terminalEnvironmentUnsupported v \<and> terminalChannelReported v"

definition terminalTabLabel :: "view \<Rightarrow> string" where
  "terminalTabLabel v =
     (if terminalEnvironmentUnsupported v
      then ''Terminal '' @ [char_of (194::nat), char_of (183::nat)] @ '' Not supported'' else ''Terminal'')"

definition terminalChannelError :: "view \<Rightarrow> string" where
  "terminalChannelError v = trimmed_text (field (v_info v) ''terminal_channel_error'')"

datatype channel_advice =
  RetryAdvice | TokenRejected | HandshakeBlocked | UpgradeLost | GatewayBypassed | WrongRoute |
  BackendUnreachable | SecureConnection | PlainDiagnostic

definition channel_advice_of :: "string \<Rightarrow> channel_advice" where
  \<comment> \<open>which of the texts of \<open>terminalChannelDiagnostic\<close> is shown; all but the first end with the
      reported error\<close>
  "channel_advice_of err =
     (let n = to_lower err; has = str_includes n
      in if n = [] then RetryAdvice
         else if has ''http 401'' then TokenRejected
         else if has ''http 403'' then HandshakeBlocked
         else if has ''http 400'' then UpgradeLost
         else if has ''http 426'' \<or> has ''websocket_upgrade_required'' then GatewayBypassed
         else if has ''http 200'' \<or> has ''http 404'' then WrongRoute
         else if has ''http 502'' \<or> has ''http 503'' then BackendUnreachable
         else if has ''timeout'' \<or> has ''tls'' \<or> has ''certificate'' then SecureConnection
         else PlainDiagnostic)"

definition quoted :: "string \<Rightarrow> string" where
  \<comment> \<open>typographic quotation marks, as UTF-8\<close>
  "quoted t =
     [char_of (226::nat), char_of (128::nat), char_of (156::nat)] @ t @
     [char_of (226::nat), char_of (128::nat), char_of (157::nat)]"

fun channel_text :: "channel_advice \<Rightarrow> string" where
  "channel_text RetryAdvice =
     ''Retry the connection. If it still fails, inspect the Agent log for '' @ quoted ''Terminal channel disconnected'' @ ''.''"
| "channel_text TokenRejected =
     ''The terminal endpoint rejected the Agent Token. Confirm that heartbeat and terminal use the same API host, then restart the Agent.''"
| "channel_text HandshakeBlocked =
     ''The WebSocket handshake was blocked. Check Cloudflare/WAF rules and the origin proxy.''"
| "channel_text UpgradeLost =
     ''The proxy reached the Backend but did not preserve the WebSocket Upgrade handshake. Deploy the DatrixOps gateway on port 3000, then restart the Agent.''"
| "channel_text GatewayBypassed =
     ''The public origin bypassed the WebSocket gateway. Route it to the bundled Caddy service on port 3000, then restart the Agent.''"
| "channel_text WrongRoute =
     ''The request did not reach the WebSocket upgrade handler. Route /api/v1/agent/terminal directly to the Backend with Upgrade headers.''"
| "channel_text BackendUnreachable =
     ''The proxy could not reach the Backend terminal handler. Check Backend health and upstream routing.''"
| "channel_text SecureConnection =
     ''The Agent could not complete the secure WebSocket connection. Check DNS, time, CA certificates, firewall, and proxy timeout.''"
| "channel_text PlainDiagnostic = []"

definition terminalChannelDiagnostic :: "view \<Rightarrow> string" where
  "terminalChannelDiagnostic v =
     (let e = terminalChannelError v; a = channel_advice_of e
      in case a of
           RetryAdvice \<Rightarrow> channel_text a
         | PlainDiagnostic \<Rightarrow> ''Agent diagnostic: '' @ e
         | _ \<Rightarrow> channel_text a @ '' Diagnostic: '' @ e)"

lemma diagnostic_keeps_error:
  "terminalChannelError v \<noteq> [] \<Longrightarrow> \<exists>t. terminalChannelDiagnostic v = t @ terminalChannelError v"
  by (auto simp: terminalChannelDiagnostic_def channel_advice_of_def to_lower_def Let_def)

section \<open>Services\<close>

record service_content =
  sc_tab :: string
  sc_title :: string
  sc_description :: string
  sc_stopped :: string
  sc_missing :: string
  sc_search :: string

fun serviceContent :: "os_family \<Rightarrow> service_content" where
  "serviceContent OSMac =
     \<lparr>sc_tab = ''Launch Services'', sc_title = ''launchd services'',
      sc_description = ''Reported from macOS system and console-user launchd domains.'',
      sc_stopped = ''Not loaded'', sc_missing = ''Label not found'', sc_search = ''Search launchd labels''\<rparr>"
| "serviceContent OSWindows =
     \<lparr>sc_tab = ''Windows Services'', sc_title = ''Windows services'',
      sc_description = ''Reported by the Windows Service Control Manager.'',
      sc_stopped = ''Stopped'', sc_missing = ''Not installed'', sc_search = ''Search Windows services''\<rparr>"
| "serviceContent _ =
     \<lparr>sc_tab = ''System Services'', sc_title = ''systemd services'',
      sc_description = ''Reported from systemd unit state and unit-file configuration.'',
      sc_stopped = ''Inactive'', sc_missing = ''Unit not found'', sc_search = ''Search systemd units''\<rparr>"

definition tabs :: "view \<Rightarrow> (string \<times> string) list" where
  "tabs v =
     (let os = v_family v
      in [(''overview'', ''Overview''), (''processes'', ''Processes''), (''services'', sc_tab (serviceContent os)),
          (''network'', ''Network Quality''),
          (''docker'', if os = OSMac \<or> os = OSWindows then ''Containers'' else ''Docker''),
          (''terminal'', terminalTabLabel v)])"

definition service_status_label :: "view \<Rightarrow> service_status \<Rightarrow> string" where
  \<comment> \<open>an underscore of any other status is shown as a blank\<close>
  "service_status_label v x =
     (if ss_status x = ''stopped'' then sc_stopped (serviceContent (v_family v))
      else if ss_status x = ''not_installed'' then sc_missing (serviceContent (v_family v))
      else map (\<lambda>c. if c = CHR ''_'' then CHR '' '' else c) (ss_status x))"

definition shown_services :: "view \<Rightarrow> service_status list" where
  \<comment> \<open>entries without a manager come from old agents and are shown on Linux only\<close>
  "shown_services v =
     filter (\<lambda>x. (v_family v = OSUnknown \<or> v_family v = OSLinux \<and> \<not> truthy (ss_source x) \<or>
                    ss_source x = Some (serviceManager (v_family v))) \<and>
                   ss_status x \<noteq> ''not_installed'')
       (reportedServices (v_snap v))"

definition hasIncompatibleLegacyServices :: "view \<Rightarrow> bool" where
  "hasIncompatibleLegacyServices v \<longleftrightarrow>
     v_family v \<noteq> OSLinux \<and> v_family v \<noteq> OSUnknown \<and>
     list_ex (\<lambda>x. \<not> truthy (ss_source x) \<or> ss_source x \<noteq> Some (serviceManager (v_family v)))
       (reportedServices (v_snap v))"

definition no_services_text :: "view \<Rightarrow> string" where
  "no_services_text v =
     (let title = sc_title (serviceContent (v_family v))
      in if shown_services v \<noteq> [] then ''No '' @ title @ '' match the current filters.''
         else if hasIncompatibleLegacyServices v then ''Native '' @ title @ '' will appear after the agent is updated.''
         else ''No '' @ title @ '' have been reported by this agent.'')"

definition filteredServices :: "server_page \<Rightarrow> view \<Rightarrow> service_status list" where
  "filteredServices s v =
     (let query = to_lower (trim (serviceSearch s));
          has = (\<lambda>t. str_includes (to_lower t) query)
      in filter (\<lambda>x.
           (serviceFilter s = ''all'' \<or> ss_status x = serviceFilter s) \<and>
           (query = [] \<or> has (ss_name x) \<or>
            list_ex (\<lambda>w. case w of Some t \<Rightarrow> has t | None \<Rightarrow> False)
              [ss_display_name x, ss_description x, ss_source x]))
           (shown_services v))"

definition service_count :: "view \<Rightarrow> string \<Rightarrow> nat" where
  "service_count v = count_key ss_status (shown_services v)"

definition supportsServiceControls :: "view \<Rightarrow> bool" where
  "supportsServiceControls v \<longleftrightarrow> versionAtLeast (reportedAgentVersion v) MIN_SERVICE_CONTROL_AGENT_VERSION"

definition serviceIsControllable :: "view \<Rightarrow> service_status \<Rightarrow> bool" where
  "serviceIsControllable v x \<longleftrightarrow>
     online v \<and> supportsServiceControls v \<and> ss_status x \<in> set [''running'', ''stopped''] \<and>
     ss_source x = Some (serviceManager (v_family v))"

fun action_disabled :: "view \<Rightarrow> service_status \<Rightarrow> service_action \<Rightarrow> bool" where
  "action_disabled v x Start = (\<not> serviceIsControllable v x \<or> ss_status x = ''running'')"
| "action_disabled v x Stop = (\<not> serviceIsControllable v x \<or> ss_status x \<noteq> ''running'')"
| "action_disabled v x Restart = (\<not> serviceIsControllable v x)"
| "action_disabled v x Reload =
     (\<not> serviceIsControllable v x \<or> ss_status x \<noteq> ''running'' \<or> ss_source x = Some ''windows-scm'')"

definition click_action :: "view \<Rightarrow> service_status \<Rightarrow> service_action \<Rightarrow> server_page \<Rightarrow> server_page" where
  \<comment> \<open>a disabled button does nothing\<close>
  "click_action v x a s =
     (if action_disabled v x a then s else s\<lparr>serviceActionRequest := Some (a, x)\<rparr>)"

section \<open>The agent update\<close>

definition latestAgentVersion :: "view \<Rightarrow> string" where
  "latestAgentVersion v = opt_or (sd_latest_agent_version (v_server v)) []"

definition updateAvailable :: "view \<Rightarrow> bool" where
  "updateAvailable v \<longleftrightarrow> sd_update_available (v_server v) \<and> latestAgentVersion v \<noteq> []"

definition agentUpdateInProgress :: "server_page \<Rightarrow> bool" where
  "agentUpdateInProgress s \<longleftrightarrow>
     (case agentUpdateTask s of Some t \<Rightarrow> is_active_status (ut_status t) | None \<Rightarrow> False)"

definition agentUpdateStalled :: "server_page \<Rightarrow> view \<Rightarrow> bool" where
  "agentUpdateStalled s v \<longleftrightarrow>
     (case agentUpdateTask s of Some t \<Rightarrow> ut_status t = ''completed'' | None \<Rightarrow> False) \<and> updateAvailable v"

definition agentUpdateFailed :: "server_page \<Rightarrow> view \<Rightarrow> bool" where
  "agentUpdateFailed s v \<longleftrightarrow>
     (case agentUpdateTask s of
        Some t \<Rightarrow> (is_failed_status (ut_status t) \<or> agentUpdateStalled s v) \<and> updateAvailable v
      | None \<Rightarrow> False)"

definition agentUpdateCompleted :: "server_page \<Rightarrow> view \<Rightarrow> bool" where
  "agentUpdateCompleted s v \<longleftrightarrow> agentUpdateTask s \<noteq> None \<and> \<not> updateAvailable v"

definition agentUpdateLabel :: "server_page \<Rightarrow> view \<Rightarrow> string" where
  "agentUpdateLabel s v =
     (if agentUpdateInProgress s
      then (if map_option ut_status (agentUpdateTask s) = Some ''processing'' then ''Updating agent...'' else ''Queued...'')
      else if agentUpdateCompleted s v then ''Update confirmed''
      else if agentUpdateFailed s v then ''Retry update''
      else ''Update agent'')"

definition banner_shown :: "view \<Rightarrow> bool" where
  \<comment> \<open>the section with the update button; also the badge that names the new version\<close>
  "banner_shown v \<longleftrightarrow> supportsServiceControls v \<and> updateAvailable v"

definition update_required_shown :: "view \<Rightarrow> bool" where
  "update_required_shown v \<longleftrightarrow> \<not> supportsServiceControls v"

definition banner_text :: "server_page \<Rightarrow> view \<Rightarrow> string option" where
  \<comment> \<open>the line about the task inside the banner\<close>
  "banner_text s v =
     map_option (\<lambda>t.
       if agentUpdateCompleted s v then ''Update confirmed by the latest heartbeat.''
       else if agentUpdateFailed s v then
         (if agentUpdateStalled s v
          then ''The update was staged, but the agent is still reporting the old version. Retry the update to restart the service with the new binary.''
          else opt_or (ut_result t) (''Update task '' @ ut_status t @ ''.''))
       else if ut_status t = ''processing''
       then ''The agent has claimed the task. Waiting for restart and version confirmation.''
       else ''Update task is queued. Waiting for the next agent heartbeat.'') (agentUpdateTask s)"

definition update_button_enabled :: "server_page \<Rightarrow> view \<Rightarrow> bool" where
  "update_button_enabled s v \<longleftrightarrow>
     \<not> (queueingAgentUpdate s \<or> (agentUpdateInProgress s \<and> online v) \<or> \<not> online v)"

definition update_button_text :: "server_page \<Rightarrow> view \<Rightarrow> string" where
  "update_button_text s v = (if queueingAgentUpdate s then ''Queueing update...'' else agentUpdateLabel s v)"

section \<open>Usage and processes\<close>

definition info_number :: "view \<Rightarrow> string \<Rightarrow> rat option" where
  \<comment> \<open>a declared number field\<close>
  "info_number v k = (case field (v_info v) k of Some (JNum q) \<Rightarrow> Some q | _ \<Rightarrow> None)"

definition totalMemoryUsage :: "view \<Rightarrow> rat option" where
  "totalMemoryUsage v =
     (case info_number v ''memory_total'' of
        Some m \<Rightarrow>
          (if m > 0
           then Some ((case info_number v ''memory_used'' of Some u \<Rightarrow> u | None \<Rightarrow> 0) / m * 100)
           else None)
      | None \<Rightarrow> None)"

definition usage_text :: "rat option \<Rightarrow> string" where
  "usage_text u = (case u of Some q \<Rightarrow> show_fixed 1 q @ ''%'' | None \<Rightarrow> dash)"

definition cpu_badge :: "view \<Rightarrow> string" where
  "cpu_badge v =
     (case info_number v ''cpu_usage'' of
        Some q \<Rightarrow> (if q > 90 then ''HIGH'' else ''NORMAL'') | None \<Rightarrow> ''NORMAL'')"

definition bar_width :: "rat option \<Rightarrow> rat" where
  "bar_width u = min (case u of Some q \<Rightarrow> q | None \<Rightarrow> 0) 100"

definition sortedProcesses :: "server_page \<Rightarrow> top_process list" where
  \<comment> \<open>the sort of the language is stable\<close>
  "sortedProcesses s =
     (let key = (case processSortField s of SortCpu \<Rightarrow> tp_cpu | SortRam \<Rightarrow> tp_ram)
      in sort_key (case processSortOrder s of Desc \<Rightarrow> (\<lambda>p. - key p) | Asc \<Rightarrow> key)
           (or_empty (Option.bind (snap s) sn_top_processes)))"

definition click_sort :: "sort_field \<Rightarrow> server_page \<Rightarrow> server_page" where
  "click_sort f s =
     (if processSortField s = f
      then s\<lparr>processSortOrder := (case processSortOrder s of Desc \<Rightarrow> Asc | Asc \<Rightarrow> Desc)\<rparr>
      else s\<lparr>processSortField := f, processSortOrder := Desc\<rparr>)"

section \<open>The network tab\<close>

definition v_net :: "view \<Rightarrow> net_diagnostics option" where
  "v_net v = Option.bind (v_snap v) sn_network_diagnostics"

definition netIfaces :: "view \<Rightarrow> net_interface list" where
  \<comment> \<open>\<open>netDiag?.interfaces || snapshot?.network_interfaces || []\<close>: an empty array is truthy\<close>
  "netIfaces v =
     (case Option.bind (v_net v) nd_interfaces of
        Some xs \<Rightarrow> xs
      | None \<Rightarrow> or_empty (Option.bind (v_snap v) sn_network_interfaces))"

definition primaryIface :: "view \<Rightarrow> net_interface option" where
  "primaryIface v =
     (case find (\<lambda>i. ni_is_default i \<or> Some (ni_name i) = map_option nd_primary_uplink (v_net v)) (netIfaces v) of
        Some i \<Rightarrow> Some i
      | None \<Rightarrow> (case netIfaces v of [] \<Rightarrow> None | i # is \<Rightarrow> Some i))"

definition isPrimary :: "view \<Rightarrow> net_interface \<Rightarrow> bool" where
  "isPrimary v iface \<longleftrightarrow>
     (let uplink = map_option nd_primary_uplink (v_net v)
      in Some (ni_name iface) = (if truthy uplink then uplink else map_option ni_name (primaryIface v)))"

definition tag_of :: "target_probe \<Rightarrow> string" where
  "tag_of p = str_or (np_tag p) ''default''"

definition allProbes :: "server_page \<Rightarrow> target_probe list" where
  "allProbes s = or_empty (Option.bind (netReport s) dr_probes)"

definition groupTags :: "server_page \<Rightarrow> string list" where
  \<comment> \<open>without an order given, the keys of the groups as they come\<close>
  "groupTags s =
     (case Option.bind (netReport s) dr_group_order of
        Some (t # ts) \<Rightarrow> t # ts
      | _ \<Rightarrow> uniq (map fst (or_empty (Option.bind (netReport s) dr_groups))))"

definition discoveredTags :: "server_page \<Rightarrow> string list" where
  "discoveredTags s = uniq (map tag_of (allProbes s))"

definition tag_count :: "server_page \<Rightarrow> string \<Rightarrow> nat" where
  \<comment> \<open>the number on a tag's chip\<close>
  "tag_count s = count_key tag_of (allProbes s)"

definition filteredProbes :: "server_page \<Rightarrow> target_probe list" where
  "filteredProbes s =
     (if netTargetFilter s = ''all'' then allProbes s
      else filter (\<lambda>p. to_lower (tag_of p) = to_lower (netTargetFilter s)) (allProbes s))"

definition click_tag :: "string \<Rightarrow> server_page \<Rightarrow> server_page" where
  "click_tag tag s = s\<lparr>netTargetFilter := tag\<rparr>"

definition badge_text :: "string \<Rightarrow> string" where
  \<comment> \<open>\<open>renderStatusBadge\<close>; the text is shown in capitals\<close>
  "badge_text st =
     (if to_lower st = ''optimal'' then ''Optimal''
      else if to_lower st = ''reachable'' then ''Reachable''
      else if to_lower st = ''warning'' then ''Warning''
      else if to_lower st \<in> set [''critical'', ''unreachable'', ''offline''] then st
      else str_or st ''Unavailable'')"

definition probe_latency_text :: "target_probe \<Rightarrow> string" where
  "probe_latency_text p =
     (if np_status p = ''unreachable'' \<or> np_latency_ms p = 0 \<and> np_failed_probes p = np_total_probes p
      then ''Timeout'' else show_fixed 1 (np_latency_ms p) @ '' ms'')"

definition probe_loss_text :: "target_probe \<Rightarrow> string" where
  "probe_loss_text p =
     (case np_packet_loss p of Some q \<Rightarrow> show_rat q @ ''%'' | None \<Rightarrow> ''N/A'')"

definition gateway_latency_text :: "pillar \<Rightarrow> string" where
  "gateway_latency_text g = (if pi_latency_ms g > 0 then show_fixed 1 (pi_latency_ms g) else ''< 1'')"

definition no_targets_shown :: "server_page \<Rightarrow> bool" where
  "no_targets_shown s \<longleftrightarrow>
     (case netReport s of Some r \<Rightarrow> dr_gateway r = None \<and> groupTags s = [] | None \<Rightarrow> False)"

definition evaluating_shown :: "server_page \<Rightarrow> bool" where
  "evaluating_shown s \<longleftrightarrow> netReport s = None \<and> \<not> netReportFailed s"

definition gateway_ip_text :: "server_page \<Rightarrow> view \<Rightarrow> string" where
  "gateway_ip_text s v =
     str_or (opt_or (map_option nd_default_gateway (v_net v)) [])
       (opt_or (Option.bind (netReport s) dr_telemetry_gateway) ''Default Gateway'')"

definition interface_rates :: "net_interface \<Rightarrow> string list" where
  \<comment> \<open>rates, drops since the last sample and throughput of a row\<close>
  "interface_rates i =
     [show_fixed 1 (ni_drop_rate i) @ ''/m'', show_fixed 1 (ni_error_rate i) @ ''/m'',
      CHR ''+'' # show_nat (ni_delta_drop_in i + ni_delta_drop_out i) @ '' drops'',
      ''RX: '' @ server_formatBytes (ni_bytes_recv i) @ '' / TX: '' @ server_formatBytes (ni_bytes_sent i)]"

definition interface_addresses :: "net_interface \<Rightarrow> string" where
  "interface_addresses i =
     (case ni_ip_addresses i of Some (a # as) \<Rightarrow> join '', '' (a # as) | _ \<Rightarrow> ''N/A'')"

definition shown_ip :: "view \<Rightarrow> string" where
  "shown_ip v =
     str_or (sd_ip_address (v_server v))
       (opt_or (map_option hi_public_ip (Option.bind (v_snap v) sn_system_info)) ''Unknown IP'')"

definition shown_uptime :: "view \<Rightarrow> string" where
  "shown_uptime v =
     (case Option.bind (v_snap v) sn_system_info of
        Some h \<Rightarrow> (if hi_uptime h \<noteq> 0 then formatUptime (hi_uptime h) else dash)
      | None \<Rightarrow> dash)"

definition net_tab_mark :: "view \<Rightarrow> string option" where
  \<comment> \<open>the dot on the tab's label\<close>
  "net_tab_mark v =
     (case v_net v of
        Some d \<Rightarrow> (if nd_status d = ''critical'' then Some ''Network Critical Alert''
                   else if nd_status d = ''warning'' then Some ''Network Warning'' else None)
      | None \<Rightarrow> None)"

section \<open>Containers\<close>

definition containers :: "view \<Rightarrow> docker_container list" where
  "containers v = or_empty (Option.bind (v_snap v) sn_docker_containers)"

definition running_containers :: "view \<Rightarrow> nat" where
  "running_containers v = length (filter (\<lambda>c. dc_state c = ''running'') (containers v))"

definition container_actions :: "docker_container \<Rightarrow> string list" where
  "container_actions c =
     (if dc_state c = ''running'' then [''docker_restart'', ''docker_stop''] else [''docker_start'']) @
     [''docker_logs'']"

end
