(* ===== verification/ServerDetailProps.thy ===== *)
theory ServerDetailProps
  imports ServerView "HOL-Library.Multiset"
begin

text \<open>
  Properties of the page of one server: when a terminal can be opened, what the service controls
  send, the bounds of a service action and what it changes, the update banner, the container logs
  and the chips of the network tab.
\<close>

section \<open>Terminal\<close>

text \<open>
  The terminal is offered exactly when the page has no reason against it: the condition of the
  button and the chain of explanations are written separately in the code and agree in every
  state, and an offered terminal has an online agent that reports its channel and runs on a host
  that supports it.
\<close>

theorem terminal_gate:
  "(terminalCanAttempt v \<longleftrightarrow> terminalDisabledReason v = None) \<and>
   (terminalDisabledReason v = None \<longleftrightarrow>
      online v \<and> terminal_version_ok v \<and>
      (field (v_info v) ''terminal_channel_connected'' \<in> Some ` {JBool True, JBool False}) \<and>
      (field (v_info v) ''terminal_supported'' = Some (JBool True) \<or>
       \<not> is_boolean (field (v_info v) ''terminal_supported'') \<and> v_family v = OSLinux)) \<and>
   terminalDisabledReason v \<noteq> Some []"
proof -
  have bool: "is_boolean j \<longleftrightarrow> j \<in> Some ` {JBool True, JBool False}" for j
    by (auto simp: is_boolean_def split: option.splits json.splits)
  have unsupported: "\<not> terminalEnvironmentUnsupported v \<longleftrightarrow>
      field (v_info v) ''terminal_supported'' = Some (JBool True) \<or>
      \<not> is_boolean (field (v_info v) ''terminal_supported'') \<and> v_family v = OSLinux"
    by (auto simp: terminalEnvironmentUnsupported_def is_boolean_def split: option.splits json.splits)
  have none: "terminalDisabledReason v = None \<longleftrightarrow>
      \<not> terminalEnvironmentUnsupported v \<and> online v \<and> terminal_version_ok v \<and> terminalChannelReported v"
    and some: "terminalDisabledReason v \<noteq> Some []"
    by (simp_all add: terminalDisabledReason_def)
  show ?thesis
    using some unfolding terminalCanAttempt_def none
    by (simp only: unsupported terminalChannelReported_def bool) blast
qed

section \<open>Service controls\<close>

lemma enabled_control:
  assumes "\<not> action_disabled v x a"
  shows "online v" "supportsServiceControls v" "ss_source x = Some (serviceManager (v_family v))"
    "ss_status x = (if a = Start then ''stopped'' else if a = Restart then ss_status x else ''running'')"
    "ss_status x \<in> {''running'', ''stopped''}"
  using assms by (cases a; auto simp: serviceIsControllable_def)+

lemma manager_nonempty [simp]: "serviceManager f \<noteq> []"
  by (cases f) simp_all

definition payload_of :: "service_status \<Rightarrow> json" where
  "payload_of x = JObj [(''service_name'', JStr (ss_name x)), (''service_manager'', JStr (opt_or (ss_source x) []))]"

text \<open>
  C26. What a service button does: pressing an enabled button and confirming sends one task, of that
  action, for that service, to the service manager of the host's operating system; only a stopped
  service is started, only a running one is stopped or reloaded, and never one of Windows is
  reloaded. A disabled button opens nothing, and a viewer's confirmation sends nothing.
\<close>

theorem service_control_exact:
  fixes s :: server_page
  assumes "\<not> action_disabled v x a"
  defines "t \<equiv> click_action v x a s"
  shows "online v \<and> supportsServiceControls v \<and>
         (ss_status x = ''running'' \<or> ss_status x = ''stopped'' \<and> a \<in> set [Start, Restart]) \<and>
         (a = Start \<longrightarrow> ss_status x = ''stopped'') \<and> (a = Reload \<longrightarrow> v_family v \<noteq> OSWindows) \<and>
         handleServiceAction_begin stringify i t =
           (if userRole s = ''viewer''
            then (toast ''System service actions require Operator or Admin role permission.'' t, None)
            else (t\<lparr>serviceActionBusy := True\<rparr>,
                  Some (request_send ''POST'' (''/servers/'' @ i @ ''/tasks'')
                    (JObj [(''type'', JStr (''service_'' @ action_name a)),
                           (''payload'', JStr (stringify (JObj
                              [(''service_name'', JStr (ss_name x)),
                               (''service_manager'', JStr (serviceManager (v_family v)))]))),
                           (''timeout_seconds'', JNum 90)]))))"
proof -
  note ctl = enabled_control [OF assms(1)]
  have t: "serviceActionRequest t = Some (a, x)" "userRole t = userRole s"
    using assms(1) by (simp_all add: t_def click_action_def)
  have "handleServiceAction_begin stringify i t =
      (if userRole s = ''viewer''
       then (toast ''System service actions require Operator or Admin role permission.'' t, None)
       else (t\<lparr>serviceActionBusy := True\<rparr>, Some (service_request stringify i a x)))"
    by (simp add: handleServiceAction_begin_def t ctl isViewer_def)
  moreover have "a = Reload \<longrightarrow> v_family v \<noteq> OSWindows"
    using assms(1) ctl(3) by auto
  ultimately show ?thesis
    using ctl by (cases a) (auto simp: service_request_def tasks_endpoint_def str_or_def)
qed

definition demo_view :: view where
  \<comment> \<open>an online Linux host with an agent of version 1.5.0\<close>
  "demo_view =
     \<lparr>v_server =
        \<lparr>sd_id = ''a'', sd_name = ''web'', sd_status = ''online'', sd_ip_address = [],
         sd_latest_agent_version = Some ''1.5.0'', sd_update_available = False,
         sd_auto_update_agent = False, sd_active_task = None,
         sd_os_info = None, sd_snapshot = None, sd_inventory = None,
         sd_inventory_updated_at = None, sd_provider = None, sd_region = None, sd_environment = None\<rparr>,
      v_snap = None, v_inv = None,
      v_info = JObj [(''os_family'', JStr ''linux''), (''version'', JStr ''1.5.0'')]\<rparr>"

definition demo_service :: service_status where
  "demo_service =
     \<lparr>ss_name = ''nginx'', ss_display_name = None, ss_status = ''running'', ss_sub_status = None,
      ss_startup_type = None, ss_source = Some ''systemd'', ss_description = None,
      ss_last_checked_at = None\<rparr>"

lemma demo_enabled: "\<not> action_disabled demo_view demo_service Reload" "v_family demo_view = OSLinux"
  by code_simp+

theorem service_control_exact_witness:
  "snd (handleServiceAction_begin (\<lambda>j. ''p'') ''a''
     (click_action demo_view demo_service Reload (init_server_page ''admin''))) =
   Some (request_send ''POST'' ''/servers/a/tasks''
     (JObj [(''type'', JStr ''service_reload''), (''payload'', JStr ''p''),
            (''timeout_seconds'', JNum 90)]))"
  using service_control_exact [OF demo_enabled(1), of "\<lambda>j. ''p''" "''a''" "init_server_page ''admin''"]
  by (simp add: init_server_page_def)

section \<open>The course of a service action\<close>

lemma poll_service_sent: "snd (poll_service replies) \<le> 45"
  using poll_sent [of service_ended "\<lambda>k. map_outcome Some (replies k)" SERVICE_POLLS 0 None]
  by (simp add: poll_service_def SERVICE_POLLS_def)

definition only_service_changed ::
  "service_status \<Rightarrow> service_status list option \<Rightarrow> service_status list option \<Rightarrow> bool" where
  \<comment> \<open>the same entries in the same places, up to those of that name and manager\<close>
  "only_service_changed x old new \<longleftrightarrow>
     rel_option (list_all2 (\<lambda>a b. b = a \<or> ss_name a = ss_name x \<and> ss_source a = ss_source x)) old new"

lemma only_service_changed_refl: "only_service_changed x o1 o1"
  by (cases o1) (simp_all add: only_service_changed_def list_all2_same)

lemma replace_service_only: "only_service_changed x xs (map_option (replace_service x new) xs)"
  by (cases xs) (simp_all add: only_service_changed_def replace_service_def list_all2_conv_all_nth)

definition service_success :: "update_task outcome \<Rightarrow> (nat \<Rightarrow> update_task outcome) \<Rightarrow> bool" where
  \<comment> \<open>the task was accepted and an answer within the attempts says it is completed\<close>
  "service_success task_reply replies \<longleftrightarrow>
     (\<exists>task r. task_reply = Inr task \<and> fst (poll_service replies) = Inr (Some r) \<and> ut_status r = ''completed'')"

lemma service_finish_cases:
  fixes parse_result a x task_reply replies s
  defines "t \<equiv> handleServiceAction_finish parse_result a x task_reply replies s"
  shows "service_success task_reply replies \<Longrightarrow>
           \<exists>r. t = (service_completed parse_result a x r s)\<lparr>serviceActionBusy := False\<rparr>"
    and "\<not> service_success task_reply replies \<Longrightarrow> \<exists>m. t = (toast m s)\<lparr>serviceActionBusy := False\<rparr>"
proof -
  show "\<exists>r. t = (service_completed parse_result a x r s)\<lparr>serviceActionBusy := False\<rparr>"
    if "service_success task_reply replies"
    using that by (auto simp: service_success_def t_def handleServiceAction_finish_def)
  show "\<exists>m. t = (toast m s)\<lparr>serviceActionBusy := False\<rparr>" if "\<not> service_success task_reply replies"
    using that
    by (cases task_reply; cases "fst (poll_service replies)")
      (auto simp: service_success_def t_def handleServiceAction_finish_def split: option.split)
qed

lemma service_completed_fields:
  "serviceActionRequest (service_completed parse_result a x r s) = None"
  "only_service_changed x (Option.bind (snap s) sn_services)
     (Option.bind (snap (service_completed parse_result a x r s)) sn_services)"
  "map_option (\<lambda>n. n\<lparr>sn_services := None\<rparr>) (snap (service_completed parse_result a x r s)) =
     map_option (\<lambda>n. n\<lparr>sn_services := None\<rparr>) (snap s)"
  by (cases "snap s";
      auto simp: service_completed_def toast_def only_service_changed_refl replace_service_only
        split: sum.split option.split)+

text \<open>
  C27. A service action is bounded and local whatever the server answers: at most 45 requests for the
  state of the task, the button free at the end, the dialog closed exactly when the task was
  reported completed within the attempts, and of the snapshot nothing changed but, in its place, the
  entry of the addressed service under the addressed manager.
\<close>

theorem service_action_bounded:
  fixes parse_result a x task_reply replies s
  defines "t \<equiv> handleServiceAction_finish parse_result a x task_reply replies s"
  shows "snd (poll_service replies) \<le> 45 \<and> \<not> serviceActionBusy t \<and>
         serviceActionRequest t =
           (if service_success task_reply replies then None else serviceActionRequest s) \<and>
         only_service_changed x (Option.bind (snap s) sn_services) (Option.bind (snap t) sn_services) \<and>
         map_option (\<lambda>n. n\<lparr>sn_services := None\<rparr>) (snap t) = map_option (\<lambda>n. n\<lparr>sn_services := None\<rparr>) (snap s)"
proof (cases "service_success task_reply replies")
  case True
  then obtain r where "t = (service_completed parse_result a x r s)\<lparr>serviceActionBusy := False\<rparr>"
    using service_finish_cases(1) unfolding t_def by blast
  with True show ?thesis by (simp add: poll_service_sent service_completed_fields)
next
  case False
  then obtain m where "t = (toast m s)\<lparr>serviceActionBusy := False\<rparr>"
    using service_finish_cases(2) unfolding t_def by blast
  with False show ?thesis by (simp add: poll_service_sent toast_def only_service_changed_refl)
qed

section \<open>The update banner\<close>

text \<open>
  The banner that holds the update button is never shown together with a confirmation, although
  both its text and its button have one, and a page that says the agent must be updated does not
  hold the button.  Without an available update every task counts as confirmed, a failed one too.
\<close>

lemma banner_never_confirms:
  "banner_shown v \<Longrightarrow> \<not> agentUpdateCompleted s v \<and> \<not> update_required_shown v"
  "agentUpdateTask s = Some t \<Longrightarrow> \<not> updateAvailable v \<Longrightarrow> agentUpdateCompleted s v \<and> \<not> agentUpdateFailed s v"
  by (simp_all add: banner_shown_def agentUpdateCompleted_def update_required_shown_def agentUpdateFailed_def)

text \<open>An enabled update button sends the task, unless the user is a viewer.\<close>

lemma update_button_sends:
  assumes "update_button_enabled s v" and "server s = Some d" and "\<not> isViewer s"
  shows "\<not> agentUpdateInProgress s" "online v"
    "snd (queueAgentUpdate_begin s) = Some (request_send ''POST'' (tasks_endpoint (sd_id d)) (update_task_body ''{}''))"
  using assms by (auto simp: update_button_enabled_def queueAgentUpdate_begin_def)

section \<open>Container logs\<close>

text \<open>
  The timer that waits for the logs of a container does not look at the dialog: its last answer
  opens the dialog of that container, after it was closed as well as over the logs of another.
\<close>

lemma closed_logs_reopen:
  assumes "is_final_status (ut_status r)"
  shows "lm_isOpen (logsModal (fst (pollLogs_tick c (Inr r) (closeLogs s)))) \<and>
         lm_containerId (logsModal (fst (pollLogs_tick c (Inr r) s))) = c \<and>
         \<not> snd (pollLogs_tick c (Inr r) s)"
  using assms
  by (auto simp: pollLogs_tick_def Let_def final_status_cases status_kinds_disjoint)

section \<open>The network tab\<close>

lemma discovered_cover: "tag_of ` set (allProbes s) \<subseteq> set (discoveredTags s)"
  by (simp add: discoveredTags_def)

lemma distinct_discoveredTags: "distinct (discoveredTags s)"
  by (simp add: discoveredTags_def)

text \<open>
  The chips of the network tab: their counts add up to the number of probes, and choosing a chip
  shows as many probes as the chips of all spellings of its tag count together, since the count
  tells upper from lower case and the filter does not; a tag spelt 'all' shows everything.
\<close>

theorem chips_add_up:
  "sum_list (map (tag_count s) (discoveredTags s)) = length (allProbes s) \<and>
   length (filteredProbes (click_tag tag s)) =
     (if tag = ''all'' then length (allProbes s)
      else sum_list (map (tag_count s) (filter (\<lambda>u. to_lower u = to_lower tag) (discoveredTags s))))"
proof -
  note sums = counts_add_up [OF distinct_discoveredTags discovered_cover]
  have "allProbes (s\<lparr>netTargetFilter := t\<rparr>) = allProbes s" for t by (simp add: allProbes_def)
  then have "length (filteredProbes (click_tag tag s)) =
      (if tag = ''all'' then length (allProbes s)
       else length (filter (\<lambda>p. to_lower (tag_of p) = to_lower tag) (allProbes s)))"
    by (simp add: filteredProbes_def click_tag_def)
  moreover have "sum_list (map (tag_count s) (discoveredTags s)) = length (allProbes s)"
    using sums [of s "\<lambda>_. True"] by (simp add: tag_count_def)
  moreover have "sum_list (map (tag_count s) (filter (\<lambda>u. to_lower u = to_lower tag) (discoveredTags s))) =
      length (filter (\<lambda>p. to_lower (tag_of p) = to_lower tag) (allProbes s))"
    using sums [of s "\<lambda>u. to_lower u = to_lower tag"] by (simp add: tag_count_def)
  ultimately show ?thesis by simp
qed

section \<open>Processes\<close>

lemma sortedProcesses_perm:
  "mset (sortedProcesses s) = mset (or_empty (Option.bind (snap s) sn_top_processes))"
  by (simp add: sortedProcesses_def Let_def)

lemma sortedProcesses_sorted:
  "processSortField s = SortCpu \<Longrightarrow> processSortOrder s = Desc \<Longrightarrow>
     sorted (map (\<lambda>p. - tp_cpu p) (sortedProcesses s))"
  by (simp add: sortedProcesses_def Let_def)

lemma click_sort_other: "processSortField s \<noteq> f \<Longrightarrow> click_sort f (click_sort f s) = s\<lparr>processSortField := f, processSortOrder := Asc\<rparr>"
  by (simp add: click_sort_def)

lemma blank_network_tab:
  \<comment> \<open>a first diagnosis that fails shows neither progress nor a message\<close>
  "netReport s = None \<Longrightarrow> \<not> evaluating_shown (diagnose_finish True (Inl e) s) \<and>
     \<not> no_targets_shown (diagnose_finish True (Inl e) s) \<and> allProbes (diagnose_finish True (Inl e) s) = []"
  by (simp add: evaluating_shown_def diagnose_finish_def no_targets_shown_def allProbes_def)

end
