(* ===== verification/ServerPages.thy ===== *)
theory ServerPages
  imports Servers ServerDetailProps
begin

text \<open>
  The server list and the page of one server side by side: both derive the state of an agent
  update from the answers of the same control plane, with code written twice
  (\<open>dashboard/servers/page.tsx\<close>, \<open>dashboard/servers/[id]/page.tsx\<close>).
\<close>

definition same_server :: "server_record \<Rightarrow> server_details \<Rightarrow> bool" where
  \<comment> \<open>the two answers describe one server in one state\<close>
  "same_server r d \<longleftrightarrow>
     sr_id r = sd_id d \<and> sr_status r = sd_status d \<and> sr_update_available r = sd_update_available d \<and>
     sr_latest_agent_version r = sd_latest_agent_version d \<and> sr_active_task r = sd_active_task d"

lemma merge_task_other: "sr_id r \<noteq> i \<Longrightarrow> merge_task r m i = m i"
  by (auto simp: merge_task_def split: option.split)

lemma fold_merge_other: "i \<notin> sr_id ` set rs \<Longrightarrow> fold merge_task rs m i = m i"
  by (induction rs arbitrary: m) (auto simp: merge_task_other)

lemma fold_merge_task:
  assumes "distinct (map sr_id rs)" and "r \<in> set rs"
  shows "fold merge_task rs m (sr_id r) = merge_task r m (sr_id r)"
  using assms
proof (induction rs arbitrary: m)
  case Nil
  then show ?case by simp
next
  case (Cons a rs)
  show ?case
  proof (cases "a = r")
    case True
    with Cons.prems show ?thesis by (simp add: fold_merge_other)
  next
    case False
    with Cons.prems have "r \<in> set rs" "sr_id a \<noteq> sr_id r" by auto
    with Cons show ?thesis by (simp add: merge_task_def merge_task_other split: option.split)
  qed
qed

definition listed_task :: "servers_page \<Rightarrow> server_record \<Rightarrow> update_task option" where
  \<comment> \<open>the task a row of the list shows\<close>
  "listed_task s r = (case agentUpdateTasks s (sr_id r) of Some t \<Rightarrow> Some t | None \<Rightarrow> sr_active_task r)"

lemma loaded_task:
  "agentUpdateTask (fetchServer_finish parse_snapshot parse_inventory (Inr (Some d)) s) = sd_active_task d"
  by (simp add: fetchServer_finish_def read_snapshot_def read_inventory_def split: sum.split option.split)

lemma listed_after_load:
  assumes "distinct (map sr_id rs)" and "r \<in> set rs"
  shows "listed_task (fetchServers_finish silent (Inr (Some rs)) s) r =
     (case sr_active_task r of
        Some t \<Rightarrow> Some t
      | None \<Rightarrow> (case agentUpdateTasks s (sr_id r) of
                   Some t \<Rightarrow> if is_active_status (ut_status t) then Some t else None
                 | None \<Rightarrow> None))"
  by (simp add: listed_task_def fetchServers_finish_def fold_merge_task [OF assms] merge_task_def
      split: option.split)

lemma row_flags:
  "row_updateInProgress (server_row_of json_parse s r) =
     (case listed_task s r of Some t \<Rightarrow> is_active_status (ut_status t) | None \<Rightarrow> False)"
  "row_updateStalled (server_row_of json_parse s r) \<longleftrightarrow>
     map_option ut_status (listed_task s r) = Some ''completed'' \<and> sr_update_available r"
  "row_updateFailed (server_row_of json_parse s r) \<longleftrightarrow> sr_update_available r \<and>
     (case listed_task s r of Some t \<Rightarrow> is_failed_status (ut_status t) \<or> ut_status t = ''completed'' | None \<Rightarrow> False)"
  by (auto simp: server_row_of_def Let_def listed_task_def split: option.splits)

text \<open>
  C28. The list and the page tell the same story of an agent update: loaded with the same state of the
  server, which reports a task, a row of the list and the page agree that an update is running, and,
  where the new version is named, also that it is stalled or failed. Where the control plane
  reports no task, the page shows none while the list goes on showing a task it holds as queued,
  and where the new version is not named, the list still offers the update the page does not.
\<close>

theorem list_and_page_agree:
  fixes s :: servers_page and p :: server_page and silent parse_snapshot parse_inventory
  assumes "distinct (map sr_id rs)" and "r \<in> set rs" and "same_server r d" and "v_server v = d"
  defines "sl \<equiv> fetchServers_finish silent (Inr (Some rs)) s"
    and "sp \<equiv> fetchServer_finish parse_snapshot parse_inventory (Inr (Some d)) p"
  shows "(sr_active_task r \<noteq> None \<longrightarrow>
            row_updateInProgress (server_row_of json_parse sl r) = agentUpdateInProgress sp \<and>
            (latestAgentVersion v \<noteq> [] \<longrightarrow>
               row_updateStalled (server_row_of json_parse sl r) = agentUpdateStalled sp v \<and>
               row_updateFailed (server_row_of json_parse sl r) = agentUpdateFailed sp v)) \<and>
         (sr_active_task r = None \<longrightarrow>
            \<not> agentUpdateInProgress sp \<and>
            row_updateInProgress (server_row_of json_parse sl r) =
              (case agentUpdateTasks s (sr_id r) of Some t \<Rightarrow> is_active_status (ut_status t) | None \<Rightarrow> False)) \<and>
         (latestAgentVersion v = [] \<longrightarrow> \<not> banner_shown v)"
proof -
  have page: "agentUpdateTask sp = sr_active_task r"
    using assms(3) by (simp add: sp_def loaded_task same_server_def)
  have upd: "sr_update_available r = sd_update_available (v_server v)"
    using assms(3,4) by (simp add: same_server_def)
  note listed = listed_after_load [OF assms(1,2), of silent s, folded sl_def]
  show ?thesis
    by (auto simp: row_flags listed page upd agentUpdateInProgress_def agentUpdateStalled_def
        agentUpdateFailed_def updateAvailable_def banner_shown_def split: option.splits)
qed

definition demo_record :: "update_task option \<Rightarrow> server_record" where
  "demo_record t =
     \<lparr>sr_id = ''a'', sr_name = ''web'', sr_status = ''online'', sr_ip_address = None, sr_group_name = None,
      sr_tags = None, sr_provider = None, sr_region = None, sr_environment = None, sr_os_info = None,
      sr_snapshot = None, sr_inventory = None, sr_version = None, sr_update_available = True,
      sr_latest_agent_version = Some ''1.5.13'', sr_auto_update_agent = False, sr_deletion_status = None,
      sr_active_task = t\<rparr>"

definition demo_details :: "update_task option \<Rightarrow> server_details" where
  "demo_details t =
     \<lparr>sd_id = ''a'', sd_name = ''web'', sd_status = ''online'', sd_ip_address = [],
      sd_latest_agent_version = Some ''1.5.13'', sd_update_available = True,
      sd_auto_update_agent = False, sd_active_task = t,
      sd_os_info = None, sd_snapshot = None, sd_inventory = None,
      sd_inventory_updated_at = None, sd_provider = None, sd_region = None, sd_environment = None\<rparr>"

definition queued_task :: update_task where
  "queued_task = \<lparr>ut_id = ''t'', ut_status = ''pending'', ut_result = None\<rparr>"

text \<open>A task the list holds as queued is still shown there after the page has stopped showing it.\<close>

theorem list_and_page_agree_witness:
  "row_updateInProgress
     (server_row_of (\<lambda>x. None)
        (fetchServers_finish True (Inr (Some [demo_record None]))
           ((init_servers ''admin'')\<lparr>agentUpdateTasks := [''a'' \<mapsto> queued_task]\<rparr>)) (demo_record None)) \<and>
   \<not> agentUpdateInProgress
       (fetchServer_finish (\<lambda>x. Inl NonError) (\<lambda>x. Inl NonError) (Inr (Some (demo_details None)))
          ((init_server_page ''admin'')\<lparr>agentUpdateTask := Some queued_task\<rparr>))"
proof -
  let ?v = "\<lparr>v_server = demo_details None, v_snap = None, v_inv = None, v_info = JObj []\<rparr>"
  have "same_server (demo_record None) (demo_details None)"
    by (simp add: same_server_def demo_record_def demo_details_def)
  moreover have "sr_active_task (demo_record None) = None" "sr_id (demo_record None) = ''a''"
    by (simp_all add: demo_record_def)
  moreover have "is_active_status (ut_status queued_task)"
    by (simp add: queued_task_def is_active_status_def)
  ultimately show ?thesis
    using list_and_page_agree [of "[demo_record None]" "demo_record None" "demo_details None" ?v
        "\<lambda>x. None" True "(init_servers ''admin'')\<lparr>agentUpdateTasks := [''a'' \<mapsto> queued_task]\<rparr>"
        "\<lambda>x. Inl NonError" "\<lambda>x. Inl NonError"
        "(init_server_page ''admin'')\<lparr>agentUpdateTask := Some queued_task\<rparr>"]
    by simp
qed

end
