(* ===== verification/Overview.thy ===== *)
theory Overview
  imports Units LatestWins
begin

text \<open>
  The landing page of the dashboard (\<open>dashboard/page.tsx\<close>): its requests with their
  \<open>AbortController\<close>s, the poll and the choice of the range, the cards, the health ring, the rows
  of servers and incidents.  A controller is a number.  Clock times in the browser's locale are
  not modelled: \<open>show_time\<close> stands for \<open>formatChartTime\<close>, and relative times are the number and
  the unit handed to \<open>Intl.RelativeTimeFormat\<close>.
\<close>

section \<open>Entities and state\<close>

datatype dashboard_range = D1H | D2H | D12H | D24H

record dashboard_server =
  ds_id :: string
  ds_name :: string
  ds_ip_address :: "string option"
  ds_status :: string
  ds_cpu_usage :: rat
  ds_memory_used :: rat
  ds_memory_total :: rat
  ds_has_metrics :: bool
  ds_last_seen_at :: "string option"

record dashboard_metric =
  dm_bucket_time :: string
  dm_cpu_usage :: rat
  dm_memory_usage :: rat

record dashboard_incident =
  di_rule_id :: string
  di_server_id :: string
  di_rule_name :: string
  di_server_name :: string
  di_metric :: string
  di_operator :: string
  di_threshold :: rat
  di_status :: string
  di_last_triggered_at :: "string option"

record dashboard_summary =
  du_total_servers :: nat
  du_online_servers :: nat
  du_offline_servers :: nat
  du_warning_servers :: nat
  du_average_cpu :: rat
  du_average_memory :: rat
  du_memory_used :: nat
  du_memory_total :: nat
  du_open_incidents :: nat

record dashboard_overview =
  do_generated_at :: string
  do_range :: string
  do_summary :: dashboard_summary
  do_servers :: "dashboard_server list"
  do_metrics :: "dashboard_metric list"
  do_incidents :: "dashboard_incident list"

record chart_point =
  cp_t :: string
  cp_cpu :: rat
  cp_ram :: rat

definition POLL_INTERVAL_MS :: nat where
  "POLL_INTERVAL_MS = 15000"

record overview_page =
  overview :: "dashboard_overview option"
  loading :: bool
  refreshing :: bool
  load_error :: string
  range_sel :: dashboard_range
  activeRequest :: "nat option"
  hasLoaded :: bool
  flights :: "nat \<rightharpoonup> dashboard_range"
  nextController :: nat
  toLogin :: bool

definition init_overview :: overview_page where
  "init_overview =
     \<lparr>overview = None, loading = True, refreshing = False, load_error = [], range_sel = D2H,
      activeRequest = None, hasLoaded = False, flights = Map.empty, nextController = 0, toLogin = False\<rparr>"

section \<open>Requests\<close>

fun range_param :: "dashboard_range \<Rightarrow> string" where
  "range_param D1H = ''1h''"
| "range_param D2H = ''2h''"
| "range_param D12H = ''12h''"
| "range_param D24H = ''24h''"

definition overview_request :: "dashboard_range \<Rightarrow> request" where
  "overview_request r = request_get (''/dashboard/overview?range='' @ range_param r)"

definition fetchOverview :: "bool \<Rightarrow> overview_page \<Rightarrow> overview_page" where
  \<comment> \<open>up to the call; replacing a request aborts its controller\<close>
  "fetchOverview replaceActiveRequest s =
     (if activeRequest s \<noteq> None \<and> \<not> replaceActiveRequest then s
      else s\<lparr>activeRequest := Some (nextController s),
             flights := (flights s)(nextController s \<mapsto> range_sel s),
             nextController := Suc (nextController s),
             refreshing := hasLoaded s \<or> refreshing s,
             loading := \<not> hasLoaded s \<or> loading s\<rparr>)"

datatype overview_reply = Overview dashboard_overview | Aborted | Failed thrown

definition settle :: "nat \<Rightarrow> overview_page \<Rightarrow> overview_page" where
  \<comment> \<open>the \<open>finally\<close> block\<close>
  "settle c s =
     (if activeRequest s = Some c then s\<lparr>activeRequest := None, loading := False, refreshing := False\<rparr>
      else s)"

definition fetchOverview_finish :: "nat \<Rightarrow> overview_reply \<Rightarrow> overview_page \<Rightarrow> overview_page" where
  "fetchOverview_finish c reply s =
     settle c
       (case reply of
          Overview d \<Rightarrow> (if activeRequest s \<noteq> Some c then s
                         else s\<lparr>overview := Some d, load_error := [], hasLoaded := True\<rparr>)
        | Aborted \<Rightarrow> s
        | Failed e \<Rightarrow>
            (let message = errorMessage e ''Unable to load dashboard data''
             in if is_auth_message message then s\<lparr>toLogin := True\<rparr> else s\<lparr>load_error := message\<rparr>))"

definition setRange :: "dashboard_range \<Rightarrow> overview_page \<Rightarrow> overview_page" where
  \<comment> \<open>the clean-up of the effect; the effect's timer then calls \<open>fetchOverview True\<close>\<close>
  "setRange r s = (if r = range_sel s then s else s\<lparr>range_sel := r, activeRequest := None\<rparr>)"

section \<open>What the page derives\<close>

definition roundMetric :: "rat option \<Rightarrow> rat" where
  "roundMetric v = fixed 1 (case v of Some q \<Rightarrow> q | None \<Rightarrow> 0)"

definition formatPercent :: "rat option \<Rightarrow> string" where
  "formatPercent v = show_rat (roundMetric v) @ ''%''"

definition summary_field :: "(dashboard_summary \<Rightarrow> nat) \<Rightarrow> overview_page \<Rightarrow> nat" where
  \<comment> \<open>\<open>summary?.f ?? 0\<close>\<close>
  "summary_field f s = (case overview s of Some d \<Rightarrow> f (do_summary d) | None \<Rightarrow> 0)"

definition page_servers :: "overview_page \<Rightarrow> dashboard_server list" where
  "page_servers s = (case overview s of Some d \<Rightarrow> do_servers d | None \<Rightarrow> [])"

definition page_incidents :: "overview_page \<Rightarrow> dashboard_incident list" where
  "page_incidents s = (case overview s of Some d \<Rightarrow> do_incidents d | None \<Rightarrow> [])"

definition health_of :: "nat \<Rightarrow> nat \<Rightarrow> int" where
  "health_of n k = (if n > 0 then js_round (of_nat k / of_nat n * 100) else 0)"

definition health :: "overview_page \<Rightarrow> int" where
  "health s = health_of (summary_field du_total_servers s) (summary_field du_online_servers s)"

datatype tone = Good | Warning

definition getFleetStatus :: "nat \<Rightarrow> nat \<Rightarrow> nat \<Rightarrow> string \<times> tone" where
  "getFleetStatus n k incidents =
     (if n = 0 then (''No data'', Warning)
      else if incidents > 0 \<or> k < n then (''Attention'', Warning)
      else (''Operational'', Good))"

definition hasLiveMetrics :: "overview_page \<Rightarrow> bool" where
  "hasLiveMetrics s \<longleftrightarrow> list_ex (\<lambda>v. ds_status v = ''online'' \<and> ds_has_metrics v) (page_servers s)"

definition hasLiveMemory :: "overview_page \<Rightarrow> bool" where
  "hasLiveMemory s \<longleftrightarrow> summary_field du_memory_total s > 0"

definition chartData :: "(string \<Rightarrow> dashboard_range \<Rightarrow> string) \<Rightarrow> overview_page \<Rightarrow> chart_point list" where
  "chartData show_time s =
     map (\<lambda>m. \<lparr>cp_t = show_time (dm_bucket_time m) (range_sel s),
               cp_cpu = roundMetric (Some (dm_cpu_usage m)),
               cp_ram = roundMetric (Some (dm_memory_usage m))\<rparr>)
       (case overview s of Some d \<Rightarrow> do_metrics d | None \<Rightarrow> [])"

definition last_seven :: "'a list \<Rightarrow> 'a list" where
  \<comment> \<open>\<open>xs.slice(-7)\<close>\<close>
  "last_seven xs = drop (length xs - 7) xs"

definition cpuBars :: "(string \<Rightarrow> dashboard_range \<Rightarrow> string) \<Rightarrow> overview_page \<Rightarrow> rat list" where
  "cpuBars show_time s = map cp_cpu (last_seven (chartData show_time s))"

definition memoryBars :: "(string \<Rightarrow> dashboard_range \<Rightarrow> string) \<Rightarrow> overview_page \<Rightarrow> rat list" where
  "memoryBars show_time s = map cp_ram (last_seven (chartData show_time s))"

definition bar_height :: "rat \<Rightarrow> rat" where
  \<comment> \<open>the height of a bar of a card and the width of a load bar, in per cent\<close>
  "bar_height q = max 0 (min q 100)"

definition dash :: string where
  "dash = [char_of (226::nat), char_of (128::nat), char_of (148::nat)]"

record metric_card =
  mc_value :: string
  mc_note :: string
  mc_bars :: "rat list"
  mc_emptyLabel :: string

definition metric_cards ::
  "(string \<Rightarrow> dashboard_range \<Rightarrow> string) \<Rightarrow> overview_page \<Rightarrow> metric_card list" where
  "metric_cards show_time s =
     (let n = summary_field du_total_servers s;
          warning = summary_field du_warning_servers s;
          avg = (\<lambda>f. map_option (\<lambda>d. f (do_summary d)) (overview s))
      in [\<lparr>mc_value = show_nat (summary_field du_online_servers s) @ ''/'' @ show_nat n,
           mc_note = (if n > 0 then show_int (health s) @ ''% healthy heartbeats'' else ''No servers''),
           mc_bars = [], mc_emptyLabel = ''LIVE''\<rparr>,
          \<lparr>mc_value = (if hasLiveMetrics s then formatPercent (avg du_average_cpu) else dash),
           mc_note = (if hasLiveMetrics s then ''Online server average'' else ''No metrics''),
           mc_bars = map bar_height (cpuBars show_time s), mc_emptyLabel = ''NO DATA''\<rparr>,
          \<lparr>mc_value = (if hasLiveMemory s then formatPercent (avg du_average_memory) else dash),
           mc_note = (if hasLiveMemory s
                      then overview_formatBytes (summary_field du_memory_used s) @ '' / '' @
                           overview_formatBytes (summary_field du_memory_total s)
                      else ''No metrics''),
           mc_bars = map bar_height (memoryBars show_time s), mc_emptyLabel = ''NO DATA''\<rparr>,
          \<lparr>mc_value = show_nat (summary_field du_open_incidents s),
           mc_note = (if warning > 0 then show_nat warning @ '' affected servers'' else ''No firing alerts''),
           mc_bars = [], mc_emptyLabel = (if warning > 0 then ''ACTIVE'' else ''CLEAR'')\<rparr>])"

section \<open>Rows\<close>

datatype pressure = Critical | Elevated | Normal

definition load_bar :: "rat \<Rightarrow> rat \<times> pressure \<times> string" where
  \<comment> \<open>width, colour and text\<close>
  "load_bar q =
     (let normalized = bar_height q
      in (normalized, if normalized \<ge> 85 then Critical else if normalized \<ge> 70 then Elevated else Normal,
          show_rat (roundMetric (Some q)) @ ''%''))"

definition server_memory_percent :: "dashboard_server \<Rightarrow> rat" where
  "server_memory_percent v = (if ds_memory_total v > 0 then ds_memory_used v * 100 / ds_memory_total v else 0)"

definition server_loads :: "dashboard_server \<Rightarrow> ((rat \<times> pressure \<times> string) \<times> (rat \<times> pressure \<times> string)) option" where
  \<comment> \<open>the bars for CPU and memory, or dashes\<close>
  "server_loads v =
     (if ds_status v = ''online'' \<and> ds_has_metrics v
      then Some (load_bar (ds_cpu_usage v), load_bar (server_memory_percent v)) else None)"

definition shown_servers :: "overview_page \<Rightarrow> dashboard_server list" where
  "shown_servers s = take 6 (page_servers s)"

definition shown_incidents :: "overview_page \<Rightarrow> dashboard_incident list" where
  "shown_incidents s = take 4 (page_incidents s)"

definition incident_text :: "dashboard_incident \<Rightarrow> string" where
  "incident_text i =
     (if di_metric i = ''status'' then ''Heartbeat is over 60 seconds old''
      else to_upper (di_metric i) @ '' '' @ di_operator i @ '' '' @
           show_rat (roundMetric (Some (di_threshold i))) @ ''%'')"

definition incident_icon :: "string \<Rightarrow> string" where
  "incident_icon metric =
     (if metric = ''ram'' then ''Database'' else if metric = ''cpu'' then ''Cpu''
      else if metric = ''status'' then ''Wifi'' else ''CircleAlert'')"

datatype relative_time = Never | Unknown | Ago int string

definition relative_of :: "int \<Rightarrow> int \<times> string" where
  \<comment> \<open>the number and the unit for a distance in seconds\<close>
  "relative_of seconds =
     (let minutes = js_round (of_int seconds / 60); hours = js_round (of_int minutes / 60)
      in if \<bar>seconds\<bar> < 60 then (seconds, ''second'')
         else if \<bar>minutes\<bar> < 60 then (minutes, ''minute'')
         else if \<bar>hours\<bar> < 24 then (hours, ''hour'')
         else (js_round (of_int hours / 24), ''day''))"

definition formatRelativeTime ::
  "(string \<Rightarrow> rat option) \<Rightarrow> rat \<Rightarrow> string option \<Rightarrow> relative_time" where
  "formatRelativeTime date_ms now v =
     (if \<not> truthy v then Never
      else case date_ms (the v) of
             None \<Rightarrow> Unknown
           | Some t \<Rightarrow> (let (n, u) = relative_of (js_round ((t - now) / 1000)) in Ago n u))"

datatype page_message = Syncing | Unable string | Content

definition page_shown :: "overview_page \<Rightarrow> page_message" where
  "page_shown s =
     (if loading s \<and> overview s = None then Syncing
      else if overview s = None \<and> load_error s \<noteq> [] then Unable (load_error s)
      else Content)"

definition refresh_failed_note :: "overview_page \<Rightarrow> string option" where
  "refresh_failed_note s = (if load_error s \<noteq> [] then Some (''Latest refresh failed: '' @ load_error s) else None)"

section \<open>Steps\<close>

text \<open>\<open>answers r d\<close> says that the API may answer a request for range \<open>r\<close> with \<open>d\<close>.\<close>

inductive overview_step ::
  "(dashboard_range \<Rightarrow> dashboard_overview \<Rightarrow> bool) \<Rightarrow> overview_page \<Rightarrow> overview_page \<Rightarrow> bool"
  for answers where
  rng: "overview_step answers s (setRange r s)"
| refresh: "overview_step answers s (fetchOverview True s)"
| ticked: "overview_step answers s (fetchOverview False s)"
| answered: "flights s c = Some r \<Longrightarrow> answers r d \<Longrightarrow>
    overview_step answers s (fetchOverview_finish c (Overview d) s)"
| aborted: "flights s c \<noteq> None \<Longrightarrow> overview_step answers s (fetchOverview_finish c Aborted s)"
| failed: "flights s c \<noteq> None \<Longrightarrow> overview_step answers s (fetchOverview_finish c (Failed e) s)"

end
