(* ===== verification/OverviewProps.thy ===== *)
theory OverviewProps
  imports Overview
begin

text \<open>
  Properties of the landing page: it implements the abstract page of \<open>LatestWins\<close> that keeps what
  it shows, the figures of the fleet, and the bounds of its bars and relative times.
\<close>

section \<open>Refinement\<close>

definition ov_abs :: "overview_page \<Rightarrow> (dashboard_range, dashboard_overview) latest" where
  "ov_abs s = \<lparr>choice = range_sel s, waiting = (activeRequest s \<noteq> None), shown = overview s\<rparr>"

definition ov_inv :: "overview_page \<Rightarrow> bool" where
  \<comment> \<open>the active request asks for the present range, and controllers are numbered in order\<close>
  "ov_inv s \<longleftrightarrow>
     (\<forall>c. activeRequest s = Some c \<longrightarrow> flights s c = Some (range_sel s)) \<and>
     (\<forall>c. flights s c \<noteq> None \<longrightarrow> c < nextController s)"

definition ov_simulated ::
  "(dashboard_range \<Rightarrow> dashboard_overview \<Rightarrow> bool) \<Rightarrow> overview_page \<Rightarrow> overview_page \<Rightarrow> bool" where
  "ov_simulated answers s t \<longleftrightarrow>
     ov_abs t = ov_abs s \<or> latest_step answers False (ov_abs s) (ov_abs t)"

lemma ov_inv_settle: "ov_inv s \<Longrightarrow> ov_inv (settle c s)"
  by (simp add: ov_inv_def settle_def)

lemma ov_inv_frame [simp]:
  "ov_inv (s\<lparr>toLogin := b\<rparr>) = ov_inv s" "ov_inv (s\<lparr>load_error := e\<rparr>) = ov_inv s"
  "ov_inv (s\<lparr>overview := x, load_error := e, hasLoaded := h\<rparr>) = ov_inv s"
  by (simp_all add: ov_inv_def)

lemma inv_fetchOverview: "ov_inv s \<Longrightarrow> ov_inv (fetchOverview b s)"
  by (auto simp: ov_inv_def fetchOverview_def less_Suc_eq)

lemma ov_inv_step: "overview_step answers s t \<Longrightarrow> ov_inv s \<Longrightarrow> ov_inv t"
proof (induction rule: overview_step.induct)
  case (rng s r)
  then show ?case by (simp add: ov_inv_def setRange_def)
qed (auto simp: fetchOverview_finish_def Let_def ov_inv_settle inv_fetchOverview)

lemma ov_simulated_settle:
  assumes "ov_abs s' = ov_abs s"
  shows "ov_simulated answers s (settle c s')"
proof -
  have "ov_abs (settle c s') = ov_abs s \<or> ov_abs (settle c s') = (ov_abs s)\<lparr>waiting := False\<rparr>"
    unfolding assms [symmetric] by (simp add: settle_def ov_abs_def)
  then show ?thesis by (auto simp: ov_simulated_def intro: latest_step.give_up)
qed

lemma ov_simulated_fetch: "ov_simulated answers s (fetchOverview b s)"
proof -
  have "fetchOverview b s = s \<or> ov_abs (fetchOverview b s) = (ov_abs s)\<lparr>waiting := True\<rparr>"
    by (simp add: fetchOverview_def ov_abs_def)
  then show ?thesis by (auto simp: ov_simulated_def intro: latest_step.ask)
qed

lemma ov_simulated_range: "ov_simulated answers s (setRange r s)"
proof -
  have "setRange r s = s \<or>
      ov_abs (setRange r s) = (ov_abs s)\<lparr>choice := r, waiting := False,
        shown := (if False then None else shown (ov_abs s))\<rparr>"
    by (simp add: setRange_def ov_abs_def)
  then show ?thesis
    using latest_step.choose [where ok = answers and clears = False and v = "ov_abs s" and q = r and w = False]
    by (auto simp: ov_simulated_def)
qed

lemma ov_simulated_answer:
  assumes "ov_inv s" and "flights s c = Some r" and "answers r d"
  shows "ov_simulated answers s (fetchOverview_finish c (Overview d) s)"
proof (cases "activeRequest s = Some c")
  case True
  then have "range_sel s = r" using assms(1,2) by (auto simp: ov_inv_def)
  with True assms(3) have "waiting (ov_abs s)" "answers (choice (ov_abs s)) d"
    and "ov_abs (fetchOverview_finish c (Overview d) s) = (ov_abs s)\<lparr>waiting := False, shown := Some d\<rparr>"
    by (simp_all add: ov_abs_def fetchOverview_finish_def settle_def)
  then show ?thesis by (auto simp: ov_simulated_def intro: latest_step.receive)
next
  case False
  then show ?thesis by (simp add: ov_simulated_def fetchOverview_finish_def settle_def)
qed

lemma ov_simulated_step: "overview_step answers s t \<Longrightarrow> ov_inv s \<Longrightarrow> ov_simulated answers s t"
proof (induction rule: overview_step.induct)
  case (failed s c e)
  then show ?case
    by (simp add: fetchOverview_finish_def Let_def ov_simulated_settle ov_abs_def)
next
  case (aborted s c)
  then show ?case by (simp add: fetchOverview_finish_def ov_simulated_settle)
qed (auto intro: ov_simulated_range ov_simulated_fetch ov_simulated_answer)

definition ov_start :: "(dashboard_range, dashboard_overview) latest" where
  "ov_start = \<lparr>choice = D2H, waiting = False, shown = None\<rparr>"

interpretation ov: refinement init_overview "overview_step answers" ov_inv ov_start
    "latest_step answers False" ov_abs
  for answers
proof unfold_locales
  show "ov_inv init_overview" by (simp add: ov_inv_def init_overview_def)
  show "ov_abs init_overview = ov_start" by (simp add: ov_abs_def init_overview_def ov_start_def)
qed (auto intro: ov_inv_step dest: ov_simulated_step simp: ov_simulated_def)

text \<open>
  C19. The landing page implements the same contract, without clearing: each of its steps is one step
  of the abstract page or none, so an answer is taken only while one is awaited and only if it
  answers the present range; what is shown was given by the API as the answer to a request for
  some range, and the request that is still active asks for the range chosen now.
\<close>

theorem overview_refines_latest:
  assumes "reach init_overview (overview_step answers) s" and "overview_step answers s t"
  shows "reach ov_start (latest_step answers False) (ov_abs s) \<and>
         (ov_abs t = ov_abs s \<or> latest_step answers False (ov_abs s) (ov_abs t)) \<and>
         answers_some_choice answers (ov_abs t) \<and>
         (activeRequest s = None \<or> flights s (the (activeRequest s)) = Some (range_sel s))"
proof -
  have "reach init_overview (overview_step answers) t"
    using assms by (rule reach.further)
  then have "answers_some_choice answers (ov_abs t)"
    by (rule ov.safety_transfer)
      (simp add: ov_start_def answers_some_choice_def, rule keeping_is_safe)
  moreover have "ov_inv s" by (rule ov.reachable_inv [OF assms(1)])
  ultimately show ?thesis
    using ov.reachable_abs [OF assms(1)] ov.simulates [OF _ assms(2)]
    by (cases "activeRequest s") (auto simp: ov_inv_def)
qed

definition demo_overview :: dashboard_overview where
  "demo_overview =
     \<lparr>do_generated_at = ''t'', do_range = ''2h'',
      do_summary = \<lparr>du_total_servers = 201, du_online_servers = 200, du_offline_servers = 1,
        du_warning_servers = 0, du_average_cpu = 12, du_average_memory = 40, du_memory_used = 1,
        du_memory_total = 2, du_open_incidents = 0\<rparr>,
      do_servers = [], do_metrics = [], do_incidents = []\<rparr>"

definition demo_page :: overview_page where
  "demo_page = fetchOverview True init_overview"

theorem overview_refines_latest_witness:
  "shown (ov_abs (fetchOverview_finish 0 (Overview demo_overview) demo_page)) = Some demo_overview \<and>
   reach ov_start (latest_step (\<lambda>r d. d = demo_overview) False) (ov_abs demo_page)"
proof -
  let ?ok = "\<lambda>r d. d = demo_overview"
  have "reach init_overview (overview_step ?ok) demo_page"
    unfolding demo_page_def by (rule reach.further [OF reach.start]) (rule overview_step.refresh)
  moreover have "overview_step ?ok demo_page (fetchOverview_finish 0 (Overview demo_overview) demo_page)"
    by (rule overview_step.answered [of _ 0 D2H]) (simp_all add: demo_page_def fetchOverview_def init_overview_def)
  moreover have "overview (fetchOverview_finish 0 (Overview demo_overview) demo_page) = Some demo_overview"
    by (simp add: fetchOverview_finish_def settle_def demo_page_def fetchOverview_def init_overview_def)
  ultimately show ?thesis
    using overview_refines_latest [of ?ok demo_page] by (simp add: ov_abs_def)
qed

text \<open>
  A change of the range does not clear the chart: until an answer comes, and for good when the
  request fails, the points of the old range are drawn under the new one.
\<close>

lemma old_points_under_new_range:
  "overview (setRange r s) = overview s \<and>
   overview (fetchOverview_finish c (Failed e) (fetchOverview True (setRange r s))) = overview s"
  by (simp add: setRange_def fetchOverview_def fetchOverview_finish_def settle_def Let_def)

section \<open>Figures of the fleet\<close>

text \<open>
  The figures beside each other can contradict: the ring reads 100 per cent exactly when at most
  one server in 200 is offline, so a fleet of 201 servers with one offline is 100 per cent healthy
  and 'Attention'; otherwise the ring grows with the servers online, stays between 0 and 100, and
  the status is 'Operational' only for a fleet that is online as a whole and without incidents.
\<close>

theorem health_figures:
  assumes "k \<le> n" and "0 < n"
  shows "0 \<le> health_of n k \<and> health_of n k \<le> 100 \<and>
         (health_of n k = 100 \<longleftrightarrow> 200 * (n - k) \<le> n) \<and>
         (j \<le> k \<longrightarrow> health_of n j \<le> health_of n k) \<and>
         (snd (getFleetStatus n k i) = Good \<longleftrightarrow> k = n \<and> i = 0)"
proof -
  have pos: "(0 :: rat) < of_nat n" using assms(2) by simp
  have kn: "(of_nat k :: rat) \<le> of_nat n" using assms(1) by simp
  let ?q = "of_nat k / of_nat n * 100 :: rat"
  have q: "0 \<le> ?q" "?q \<le> 100" using pos kn by (simp_all add: divide_simps)
  have h: "health_of n k = js_round ?q" using assms(2) by (simp add: health_of_def)
  have "0 \<le> js_round ?q" "js_round ?q \<le> 100" using q unfolding js_round_def by linarith+
  moreover have "js_round ?q = 100 \<longleftrightarrow> 200 * (n - k) \<le> n"
  proof -
    have "js_round ?q = 100 \<longleftrightarrow> 199 / 2 \<le> ?q" using q unfolding js_round_def by linarith
    also have "\<dots> \<longleftrightarrow> 199 * (of_nat n :: rat) \<le> of_nat k * 200"
      using pos by (simp add: pos_le_divide_eq mult.commute)
    also have "\<dots> \<longleftrightarrow> (of_nat (199 * n) :: rat) \<le> of_nat (k * 200)" by simp
    also have "\<dots> \<longleftrightarrow> 199 * n \<le> k * 200" by (simp only: of_nat_le_iff)
    also have "\<dots> \<longleftrightarrow> 200 * (n - k) \<le> n" using assms(1) by (simp add: algebra_simps) linarith
    finally show ?thesis .
  qed
  moreover have "health_of n j \<le> health_of n k" if "j \<le> k"
  proof -
    have "of_nat j / of_nat n * 100 \<le> ?q" using that pos by (simp add: divide_simps)
    then show ?thesis using assms(2) unfolding health_of_def js_round_def by (simp add: floor_mono)
  qed
  moreover have "snd (getFleetStatus n k i) = Good \<longleftrightarrow> k = n \<and> i = 0"
    using assms by (auto simp: getFleetStatus_def)
  ultimately show ?thesis by (simp add: h)
qed

theorem health_figures_witness:
  "health_of 201 200 = 100 \<and> snd (getFleetStatus 201 200 0) = Warning"
  using health_figures [of 200 201 0 0] by (cases "snd (getFleetStatus 201 200 0)") auto

lemma bar_height_range: "0 \<le> bar_height q \<and> bar_height q \<le> 100"
  by (simp add: bar_height_def)

lemma relative_of_units:
  "snd (relative_of n) \<in> {''second'', ''minute'', ''hour'', ''day''} \<and>
   (snd (relative_of n) \<noteq> ''day'' \<longrightarrow> \<bar>fst (relative_of n)\<bar> < 60)"
  by (auto simp: relative_of_def Let_def)

text \<open>Every metric but the heartbeat is described in per cent, whatever its unit.\<close>

lemma incident_in_percent:
  "di_metric i \<noteq> ''status'' \<Longrightarrow> \<exists>t. incident_text i = t @ ''%''"
  by (simp add: incident_text_def)

end
