(* ===== verification/TaskContract.thy ===== *)
theory TaskContract
  imports Servers Logs ServerDetail
begin

text \<open>
  The contract between the pages and the API on the tasks they queue for an agent: what
  \<open>CreateTask\<close> of \<open>backend/internal/core/server/handler.go\<close> decodes and checks before it looks
  at the server, and the requests that the pages send there.  \<open>json_parse\<close> is the JSON parser,
  \<open>None\<close> where the text is not valid JSON, and \<open>stringify\<close> its writer.
\<close>

section \<open>What the API accepts\<close>

datatype task_error = InvalidBody | UnsupportedType | FeatureDisabled | InvalidPayload | InvalidTimeout | InvalidKey

record create_task_request =
  ct_type :: string
  ct_payload :: string
  ct_idempotency_key :: string
  ct_timeout_seconds :: int

record task_config =
  enableServiceControls :: bool
  enableReadOnlyLogs :: bool
  desiredAgentVersion :: string
  taskPublicURL :: string
  agentReleaseURL :: string
  agentReleaseLayout :: string

definition allowedTaskTypes :: "string list" where
  "allowedTaskTypes =
     [''docker_start'', ''docker_stop'', ''docker_restart'', ''docker_logs'',
      ''service_start'', ''service_stop'', ''service_restart'', ''service_reload'',
      ''agent_update'', ''agent_restart'', ''vps_reboot'', ''log_read'']"

definition serviceTaskTypes :: "string list" where
  "serviceTaskTypes = [''service_start'', ''service_stop'', ''service_restart'', ''service_reload'']"

fun decode_text :: "json option \<Rightarrow> string option" where
  \<comment> \<open>an absent field and null leave the zero value\<close>
  "decode_text None = Some []"
| "decode_text (Some JNull) = Some []"
| "decode_text (Some (JStr t)) = Some t"
| "decode_text _ = None"

fun decode_int :: "json option \<Rightarrow> int option" where
  "decode_int None = Some 0"
| "decode_int (Some JNull) = Some 0"
| "decode_int (Some (JNum q)) = (if q = of_int \<lfloor>q\<rfloor> then Some \<lfloor>q\<rfloor> else None)"
| "decode_int _ = None"

definition decode_task :: "json \<Rightarrow> create_task_request option" where
  "decode_task body =
     (case body of
        JObj kvs \<Rightarrow>
          (case (decode_text (map_of kvs ''type''), decode_text (map_of kvs ''payload''),
                 decode_text (map_of kvs ''idempotency_key''), decode_int (map_of kvs ''timeout_seconds'')) of
             (Some ty, Some p, Some k, Some n) \<Rightarrow>
               Some \<lparr>ct_type = ty, ct_payload = p, ct_idempotency_key = k, ct_timeout_seconds = n\<rparr>
           | _ \<Rightarrow> None)
      | JNull \<Rightarrow> Some \<lparr>ct_type = [], ct_payload = [], ct_idempotency_key = [], ct_timeout_seconds = 0\<rparr>
      | _ \<Rightarrow> None)"

definition set_key :: "string \<Rightarrow> string \<Rightarrow> (string \<times> json) list \<Rightarrow> (string \<times> json) list" where
  "set_key k t kvs = filter (\<lambda>(k', _). k' \<noteq> k) kvs @ [(k, JStr t)]"

definition trim_slashes :: "string \<Rightarrow> string" where
  \<comment> \<open>\<open>strings.TrimRight(s, "/")\<close>\<close>
  "trim_slashes s = rev (dropWhile (\<lambda>c. c = CHR ''/'') (rev s))"

definition update_payload :: "task_config \<Rightarrow> (string \<times> json) list \<Rightarrow> (string \<times> json) list" where
  "update_payload cfg kvs =
     (if trim (desiredAgentVersion cfg) = [] then kvs
      else (let with_version = set_key ''target_version'' (trim (desiredAgentVersion cfg)) kvs;
                with_url = set_key ''release_base_url''
                  (if taskPublicURL cfg \<noteq> [] then trim_slashes (taskPublicURL cfg) @ ''/api/v1/agent-releases''
                   else agentReleaseURL cfg) with_version
            in if agentReleaseLayout cfg \<noteq> [] then set_key ''release_layout'' (agentReleaseLayout cfg) with_url
               else with_url))"

definition normalizedTaskPayload ::
  "(string \<Rightarrow> json option) \<Rightarrow> (json \<Rightarrow> string) \<Rightarrow> task_config \<Rightarrow> string \<Rightarrow> string \<Rightarrow> string option" where
  \<comment> \<open>\<open>None\<close> where it returns an error\<close>
  "normalizedTaskPayload json_parse stringify cfg task_type raw =
     (let raw' = str_or raw ''{}''
      in case json_parse raw' of
           None \<Rightarrow> None
         | Some v \<Rightarrow>
             (if task_type \<noteq> ''agent_update'' then Some raw'
              else case v of
                     JObj kvs \<Rightarrow> Some (stringify (JObj (update_payload cfg kvs)))
                   | JNull \<Rightarrow> Some (stringify (JObj (update_payload cfg [])))
                   | _ \<Rightarrow> None))"

definition createTask_check ::
  "(string \<Rightarrow> json option) \<Rightarrow> (json \<Rightarrow> string) \<Rightarrow> task_config \<Rightarrow> json \<Rightarrow> task_error + create_task_request" where
  "createTask_check json_parse stringify cfg body =
     (case decode_task body of
        None \<Rightarrow> Inl InvalidBody
      | Some q \<Rightarrow>
          (if ct_type q \<notin> set allowedTaskTypes then Inl UnsupportedType
           else if ct_type q \<in> set serviceTaskTypes \<and> \<not> enableServiceControls cfg then Inl FeatureDisabled
           else if ct_type q = ''log_read'' \<and> \<not> enableReadOnlyLogs cfg then Inl FeatureDisabled
           else case normalizedTaskPayload json_parse stringify cfg (ct_type q) (ct_payload q) of
                  None \<Rightarrow> Inl InvalidPayload
                | Some p \<Rightarrow>
                    (let n = (if ct_timeout_seconds q = 0 then 60 else ct_timeout_seconds q)
                     in if n < 10 \<or> n > 900 then Inl InvalidTimeout
                        else if length (ct_idempotency_key q) > 120 then Inl InvalidKey
                        else Inr (q\<lparr>ct_payload := p, ct_timeout_seconds := n\<rparr>))))"

section \<open>What the pages send\<close>

definition log_sources :: "string list" where
  \<comment> \<open>the options of the source selector\<close>
  "log_sources = [''journal'', ''nginx_access'', ''nginx_error'', ''mysql_error'']"

definition docker_task_types :: "string list" where
  \<comment> \<open>the buttons of a container\<close>
  "docker_task_types = [''docker_start'', ''docker_restart'', ''docker_stop'', ''docker_logs'']"

definition plain_text :: "string \<Rightarrow> bool" where
  \<comment> \<open>text that a JSON string holds without escapes\<close>
  "plain_text = list_all (\<lambda>c. 32 \<le> char_code c \<and> char_code c \<notin> {34, 92})"

inductive page_task :: "(json \<Rightarrow> string) \<Rightarrow> request \<Rightarrow> bool" for stringify where
  page_update: "queueAgentUpdate_begin p = (p', Some r) \<Longrightarrow> page_task stringify r"
| list_update: "start_update_begin l = (l', Some r) \<Longrightarrow>
    (\<And>d. serverToUpdate l = Some d \<Longrightarrow> plain_text (strip_v (ud_targetVersion d))) \<Longrightarrow> page_task stringify r"
| bulk_update: "handleBulkUpdateAgents_begin l = (l', rs) \<Longrightarrow> r \<in> set rs \<Longrightarrow> page_task stringify r"
| restart: "confirm_restart_begin l = Some r \<Longrightarrow> page_task stringify r"
| container: "a \<in> set docker_task_types \<Longrightarrow>
    handleDockerAction_begin stringify i a c p = (p', Some r) \<Longrightarrow> page_task stringify r"
| service: "handleServiceAction_begin stringify i p = (p', Some r) \<Longrightarrow> page_task stringify r"
| read_logs: "fetchRemoteLogs_begin stringify now os v g = (g', Some r) \<Longrightarrow>
    length (remoteLogSource g) \<le> 60 \<Longrightarrow>
    (\<And>x. selectedServer g = Some x \<Longrightarrow> length (ls_id x) \<le> 36) \<Longrightarrow>
    length (show_rat now) \<le> 13 \<Longrightarrow> page_task stringify r"

section \<open>The contract\<close>

definition task_body :: "string \<Rightarrow> string \<Rightarrow> (string \<times> json) list \<Rightarrow> json" where
  "task_body ty p rest = JObj ([(''type'', JStr ty), (''payload'', JStr p)] @ rest)"

lemma decode_task_body:
  assumes "map_of rest ''type'' = None" "map_of rest ''payload'' = None"
  shows "decode_task (task_body ty p rest) =
     (case (decode_text (map_of rest ''idempotency_key''), decode_int (map_of rest ''timeout_seconds'')) of
        (Some k, Some n) \<Rightarrow> Some \<lparr>ct_type = ty, ct_payload = p, ct_idempotency_key = k, ct_timeout_seconds = n\<rparr>
      | _ \<Rightarrow> None)"
  by (simp add: decode_task_def task_body_def split: option.splits)

text \<open>The bodies the pages write, one per kind of task.\<close>

inductive task_form :: "(json \<Rightarrow> string) \<Rightarrow> json \<Rightarrow> string \<Rightarrow> bool" for stringify where
  form_update: "p = ''{}'' \<or> (\<exists>v. plain_text v \<and> p = ''{\"target_version\":\"'' @ v @ ''\"}'') \<Longrightarrow>
    task_form stringify (update_task_body p) ''agent_update''"
| form_restart: "task_form stringify (task_body ''vps_reboot'' ''{}'' []) ''vps_reboot''"
| form_container: "a \<in> set docker_task_types \<Longrightarrow> task_form stringify (task_body a (stringify j) []) a"
| form_service: "a \<in> set serviceTaskTypes \<Longrightarrow>
    task_form stringify (task_body a (stringify j) [(''timeout_seconds'', JNum 90)]) a"
| form_logs: "length k \<le> 120 \<Longrightarrow>
    task_form stringify (task_body ''log_read'' (stringify j)
      [(''idempotency_key'', JStr k), (''timeout_seconds'', JNum 60)]) ''log_read''"

lemma page_task_form:
  assumes "page_task stringify r"
  shows "\<exists>i b ty. r = request_send ''POST'' (tasks_endpoint i) b \<and> task_form stringify b ty"
  using assms
proof cases
  case (page_update p p')
  then show ?thesis
    by (auto simp: queueAgentUpdate_begin_def split: option.splits if_splits intro!: form_update)
next
  case (list_update l l')
  then show ?thesis
    by (fastforce simp: start_update_begin_def split: option.splits intro: form_update)
next
  case (bulk_update l l' rs)
  then show ?thesis
    using form_update [of "''{}''" stringify]
    by (fastforce simp: handleBulkUpdateAgents_begin_def split: if_splits)
next
  case (restart l)
  then show ?thesis
    using form_restart [of stringify]
    by (auto simp: confirm_restart_begin_def task_body_def split: option.splits prod.splits if_splits)
next
  case (container a i c p p')
  then have "r = request_send ''POST'' (tasks_endpoint i)
      (task_body a (stringify (JObj [(''container_id'', JStr c)])) [])"
    by (auto simp: handleDockerAction_begin_def docker_request_def task_body_def split: if_splits)
  with form_container container(1) show ?thesis by blast
next
  case (service i p p')
  then obtain a x where "r = service_request stringify i a x"
    by (auto simp: handleServiceAction_begin_def split: option.splits prod.splits if_splits)
  moreover have "''service_'' @ action_name a \<in> set serviceTaskTypes"
    by (cases a) (simp_all add: serviceTaskTypes_def)
  ultimately show ?thesis
    using form_service [of "''service_'' @ action_name a" stringify]
    by (auto simp: service_request_def task_body_def)
next
  case (read_logs now os v g g')
  then obtain x where x: "selectedServer g = Some x" "r = log_read_request stringify now x g"
    by (auto simp: fetchRemoteLogs_begin_def split: option.splits if_splits)
  have "length (remoteLogSource g) \<le> 60" by (rule read_logs(2))
  moreover have "length (ls_id x) \<le> 36" using read_logs(3) x(1) by blast
  ultimately show ?thesis
    using x(2) read_logs(4)
      form_logs [of "''log-read-'' @ ls_id x @ ''-'' @ remoteLogSource g @ ''-'' @ show_rat now" stringify
        "log_read_payload g"]
    by (auto simp: log_read_request_def task_body_def)
qed

definition json_text_ok :: "(string \<Rightarrow> json option) \<Rightarrow> (json \<Rightarrow> string) \<Rightarrow> bool" where
  "json_text_ok json_parse stringify \<longleftrightarrow>
     (\<forall>j. json_parse (stringify j) \<noteq> None \<and> stringify j \<noteq> []) \<and> json_parse ''{}'' = Some (JObj []) \<and>
     (\<forall>v. plain_text v \<longrightarrow> (\<exists>kvs. json_parse (''{\"target_version\":\"'' @ v @ ''\"}'') = Some (JObj kvs)))"

lemma normalized_stringified:
  assumes "json_text_ok json_parse stringify" and "ty \<noteq> ''agent_update''"
  shows "normalizedTaskPayload json_parse stringify cfg ty (stringify j) = Some (stringify j)"
    "normalizedTaskPayload json_parse stringify cfg ty ''{}'' = Some ''{}''"
proof -
  obtain v where "json_parse (stringify j) = Some v" "stringify j \<noteq> []"
    using assms(1) unfolding json_text_ok_def by blast
  then show "normalizedTaskPayload json_parse stringify cfg ty (stringify j) = Some (stringify j)"
    using assms(2) by (simp add: normalizedTaskPayload_def str_or_def)
  show "normalizedTaskPayload json_parse stringify cfg ty ''{}'' = Some ''{}''"
    using assms by (simp add: normalizedTaskPayload_def str_or_def json_text_ok_def)
qed

definition accepted_as ::
  "(string \<Rightarrow> json option) \<Rightarrow> (json \<Rightarrow> string) \<Rightarrow> task_config \<Rightarrow> json \<Rightarrow> string \<Rightarrow> bool" where
  "accepted_as json_parse stringify cfg b ty \<longleftrightarrow>
     (case createTask_check json_parse stringify cfg b of
        Inl e \<Rightarrow> False
      | Inr t \<Rightarrow> ct_type t = ty \<and> ty \<in> set allowedTaskTypes \<and>
                10 \<le> ct_timeout_seconds t \<and> ct_timeout_seconds t \<le> 900)"

lemma check_accepts:
  assumes "decode_task b =
      Some \<lparr>ct_type = ty, ct_payload = raw, ct_idempotency_key = k, ct_timeout_seconds = n\<rparr>"
    and "ty \<in> set allowedTaskTypes"
    and "normalizedTaskPayload json_parse stringify cfg ty raw = Some p"
    and "n \<in> {0, 60, 90, 300}" and "length k \<le> 120"
    and "enableServiceControls cfg" "enableReadOnlyLogs cfg"
  shows "accepted_as json_parse stringify cfg b ty"
  using assms by (auto simp: createTask_check_def accepted_as_def)

lemma update_payload_controls:
  "update_payload (cfg\<lparr>enableServiceControls := x\<rparr>) kvs = update_payload cfg kvs"
  by (simp add: update_payload_def Let_def)

lemma task_form_checked:
  assumes "task_form stringify b ty" and ok: "json_text_ok json_parse stringify"
    and cfg: "enableServiceControls cfg" "enableReadOnlyLogs cfg"
  shows "accepted_as json_parse stringify cfg b ty"
  using assms(1)
proof cases
  case (form_update p)
  then obtain kvs where "p \<noteq> []" "json_parse p = Some (JObj kvs)"
    using ok by (auto simp: json_text_ok_def)
  then have norm: "normalizedTaskPayload json_parse stringify cfg ''agent_update'' p =
      Some (stringify (JObj (update_payload cfg kvs)))"
    by (simp add: normalizedTaskPayload_def str_or_def)
  have dec: "decode_task b =
      Some \<lparr>ct_type = ''agent_update'', ct_payload = p, ct_idempotency_key = [], ct_timeout_seconds = 300\<rparr>"
    by (simp add: form_update decode_task_def update_task_body_def)
  show ?thesis
    unfolding form_update(2) by (rule check_accepts [OF dec _ norm _ _ cfg]) (simp_all add: allowedTaskTypes_def)
next
  case form_restart
  have dec: "decode_task b =
      Some \<lparr>ct_type = ''vps_reboot'', ct_payload = ''{}'', ct_idempotency_key = [], ct_timeout_seconds = 0\<rparr>"
    by (simp add: form_restart decode_task_body)
  show ?thesis
    unfolding form_restart(2)
    by (rule check_accepts [OF dec _ normalized_stringified(2) [OF ok] _ _ cfg])
      (simp_all add: allowedTaskTypes_def)
next
  case (form_container j)
  then have ty: "ty \<in> set allowedTaskTypes" "ty \<noteq> ''agent_update''"
    by (auto simp: docker_task_types_def allowedTaskTypes_def)
  have dec: "decode_task b =
      Some \<lparr>ct_type = ty, ct_payload = stringify j, ct_idempotency_key = [], ct_timeout_seconds = 0\<rparr>"
    by (simp add: form_container decode_task_body)
  show ?thesis
    by (rule check_accepts [OF dec ty(1) normalized_stringified(1) [OF ok ty(2)] _ _ cfg]) simp_all
next
  case (form_service j)
  then have ty: "ty \<in> set allowedTaskTypes" "ty \<noteq> ''agent_update''"
    by (auto simp: serviceTaskTypes_def allowedTaskTypes_def)
  have dec: "decode_task b =
      Some \<lparr>ct_type = ty, ct_payload = stringify j, ct_idempotency_key = [], ct_timeout_seconds = 90\<rparr>"
    by (simp add: form_service decode_task_body)
  show ?thesis
    by (rule check_accepts [OF dec ty(1) normalized_stringified(1) [OF ok ty(2)] _ _ cfg]) simp_all
next
  case (form_logs k j)
  have dec: "decode_task b =
      Some \<lparr>ct_type = ''log_read'', ct_payload = stringify j, ct_idempotency_key = k, ct_timeout_seconds = 60\<rparr>"
    by (simp add: form_logs decode_task_body)
  show ?thesis
    unfolding form_logs(2)
    by (rule check_accepts [OF dec _ normalized_stringified(1) [OF ok] _ _ cfg])
      (use form_logs in \<open>simp_all add: allowedTaskTypes_def\<close>)
qed


definition demo_config :: task_config where
  "demo_config =
     \<lparr>enableServiceControls = True, enableReadOnlyLogs = True, desiredAgentVersion = ''1.5.13'',
      taskPublicURL = ''https://m/'', agentReleaseURL = [], agentReleaseLayout = []\<rparr>"


end
