(* ===== verification/Base64.thy ===== *)
theory Base64
  imports JsPrelude
begin

text \<open>
  \<open>atob\<close> and \<open>btoa\<close> of the browser and the base64url text of a JSON web token: the decoder that
  \<open>getUserRole\<close> and the terminal rely on, the encoder, and their round trip.  A character is
  a byte.
\<close>

section \<open>The alphabet\<close>

definition alphabet :: string where
  "alphabet = ''ABCDEFGHIJKLMNOPQRSTUVWXYZabcdefghijklmnopqrstuvwxyz0123456789+/''"

definition sextet_char :: "nat \<Rightarrow> char" where
  "sextet_char n = alphabet ! n"

definition sextet :: "char \<Rightarrow> nat option" where
  "sextet c =
     (let i = length (takeWhile (\<lambda>x. x \<noteq> c) alphabet) in if i < length alphabet then Some i else None)"

lemma length_alphabet: "length alphabet = 64"
  by (simp add: alphabet_def)

lemma distinct_alphabet: "distinct alphabet"
  by (simp add: alphabet_def)

lemma takeWhile_nth: "distinct xs \<Longrightarrow> n < length xs \<Longrightarrow> length (takeWhile (\<lambda>x. x \<noteq> xs ! n) xs) = n"
proof (induction xs arbitrary: n)
  case (Cons a xs)
  then show ?case by (cases n) auto
qed simp

lemma sextet_sextet_char [simp]: "n < 64 \<Longrightarrow> sextet (sextet_char n) = Some n"
  using takeWhile_nth [OF distinct_alphabet, of n]
  by (simp add: sextet_def sextet_char_def length_alphabet)

lemma sextet_char_in: "n < 64 \<Longrightarrow> sextet_char n \<in> set alphabet"
  by (simp add: sextet_char_def length_alphabet)

lemma alphabet_plain: "c \<in> set alphabet \<Longrightarrow> c \<notin> {CHR ''='', CHR ''-'', CHR ''_'', CHR ''.''}"
  by (auto simp: alphabet_def)

section \<open>\<open>atob\<close>\<close>

fun decode_sextets :: "nat list \<Rightarrow> nat list option" where
  \<comment> \<open>a single sextet at the end is an error\<close>
  "decode_sextets [] = Some []"
| "decode_sextets [w] = None"
| "decode_sextets [w, x] = Some [w * 4 + x div 16]"
| "decode_sextets [w, x, y] = Some [w * 4 + x div 16, (x mod 16) * 16 + y div 4]"
| "decode_sextets (w # x # y # z # r) =
     map_option (\<lambda>bs. (w * 4 + x div 16) # ((x mod 16) * 16 + y div 4) # ((y mod 4) * 64 + z) # bs)
       (decode_sextets r)"

definition strip_padding :: "string \<Rightarrow> string" where
  \<comment> \<open>at most two padding characters, and only where the length is a multiple of four\<close>
  "strip_padding s =
     (if length s mod 4 \<noteq> 0 then s
      else if s \<noteq> [] \<and> last s = CHR ''=''
      then (let s1 = butlast s in if s1 \<noteq> [] \<and> last s1 = CHR ''='' then butlast s1 else s1)
      else s)"

definition is_ascii_ws :: "char \<Rightarrow> bool" where
  "is_ascii_ws c \<longleftrightarrow> c \<in> set [CHR '' '', CHR 0x09, CHR 0x0A, CHR 0x0C, CHR 0x0D]"

definition atob :: "string \<Rightarrow> string option" where
  \<comment> \<open>\<open>None\<close> where the browser throws\<close>
  "atob s =
     Option.bind (those (map sextet (strip_padding (filter (\<lambda>c. \<not> is_ascii_ws c) s))))
       (\<lambda>ns. map_option (map char_of) (decode_sextets ns))"

section \<open>The encoder\<close>

fun encode_bytes :: "nat list \<Rightarrow> nat list" where
  "encode_bytes [] = []"
| "encode_bytes [a] = [a div 4, (a mod 4) * 16]"
| "encode_bytes [a, b] = [a div 4, (a mod 4) * 16 + b div 16, (b mod 16) * 4]"
| "encode_bytes (a # b # c # r) =
     [a div 4, (a mod 4) * 16 + b div 16, (b mod 16) * 4 + c div 64, c mod 64] @ encode_bytes r"

lemma encode_small: "list_all (\<lambda>b. b < 256) bs \<Longrightarrow> list_all (\<lambda>n. n < 64) (encode_bytes bs)"
  by (induction bs rule: encode_bytes.induct) (auto simp: div_less_iff_less_mult intro!: add_less_le_mono)

lemma split_byte:
  "(a :: nat) div 4 * 4 + ((a mod 4) * 16 + k) div 16 = a" if "k < 16"
  using that by simp

lemma decode_encode: "list_all (\<lambda>b. b < 256) bs \<Longrightarrow> decode_sextets (encode_bytes bs) = Some bs"
  by (induction bs rule: encode_bytes.induct) (simp_all add: div_less_iff_less_mult)

lemma length_encode: "length (encode_bytes bs) mod 4 \<in> {0, 2, 3}"
  by (induction bs rule: encode_bytes.induct) auto

section \<open>base64url\<close>

definition to_url :: "char \<Rightarrow> char" where
  "to_url c = (if c = CHR ''+'' then CHR ''-'' else if c = CHR ''/'' then CHR ''_'' else c)"

definition of_url :: "char \<Rightarrow> char" where
  \<comment> \<open>\<open>.replace(/-/g, '+').replace(/_/g, '/')\<close>\<close>
  "of_url c = (if c = CHR ''-'' then CHR ''+'' else if c = CHR ''_'' then CHR ''/'' else c)"

definition base64url :: "string \<Rightarrow> string" where
  \<comment> \<open>the encoding of a token's parts, without padding\<close>
  "base64url text = map (\<lambda>n. to_url (sextet_char n)) (encode_bytes (map of_char text))"

definition pad_base64 :: "string \<Rightarrow> string" where
  \<comment> \<open>\<open>base64.padEnd(base64.length + ((4 - (base64.length % 4)) % 4), '=')\<close>\<close>
  "pad_base64 s = s @ replicate ((4 - length s mod 4) mod 4) (CHR ''='')"

lemma of_url_to_url [simp]: "c \<in> set alphabet \<Longrightarrow> of_url (to_url c) = c"
  by (auto simp: alphabet_def of_url_def to_url_def)

lemma to_url_plain: "c \<in> set alphabet \<Longrightarrow> to_url c \<noteq> CHR ''.''"
  by (auto simp: alphabet_def to_url_def)

lemma alphabet_visible: "c \<in> set alphabet \<Longrightarrow> \<not> is_ascii_ws c \<and> c \<noteq> CHR ''=''"
  by (auto simp: alphabet_def is_ascii_ws_def)

lemma strip_pad:
  assumes "CHR ''='' \<notin> set s" and "length s mod 4 \<in> {0, 2, 3}"
  shows "strip_padding (pad_base64 s) = s"
proof -
  consider "length s mod 4 = 0" | "length s mod 4 = 2" | "length s mod 4 = 3" using assms(2) by auto
  then show ?thesis
  proof cases
    case 1
    moreover have "s = [] \<or> last s \<noteq> CHR ''=''" using assms(1) last_in_set by metis
    ultimately show ?thesis by (auto simp: pad_base64_def strip_padding_def)
  next
    case 2
    then have "pad_base64 s = (s @ [CHR ''='']) @ [CHR ''='']" by (simp add: pad_base64_def numeral_2_eq_2)
    moreover have "(length s + 2) mod 4 = 0" using 2 by presburger
    ultimately show ?thesis by (simp add: strip_padding_def butlast_append)
  next
    case 3
    then have "pad_base64 s = s @ [CHR ''='']" by (simp add: pad_base64_def)
    moreover have "(length s + 1) mod 4 = 0" using 3 by presburger
    moreover have "s \<noteq> [] \<Longrightarrow> last s \<noteq> CHR ''=''" using assms(1) last_in_set by metis
    ultimately show ?thesis by (auto simp: strip_padding_def)
  qed
qed

lemma those_map: "list_all (\<lambda>x. f x = Some (g x)) xs \<Longrightarrow> those (map f xs) = Some (map g xs)"
  by (induction xs) simp_all

lemma bytes_small: "list_all (\<lambda>b. b < 256) (map (of_char :: char \<Rightarrow> nat) text)"
  by (simp add: list_all_iff)

definition btoa :: "string \<Rightarrow> string" where
  \<comment> \<open>of text whose characters are bytes\<close>
  "btoa text = pad_base64 (map sextet_char (encode_bytes (map of_char text)))"

lemma base64url_plain: "map of_url (base64url text) = map sextet_char (encode_bytes (map of_char text))"
proof -
  have "list_all (\<lambda>n. n < 64) (encode_bytes (map of_char text))"
    by (rule encode_small [OF bytes_small])
  then show ?thesis by (auto simp: base64url_def list_all_iff sextet_char_in)
qed

text \<open>Decoding undoes encoding.\<close>

lemma atob_btoa: "atob (btoa text) = Some text"
proof -
  define ns where "ns = encode_bytes (map of_char text)"
  have small: "list_all (\<lambda>n. n < 64) ns"
    unfolding ns_def by (rule encode_small [OF bytes_small])
  define t where "t = map sextet_char ns"
  have in_alphabet: "set t \<subseteq> set alphabet"
    using small by (auto simp: t_def list_all_iff sextet_char_in)
  have no_pad: "CHR ''='' \<notin> set t" using in_alphabet alphabet_visible by blast
  have "filter (\<lambda>c. \<not> is_ascii_ws c) (pad_base64 t) = pad_base64 t"
    using in_alphabet alphabet_visible by (auto simp: pad_base64_def filter_id_conv is_ascii_ws_def)
  moreover have "strip_padding (pad_base64 t) = t"
    using strip_pad [OF no_pad] length_encode [of "map of_char text"] by (simp add: t_def ns_def)
  moreover have "those (map sextet t) = Some ns"
    using those_map [of "\<lambda>n. sextet (sextet_char n)" "\<lambda>n. n" ns] small
    by (simp add: t_def list_all_iff comp_def)
  moreover have "decode_sextets ns = Some (map of_char text)"
    unfolding ns_def by (rule decode_encode [OF bytes_small])
  ultimately show ?thesis by (simp add: atob_def btoa_def t_def ns_def comp_def)
qed

text \<open>The way of \<open>getUserRole\<close> with a token's part.\<close>

lemma atob_base64url: "atob (pad_base64 (map of_url (base64url text))) = Some text"
  using atob_btoa by (simp add: base64url_plain btoa_def)

end
