(* ===== verification/Terminal.thy ===== *)
theory Terminal
  imports ServerView Base64 "HOL-Library.Word"
begin

text \<open>
  The web terminal (\<open>components/WebTerminal.tsx\<close>): its texts, the base64 coding of the bytes on the
  wire, and the handlers of one mounted component with the sockets of all the attempts it has
  started.  Attempts are numbered; the terminal, the socket and the resize observer of an attempt
  carry its number.  The emulator (xterm) appears through what is written to it.
\<close>

section \<open>Texts\<close>

definition friendlyTerminalError :: "string \<Rightarrow> string" where
  "friendlyTerminalError message =
     (let has = str_includes (to_lower message)
      in if has ''agent_unavailable'' \<or> has ''agent terminal channel is unavailable''
         then ''The agent is online, but its reverse terminal channel is not connected. Restart or update the agent, then check that the proxy forwards WebSocket upgrades for /api/v1/agent/terminal.''
         else if has ''terminal_busy'' \<or> has ''session is already active''
         then ''A terminal session is already active for this server. Close the existing session before opening a new one.''
         else if has ''invalid_origin''
         then ''The terminal request was blocked by origin validation. Check the public dashboard host and reverse proxy headers.''
         else str_or message ''Unable to start terminal'')"

section \<open>Bytes on the wire\<close>

type_synonym byte = "8 word"

definition char_codes :: "byte list \<Rightarrow> string" where
  \<comment> \<open>\<open>String.fromCharCode(...bytes)\<close>\<close>
  "char_codes bs = map (\<lambda>b. char_of (unat b)) bs"

function binary_from :: "byte list \<Rightarrow> nat \<Rightarrow> string \<Rightarrow> string" where
  \<comment> \<open>the loop over blocks of \<open>0x8000\<close> bytes\<close>
  "binary_from bs offset binary =
     (if offset < length bs
      then binary_from bs (offset + 0x8000) (binary @ char_codes (take 0x8000 (drop offset bs)))
      else binary)"
  by pat_completeness auto
termination
  by (relation "measure (\<lambda>(bs, offset, binary). length bs - offset)") auto

declare binary_from.simps [simp del]

definition bytesToBase64 :: "byte list \<Rightarrow> string" where
  "bytesToBase64 bs = btoa (binary_from bs 0 [])"

definition base64ToBytes :: "string \<Rightarrow> byte list option" where
  \<comment> \<open>\<open>None\<close> where \<open>atob\<close> throws\<close>
  "base64ToBytes v = map_option (map (\<lambda>c. word_of_nat (of_char c))) (atob v)"

section \<open>The component\<close>

datatype connection = TIdle | TConnecting | TConnected | TClosed | TError

datatype ready =
    NoSocket  \<comment> \<open>not created\<close>
  | Opening   \<comment> \<open>\<open>WebSocket.CONNECTING\<close>\<close>
  | Open
  | Closing   \<comment> \<open>closed by the page, the event of the close pending\<close>
  | Failed    \<comment> \<open>failed, the event of the close pending\<close>
  | Gone      \<comment> \<open>the event of the close has happened\<close>

datatype frame =
    Session_close
  | Resize nat     \<comment> \<open>the size of the terminal of that attempt\<close>
  | Input string   \<comment> \<open>base64 text\<close>

datatype screen_write = Line string | Raw "byte list" | Cleared

record terminal_message =
  tm_type :: string
  tm_data :: "string option"
  tm_reason :: "string option"

record terminal =
  tenabled :: bool
  tunsupported :: bool
  tmounted :: bool
  tstate :: connection
  terror :: string
  socketRef :: "nat option"
  terminalRef :: "nat option"
  fitAddonRef :: "nat option"
  resizeObserverRef :: "nat option"
  attempts :: nat                     \<comment> \<open>the attempts started so far\<close>
  awaiting :: "nat list"              \<comment> \<open>those that wait for their ticket\<close>
  sockets :: "nat \<Rightarrow> ready"
  socket_url :: "nat \<Rightarrow> string"
  observing :: "nat \<Rightarrow> bool"          \<comment> \<open>the resize observers that are connected\<close>
  frames :: "(nat \<times> frame) list"      \<comment> \<open>sent, the latest first\<close>
  screen :: "(nat \<times> screen_write) list"  \<comment> \<open>written, the latest first\<close>

definition init_terminal :: "bool \<Rightarrow> bool \<Rightarrow> terminal" where
  "init_terminal enabled unsupported =
     \<lparr>tenabled = enabled, tunsupported = unsupported, tmounted = True, tstate = TIdle, terror = [],
      socketRef = None, terminalRef = None, fitAddonRef = None, resizeObserverRef = None,
      attempts = 0, awaiting = [], sockets = (\<lambda>k. NoSocket), socket_url = (\<lambda>k. []),
      observing = (\<lambda>k. False), frames = [], screen = []\<rparr>"

definition has_container :: "terminal \<Rightarrow> bool" where
  \<comment> \<open>\<open>containerRef.current\<close>\<close>
  "has_container s \<longleftrightarrow> tmounted s \<and> \<not> tunsupported s"

definition send :: "nat \<Rightarrow> frame \<Rightarrow> terminal \<Rightarrow> terminal" where
  "send k f s = s\<lparr>frames := (k, f) # frames s\<rparr>"

definition writes :: "nat \<Rightarrow> screen_write \<Rightarrow> terminal \<Rightarrow> terminal" where
  "writes k w s = s\<lparr>screen := (k, w) # screen s\<rparr>"

definition close_socket :: "nat \<Rightarrow> terminal \<Rightarrow> terminal" where
  \<comment> \<open>\<open>socket.close()\<close> does nothing on a socket that is closing or closed\<close>
  "close_socket k s =
     (if sockets s k \<in> {Opening, Open} then s\<lparr>sockets := (sockets s)(k := Closing)\<rparr> else s)"

definition set_state :: "connection \<Rightarrow> terminal \<Rightarrow> terminal" where
  \<comment> \<open>\<open>setState(...)\<close>; nothing is kept once the component is gone\<close>
  "set_state c s = s\<lparr>tstate := c\<rparr>"

definition closed_unless_error :: "terminal \<Rightarrow> terminal" where
  "closed_unless_error s = set_state (if tstate s = TError then TError else TClosed) s"

definition drop_observer :: "terminal \<Rightarrow> terminal" where
  "drop_observer s =
     (case resizeObserverRef s of
        None \<Rightarrow> s
      | Some k \<Rightarrow> s\<lparr>observing := (observing s)(k := False)\<rparr>)\<lparr>resizeObserverRef := None\<rparr>"

definition disposeTerminal :: "bool \<Rightarrow> terminal \<Rightarrow> terminal" where
  "disposeTerminal notify s =
     (let s1 = (case socketRef s of
                  None \<Rightarrow> s
                | Some k \<Rightarrow>
                    close_socket k
                      (if notify \<and> sockets s k = Open then send k Session_close s else s))
      in (drop_observer (s1\<lparr>socketRef := None\<rparr>))\<lparr>terminalRef := None, fitAddonRef := None\<rparr>)"

definition closeTerminal :: "bool \<Rightarrow> terminal \<Rightarrow> terminal" where
  "closeTerminal notify s = closed_unless_error (disposeTerminal notify s)"

definition sendResize :: "terminal \<Rightarrow> terminal" where
  "sendResize s =
     (case (terminalRef s, socketRef s) of
        (Some t, Some k) \<Rightarrow> (if sockets s k = Open then send k (Resize t) s else s)
      | _ \<Rightarrow> s)"

section \<open>Starting\<close>

definition startTerminal_begin :: "string \<Rightarrow> string \<Rightarrow> terminal \<Rightarrow> terminal \<times> request option" where
  \<comment> \<open>up to the request of a ticket\<close>
  "startTerminal_begin serverId serverName s =
     (if \<not> tenabled s \<or> \<not> has_container s \<or> tstate s = TConnecting \<or> tstate s = TConnected then (s, None)
      else (let k = attempts s;
                s1 = (set_state TConnecting (disposeTerminal False s))\<lparr>terror := []\<rparr>
            in (writes k (Line (''Connecting to '' @ serverName))
                  (s1\<lparr>attempts := Suc k, awaiting := k # awaiting s,
                     terminalRef := Some k, fitAddonRef := Some k\<rparr>),
                Some (request_send ''POST'' (''/servers/'' @ serverId @ ''/terminal/tickets'') (JObj [])))))"

definition start_failed :: "thrown \<Rightarrow> terminal \<Rightarrow> terminal" where
  \<comment> \<open>the catch\<close>
  "start_failed e s =
     (let message = friendlyTerminalError (errorMessage e ''Unable to start terminal'');
          s1 = set_state TError (s\<lparr>terror := message\<rparr>);
          s2 = (case terminalRef s1 of None \<Rightarrow> s1 | Some t \<Rightarrow> writes t (Line message) s1)
      in (case socketRef s2 of None \<Rightarrow> s2 | Some k \<Rightarrow> close_socket k s2)\<lparr>socketRef := None\<rparr>)"

definition observe_error :: thrown where
  \<comment> \<open>\<open>observer.observe(null)\<close>\<close>
  "observe_error = ErrorObj (''Failed to execute '' @ [CHR 0x27] @ ''observe'' @ [CHR 0x27] @ '' on '' @ [CHR 0x27] @
     ''ResizeObserver'' @ [CHR 0x27] @ '': parameter 1 is not of type '' @ [CHR 0x27] @ ''Element'' @
     [CHR 0x27] @ ''.'')"

definition new_socket :: "bool \<Rightarrow> string \<Rightarrow> nat \<Rightarrow> string \<Rightarrow> terminal \<Rightarrow> terminal" where
  \<comment> \<open>\<open>https\<close> and \<open>host\<close> are those of the page\<close>
  "new_socket https host k path s =
     s\<lparr>sockets := (sockets s)(k := Opening),
       socket_url := (socket_url s)(k := (if https then ''wss:'' else ''ws:'') @ ''//'' @ host @ path),
       socketRef := Some k\<rparr>"

definition startTerminal_ticket ::
  "bool \<Rightarrow> string \<Rightarrow> nat \<Rightarrow> string outcome \<Rightarrow> terminal \<Rightarrow> terminal" where
  \<comment> \<open>the answer for attempt \<open>k\<close>, a path or an error\<close>
  "startTerminal_ticket https host k reply s =
     (let s0 = s\<lparr>awaiting := removeAll k (awaiting s)\<rparr>
      in case reply of
           Inl e \<Rightarrow> start_failed e s0
         | Inr path \<Rightarrow>
             (let s1 = new_socket https host k path s0
              in if has_container s1
                 then s1\<lparr>observing := (observing s1)(k := True), resizeObserverRef := Some k\<rparr>
                 else start_failed observe_error s1))"

section \<open>The handlers of a socket\<close>

definition socket_opened :: "nat \<Rightarrow> terminal \<Rightarrow> terminal" where
  "socket_opened k s =
     sendResize (writes k Cleared (set_state TConnected (s\<lparr>sockets := (sockets s)(k := Open)\<rparr>)))"

definition socket_message :: "nat \<Rightarrow> terminal_message option \<Rightarrow> terminal \<Rightarrow> terminal" where
  \<comment> \<open>\<open>None\<close> for data that does not parse; output that does not decode throws without effect\<close>
  "socket_message k incoming s =
     (case incoming of
        None \<Rightarrow> s
      | Some m \<Rightarrow>
          (if tm_type m = ''output'' \<and> truthy (tm_data m)
           then (case base64ToBytes (the (tm_data m)) of Some bs \<Rightarrow> writes k (Raw bs) s | None \<Rightarrow> s)
           else if tm_type m = ''error''
           then (let r = opt_or (tm_reason m) ''Terminal error'' in writes k (Line r) (s\<lparr>terror := r\<rparr>))
           else if tm_type m = ''exit''
           then set_state TClosed (writes k (Line (opt_or (tm_reason m) ''Shell exited'')) s)
           else s))"

definition socket_failed :: "nat \<Rightarrow> terminal \<Rightarrow> terminal" where
  "socket_failed k s =
     set_state TError (s\<lparr>sockets := (sockets s)(k := Failed),
                       terror := ''Unable to establish the reverse terminal connection.''\<rparr>)"

definition socket_closed :: "nat \<Rightarrow> string \<Rightarrow> terminal \<Rightarrow> terminal" where
  "socket_closed k reason s =
     (let s1 = s\<lparr>sockets := (sockets s)(k := Gone)\<rparr>;
          s2 = (if reason \<noteq> [] then writes k (Line reason) s1 else s1)
      in closed_unless_error ((drop_observer s2)\<lparr>socketRef := None\<rparr>))"

definition terminal_data :: "(string \<Rightarrow> byte list) \<Rightarrow> nat \<Rightarrow> string \<Rightarrow> terminal \<Rightarrow> terminal" where
  \<comment> \<open>typed into the terminal of attempt \<open>k\<close>; \<open>utf8\<close> is the encoder\<close>
  "terminal_data utf8 k text s =
     (if sockets s k \<noteq> Open then s else send k (Input (bytesToBase64 (utf8 text))) s)"

definition click_fit :: "terminal \<Rightarrow> terminal" where
  "click_fit s = sendResize s"

definition unmount :: "terminal \<Rightarrow> terminal" where
  "unmount s = (disposeTerminal True s)\<lparr>tmounted := False\<rparr>"

end
