(* ===== verification/TerminalProps.thy ===== *)
theory TerminalProps
  imports Terminal
begin

text \<open>
  Properties of the web terminal: its base64 coding, the events that can happen to a mounted
  component and what every order of them keeps, and the sessions that escape its close button.
\<close>

section \<open>Bytes on the wire\<close>

lemma char_codes_append: "char_codes (xs @ ys) = char_codes xs @ char_codes ys"
  by (simp add: char_codes_def)

lemma binary_from: "binary_from bs offset binary = binary @ char_codes (drop offset bs)"
proof (induction bs offset binary rule: binary_from.induct)
  case (1 bs offset binary)
  show ?case
  proof (cases "offset < length bs")
    case True
    have "binary_from bs offset binary =
        binary_from bs (offset + 0x8000) (binary @ char_codes (take 0x8000 (drop offset bs)))"
      using True by (subst binary_from.simps) simp
    also have "\<dots> = binary @ char_codes (take 0x8000 (drop offset bs) @ drop 0x8000 (drop offset bs))"
      using 1 [OF True] by (simp only: char_codes_append append_assoc drop_drop add.commute)
    finally show ?thesis by (simp only: append_take_drop_id)
  next
    case False
    then show ?thesis by (subst binary_from.simps) (simp add: char_codes_def)
  qed
qed

text \<open>
  C39. The terminal's coding is lossless: whatever bytes are typed, and however many blocks the loop
  cuts them into, the text that goes over the wire decodes to the same bytes.
\<close>

theorem wire_roundtrip: "base64ToBytes (bytesToBase64 bs) = Some bs"
proof -
  have "word_of_nat (of_char (char_of (unat b) :: char)) = b" for b :: byte
    using unsigned_less [of b, where 'a = nat] by simp
  then have "map (\<lambda>c. word_of_nat (of_char c)) (char_codes bs) = bs"
    by (simp add: char_codes_def comp_def)
  then show ?thesis
    by (simp add: base64ToBytes_def bytesToBase64_def binary_from atob_btoa)
qed

section \<open>Events\<close>

datatype terminal_event =
    Set_props bool bool
  | Start_click string string
  | Ticket bool string nat "string outcome"
  | Opened nat
  | Message nat "terminal_message option"
  | Socket_error nat
  | Socket_close nat string
  | Typed "string \<Rightarrow> byte list" nat string
  | Resized nat
  | Fit_click
  | Close_click
  | Unmount

fun can :: "terminal_event \<Rightarrow> terminal \<Rightarrow> bool" where
  \<comment> \<open>what the browser, the buttons and the emulator allow\<close>
  "can (Set_props en un) s = tmounted s"
| "can (Start_click i n) s = (tmounted s \<and> tenabled s \<and> \<not> tunsupported s \<and> tstate s \<notin> {TConnecting, TConnected})"
| "can (Ticket https host k reply) s = (k \<in> set (awaiting s))"
| "can (Opened k) s = (sockets s k = Opening)"
| "can (Message k m) s = (sockets s k = Open)"
| "can (Socket_error k) s = (sockets s k \<in> {Opening, Open, Closing})"
| "can (Socket_close k r) s = (sockets s k \<in> {Open, Closing, Failed})"
| "can (Typed utf8 k t) s = (terminalRef s = Some k \<and> sockets s k \<noteq> NoSocket)"
| "can (Resized k) s = observing s k"
| "can Fit_click s = (tmounted s \<and> tstate s = TConnected)"
| "can Close_click s = (tmounted s \<and> \<not> tunsupported s \<and> tstate s \<in> {TConnecting, TConnected})"
| "can Unmount s = tmounted s"

fun happen :: "terminal_event \<Rightarrow> terminal \<Rightarrow> terminal" where
  "happen (Set_props en un) s = s\<lparr>tenabled := en, tunsupported := un\<rparr>"
| "happen (Start_click i n) s = fst (startTerminal_begin i n s)"
| "happen (Ticket https host k reply) s = startTerminal_ticket https host k reply s"
| "happen (Opened k) s = socket_opened k s"
| "happen (Message k m) s = socket_message k m s"
| "happen (Socket_error k) s = socket_failed k s"
| "happen (Socket_close k r) s = socket_closed k r s"
| "happen (Typed utf8 k t) s = terminal_data utf8 k t s"
| "happen (Resized k) s = sendResize s"
| "happen Fit_click s = click_fit s"
| "happen Close_click s = closeTerminal True s"
| "happen Unmount s = unmount s"

inductive term_reach :: "bool \<Rightarrow> bool \<Rightarrow> terminal \<Rightarrow> bool" for en un where
  mounted: "term_reach en un (init_terminal en un)"
| event: "term_reach en un s \<Longrightarrow> can e s \<Longrightarrow> term_reach en un (happen e s)"

fun run_events :: "terminal_event list \<Rightarrow> terminal \<Rightarrow> terminal option" where
  \<comment> \<open>\<open>None\<close> where an event cannot happen\<close>
  "run_events [] s = Some s"
| "run_events (e # es) s = (if can e s then run_events es (happen e s) else None)"

lemma run_reach: "term_reach en un s \<Longrightarrow> run_events es s = Some t \<Longrightarrow> term_reach en un t"
  by (induction es arbitrary: s) (auto split: if_splits intro: event)

section \<open>What the handlers do to the sockets\<close>

lemmas setters = set_state_def closed_unless_error_def drop_observer_def writes_def click_fit_def

lemma other_fields [simp]:
  "sockets (set_state c s) = sockets s" "frames (set_state c s) = frames s"
  "sockets (closed_unless_error s) = sockets s" "frames (closed_unless_error s) = frames s"
  "sockets (drop_observer s) = sockets s" "frames (drop_observer s) = frames s"
  "sockets (writes k w s) = sockets s" "frames (writes k w s) = frames s"
  "awaiting (set_state c s) = awaiting s" "attempts (set_state c s) = attempts s"
  "awaiting (closed_unless_error s) = awaiting s" "attempts (closed_unless_error s) = attempts s"
  "awaiting (drop_observer s) = awaiting s" "attempts (drop_observer s) = attempts s"
  "awaiting (writes k w s) = awaiting s" "attempts (writes k w s) = attempts s"
  "socketRef (set_state c s) = socketRef s" "socketRef (closed_unless_error s) = socketRef s"
  "socketRef (drop_observer s) = socketRef s" "socketRef (writes k w s) = socketRef s"
  by (simp_all add: setters split: option.split)

lemma send_fields [simp]:
  "sockets (send k f s) = sockets s" "frames (send k f s) = (k, f) # frames s"
  "awaiting (send k f s) = awaiting s" "attempts (send k f s) = attempts s"
  "socketRef (send k f s) = socketRef s"
  by (simp_all add: send_def)

definition shut :: "(nat \<Rightarrow> ready) \<Rightarrow> nat option \<Rightarrow> nat \<Rightarrow> ready" where
  \<comment> \<open>the sockets after the referenced one was closed\<close>
  "shut f r k = (if r = Some k \<and> f k \<in> {Opening, Open} then Closing else f k)"

lemma close_socket_fields [simp]:
  "frames (close_socket k s) = frames s" "awaiting (close_socket k s) = awaiting s"
  "attempts (close_socket k s) = attempts s" "socketRef (close_socket k s) = socketRef s"
  "sockets (close_socket k s) = shut (sockets s) (Some k)"
  by (auto simp: close_socket_def shut_def fun_eq_iff)

lemma shut_None [simp]: "shut f None = f"
  by (simp add: shut_def fun_eq_iff)

lemma sendResize_fields [simp]:
  "sockets (sendResize s) = sockets s" "awaiting (sendResize s) = awaiting s"
  "attempts (sendResize s) = attempts s" "socketRef (sendResize s) = socketRef s"
  by (simp_all add: sendResize_def split: option.split)

lemma dispose_fields [simp]:
  "awaiting (disposeTerminal b s) = awaiting s" "attempts (disposeTerminal b s) = attempts s"
  "socketRef (disposeTerminal b s) = None"
  "sockets (disposeTerminal b s) = shut (sockets s) (socketRef s)"
  "frames (disposeTerminal b s) =
     (case socketRef s of
        Some k \<Rightarrow> if b \<and> sockets s k = Open then (k, Session_close) # frames s else frames s
      | None \<Rightarrow> frames s)"
  by (cases "socketRef s"; simp add: disposeTerminal_def Let_def)+

lemma failed_fields [simp]:
  "awaiting (start_failed e s) = awaiting s" "attempts (start_failed e s) = attempts s"
  "socketRef (start_failed e s) = None" "frames (start_failed e s) = frames s"
  "sockets (start_failed e s) = shut (sockets s) (socketRef s)"
  by (cases "socketRef s"; simp add: start_failed_def Let_def split: option.split)+

section \<open>Nothing is sent on a socket after its session was closed\<close>

definition frames_on :: "nat \<Rightarrow> terminal \<Rightarrow> frame list" where
  \<comment> \<open>the latest first\<close>
  "frames_on k s = map snd (filter (\<lambda>p. fst p = k) (frames s))"

definition frames_ok :: "ready \<Rightarrow> frame list \<Rightarrow> bool" where
  "frames_ok r fs \<longleftrightarrow>
     (case r of
        NoSocket \<Rightarrow> fs = []
      | Opening \<Rightarrow> fs = []
      | Open \<Rightarrow> Session_close \<notin> set fs
      | _ \<Rightarrow> Session_close \<notin> set (List.tl fs))"

definition numbered :: "terminal \<Rightarrow> bool" where
  "numbered s \<longleftrightarrow>
     (\<forall>k. (k \<in> set (awaiting s) \<longrightarrow> k < attempts s \<and> sockets s k = NoSocket) \<and>
          (sockets s k \<noteq> NoSocket \<longrightarrow> k < attempts s))"

definition wire_ok :: "terminal \<Rightarrow> bool" where
  "wire_ok s \<longleftrightarrow> numbered s \<and> (\<forall>k. frames_ok (sockets s k) (frames_on k s))"

lemma frames_okI:
  "Session_close \<notin> set (List.tl fs) \<Longrightarrow> fs = [] \<or> r \<notin> {NoSocket, Opening} \<Longrightarrow>
     r = Open \<longrightarrow> Session_close \<notin> set fs \<Longrightarrow> frames_ok r fs"
  by (cases r) (auto simp: frames_ok_def)

lemma frames_ok_shut:
  "frames_ok (f k) fs \<Longrightarrow> frames_ok (shut f r k) fs"
  by (cases "f k"; cases fs) (auto simp: frames_ok_def shut_def)

lemma frames_ok_ended:
  "frames_ok r fs \<Longrightarrow> r' \<in> {Failed, Gone} \<Longrightarrow> frames_ok r' fs"
  by (cases r; cases fs) (auto simp: frames_ok_def)

lemma frames_ok_send:
  "frames_ok Open fs \<Longrightarrow> f \<noteq> Session_close \<Longrightarrow> frames_ok Open (f # fs)"
  "frames_ok Open fs \<Longrightarrow> frames_ok Closing (Session_close # fs)"
  by (simp_all add: frames_ok_def)

lemma frames_on_send [simp]:
  "frames_on k (send j f s) = (if j = k then f # frames_on k s else frames_on k s)"
  by (simp add: frames_on_def)

lemma frames_on_cong: "frames s = frames t \<Longrightarrow> frames_on k s = frames_on k t"
  by (simp add: frames_on_def)

lemma wire_cong:
  assumes "wire_ok s" and "frames t = frames s" and "sockets t = sockets s"
    and "set (awaiting t) \<subseteq> set (awaiting s)" and "attempts t = attempts s"
  shows "wire_ok t"
  using assms by (auto simp: wire_ok_def numbered_def frames_on_def)

lemma wire_send:
  assumes "wire_ok s" and "sockets s k = Open" and "f \<noteq> Session_close"
  shows "wire_ok (send k f s)"
proof -
  have "frames_ok (sockets s k) (frames_on k s)" using assms(1) by (simp add: wire_ok_def)
  then have "frames_ok (sockets s k) (f # frames_on k s)"
    using frames_ok_send(1) assms(2,3) by simp
  then show ?thesis using assms(1) by (simp add: wire_ok_def numbered_def)
qed

lemma wire_sendResize: "wire_ok s \<Longrightarrow> wire_ok (sendResize s)"
  by (auto simp: sendResize_def wire_send split: option.split)

lemma wire_dispose:
  assumes "wire_ok s"
  shows "wire_ok (disposeTerminal b s)"
proof -
  have "frames_ok (shut (sockets s) (socketRef s) k) (frames_on k (disposeTerminal b s))" for k
  proof (cases "socketRef s = Some k \<and> b \<and> sockets s k = Open")
    case True
    then show ?thesis
      using assms frames_ok_send(2) [of "frames_on k s"]
      by (auto simp: wire_ok_def shut_def frames_on_def dest: spec [of _ k])
  next
    case False
    then have "frames_on k (disposeTerminal b s) = frames_on k s"
      by (auto simp: frames_on_def split: option.split)
    with assms show ?thesis by (simp add: wire_ok_def frames_ok_shut)
  qed
  moreover have "numbered (disposeTerminal b s)"
    using assms by (auto simp: wire_ok_def numbered_def shut_def)
  ultimately show ?thesis by (simp add: wire_ok_def)
qed

lemma wire_failed:
  assumes "wire_ok s"
  shows "wire_ok (start_failed e s)"
proof -
  have "numbered (start_failed e s)"
    using assms by (auto simp: wire_ok_def numbered_def shut_def)
  moreover have "frames_ok (shut (sockets s) (socketRef s) k) (frames_on k (start_failed e s))" for k
    using assms frames_ok_shut [of "sockets s" k] by (simp add: wire_ok_def frames_on_def)
  ultimately show ?thesis by (simp add: wire_ok_def)
qed

lemma wire_set:
  assumes "wire_ok s" and "sockets s k \<noteq> NoSocket" and "r \<in> {Failed, Gone} \<or> sockets s k = Opening \<and> r = Open"
  shows "wire_ok (s\<lparr>sockets := (sockets s)(k := r)\<rparr>)"
proof -
  have "frames_ok r (frames_on k s)"
    using assms frames_ok_ended [of "sockets s k"] by (auto simp: wire_ok_def frames_ok_def dest: spec [of _ k])
  then show ?thesis using assms by (auto simp: wire_ok_def numbered_def frames_on_def)
qed

lemma new_socket_fields [simp]:
  "sockets (new_socket h a k p s) = (sockets s)(k := Opening)" "frames (new_socket h a k p s) = frames s"
  "awaiting (new_socket h a k p s) = awaiting s" "attempts (new_socket h a k p s) = attempts s"
  "socketRef (new_socket h a k p s) = Some k"
  by (simp_all add: new_socket_def)

lemma wire_ticket:
  assumes "wire_ok s" and "k \<in> set (awaiting s)"
  shows "wire_ok (new_socket h a k p (s\<lparr>awaiting := removeAll k (awaiting s)\<rparr>))"
proof -
  have none: "sockets s k = NoSocket" "k < attempts s"
    using assms by (auto simp: wire_ok_def numbered_def)
  then have "frames_on k s = []"
    using assms(1) by (auto simp: wire_ok_def frames_ok_def dest: spec [of _ k])
  with assms(1) none show ?thesis
    by (auto simp: wire_ok_def numbered_def frames_on_def frames_ok_def)
qed

lemma wire_start: "wire_ok s \<Longrightarrow> wire_ok (fst (startTerminal_begin i n s))"
proof -
  assume "wire_ok s"
  then have d: "wire_ok (disposeTerminal False s)" by (rule wire_dispose)
  let ?t = "disposeTerminal False s"
  have "attempts ?t = attempts s" by simp
  then have fresh: "sockets ?t (attempts s) = NoSocket"
    using d unfolding wire_ok_def numbered_def by (metis less_irrefl)
  have "numbered (?t\<lparr>attempts := Suc (attempts s), awaiting := attempts s # awaiting s\<rparr>)"
    using d fresh by (auto simp: wire_ok_def numbered_def intro: less_SucI)
  then have "wire_ok (fst (startTerminal_begin i n s))" if "\<not> (\<not> tenabled s \<or> \<not> has_container s \<or>
      tstate s = TConnecting \<or> tstate s = TConnected)"
    using d that by (simp add: startTerminal_begin_def Let_def wire_ok_def numbered_def frames_on_def)
  then show ?thesis
    using \<open>wire_ok s\<close> by (cases "\<not> tenabled s \<or> \<not> has_container s \<or> tstate s = TConnecting \<or> tstate s = TConnected")
      (simp_all add: startTerminal_begin_def)
qed

lemma wire_happens:
  assumes "wire_ok s" and "can e s"
  shows "wire_ok (happen e s)"
proof (cases e)
  case (Start_click i n)
  then show ?thesis using assms wire_start by simp
next
  case (Ticket https host k reply)
  let ?s = "s\<lparr>awaiting := removeAll k (awaiting s)\<rparr>"
  have "wire_ok ?s" by (rule wire_cong [OF assms(1)]) auto
  moreover have sock: "wire_ok (new_socket https host k path ?s)" for path
    using wire_ticket assms Ticket by simp
  moreover have "wire_ok (new_socket https host k path ?s\<lparr>observing := x, resizeObserverRef := Some k\<rparr>)"
    for path x by (rule wire_cong [OF sock]) simp_all
  ultimately show ?thesis
    using Ticket by (auto simp: startTerminal_ticket_def Let_def wire_failed split: sum.split)
next
  case (Opened k)
  have "wire_ok (s\<lparr>sockets := (sockets s)(k := Open)\<rparr>)"
    by (rule wire_set [OF assms(1)]) (use assms(2) Opened in auto)
  then have "wire_ok (writes k Cleared (set_state TConnected (s\<lparr>sockets := (sockets s)(k := Open)\<rparr>)))"
    by (rule wire_cong) simp_all
  then show ?thesis using Opened by (simp add: socket_opened_def wire_sendResize)
next
  case (Socket_error k)
  have "wire_ok (s\<lparr>sockets := (sockets s)(k := Failed)\<rparr>)"
    by (rule wire_set [OF assms(1)]) (use assms(2) Socket_error in auto)
  then show ?thesis unfolding Socket_error happen.simps socket_failed_def
    by (rule wire_cong) simp_all
next
  case (Socket_close k r)
  have "wire_ok (s\<lparr>sockets := (sockets s)(k := Gone)\<rparr>)"
    by (rule wire_set [OF assms(1)]) (use assms(2) Socket_close in auto)
  then show ?thesis unfolding Socket_close happen.simps socket_closed_def Let_def
    by (rule wire_cong) simp_all
next
  case (Typed utf8 k t)
  then show ?thesis using assms wire_send by (simp add: terminal_data_def)
next
  case Close_click
  have "wire_ok (disposeTerminal True s)" by (rule wire_dispose [OF assms(1)])
  then show ?thesis unfolding Close_click happen.simps closeTerminal_def
    by (rule wire_cong) simp_all
next
  case Unmount
  have "wire_ok (disposeTerminal True s)" by (rule wire_dispose [OF assms(1)])
  then show ?thesis unfolding Unmount happen.simps unmount_def
    by (rule wire_cong) simp_all
next
  case (Message k m)
  then have "happen e s = socket_message k m s" by simp
  moreover have "frames (socket_message k m s) = frames s \<and> sockets (socket_message k m s) = sockets s \<and>
      awaiting (socket_message k m s) = awaiting s \<and> attempts (socket_message k m s) = attempts s"
    by (simp add: socket_message_def Let_def split: option.split)
  ultimately show ?thesis using wire_cong [OF assms(1)] by simp
next
  case (Set_props en un)
  show ?thesis unfolding Set_props happen.simps by (rule wire_cong [OF assms(1)]) simp_all
qed (use assms wire_sendResize in \<open>simp_all add: click_fit_def\<close>)

lemma wire_reach: "term_reach en un s \<Longrightarrow> wire_ok s"
proof (induction rule: term_reach.induct)
  case mounted
  show ?case by (simp add: wire_ok_def numbered_def frames_ok_def init_terminal_def frames_on_def)
next
  case (event s e)
  then show ?case using wire_happens by blast
qed

text \<open>
  C10. Whatever the order of clicks, tickets, socket events, typing and resizing: nothing is sent on a
  socket before it is open, its session is closed at most once, and after the message that closes it
  nothing more is sent there.
\<close>

theorem closed_session_silent:
  assumes "term_reach en un s"
  shows "(if sockets s k \<in> {NoSocket, Opening} then frames_on k s = [] else True) \<and>
         Session_close \<notin> set (List.tl (frames_on k s)) \<and>
         (if sockets s k = Open then Session_close \<notin> set (frames_on k s) else True)"
proof -
  have "frames_ok (sockets s k) (frames_on k s)"
    using wire_reach [OF assms] by (simp add: wire_ok_def)
  then show ?thesis
    by (cases "sockets s k"; cases "frames_on k s") (auto simp: frames_ok_def)
qed

section \<open>Sessions that escape the close button\<close>

definition orphan :: "nat \<Rightarrow> terminal \<Rightarrow> bool" where
  \<comment> \<open>an open socket that the component has lost\<close>
  "orphan n s \<longleftrightarrow> sockets s n = Open \<and> socketRef s \<noteq> Some n \<and> n \<notin> set (awaiting s)"

definition ends :: "nat \<Rightarrow> terminal_event \<Rightarrow> bool" where
  \<comment> \<open>the network or the server ends socket \<open>n\<close>\<close>
  "ends n e \<longleftrightarrow> (case e of Socket_error k \<Rightarrow> k = n | Socket_close k r \<Rightarrow> k = n | _ \<Rightarrow> False)"

lemma shut_other: "r \<noteq> Some n \<Longrightarrow> shut f r n = f n"
  by (simp add: shut_def)

lemma orphan_stays:
  assumes "wire_ok s" and "orphan n s" and "can e s" and "\<not> ends n e"
  shows "orphan n (happen e s)"
proof -
  have num: "n < attempts s"
    using assms(1,2) by (auto simp: wire_ok_def numbered_def orphan_def)
  show ?thesis
    using assms(2-4) num
    by (cases e)
      (auto simp: orphan_def ends_def shut_other startTerminal_begin_def startTerminal_ticket_def
        socket_opened_def socket_message_def socket_failed_def socket_closed_def terminal_data_def
        closeTerminal_def unmount_def click_fit_def Let_def split: sum.split option.split)
qed

lemma orphan_run:
  "wire_ok s \<Longrightarrow> orphan n s \<Longrightarrow> list_all (\<lambda>e. \<not> ends n e) es \<Longrightarrow> run_events es s = Some t \<Longrightarrow> orphan n t"
  by (induction es arbitrary: s) (auto split: if_splits intro: wire_happens orphan_stays)

text \<open>
  A session that was closed while its ticket was on the way is opened all the same: the ticket and
  the socket do not look at the state, and the page says connected, over a terminal that is gone.
\<close>

lemma view_fields [simp]:
  "terminalRef (disposeTerminal b s) = None" "tmounted (disposeTerminal b s) = tmounted s"
  "tunsupported (disposeTerminal b s) = tunsupported s"
  "terminalRef (closed_unless_error s) = terminalRef s" "tmounted (closed_unless_error s) = tmounted s"
  "tunsupported (closed_unless_error s) = tunsupported s"
  "terminalRef (new_socket h a k p s) = terminalRef s"
  "has_container (new_socket h a k p s) = has_container s"
  "terminalRef (set_state c s) = terminalRef s" "terminalRef (writes k w s) = terminalRef s"
  "tstate (writes k w s) = tstate s" "tstate (set_state c s) = c"
  "tstate (sendResize s) = tstate s" "terminalRef (sendResize s) = terminalRef s"
  by (simp_all add: disposeTerminal_def drop_observer_def closed_unless_error_def set_state_def
      close_socket_def send_def new_socket_def has_container_def writes_def sendResize_def Let_def
      split: option.split)

lemma socket_opened_fields [simp]:
  "tstate (socket_opened k s) = TConnected" "sockets (socket_opened k s) = (sockets s)(k := Open)"
  "socketRef (socket_opened k s) = socketRef s" "terminalRef (socket_opened k s) = terminalRef s"
  by (simp_all add: socket_opened_def)

lemma ticket_fields:
  assumes "has_container s"
  shows "socketRef (startTerminal_ticket h a k (Inr p) s) = Some k"
    "terminalRef (startTerminal_ticket h a k (Inr p) s) = terminalRef s"
  using assms by (simp_all add: startTerminal_ticket_def Let_def has_container_def new_socket_def)

lemma close_does_not_cancel:
  fixes h a p s k
  assumes "tmounted s" and "\<not> tunsupported s"
  defines "t \<equiv> happen (Opened k) (happen (Ticket h a k (Inr p)) (happen Close_click s))"
  shows "tstate t = TConnected" "sockets t k = Open" "socketRef t = Some k" "terminalRef t = None"
proof -
  have "has_container (closeTerminal True s)" and "terminalRef (closeTerminal True s) = None"
    using assms(1,2) by (simp_all add: closeTerminal_def has_container_def)
  then show "tstate t = TConnected" "sockets t k = Open" "socketRef t = Some k" "terminalRef t = None"
    by (simp_all add: t_def ticket_fields)
qed

text \<open>
  C40. A session can escape the close button: the event of a socket that was closed before arrives when
  the next session is open, and its handler forgets that session's socket.  The page then says
  closed, and from there no sequence of clicks, of new sessions or of leaving the page closes the
  socket; it stays open until the network or the server ends it.
\<close>

theorem late_close_orphans:
  fixes m n r es s
  assumes "term_reach en un s" and "socketRef s = Some n" and "sockets s n = Open"
    and "sockets s m = Closing"
  defines "t \<equiv> happen (Socket_close m r) s"
  shows "can (Socket_close m r) s \<and> (tstate s \<noteq> TError \<longrightarrow> tstate t = TClosed) \<and> socketRef t = None \<and>
         (list_all (\<lambda>e. \<not> ends n e) es \<and> run_events es t = Some u \<longrightarrow> sockets u n = Open)"
proof -
  have w: "wire_ok s" by (rule wire_reach [OF assms(1)])
  have c: "can (Socket_close m r) s" using assms(4) by simp
  have "m \<noteq> n" using assms(3,4) by auto
  moreover have "n \<notin> set (awaiting s)"
    using w assms(3) by (auto simp: wire_ok_def numbered_def)
  ultimately have "orphan n t"
    using assms(3) by (simp add: t_def orphan_def socket_closed_def Let_def)
  moreover have "wire_ok t" unfolding t_def by (rule wire_happens [OF w c])
  ultimately have "sockets u n = Open"
    if "list_all (\<lambda>e. \<not> ends n e) es" "run_events es t = Some u"
    using orphan_run [of t n es u] that by (simp add: orphan_def)
  moreover have "socketRef t = None" "tstate s \<noteq> TError \<Longrightarrow> tstate t = TClosed"
    by (simp_all add: t_def socket_closed_def Let_def closed_unless_error_def set_state_def)
      (auto simp: drop_observer_def writes_def split: option.split)
  ultimately show ?thesis using c by auto
qed

definition reopened :: "terminal_event list" where
  \<comment> \<open>a session is closed and the next one opened at once\<close>
  "reopened =
     [Start_click ''a'' ''web'', Ticket True ''h'' 0 (Inr ''/t0''), Opened 0, Close_click,
      Start_click ''a'' ''web'', Ticket True ''h'' 1 (Inr ''/t1''), Opened 1]"

lemma reopened_run:
  "\<exists>s. run_events reopened (init_terminal True False) = Some s \<and> socketRef s = Some 1 \<and>
     sockets s 1 = Open \<and> sockets s 0 = Closing \<and> tstate s = TConnected \<and>
     frames s = [(1, Resize 1), (0, Session_close), (0, Resize 0)]"
  by (simp add: reopened_def init_terminal_def startTerminal_begin_def has_container_def
      startTerminal_ticket_def socket_opened_def closeTerminal_def disposeTerminal_def sendResize_def
      new_socket_def send_def close_socket_def setters)

lemma run_append: "run_events (xs @ ys) s = Option.bind (run_events xs s) (run_events ys)"
  by (induction xs arbitrary: s) auto

lemma reopened_left:
  "run_events (reopened @ [Socket_close 0 [], Start_click ''a'' ''web'', Unmount]) (init_terminal True False) \<noteq> None"
  by (simp add: reopened_def init_terminal_def startTerminal_begin_def has_container_def
      startTerminal_ticket_def socket_opened_def closeTerminal_def disposeTerminal_def sendResize_def
      new_socket_def send_def close_socket_def socket_closed_def setters shut_def)

theorem late_close_orphans_witness:
  "\<exists>s u. run_events reopened (init_terminal True False) = Some s \<and>
     run_events [Start_click ''a'' ''web'', Unmount] (happen (Socket_close 0 []) s) = Some u \<and>
     sockets u 1 = Open"
proof -
  obtain s where s: "run_events reopened (init_terminal True False) = Some s" "socketRef s = Some 1"
      "sockets s 1 = Open" "sockets s 0 = Closing" "tstate s = TConnected"
    using reopened_run by blast
  have reach: "term_reach True False s" by (rule run_reach [OF mounted s(1)])
  let ?t = "happen (Socket_close 0 []) s"
  obtain u where "run_events [Start_click ''a'' ''web'', Unmount] ?t = Some u"
    using reopened_left s(1) by (auto simp: run_append split: if_splits)
  then show ?thesis
    using s(1) late_close_orphans [OF reach s(2,3,4), of "[]" "[Start_click ''a'' ''web'', Unmount]" u]
    by (auto simp: ends_def)
qed

theorem closed_session_silent_witness:
  "\<exists>s. run_events reopened (init_terminal True False) = Some s \<and>
     frames_on 0 s = [Session_close, Resize 0] \<and> Session_close \<notin> set (List.tl (frames_on 0 s))"
proof -
  obtain s where s: "run_events reopened (init_terminal True False) = Some s"
      "frames s = [(1, Resize 1), (0, Session_close), (0, Resize 0)]"
    using reopened_run by blast
  have "term_reach True False s" by (rule run_reach [OF mounted s(1)])
  then show ?thesis
    using s closed_session_silent [of True False s 0] by (simp add: frames_on_def)
qed

end
