(* ===== verification/Palette.thy ===== *)
theory Palette
  imports JsJson
begin

text \<open>
  The command palette (\<open>components/CommandPalette.tsx\<close>) and the two ways the frame opens and closes
  it (\<open>dashboard/layout.tsx\<close>): the items, the filter, the keys and the selection.  An item's action
  is the page it goes to; icons are not modelled.
\<close>

section \<open>Items\<close>

datatype item_category = Navigation | ServersCategory | QuickActions

fun category_text :: "item_category \<Rightarrow> string" where
  "category_text Navigation = ''Navigation''"
| "category_text ServersCategory = ''Servers''"
| "category_text QuickActions = ''Quick Actions''"

record command_item =
  ci_id :: string
  ci_title :: string
  ci_subtitle :: "string option"
  ci_category :: item_category
  ci_route :: string

record palette_server =
  ps_id :: string
  ps_name :: string
  ps_ip_address :: "string option"
  ps_status :: string
  ps_group_name :: "string option"

definition nav :: "string \<Rightarrow> string \<Rightarrow> string \<Rightarrow> string \<Rightarrow> command_item" where
  "nav i t sub route =
     \<lparr>ci_id = i, ci_title = t, ci_subtitle = Some sub, ci_category = Navigation, ci_route = route\<rparr>"

definition staticNavigationItems :: "command_item list" where
  "staticNavigationItems =
     [nav ''nav-overview'' ''Dashboard Overview'' ''System status & key metrics summary'' ''/dashboard'',
      nav ''nav-servers'' ''Server Management'' ''Manage server fleet & auto-update agent settings'' ''/dashboard/servers'',
      nav ''nav-websites'' ''Uptime & SSL Monitoring'' ''Monitor domain availability and SSL certificates'' ''/dashboard/websites'',
      nav ''nav-monitoring'' ''Metrics & Telemetry'' ''Interactive host metrics and monitoring dashboards'' ''/dashboard/monitoring'',
      nav ''nav-logs'' ''Unified System & Container Logs'' ''Real-time log viewer for agents and docker containers'' ''/dashboard/logs'',
      nav ''nav-alerts'' ''Alerts & Incidents'' ''Active incident management and notifications'' ''/dashboard/alerts'']"

definition bullet :: string where
  "bullet = [char_of (226::nat), char_of (128::nat), char_of (162::nat)]"

definition server_item :: "palette_server \<Rightarrow> command_item" where
  "server_item x =
     \<lparr>ci_id = ''server-'' @ ps_id x, ci_title = ps_name x,
      ci_subtitle = Some (opt_or (ps_ip_address x) ''No IP'' @ '' '' @ bullet @ '' Status: '' @ to_upper (ps_status x) @
        '' '' @ bullet @ '' Group: '' @ opt_or (ps_group_name x) ''Default''),
      ci_category = ServersCategory, ci_route = ''/dashboard/servers/'' @ ps_id x\<rparr>"

section \<open>State\<close>

record palette =
  isOpen :: bool
  query :: string
  pservers :: "palette_server list"
  selectedIndex :: nat
  proute :: "string option"  \<comment> \<open>the page the router was last sent to\<close>

definition init_palette :: palette where
  "init_palette = \<lparr>isOpen = False, query = [], pservers = [], selectedIndex = 0, proute = None\<rparr>"

definition allItems :: "palette \<Rightarrow> command_item list" where
  "allItems s = staticNavigationItems @ map server_item (pservers s)"

definition item_matches :: "string \<Rightarrow> command_item \<Rightarrow> bool" where
  "item_matches typed item \<longleftrightarrow>
     (let q = trim (to_lower typed)
      in q = [] \<or> str_includes (to_lower (ci_title item)) q \<or>
         (case ci_subtitle item of Some t \<Rightarrow> t \<noteq> [] \<and> str_includes (to_lower t) q | None \<Rightarrow> False) \<or>
         str_includes (to_lower (category_text (ci_category item))) q)"

definition filteredItems :: "palette \<Rightarrow> command_item list" where
  "filteredItems s = filter (item_matches (query s)) (allItems s)"

section \<open>Opening, closing and loading\<close>

definition closePalette :: "palette \<Rightarrow> palette" where
  "closePalette s = s\<lparr>query := [], selectedIndex := 0, isOpen := False\<rparr>"

definition toggle_shortcut :: "palette \<Rightarrow> palette \<times> request option" where
  \<comment> \<open>Ctrl+K of the frame, with the effect that loads the servers when the palette opens\<close>
  "toggle_shortcut s =
     (s\<lparr>isOpen := \<not> isOpen s\<rparr>, if isOpen s then None else Some (request_get ''/servers''))"

definition quick_search :: "palette \<Rightarrow> palette \<times> request option" where
  \<comment> \<open>the entry of the user's menu\<close>
  "quick_search s = (s\<lparr>isOpen := True\<rparr>, if isOpen s then None else Some (request_get ''/servers''))"

definition servers_answer :: "palette_server list option outcome \<Rightarrow> palette \<Rightarrow> palette" where
  \<comment> \<open>\<open>None\<close> for an answer that is not an array\<close>
  "servers_answer reply s = s\<lparr>pservers := (case reply of Inr (Some xs) \<Rightarrow> xs | _ \<Rightarrow> [])\<rparr>"

definition type_query :: "string \<Rightarrow> palette \<Rightarrow> palette" where
  "type_query q s = s\<lparr>query := q, selectedIndex := 0\<rparr>"

definition hover :: "nat \<Rightarrow> palette \<Rightarrow> palette" where
  \<comment> \<open>the pointer enters the row of that index\<close>
  "hover i s = (if i < length (filteredItems s) then s\<lparr>selectedIndex := i\<rparr> else s)"

definition item_action :: "command_item \<Rightarrow> palette \<Rightarrow> palette" where
  "item_action item s = closePalette (s\<lparr>proute := Some (ci_route item)\<rparr>)"

definition click_item :: "nat \<Rightarrow> palette \<Rightarrow> palette" where
  "click_item i s =
     (if i < length (filteredItems s) then item_action (filteredItems s ! i) s else s)"

section \<open>Keys\<close>

datatype key = Escape | ArrowDown | ArrowUp | Enter | OtherKey

definition rows :: "palette \<Rightarrow> nat" where
  \<comment> \<open>\<open>filteredItems.length || 1\<close>\<close>
  "rows s = (if filteredItems s = [] then 1 else length (filteredItems s))"

fun handleKeyDown :: "key \<Rightarrow> palette \<Rightarrow> palette" where
  \<comment> \<open>the sum of \<open>ArrowUp\<close> is negative only for an empty list at index 0, where the remainder by 1
      is (negative) zero\<close>
  "handleKeyDown k s =
     (if \<not> isOpen s then s
      else case k of
             Escape \<Rightarrow> closePalette s
           | ArrowDown \<Rightarrow> s\<lparr>selectedIndex := (selectedIndex s + 1) mod rows s\<rparr>
           | ArrowUp \<Rightarrow> s\<lparr>selectedIndex := (selectedIndex s + length (filteredItems s) - 1) mod rows s\<rparr>
           | Enter \<Rightarrow>
               (if selectedIndex s < length (filteredItems s)
                then item_action (filteredItems s ! selectedIndex s) s else s)
           | OtherKey \<Rightarrow> s)"

definition highlighted :: "palette \<Rightarrow> command_item list" where
  \<comment> \<open>the rows drawn as selected\<close>
  "highlighted s =
     (if isOpen s
      then map snd (filter (\<lambda>(i, item). i = selectedIndex s) (enumerate 0 (filteredItems s))) else [])"

section \<open>Properties\<close>

lemma enumerate_at:
  "filter (\<lambda>(i, x). i = k) (enumerate n xs) =
     (if n \<le> k \<and> k < n + length xs then [(k, xs ! (k - n))] else [])"
proof (induction xs arbitrary: n)
  case (Cons x xs)
  then show ?case by (cases "k = n") (auto simp: nth_Cons')
qed simp

lemma highlighted_at:
  "highlighted s =
     (if isOpen s \<and> selectedIndex s < length (filteredItems s)
      then [filteredItems s ! selectedIndex s] else [])"
  by (simp add: highlighted_def enumerate_at)

lemma filteredItems_index [simp]: "filteredItems (s\<lparr>selectedIndex := i\<rparr>) = filteredItems s"
  by (simp add: filteredItems_def allItems_def)

lemma wrap_down:
  fixes i n :: nat
  assumes "i < n"
  shows "((i + 1) mod n + n - 1) mod n = i"
proof (cases "i + 1 = n")
  case True
  then show ?thesis by auto
next
  case False
  with assms have "(i + 1) mod n = i + 1" by simp
  with assms show ?thesis by simp
qed

lemma wrap_up:
  fixes i n :: nat
  assumes "i < n"
  shows "((i + n - 1) mod n + 1) mod n = i"
proof (cases i)
  case 0
  with assms show ?thesis by simp
next
  case (Suc j)
  with assms have "(i + n - 1) mod n = j" by simp
  with Suc assms show ?thesis by simp
qed

lemma up_down:
  assumes "isOpen s" and "selectedIndex s < length (filteredItems s)"
  shows "handleKeyDown ArrowUp (handleKeyDown ArrowDown s) = s"
    and "handleKeyDown ArrowDown (handleKeyDown ArrowUp s) = s"
proof -
  let ?n = "length (filteredItems s)" and ?i = "selectedIndex s"
  have n: "rows s = ?n" "0 < ?n" using assms(2) by (auto simp: rows_def)
  have rows: "rows (s\<lparr>selectedIndex := j\<rparr>) = rows s" for j by (simp add: rows_def)
  show "handleKeyDown ArrowUp (handleKeyDown ArrowDown s) = s"
    using assms n(1) wrap_down [OF assms(2)] by (simp add: rows)
  show "handleKeyDown ArrowDown (handleKeyDown ArrowUp s) = s"
    using assms n(1) wrap_up [OF assms(2)] by (simp add: rows)
qed

text \<open>
  The keys act on what is drawn: Enter opens exactly the row drawn as selected and nothing where
  none is, each arrow selects a row whenever there is one, and up and down undo each other, over
  the ends of the list too.
\<close>

theorem palette_keys:
  "handleKeyDown Enter s =
     (case highlighted s of item # r \<Rightarrow> item_action item s | [] \<Rightarrow> s) \<and>
   (if isOpen s \<and> filteredItems s \<noteq> []
    then highlighted (handleKeyDown ArrowUp s) \<noteq> [] \<and> highlighted (handleKeyDown ArrowDown s) \<noteq> [] else True) \<and>
   (if highlighted s \<noteq> []
    then handleKeyDown ArrowUp (handleKeyDown ArrowDown s) = s \<and>
         handleKeyDown ArrowDown (handleKeyDown ArrowUp s) = s else True)"
proof -
  have "handleKeyDown Enter s = (case highlighted s of item # r \<Rightarrow> item_action item s | [] \<Rightarrow> s)"
    by (simp add: highlighted_at)
  moreover have "highlighted (handleKeyDown k s) \<noteq> []"
    if "isOpen s" "filteredItems s \<noteq> []" "k = ArrowUp \<or> k = ArrowDown" for k
    using that by (auto simp: highlighted_at rows_def)
  moreover have "highlighted s \<noteq> [] \<Longrightarrow> isOpen s \<and> selectedIndex s < length (filteredItems s)"
    by (simp add: highlighted_at split: if_splits)
  ultimately show ?thesis using up_down by (auto simp del: handleKeyDown.simps)
qed

text \<open>
  The shortcut of the frame closes the palette without clearing it, unlike Escape and a choice: it
  opens again with the old text.
\<close>

lemma shortcut_keeps_query:
  "isOpen s \<Longrightarrow> fst (toggle_shortcut (fst (toggle_shortcut s))) = s"
  "query (fst (toggle_shortcut (handleKeyDown Escape (s\<lparr>isOpen := True\<rparr>)))) = []"
  by (simp_all add: toggle_shortcut_def closePalette_def)

text \<open>An answer that is shorter than the last can leave no row selected.\<close>

lemma shrunk_selection:
  "isOpen s \<Longrightarrow> length (filteredItems (servers_answer r s)) \<le> selectedIndex s \<Longrightarrow>
     highlighted (servers_answer r s) = []"
  by (simp add: highlighted_at servers_answer_def)

end
