(* ===== verification/Session.thy ===== *)
theory Session
  imports ApiClient Base64 JsVersion
begin

text \<open>
  The role in the access token (\<open>getUserRole\<close> of \<open>lib/apiClient.ts\<close>), which every page of the
  dashboard starts from, and the tokens it reads.  \<open>json_parse\<close> is \<open>JSON.parse\<close>, \<open>None\<close> where
  it throws.
\<close>

definition token_payload :: "string \<Rightarrow> string option" where
  \<comment> \<open>the decoded second part of a token, \<open>None\<close> where there is none or \<open>atob\<close> throws\<close>
  "token_payload token =
     (case split_on (CHR ''.'') token of
        h # p # r \<Rightarrow> (if p = [] then None else atob (pad_base64 (map of_url p)))
      | _ \<Rightarrow> None)"

definition getUserRole :: "(string \<Rightarrow> json option) \<Rightarrow> browser \<Rightarrow> json" where
  \<comment> \<open>the value of \<open>payload.role\<close> as it is; a payload that is null throws, and the catch answers
      \<open>viewer\<close>\<close>
  "getUserRole json_parse b =
     (if \<not> truthy (initial_token b) then JStr ''viewer''
      else case Option.bind (token_payload (the (initial_token b))) json_parse of
             None \<Rightarrow> JStr ''viewer''
           | Some pl \<Rightarrow>
               (if js_truthy (field pl ''role'') then the (field pl ''role'') else JStr ''viewer''))"

definition jwt :: "string \<Rightarrow> string \<Rightarrow> string \<Rightarrow> string" where
  \<comment> \<open>a token as the server writes it\<close>
  "jwt header text signature = header @ CHR ''.'' # base64url text @ CHR ''.'' # signature"

lemma base64url_no_dot: "CHR ''.'' \<notin> set (base64url text)"
proof -
  have "list_all (\<lambda>n. n < 64) (encode_bytes (map of_char text))"
    by (rule encode_small [OF bytes_small])
  then show ?thesis
    unfolding base64url_def using sextet_char_in to_url_plain by (fastforce simp: list_all_iff)
qed

lemma base64url_empty [simp]: "base64url text = [] \<longleftrightarrow> text = []"
  by (cases "map of_char text :: nat list" rule: encode_bytes.cases) (auto simp: base64url_def)

lemma token_payload_jwt:
  assumes "CHR ''.'' \<notin> set header" and "text \<noteq> []"
  shows "token_payload (jwt header text signature) = Some text"
  using assms by (simp add: token_payload_def jwt_def split_on_append base64url_no_dot atob_base64url)

text \<open>
  C22. The role is read from the token and fails closed: from a token the server wrote, in whichever
  storage it lies, the page reads the role that the payload carries; without a token, with one
  that is not three parts, does not decode or does not parse, or with a payload without a role,
  the user is a viewer.
\<close>

theorem role_read_from_token:
  assumes "CHR ''.'' \<notin> set header" and "text \<noteq> []" and "json_parse text = Some (JObj kvs)"
    and "initial_token b = Some (jwt header text signature)"
  shows "getUserRole json_parse b =
           (case map_of kvs ''role'' of
              Some (JStr r) \<Rightarrow> JStr (str_or r ''viewer'')
            | Some j \<Rightarrow> (if js_truthy (Some j) then j else JStr ''viewer'')
            | None \<Rightarrow> JStr ''viewer'') \<and>
         (\<not> truthy (initial_token b') \<or> token_payload (the (initial_token b')) = None \<or>
          Option.bind (token_payload (the (initial_token b'))) json_parse \<in> {None, Some JNull} \<longrightarrow>
            getUserRole json_parse b' = JStr ''viewer'')"
proof -
  have "jwt header text signature \<noteq> []" by (simp add: jwt_def)
  then have "getUserRole json_parse b =
      (if js_truthy (map_of kvs ''role'') then the (map_of kvs ''role'') else JStr ''viewer'')"
    using assms(3,4) token_payload_jwt [OF assms(1,2)] by (simp add: getUserRole_def)
  moreover have "getUserRole json_parse b' = JStr ''viewer''"
    if "\<not> truthy (initial_token b') \<or> token_payload (the (initial_token b')) = None \<or>
      Option.bind (token_payload (the (initial_token b'))) json_parse \<in> {None, Some JNull}"
    using that by (auto simp: getUserRole_def)
  ultimately show ?thesis
    by (auto simp: str_or_def split: option.split json.split)
qed

definition demo_token :: string where
  "demo_token = jwt ''h'' ''admin'' ''s''"

definition demo_parse :: "string \<Rightarrow> json option" where
  \<comment> \<open>a parser for payloads that are just the role\<close>
  "demo_parse t = Some (JObj [(''role'', JStr t)])"

theorem role_read_from_token_witness:
  "getUserRole demo_parse
     (setItem \<lparr>localStorage = Map.empty, sessionStorage = Map.empty\<rparr> SessionStorage ''access_token'' demo_token) =
   JStr ''admin''"
proof -
  have "initial_token (setItem \<lparr>localStorage = Map.empty, sessionStorage = Map.empty\<rparr> SessionStorage
      ''access_token'' demo_token) = Some (jwt ''h'' ''admin'' ''s'')"
    by (simp add: initial_token_def ws.get_set demo_token_def)
  then show ?thesis
    using role_read_from_token [of "''h''" "''admin''" demo_parse "[(''role'', JStr ''admin'')]" _ "''s''"]
    by (simp add: demo_parse_def)
qed

end
