(* ===== verification/SignIn.thy ===== *)
theory SignIn
  imports Session ApiFlight
begin

text \<open>
  The pages outside the dashboard: sign-in (\<open>app/login/page.tsx\<close>), first setup
  (\<open>app/setup/page.tsx\<close>), the two pages of a forgotten password, the routing of the root page
  and of \<open>/register\<close>.  The sign-out is \<open>clear_tokens\<close> of the theory ApiFlight.  \<open>browser_zone\<close> is the time
  zone of the browser and \<open>origin\<close> the origin of the page.  Checks the browser makes on form
  fields before a submission are not modelled.
\<close>

section \<open>Messages\<close>

definition word_char :: "char \<Rightarrow> bool" where
  \<comment> \<open>\<open>[A-Za-z0-9_]\<close>\<close>
  "word_char c \<longleftrightarrow>
     (97 \<le> char_code c \<and> char_code c \<le> 122) \<or> (65 \<le> char_code c \<and> char_code c \<le> 90) \<or>
     is_digit c \<or> c = CHR ''_''"

definition strip_word_code :: "string \<Rightarrow> string" where
  \<comment> \<open>\<open>message.replace(/^\[[A-Za-z0-9_]+\]\s*/, '')\<close>\<close>
  "strip_word_code s =
     (case s of
        c # r \<Rightarrow>
          (if c = CHR ''['' \<and> takeWhile word_char r \<noteq> [] \<and> dropWhile word_char r \<noteq> [] \<and>
              hd (dropWhile word_char r) = CHR '']''
           then dropWhile is_ws (tl (dropWhile word_char r)) else s)
      | [] \<Rightarrow> [])"

definition formatAuthError :: "thrown \<Rightarrow> string" where
  "formatAuthError err =
     (case err of
        NonError \<Rightarrow> ''Invalid username or password. Please try again.''
      | ErrorObj m \<Rightarrow>
          (let raw = trim (strip_word_code m); has = str_includes (to_lower raw)
           in if has ''invalid'' \<or> has ''unauthorized'' \<or> has ''credential''
              then ''Invalid username or password. Please check your credentials and try again.''
              else if has ''rate limit'' \<or> has ''too many''
              then ''Too many login attempts. Please wait a moment and try again.''
              else str_or raw ''Unable to sign in. Please try again later.''))"

section \<open>Sign-in\<close>

record login_page =
  username :: string
  password :: string
  rememberMe :: bool
  lerror :: string
  lloading :: bool

definition init_login :: login_page where
  "init_login = \<lparr>username = ''admin'', password = [], rememberMe = True, lerror = [], lloading = False\<rparr>"

definition handleLogin_begin :: "login_page \<Rightarrow> login_page \<times> request" where
  "handleLogin_begin s =
     (s\<lparr>lerror := [], lloading := True\<rparr>,
      request_send ''POST'' ''/auth/login''
        (JObj [(''username'', JStr (username s)), (''password'', JStr (password s))]))"

definition store_tokens :: "area \<Rightarrow> string \<Rightarrow> string \<Rightarrow> browser \<Rightarrow> browser" where
  "store_tokens a access refresh b =
     setItem (setItem b a ''access_token'' access) a ''refresh_token'' refresh"

definition handleLogin_finish ::
  "bool \<Rightarrow> (string \<times> string) outcome \<Rightarrow> browser \<Rightarrow> login_page \<Rightarrow> browser \<times> login_page \<times> string option" where
  \<comment> \<open>with the page the router goes to; \<open>remember\<close> as it was when the form was sent\<close>
  "handleLogin_finish remember reply b s =
     (case reply of
        Inr (access, refresh) \<Rightarrow>
          (store_tokens (if remember then LocalStorage else SessionStorage) access refresh b,
           s\<lparr>lloading := False\<rparr>, Some ''/dashboard'')
      | Inl e \<Rightarrow> (b, s\<lparr>lerror := formatAuthError e, lloading := False\<rparr>, None))"

section \<open>Setup\<close>

record setup_status =
  su_configured :: bool
  su_system_name :: "string option"
  su_timezone :: "string option"
  su_public_url :: "string option"

record setup_page =
  sstatus :: "setup_status option"
  ssystemName :: string
  stimezone :: "string option"
  spublicURL :: string
  susername :: string
  spassword :: string
  sconfirm :: string
  sloading :: bool
  ssubmitting :: bool
  serror :: string

definition init_setup :: setup_page where
  "init_setup =
     \<lparr>sstatus = None, ssystemName = ''DatrixOps'', stimezone = Some ''UTC'', spublicURL = [],
      susername = ''admin'', spassword = [], sconfirm = [], sloading = True, ssubmitting = False, serror = []\<rparr>"

definition setup_status_finish ::
  "string \<Rightarrow> string \<Rightarrow> setup_status outcome \<Rightarrow> setup_page \<Rightarrow> setup_page" where
  "setup_status_finish browser_zone origin reply s =
     (case reply of
        Inr d \<Rightarrow>
          s\<lparr>sstatus := Some d, ssystemName := opt_or (su_system_name d) ''DatrixOps'',
            stimezone := (if su_timezone d = Some ''UTC'' then Some (str_or browser_zone ''UTC'') else su_timezone d),
            spublicURL := opt_or (su_public_url d) origin\<rparr>
      | Inl e \<Rightarrow> s\<lparr>serror := errorMessage e ''Unable to read setup status''\<rparr>)\<lparr>sloading := False\<rparr>"

definition setup_redirect :: "browser \<Rightarrow> setup_page \<Rightarrow> string option" where
  "setup_redirect b s =
     (case sstatus s of
        Some d \<Rightarrow> (if su_configured d
                   then Some (if truthy (initial_token b) then ''/dashboard'' else ''/login'') else None)
      | None \<Rightarrow> None)"

definition completeSetup_begin :: "setup_page \<Rightarrow> setup_page \<times> request option" where
  "completeSetup_begin s =
     (if spassword s \<noteq> sconfirm s then (s\<lparr>serror := ''Passwords do not match''\<rparr>, None)
      else (s\<lparr>serror := [], ssubmitting := True\<rparr>,
            Some (request_send ''POST'' ''/setup/complete''
              (JObj ([(''username'', JStr (susername s)), (''password'', JStr (spassword s)),
                      (''system_name'', JStr (ssystemName s))] @
                     (case stimezone s of Some z \<Rightarrow> [(''timezone'', JStr z)] | None \<Rightarrow> []) @
                     [(''public_url'', JStr (spublicURL s))])))))"

definition completeSetup_finish :: "unit outcome \<Rightarrow> setup_page \<Rightarrow> setup_page \<times> string option" where
  "completeSetup_finish reply s =
     (case reply of
        Inr _ \<Rightarrow> (s\<lparr>ssubmitting := False\<rparr>, Some ''/login?setup=complete'')
      | Inl e \<Rightarrow> (s\<lparr>serror := errorMessage e ''Unable to complete setup'', ssubmitting := False\<rparr>, None))"

section \<open>A forgotten password\<close>

record forgot_page =
  email :: string
  floading :: bool
  submitted :: bool
  ferror :: string

definition forgot_begin :: "forgot_page \<Rightarrow> forgot_page \<times> request" where
  "forgot_begin s =
     (s\<lparr>ferror := [], floading := True\<rparr>,
      request_send ''POST'' ''/auth/forgot-password'' (JObj [(''email'', JStr (email s))]))"

definition forgot_finish :: "unit outcome \<Rightarrow> forgot_page \<Rightarrow> forgot_page" where
  \<comment> \<open>the answer does not tell whether the account exists\<close>
  "forgot_finish reply s =
     (case reply of
        Inr _ \<Rightarrow> s\<lparr>submitted := True\<rparr>
      | Inl (ErrorObj m) \<Rightarrow>
          (if str_includes m ''rate limit''
           then s\<lparr>ferror := ''Too many requests. Please wait a moment and try again.''\<rparr>
           else s\<lparr>submitted := True\<rparr>)
      | Inl NonError \<Rightarrow> s\<lparr>submitted := True\<rparr>)\<lparr>floading := False\<rparr>"

record reset_page =
  rpassword :: string
  rconfirm :: string
  rloading :: bool
  rsuccess :: bool
  rerror :: string

definition handleReset_begin :: "string \<Rightarrow> string \<Rightarrow> reset_page \<Rightarrow> reset_page \<times> request option" where
  \<comment> \<open>with the token and the address of the link\<close>
  "handleReset_begin token mail s =
     (if rpassword s \<noteq> rconfirm s then (s\<lparr>rerror := ''Passwords do not match.''\<rparr>, None)
      else if length (rpassword s) < 8
      then (s\<lparr>rerror := ''New password must be at least 8 characters long.''\<rparr>, None)
      else (s\<lparr>rerror := [], rloading := True\<rparr>,
            Some (request_send ''POST'' ''/auth/reset-password''
              (JObj [(''token'', JStr token), (''email'', JStr mail), (''new_password'', JStr (rpassword s))]))))"

definition handleReset_finish :: "unit outcome \<Rightarrow> reset_page \<Rightarrow> reset_page" where
  "handleReset_finish reply s =
     (case reply of
        Inr _ \<Rightarrow> s\<lparr>rsuccess := True\<rparr>
      | Inl (ErrorObj m) \<Rightarrow> s\<lparr>rerror := str_or (strip_word_code m) ''Invalid or expired reset token.''\<rparr>
      | Inl NonError \<Rightarrow> s\<lparr>rerror := ''Failed to reset password. Please try again.''\<rparr>)\<lparr>rloading := False\<rparr>"

section \<open>Where a visitor is sent\<close>

definition root_route ::
  "bool outcome \<Rightarrow> bool \<Rightarrow> unit outcome \<Rightarrow> string + string" where
  \<comment> \<open>the root page: the message it shows or the page it goes to; the first answer says whether the
      instance is set up, the last is that of \<open>/auth/me\<close>, asked only with a token\<close>
  "root_route status_reply hasStoredToken me_reply =
     (case status_reply of
        Inl e \<Rightarrow> Inl (errorMessage e ''Unable to reach this DatrixOps instance'')
      | Inr configured \<Rightarrow>
          Inr (if \<not> configured then ''/setup''
               else if \<not> hasStoredToken then ''/login''
               else (case me_reply of Inr _ \<Rightarrow> ''/dashboard'' | Inl e \<Rightarrow> ''/login'')))"

definition register_route :: "bool outcome \<Rightarrow> string" where
  "register_route reply = (case reply of Inr True \<Rightarrow> ''/login'' | Inr False \<Rightarrow> ''/setup'' | Inl e \<Rightarrow> ''/login'')"

section \<open>Properties\<close>

lemma initial_token_stored:
  "access \<noteq> [] \<Longrightarrow>
     initial_token (store_tokens a access refresh b) =
       (if a = SessionStorage \<and> truthy (getItem b LocalStorage ''access_token'')
        then getItem b LocalStorage ''access_token'' else Some access)"
  by (cases a) (auto simp: initial_token_def store_tokens_def ws.get_store_tokens)

lemma getUserRole_cong:
  "initial_token b = initial_token b' \<Longrightarrow> getUserRole json_parse b = getUserRole json_parse b'"
  by (simp add: getUserRole_def)

text \<open>
  C23. Which account a sign-in opens.  The token of a sign-in with "remember me" is the one that
  later requests carry.  Without it, the token goes to the session storage, but every request and
  the role check read the local storage first: a token another account left there stays in use,
  with its role, although the page reports success and opens the dashboard.  Signing out leaves
  no token in either storage.
\<close>

theorem login_session:
  fixes remember b access
  assumes "access \<noteq> []"
    and "handleLogin_finish remember (Inr (access, refresh)) b s = (b', s', route)"
  shows "route = Some ''/dashboard'' \<and> lerror s' = lerror s \<and>
         initial_token b' =
           (if remember \<or> \<not> truthy (getItem b LocalStorage ''access_token'') then Some access
            else initial_token b) \<and>
         (if remember \<or> \<not> truthy (getItem b LocalStorage ''access_token'') then True
          else getUserRole json_parse b' = getUserRole json_parse b) \<and>
         initial_token (clear_tokens b') = None \<and> getTokenStorage (clear_tokens b') = None"
proof -
  have b': "b' = store_tokens (if remember then LocalStorage else SessionStorage) access refresh b"
    and s': "s' = s\<lparr>lloading := False\<rparr>" and r: "route = Some ''/dashboard''"
    using assms(2) by (auto simp: handleLogin_finish_def)
  have tok: "initial_token b' =
      (if remember \<or> \<not> truthy (getItem b LocalStorage ''access_token'') then Some access
       else initial_token b)"
    using initial_token_stored [OF assms(1)] by (auto simp: b' initial_token_def)
  moreover have "getUserRole json_parse b' = getUserRole json_parse b"
    if "\<not> (remember \<or> \<not> truthy (getItem b LocalStorage ''access_token''))"
    by (rule getUserRole_cong) (use tok that in simp)
  moreover have "initial_token (clear_tokens b') = None" "getTokenStorage (clear_tokens b') = None"
    using get_clear_tokens [of b' LocalStorage] get_clear_tokens [of b' SessionStorage]
    by (simp_all add: initial_token_def getTokenStorage_def)
  ultimately show ?thesis using r s' by auto
qed

definition left_behind :: browser where
  \<comment> \<open>an administrator's token, kept by "remember me"\<close>
  "left_behind = store_tokens LocalStorage demo_token ''r0''
     \<lparr>localStorage = Map.empty, sessionStorage = Map.empty\<rparr>"

theorem login_session_witness:
  "initial_token (fst (handleLogin_finish False (Inr (''viewer-token'', ''r1'')) left_behind init_login)) =
   Some demo_token"
proof -
  have old: "initial_token left_behind = Some demo_token"
      "truthy (getItem left_behind LocalStorage ''access_token'')"
    by (simp_all add: left_behind_def initial_token_def store_tokens_def ws.get_store_tokens
        demo_token_def jwt_def)
  obtain b' s' route where fin:
    "handleLogin_finish False (Inr (''viewer-token'', ''r1'')) left_behind init_login = (b', s', route)"
    by (metis prod_cases3)
  show ?thesis using login_session [OF _ fin] old fin by simp
qed

definition limited :: http_response where
  \<comment> \<open>the answer of \<open>NewRateLimiter\<close> in \<open>platform/middleware/ratelimit.go\<close>\<close>
  "limited =
     \<lparr>status = 429,
      payload = Inr (JObj [(''error'', JObj [(''code'', JStr ''TOO_MANY_REQUESTS''),
        (''message'', JStr ''Rate limit exceeded. Please try again later.'')])])\<rparr>"

lemma limited_answer:
  "finish limited = Inl (ErrorObj ''[TOO_MANY_REQUESTS] Rate limit exceeded. Please try again later.'')"
  by (simp add: finish_def limited_def ok_def chain_def text_or_def bracketed_def)

lemma limited_texts:
  "\<not> str_includes ''[TOO_MANY_REQUESTS] Rate limit exceeded. Please try again later.'' ''rate limit''"
  "formatAuthError (ErrorObj ''[TOO_MANY_REQUESTS] Rate limit exceeded. Please try again later.'') =
     ''Too many login attempts. Please wait a moment and try again.''"
  by code_simp+

text \<open>
  The answer to a request for a new password never tells whether the account exists: except
  for a message that contains the words \<open>rate limit\<close>, every answer, a failure included, shows
  the same confirmation.  The limiter of the API writes \<open>Rate limit exceeded\<close>, with a capital,
  which this test does not match: a request that was turned away is confirmed as sent.  The
  sign-in page, which compares in lower case, reports the same answer as too many attempts.
\<close>

theorem limited_reset_confirmed:
  "submitted (forgot_finish reply s) =
     (submitted s \<or> (case reply of Inl (ErrorObj m) \<Rightarrow> \<not> str_includes m ''rate limit'' | _ \<Rightarrow> True)) \<and>
   (case finish limited of
      Inl e \<Rightarrow>
        submitted (forgot_finish (Inl e) s) \<and> ferror (forgot_finish (Inl e) s) = ferror s \<and>
        formatAuthError e = ''Too many login attempts. Please wait a moment and try again.''
    | Inr d \<Rightarrow> False)"
  by (simp add: limited_answer limited_texts forgot_finish_def split: sum.splits thrown.splits)

end
