(* ===== verification/ManageUsers.thy ===== *)
theory ManageUsers
  imports Session
begin

text \<open>
  The user management page (\<open>dashboard/manage/users/page.tsx\<close>): who may see it, the list, and the
  dialogs that create a user, change a role, set a password and delete an account.  Every dialog
  sends one request; the list is loaded again after those that change it.
\<close>

section \<open>State\<close>

record managed_user =
  mu_id :: string
  mu_email :: string
  mu_role :: string
  mu_created_at :: string
  mu_server_count :: nat

record create_form =
  cu_email :: string
  cu_password :: string
  cu_role :: string

definition empty_create_form :: create_form where
  "empty_create_form = \<lparr>cu_email = [], cu_password = [], cu_role = ''operator''\<rparr>"

record users_page =
  users :: "managed_user list"
  loading :: bool
  load_error :: string
  successMsg :: string
  isAdmin :: "bool option"
  createModalOpen :: bool
  editRoleUser :: "managed_user option"
  resetPassUser :: "managed_user option"
  deleteTargetUser :: "managed_user option"
  createForm :: create_form
  selectedRole :: string
  newPassword :: string
  submitting :: bool
  modalError :: string

definition init_users :: users_page where
  "init_users =
     \<lparr>users = [], loading = True, load_error = [], successMsg = [], isAdmin = None,
      createModalOpen = False, editRoleUser = None, resetPassUser = None, deleteTargetUser = None,
      createForm = empty_create_form, selectedRole = ''operator'', newPassword = [],
      submitting = False, modalError = []\<rparr>"

section \<open>Access\<close>

definition admin_role :: "json \<Rightarrow> bool" where
  \<comment> \<open>\<open>role === 'admin' || role === 'superadmin'\<close>\<close>
  "admin_role j \<longleftrightarrow> j = JStr ''admin'' \<or> j = JStr ''superadmin''"

definition access_start :: "json \<Rightarrow> users_page \<Rightarrow> users_page" where
  \<comment> \<open>the effect of the first render, with the role read from the token\<close>
  "access_start currentRole s = (if admin_role currentRole then s\<lparr>isAdmin := Some True\<rparr> else s)"

definition access_answer :: "json \<Rightarrow> string option outcome \<Rightarrow> users_page \<Rightarrow> users_page" where
  \<comment> \<open>the answer of \<open>/auth/me\<close>: the role in it, if any\<close>
  "access_answer currentRole reply s =
     (case reply of
        Inr r \<Rightarrow> (if truthy r then s\<lparr>isAdmin := Some (admin_role (JStr (the r)))\<rparr> else s)
      | Inl e \<Rightarrow> s\<lparr>isAdmin := Some (admin_role currentRole)\<rparr>)"

definition admin_effect :: "users_page \<Rightarrow> users_page \<times> request option" where
  \<comment> \<open>the effect on \<open>isAdmin\<close>, with the request that loads the list\<close>
  "admin_effect s =
     (case isAdmin s of
        None \<Rightarrow> (s, None)
      | Some True \<Rightarrow> (s\<lparr>loading := True\<rparr>, Some (request_get ''/admin/users''))
      | Some False \<Rightarrow> (s\<lparr>loading := False\<rparr>, None))"

datatype users_view = Checking | Restricted | Directory

definition users_shown :: "users_page \<Rightarrow> users_view" where
  "users_shown s =
     (case isAdmin s of None \<Rightarrow> Checking | Some False \<Rightarrow> Restricted | Some True \<Rightarrow> Directory)"

section \<open>The list\<close>

definition fetchUsers_finish :: "managed_user list option outcome \<Rightarrow> users_page \<Rightarrow> users_page" where
  "fetchUsers_finish reply s =
     (case reply of
        Inr d \<Rightarrow> s\<lparr>users := or_empty d, load_error := []\<rparr>
      | Inl e \<Rightarrow> s\<lparr>load_error := errorMessage e ''Unable to load local users''\<rparr>)\<lparr>loading := False\<rparr>"

definition getRoleBadge :: "string \<Rightarrow> string" where
  "getRoleBadge role =
     (let norm = to_lower role
      in if norm = ''admin'' \<or> norm = ''superadmin'' then ''Admin''
         else if norm = ''viewer'' then ''Viewer'' else ''Operator'')"

section \<open>Dialogs\<close>

definition start_submit :: "users_page \<Rightarrow> users_page" where
  "start_submit s = s\<lparr>submitting := True, modalError := []\<rparr>"

definition end_submit ::
  "string \<Rightarrow> unit outcome \<Rightarrow> (users_page \<Rightarrow> users_page) \<Rightarrow> users_page \<Rightarrow> users_page" where
  \<comment> \<open>on success what \<open>done_with\<close> does, on failure the message in the dialog\<close>
  "end_submit fallback reply done_with s =
     (case reply of
        Inr _ \<Rightarrow> done_with s
      | Inl e \<Rightarrow> s\<lparr>modalError := errorMessage e fallback\<rparr>)\<lparr>submitting := False\<rparr>"

definition openCreate :: "users_page \<Rightarrow> users_page" where
  "openCreate s = s\<lparr>createModalOpen := True, modalError := []\<rparr>"

definition handleCreateUser_begin :: "users_page \<Rightarrow> users_page \<times> request" where
  "handleCreateUser_begin s =
     (start_submit s,
      request_send ''POST'' ''/admin/users''
        (JObj [(''email'', JStr (cu_email (createForm s))), (''password'', JStr (cu_password (createForm s))),
               (''role'', JStr (cu_role (createForm s)))]))"

definition handleCreateUser_finish ::
  "string \<Rightarrow> unit outcome \<Rightarrow> managed_user list option outcome \<Rightarrow> users_page \<Rightarrow> users_page" where
  \<comment> \<open>\<open>email\<close> as it was when the form was sent; the last argument but one answers the reload\<close>
  "handleCreateUser_finish email reply list_reply s =
     end_submit ''Failed to create user'' reply
       (\<lambda>s. fetchUsers_finish list_reply
          (s\<lparr>successMsg := ''User '' @ email @ '' created successfully.'', createModalOpen := False,
             createForm := empty_create_form\<rparr>)) s"

definition openRole :: "managed_user \<Rightarrow> users_page \<Rightarrow> users_page" where
  "openRole user s =
     s\<lparr>editRoleUser := Some user,
       selectedRole := (if mu_role user = ''superadmin'' then ''admin'' else mu_role user), modalError := []\<rparr>"

definition handleUpdateRole_begin :: "users_page \<Rightarrow> users_page \<times> request option" where
  "handleUpdateRole_begin s =
     (case editRoleUser s of
        None \<Rightarrow> (s, None)
      | Some user \<Rightarrow>
          (start_submit s,
           Some (request_send ''PUT'' (''/admin/users/'' @ mu_id user @ ''/role'')
                   (JObj [(''role'', JStr (selectedRole s))]))))"

definition handleUpdateRole_finish ::
  "managed_user \<Rightarrow> unit outcome \<Rightarrow> managed_user list option outcome \<Rightarrow> users_page \<Rightarrow> users_page" where
  "handleUpdateRole_finish user reply list_reply s =
     end_submit ''Failed to update role'' reply
       (\<lambda>s. fetchUsers_finish list_reply
          (s\<lparr>successMsg := ''Role updated for '' @ mu_email user, editRoleUser := None\<rparr>)) s"

definition openReset :: "managed_user \<Rightarrow> users_page \<Rightarrow> users_page" where
  "openReset user s = s\<lparr>resetPassUser := Some user, newPassword := [], modalError := []\<rparr>"

definition handleResetPassword_begin :: "users_page \<Rightarrow> users_page \<times> request option" where
  "handleResetPassword_begin s =
     (case resetPassUser s of
        None \<Rightarrow> (s, None)
      | Some user \<Rightarrow>
          (start_submit s,
           Some (request_send ''PUT'' (''/admin/users/'' @ mu_id user @ ''/password'')
                   (JObj [(''password'', JStr (newPassword s))]))))"

definition handleResetPassword_finish :: "managed_user \<Rightarrow> unit outcome \<Rightarrow> users_page \<Rightarrow> users_page" where
  "handleResetPassword_finish user reply s =
     end_submit ''Failed to reset password'' reply
       (\<lambda>s. s\<lparr>successMsg := ''Password reset successfully for '' @ mu_email user,
              resetPassUser := None, newPassword := []\<rparr>) s"

definition openDelete :: "managed_user \<Rightarrow> users_page \<Rightarrow> users_page" where
  "openDelete user s = s\<lparr>deleteTargetUser := Some user, modalError := []\<rparr>"

definition handleDeleteUser_begin :: "users_page \<Rightarrow> users_page \<times> request option" where
  "handleDeleteUser_begin s =
     (case deleteTargetUser s of
        None \<Rightarrow> (s, None)
      | Some user \<Rightarrow> (start_submit s, Some (request_bare ''DELETE'' (''/admin/users/'' @ mu_id user))))"

definition handleDeleteUser_finish ::
  "managed_user \<Rightarrow> unit outcome \<Rightarrow> managed_user list option outcome \<Rightarrow> users_page \<Rightarrow> users_page" where
  "handleDeleteUser_finish user reply list_reply s =
     end_submit ''Failed to delete user'' reply
       (\<lambda>s. fetchUsers_finish list_reply
          (s\<lparr>successMsg := ''User '' @ mu_email user @ '' deleted.'', deleteTargetUser := None\<rparr>)) s"

section \<open>Properties\<close>

text \<open>
  The role dialog keeps every role but the highest: opened on a user and confirmed unchanged, it
  sends the role the user has, except for a superadmin, whom it silently makes an admin.
\<close>

theorem role_dialog_roundtrip:
  "snd (handleUpdateRole_begin (openRole user s)) =
     Some (request_send ''PUT'' (''/admin/users/'' @ mu_id user @ ''/role'')
       (JObj [(''role'', JStr (if mu_role user = ''superadmin'' then ''admin'' else mu_role user))])) \<and>
   (body_field (the (snd (handleUpdateRole_begin (openRole user s)))) ''role'' = Some (JStr (mu_role user)) \<longleftrightarrow>
      mu_role user \<noteq> ''superadmin'')"
  by (simp add: handleUpdateRole_begin_def openRole_def)

lemma failed_dialog_stays:
  "createModalOpen (handleCreateUser_finish email (Inl e) r s) = createModalOpen s"
  "createForm (handleCreateUser_finish email (Inl e) r s) = createForm s"
  "users (handleCreateUser_finish email (Inl e) r s) = users s"
  "editRoleUser (handleUpdateRole_finish user (Inl e) r s) = editRoleUser s"
  "deleteTargetUser (handleDeleteUser_finish user (Inl e) r s) = deleteTargetUser s"
  by (simp_all add: handleCreateUser_finish_def handleUpdateRole_finish_def handleDeleteUser_finish_def
      end_submit_def)

end
