(* ===== verification/ManageSettings.thy ===== *)
theory ManageSettings
  imports ManageUsers Layout
begin

text \<open>
  The settings page (\<open>dashboard/manage/settings/page.tsx\<close>): loading, presets, saving and the
  test mail, and who sees it, compared with the link in the frame and the user management page.
\<close>

section \<open>State\<close>

record system_settings =
  st_system_name :: "string option"
  st_timezone :: "string option"
  st_public_url :: "string option"
  st_smtp_enabled :: bool
  st_smtp_host :: "string option"
  st_smtp_port :: "rat option"
  st_smtp_username :: "string option"
  st_smtp_password_set :: bool
  st_smtp_from_email :: "string option"
  st_smtp_from_name :: "string option"
  st_smtp_encryption :: "string option"

record settings_form =
  systemName :: string
  timezone :: string
  publicUrl :: string
  smtpEnabled :: bool
  smtpHost :: string
  smtpPort :: rat
  smtpUsername :: string
  smtpPassword :: string
  smtpPasswordSet :: bool
  smtpFromEmail :: string
  smtpFromName :: string
  smtpEncryption :: string

record settings_page =
  sAdmin :: "bool option"
  sLoading :: bool
  saving :: bool
  testing :: bool
  sError :: string
  sSuccess :: string
  testResult :: "(bool \<times> string) option"
  sform :: settings_form
  testRecipient :: string

definition default_form :: settings_form where
  "default_form =
     \<lparr>systemName = ''DatrixOps'', timezone = ''UTC'', publicUrl = [], smtpEnabled = False,
      smtpHost = [], smtpPort = 587, smtpUsername = [], smtpPassword = [], smtpPasswordSet = False,
      smtpFromEmail = [], smtpFromName = ''DatrixOps'', smtpEncryption = ''tls''\<rparr>"

definition settings_admin :: "json \<Rightarrow> bool" where
  "settings_admin j \<longleftrightarrow> admin_role j \<or> j = JStr ''owner''"

definition init_settings :: "json \<Rightarrow> settings_page" where
  \<comment> \<open>with the role read from the token\<close>
  "init_settings tokenRole =
     \<lparr>sAdmin = (if settings_admin tokenRole then Some True else None), sLoading = True, saving = False,
      testing = False, sError = [], sSuccess = [], testResult = None, sform = default_form,
      testRecipient = []\<rparr>"

section \<open>Access\<close>

record me_reply =
  mr_email :: "string option"
  mr_role :: "string option"

definition settings_me :: "me_reply option outcome \<Rightarrow> settings_page \<Rightarrow> settings_page" where
  "settings_me reply s =
     (case reply of
        Inr (Some me) \<Rightarrow>
          s\<lparr>testRecipient := (if truthy (mr_email me) then the (mr_email me) else testRecipient s),
            sAdmin := (if truthy (mr_role me) then Some (settings_admin (JStr (the (mr_role me)))) else sAdmin s)\<rparr>
      | _ \<Rightarrow> s)"

definition form_shown :: "settings_page \<Rightarrow> bool" where
  \<comment> \<open>the page is closed only to those known not to be administrators\<close>
  "form_shown s \<longleftrightarrow> sAdmin s \<noteq> Some False"

section \<open>Loading\<close>

definition rat_or :: "rat option \<Rightarrow> rat \<Rightarrow> rat" where
  \<comment> \<open>\<open>n || d\<close> on numbers\<close>
  "rat_or n d = (case n of Some q \<Rightarrow> if q = 0 then d else q | None \<Rightarrow> d)"

definition load_form :: "system_settings \<Rightarrow> settings_form \<Rightarrow> settings_form" where
  \<comment> \<open>a password being typed is kept\<close>
  "load_form d f =
     f\<lparr>systemName := opt_or (st_system_name d) ''DatrixOps'', timezone := opt_or (st_timezone d) ''UTC'',
       publicUrl := opt_or (st_public_url d) [], smtpEnabled := st_smtp_enabled d,
       smtpHost := opt_or (st_smtp_host d) [], smtpPort := rat_or (st_smtp_port d) 587,
       smtpUsername := opt_or (st_smtp_username d) [], smtpPasswordSet := st_smtp_password_set d,
       smtpFromEmail := opt_or (st_smtp_from_email d) [],
       smtpFromName := opt_or (st_smtp_from_name d) ''DatrixOps'',
       smtpEncryption := opt_or (st_smtp_encryption d) ''tls''\<rparr>"

definition fetchSettings_finish :: "system_settings option outcome \<Rightarrow> settings_page \<Rightarrow> settings_page" where
  "fetchSettings_finish reply s =
     (case reply of
        Inr (Some d) \<Rightarrow> s\<lparr>sform := load_form d (sform s), sError := []\<rparr>
      | Inr None \<Rightarrow> s\<lparr>sError := []\<rparr>
      | Inl e \<Rightarrow> s\<lparr>sError := errorMessage e ''Unable to load system settings''\<rparr>)\<lparr>sLoading := False\<rparr>"

section \<open>The form\<close>

datatype preset = Gmail | Office365 | Sendgrid | Resend

definition applyPreset :: "preset \<Rightarrow> settings_form \<Rightarrow> settings_form" where
  "applyPreset p f =
     (let g = f\<lparr>smtpEnabled := True, smtpPort := 587, smtpEncryption := ''tls''\<rparr>
      in case p of
           Gmail \<Rightarrow> g\<lparr>smtpHost := ''smtp.gmail.com''\<rparr>
         | Office365 \<Rightarrow> g\<lparr>smtpHost := ''smtp.office365.com''\<rparr>
         | Sendgrid \<Rightarrow> g\<lparr>smtpHost := ''smtp.sendgrid.net'', smtpUsername := ''apikey''\<rparr>
         | Resend \<Rightarrow> g\<lparr>smtpHost := ''smtp.resend.com'', smtpUsername := ''resend''\<rparr>)"

definition settings_body :: "settings_form \<Rightarrow> json" where
  "settings_body f =
     JObj [(''system_name'', JStr (systemName f)), (''timezone'', JStr (timezone f)),
           (''public_url'', JStr (publicUrl f)), (''smtp_enabled'', JBool (smtpEnabled f)),
           (''smtp_host'', JStr (smtpHost f)), (''smtp_port'', JNum (smtpPort f)),
           (''smtp_username'', JStr (smtpUsername f)), (''smtp_password'', JStr (smtpPassword f)),
           (''smtp_from_email'', JStr (smtpFromEmail f)), (''smtp_from_name'', JStr (smtpFromName f)),
           (''smtp_encryption'', JStr (smtpEncryption f))]"

definition handleSave_begin :: "settings_page \<Rightarrow> settings_page \<times> request" where
  "handleSave_begin s =
     (s\<lparr>saving := True, sError := [], sSuccess := []\<rparr>,
      request_send ''PUT'' ''/system/settings'' (settings_body (sform s)))"

definition handleSave_finish :: "string \<Rightarrow> unit outcome \<Rightarrow> settings_page \<Rightarrow> settings_page" where
  \<comment> \<open>\<open>sent\<close> is the password that was sent; the message goes after four seconds\<close>
  "handleSave_finish sent reply s =
     (case reply of
        Inr _ \<Rightarrow>
          s\<lparr>sSuccess := ''System settings and SMTP configuration saved successfully.'',
            sform := (if sent \<noteq> [] then (sform s)\<lparr>smtpPasswordSet := True, smtpPassword := []\<rparr> else sform s)\<rparr>
      | Inl e \<Rightarrow> s\<lparr>sError := errorMessage e ''Failed to save settings''\<rparr>)\<lparr>saving := False\<rparr>"

definition handleTestEmail_begin :: "settings_page \<Rightarrow> settings_page \<times> request option" where
  "handleTestEmail_begin s =
     (let f = sform s
      in if testRecipient s = []
         then (s\<lparr>testResult := Some (False, ''Please enter a recipient email address'')\<rparr>, None)
         else if smtpHost f = []
         then (s\<lparr>testResult := Some (False, ''Please enter an SMTP Host before running connection test'')\<rparr>, None)
         else (s\<lparr>testing := True, testResult := None\<rparr>,
               Some (request_send ''POST'' ''/system/settings/test-smtp''
                 (JObj [(''to_email'', JStr (testRecipient s)), (''smtp_host'', JStr (smtpHost f)),
                        (''smtp_port'', JNum (smtpPort f)), (''smtp_username'', JStr (smtpUsername f)),
                        (''smtp_password'', JStr (smtpPassword f)),
                        (''smtp_from_email'', JStr (smtpFromEmail f)),
                        (''smtp_from_name'', JStr (smtpFromName f)),
                        (''smtp_encryption'', JStr (smtpEncryption f))]))))"

definition handleTestEmail_finish :: "string \<Rightarrow> string option outcome \<Rightarrow> settings_page \<Rightarrow> settings_page" where
  "handleTestEmail_finish recipient reply s =
     (case reply of
        Inr m \<Rightarrow> s\<lparr>testResult := Some (True, opt_or m (''Test email dispatched successfully to '' @ recipient @ ''!''))\<rparr>
      | Inl e \<Rightarrow> s\<lparr>testResult := Some (False, errorMessage e ''SMTP connection or delivery failed'')\<rparr>)
     \<lparr>testing := False\<rparr>"

definition test_button_enabled :: "settings_page \<Rightarrow> bool" where
  "test_button_enabled s \<longleftrightarrow> \<not> (testing s \<or> testRecipient s = [] \<or> smtpHost (sform s) = [])"

section \<open>Properties\<close>

definition complete :: "system_settings \<Rightarrow> bool" where
  \<comment> \<open>stored settings without empty texts or a zero port where the page has a default\<close>
  "complete d \<longleftrightarrow>
     truthy (st_system_name d) \<and> truthy (st_timezone d) \<and> truthy (st_smtp_from_name d) \<and>
     truthy (st_smtp_encryption d) \<and> st_smtp_port d \<noteq> None \<and> st_smtp_port d \<noteq> Some 0"

definition text_field :: "string \<Rightarrow> string option \<Rightarrow> string \<times> json" where
  "text_field k v = (k, JStr (opt_or v []))"

text \<open>
  Settings that were loaded and are saved untouched go back as they are stored, and the stored
  mail password stays, since the empty one is sent; but the button does not wait for the load: after
  a load that failed, saving sends the defaults of the form over whatever is stored.
\<close>

theorem settings_saved_as_loaded:
  fixes tokenRole :: json
  assumes "complete d"
  defines "page \<equiv> init_settings tokenRole"
  shows "snd (handleSave_begin (fetchSettings_finish (Inr (Some d)) page)) =
           request_send ''PUT'' ''/system/settings''
             (JObj [text_field ''system_name'' (st_system_name d), text_field ''timezone'' (st_timezone d),
                    text_field ''public_url'' (st_public_url d), (''smtp_enabled'', JBool (st_smtp_enabled d)),
                    text_field ''smtp_host'' (st_smtp_host d), (''smtp_port'', JNum (the (st_smtp_port d))),
                    text_field ''smtp_username'' (st_smtp_username d), (''smtp_password'', JStr []),
                    text_field ''smtp_from_email'' (st_smtp_from_email d),
                    text_field ''smtp_from_name'' (st_smtp_from_name d),
                    text_field ''smtp_encryption'' (st_smtp_encryption d)]) \<and>
         snd (handleSave_begin (fetchSettings_finish (Inl e) page)) =
           request_send ''PUT'' ''/system/settings'' (settings_body default_form)"
proof -
  have "rat_or (st_smtp_port d) 587 = the (st_smtp_port d)"
    using assms(1) by (auto simp: complete_def rat_or_def)
  moreover have "opt_or v x = the v" if "truthy v" for v x
    using that by (cases v) auto
  ultimately show ?thesis
    using assms(1)
    by (simp add: handleSave_begin_def fetchSettings_finish_def page_def init_settings_def load_form_def
        settings_body_def text_field_def default_form_def complete_def)
qed

definition demo_settings :: system_settings where
  "demo_settings =
     \<lparr>st_system_name = Some ''Ops'', st_timezone = Some ''UTC'', st_public_url = Some ''https://ops'',
      st_smtp_enabled = True, st_smtp_host = Some ''mail'', st_smtp_port = Some 25,
      st_smtp_username = None, st_smtp_password_set = True, st_smtp_from_email = Some ''a@b'',
      st_smtp_from_name = Some ''Ops'', st_smtp_encryption = Some ''none''\<rparr>"

theorem settings_saved_as_loaded_witness:
  "body_field (snd (handleSave_begin (fetchSettings_finish (Inr (Some demo_settings))
      (init_settings (JStr ''admin''))))) ''smtp_host'' = Some (JStr ''mail'') \<and>
   body_field (snd (handleSave_begin (fetchSettings_finish (Inl NonError) (init_settings (JStr ''admin'')))))
      ''smtp_host'' = Some (JStr [])"
proof -
  have "complete demo_settings" by (simp add: complete_def demo_settings_def)
  from settings_saved_as_loaded [OF this, of "JStr ''admin''" NonError] show ?thesis
    by (simp add: demo_settings_def text_field_def settings_body_def default_form_def)
qed

text \<open>
  Three gates, three answers: the user page opens exactly for the roles admin and superadmin,
  by the answer of \<open>/auth/me\<close> or, where that fails, by the token; the settings page closes
  only on an answer with another role, so it opens for a viewer when the answer is missing; and
  an owner, to whom the frame shows the administration links, finds the user page restricted.
\<close>

theorem manage_gates:
  fixes tokenRole reply frame
  defines "u \<equiv> access_answer tokenRole reply (access_start tokenRole init_users)"
    and "s \<equiv> settings_me (map_outcome (\<lambda>r. Some \<lparr>mr_email = None, mr_role = r\<rparr>) reply) (init_settings tokenRole)"
    and "f \<equiv> auth_me_finish (map_outcome (\<lambda>r. Some \<lparr>me_role = r, me_username = None, me_email = None\<rparr>) reply) frame"
  shows "(users_shown u = Directory \<longleftrightarrow>
            (case reply of Inr r \<Rightarrow> admin_role (if truthy r then JStr (the r) else tokenRole)
             | Inl e \<Rightarrow> admin_role tokenRole)) \<and>
         (form_shown s \<longleftrightarrow>
            (case reply of Inr r \<Rightarrow> (if truthy r then settings_admin (JStr (the r)) else True) | Inl e \<Rightarrow> True)) \<and>
         (reply = Inr (Some ''owner'') \<longrightarrow> isUserAdmin f \<and> form_shown s \<and> users_shown u = Restricted)"
proof -
  have "users_shown u = Directory \<longleftrightarrow>
      (case reply of Inr r \<Rightarrow> admin_role (if truthy r then JStr (the r) else tokenRole) | Inl e \<Rightarrow> admin_role tokenRole)"
    by (auto simp: u_def access_answer_def access_start_def users_shown_def init_users_def
        split: sum.split option.split bool.splits)
  moreover have "form_shown s \<longleftrightarrow>
      (case reply of Inr r \<Rightarrow> (if truthy r then settings_admin (JStr (the r)) else True) | Inl e \<Rightarrow> True)"
    by (auto simp: s_def settings_me_def form_shown_def init_settings_def split: sum.split)
  moreover have "isUserAdmin f \<and> users_shown u = Restricted" if "reply = Inr (Some ''owner'')"
    using that
    by (simp add: f_def auth_me_finish_def isUserAdmin_def u_def access_answer_def users_shown_def admin_role_def)
  ultimately show ?thesis by (auto simp: settings_admin_def)
qed

theorem manage_gates_witness:
  "users_shown (access_answer (JStr ''viewer'') (Inr (Some ''owner'')) (access_start (JStr ''viewer'') init_users)) =
     Restricted \<and>
   isUserAdmin (auth_me_finish (Inr (Some \<lparr>me_role = Some ''owner'', me_username = None, me_email = None\<rparr>))
     (init_layout ''1''))"
  using manage_gates [where reply = "Inr (Some ''owner'')" and tokenRole = "JStr ''viewer''" and frame = "init_layout ''1''"] by simp

end
