(* ===== verification/ManageAudit.thy ===== *)
theory ManageAudit
  imports Units JsDate
begin

text \<open>
  The audit trail (\<open>dashboard/manage/audit/page.tsx\<close>): the summary of an event, loading, filters,
  figures and badges.  \<open>stringify\<close> is \<open>JSON.stringify\<close>, \<open>day_name\<close> is \<open>toDateString\<close> of a
  stored time and \<open>today\<close> that of the clock.  The entries of an object come in the order of its
  text; integer-like keys, which JavaScript sorts first, do not occur in events.
\<close>

section \<open>Events and state\<close>

record audit_event =
  ae_id :: string
  ae_user_id :: string
  ae_action :: string
  ae_resource_type :: string
  ae_resource_id :: string
  ae_details :: "json option"
  ae_created_at :: string

record server_info =
  si_id :: string
  si_name :: string
  si_ip_address :: "string option"

record audit_page =
  logs :: "audit_event list"
  servers :: "string \<rightharpoonup> server_info"
  loading :: bool
  refreshing :: bool
  searchQuery :: string
  resourceFilter :: string
  actionFilter :: string
  timeRange :: string
  selectedLog :: "audit_event option"
  copied :: bool
  toasts :: "string list"

definition init_audit :: audit_page where
  "init_audit =
     \<lparr>logs = [], servers = Map.empty, loading = True, refreshing = False, searchQuery = [],
      resourceFilter = ''all'', actionFilter = ''all'', timeRange = ''all'', selectedLog = None,
      copied = False, toasts = []\<rparr>"

section \<open>The summary of an event\<close>

definition spaced :: "string \<Rightarrow> string" where
  \<comment> \<open>\<open>s.replace(/_/g, ' ')\<close>\<close>
  "spaced s = map (\<lambda>c. if c = CHR ''_'' then CHR '' '' else c) s"

definition bytes_text :: "json \<Rightarrow> string" where
  \<comment> \<open>\<open>formatBytes(Number(v))\<close> of a count\<close>
  "bytes_text v = (case js_number (Some v) of Fin q \<Rightarrow> audit_formatBytes (nat \<lfloor>q\<rfloor>) | _ \<Rightarrow> ''0 B'')"

definition visible_key :: "string \<Rightarrow> bool" where
  "visible_key k \<longleftrightarrow>
     \<not> str_includes (to_lower k) ''secret'' \<and> \<not> str_includes (to_lower k) ''token'' \<and>
     \<not> str_includes (to_lower k) ''password''"

definition entries_of :: "json \<Rightarrow> (string \<times> json) list" where
  \<comment> \<open>\<open>Object.entries\<close>\<close>
  "entries_of v =
     (case v of JObj kvs \<Rightarrow> kvs | JArr xs \<Rightarrow> zip (map show_nat [0..<length xs]) xs | _ \<Rightarrow> [])"

definition fallback_summary :: "json \<Rightarrow> string" where
  "fallback_summary d =
     (let es = take 3 (filter (\<lambda>(k, v). visible_key k) (entries_of d))
      in if es = [] then ''Operational activity recorded''
         else join ('' '' @ [char_of (194::nat), char_of (183::nat)] @ '' '')
                (map (\<lambda>(k, v). spaced k @ '': '' @ to_text v) es))"

definition is_object :: "json \<Rightarrow> bool" where
  "is_object j \<longleftrightarrow> (case j of JObj kvs \<Rightarrow> True | JArr xs \<Rightarrow> True | _ \<Rightarrow> False)"

definition formatAuditDetails :: "string \<Rightarrow> json option \<Rightarrow> string" where
  "formatAuditDetails action details =
     (case details of
        None \<Rightarrow> ''No additional details''
      | Some d \<Rightarrow>
          (if \<not> is_object d then ''No additional details''
           else if action = ''COMPLETE_LOG_READ'' then
             ''Fetched '' @ text_or (field d ''lines'') ''200'' @ '' lines from '' @
             (if js_truthy (field d ''source'') then spaced (to_text (the (field d ''source'')))
              else ''systemd journal'') @
             (if js_truthy (field d ''output_bytes'')
              then '' ('' @ bytes_text (the (field d ''output_bytes'')) @ '')'' else [])
           else if action = ''QUEUE_TASK'' then
             (let target = json_or (field d ''source'') (json_or (field d ''service'') (field d ''unit''))
              in ''Dispatched task: '' @
                 (if js_truthy (field d ''type'') then spaced (to_text (the (field d ''type''))) else ''task'') @
                 (if js_truthy target then '' ('' @ to_text (the target) @ '')'' else []))
           else if action = ''FORCE_DELETE'' \<or> action = ''DELETE'' then
             ''Resource removed '' @
             (if field d ''agent_uninstalled'' = Some (JBool True) then ''with agent uninstalled''
              else ''without agent uninstall'')
           else if action = ''CREATE'' then
             (if js_truthy (field d ''name'')
              then ''Created resource \"'' @ to_text (the (field d ''name'')) @ ''\"'' else ''Created new resource'')
           else if action = ''UPDATE'' then
             (if js_truthy (field d ''name'')
              then ''Updated resource \"'' @ to_text (the (field d ''name'')) @ ''\"''
              else ''Updated resource configuration'')
           else fallback_summary d))"

section \<open>Loading\<close>

definition audit_requests :: "audit_page \<Rightarrow> request list" where
  "audit_requests s =
     [request_get (''/audit-logs?limit=300'' @ (if timeRange s \<noteq> ''all'' then ''&range='' @ timeRange s else [])),
      request_get ''/servers'']"

definition fetchData_begin :: "bool \<Rightarrow> audit_page \<Rightarrow> audit_page \<times> request list" where
  "fetchData_begin isRefresh s =
     (if isRefresh then s\<lparr>refreshing := True\<rparr> else s\<lparr>loading := True\<rparr>, audit_requests s)"

definition server_map :: "server_info list \<Rightarrow> (string \<rightharpoonup> server_info)" where
  \<comment> \<open>a later entry of the same id wins; an entry without id is skipped\<close>
  "server_map ss = fold (\<lambda>v m. if si_id v \<noteq> [] then m(si_id v \<mapsto> v) else m) ss Map.empty"

definition fetchData_finish ::
  "audit_event list option outcome \<Rightarrow> server_info list option outcome \<Rightarrow> audit_page \<Rightarrow> audit_page" where
  \<comment> \<open>\<open>Promise.allSettled\<close>: an answer that failed or is not an array (\<open>None\<close>) changes nothing\<close>
  "fetchData_finish logs_reply servers_reply s =
     s\<lparr>logs := (case logs_reply of Inr (Some xs) \<Rightarrow> xs | _ \<Rightarrow> logs s),
       servers := (case servers_reply of Inr (Some ss) \<Rightarrow> server_map ss | _ \<Rightarrow> servers s),
       loading := False, refreshing := False\<rparr>"

definition handleCopyJSON :: "audit_page \<Rightarrow> audit_page" where
  "handleCopyJSON s = s\<lparr>copied := True, toasts := ''Event details copied to clipboard'' # toasts s\<rparr>"

section \<open>Filters and figures\<close>

definition action_matches :: "string \<Rightarrow> string \<Rightarrow> bool" where
  "action_matches f action \<longleftrightarrow>
     (f \<in> set [''READ'', ''TASK'', ''CREATE'', ''DELETE'', ''UPDATE''] \<longrightarrow> str_includes action f)"

definition server_label :: "audit_page \<Rightarrow> audit_event \<Rightarrow> string" where
  "server_label s e =
     str_or (opt_or (map_option si_name (servers s (ae_resource_id e))) [])
       (json_text (chain (ae_details e) ''server_name''))"

definition server_ip :: "audit_page \<Rightarrow> audit_event \<Rightarrow> string" where
  "server_ip s e = opt_or (Option.bind (servers s (ae_resource_id e)) si_ip_address) []"

definition event_matches :: "(json \<Rightarrow> string) \<Rightarrow> audit_page \<Rightarrow> string \<Rightarrow> audit_event \<Rightarrow> bool" where
  "event_matches stringify s q e \<longleftrightarrow>
     (let has = (\<lambda>t. str_includes (to_lower t) q)
      in has (server_label s e) \<or> has (server_ip s e) \<or> has (ae_action e) \<or> has (ae_resource_id e) \<or>
         has (stringify (case ae_details e of Some d \<Rightarrow> (if d = JNull then JStr [] else d) | None \<Rightarrow> JStr [])))"

definition filteredLogs :: "(json \<Rightarrow> string) \<Rightarrow> audit_page \<Rightarrow> audit_event list" where
  \<comment> \<open>the query is trimmed to see whether there is one, and used untrimmed\<close>
  "filteredLogs stringify s =
     filter (\<lambda>e.
       (resourceFilter s = ''all'' \<or> to_upper (ae_resource_type e) = to_upper (resourceFilter s)) \<and>
       (actionFilter s = ''all'' \<or> action_matches (actionFilter s) (ae_action e)) \<and>
       (trim (searchQuery s) = [] \<or> event_matches stringify s (to_lower (searchQuery s)) e)) (logs s)"

record audit_stats =
  sts_total :: nat
  sts_serverOps :: nat
  sts_taskOps :: nat
  sts_todayCount :: nat

definition audit_stats_of :: "(string \<Rightarrow> string) \<Rightarrow> string \<Rightarrow> audit_page \<Rightarrow> audit_stats" where
  "audit_stats_of day_name today s =
     \<lparr>sts_total = length (logs s),
      sts_serverOps = length (filter (\<lambda>e. ae_resource_type e = ''SERVER'') (logs s)),
      sts_taskOps = length (filter (\<lambda>e. str_includes (ae_action e) ''TASK'' \<or> str_includes (ae_action e) ''READ'') (logs s)),
      sts_todayCount = length (filter (\<lambda>e. day_name (ae_created_at e) = today) (logs s))\<rparr>"

definition resetFilters :: "audit_page \<Rightarrow> audit_page" where
  "resetFilters s = s\<lparr>searchQuery := [], resourceFilter := ''all'', actionFilter := ''all'', timeRange := ''all''\<rparr>"

definition action_badge :: "string \<Rightarrow> string" where
  "action_badge action =
     (if action = ''COMPLETE_LOG_READ'' \<or> str_includes action ''READ'' then ''Read Logs''
      else if action = ''QUEUE_TASK'' \<or> str_includes action ''TASK'' then ''Queued Task''
      else if str_includes action ''DELETE'' then ''Delete''
      else if str_includes action ''CREATE'' then ''Create''
      else if str_includes action ''UPDATE'' then ''Update''
      else action)"

definition resource_icon :: "string \<Rightarrow> string" where
  "resource_icon type =
     (let t = to_upper type
      in if t = ''SERVER'' then ''Server'' else if t = ''ALERT'' then ''AlertTriangle''
         else if t = ''USER'' then ''Users'' else if t \<in> set [''API_KEY'', ''KEY''] then ''Key'' else ''Layers'')"

section \<open>Properties\<close>

lemma map_of_visible: "visible_key k \<Longrightarrow> map_of (filter (\<lambda>(k, v). visible_key k) kvs) k = map_of kvs k"
  by (induction kvs) auto

lemma summary_reads_visible:
  "formatAuditDetails action (Some (JObj kvs)) =
     formatAuditDetails action (Some (JObj (filter (\<lambda>(k, v). visible_key k) kvs)))"
proof -
  have "visible_key k" if "k \<in> set [''lines'', ''source'', ''output_bytes'', ''type'', ''service'', ''unit'',
      ''agent_uninstalled'', ''name'']" for k
  proof -
    have "list_all visible_key [''lines'', ''source'', ''output_bytes'', ''type'', ''service'', ''unit'',
        ''agent_uninstalled'', ''name'']"
      by code_simp
    with that show ?thesis by (auto simp: list_all_iff)
  qed
  then have keep: "map_of (filter (\<lambda>(k, v). visible_key k) kvs) k = map_of kvs k"
    if "k \<in> set [''lines'', ''source'', ''output_bytes'', ''type'', ''service'', ''unit'',
      ''agent_uninstalled'', ''name'']" for k
    using that map_of_visible by blast
  have "fallback_summary (JObj kvs) = fallback_summary (JObj (filter (\<lambda>(k, v). visible_key k) kvs))"
    by (simp add: fallback_summary_def entries_of_def)
  then show ?thesis
    by (simp add: formatAuditDetails_def is_object_def keep)
qed

definition names_secret :: "string \<Rightarrow> bool" where
  \<comment> \<open>the reference for what must not be shown\<close>
  "names_secret k \<longleftrightarrow> list_ex (str_includes (to_lower k)) [''secret'', ''token'', ''password'']"

lemma visible_key_iff: "visible_key k \<longleftrightarrow> \<not> names_secret k"
  by (simp add: visible_key_def names_secret_def)

text \<open>
  C38. The summary of an event does not depend on its secrets: details that agree on the entries
  whose names do not contain secret, token or password, in any spelling, have the same summary,
  whatever the action.
\<close>

theorem summary_hides_secrets:
  assumes "filter (\<lambda>(k, v). \<not> names_secret k) kvs = filter (\<lambda>(k, v). \<not> names_secret k) kvs'"
  shows "formatAuditDetails action (Some (JObj kvs)) = formatAuditDetails action (Some (JObj kvs'))"
  using summary_reads_visible [of action kvs] summary_reads_visible [of action kvs'] assms
  by (simp add: visible_key_iff)

theorem summary_hides_secrets_witness:
  "formatAuditDetails ''LOGIN'' (Some (JObj [(''ip'', JStr ''::1''), (''Refresh_Token'', JStr ''a'')])) =
   formatAuditDetails ''LOGIN'' (Some (JObj [(''ip'', JStr ''::1''), (''Refresh_Token'', JStr ''b'')]))"
proof -
  have "names_secret ''Refresh_Token''" by code_simp
  then show ?thesis
    using summary_hides_secrets [of "[(''ip'', JStr ''::1''), (''Refresh_Token'', JStr ''a'')]"
        "[(''ip'', JStr ''::1''), (''Refresh_Token'', JStr ''b'')]" "''LOGIN''"] by simp
qed

lemma reset_shows_all: "filteredLogs stringify (resetFilters s) = logs s"
  by (simp add: filteredLogs_def resetFilters_def trim_def trim_start_def)

lemma badge_of_filter:
  \<comment> \<open>an event the action filter lets through under READ or TASK carries that badge or the one before it\<close>
  "action_matches ''READ'' a \<Longrightarrow> action_badge a = ''Read Logs''"
  "action_matches ''TASK'' a \<Longrightarrow> action_badge a \<in> {''Read Logs'', ''Queued Task''}"
  by (auto simp: action_matches_def action_badge_def)

end
