(* ===== verification/ManageKeys.thy ===== *)
theory ManageKeys
  imports JsJson
begin

text \<open>
  The API keys page (\<open>dashboard/manage/api/page.tsx\<close>): the list, the dialog that generates a key
  and shows it once, and the revocation.  The clipboard is not modelled beyond its outcome.
\<close>

record api_key =
  ak_id :: string
  ak_name :: string
  ak_last_used_at :: "string option"
  ak_created_at :: string

record keys_page =
  keys :: "api_key list option"
    \<comment> \<open>\<open>None\<close> where the API answered null, on which the render throws\<close>
  loading :: bool
  showCreateModal :: bool
  newKeyName :: string
  generatedKey :: string
  copied :: bool
  pendingRevokeKey :: "api_key option"
  revoking :: bool

definition init_keys :: keys_page where
  "init_keys =
     \<lparr>keys = Some [], loading = True, showCreateModal = False, newKeyName = [], generatedKey = [],
      copied = False, pendingRevokeKey = None, revoking = False\<rparr>"

definition fetchKeys_begin :: "keys_page \<Rightarrow> keys_page \<times> request" where
  "fetchKeys_begin s = (s\<lparr>loading := True\<rparr>, request_get ''/apikeys'')"

definition fetchKeys_finish :: "api_key list option outcome \<Rightarrow> keys_page \<Rightarrow> keys_page" where
  "fetchKeys_finish reply s =
     (case reply of Inr d \<Rightarrow> s\<lparr>keys := d\<rparr> | Inl e \<Rightarrow> s)\<lparr>loading := False\<rparr>"

definition createKey_begin :: "keys_page \<Rightarrow> request option" where
  \<comment> \<open>a call with \<open>data\<close> and no method is a POST; nothing records that it is running\<close>
  "createKey_begin s =
     (if trim (newKeyName s) = [] then None
      else Some (request_send ''POST'' ''/apikeys'' (JObj [(''name'', JStr (newKeyName s))])))"

definition createKey_finish :: "string option outcome \<Rightarrow> keys_page \<Rightarrow> keys_page \<times> request option" where
  \<comment> \<open>the raw key of the answer, \<open>None\<close> for a null answer; then the list is loaded again\<close>
  "createKey_finish reply s =
     (case reply of
        Inr (Some raw) \<Rightarrow> (fst (fetchKeys_begin (s\<lparr>generatedKey := raw\<rparr>)), Some (snd (fetchKeys_begin s)))
      | _ \<Rightarrow> (s, None))"

definition create_button_enabled :: "keys_page \<Rightarrow> bool" where
  "create_button_enabled s \<longleftrightarrow> showCreateModal s \<and> generatedKey s = [] \<and> trim (newKeyName s) \<noteq> []"

definition closeModal :: "keys_page \<Rightarrow> keys_page" where
  "closeModal s = s\<lparr>showCreateModal := False, newKeyName := [], generatedKey := []\<rparr>"

definition openModal :: "keys_page \<Rightarrow> keys_page" where
  "openModal s = s\<lparr>showCreateModal := True\<rparr>"

definition confirmRevokeKey_begin :: "keys_page \<Rightarrow> keys_page \<times> request option" where
  "confirmRevokeKey_begin s =
     (case pendingRevokeKey s of
        None \<Rightarrow> (s, None)
      | Some k \<Rightarrow> (s\<lparr>revoking := True\<rparr>, Some (request_bare ''DELETE'' (''/apikeys/'' @ ak_id k))))"

definition confirmRevokeKey_finish :: "unit outcome \<Rightarrow> keys_page \<Rightarrow> keys_page \<times> request option" where
  "confirmRevokeKey_finish reply s =
     (case reply of
        Inr _ \<Rightarrow> ((fst (fetchKeys_begin (s\<lparr>pendingRevokeKey := None\<rparr>)))\<lparr>revoking := False\<rparr>,
                  Some (snd (fetchKeys_begin s)))
      | Inl e \<Rightarrow> (s\<lparr>revoking := False\<rparr>, None))"

definition copyToClipboard_finish :: "bool \<Rightarrow> keys_page \<Rightarrow> keys_page" where
  "copyToClipboard_finish ok s = (if ok then s\<lparr>copied := True\<rparr> else s)"

section \<open>Properties\<close>

text \<open>
  A generated key can be lost or shown late: while the answer is awaited the button stays
  enabled, a second press sends a second request, and of two keys made only the one answered last
  is shown, so the other exists and nobody has seen it; and an answer that comes after the dialog
  was closed is kept, so the next opening shows the old key in place of the form.
\<close>

theorem generated_key_lost:
  assumes "create_button_enabled s" and "raw1 \<noteq> []" and "raw2 \<noteq> []" and "raw1 \<noteq> raw2"
  shows "createKey_begin s = Some (request_send ''POST'' ''/apikeys'' (JObj [(''name'', JStr (newKeyName s))])) \<and>
         create_button_enabled s \<and>
         generatedKey (fst (createKey_finish (Inr (Some raw2)) (fst (createKey_finish (Inr (Some raw1)) s)))) = raw2 \<and>
         (let late = openModal (fst (createKey_finish (Inr (Some raw1)) (closeModal s)))
          in showCreateModal late \<and> generatedKey late = raw1 \<and> \<not> create_button_enabled late)"
  using assms
  by (simp add: create_button_enabled_def createKey_begin_def createKey_finish_def fetchKeys_begin_def
      openModal_def Let_def)

theorem generated_key_lost_witness:
  "generatedKey (fst (createKey_finish (Inr (Some ''k2'')) (fst (createKey_finish (Inr (Some ''k1''))
     (init_keys\<lparr>showCreateModal := True, newKeyName := ''ci''\<rparr>))))) = ''k2''"
proof -
  have "create_button_enabled (init_keys\<lparr>showCreateModal := True, newKeyName := ''ci''\<rparr>)" by code_simp
  then show ?thesis using generated_key_lost [of _ "''k1''" "''k2''"] by simp
qed

end
