(* ===== verification/AlertView.thy ===== *)
theory AlertView
  imports AlertIncidents AlertCreate JsDate
begin

text \<open>
  What the Alert Center shows (\<open>alerts/page.tsx\<close>): the cards of the rules, of the channels and of
  the summary, the choices the forms offer, the dates of the incidents.  Icons and colours are left
  out.  The local time of a date string comes from the browser's time zone (\<open>local\<close>).
\<close>

section \<open>Dates\<close>

record local_time =
  lt_year :: nat
  lt_month :: nat
  lt_day :: nat
  lt_hours :: nat
  lt_minutes :: nat
  lt_seconds :: nat

definition pad2 :: "nat \<Rightarrow> string" where
  \<comment> \<open>\<open>String(n).padStart(2, '0')\<close>\<close>
  "pad2 n = (if n < 10 then ''0'' @ show_nat n else show_nat n)"

definition looks_formatted :: "string \<Rightarrow> bool" where
  \<comment> \<open>\<open>/^\\d{2}\\/\\d{2}\\/\\d{4}/\<close>\<close>
  "looks_formatted s \<longleftrightarrow>
     10 \<le> length s \<and> s ! 2 = CHR ''/'' \<and> s ! 5 = CHR ''/'' \<and>
     list_all (\<lambda>i. is_digit (s ! i)) [0, 1, 3, 4, 6, 7, 8, 9]"

definition formatIncidentDate :: "(string \<Rightarrow> local_time option) \<Rightarrow> string \<Rightarrow> string" where
  \<comment> \<open>\<open>new Date\<close> does not throw on a text it cannot read, its fields are \<open>NaN\<close>\<close>
  "formatIncidentDate local s =
     (if s = [] then []
      else if looks_formatted s then s
      else case local s of
             Some t \<Rightarrow>
               pad2 (lt_day t) @ ''/'' @ pad2 (lt_month t) @ ''/'' @ show_nat (lt_year t) @ '' '' @
               pad2 (lt_hours t) @ '':'' @ pad2 (lt_minutes t) @ '':'' @ pad2 (lt_seconds t)
           | None \<Rightarrow> ''NaN/NaN/NaN NaN:NaN:NaN'')"

lemma pad2_two: "n < 100 \<Longrightarrow> pad2 n = pad 2 n"
proof -
  assume n: "n < 100"
  then have "n div 10 < 10" by arith
  moreover have "digit_char 0 = CHR ''0''" by code_simp
  ultimately show ?thesis using n
    by (auto simp: pad2_def pad_def numeral_2_eq_2 show_nat.simps [of n] show_nat.simps [of "n div 10"])
qed

lemma show_nat_four:
  assumes "1000 \<le> n" "n < 10000"
  shows "length (show_nat n) = 4 \<and> list_all is_digit (show_nat n)"
proof -
  let ?a = "n div 10" let ?b = "?a div 10" let ?c = "?b div 10"
  have "\<not> n < 10" "\<not> ?a < 10" "\<not> ?b < 10" "?c < 10" using assms by arith+
  then show ?thesis
    by (simp add: show_nat.simps [of n] show_nat.simps [of ?a] show_nat.simps [of ?b] show_nat.simps [of ?c])
qed

text \<open>A formatted date is recognised as formatted, so formatting twice changes nothing.\<close>

lemma formatIncidentDate_idem:
  assumes "local s = Some t" "s \<noteq> []"
    and "lt_day t < 100" "lt_month t < 100" "1000 \<le> lt_year t" "lt_year t < 10000"
  shows "formatIncidentDate local (formatIncidentDate local s) = formatIncidentDate local s"
proof (cases "looks_formatted s")
  case False
  have p2: "pad 2 n = [digit_char (int (n div 10 mod 10)), digit_char (int (n mod 10))]" for n
    by (simp add: pad_def numeral_2_eq_2)
  obtain a b c d where y: "show_nat (lt_year t) = [a, b, c, d]" "list_all is_digit [a, b, c, d]"
    using show_nat_four [OF assms(5,6)] by (auto simp: length_Suc_conv numeral_eq_Suc)
  let ?f = "formatIncidentDate local s"
  have f: "?f = pad 2 (lt_day t) @ ''/'' @ pad 2 (lt_month t) @ ''/'' @ [a, b, c, d] @ '' '' @
      pad2 (lt_hours t) @ '':'' @ pad2 (lt_minutes t) @ '':'' @ pad2 (lt_seconds t)"
    using False assms by (simp add: formatIncidentDate_def pad2_two y(1))
  have "looks_formatted ?f"
    using y(2) by (simp add: f looks_formatted_def p2 nth_Cons_numeral nth_Cons')
  moreover have "?f \<noteq> []" by (simp add: f p2)
  ultimately show ?thesis by (simp add: formatIncidentDate_def [of local ?f])
qed (use assms in \<open>simp add: formatIncidentDate_def\<close>)

section \<open>The cards of the rules\<close>

datatype rule_kind = OfflineRule | DockerRule | ServiceRule | WebsiteRule | NetworkRule | MetricRule

definition isNetwork :: "alert_rule \<Rightarrow> bool" where
  "isNetwork r \<longleftrightarrow> ar_metric r = ''network_latency'' \<or> ar_metric r = ''network_loss''"

definition rule_kind_of :: "alert_rule \<Rightarrow> rule_kind" where
  "rule_kind_of r =
     (if ar_metric r = ''status'' then OfflineRule
      else if ar_metric r = ''container'' then DockerRule
      else if ar_metric r = ''service'' then ServiceRule
      else if ar_metric r = ''website'' \<or> ar_metric r = ''ssl'' then WebsiteRule
      else if isNetwork r then NetworkRule
      else MetricRule)"

record rule_card =
  rcd_kind :: rule_kind
  rcd_target :: "string option"
  rcd_server :: "string option"
  rcd_condition :: string
  rcd_duration :: string
  rcd_channels :: "string option"
  rcd_edit_title :: string
  rcd_edit_disabled :: bool
  rcd_test_disabled :: bool

definition rule_condition :: "alert_rule \<Rightarrow> string" where
  "rule_condition r =
     ar_metric r @ '' '' @ ar_operator r @ '' '' @ show_num (Fin (ar_threshold r)) @
     (if ar_metric r = ''network_latency'' then ''ms'' else ''%'')"

definition rule_card_of :: "alerts \<Rightarrow> alert_rule \<Rightarrow> rule_card" where
  "rule_card_of s r =
     \<lparr>rcd_kind = rule_kind_of r,
      rcd_target =
        (if isNetwork r
         then Some (case ar_target_name r of
                      Some t \<Rightarrow> if t \<noteq> [] then ''Target: '' @ t else ''All Targets''
                    | None \<Rightarrow> ''All Targets'')
         else None),
      rcd_server =
        (if truthy (ar_server_name r) then ar_server_name r
         else if ar_metric r \<noteq> ''website'' \<and> ar_metric r \<noteq> ''ssl'' then Some ''All servers'' else None),
      rcd_condition = rule_condition r,
      rcd_duration = show_num (Fin (ar_duration_minutes r)) @ ''m'',
      rcd_channels =
        (if ar_channels r \<noteq> []
         then Some (show_nat (length (ar_channels r)) @ '' channel'' @
                    (if length (ar_channels r) > 1 then ''s'' else []) @
                    '' ('' @ join '', '' (map rc_name (ar_channels r)) @ '')'')
         else None),
      rcd_edit_title = (if isViewer s then ''Editing rules requires Operator or Admin role'' else ''Edit alert rule''),
      rcd_edit_disabled = isViewer s,
      rcd_test_disabled = (testingRuleId (ui s) = Some (ar_id r) \<or> ar_channels r = [])\<rparr>"

lemma rule_kind_network: "rule_kind_of r = NetworkRule \<longleftrightarrow> isNetwork r"
  by (auto simp: rule_kind_of_def isNetwork_def)

text \<open>The unit belongs to the condition: an event rule, which has no threshold, shows a percentage too.\<close>

lemma event_rule_percentage:
  "ar_metric r = ''status'' \<Longrightarrow> ar_operator r = ''=='' \<Longrightarrow> ar_threshold r = 0 \<Longrightarrow>
     rcd_condition (rule_card_of s r) = ''status == 0%''"
  by (simp add: rule_card_of_def rule_condition_def) code_simp

section \<open>The summary\<close>

record kpi_cards =
  kpi_rules :: "nat \<times> nat \<times> string"
  kpi_incidents :: "nat \<times> string \<times> string"
  kpi_channels :: "nat \<times> string"
  kpi_targets :: "nat \<times> nat \<times> nat"

definition kpi_of :: "alerts \<Rightarrow> kpi_cards" where
  "kpi_of s =
     (let d = data s; active = activeRulesCount s; firing = activeFiringCount s
      in \<lparr>kpi_rules = (active, length (rules d),
            if rules d \<noteq> []
            then show_int \<lfloor>of_nat active / of_nat (length (rules d)) * 100 + (1/2 :: rat)\<rfloor> @ ''% active''
            else ''No rules''),
          kpi_incidents = (firing, if firing > 0 then ''FIRING'' else ''HEALTHY'',
            if firing > 0 then show_nat firing @ '' require action'' else ''All systems clear''),
          kpi_channels = (length (filter ac_enabled (channels d)),
            if channels d \<noteq> [] then show_nat (length (channels d)) @ '' delivery endpoints'' else ''None linked''),
          kpi_targets = (length (servers d) + length (websites d), length (servers d), length (websites d))\<rparr>)"

definition status_options :: "alerts \<Rightarrow> (string \<times> nat) list" where
  "status_options s =
     (let rs = rules (data s)
      in [(''all'', length rs), (''active'', length (filter ar_enabled rs)),
          (''disabled'', length (filter (\<lambda>r. \<not> ar_enabled r) rs))])"

lemma status_options_add_up:
  "snd (status_options s ! 1) + snd (status_options s ! 2) = snd (status_options s ! 0)"
  by (simp add: status_options_def Let_def sum_length_filter_compl)

section \<open>The cards of the channels\<close>

definition webhook_id :: "string \<Rightarrow> string" where
  \<comment> \<open>\<open>parts[parts.length - 2] || ''\<close> of the URL split at its slashes\<close>
  "webhook_id url =
     (let parts = split_at (CHR ''/'') url
      in if 2 \<le> length parts then parts ! (length parts - 2) else [])"

definition detailText :: "alert_channel \<Rightarrow> string" where
  "detailText c =
     (let cfg = ac_config c in
      if ac_type c = ''discord'' then
        (let url = config_string cfg ''webhook_url''
         in if url \<noteq> [] then (let i = webhook_id url in if i \<noteq> [] then ''Webhook: .../'' @ i else ''Discord Webhook'')
            else ''Discord Webhook'')
      else if ac_type c = ''telegram'' then
        (let cid = config_string cfg ''chat_id'' in if cid \<noteq> [] then ''Chat ID: '' @ cid else ''Telegram Bot'')
      else if ac_type c = ''email'' then
        (let to = config_string cfg ''to''
         in if to \<noteq> [] then ''To: '' @ to
            else case field cfg ''smtp_host'' of Some (JStr h) \<Rightarrow> ''Host: '' @ h | _ \<Rightarrow> ''SMTP Email'')
      else [])"

lemma webhook_id_last_but_one:
  "CHR ''/'' \<notin> set i \<Longrightarrow> CHR ''/'' \<notin> set t \<Longrightarrow> webhook_id (p @ ''/'' @ i @ ''/'' @ t) = i"
  by (simp add: webhook_id_def split_at_split split_at_plain Let_def nth_append)

text \<open>
  The card of a Discord channel shows the id of its webhook and not the token, which is the part
  behind it, whatever the token is.  An address stored with a slash at its end shows the token.
\<close>

theorem card_hides_token:
  assumes "ac_type c = ''discord''"
    and "config_string (ac_config c) ''webhook_url'' = ''https://discord.com/api/webhooks/'' @ i @ ''/'' @ token @ tail"
    and "i \<noteq> []" "CHR ''/'' \<notin> set i" "CHR ''/'' \<notin> set token"
  shows "tail = [] \<Longrightarrow> detailText c = ''Webhook: .../'' @ i"
    and "tail = ''/'' \<Longrightarrow> token \<noteq> [] \<Longrightarrow> detailText c = ''Webhook: .../'' @ token"
proof -
  let ?u = "''https://discord.com/api/webhooks/'' @ i @ ''/'' @ token @ tail"
  have "tail = [] \<Longrightarrow> webhook_id ?u = i"
    using webhook_id_last_but_one [of i token "''https://discord.com/api/webhooks''"] assms(4,5) by simp
  then show "tail = [] \<Longrightarrow> detailText c = ''Webhook: .../'' @ i"
    using assms(1-3) by (simp add: detailText_def Let_def)
  have "tail = ''/'' \<Longrightarrow> webhook_id ?u = token"
    using webhook_id_last_but_one [of token "[]" "''https://discord.com/api/webhooks/'' @ i"] assms(5) by simp
  then show "tail = ''/'' \<Longrightarrow> token \<noteq> [] \<Longrightarrow> detailText c = ''Webhook: .../'' @ token"
    using assms(1,2) by (simp add: detailText_def Let_def)
qed

definition discord_card :: "string \<Rightarrow> alert_channel" where
  "discord_card url =
     \<lparr>ac_id = ''c'', ac_name = ''ops'', ac_type = ''discord'',
      ac_config = JObj [(''webhook_url'', JStr url)], ac_enabled = True, ac_usage_count = 0\<rparr>"

theorem card_hides_token_witness:
  "detailText (discord_card ''https://discord.com/api/webhooks/123/s3cret'') = ''Webhook: .../123'' \<and>
   detailText (discord_card ''https://discord.com/api/webhooks/123/s3cret/'') = ''Webhook: .../s3cret''"
  using card_hides_token(1) [of "discord_card ''https://discord.com/api/webhooks/123/s3cret''" "''123''" "''s3cret''" "[]"]
    card_hides_token(2) [of "discord_card ''https://discord.com/api/webhooks/123/s3cret/''" "''123''" "''s3cret''" "''/''"]
  by (simp add: discord_card_def config_string_def)

definition channel_usage_text :: "alert_channel \<Rightarrow> string" where
  "channel_usage_text c =
     ''Linked to '' @ show_nat (ac_usage_count c) @ '' alert rule'' @ (if ac_usage_count c = 1 then [] else ''s'')"

definition driver_of :: "alert_channel \<Rightarrow> string" where
  "driver_of c =
     (if ac_type c = ''email'' then ''smtp'' else if ac_type c = ''telegram'' then ''bot api''
      else if ac_type c = ''discord'' then ''webhook'' else ac_type c)"

section \<open>The choices of the rule form\<close>

definition duration_presets :: "string list" where
  "duration_presets = [''1'', ''2'', ''5'', ''10'', ''15'']"

definition custom_duration_shown :: "rule_form \<Rightarrow> bool" where
  "custom_duration_shown f \<longleftrightarrow> showCustomDuration f \<or> ruleDuration f \<notin> set duration_presets"

definition missed_heartbeats :: "rule_form \<Rightarrow> jsnum" where
  \<comment> \<open>\<open>Number(ruleDuration || 1) * 6\<close>\<close>
  "missed_heartbeats f = num_times (if ruleDuration f = [] then Fin 1 else to_number (ruleDuration f)) 6"

definition threshold_presets :: "rule_form \<Rightarrow> string list" where
  "threshold_presets f =
     (if selectedCategory f = CatMetric then [''70'', ''80'', ''85'', ''90'', ''95'']
      else if ruleMetric f = ''network_latency'' then [''30'', ''50'', ''100'', ''200'', ''500'']
      else [''5'', ''10'', ''20'', ''50''])"

definition repeat_options :: "string list" where
  "repeat_options = [''0'', ''15'', ''30'', ''60'', ''120'']"

definition target_value :: "alerts \<Rightarrow> string" where
  \<comment> \<open>the value of the target selector\<close>
  "target_value s =
     (let n = ruleTargetName (form s) in
      if n = [] then ''__ALL__''
      else if n \<in> set (discoveredNetworkTags s) then ''tag:'' @ n
      else if list_ex (\<lambda>t. nt_name t = n) (relevantNetworkTargets s) then ''target:'' @ n
      else ''__CUSTOM__'')"

datatype target_sub = AllTargets | TagTargets nat | OneTarget string string
  \<comment> \<open>the sub label of a choice: the number of targets of a tag, the method and the tag of a target\<close>

definition target_options :: "alerts \<Rightarrow> (string \<times> string \<times> target_sub) list" where
  \<comment> \<open>value, label and sub label\<close>
  "target_options s =
     (''__ALL__'', ''All Network Targets ('' @ show_nat (length (relevantNetworkTargets s)) @ '' active)'',
      AllTargets) #
     map (\<lambda>tag. (''tag:'' @ tag, ''Tag Group: '' @ tag,
                 TagTargets (length (filter (\<lambda>t. nt_tag t = tag) (relevantNetworkTargets s)))))
       (discoveredNetworkTags s) @
     map (\<lambda>t. (''target:'' @ nt_name t, ''Target: '' @ nt_name t @ '' ('' @ nt_host t @ '')'',
               OneTarget (nt_probe_method t) (nt_tag t)))
       (relevantNetworkTargets s)"

lemma tags_form_update [simp]: "discoveredNetworkTags (form_update g s) = discoveredNetworkTags s"
  by (simp add: discoveredNetworkTags_def)

lemma relevant_pick [simp]:
  "relevantNetworkTargets (form_update (pick_network_target v) s) = relevantNetworkTargets s"
proof -
  have "selectedServerIds (pick_network_target v (form s)) = selectedServerIds (form s)"
    by (simp add: pick_network_target_def Let_def)
  then show ?thesis by (simp add: relevantNetworkTargets_def Let_def)
qed

text \<open>
  Choosing an entry of the target selector makes the selector show that entry, with one
  exception: a target that bears the name of a tag is shown as the whole group.
\<close>

theorem target_choice_shown:
  assumes "(v, l, sub) \<in> set (target_options s)"
    and "list_all (\<lambda>t. nt_name t \<noteq> []) (networkTargets (data s))"
  shows "target_value (form_update (pick_network_target v) s) =
    (if (\<exists>n. v = ''target:'' @ n \<and> n \<in> set (discoveredNetworkTags s)) then ''tag:'' @ drop 7 v else v)"
proof -
  let ?s = "form_update (pick_network_target v) s"
  have tags: "[] \<notin> set (discoveredNetworkTags s)" by (simp add: discoveredNetworkTags_def)
  have names: "t \<in> set (relevantNetworkTargets s) \<Longrightarrow> nt_name t \<noteq> []" for t
    using assms(2) by (auto simp: relevantNetworkTargets_def Let_def list_all_iff split: if_splits)
  consider "v = ''__ALL__''" | tag where "v = ''tag:'' @ tag" "tag \<in> set (discoveredNetworkTags s)"
    | t where "v = ''target:'' @ nt_name t" "t \<in> set (relevantNetworkTargets s)"
    using assms(1) by (auto simp: target_options_def)
  then show ?thesis
  proof cases
    case 1
    then show ?thesis by (simp add: target_value_def pick_network_target_def)
  next
    case 2
    then have "ruleTargetName (form ?s) = tag" "tag \<noteq> []"
      using tags by (auto simp: pick_network_target_def Let_def starts_with_def replace_first_def)
    with 2 show ?thesis by (simp add: target_value_def Let_def)
  next
    case 3
    then have n: "ruleTargetName (form ?s) = nt_name t" "nt_name t \<noteq> []"
      using names by (auto simp: pick_network_target_def Let_def starts_with_def replace_first_def)
    have "list_ex (\<lambda>u. nt_name u = nt_name t) (relevantNetworkTargets s)"
      using 3(2) by (auto simp: list_ex_iff)
    with n 3 show ?thesis by (simp add: target_value_def Let_def)
  qed
qed

definition matched_shown :: "alerts \<Rightarrow> string list \<times> nat" where
  \<comment> \<open>the first five names and the number of further ones\<close>
  "matched_shown s =
     (map nt_name (take 5 (matchedNetworkTargets s)), length (matchedNetworkTargets s) - 5)"

definition website_selected :: "rule_form \<Rightarrow> website_condition \<Rightarrow> bool" where
  "website_selected f item \<longleftrightarrow>
     ruleMetric f = wc_metric item \<and> (wc_metric item = ''website'' \<or> ruleThreshold f = wc_threshold item)"

definition scope_title :: "alerts \<Rightarrow> string" where
  \<comment> \<open>the text behind SCOPE\<close>
  "scope_title s =
     (let f = form s; d = data s; count = (\<lambda>sel all word.
            if length sel = length all \<and> all \<noteq> [] then ''ALL '' @ word
            else show_nat (length sel) @ '' OF '' @ show_nat (length all) @ '' '' @ word)
      in if selectedCategory f = CatWebsite
         then count (selectedWebsiteIds f) (map aw_id (websites d)) ''SITES'' @ '' SELECTED''
         else count (selectedServerIds f) (map as_id (servers d)) ''AGENTS'' @ '' SELECTED'')"

definition read_chip :: "alerts \<Rightarrow> int" where
  \<comment> \<open>\<open>Math.max(0, incidents.length - unreadIncidentsCount)\<close>\<close>
  "read_chip s = max 0 (int (length (incidents (data s))) - unreadIncidentsCount (data s))"

definition edit_scope_text :: "alerts \<Rightarrow> string" where
  "edit_scope_text s =
     (let e = edit s in
      if editMetric e \<in> {''website'', ''ssl''}
      then (if editTargetName e \<noteq> [] then ''Site: '' @ editTargetName e else ''All websites'')
      else if editServerId e = [] \<or> editServerId e = ''all'' then ''All servers''
      else case find (\<lambda>x. as_id x = editServerId e) (servers (data s)) of
             Some x \<Rightarrow> str_or (as_name x) ''Selected server''
           | None \<Rightarrow> ''Selected server'')"

end
