(* ===== verification/AlertEvents.thy ===== *)
theory AlertEvents
  imports AlertView
begin

text \<open>
  The Alert Center as one machine (\<open>alerts/page.tsx\<close>): every control the page renders, when it is
  rendered and enabled, what pressing it does to the state and which request it sends; the answers
  of the API; and what the role gates of the page amount to for a viewer.
\<close>

section \<open>The controls\<close>

datatype form_event =
    Pick_category alert_category
  | Duration_preset string | Duration_custom | Type_duration string | Pick_duration string
  | Pick_metric string | Pick_operator string | Pick_threshold string
  | Pick_network_metric string | Pick_network_target string | Pick_network_threshold string
  | Type_container string | Type_service string | Pick_website_condition website_condition
  | Click_server string | Click_all_servers | Search_servers string
  | Click_website string | Click_all_websites | Search_websites string
  | Click_channel string | Click_all_channels
  | Type_name string | Pick_repeat string

fun form_control :: "form_event \<Rightarrow> alerts \<Rightarrow> alerts" where
  "form_control (Pick_category c) s = handleSelectCategory c s"
| "form_control (Duration_preset v) s = form_update (pick_duration v) s"
| "form_control Duration_custom s = form_update (\<lambda>f. f\<lparr>showCustomDuration := True\<rparr>) s"
| "form_control (Type_duration v) s = form_update (\<lambda>f. f\<lparr>ruleDuration := v\<rparr>) s"
| "form_control (Pick_duration v) s = form_update (\<lambda>f. f\<lparr>ruleDuration := v\<rparr>) s"
| "form_control (Pick_metric v) s = form_update (pick_metric v) s"
| "form_control (Pick_operator v) s = form_update (\<lambda>f. f\<lparr>ruleOperator := v\<rparr>) s"
| "form_control (Pick_threshold v) s = form_update (pick_threshold v) s"
| "form_control (Pick_network_metric v) s = form_update (pick_network_metric v) s"
| "form_control (Pick_network_target v) s = form_update (pick_network_target v) s"
| "form_control (Pick_network_threshold v) s = form_update (pick_network_threshold v) s"
| "form_control (Type_container v) s = form_update (type_container v) s"
| "form_control (Type_service v) s = form_update (type_service v) s"
| "form_control (Pick_website_condition c) s = form_update (pick_website_condition c) s"
| "form_control (Click_server i) s = toggleServer i s"
| "form_control Click_all_servers s = toggleAllServers s"
| "form_control (Search_servers q) s = form_update (\<lambda>f. f\<lparr>scopeSearchQuery := q\<rparr>) s"
| "form_control (Click_website i) s = toggleWebsite i s"
| "form_control Click_all_websites s = toggleAllWebsites s"
| "form_control (Search_websites q) s = form_update (\<lambda>f. f\<lparr>websiteSearchQuery := q\<rparr>) s"
| "form_control (Click_channel i) s = toggleChannel i s"
| "form_control Click_all_channels s = toggle_all_channels s"
| "form_control (Type_name v) s = form_update (\<lambda>f. f\<lparr>ruleName := v\<rparr>) s"
| "form_control (Pick_repeat v) s = form_update (\<lambda>f. f\<lparr>ruleRepeatInterval := v\<rparr>) s"

datatype channel_field =
    Field_type string | Field_name string | Field_token string | Field_chat string | Field_webhook string
  | Field_host string | Field_port string | Field_user string | Field_password string
  | Field_from string | Field_to string | Field_tls bool

fun set_channel_field :: "channel_field \<Rightarrow> channel_form \<Rightarrow> channel_form" where
  "set_channel_field (Field_type v) f = f\<lparr>channelType := v\<rparr>"
| "set_channel_field (Field_name v) f = f\<lparr>channelName := v\<rparr>"
| "set_channel_field (Field_token v) f = f\<lparr>channelToken := v\<rparr>"
| "set_channel_field (Field_chat v) f = f\<lparr>channelChatId := v\<rparr>"
| "set_channel_field (Field_webhook v) f = f\<lparr>channelWebhook := v\<rparr>"
| "set_channel_field (Field_host v) f = f\<lparr>channelSMTPHost := v\<rparr>"
| "set_channel_field (Field_port v) f = f\<lparr>channelSMTPPort := v\<rparr>"
| "set_channel_field (Field_user v) f = f\<lparr>channelSMTPUsername := v\<rparr>"
| "set_channel_field (Field_password v) f = f\<lparr>channelSMTPPassword := v\<rparr>"
| "set_channel_field (Field_from v) f = f\<lparr>channelEmailFrom := v\<rparr>"
| "set_channel_field (Field_to v) f = f\<lparr>channelEmailTo := v\<rparr>"
| "set_channel_field (Field_tls v) f = f\<lparr>channelUseTLS := v\<rparr>"

datatype edit_event =
    Edit_name string | Edit_website string | Edit_all_websites | Edit_website_search string
  | Edit_server string | Edit_all_servers | Edit_server_search string
  | Edit_operator string | Edit_threshold string | Edit_target string | Edit_duration string
  | Edit_repeat string | Edit_channel string | Edit_all_channels | Edit_close

fun edit_control :: "edit_event \<Rightarrow> alerts \<Rightarrow> alerts" where
  "edit_control (Edit_name v) s = edit_update (\<lambda>e. e\<lparr>editName := v\<rparr>) s"
| "edit_control (Edit_website n) s = edit_update (\<lambda>e. e\<lparr>editTargetName := n\<rparr>) s"
| "edit_control Edit_all_websites s = edit_update (\<lambda>e. e\<lparr>editTargetName := []\<rparr>) s"
| "edit_control (Edit_website_search q) s = edit_update (\<lambda>e. e\<lparr>editWebsiteSearchQuery := q\<rparr>) s"
| "edit_control (Edit_server i) s = edit_update (\<lambda>e. e\<lparr>editServerId := i\<rparr>) s"
| "edit_control Edit_all_servers s = edit_update (\<lambda>e. e\<lparr>editServerId := []\<rparr>) s"
| "edit_control (Edit_server_search q) s = edit_update (\<lambda>e. e\<lparr>editServerSearchQuery := q\<rparr>) s"
| "edit_control (Edit_operator v) s = edit_update (\<lambda>e. e\<lparr>editOperator := v\<rparr>) s"
| "edit_control (Edit_threshold v) s = edit_update (\<lambda>e. e\<lparr>editThreshold := to_number v\<rparr>) s"
| "edit_control (Edit_target v) s = edit_update (\<lambda>e. e\<lparr>editTargetName := v\<rparr>) s"
| "edit_control (Edit_duration v) s = edit_update (\<lambda>e. e\<lparr>editDuration := to_number v\<rparr>) s"
| "edit_control (Edit_repeat v) s = edit_update (\<lambda>e. e\<lparr>editRepeat := to_number v\<rparr>) s"
| "edit_control (Edit_channel i) s = toggleEditChannel i s"
| "edit_control Edit_all_channels s = toggle_all_edit_channels s"
| "edit_control Edit_close s = closeEditModal s"

datatype alert_event =
    Refresh | Header_new_rule | Dismiss | Open_tab alert_tab | Empty_new_rule | Leave_form alert_tab
  | Rule_query string | Rule_category "alert_category option" | Rule_status rule_status_filter
  | Edit_rule alert_rule | Test_rule alert_rule | Switch_rule alert_rule | Trash_rule alert_rule
  | Form form_event | Submit_rule
  | Channel_input channel_field | Test_new_channel | Submit_channel
  | Test_channel alert_channel | Edit_channel_card alert_channel | Trash_channel alert_channel
  | Incident_filter incident_filter | Refresh_incidents | Mark_all_read | Mark_read incident
  | Edit_modal edit_event | Save_rule
  | Channel_modal_input channel_field | Test_edited_channel | Save_channel | Close_channel_modal
  | Confirm_delete_rule | Cancel_delete_rule | Confirm_delete_channel | Cancel_delete_channel

definition on_tab :: "alert_tab \<Rightarrow> alerts \<Rightarrow> bool" where
  "on_tab t s \<longleftrightarrow> \<not> loading (ui s) \<and> activeTab (ui s) = t"

fun offered :: "alert_event \<Rightarrow> alerts \<Rightarrow> bool" where
  \<comment> \<open>the control is rendered and enabled\<close>
  "offered Refresh s \<longleftrightarrow> activeTab (ui s) \<noteq> TabCreate \<and> \<not> refreshing (ui s)"
| "offered Header_new_rule s \<longleftrightarrow> activeTab (ui s) \<noteq> TabCreate \<and> \<not> isViewer s"
| "offered Dismiss s \<longleftrightarrow> errorMessage (ui s) \<noteq> [] \<or> successMessage (ui s) \<noteq> []"
| "offered (Open_tab t) s \<longleftrightarrow> activeTab (ui s) \<noteq> TabCreate"
| "offered Empty_new_rule s \<longleftrightarrow> on_tab TabRules s \<and> filteredRules s = []"
| "offered (Leave_form t) s \<longleftrightarrow> on_tab TabCreate s \<and> t \<in> {TabRules, TabChannels}"
| "offered (Rule_query q) s \<longleftrightarrow> on_tab TabRules s"
| "offered (Rule_category c) s \<longleftrightarrow> on_tab TabRules s"
| "offered (Rule_status f) s \<longleftrightarrow> on_tab TabRules s"
| "offered (Edit_rule r) s \<longleftrightarrow> on_tab TabRules s \<and> r \<in> set (filteredRules s) \<and> \<not> isViewer s"
| "offered (Test_rule r) s \<longleftrightarrow>
     on_tab TabRules s \<and> r \<in> set (filteredRules s) \<and> testingRuleId (ui s) \<noteq> Some (ar_id r) \<and> ar_channels r \<noteq> []"
| "offered (Switch_rule r) s \<longleftrightarrow> on_tab TabRules s \<and> r \<in> set (filteredRules s)"
| "offered (Trash_rule r) s \<longleftrightarrow> on_tab TabRules s \<and> r \<in> set (filteredRules s)"
| "offered (Form e) s \<longleftrightarrow> on_tab TabCreate s"
| "offered Submit_rule s \<longleftrightarrow> on_tab TabCreate s \<and> \<not> savingRule (ui s) \<and> isFormValid (form s)"
| "offered (Channel_input f) s \<longleftrightarrow> on_tab TabChannels s"
| "offered Test_new_channel s \<longleftrightarrow> on_tab TabChannels s \<and> \<not> testingNewChannel (ui s) \<and> \<not> savingChannel (ui s)"
| "offered Submit_channel s \<longleftrightarrow> on_tab TabChannels s \<and> \<not> testingNewChannel (ui s) \<and> \<not> savingChannel (ui s)"
| "offered (Test_channel c) s \<longleftrightarrow>
     (on_tab TabChannels s \<and> c \<in> set (channels (data s)) \<or> on_tab TabCreate s \<and> c \<in> set (enabledChannels s)) \<and>
     testingChannelId (ui s) \<noteq> Some (ac_id c)"
| "offered (Edit_channel_card c) s \<longleftrightarrow> on_tab TabChannels s \<and> c \<in> set (channels (data s)) \<and> \<not> isViewer s"
| "offered (Trash_channel c) s \<longleftrightarrow> on_tab TabChannels s \<and> c \<in> set (channels (data s)) \<and> \<not> isViewer s"
| "offered (Incident_filter f) s \<longleftrightarrow> on_tab TabIncidents s"
| "offered Refresh_incidents s \<longleftrightarrow> on_tab TabIncidents s"
| "offered Mark_all_read s \<longleftrightarrow> on_tab TabIncidents s \<and> unreadIncidentsCount (data s) > 0"
| "offered (Mark_read i) s \<longleftrightarrow>
     on_tab TabIncidents s \<and> \<not> loadingIncidents (ui s) \<and> i \<in> set (shown_incidents s) \<and> is_unread i"
| "offered (Edit_modal e) s \<longleftrightarrow> editingRule (edit s) \<noteq> None"
| "offered Save_rule s \<longleftrightarrow> editingRule (edit s) \<noteq> None \<and> \<not> savingEdit (edit s)"
| "offered (Channel_modal_input f) s \<longleftrightarrow> editingChannel (cedit s) \<noteq> None"
| "offered Test_edited_channel s \<longleftrightarrow>
     editingChannel (cedit s) \<noteq> None \<and> \<not> testingEditChannel (cedit s) \<and> \<not> savingEditChannel (cedit s)"
| "offered Save_channel s \<longleftrightarrow>
     editingChannel (cedit s) \<noteq> None \<and> \<not> testingEditChannel (cedit s) \<and> \<not> savingEditChannel (cedit s)"
| "offered Close_channel_modal s \<longleftrightarrow> editingChannel (cedit s) \<noteq> None"
| "offered Confirm_delete_rule s \<longleftrightarrow> deleteRuleTarget (ui s) \<noteq> None \<and> \<not> deletingRule (ui s)"
| "offered Cancel_delete_rule s \<longleftrightarrow> deleteRuleTarget (ui s) \<noteq> None \<and> \<not> deletingRule (ui s)"
| "offered Confirm_delete_channel s \<longleftrightarrow> deleteChannelTarget (ui s) \<noteq> None \<and> \<not> deletingChannel (ui s)"
| "offered Cancel_delete_channel s \<longleftrightarrow> deleteChannelTarget (ui s) \<noteq> None \<and> \<not> deletingChannel (ui s)"

definition no_request :: "alerts \<Rightarrow> alerts \<times> request list" where
  "no_request s = (s, [])"

definition one_request :: "alerts \<times> request \<Rightarrow> alerts \<times> request list" where
  "one_request p = (fst p, [snd p])"

definition maybe_request :: "alerts \<times> request option \<Rightarrow> alerts \<times> request list" where
  "maybe_request p = (fst p, case snd p of Some q \<Rightarrow> [q] | None \<Rightarrow> [])"

definition go_tab :: "alert_tab \<Rightarrow> alerts \<Rightarrow> alerts" where
  "go_tab t s = ui_update (\<lambda>u. u\<lparr>activeTab := t\<rparr>) s"

definition tab_effect :: "alert_tab \<Rightarrow> alerts \<Rightarrow> alerts \<times> request list" where
  \<comment> \<open>opening another tab; the effect on \<open>activeTab\<close> loads the incidents\<close>
  "tab_effect t s =
     (if t = TabIncidents \<and> activeTab (ui s) \<noteq> TabIncidents then one_request (fetchIncidents_begin (go_tab t s))
      else no_request (go_tab t s))"

definition refresh_requests :: "request list" where
  "refresh_requests =
     [fetchRules_request, request_get ''/alerts/channels'', request_get ''/servers'',
      request_get ''/websites'', request_get ''/alerts/notifications?limit=50'',
      request_get ''/network-targets'']"

fun run :: "alert_event \<Rightarrow> alerts \<Rightarrow> alerts \<times> request list" where
  "run Refresh s =
     (fst (fetchIncidents_begin (ui_update (\<lambda>u. u\<lparr>refreshing := True\<rparr>) s)), refresh_requests)"
| "run Header_new_rule s = tab_effect TabCreate (clear_messages s)"
| "run Dismiss s = no_request (clear_messages s)"
| "run (Open_tab t) s = tab_effect t (clear_messages s)"
| "run Empty_new_rule s = tab_effect TabCreate s"
| "run (Leave_form t) s = tab_effect t s"
| "run (Rule_query q) s = no_request (s\<lparr>filters := (filters s)\<lparr>ruleSearchQuery := q\<rparr>\<rparr>)"
| "run (Rule_category c) s = no_request (s\<lparr>filters := (filters s)\<lparr>ruleCategoryFilter := c\<rparr>\<rparr>)"
| "run (Rule_status f) s = no_request (s\<lparr>filters := (filters s)\<lparr>ruleStatusFilter := f\<rparr>\<rparr>)"
| "run (Edit_rule r) s = no_request (openEditModal r s)"
| "run (Test_rule r) s = one_request (testAlertRule_begin (ar_id r) s)"
| "run (Switch_rule r) s = one_request (toggleRule_begin (ar_id r) (ar_enabled r) s)"
| "run (Trash_rule r) s = no_request (ui_update (\<lambda>u. u\<lparr>deleteRuleTarget := Some r\<rparr>) s)"
| "run (Form e) s = no_request (form_control e s)"
| "run Submit_rule s = maybe_request (createRule_begin s)"
| "run (Channel_input f) s = no_request (cform_update (set_channel_field f) s)"
| "run Test_new_channel s = maybe_request (testNewChannel_begin s)"
| "run Submit_channel s = maybe_request (createChannel_begin s)"
| "run (Test_channel c) s = one_request (testExistingChannel_begin (ac_id c) s)"
| "run (Edit_channel_card c) s = no_request (openEditChannelModal c s)"
| "run (Trash_channel c) s = no_request (request_delete_channel c s)"
| "run (Incident_filter f) s = no_request (s\<lparr>filters := (filters s)\<lparr>incidentFilter := f\<rparr>\<rparr>)"
| "run Refresh_incidents s = one_request (fetchIncidents_begin s)"
| "run Mark_all_read s = (s, [request_bare ''POST'' ''/alerts/notifications/read-all''])"
| "run (Mark_read i) s = (s, [markIncidentRead_request (in_id i)])"
| "run (Edit_modal e) s = no_request (edit_control e s)"
| "run Save_rule s = maybe_request (handleSaveEdit_begin s)"
| "run (Channel_modal_input f) s =
     no_request (cedit_update (\<lambda>e. e\<lparr>editChannel := set_channel_field f (editChannel e)\<rparr>) s)"
| "run Test_edited_channel s = maybe_request (testEditChannel_begin s)"
| "run Save_channel s = maybe_request (handleSaveEditChannel_begin s)"
| "run Close_channel_modal s = no_request (cedit_update (\<lambda>e. e\<lparr>editingChannel := None\<rparr>) s)"
| "run Confirm_delete_rule s = maybe_request (confirmDeleteRule_begin s)"
| "run Cancel_delete_rule s = no_request (ui_update (\<lambda>u. u\<lparr>deleteRuleTarget := None\<rparr>) s)"
| "run Confirm_delete_channel s = maybe_request (confirmDeleteChannel_begin s)"
| "run Cancel_delete_channel s = no_request (ui_update (\<lambda>u. u\<lparr>deleteChannelTarget := None\<rparr>) s)"

definition press :: "alert_event \<Rightarrow> alerts \<Rightarrow> alerts \<times> request list" where
  "press ev s = (if offered ev s then run ev s else no_request s)"

section \<open>The page as a step relation\<close>

definition alerts_me :: "string option outcome \<Rightarrow> alerts \<Rightarrow> alerts" where
  \<comment> \<open>the answer of \<open>/auth/me\<close>: a role that is there and not empty\<close>
  "alerts_me reply s =
     (case reply of
        Inr (Some r) \<Rightarrow> if r \<noteq> [] then ui_update (\<lambda>u. u\<lparr>userRole := r\<rparr>) s else s
      | _ \<Rightarrow> s)"

inductive alerts_step :: "alerts \<Rightarrow> alerts \<Rightarrow> bool" where
  pressed: "alerts_step s (fst (press ev s))"
| answer: "alerts_step s (apply_load l s)"
| loaded: "alerts_step s (ui_update (\<lambda>u. u\<lparr>loading := False\<rparr>) s)"
| refreshed: "alerts_step s (ui_update (\<lambda>u. u\<lparr>refreshing := False\<rparr>) (set_success ''Alert Center data refreshed.'' s))"
| refresh_failed: "alerts_step s (ui_update (\<lambda>u. u\<lparr>refreshing := False\<rparr>) s)"
| link_servers: "alerts_step s (effect_servers p s)"
| link_websites: "alerts_step s (effect_websites p s)"
| link: "alerts_step s (effect_url p s)"
| created: "alerts_step s (createRule_finish c r s)"
| switched: "alerts_step s (toggleRule_finish i b s)"
| tested: "alerts_step s (testAlertRule_finish n m s)"
| saved: "alerts_step s (fst (handleSaveEdit_answered c u s))"
| reloaded: "alerts_step s (handleSaveEdit_finish rs s)"
| rule_deleted: "alerts_step s (confirmDeleteRule_finish r u s)"
| new_tested: "alerts_step s (testNewChannel_finish u s)"
| old_tested: "alerts_step s (testExistingChannel_finish n u s)"
| channel_created: "alerts_step s (createChannel_finish cr s)"
| channel_deleted: "alerts_step s (confirmDeleteChannel_deleted ch s)"
| channel_kept: "alerts_step s (confirmDeleteChannel_failed th s)"
| channel_saved: "alerts_step s (handleSaveEditChannel_finish c cp s)"
| edited_tested: "alerts_step s (testEditChannel_finish c u s)"
| all_read: "alerts_step s (markAllIncidentsRead_finish now u s)"
| one_read: "alerts_step s (markIncidentRead_finish now i u s)"

inductive viewer_alerts :: "alerts \<Rightarrow> bool" where
  first: "viewer_alerts (init_alerts ''viewer'')"
| me: "viewer_alerts s \<Longrightarrow> reply \<in> {Inr (Some ''viewer''), Inr None, Inl e} \<Longrightarrow> viewer_alerts (alerts_me reply s)"
| step: "viewer_alerts s \<Longrightarrow> alerts_step s t \<Longrightarrow> viewer_alerts t"

section \<open>The gate\<close>

definition gate :: "alerts \<Rightarrow> bool" where
  "gate s \<longleftrightarrow>
     isViewer s \<and> editingRule (edit s) = None \<and> editingChannel (cedit s) = None \<and> deleteChannelTarget (ui s) = None"

lemma gate_updates [simp]:
  "gate (form_update f s) = gate s" "gate (data_update d s) = gate s" "gate (cform_update g s) = gate s"
  "gate (set_error m s) = gate s" "gate (set_success m s) = gate s" "gate (clear_messages s) = gate s"
  "gate (s\<lparr>filters := fl\<rparr>) = gate s"
  by (simp_all add: gate_def isViewer_def set_error_def set_success_def clear_messages_def)

lemma gate_ui:
  "(\<And>u. userRole (f u) = userRole u) \<Longrightarrow> (\<And>u. deleteChannelTarget u = None \<Longrightarrow> deleteChannelTarget (f u) = None) \<Longrightarrow>
     gate s \<Longrightarrow> gate (ui_update f s)"
  by (simp add: gate_def isViewer_def)

lemma gate_edit: "(\<And>e. editingRule e = None \<Longrightarrow> editingRule (f e) = None) \<Longrightarrow> gate s \<Longrightarrow> gate (edit_update f s)"
  by (simp add: gate_def isViewer_def)

lemma gate_cedit: "(\<And>e. editingChannel e = None \<Longrightarrow> editingChannel (f e) = None) \<Longrightarrow> gate s \<Longrightarrow> gate (cedit_update f s)"
  by (simp add: gate_def isViewer_def)

lemmas gate_intros = gate_ui gate_edit gate_cedit

lemma gate_form: "gate s \<Longrightarrow> gate (form_control e s)"
  by (cases e) (simp_all add: handleSelectCategory_def toggleServer_def toggleAllServers_def toggleWebsite_def
      toggleAllWebsites_def toggleChannel_def toggle_all_channels_def)

lemma gate_tab: "gate s \<Longrightarrow> gate (fst (tab_effect t s))"
  by (auto simp: tab_effect_def one_request_def no_request_def fetchIncidents_begin_def go_tab_def intro!: gate_intros)

lemma gate_closed:
  assumes "gate s"
  shows "\<not> offered (Edit_rule r) s" "\<not> offered (Edit_channel_card c) s" "\<not> offered (Trash_channel c) s"
    "\<not> offered Header_new_rule s" "\<not> offered (Edit_modal e) s" "\<not> offered Save_rule s"
    "\<not> offered (Channel_modal_input f) s" "\<not> offered Test_edited_channel s" "\<not> offered Save_channel s"
    "\<not> offered Close_channel_modal s" "\<not> offered Confirm_delete_channel s" "\<not> offered Cancel_delete_channel s"
  using assms by (simp_all add: gate_def)

lemma gate_press:
  assumes "gate s"
  shows "gate (fst (press ev s))"
proof (cases "offered ev s")
  case True
  have v: "isViewer s" using assms by (simp add: gate_def)
  from True gate_closed [OF assms] have "gate (fst (run ev s))"
    using assms gate_form gate_tab v
    by (cases ev; simp add: no_request_def one_request_def maybe_request_def fetchIncidents_begin_def
        testAlertRule_begin_def toggleRule_begin_def createRule_begin_def testNewChannel_begin_def
        createChannel_begin_def testExistingChannel_begin_def confirmDeleteRule_begin_def Let_def gate_intros
        split: option.split del: offered.simps)
  with True show ?thesis by (simp add: press_def)
qed (simp add: press_def no_request_def assms)

lemma gate_load: "gate s \<Longrightarrow> gate (apply_load l s)"
  by (cases l) (auto simp: fetchRules_finish_def fetchChannels_finish_def fetchServers_finish_def
      fetchWebsites_finish_def fetchIncidents_finish_def fetchNetworkTargets_finish_def
      intro!: gate_intros split: sum.split)

lemma gate_links: "gate s \<Longrightarrow> gate (effect_servers p s)" "gate s \<Longrightarrow> gate (effect_websites p s)" "gate s \<Longrightarrow> gate (effect_url p s)"
  by (auto simp: effect_servers_def effect_websites_def effect_url_def Let_def intro!: gate_intros split: option.split)

lemma gate_answers:
  assumes "gate s"
  shows "gate (createRule_finish c r s)" "gate (toggleRule_finish i b s)" "gate (testAlertRule_finish n m s)"
    "gate (fst (handleSaveEdit_answered c u s))" "gate (handleSaveEdit_finish rs s)" "gate (confirmDeleteRule_finish ru u s)"
    "gate (testNewChannel_finish u s)" "gate (testExistingChannel_finish n u s)" "gate (createChannel_finish cr s)"
    "gate (confirmDeleteChannel_deleted ch s)" "gate (confirmDeleteChannel_failed th s)"
    "gate (handleSaveEditChannel_finish c cp s)" "gate (testEditChannel_finish c u s)"
    "gate (markAllIncidentsRead_finish now u s)" "gate (markIncidentRead_finish now i u s)"
  using assms gate_load [OF assms, of "LoadRules rs"]
  by (auto simp: createRule_finish_def toggleRule_finish_def testAlertRule_finish_def handleSaveEdit_answered_def
      handleSaveEdit_finish_def confirmDeleteRule_finish_def testNewChannel_finish_def closeEditModal_def
      testExistingChannel_finish_def createChannel_finish_def confirmDeleteChannel_deleted_def
      confirmDeleteChannel_failed_def handleSaveEditChannel_finish_def testEditChannel_finish_def
      markAllIncidentsRead_finish_def markIncidentRead_finish_def Let_def intro!: gate_intros
      split: sum.split option.split created.split)

lemma gate_step: "alerts_step s t \<Longrightarrow> gate s \<Longrightarrow> gate t"
  by (erule alerts_step.cases) (auto simp: gate_press gate_load gate_links gate_answers intro!: gate_intros)

lemma gate_reachable: "viewer_alerts s \<Longrightarrow> gate s"
proof (induction rule: viewer_alerts.induct)
  case first
  show ?case by (simp add: gate_def isViewer_def init_alerts_def)
next
  case (me s reply e)
  then show ?case by (auto simp: alerts_me_def gate_def isViewer_def)
qed (rule gate_step)

lemma gated_requests:
  assumes "gate s" "q \<in> set (snd (press ev s))"
  shows "req_method q \<in> {''GET'', ''POST''} \<or>
    (\<exists>r \<in> set (rules (data s)). q = snd (toggleRule_begin (ar_id r) (ar_enabled r) s)) \<or>
    (\<exists>i. q = markIncidentRead_request i)"
proof -
  have off: "offered ev s" and run: "q \<in> set (snd (run ev s))"
    using assms(2) by (auto simp: press_def no_request_def split: if_splits)
  have v: "isViewer s" using assms(1) by (simp add: gate_def)
  have sub: "r \<in> set (filteredRules s) \<Longrightarrow> r \<in> set (rules (data s))" for r
    by (simp add: filteredRules_def filter_rules_def)
  show ?thesis
  proof (cases ev)
    case (Switch_rule r)
    then have "r \<in> set (rules (data s))" "q = snd (toggleRule_begin (ar_id r) (ar_enabled r) s)"
      using off run sub by (simp_all add: one_request_def)
    then show ?thesis by blast
  next
    case (Mark_read i)
    then show ?thesis using run by auto
  qed (use off run v gate_closed [OF assms(1)] in
      \<open>auto simp: no_request_def one_request_def maybe_request_def tab_effect_def refresh_requests_def
        fetchRules_request_def fetchIncidents_begin_def request_get_def request_bare_def request_send_def
        testAlertRule_begin_def createRule_begin_def testNewChannel_begin_def createChannel_begin_def
        testExistingChannel_begin_def confirmDeleteRule_begin_def Let_def
        simp del: offered.simps split: option.splits if_splits\<close>)
qed

lemma viewer_opens_form: "isViewer s \<Longrightarrow> activeTab (ui s) \<noteq> TabCreate \<Longrightarrow>
    press Header_new_rule s = (s, []) \<and> activeTab (ui (fst (press (Open_tab TabCreate) s))) = TabCreate"
  by (simp add: press_def no_request_def tab_effect_def go_tab_def)

lemma viewer_submits:
  "on_tab TabCreate s \<Longrightarrow> \<not> savingRule (ui s) \<Longrightarrow> isFormValid (form s) \<Longrightarrow> createRule_check (form s) = None \<Longrightarrow>
     snd (press Submit_rule s) = [request_send ''POST'' ''/alerts/rules'' (createRule_body s)]"
  by (simp add: press_def maybe_request_def createRule_begin_def)

lemma viewer_requests:
  assumes "viewer_alerts s"
  shows "q \<in> set (snd (press ev s)) \<Longrightarrow>
      req_method q \<in> {''GET'', ''POST''} \<or>
      (\<exists>r \<in> set (rules (data s)). q = snd (toggleRule_begin (ar_id r) (ar_enabled r) s)) \<or>
      (\<exists>i. q = markIncidentRead_request i)"
    and "activeTab (ui s) \<noteq> TabCreate \<Longrightarrow>
      press Header_new_rule s = (s, []) \<and> activeTab (ui (fst (press (Open_tab TabCreate) s))) = TabCreate"
    and "on_tab TabCreate s \<Longrightarrow> \<not> savingRule (ui s) \<Longrightarrow> isFormValid (form s) \<Longrightarrow> createRule_check (form s) = None \<Longrightarrow>
      snd (press Submit_rule s) = [request_send ''POST'' ''/alerts/rules'' (createRule_body s)]"
    and "on_tab TabRules s \<Longrightarrow> r \<in> set (filteredRules s) \<Longrightarrow>
      snd (press (Switch_rule r) s) = [snd (toggleRule_begin (ar_id r) (ar_enabled r) s)]"
proof -
  have g: "gate s" by (rule gate_reachable [OF assms])
  then have v: "isViewer s" by (simp add: gate_def)
  show "q \<in> set (snd (press ev s)) \<Longrightarrow>
      req_method q \<in> {''GET'', ''POST''} \<or>
      (\<exists>r \<in> set (rules (data s)). q = snd (toggleRule_begin (ar_id r) (ar_enabled r) s)) \<or>
      (\<exists>i. q = markIncidentRead_request i)"
    by (rule gated_requests [OF g])
  show "activeTab (ui s) \<noteq> TabCreate \<Longrightarrow>
      press Header_new_rule s = (s, []) \<and> activeTab (ui (fst (press (Open_tab TabCreate) s))) = TabCreate"
    by (rule viewer_opens_form [OF v])
  show "on_tab TabCreate s \<Longrightarrow> \<not> savingRule (ui s) \<Longrightarrow> isFormValid (form s) \<Longrightarrow> createRule_check (form s) = None \<Longrightarrow>
      snd (press Submit_rule s) = [request_send ''POST'' ''/alerts/rules'' (createRule_body s)]"
    by (rule viewer_submits)
  show "on_tab TabRules s \<Longrightarrow> r \<in> set (filteredRules s) \<Longrightarrow>
      snd (press (Switch_rule r) s) = [snd (toggleRule_begin (ar_id r) (ar_enabled r) s)]"
    by (simp add: press_def one_request_def)
qed

text \<open>
  C34. What the role gates of the Alert Center keep from a viewer, in every order of clicks, inputs and
  answers: the edit forms and the confirmed deletions, so no rule and no channel is changed or
  deleted.  They do not keep a viewer from pausing a rule, and although the header's button for a
  new rule is disabled, the tab of the same name opens the form, whose submission is sent.
\<close>

theorem viewer_alert_requests:
  assumes "viewer_alerts s"
  shows "(\<forall>q\<in>set (snd (press ev s)).
        req_method q \<in> {''GET'', ''POST''} \<or>
        (\<exists>r \<in> set (rules (data s)). q = snd (toggleRule_begin (ar_id r) (ar_enabled r) s)) \<or>
        (\<exists>i. q = markIncidentRead_request i)) \<and>
      (activeTab (ui s) \<noteq> TabCreate \<longrightarrow>
        press Header_new_rule s = (s, []) \<and> activeTab (ui (fst (press (Open_tab TabCreate) s))) = TabCreate) \<and>
      (on_tab TabCreate s \<and> \<not> savingRule (ui s) \<and> isFormValid (form s) \<and> createRule_check (form s) = None \<longrightarrow>
        snd (press Submit_rule s) = [request_send ''POST'' ''/alerts/rules'' (createRule_body s)]) \<and>
      (\<forall>r\<in>set (filteredRules s). on_tab TabRules s \<longrightarrow>
        snd (press (Switch_rule r) s) = [snd (toggleRule_begin (ar_id r) (ar_enabled r) s)])"
  by (intro conjI ballI impI; (elim conjE)?) (use viewer_requests [OF assms] in blast)+

definition viewer_page_loaded :: alerts where
  \<comment> \<open>one rule and one server are loaded, a viewer looks at the rules\<close>
  "viewer_page_loaded =
     ui_update (\<lambda>u. u\<lparr>loading := False\<rparr>)
       (apply_load (LoadServers (Inr (Some [\<lparr>as_id = ''s'', as_name = ''web'', as_status = ''online'',
            as_ip_address = None, as_hostname = None\<rparr>])))
         (apply_load (LoadRules (Inr (Some [demo_rule ''r'' ''n'']))) (init_alerts ''viewer'')))"

definition viewer_form_filled :: alerts where
  "viewer_form_filled =
     fst (press (Form (Click_channel ''c'')) (fst (press (Form Click_all_servers)
       (fst (press (Open_tab TabCreate) viewer_page_loaded)))))"

lemma viewer_page_loaded_reachable: "viewer_alerts viewer_page_loaded"
  unfolding viewer_page_loaded_def
  by (rule viewer_alerts.step [OF _ loaded], rule viewer_alerts.step [OF _ answer],
      rule viewer_alerts.step [OF _ answer], rule viewer_alerts.first)

lemma viewer_form_filled_reachable: "viewer_alerts viewer_form_filled"
  unfolding viewer_form_filled_def
  by (rule viewer_alerts.step [OF _ pressed], rule viewer_alerts.step [OF _ pressed],
      rule viewer_alerts.step [OF _ pressed], rule viewer_page_loaded_reachable)

theorem viewer_alert_requests_witness:
  "map req_method (snd (press (Switch_rule (demo_rule ''r'' ''n'')) viewer_page_loaded)) = [''PATCH''] \<and>
   map req_endpoint (snd (press Submit_rule viewer_form_filled)) = [''/alerts/rules'']"
proof
  have p: "on_tab TabRules viewer_page_loaded" "demo_rule ''r'' ''n'' \<in> set (filteredRules viewer_page_loaded)"
    by (simp_all add: viewer_page_loaded_def on_tab_def init_alerts_def fetchRules_finish_def
        fetchServers_finish_def filteredRules_def filter_rules_def status_hides_def category_hides_def
        query_matches_def)
  show "map req_method (snd (press (Switch_rule (demo_rule ''r'' ''n'')) viewer_page_loaded)) = [''PATCH'']"
    using viewer_alert_requests [OF viewer_page_loaded_reachable] p
    by (simp add: toggleRule_begin_def request_send_def)
  have q: "on_tab TabCreate viewer_form_filled" "\<not> savingRule (ui viewer_form_filled)"
    "form viewer_form_filled = init_rule_form\<lparr>selectedServerIds := [''s''], selectedChannelIds := [''c'']\<rparr>"
    by (simp_all add: viewer_form_filled_def viewer_page_loaded_def press_def tab_effect_def go_tab_def
        no_request_def on_tab_def init_alerts_def fetchRules_finish_def fetchServers_finish_def clear_messages_def
        set_error_def set_success_def toggleAllServers_def toggleChannel_def toggle_all_def toggle_def init_rule_form_def)
  have "isFormValid (form viewer_form_filled)" "createRule_check (form viewer_form_filled) = None"
    unfolding q(3) by code_simp+
  then show "map req_endpoint (snd (press Submit_rule viewer_form_filled)) = [''/alerts/rules'']"
    using viewer_alert_requests [OF viewer_form_filled_reachable] q(1,2) by (simp add: request_send_def)
qed

end
