(* ===== verification/GoJson.thy ===== *)
theory GoJson
  imports JsJson
begin

text \<open>
  The decoding of a JSON value into the fields of a Go struct, as \<open>encoding/json\<close> does it: field
  names are compared without case, later fields replace earlier ones, null leaves a field as it is
  and a value of another type is an error.
\<close>

section \<open>Decoding\<close>

definition go_object :: "json \<Rightarrow> (string \<times> json) list option" where
  \<comment> \<open>a value decoded into a struct: null leaves it as it is\<close>
  "go_object v = (case v of JObj kvs \<Rightarrow> Some kvs | JNull \<Rightarrow> Some [] | _ \<Rightarrow> None)"

fun go_text :: "string \<Rightarrow> string \<Rightarrow> (string \<times> json) list \<Rightarrow> string option" where
  \<comment> \<open>the field of type \<open>string\<close> with the name \<open>k\<close>, which holds \<open>t\<close> so far\<close>
  "go_text k t [] = Some t"
| "go_text k t ((k', v) # kvs) =
     (if to_lower k' \<noteq> to_lower k then go_text k t kvs
      else case v of JStr u \<Rightarrow> go_text k u kvs | JNull \<Rightarrow> go_text k t kvs | _ \<Rightarrow> None)"

definition go_last :: "string \<Rightarrow> (string \<times> json) list \<Rightarrow> json option" where
  "go_last k kvs = map_option snd (find (\<lambda>(k', _). to_lower k' = to_lower k) (rev kvs))"

definition go_struct :: "(string \<Rightarrow> json option) \<Rightarrow> string \<Rightarrow> (string \<times> json) list option" where
  "go_struct json_parse raw = Option.bind (json_parse raw) go_object"

section \<open>Fields of other types\<close>

fun go_number :: "string \<Rightarrow> rat \<Rightarrow> (string \<times> json) list \<Rightarrow> rat option" where
  \<comment> \<open>a field of type \<open>float64\<close>; its rounding to 53 bits is left out\<close>
  "go_number k t [] = Some t"
| "go_number k t ((k', v) # kvs) =
     (if to_lower k' \<noteq> to_lower k then go_number k t kvs
      else case v of JNum q \<Rightarrow> go_number k q kvs | JNull \<Rightarrow> go_number k t kvs | _ \<Rightarrow> None)"

definition int64 :: "rat \<Rightarrow> bool" where
  "int64 q \<longleftrightarrow> q = of_int \<lfloor>q\<rfloor> \<and> - (2 ^ 63) \<le> q \<and> q < 2 ^ 63"

fun go_int :: "string \<Rightarrow> int \<Rightarrow> (string \<times> json) list \<Rightarrow> int option" where
  \<comment> \<open>a field of type \<open>int\<close>: a number with a fraction is an error\<close>
  "go_int k t [] = Some t"
| "go_int k t ((k', v) # kvs) =
     (if to_lower k' \<noteq> to_lower k then go_int k t kvs
      else case v of
             JNum q \<Rightarrow> if int64 q then go_int k \<lfloor>q\<rfloor> kvs else None
           | JNull \<Rightarrow> go_int k t kvs
           | _ \<Rightarrow> None)"

fun go_pointer :: "string \<Rightarrow> string option \<Rightarrow> (string \<times> json) list \<Rightarrow> string option option" where
  \<comment> \<open>a field of type \<open>*string\<close>: null sets it to nil\<close>
  "go_pointer k t [] = Some t"
| "go_pointer k t ((k', v) # kvs) =
     (if to_lower k' \<noteq> to_lower k then go_pointer k t kvs
      else case v of JStr u \<Rightarrow> go_pointer k (Some u) kvs | JNull \<Rightarrow> go_pointer k None kvs | _ \<Rightarrow> None)"

definition go_item :: "json \<Rightarrow> string option" where
  "go_item v = (case v of JStr u \<Rightarrow> Some u | JNull \<Rightarrow> Some [] | _ \<Rightarrow> None)"

fun go_texts :: "string \<Rightarrow> string list \<Rightarrow> (string \<times> json) list \<Rightarrow> string list option" where
  \<comment> \<open>a field of type \<open>[]string\<close>\<close>
  "go_texts k t [] = Some t"
| "go_texts k t ((k', v) # kvs) =
     (if to_lower k' \<noteq> to_lower k then go_texts k t kvs
      else case v of
             JArr vs \<Rightarrow> Option.bind (those (map go_item vs)) (\<lambda>us. go_texts k us kvs)
           | JNull \<Rightarrow> go_texts k [] kvs
           | _ \<Rightarrow> None)"

fun go_map :: "string \<Rightarrow> (string \<rightharpoonup> json) option \<Rightarrow> (string \<times> json) list \<Rightarrow> (string \<rightharpoonup> json) option option" where
  \<comment> \<open>a field of type \<open>map[string]interface{}\<close>; None is nil\<close>
  "go_map k t [] = Some t"
| "go_map k t ((k', v) # kvs) =
     (if to_lower k' \<noteq> to_lower k then go_map k t kvs
      else case v of
             JObj es \<Rightarrow>
               go_map k (Some ((case t of Some m \<Rightarrow> m | None \<Rightarrow> Map.empty) ++ map_of (rev es))) kvs
           | JNull \<Rightarrow> go_map k None kvs
           | _ \<Rightarrow> None)"

lemma those_strings [simp]: "those (map (go_item \<circ> JStr) xs) = Some xs"
  by (induction xs) (simp_all add: go_item_def)

end
