(* ===== verification/AlertApi.thy ===== *)
theory AlertApi
  imports GoJson AlertView AlertCreateProps
begin

text \<open>
  The control plane behind the Alert Center, \<open>handler.go\<close> and \<open>repository.go\<close> of
  \<open>backend/internal/core/alert\<close>: what it checks of a rule and of a channel, against the request and
  against the rows of the user, what it stores, and what it shows of a stored channel.
  \<open>webhook_error\<close> is the message of \<open>ValidateDiscordWebhookURL\<close> (an URL parser and addresses of the
  network), \<open>mail_address\<close> says whether Go's \<open>mail.ParseAddress\<close> reads a text, \<open>new_id\<close> is
  \<open>gen_random_uuid()\<close>, given the ids in use, and \<open>uuid\<close> the canonical form of a text that the
  database reads as an UUID.  Audit log and delivery are left out, and a query does not fail but for
  the columns of the row it writes.
\<close>

section \<open>Roles\<close>

definition normalizeRole :: "string \<Rightarrow> string" where
  "normalizeRole role =
     (let r = to_lower (trim role)
      in if r = ''superadmin'' then ''admin''
         else if r = ''user'' then ''operator''
         else if r \<in> {''admin'', ''operator'', ''viewer''} then r
         else ''unknown'')"

definition RequireRole :: "string list \<Rightarrow> string option \<Rightarrow> bool" where
  \<comment> \<open>whether the handler behind the middleware is reached\<close>
  "RequireRole allowed role =
     (case role of
        None \<Rightarrow> False
      | Some r \<Rightarrow> list_ex (\<lambda>a. normalizeRole a = normalizeRole r) allowed)"

datatype alert_guard = With_auth | With_admin

definition alert_routes :: "(string \<times> string \<times> alert_guard) list" where
  "alert_routes =
     [(''GET'', ''/alerts/rules'', With_auth), (''POST'', ''/alerts/rules'', With_admin),
      (''PUT'', ''/alerts/rules/{id}'', With_admin), (''POST'', ''/alerts/rules/{id}/test'', With_admin),
      (''PATCH'', ''/alerts/rules/{id}/toggle'', With_admin), (''DELETE'', ''/alerts/rules/{id}'', With_admin),
      (''GET'', ''/alerts/channels'', With_auth), (''POST'', ''/alerts/channels'', With_admin),
      (''PUT'', ''/alerts/channels/{id}'', With_admin), (''POST'', ''/alerts/channels/test'', With_admin),
      (''POST'', ''/alerts/channels/{id}/test'', With_admin), (''DELETE'', ''/alerts/channels/{id}'', With_admin),
      (''GET'', ''/alerts/notifications'', With_auth),
      (''PATCH'', ''/alerts/notifications/{id}/read'', With_auth),
      (''POST'', ''/alerts/notifications/read-all'', With_auth)]"

definition guard_passed :: "alert_guard \<Rightarrow> string option \<Rightarrow> bool" where
  "guard_passed g role = (case g of With_auth \<Rightarrow> True | With_admin \<Rightarrow> RequireRole [''admin''] role)"

section \<open>Rules\<close>

record api_rule =
  ru_name :: string
  ru_metric :: string
  ru_operator :: string
  ru_threshold :: rat
  ru_duration :: int
  ru_repeat :: int
  ru_target :: "string option"
  ru_server :: "string option"
  ru_servers :: "string list"
  ru_channels :: "string list"

definition decode_rule :: "json \<Rightarrow> api_rule option" where
  \<comment> \<open>the fields the pages send; None is a 400 for the payload\<close>
  "decode_rule body =
     Option.bind (go_object body) (\<lambda>kvs.
     Option.bind (go_text ''name'' [] kvs) (\<lambda>nm.
     Option.bind (go_text ''metric'' [] kvs) (\<lambda>metric.
     Option.bind (go_text ''operator'' [] kvs) (\<lambda>oper.
     Option.bind (go_number ''threshold'' 0 kvs) (\<lambda>threshold.
     Option.bind (go_int ''duration_minutes'' 0 kvs) (\<lambda>duration.
     Option.bind (go_int ''repeat_interval_minutes'' 0 kvs) (\<lambda>interval.
     Option.bind (go_pointer ''target_name'' None kvs) (\<lambda>target.
     Option.bind (go_pointer ''server_id'' None kvs) (\<lambda>srv.
     Option.bind (go_texts ''server_ids'' [] kvs) (\<lambda>srvs.
     Option.bind (go_texts ''channel_ids'' [] kvs) (\<lambda>chans.
       Some \<lparr>ru_name = nm, ru_metric = metric, ru_operator = oper, ru_threshold = threshold,
             ru_duration = duration, ru_repeat = interval, ru_target = target, ru_server = srv,
             ru_servers = srvs, ru_channels = chans\<rparr>)))))))))))"

definition uniqueStrings :: "string list \<Rightarrow> string list" where
  "uniqueStrings xs = uniq (filter (\<lambda>x. x \<noteq> []) xs)"

definition cleaned :: "string option \<Rightarrow> string option" where
  \<comment> \<open>a pointer to a blank text becomes nil\<close>
  "cleaned v = Option.bind v (\<lambda>t. nonempty_or_null (trim t))"

definition state_metric :: "string \<Rightarrow> bool" where
  "state_metric m \<longleftrightarrow> m \<in> {''status'', ''container'', ''service''}"

definition normalize_condition :: "api_rule \<Rightarrow> api_rule" where
  "normalize_condition r =
     (if state_metric (ru_metric r) then r\<lparr>ru_operator := ''=='', ru_threshold := 0\<rparr> else r)
       \<lparr>ru_target := cleaned (ru_target r)\<rparr>"

definition normalize_scope :: "api_rule \<Rightarrow> api_rule" where
  "normalize_scope r =
     (let ids = uniqueStrings (filter (\<lambda>t. t \<noteq> []) (map trim (ru_servers r)))
      in case ids of
           [i] \<Rightarrow> r\<lparr>ru_server := Some i, ru_servers := []\<rparr>
         | [] \<Rightarrow> r\<lparr>ru_server := cleaned (ru_server r), ru_servers := []\<rparr>
         | _ \<Rightarrow> r\<lparr>ru_servers := ids\<rparr>)"

definition validateRule :: "api_rule \<Rightarrow> string" where
  \<comment> \<open>the empty text stands for a valid rule, as in the source\<close>
  "validateRule r =
     (let m = ru_metric r; condition = (ru_operator r = ''>'' \<or> ru_operator r = ''<'') in
      if ru_name r = [] then ''Alert name is required''
      else if ru_duration r \<le> 0 \<or> ru_duration r > 1440 then ''Duration must be between 1 and 1440 minutes''
      else if ru_repeat r < 0 \<or> ru_repeat r > 1440 then ''Repeat interval must be between 0 and 1440 minutes''
      else if ru_channels r = [] then ''Select at least one notification channel''
      else if m \<in> {''cpu'', ''ram'', ''disk''} \<or> m = ''network_loss'' then
        (if \<not> condition then ''Unsupported alert condition''
         else if ru_threshold r < 0 \<or> ru_threshold r > 100 then ''Threshold must be between 0 and 100'' else [])
      else if m = ''network_latency'' then
        (if \<not> condition then ''Unsupported alert condition''
         else if ru_threshold r < 0 \<or> ru_threshold r > 60000 then ''Threshold must be between 0 and 60000 ms''
         else [])
      else if m \<in> {''status'', ''container'', ''service'', ''website'', ''ssl''} then []
      else ''Unsupported alert metric'')"

definition rule_of_create :: "json \<Rightarrow> string + api_rule" where
  \<comment> \<open>the refusal, or the rule to store\<close>
  "rule_of_create body =
     (case decode_rule body of
        None \<Rightarrow> Inl ''Invalid request payload''
      | Some r0 \<Rightarrow>
          (let r = normalize_condition (normalize_scope (r0\<lparr>ru_name := trim (ru_name r0)\<rparr>))
           in if validateRule r \<noteq> [] then Inl (validateRule r) else Inr r))"

definition rule_of_update :: "json \<Rightarrow> string + api_rule" where
  "rule_of_update body =
     (case decode_rule body of
        None \<Rightarrow> Inl ''Invalid request payload''
      | Some r0 \<Rightarrow>
          (let r = normalize_condition (r0\<lparr>ru_name := trim (ru_name r0), ru_server := cleaned (ru_server r0)\<rparr>)
           in if validateRule r \<noteq> [] then Inl (validateRule r) else Inr r))"

section \<open>The repository of rules\<close>

record db_rule_row =
  db_id :: string
  db_enabled :: bool
  db_rule :: api_rule

record alert_store =
  \<comment> \<open>the rows of one user: servers, channels with their switch, rules with the ids of their channels\<close>
  user_servers :: "string list"
  user_channels :: "(string \<times> bool) list"
  user_rules :: "db_rule_row list"

datatype repo_error = ErrInvalidChannelSelection | ErrInvalidServerSelection | ErrRuleNotFound | Query_failed

definition enabled_among :: "alert_store \<Rightarrow> string list \<Rightarrow> string list" where
  \<comment> \<open>the distinct ids the query of the enabled channels counts\<close>
  "enabled_among st ids = uniq (map fst (filter (\<lambda>(c, enabled). enabled \<and> c \<in> set ids) (user_channels st)))"

definition server_known :: "alert_store \<Rightarrow> string option \<Rightarrow> bool" where
  "server_known st srv = (case srv of None \<Rightarrow> True | Some i \<Rightarrow> i \<in> set (user_servers st))"

definition selection_error :: "alert_store \<Rightarrow> api_rule \<Rightarrow> repo_error option" where
  \<comment> \<open>the checks that both transactions begin with\<close>
  "selection_error st r =
     (let ids = uniqueStrings (ru_channels r)
      in if ids = [] then Some ErrInvalidChannelSelection
         else if \<not> server_known st (ru_server r) then Some ErrInvalidServerSelection
         else if length (enabled_among st ids) \<noteq> length ids then Some ErrInvalidChannelSelection
         else None)"

definition characters :: "string \<Rightarrow> nat" where
  \<comment> \<open>of a text in UTF-8\<close>
  "characters t = length (filter (\<lambda>c. \<not> (128 \<le> char_code c \<and> char_code c < 192)) t)"

definition varchar :: "nat \<Rightarrow> string \<Rightarrow> bool" where
  \<comment> \<open>the database takes the text into a column \<open>VARCHAR(n)\<close>\<close>
  "varchar n t \<longleftrightarrow> characters t \<le> n \<and> CHR 0x00 \<notin> set t"

definition row_fits :: "api_rule \<Rightarrow> bool" where
  "row_fits r \<longleftrightarrow>
     varchar 255 (ru_name r) \<and> varchar 50 (ru_metric r) \<and> varchar 10 (ru_operator r) \<and>
     (case ru_target r of None \<Rightarrow> True | Some t \<Rightarrow> varchar 255 t)"

definition linked :: "api_rule \<Rightarrow> api_rule" where
  \<comment> \<open>the rule with the channels it is linked to, each once; the row has no list of servers\<close>
  "linked r = r\<lparr>ru_channels := uniqueStrings (ru_channels r), ru_servers := []\<rparr>"

definition repo_CreateRule ::
  "(string list \<Rightarrow> string) \<Rightarrow> alert_store \<Rightarrow> api_rule \<Rightarrow> repo_error + alert_store \<times> api_rule" where
  "repo_CreateRule new_id st r =
     (case selection_error st r of
        Some e \<Rightarrow> Inl e
      | None \<Rightarrow>
          if \<not> row_fits r then Inl Query_failed
          else Inr (st\<lparr>user_rules := user_rules st @
                      [\<lparr>db_id = new_id (map db_id (user_rules st)), db_enabled = True, db_rule = linked r\<rparr>]\<rparr>,
                    linked r))"

definition repo_UpdateRule ::
  "(string \<Rightarrow> string option) \<Rightarrow> alert_store \<Rightarrow> string \<Rightarrow> api_rule \<Rightarrow> repo_error + alert_store \<times> api_rule" where
  \<comment> \<open>without a row of that id nothing is written, and no column refuses a value\<close>
  "repo_UpdateRule uuid st i r =
     (case selection_error st r of
        Some e \<Rightarrow> Inl e
      | None \<Rightarrow>
          (case uuid i of
             None \<Rightarrow> Inl Query_failed
           | Some k \<Rightarrow>
               if k \<notin> db_id ` set (user_rules st) then Inl ErrRuleNotFound
               else if \<not> row_fits r then Inl Query_failed
               else Inr (st\<lparr>user_rules := map (\<lambda>x. if db_id x = k then x\<lparr>db_rule := linked r\<rparr> else x) (user_rules st)\<rparr>,
                         linked r)))"

section \<open>The handlers of rules\<close>

definition forbidden :: "string option \<Rightarrow> string" where
  "forbidden role =
     (case role of None \<Rightarrow> ''Role not found in context''
      | Some r \<Rightarrow> ''You do not have permission to perform this action'')"

definition channel_refusal :: string where
  "channel_refusal = ''One or more notification channels are invalid, disabled, or unavailable''"

definition create_message :: "bool \<Rightarrow> repo_error \<Rightarrow> string" where
  \<comment> \<open>\<open>many\<close>: within the loop over several servers\<close>
  "create_message many e =
     (case e of
        ErrInvalidChannelSelection \<Rightarrow> channel_refusal
      | ErrInvalidServerSelection \<Rightarrow>
          if many then ''One of the selected agents is invalid or unavailable''
          else ''The selected agent is invalid or unavailable''
      | _ \<Rightarrow> if many then ''Failed to create alert rules'' else ''Failed to create alert rule'')"

fun create_each ::
  "(string list \<Rightarrow> string) \<Rightarrow> alert_store \<Rightarrow> api_rule \<Rightarrow> string list \<Rightarrow> alert_store \<times> (repo_error + api_rule list)" where
  \<comment> \<open>one transaction per server: what the earlier ones stored stays when a later one fails\<close>
  "create_each new_id st r [] = (st, Inr [])"
| "create_each new_id st r (i # ids) =
     (case repo_CreateRule new_id st (r\<lparr>ru_server := Some i, ru_servers := []\<rparr>) of
        Inl e \<Rightarrow> (st, Inl e)
      | Inr (st1, q) \<Rightarrow>
          (case create_each new_id st1 r ids of
             (st2, Inl e) \<Rightarrow> (st2, Inl e)
           | (st2, Inr qs) \<Rightarrow> (st2, Inr (q # qs))))"

definition CreateRule ::
  "(string list \<Rightarrow> string) \<Rightarrow> string option \<Rightarrow> alert_store \<Rightarrow> json \<Rightarrow> alert_store \<times> (string + api_rule list)" where
  \<comment> \<open>the rows afterwards, and the refusal or the rules of the answer\<close>
  "CreateRule new_id role st body =
     (if \<not> guard_passed With_admin role then (st, Inl (forbidden role))
      else case rule_of_create body of
          Inl m \<Rightarrow> (st, Inl m)
        | Inr r \<Rightarrow>
            if 1 < length (ru_servers r)
            then (case create_each new_id st r (ru_servers r) of
                    (st1, Inl e) \<Rightarrow> (st1, Inl (create_message True e))
                  | (st1, Inr rs) \<Rightarrow> (st1, Inr rs))
            else (case repo_CreateRule new_id st r of
                    Inl e \<Rightarrow> (st, Inl (create_message False e))
                  | Inr (st1, q) \<Rightarrow> (st1, Inr [q])))"

definition update_message :: "repo_error \<Rightarrow> string" where
  "update_message e =
     (case e of
        ErrRuleNotFound \<Rightarrow> ''Alert rule not found''
      | ErrInvalidChannelSelection \<Rightarrow> channel_refusal
      | ErrInvalidServerSelection \<Rightarrow> ''The selected agent is invalid or unavailable''
      | Query_failed \<Rightarrow> ''Failed to update alert rule'')"

definition UpdateRule ::
  "(string \<Rightarrow> string option) \<Rightarrow> string option \<Rightarrow> alert_store \<Rightarrow> string \<Rightarrow> json \<Rightarrow> alert_store \<times> (string + api_rule)" where
  \<comment> \<open>\<open>path_id\<close> is the last segment of the address\<close>
  "UpdateRule uuid role st path_id body =
     (if \<not> guard_passed With_admin role then (st, Inl (forbidden role))
      else if trim path_id = [] then (st, Inl ''Rule ID is required'')
      else case rule_of_update body of
          Inl m \<Rightarrow> (st, Inl m)
        | Inr r \<Rightarrow>
            (case repo_UpdateRule uuid st (trim path_id) r of
               Inl e \<Rightarrow> (st, Inl (update_message e))
             | Inr (st1, q) \<Rightarrow> (st1, Inr q)))"

section \<open>Channels\<close>

record api_channel =
  ch_name :: string
  ch_type :: string
  ch_config :: "(string \<rightharpoonup> json) option"

definition decode_channel :: "json \<Rightarrow> api_channel option" where
  "decode_channel body =
     Option.bind (go_object body) (\<lambda>kvs.
     Option.bind (go_text ''name'' [] kvs) (\<lambda>nm.
     Option.bind (go_text ''type'' [] kvs) (\<lambda>ty.
     Option.bind (go_map ''config'' None kvs) (\<lambda>cfg.
       Some \<lparr>ch_name = trim nm, ch_type = to_lower (trim ty), ch_config = cfg\<rparr>))))"

definition config_text :: "(string \<rightharpoonup> json) \<Rightarrow> string \<Rightarrow> string" where
  \<comment> \<open>\<open>v, _ := config[k].(string)\<close>\<close>
  "config_text cfg k = (case cfg k of Some (JStr t) \<Rightarrow> t | _ \<Rightarrow> [])"

definition token_char :: "char \<Rightarrow> bool" where
  "token_char c \<longleftrightarrow>
     is_digit c \<or> (65 \<le> char_code c \<and> char_code c \<le> 90) \<or> (97 \<le> char_code c \<and> char_code c \<le> 122) \<or>
     c = CHR ''_'' \<or> c = CHR ''-''"

definition bot_token_pattern :: "string \<Rightarrow> bool" where
  \<comment> \<open>\<open>^[0-9]{8,12}:[A-Za-z0-9_-]{35}$\<close>\<close>
  "bot_token_pattern t =
     (let ds = takeWhile is_digit t; r = dropWhile is_digit t
      in 8 \<le> length ds \<and> length ds \<le> 12 \<and> r \<noteq> [] \<and> hd r = CHR '':'' \<and>
         length (tl r) = 35 \<and> list_all token_char (tl r))"

definition ValidateTelegramBotToken :: "string \<Rightarrow> string" where
  "ValidateTelegramBotToken token =
     (let t = trim token
      in if t = [] then ''bot token is required''
         else if \<not> bot_token_pattern t then ''invalid bot token format'' else [])"

definition int_of_float :: "rat \<Rightarrow> int" where
  \<comment> \<open>Go's conversion \<open>int(x)\<close> truncates towards zero\<close>
  "int_of_float q = (if q < 0 then - \<lfloor>- q\<rfloor> else \<lfloor>q\<rfloor>)"

definition validateEmail :: "(string \<Rightarrow> bool) \<Rightarrow> (string \<rightharpoonup> json) \<Rightarrow> string" where
  "validateEmail mail_address cfg =
     (if trim (config_text cfg ''smtp_host'') = [] then ''SMTP host is required''
      else if \<not> mail_address (trim (config_text cfg ''from'')) then ''A valid From email address is required''
      else if \<not> mail_address (trim (config_text cfg ''to'')) then ''A valid recipient email address is required''
      else case cfg ''smtp_port'' of
             Some (JNum p) \<Rightarrow>
               (if int_of_float p < 1 \<or> int_of_float p > 65535 then ''SMTP port must be between 1 and 65535'' else [])
           | _ \<Rightarrow> [])"

definition validateChannel ::
  "(string \<Rightarrow> string) \<Rightarrow> (string \<Rightarrow> bool) \<Rightarrow> api_channel \<Rightarrow> string" where
  "validateChannel webhook_error mail_address c =
     (if ch_name c = [] then ''Channel name is required''
      else case ch_config c of
        None \<Rightarrow> ''Channel configuration is required''
      | Some cfg \<Rightarrow>
          if ch_type c = ''telegram'' then
            (let token = config_text cfg ''bot_token''
             in if trim token = [] \<or> trim (config_text cfg ''chat_id'') = []
                then ''Telegram bot token and chat ID are required''
                else if ValidateTelegramBotToken token \<noteq> []
                then ''Telegram '' @ ValidateTelegramBotToken token else [])
          else if ch_type c = ''discord'' then
            (let url = config_text cfg ''webhook_url''
             in if trim url = [] then ''Discord webhook URL is required''
                else if webhook_error url \<noteq> [] then ''Discord webhook '' @ webhook_error url else [])
          else if ch_type c = ''email'' then validateEmail mail_address cfg
          else ''Unsupported notification channel type'')"

definition CreateChannel ::
  "(string \<Rightarrow> string) \<Rightarrow> (string \<Rightarrow> bool) \<Rightarrow> json \<Rightarrow> string + api_channel" where
  "CreateChannel webhook_error mail_address body =
     (case decode_channel body of
        None \<Rightarrow> Inl ''Invalid request payload''
      | Some c \<Rightarrow>
          (let m = validateChannel webhook_error mail_address c
           in if m \<noteq> [] then Inl m else Inr c))"

definition kept :: "json \<Rightarrow> bool" where
  \<comment> \<open>a blank text and the text \<open>configured\<close> keep the stored entry\<close>
  "kept v = (case v of JStr t \<Rightarrow> trim t = [] \<or> trim t = ''configured'' | _ \<Rightarrow> False)"

definition merge_config :: "(string \<rightharpoonup> json) \<Rightarrow> (string \<rightharpoonup> json) \<Rightarrow> (string \<rightharpoonup> json)" where
  \<comment> \<open>the stored configuration overwritten by the one of the request\<close>
  "merge_config existing new k =
     (case new k of Some v \<Rightarrow> if kept v then existing k else Some v | None \<Rightarrow> existing k)"

definition UpdateChannel ::
  "(string \<Rightarrow> string) \<Rightarrow> (string \<Rightarrow> bool) \<Rightarrow> api_channel \<Rightarrow> json \<Rightarrow> string + api_channel" where
  \<comment> \<open>the refusal, or the channel stored in the place of \<open>existing\<close>; handler and repository merge alike\<close>
  "UpdateChannel webhook_error mail_address existing body =
     (case decode_channel body of
        None \<Rightarrow> Inl ''Invalid request payload''
      | Some c0 \<Rightarrow>
          (let c = c0\<lparr>ch_type := str_or (ch_type c0) (ch_type existing)\<rparr>;
               old = (case ch_config existing of Some m \<Rightarrow> m | None \<Rightarrow> Map.empty);
               new = (case ch_config c of Some m \<Rightarrow> m | None \<Rightarrow> Map.empty);
               merged = c\<lparr>ch_config := Some (merge_config old new)\<rparr>;
               m = validateChannel webhook_error mail_address merged
           in if m \<noteq> [] then Inl m else Inr merged))"

definition decode_test :: "json \<Rightarrow> api_channel option" where
  \<comment> \<open>the payload of the test has no name; the handler gives it one\<close>
  "decode_test body =
     Option.bind (go_object body) (\<lambda>kvs.
     Option.bind (go_text ''type'' [] kvs) (\<lambda>ty.
     Option.bind (go_map ''config'' None kvs) (\<lambda>cfg.
       Some \<lparr>ch_name = ''Test Channel'', ch_type = to_lower (trim ty), ch_config = cfg\<rparr>)))"

definition TestChannelConfig ::
  "(string \<Rightarrow> string) \<Rightarrow> (string \<Rightarrow> bool) \<Rightarrow> json \<Rightarrow> string + api_channel" where
  \<comment> \<open>the refusal, or the configuration a test message is sent with\<close>
  "TestChannelConfig webhook_error mail_address body =
     (case decode_test body of
        None \<Rightarrow> Inl ''Invalid request payload''
      | Some t \<Rightarrow>
          (let m = validateChannel webhook_error mail_address t
           in if m \<noteq> [] then Inl m else Inr t))"

definition maskConfiguredString :: "json option \<Rightarrow> string" where
  "maskConfiguredString v =
     (case v of Some (JStr t) \<Rightarrow> if trim t \<noteq> [] then ''configured'' else [] | _ \<Rightarrow> [])"

definition or_null :: "json option \<Rightarrow> json" where
  "or_null v = (case v of Some j \<Rightarrow> j | None \<Rightarrow> JNull)"

definition sanitizedChannelConfig :: "string \<Rightarrow> (string \<rightharpoonup> json) \<Rightarrow> json" where
  \<comment> \<open>what the API shows of a stored configuration\<close>
  "sanitizedChannelConfig ty cfg =
     JObj (if ty = ''telegram'' then [(''chat_id'', or_null (cfg ''chat_id''))]
           else if ty = ''discord'' then [(''webhook_url'', JStr ''configured'')]
           else if ty = ''email'' then
             [(''smtp_host'', or_null (cfg ''smtp_host'')), (''smtp_port'', or_null (cfg ''smtp_port'')),
              (''from'', or_null (cfg ''from'')), (''to'', or_null (cfg ''to'')),
              (''use_tls'', or_null (cfg ''use_tls'')),
              (''username'', JStr (maskConfiguredString (cfg ''username''))),
              (''password'', JStr (maskConfiguredString (cfg ''password'')))]
           else [])"

end
