(* ===== verification/AlertStudio.thy ===== *)
theory AlertStudio
  imports AlertEvents AlertCreate
begin

text \<open>
  What the tab that creates a rule shows (\<open>alerts/page.tsx\<close>): the condition of each category, the
  lists of the scope and of the channels, the summary bar, the checklist and the submit button; and
  the bar above the list of rules.  The controls behind them are in \<open>AlertEvents\<close>; icons, colours
  and placeholders are left out.
\<close>

section \<open>The bar above the list of rules\<close>

record rule_bar =
  rb_query :: string
  rb_clear :: bool
  rb_category :: "alert_category option"
  rb_categories :: "(alert_category option \<times> string) list"
  rb_status :: rule_status_filter
  rb_statuses :: "(rule_status_filter \<times> string) list"

definition category_choices :: "(alert_category option \<times> string) list" where
  "category_choices =
     [(None, ''All Categories''), (Some CatStatus, ''Server Offline''),
      (Some CatMetric, ''Resource Thresholds''), (Some CatNetwork, ''Network Quality''),
      (Some CatContainer, ''Docker Container''), (Some CatService, ''Systemd Service''),
      (Some CatWebsite, ''Website & SSL'')]"

definition counted :: "string \<Rightarrow> nat \<Rightarrow> string" where
  "counted label n = label @ '' ('' @ show_nat n @ '')''"

definition rule_bar_of :: "alerts \<Rightarrow> rule_bar" where
  "rule_bar_of s =
     (let f = filters s; count = (\<lambda>i. snd (status_options s ! i))
      in \<lparr>rb_query = ruleSearchQuery f,
          rb_clear = (ruleSearchQuery f \<noteq> []),
          rb_category = ruleCategoryFilter f,
          rb_categories = category_choices,
          rb_status = ruleStatusFilter f,
          rb_statuses = [(StatusAll, counted ''All Statuses'' (count 0)), (StatusActive, counted ''Active'' (count 1)),
                         (StatusDisabled, counted ''Disabled'' (count 2))]\<rparr>)"

section \<open>The condition\<close>

record pick =
  pk_value :: string
  pk_label :: string
  pk_on :: bool

definition picks :: "string \<Rightarrow> (string \<times> string) list \<Rightarrow> pick list" where
  "picks current opts = map (\<lambda>(v, l). \<lparr>pk_value = v, pk_label = l, pk_on = (v = current)\<rparr>) opts"

record number_input =
  ni_min :: nat
  ni_max :: nat
  ni_value :: string
  ni_unit :: string

record condition_view =
  cv_title :: string
  cv_selects :: "(string \<times> pick list) list"  \<comment> \<open>label and choices of each drop-down list\<close>
  cv_buttons :: "(string \<times> pick list) list"  \<comment> \<open>label and buttons of each row\<close>
  cv_number :: "number_input option"
  cv_name :: "(string \<times> string) option"      \<comment> \<open>label and value of a required name\<close>
  cv_applies :: "string list \<times> nat"          \<comment> \<open>matched targets: shown names, number of further ones\<close>
  cv_hint :: string

definition arrow :: string where
  \<comment> \<open>the character U+2192 in UTF-8, between blanks\<close>
  "arrow = '' '' @ [CHR 0xE2, CHR 0x86, CHR 0x92] @ '' ''"

definition titled :: "string \<Rightarrow> string" where
  "titled t = ''CONDITION'' @ middle_dot @ t"

definition minutes :: "string \<Rightarrow> pick list" where
  "minutes current = picks current (map (\<lambda>m. (m, m @ ''m'')) duration_presets)"

definition operators :: "rule_form \<Rightarrow> pick list" where
  "operators f = picks (ruleOperator f) [(''>'', ''Greater than (>)''), (''<'', ''Less than (<)'')]"

definition status_section :: "rule_form \<Rightarrow> condition_view" where
  "status_section f =
     \<lparr>cv_title = titled ''HEARTBEAT MISSING FOR'',
      cv_selects = [],
      cv_buttons = [([], map (\<lambda>p. p\<lparr>pk_on := \<not> showCustomDuration f \<and> pk_on p\<rparr>) (minutes (ruleDuration f)) @
                         [\<lparr>pk_value = [], pk_label = ''custom'', pk_on = custom_duration_shown f\<rparr>])],
      cv_number = (if custom_duration_shown f
                   then Some \<lparr>ni_min = 1, ni_max = 1440, ni_value = ruleDuration f, ni_unit = ''min''\<rparr> else None),
      cv_name = None, cv_applies = ([], 0),
      cv_hint = ''interval 10s'' @ arrow @ ''fires after '' @ show_num (missed_heartbeats f) @ '' missed heartbeats''\<rparr>"

definition metric_section :: "rule_form \<Rightarrow> condition_view" where
  "metric_section f =
     \<lparr>cv_title = titled ''RESOURCE USAGE THRESHOLD'',
      cv_selects =
        [(''Resource Metric'', picks (ruleMetric f)
            [(''cpu'', ''CPU Usage (%)''), (''ram'', ''RAM Memory (%)''), (''disk'', ''Disk Storage (%)'')]),
         (''Condition'', operators f)],
      cv_buttons =
        [(''Threshold: '' @ ruleThreshold f @ ''%'',
          picks (ruleThreshold f) (map (\<lambda>p. (p, p @ ''%'')) (threshold_presets f))),
         (''Continuous Duration Before Firing'', minutes (ruleDuration f))],
      cv_number = Some \<lparr>ni_min = 0, ni_max = 100, ni_value = ruleThreshold f, ni_unit = ''%''\<rparr>,
      cv_name = None, cv_applies = ([], 0),
      cv_hint = ''evaluates every 10s'' @ arrow @ ''fires when '' @ to_upper (ruleMetric f) @ '' '' @ ruleOperator f @
                '' '' @ ruleThreshold f @ ''% continuously for '' @ ruleDuration f @ ''m''\<rparr>"

definition sub_text :: "target_sub \<Rightarrow> string" where
  "sub_text u =
     (case u of
        AllTargets \<Rightarrow> ''Universal '' @ em_dash @ '' monitors all probe targets across the fleet''
      | TagTargets n \<Rightarrow> show_nat n @ '' targets''
      | OneTarget m t \<Rightarrow> m @ '' '' @ [CHR 0xE2, CHR 0x80, CHR 0xA2] @ '' Tag: '' @ t)"

definition network_section :: "alerts \<Rightarrow> condition_view" where
  "network_section s =
     (let f = form s; latency = (ruleMetric f = ''network_latency'')
      in \<lparr>cv_title = titled ''NETWORK QUALITY PROBES'',
          cv_selects =
            [(''Network Metric'', picks (ruleMetric f)
                [(''network_latency'', ''Round-Trip Latency (ms)''), (''network_loss'', ''Packet Loss (%)'')]),
             (''Condition'', operators f),
             (''Monitored Target or Tag Group'',
              picks (target_value s) (map (\<lambda>(v, l, u). (v, l)) (target_options s)))],
          cv_buttons =
            [(''Threshold: '' @ ruleThreshold f @ net_unit f,
              picks (ruleThreshold f) (map (\<lambda>p. (p, p @ net_unit f)) (threshold_presets f))),
             (''Continuous Duration'', minutes (ruleDuration f))],
          cv_number = Some \<lparr>ni_min = 0, ni_max = (if latency then 60000 else 100), ni_value = ruleThreshold f,
                            ni_unit = net_unit f\<rparr>,
          cv_name = None, cv_applies = matched_shown s,
          cv_hint = ''probes every 10s'' @ arrow @ ''fires when '' @
                    (if latency then ''latency'' else ''packet loss'') @ '' '' @ ruleOperator f @ '' '' @
                    ruleThreshold f @ net_unit f @ '' for '' @ ruleDuration f @ ''m''\<rparr>)"

definition name_section :: "string \<Rightarrow> string \<Rightarrow> string \<Rightarrow> rule_form \<Rightarrow> condition_view" where
  "name_section title label hint f =
     \<lparr>cv_title = titled title, cv_selects = [], cv_buttons = [], cv_number = None,
      cv_name = Some (label, ruleTargetName f), cv_applies = ([], 0), cv_hint = hint\<rparr>"

definition container_section :: "rule_form \<Rightarrow> condition_view" where
  "container_section =
     name_section ''DOCKER CONTAINER STATE'' ''Container Name''
       ''triggers immediately when container status != running or healthcheck fails''"

definition service_section :: "rule_form \<Rightarrow> condition_view" where
  "service_section =
     name_section ''SYSTEMD SERVICE STATE'' ''Systemd Service Name''
       ''triggers immediately when unit status != active or enters failed state''"

definition website_label :: "website_condition \<Rightarrow> string" where
  "website_label item =
     (if wc_metric item = ''website'' then ''Website DOWN''
      else ''SSL Expiring ('' @ [CHR 0xE2, CHR 0x89, CHR 0xA4] @ '' '' @ wc_threshold item @ '' days)'')"

definition website_section :: "rule_form \<Rightarrow> condition_view" where
  "website_section f =
     \<lparr>cv_title = titled ''ENDPOINT HEALTH & SSL'', cv_selects = [],
      cv_buttons = [([], map (\<lambda>i. \<lparr>pk_value = wc_defaultName i, pk_label = website_label i,
                                  pk_on = website_selected f i\<rparr>) (website_conditions f))],
      cv_number = None, cv_name = None, cv_applies = ([], 0),
      cv_hint = ''monitors HTTP availability and SSL/TLS certificate lifetime''\<rparr>"

definition condition_section :: "alerts \<Rightarrow> condition_view" where
  "condition_section s =
     (let f = form s
      in case selectedCategory f of
           CatStatus \<Rightarrow> status_section f | CatMetric \<Rightarrow> metric_section f | CatNetwork \<Rightarrow> network_section s
         | CatContainer \<Rightarrow> container_section f | CatService \<Rightarrow> service_section f
         | CatWebsite \<Rightarrow> website_section f)"

section \<open>The scope\<close>

record scope_row =
  sr_id :: string
  sr_on :: bool
  sr_good :: bool
  sr_name :: string
  sr_detail :: "string option"
  sr_status :: string

definition site_row :: "(alert_website \<Rightarrow> bool) \<Rightarrow> alert_website \<Rightarrow> scope_row" where
  "site_row on site =
     \<lparr>sr_id = aw_id site, sr_on = on site,
      sr_good = (aw_status site = ''up'' \<or> aw_status site = ''online''),
      sr_name = aw_name site, sr_detail = Some (aw_url site),
      sr_status = str_or (aw_status site) ''unknown''\<rparr>"

definition agent_row :: "(alert_server \<Rightarrow> bool) \<Rightarrow> alert_server \<Rightarrow> scope_row" where
  "agent_row on srv =
     \<lparr>sr_id = as_id srv, sr_on = on srv, sr_good = (as_status srv = ''online''),
      sr_name = as_name srv,
      sr_detail = (if truthy (as_ip_address srv) then as_ip_address srv else None),
      sr_status = str_or (as_status srv) ''unknown''\<rparr>"

datatype scope_list = No_entries string | No_match string | Rows "scope_row list"

record scope_view =
  sv_title :: string
  sv_toggle :: "string option"            \<comment> \<open>the text of the button that selects everything\<close>
  sv_search :: "(string \<times> bool) option"   \<comment> \<open>the query and whether it can be cleared\<close>
  sv_list :: scope_list

definition toggle_text :: "'a list \<Rightarrow> 'b list \<Rightarrow> string option" where
  "toggle_text sel all =
     (if all = [] then None else Some (if length sel = length all then ''deselect all'' else ''select all''))"

definition search_field :: "string \<Rightarrow> 'a list \<Rightarrow> (string \<times> bool) option" where
  "search_field q all = (if 3 < length all then Some (q, q \<noteq> []) else None)"

definition scope_list_of :: "string \<Rightarrow> string \<Rightarrow> 'a list \<Rightarrow> scope_row list \<Rightarrow> scope_list" where
  "scope_list_of none miss all shown =
     (if all = [] then No_entries none else if shown = [] then No_match miss else Rows shown)"

definition in_quotes :: "string \<Rightarrow> string" where
  "in_quotes q = [CHR 0x22] @ q @ [CHR 0x22]"

definition websites_scope :: "alerts \<Rightarrow> scope_view" where
  "websites_scope s =
     (let sel = selectedWebsiteIds (form s); all = websites (data s); q = websiteSearchQuery (form s)
      in \<lparr>sv_title = scope_title s, sv_toggle = toggle_text sel all, sv_search = search_field q all,
          sv_list = scope_list_of ''No websites monitored yet.'' (''No websites matching '' @ in_quotes q) all
                      (map (site_row (\<lambda>w. aw_id w \<in> set sel)) (filteredWebsites s))\<rparr>)"

definition servers_scope :: "alerts \<Rightarrow> scope_view" where
  "servers_scope s =
     (let sel = selectedServerIds (form s); all = servers (data s); q = scopeSearchQuery (form s)
      in \<lparr>sv_title = scope_title s, sv_toggle = toggle_text sel all, sv_search = search_field q all,
          sv_list = scope_list_of ''No server agents connected.'' (''No agents matching '' @ in_quotes q) all
                      (map (agent_row (\<lambda>x. as_id x \<in> set sel)) (AlertForm.filteredServers s))\<rparr>)"

definition scope_section :: "alerts \<Rightarrow> scope_view" where
  "scope_section s =
     (if selectedCategory (form s) = CatWebsite then websites_scope s else servers_scope s)"

section \<open>The channels\<close>

record notify_row =
  nr_id :: string
  nr_on :: bool
  nr_name :: string
  nr_driver :: string
  nr_testing :: bool  \<comment> \<open>its test button is disabled and turns\<close>

record notify_view =
  nv_title :: string
  nv_toggle :: "string option"
  nv_rows :: "notify_row list option"  \<comment> \<open>None is the text that leads to the channels\<close>

definition notify_section :: "alerts \<Rightarrow> notify_view" where
  "notify_section s =
     (let sel = selectedChannelIds (form s); all = enabledChannels s
      in \<lparr>nv_title = ''NOTIFY'' @ middle_dot @ show_nat (length sel) @ '' SELECTED'',
          nv_toggle = toggle_text sel all,
          nv_rows = (if all = [] then None
                     else Some (map (\<lambda>c. \<lparr>nr_id = ac_id c, nr_on = (ac_id c \<in> set sel), nr_name = ac_name c,
                                          nr_driver = driver_of c,
                                          nr_testing = (testingChannelId (ui s) = Some (ac_id c))\<rparr>) all))\<rparr>)"

section \<open>Name, summary, checklist\<close>

record studio_footer =
  sf_condition :: bool
  sf_scope :: bool
  sf_name :: bool
  sf_channel :: bool
  sf_submit_disabled :: bool

definition footer_of :: "alerts \<Rightarrow> studio_footer" where
  "footer_of s =
     (let f = form s
      in \<lparr>sf_condition = isConditionValid f, sf_scope = isScopeValid f, sf_name = (trim (ruleName f) \<noteq> []),
          sf_channel = (selectedChannelIds f \<noteq> []),
          sf_submit_disabled = (savingRule (ui s) \<or> \<not> isFormValid f)\<rparr>)"

definition summary_bar :: "alerts \<Rightarrow> string list" where
  "summary_bar s = (let c = codeSummary s in [''rule'', cs_cond c, cs_scope c, cs_notify c, cs_repeat c])"

definition repeat_choices :: "rule_form \<Rightarrow> pick list" where
  "repeat_choices f =
     picks (ruleRepeatInterval f)
       (zip repeat_options [''Once'', ''Every 15m'', ''Every 30m'', ''Every 1h'', ''Every 2h''])"

definition category_tabs :: "rule_form \<Rightarrow> (alert_category \<times> string \<times> bool) list" where
  "category_tabs f =
     map (\<lambda>(c, l). (c, l, selectedCategory f = c))
       [(CatStatus, ''Server offline''), (CatMetric, ''Resource usage''), (CatNetwork, ''Network quality''),
        (CatContainer, ''Docker container''), (CatService, ''Systemd service''), (CatWebsite, ''Website & SSL'')]"

record studio =
  st_tabs :: "(alert_category \<times> string \<times> bool) list"
  st_condition :: condition_view
  st_scope :: scope_view
  st_notify :: notify_view
  st_name :: string
  st_repeat :: "pick list"
  st_summary :: "string list"
  st_footer :: studio_footer

definition studio_of :: "alerts \<Rightarrow> studio" where
  "studio_of s =
     \<lparr>st_tabs = category_tabs (form s), st_condition = condition_section s, st_scope = scope_section s,
      st_notify = notify_section s, st_name = ruleName (form s), st_repeat = repeat_choices (form s),
      st_summary = summary_bar s, st_footer = footer_of s\<rparr>"

section \<open>What the studio shows is what it sends\<close>

lemma selected_rows:
  assumes "distinct (map key xs)" "distinct sel" "set sel \<subseteq> key ` set xs"
  shows "length (filter (\<lambda>x. key x \<in> set sel) xs) = length sel"
proof -
  have d: "distinct (map key (filter (\<lambda>x. key x \<in> set sel) xs))"
    using assms(1) by (simp add: distinct_map_filter)
  have "set (map key (filter (\<lambda>x. key x \<in> set sel) xs)) = set sel" using assms(3) by auto
  then show ?thesis using distinct_card [OF d] distinct_card [OF assms(2)] by simp
qed

text \<open>
  As long as the selection names listed servers only, as many rows are ticked as the title counts,
  and the button offers to deselect all exactly when every row is ticked.
\<close>

lemma scope_rows_match_title:
  assumes "selectedCategory (form s) \<noteq> CatWebsite" "trim (scopeSearchQuery (form s)) = []" "servers (data s) \<noteq> []"
    and "distinct (map as_id (servers (data s)))" "distinct (selectedServerIds (form s))"
    and "set (selectedServerIds (form s)) \<subseteq> as_id ` set (servers (data s))"
  shows "\<exists>rows. sv_list (scope_section s) = Rows rows \<and>
    length (filter sr_on rows) = length (selectedServerIds (form s)) \<and>
    (list_all sr_on rows \<longleftrightarrow> sv_toggle (scope_section s) = Some ''deselect all'')"
proof -
  let ?sel = "selectedServerIds (form s)" and ?all = "servers (data s)"
  let ?rows = "map (agent_row (\<lambda>x. as_id x \<in> set ?sel)) ?all"
  have on: "sr_on (agent_row g x) = g x" for g x by (simp add: agent_row_def)
  have "filter sr_on ?rows = map (agent_row (\<lambda>x. as_id x \<in> set ?sel)) (filter (\<lambda>x. as_id x \<in> set ?sel) ?all)"
    by (simp add: filter_map o_def on)
  then have n: "length (filter sr_on ?rows) = length ?sel"
    using selected_rows [OF assms(4-6)] by simp
  have "list_all sr_on ?rows \<longleftrightarrow> as_id ` set ?all \<subseteq> set ?sel"
    by (auto simp: list_all_iff on)
  also have "\<dots> \<longleftrightarrow> length ?sel = length ?all"
    using full_selection [of ?sel "map as_id ?all"] assms(4-6) by auto
  finally have all: "list_all sr_on ?rows \<longleftrightarrow> length ?sel = length ?all" .
  have "AlertForm.filteredServers s = ?all" using assms(2) by (simp add: AlertForm.filteredServers_def search_servers_def)
  then show ?thesis
    using assms(1,3) n all
    by (simp add: scope_section_def servers_scope_def scope_list_of_def toggle_text_def Let_def)
qed

text \<open>
  A selection that still names a removed server breaks this: the counts are compared, not the
  servers, so the title says ALL and the rule is sent for the whole fleet while a row is not ticked.
\<close>

definition demo_stale :: alerts where
  "demo_stale =
     form_update (\<lambda>f. f\<lparr>selectedServerIds := [''gone'', ''a'']\<rparr>)
       (data_update (\<lambda>d. d\<lparr>servers := map (\<lambda>i. \<lparr>as_id = i, as_name = i, as_status = ''online'',
            as_ip_address = None, as_hostname = None\<rparr>) [''a'', ''b'']\<rparr>) (init_alerts ''admin''))"

lemma stale_selection_is_fleet:
  "scope_title demo_stale = ''ALL AGENTS SELECTED'' \<and>
   sv_list (scope_section demo_stale) =
     Rows (map (agent_row (\<lambda>x. as_id x = ''a'')) (servers (data demo_stale))) \<and>
   payloadServerId demo_stale = None \<and> payloadServerIds demo_stale = []"
  by code_simp

lemma submit_disabled_iff: "on_tab TabCreate s \<Longrightarrow> sf_submit_disabled (footer_of s) \<longleftrightarrow> \<not> offered Submit_rule s"
  by (auto simp: footer_of_def Let_def)

lemma checklist_complete:
  "isFormValid (form s) \<longleftrightarrow>
     sf_condition (footer_of s) \<and> sf_scope (footer_of s) \<and> sf_name (footer_of s) \<and> sf_channel (footer_of s)"
  by (auto simp: footer_of_def isFormValid_def Let_def)

end
