(* ===== verification/AlertPanels.thy ===== *)
theory AlertPanels
  imports AlertStudio
begin

text \<open>
  The other tabs and the dialogs of the Alert Center (\<open>alerts/page.tsx\<close>): the form and the cards of
  the channels, the timeline of the incidents, the dialogs that edit a rule and a channel and those
  that confirm a deletion.  \<open>required\<close>, \<open>min\<close> and \<open>max\<close> of an input are conditions the browser
  puts on submitting its form; its checks of the format of addresses are left out.
\<close>

section \<open>The inputs of a channel\<close>

record form_input =
  fi_label :: string
  fi_type :: string
  fi_required :: bool
  fi_value :: string

definition text_input :: "string \<Rightarrow> string \<Rightarrow> bool \<Rightarrow> string \<Rightarrow> form_input" where
  "text_input label kind required v =
     \<lparr>fi_label = label, fi_type = kind, fi_required = required, fi_value = v\<rparr>"

definition submittable :: "form_input list \<Rightarrow> bool" where
  \<comment> \<open>the browser hands the form to \<open>onSubmit\<close>\<close>
  "submittable ins \<longleftrightarrow> list_all (\<lambda>i. fi_required i \<longrightarrow> fi_value i \<noteq> []) ins"

definition type_buttons :: "channel_form \<Rightarrow> (string \<times> string \<times> bool) list" where
  "type_buttons f =
     map (\<lambda>(t, l). (t, l, channelType f = t))
       [(''discord'', ''Discord''), (''telegram'', ''Telegram''), (''email'', ''Email'')]"

definition name_input :: "channel_form \<Rightarrow> form_input" where
  "name_input f = text_input ''Channel Display Name'' ''text'' True (channelName f)"

definition name_placeholder :: "channel_form \<Rightarrow> string" where
  "name_placeholder f =
     (if channelType f = ''discord'' then ''e.g. Discord Ops Alerts''
      else if channelType f = ''telegram'' then ''e.g. Telegram Incident Bot'' else ''e.g. SRE Email Group'')"

definition smtp_inputs :: "channel_form \<Rightarrow> form_input list" where
  \<comment> \<open>the same in both dialogs\<close>
  "smtp_inputs f =
     [text_input ''SMTP Host'' ''text'' True (channelSMTPHost f),
      text_input ''Port'' ''number'' True (channelSMTPPort f),
      text_input ''Username'' ''text'' False (channelSMTPUsername f),
      text_input ''Password'' ''password'' False (channelSMTPPassword f),
      text_input ''From Email'' ''email'' True (channelEmailFrom f),
      text_input ''To Email'' ''email'' True (channelEmailTo f)]"

definition new_channel_inputs :: "channel_form \<Rightarrow> form_input list" where
  "new_channel_inputs f =
     name_input f #
     (if channelType f = ''telegram'' then
        [text_input ''Bot Token'' ''password'' True (channelToken f),
         text_input ''Chat ID'' ''text'' True (channelChatId f)]
      else if channelType f = ''discord'' then
        [text_input ''Discord Webhook URL'' ''url'' True (channelWebhook f)]
      else smtp_inputs f)"

definition edit_channel_inputs :: "channel_form \<Rightarrow> form_input list" where
  \<comment> \<open>the secrets may stay blank to keep the existing ones\<close>
  "edit_channel_inputs f =
     name_input f #
     (if channelType f = ''telegram'' then
        [text_input ''Bot Token'' ''password'' False (channelToken f),
         text_input ''Chat ID'' ''text'' True (channelChatId f)]
      else if channelType f = ''discord'' then
        [text_input ''Discord Webhook URL'' ''url'' False (channelWebhook f)]
      else smtp_inputs f)"

record channel_form_view =
  cf_types :: "(string \<times> string \<times> bool) list"
  cf_inputs :: "form_input list"
  cf_tls :: "bool option"  \<comment> \<open>the check box of an email channel\<close>
  cf_test_disabled :: bool
  cf_save_disabled :: bool

definition tls_box :: "channel_form \<Rightarrow> bool option" where
  "tls_box f = (if channelType f \<in> {''telegram'', ''discord''} then None else Some (channelUseTLS f))"

definition new_channel_view :: "alerts \<Rightarrow> channel_form_view" where
  "new_channel_view s =
     (let busy = (testingNewChannel (ui s) \<or> savingChannel (ui s))
      in \<lparr>cf_types = type_buttons (cform s), cf_inputs = new_channel_inputs (cform s), cf_tls = tls_box (cform s),
          cf_test_disabled = busy, cf_save_disabled = busy\<rparr>)"

definition edit_channel_view :: "alerts \<Rightarrow> channel_form_view option" where
  \<comment> \<open>None while the dialog is closed\<close>
  "edit_channel_view s =
     (let f = editChannel (cedit s); busy = (testingEditChannel (cedit s) \<or> savingEditChannel (cedit s))
      in if editingChannel (cedit s) = None then None
         else Some \<lparr>cf_types = type_buttons f, cf_inputs = edit_channel_inputs f, cf_tls = tls_box f,
                    cf_test_disabled = busy, cf_save_disabled = busy\<rparr>)"

section \<open>The cards of the channels\<close>

record channel_card =
  cc_name :: string
  cc_type :: string
  cc_detail :: "string option"
  cc_usage :: string
  cc_test_disabled :: bool
  cc_edit :: "string \<times> bool"    \<comment> \<open>title, disabled\<close>
  cc_delete :: "string \<times> bool"

definition channel_card_of :: "alerts \<Rightarrow> alert_channel \<Rightarrow> channel_card" where
  "channel_card_of s c =
     \<lparr>cc_name = ac_name c, cc_type = ac_type c,
      cc_detail = (if detailText c \<noteq> [] then Some (detailText c) else None),
      cc_usage = channel_usage_text c,
      cc_test_disabled = (testingChannelId (ui s) = Some (ac_id c)),
      cc_edit = (if isViewer s then ''Editing channels requires Operator or Admin role'' else ''Edit channel'', isViewer s),
      cc_delete =
        (if isViewer s then ''Deleting channels requires Operator or Admin role'' else ''Delete channel'', isViewer s)\<rparr>"

definition channels_grid :: "alerts \<Rightarrow> string \<times> channel_card list" where
  \<comment> \<open>heading and cards; with no card the text that says so\<close>
  "channels_grid s =
     (''Configured Channels ('' @ show_nat (length (channels (data s))) @ '')'',
      map (channel_card_of s) (channels (data s)))"

section \<open>The timeline of the incidents\<close>

definition incident_chips :: "alerts \<Rightarrow> (incident_filter \<times> string \<times> bool) list" where
  "incident_chips s =
     map (\<lambda>(f, l). (f, l, incidentFilter (filters s) = f))
       [(IncidentAll, counted ''All'' (length (incidents (data s)))),
        (IncidentUnread, ''Unread ('' @ show_int (unreadIncidentsCount (data s)) @ '')''),
        (IncidentRead, ''Read ('' @ show_int (read_chip s) @ '')'')]"

definition incident_pill :: "incident_card \<Rightarrow> string" where
  "incident_pill c =
     (if card_isFiring c then ''Firing'' else if card_isResolved c then ''Resolved''
      else if card_isReminder c then ''Reminder'' else ''Notification'')"

record incident_shown =
  is_title :: string
  is_line :: "string \<times> string"        \<comment> \<open>rule and server\<close>
  is_markable :: bool
  is_pill :: string
  is_message :: string
  is_triggered :: string
  is_recovered :: "string option"
  is_outage :: "string option"

definition show_incident :: "(string \<Rightarrow> string) \<Rightarrow> incident \<Rightarrow> incident_shown" where
  "show_incident fmt item =
     (let c = incident_card_of fmt item
      in \<lparr>is_title = in_title item, is_line = (card_ruleName c, card_serverName c),
          is_markable = is_unread item, is_pill = incident_pill c, is_message = in_message item,
          is_triggered = card_failedAt c,
          is_recovered = (if card_recoveredAt c \<noteq> [] then Some (card_recoveredAt c) else None),
          is_outage = (if card_isResolved c \<and> card_downtime c \<noteq> [] then Some (card_downtime c) else None)\<rparr>)"

datatype incident_list = Incidents_loading | Incidents_shown "incident_shown list" bool

definition incidents_panel :: "(string \<Rightarrow> string) \<Rightarrow> alerts \<Rightarrow> incident_list" where
  \<comment> \<open>the flag is the text that none is recorded\<close>
  "incidents_panel fmt s =
     (if loadingIncidents (ui s) then Incidents_loading
      else Incidents_shown (map (show_incident fmt) (shown_incidents s)) (incidents (data s) = []))"

definition mark_all_shown :: "alerts \<Rightarrow> bool" where
  "mark_all_shown s \<longleftrightarrow> unreadIncidentsCount (data s) > 0"

section \<open>The dialog that edits a rule\<close>

definition edit_website_scope :: "alerts \<Rightarrow> scope_row \<times> scope_row list" where
  "edit_website_scope s =
     (let t = editTargetName (edit s)
      in (\<lparr>sr_id = [], sr_on = (t = []), sr_good = True, sr_name = ''All websites (Entire Fleet)'',
           sr_detail = None, sr_status = show_nat (length (websites (data s))) @ '' sites''\<rparr>,
          map (site_row (\<lambda>w. t = aw_name w)) (filteredEditWebsites s)))"

definition edit_server_scope :: "alerts \<Rightarrow> scope_row \<times> scope_row list" where
  "edit_server_scope s =
     (let i = editServerId (edit s)
      in (\<lparr>sr_id = [], sr_on = (i = [] \<or> i = ''all''), sr_good = True,
           sr_name = ''All servers (Entire Agent Fleet)'', sr_detail = None,
           sr_status = show_nat (length (servers (data s))) @ '' agents''\<rparr>,
          map (agent_row (\<lambda>x. i = as_id x)) (filteredEditServers s)))"

definition website_metric :: "string \<Rightarrow> bool" where
  "website_metric m \<longleftrightarrow> m \<in> {''website'', ''ssl''}"

definition edit_search :: "alerts \<Rightarrow> (string \<times> bool) option" where
  "edit_search s =
     (if website_metric (editMetric (edit s))
      then search_field (editWebsiteSearchQuery (edit s)) (websites (data s))
      else search_field (editServerSearchQuery (edit s)) (servers (data s)))"

definition edit_scope :: "alerts \<Rightarrow> string \<times> string \<times> (scope_row \<times> scope_row list)" where
  "edit_scope s =
     (let web = website_metric (editMetric (edit s))
      in (''Scope ('' @ (if web then ''Target Website'' else ''Target Server'') @ '')'', edit_scope_text s,
          if web then edit_website_scope s else edit_server_scope s))"

definition edit_operators :: "string \<Rightarrow> string list" where
  \<comment> \<open>the operators the dialog offers for a metric\<close>
  "edit_operators m =
     (if m \<in> {''cpu'', ''ram'', ''disk''} then [''>'', ''>='', ''<'', ''<='']
      else if m \<in> {''network_latency'', ''network_loss''} then [''>'', ''<''] else [])"

definition edit_threshold_bounds :: "string \<Rightarrow> (nat \<times> nat) option" where
  \<comment> \<open>\<open>min\<close> and \<open>max\<close> of the threshold, where there is one\<close>
  "edit_threshold_bounds m =
     (if m \<in> {''cpu'', ''ram'', ''disk''} then Some (1, 100)
      else if m = ''network_latency'' then Some (0, 60000)
      else if m = ''network_loss'' then Some (0, 100) else None)"

definition number_accepted :: "nat \<Rightarrow> nat \<Rightarrow> jsnum \<Rightarrow> bool" where
  \<comment> \<open>an input of type \<open>number\<close> with these bounds and the default step of 1\<close>
  "number_accepted lo hi v =
     (case v of Fin q \<Rightarrow> q = of_int \<lfloor>q\<rfloor> \<and> of_nat lo \<le> q \<and> q \<le> of_nat hi | _ \<Rightarrow> False)"

definition edit_submittable :: "rule_edit \<Rightarrow> bool" where
  \<comment> \<open>what the browser asks of the fields of the dialog before \<open>handleSaveEdit\<close>\<close>
  "edit_submittable e \<longleftrightarrow>
     editName e \<noteq> [] \<and>
     (case edit_threshold_bounds (editMetric e) of
        Some (lo, hi) \<Rightarrow> number_accepted lo hi (editThreshold e)
      | None \<Rightarrow> True) \<and>
     (editMetric e \<in> {''container'', ''service''} \<longrightarrow> editTargetName e \<noteq> []) \<and>
     number_accepted 1 1440 (editDuration e) \<and> number_accepted 0 1440 (editRepeat e)"

definition edit_target_list :: "alerts \<Rightarrow> (string \<times> string) list" where
  \<comment> \<open>value and label of the suggestions\<close>
  "edit_target_list s =
     map (\<lambda>tag. (tag, ''Tag Group: '' @ tag)) (discoveredNetworkTags s) @
     map (\<lambda>t. (nt_name t, nt_name t @ '' ('' @ nt_host t @ '')'')) (networkTargets (data s))"

definition edit_name_label :: "string \<Rightarrow> string option" where
  "edit_name_label m =
     (if m = ''container'' then Some ''Docker Container Name''
      else if m = ''service'' then Some ''Systemd Service Name'' else None)"

definition edit_channels :: "alerts \<Rightarrow> string \<times> string option \<times> (string \<times> string \<times> string \<times> bool) list" where
  \<comment> \<open>all channels, not only the enabled ones: id, name, type, selected\<close>
  "edit_channels s =
     (let sel = editChannelIds (edit s); all = channels (data s)
      in (''Notification Channels'' @ middle_dot @ show_nat (length sel) @ '' SELECTED'',
          toggle_text sel all,
          map (\<lambda>c. (ac_id c, ac_name c, ac_type c, ac_id c \<in> set sel)) all))"

section \<open>The dialogs that confirm a deletion\<close>

record deletion =
  dd_title :: string
  dd_message :: string
  dd_confirm :: string
  dd_loading :: bool

definition delete_rule_dialog :: "alerts \<Rightarrow> deletion option" where
  "delete_rule_dialog s =
     map_option (\<lambda>r. \<lparr>dd_title = ''Delete Alert Rule'',
          dd_message = ''Are you sure you want to delete alert rule '' @ in_quotes (ar_name r) @
            ''? You will no longer receive notifications for this rule.'',
          dd_confirm = ''Delete Rule'', dd_loading = deletingRule (ui s)\<rparr>)
       (deleteRuleTarget (ui s))"

definition delete_channel_dialog :: "alerts \<Rightarrow> deletion option" where
  "delete_channel_dialog s =
     map_option (\<lambda>c. \<lparr>dd_title = ''Delete Notification Channel'',
          dd_message = ''Are you sure you want to delete notification channel '' @ in_quotes (ac_name c) @
            ''? Any rules using it will no longer send notifications here.'',
          dd_confirm = ''Delete Channel'', dd_loading = deletingChannel (ui s)\<rparr>)
       (deleteChannelTarget (ui s))"

section \<open>The page\<close>

datatype alerts_body =
    Body_loading
  | Body_rules rule_bar "rule_card list"
  | Body_create studio
  | Body_channels channel_form_view "string \<times> channel_card list"
  | Body_incidents "(incident_filter \<times> string \<times> bool) list" bool incident_list

definition alerts_body_of :: "(string \<Rightarrow> string) \<Rightarrow> alerts \<Rightarrow> alerts_body" where
  "alerts_body_of fmt s =
     (if loading (ui s) then Body_loading
      else case activeTab (ui s) of
             TabRules \<Rightarrow> Body_rules (rule_bar_of s) (map (rule_card_of s) (filteredRules s))
           | TabCreate \<Rightarrow> Body_create (studio_of s)
           | TabChannels \<Rightarrow> Body_channels (new_channel_view s) (channels_grid s)
           | TabIncidents \<Rightarrow> Body_incidents (incident_chips s) (mark_all_shown s) (incidents_panel fmt s))"

end
