(* ===== verification/AlertApiProps.thy ===== *)
theory AlertApiProps
  imports AlertApi AlertPanels
begin

text \<open>
  The Alert Center and the control plane together: what the page sends is what the API accepts and
  stores, and what the API shows of a stored channel survives the page's dialogs.  The exceptions
  are stated with the theorems.
\<close>

section \<open>Decoding the bodies of the page\<close>

lemma lower_keys:
  "to_lower ''name'' = ''name''" "to_lower ''metric'' = ''metric''" "to_lower ''operator'' = ''operator''"
  "to_lower ''threshold'' = ''threshold''" "to_lower ''duration_minutes'' = ''duration_minutes''"
  "to_lower ''server_id'' = ''server_id''" "to_lower ''server_ids'' = ''server_ids''"
  "to_lower ''channel_ids'' = ''channel_ids''" "to_lower ''target_name'' = ''target_name''"
  "to_lower ''repeat_interval_minutes'' = ''repeat_interval_minutes''"
  "to_lower ''type'' = ''type''" "to_lower ''config'' = ''config''"
  by code_simp+

lemma int64_minutes: "0 \<le> i \<Longrightarrow> i \<le> 1440 \<Longrightarrow> int64 (of_int i)"
proof -
  assume i: "0 \<le> i" "i \<le> 1440"
  then have "of_int i \<le> (1440 :: rat)" "(0 :: rat) \<le> of_int i" by (simp_all add: of_int_le_numeral_iff)
  then have "of_int i < (2 ^ 63 :: rat)" "- (2 ^ 63) \<le> (of_int i :: rat)" by simp_all
  then show ?thesis by (simp add: int64_def)
qed

definition number_or_0 :: "jsnum \<Rightarrow> rat" where
  "number_or_0 x = (case x of Fin q \<Rightarrow> q | _ \<Rightarrow> 0)"

lemmas encodings = opt_str_json_def num_json_def strs_json_def number_or_0_def

lemma decode_create:
  assumes "int64 (of_int d)" "int64 (of_int k)"
  shows "decode_rule (JObj [(''name'', JStr n), (''metric'', JStr m), (''operator'', JStr p),
      (''threshold'', num_json th), (''duration_minutes'', JNum (of_int d)), (''server_id'', opt_str_json sid),
      (''server_ids'', strs_json sids), (''channel_ids'', strs_json cs),
      (''repeat_interval_minutes'', JNum (of_int k)), (''target_name'', opt_str_json tg)]) =
    Some \<lparr>ru_name = n, ru_metric = m, ru_operator = p, ru_threshold = number_or_0 th, ru_duration = d,
          ru_repeat = k, ru_target = tg, ru_server = sid, ru_servers = sids, ru_channels = cs\<rparr>"
  using assms
  by (cases th; cases sid; cases tg) (simp_all add: decode_rule_def go_object_def lower_keys encodings)

lemma decode_edit:
  assumes "int64 (of_int d)" "int64 (of_int k)"
  shows "decode_rule (JObj [(''name'', JStr n), (''metric'', JStr m), (''operator'', JStr p),
      (''threshold'', num_json th), (''duration_minutes'', JNum (of_int d)),
      (''repeat_interval_minutes'', JNum (of_int k)), (''server_id'', opt_str_json sid),
      (''target_name'', opt_str_json tg), (''channel_ids'', strs_json cs)]) =
    Some \<lparr>ru_name = n, ru_metric = m, ru_operator = p, ru_threshold = number_or_0 th, ru_duration = d,
          ru_repeat = k, ru_target = tg, ru_server = sid, ru_servers = [], ru_channels = cs\<rparr>"
  using assms
  by (cases th; cases sid; cases tg) (simp_all add: decode_rule_def go_object_def lower_keys encodings)

section \<open>Rules\<close>

definition covered :: "string set \<Rightarrow> api_rule \<Rightarrow> string set" where
  \<comment> \<open>the servers a stored rule watches; without one the whole fleet\<close>
  "covered fleet r = (case ru_server r of Some i \<Rightarrow> {i} | None \<Rightarrow> fleet)"

definition clean_id :: "string \<Rightarrow> bool" where
  "clean_id i \<longleftrightarrow> trim i = i \<and> i \<noteq> []"

lemma uniq_distinct: "distinct xs \<Longrightarrow> uniq xs = xs"
  by (simp add: uniq_def distinct_remdups_id)

lemma clean_list: "list_all clean_id ids \<Longrightarrow> map trim ids = ids \<and> filter (\<lambda>t. t \<noteq> []) ids = ids"
  by (induction ids) (simp_all add: clean_id_def)

lemma normalize_scope_clean:
  assumes "list_all clean_id ids" "distinct ids" "ru_servers r = ids" "length ids \<noteq> 1"
  shows "normalize_scope r =
    (if ids = [] then r\<lparr>ru_server := cleaned (ru_server r)\<rparr> else r)"
proof -
  have n: "uniqueStrings (filter (\<lambda>t. t \<noteq> []) (map trim (ru_servers r))) = ids"
    using assms clean_list [OF assms(1)] by (simp add: uniqueStrings_def uniq_distinct)
  show ?thesis
  proof (cases ids)
    case Nil
    then show ?thesis using assms(3) unfolding normalize_scope_def n Let_def by simp
  next
    case (Cons i rest)
    with assms(4) obtain j js where "ids = i # j # js" by (cases rest) auto
    then show ?thesis using assms(3) unfolding normalize_scope_def n Let_def by simp
  qed
qed

lemma payload_ids:
  assumes "list_all clean_id (selectedServerIds (form s))" "distinct (selectedServerIds (form s))"
  shows "list_all clean_id (payloadServerIds s)" "distinct (payloadServerIds s)" "length (payloadServerIds s) \<noteq> 1"
    "cleaned (payloadServerId s) = payloadServerId s"
  using assms
  by (auto simp: payloadServerIds_def payloadServerId_def Let_def cleaned_def clean_id_def nonempty_or_null_def
      split: list.split)

lemma special_metrics: "isSpecialMetric m \<longleftrightarrow> state_metric m \<or> m \<in> {''website'', ''ssl''}"
  by (auto simp: isSpecialMetric_def state_metric_def)

definition numbers_in_range :: "api_rule \<Rightarrow> bool" where
  "numbers_in_range r \<longleftrightarrow>
     ru_name r \<noteq> [] \<and> 1 \<le> ru_duration r \<and> ru_duration r \<le> 1440 \<and> 0 \<le> ru_repeat r \<and> ru_repeat r \<le> 1440 \<and>
     ru_channels r \<noteq> []"

definition percent_metrics :: "string list" where
  "percent_metrics = [''cpu'', ''ram'', ''disk'', ''network_loss'']"

lemma validate_special:
  assumes "numbers_in_range r" "isSpecialMetric (ru_metric r)"
  shows "validateRule r = []"
proof -
  have "ru_metric r \<notin> {''cpu'', ''ram'', ''disk''}" "ru_metric r \<noteq> ''network_loss''"
    "ru_metric r \<noteq> ''network_latency''" "ru_metric r \<in> {''status'', ''container'', ''service'', ''website'', ''ssl''}"
    using assms(2) by (auto simp: isSpecialMetric_def)
  then show ?thesis using assms(1) by (simp add: validateRule_def numbers_in_range_def Let_def)
qed

lemma validate_measured:
  assumes "numbers_in_range r" "ru_metric r \<in> insert ''network_latency'' (set percent_metrics)"
    and "0 \<le> ru_threshold r" "ru_threshold r \<le> (if ru_metric r = ''network_latency'' then 60000 else 100)"
  shows "validateRule r =
    (if ru_operator r = ''>'' \<or> ru_operator r = ''<'' then [] else ''Unsupported alert condition'')"
proof (cases "ru_metric r = ''network_latency''")
  case True
  with assms show ?thesis by (simp add: validateRule_def numbers_in_range_def Let_def)
next
  case False
  then have "ru_metric r \<in> {''cpu'', ''ram'', ''disk''} \<or> ru_metric r = ''network_loss''"
    using assms(2) by (auto simp: percent_metrics_def)
  with False assms(1,3,4) show ?thesis by (simp add: validateRule_def numbers_in_range_def Let_def)
qed

lemma condition_fields [simp]:
  "ru_name (normalize_condition r) = ru_name r" "ru_metric (normalize_condition r) = ru_metric r"
  "ru_duration (normalize_condition r) = ru_duration r" "ru_repeat (normalize_condition r) = ru_repeat r"
  "ru_channels (normalize_condition r) = ru_channels r" "ru_server (normalize_condition r) = ru_server r"
  "ru_servers (normalize_condition r) = ru_servers r"
  "ru_target (normalize_condition r) = cleaned (ru_target r)"
  "\<not> state_metric (ru_metric r) \<Longrightarrow> ru_operator (normalize_condition r) = ru_operator r"
  "\<not> state_metric (ru_metric r) \<Longrightarrow> ru_threshold (normalize_condition r) = ru_threshold r"
  by (simp_all add: normalize_condition_def)

lemma in_range_condition [simp]: "numbers_in_range (normalize_condition r) = numbers_in_range r"
  by (simp add: numbers_in_range_def)

lemma repeat_parsed:
  assumes "v \<in> set repeat_options"
  obtains k where "num_or (parse_int v) (Fin 0) = Fin (of_int k)" "0 \<le> k" "k \<le> 1440"
proof -
  have "list_all (\<lambda>v. case num_or (parse_int v) (Fin 0) of
      Fin q \<Rightarrow> q = of_int \<lfloor>q\<rfloor> \<and> 0 \<le> \<lfloor>q\<rfloor> \<and> \<lfloor>q\<rfloor> \<le> 1440 | _ \<Rightarrow> False) repeat_options"
    by code_simp
  with assms obtain q where "num_or (parse_int v) (Fin 0) = Fin q" "q = of_int \<lfloor>q\<rfloor>" "0 \<le> \<lfloor>q\<rfloor>" "\<lfloor>q\<rfloor> \<le> 1440"
    unfolding list_all_iff by (cases "num_or (parse_int v) (Fin 0)") auto
  then show thesis using that [of "\<lfloor>q\<rfloor>"] by metis
qed

definition created_base :: "alerts \<Rightarrow> int \<Rightarrow> int \<Rightarrow> api_rule" where
  \<comment> \<open>the decoded body of a created rule\<close>
  "created_base s d k =
     (let f = form s
      in \<lparr>ru_name = trim (ruleName f), ru_metric = ruleMetric f, ru_operator = payload_operator f,
          ru_threshold = number_or_0 (payload_threshold f), ru_duration = d, ru_repeat = k,
          ru_target = payloadTargetName s, ru_server = payloadServerId s, ru_servers = payloadServerIds s,
          ru_channels = selectedChannelIds f\<rparr>)"

lemma create_decoded:
  assumes "parse_int (ruleDuration (form s)) = Fin (of_int d)" "1 \<le> d" "d \<le> 1440"
    and "num_or (parse_int (ruleRepeatInterval (form s))) (Fin 0) = Fin (of_int k)" "0 \<le> k" "k \<le> 1440"
  shows "decode_rule (createRule_body s) = Some (created_base s d k)"
proof -
  have "int64 (of_int d)" "int64 (of_int k)" using assms by (simp_all add: int64_minutes)
  from decode_create [OF this] show ?thesis
    by (simp add: createRule_body_def created_base_def assms(1,4) Let_def)
qed

section \<open>The rows of a new rule\<close>

definition minutes_of :: "jsnum \<Rightarrow> int" where
  "minutes_of x = (case x of Fin q \<Rightarrow> \<lfloor>q\<rfloor> | _ \<Rightarrow> 0)"

definition meant :: "alerts \<Rightarrow> string option \<Rightarrow> api_rule" where
  \<comment> \<open>the rule the form describes, for one server or for the fleet\<close>
  "meant s srv =
     (let f = form s
      in \<lparr>ru_name = trim (ruleName f), ru_metric = ruleMetric f, ru_operator = payload_operator f,
          ru_threshold = number_or_0 (payload_threshold f), ru_duration = minutes_of (parse_int (ruleDuration f)),
          ru_repeat = minutes_of (num_or (parse_int (ruleRepeatInterval f)) (Fin 0)),
          ru_target = cleaned (payloadTargetName s), ru_server = srv, ru_servers = [],
          ru_channels = uniqueStrings (selectedChannelIds f)\<rparr>)"

definition targets :: "alerts \<Rightarrow> string option list" where
  \<comment> \<open>the servers of the rules that one submission asks for\<close>
  "targets s = (if payloadServerIds s = [] then [payloadServerId s] else map Some (payloadServerIds s))"

definition channels_on :: "alert_store \<Rightarrow> string list \<Rightarrow> bool" where
  "channels_on st ids \<longleftrightarrow> (\<forall>c\<in>set ids. (c, True) \<in> set (user_channels st))"

lemma unique_set [simp]: "set (uniqueStrings ids) = {i \<in> set ids. i \<noteq> []}"
  by (simp add: uniqueStrings_def)

lemma unique_empty: "[] \<notin> set ids \<Longrightarrow> uniqueStrings ids = [] \<longleftrightarrow> ids = []"
  by (cases ids) (auto simp flip: set_empty)

lemma count_enabled:
  assumes "[] \<notin> set ids"
  shows "length (enabled_among st (uniqueStrings ids)) = length (uniqueStrings ids) \<longleftrightarrow> channels_on st ids"
proof -
  let ?u = "uniqueStrings ids" and ?e = "enabled_among st (uniqueStrings ids)"
  have d: "distinct ?u" "distinct ?e" by (simp_all add: uniqueStrings_def enabled_among_def)
  have e: "set ?e = {c \<in> set ids. (c, True) \<in> set (user_channels st)}"
    using assms by (force simp: enabled_among_def)
  have u: "set ?u = set ids" using assms by auto
  have "length ?e = length ?u \<longleftrightarrow> card (set ?e) = card (set ?u)"
    by (simp only: distinct_card [OF d(1)] distinct_card [OF d(2)])
  also have "\<dots> \<longleftrightarrow> set ?e = set ?u"
    using card_subset_eq [of "set ?u" "set ?e"] e u by auto
  also have "\<dots> \<longleftrightarrow> channels_on st ids"
    unfolding e u channels_on_def by auto
  finally show ?thesis .
qed

lemma selection_exact:
  assumes "ru_channels r \<noteq> []" "[] \<notin> set (ru_channels r)"
  shows "selection_error st r =
    (if \<not> server_known st (ru_server r) then Some ErrInvalidServerSelection
     else if \<not> channels_on st (ru_channels r) then Some ErrInvalidChannelSelection else None)"
  using assms count_enabled [OF assms(2), of st] unique_empty [OF assms(2)]
  by (simp add: selection_error_def Let_def)

lemma row_fits_fields [simp]:
  "row_fits (r\<lparr>ru_server := i, ru_servers := is'\<rparr>) = row_fits r" "row_fits (linked r) = row_fits r"
  by (simp_all add: row_fits_def linked_def)

lemma stored_rule_fields [simp]:
  "linked (r\<lparr>ru_server := i, ru_servers := xs\<rparr>) = (linked r)\<lparr>ru_server := i\<rparr>"
  "(linked r)\<lparr>ru_servers := []\<rparr> = linked r"
  by (simp_all add: linked_def)

definition good_row :: "alert_store \<Rightarrow> api_rule \<Rightarrow> bool" where
  \<comment> \<open>the channels of the rule are there and switched on, and its texts fit\<close>
  "good_row st r \<longleftrightarrow> channels_on st (ru_channels r) \<and> row_fits r"

lemma repo_create_exact:
  assumes "ru_channels r \<noteq> []" "[] \<notin> set (ru_channels r)"
  shows "good_row st r \<and> server_known st (ru_server r) \<Longrightarrow>
      \<exists>row. repo_CreateRule new_id st r = Inr (st\<lparr>user_rules := user_rules st @ [row]\<rparr>, linked r) \<and>
            db_rule row = linked r \<and> db_enabled row"
    and "\<not> (good_row st r \<and> server_known st (ru_server r)) \<Longrightarrow> \<exists>e. repo_CreateRule new_id st r = Inl e"
  using selection_exact [OF assms, of st] by (auto simp: repo_CreateRule_def good_row_def)

definition appended :: "alert_store \<Rightarrow> api_rule list \<Rightarrow> alert_store \<Rightarrow> bool" where
  \<comment> \<open>the rows of the rules follow the old ones, switched on; nothing else changed\<close>
  "appended st rs st' \<longleftrightarrow>
     (\<exists>rows. st' = st\<lparr>user_rules := user_rules st @ rows\<rparr> \<and> map db_rule rows = rs \<and> list_all db_enabled rows)"

lemma appended_nil: "appended st [] st"
  by (simp add: appended_def)

lemma create_each_exact:
  assumes "ru_channels r \<noteq> []" "[] \<notin> set (ru_channels r)"
  defines "k st ids \<equiv> (if good_row st r then length (takeWhile (\<lambda>i. i \<in> set (user_servers st)) ids) else 0)"
  shows "appended st (map (\<lambda>i. (linked r)\<lparr>ru_server := Some i\<rparr>) (take (k st ids) ids)) (fst (create_each new_id st r ids)) \<and>
    (if k st ids = length ids
     then snd (create_each new_id st r ids) = Inr (map (\<lambda>i. (linked r)\<lparr>ru_server := Some i\<rparr>) ids)
     else \<exists>e. snd (create_each new_id st r ids) = Inl e)"
proof (induction ids arbitrary: st)
  case Nil
  then show ?case by (simp add: appended_nil k_def)
next
  case (Cons i ids)
  let ?r = "r\<lparr>ru_server := Some i, ru_servers := []\<rparr>" and ?stored = "\<lambda>i. (linked r)\<lparr>ru_server := Some i\<rparr>"
  have ch: "ru_channels ?r \<noteq> []" "[] \<notin> set (ru_channels ?r)" using assms(1,2) by simp_all
  have g: "good_row st ?r = good_row st r" for st by (simp add: good_row_def)
  have known: "server_known st (ru_server ?r) \<longleftrightarrow> i \<in> set (user_servers st)" for st by (simp add: server_known_def)
  show ?case
  proof (cases "good_row st r \<and> i \<in> set (user_servers st)")
    case True
    then obtain row where row: "repo_CreateRule new_id st ?r = Inr (st\<lparr>user_rules := user_rules st @ [row]\<rparr>, linked ?r)"
      "db_rule row = linked ?r" "db_enabled row"
      using repo_create_exact(1) [OF ch, of st new_id] unfolding g known by blast
    let ?st1 = "st\<lparr>user_rules := user_rules st @ [row]\<rparr>"
    have k1: "k ?st1 ids = k st ids" "k st (i # ids) = Suc (k st ids)"
      using True by (simp_all add: k_def good_row_def channels_on_def)
    obtain st2 a where rest: "create_each new_id ?st1 r ids = (st2, a)" by fastforce
    have ih: "appended ?st1 (map ?stored (take (k st ids) ids)) st2"
      "if k st ids = length ids then a = Inr (map ?stored ids) else \<exists>e. a = Inl e"
      using Cons.IH [of ?st1] unfolding k1 rest by (auto split: if_splits)
    have "appended st (map ?stored (take (k st (i # ids)) (i # ids))) st2"
      using ih(1) row(2,3) by (force simp: appended_def k1 intro: exI [of _ "row # rows" for rows])
    then show ?thesis
      using ih(2) row(1) rest by (cases a) (auto simp: k1 split: if_splits)
  next
    case False
    then obtain e where "repo_CreateRule new_id st ?r = Inl e"
      using repo_create_exact(2) [OF ch, of st new_id] unfolding g known by blast
    moreover have "k st (i # ids) = 0" using False by (simp add: k_def)
    ultimately show ?thesis by (simp add: appended_nil)
  qed
qed

definition refused_condition :: "rule_form \<Rightarrow> bool" where
  \<comment> \<open>a measured metric without a condition the API knows\<close>
  "refused_condition f \<longleftrightarrow> \<not> isSpecialMetric (ruleMetric f) \<and> ruleOperator f \<notin> {''>'', ''<''}"

definition known_metric :: "string \<Rightarrow> bool" where
  "known_metric m \<longleftrightarrow> m \<in> insert ''network_latency'' (set percent_metrics) \<or> isSpecialMetric m"

lemma known_metrics:
  "known_metric ''status''" "known_metric ''container''" "known_metric ''service''" "known_metric ''website''"
  "known_metric ''ssl''" "known_metric ''cpu''" "known_metric ''ram''" "known_metric ''disk''"
  "known_metric ''network_latency''" "known_metric ''network_loss''"
  by (simp_all add: known_metric_def percent_metrics_def isSpecialMetric_def)

lemma known_effect_url: "known_metric (ruleMetric (form s)) \<Longrightarrow> known_metric (ruleMetric (form (effect_url p s)))"
proof -
  assume k: "known_metric (ruleMetric (form s))"
  have "form (case t of Some t \<Rightarrow> ui_update (\<lambda>u. u\<lparr>activeTab := t\<rparr>) s | None \<Rightarrow> s) = form s" for t
    by (simp split: option.split)
  with k show ?thesis
    by (auto simp: effect_url_def url_network_def url_website_def known_metrics Let_def
        split: option.split alert_category.split)
qed

lemma known_reachable: "form_reachable p s \<Longrightarrow> known_metric (ruleMetric (form s))"
proof (induction rule: form_reachable.induct)
  case (start role)
  have "known_metric (ruleMetric (form (init_alerts role)))"
    by (simp add: init_alerts_def init_rule_form_def known_metrics)
  then show ?case by (rule known_effect_url)
next
  case (step s t)
  from step(2,3) show ?case
  proof (induction rule: form_step.induct)
    case (category s cat)
    then show ?case
      by (cases cat) (simp_all add: handleSelectCategory_def select_category_form_def known_metrics Let_def)
  next
    case (website s item)
    then show ?case by (auto simp: form_fields website_conditions_def known_metrics Let_def)
  next
    case (websites_loaded s ws)
    then show ?case by (intro known_effect_url) (simp add: form_fields)
  next
    case (answered s c reply)
    then show ?case
      by (auto simp: createRule_finish_def reset_form_def known_metrics Let_def split: sum.split created.split)
  qed (auto simp: form_fields known_metrics)
qed

lemma valid_created:
  assumes "createRule_check (form s) = None" "known_metric (ruleMetric (form s))" "numbers_in_range r"
    and "ru_metric r = ruleMetric (form s)" "ru_operator r = payload_operator (form s)"
    and "ru_threshold r = number_or_0 (payload_threshold (form s))"
  shows "validateRule (normalize_condition r) =
    (if refused_condition (form s) then ''Unsupported alert condition'' else [])"
proof (cases "isSpecialMetric (ruleMetric (form s))")
  case True
  then have "validateRule (normalize_condition r) = []" using assms(3,4) by (intro validate_special) simp_all
  with True show ?thesis by (simp add: refused_condition_def)
next
  case False
  let ?f = "form s"
  obtain q where q: "parse_float (ruleThreshold ?f) = Fin q" "0 \<le> q"
      "q \<le> (if ruleMetric ?f = ''network_latency'' then 60000 else 100)"
    using assms(1) [unfolded createRule_check_None] threshold_error_None [OF False] by auto
  have plain: "\<not> state_metric (ru_metric r)" "ruleMetric ?f \<noteq> ''ssl''"
    using False assms(4) by (auto simp: special_metrics)
  then have "ru_operator r = ruleOperator ?f" "ru_threshold r = q"
    using assms(5,6) q(1) False by (simp_all add: payload_operator_def payload_threshold_def number_or_0_def Let_def)
  then have "validateRule (normalize_condition r) =
      (if ruleOperator ?f = ''>'' \<or> ruleOperator ?f = ''<'' then [] else ''Unsupported alert condition'')"
    using validate_measured [of "normalize_condition r"] assms(2-4) plain(1) q False by (simp add: known_metric_def)
  with False show ?thesis by (simp add: refused_condition_def)
qed

lemma rule_of_create_exact:
  assumes check: "createRule_check (form s) = None" and known: "known_metric (ruleMetric (form s))"
    and name: "trim (ruleName (form s)) \<noteq> []" and interval: "ruleRepeatInterval (form s) \<in> set repeat_options"
    and ids: "list_all clean_id (selectedServerIds (form s))" "distinct (selectedServerIds (form s))"
  obtains b where "rule_of_create (createRule_body s) =
      (if refused_condition (form s) then Inl ''Unsupported alert condition'' else Inr b)"
    "\<And>i. (linked b)\<lparr>ru_server := i\<rparr> = meant s i" "ru_server b = payloadServerId s"
    "ru_servers b = payloadServerIds s" "ru_channels b = selectedChannelIds (form s)"
proof -
  obtain q where q: "parse_int (ruleDuration (form s)) = Fin q" "1 \<le> q" "q \<le> 1440"
    using check [unfolded createRule_check_None] out_of_range_iff by blast
  with parse_int_cases [of "ruleDuration (form s)"] obtain d where d: "q = of_int d" by auto
  with q have d': "1 \<le> d" "d \<le> 1440" by simp_all
  obtain k where k: "num_or (parse_int (ruleRepeatInterval (form s))) (Fin 0) = Fin (of_int k)" "0 \<le> k" "k \<le> 1440"
    using repeat_parsed [OF interval] .
  let ?r = "created_base s d k" and ?b = "normalize_condition (created_base s d k)"
  have dec: "decode_rule (createRule_body s) = Some ?r"
    using create_decoded [of s d k] q(1) d d' k by simp
  note p = payload_ids [OF ids]
  have scope: "normalize_scope (?r\<lparr>ru_name := trim (ru_name ?r)\<rparr>) = ?r"
    using normalize_scope_clean [OF p(1,2) _ p(3), of ?r] p(4)
    by (simp add: created_base_def Let_def)
  have "numbers_in_range ?r"
    using d' k name check [unfolded createRule_check_None]
    by (simp add: numbers_in_range_def created_base_def Let_def)
  then have valid: "validateRule ?b = (if refused_condition (form s) then ''Unsupported alert condition'' else [])"
    by (intro valid_created [OF check known]) (simp_all add: created_base_def Let_def)
  have "rule_of_create (createRule_body s) =
      (if refused_condition (form s) then Inl ''Unsupported alert condition'' else Inr ?b)"
    unfolding rule_of_create_def dec option.case Let_def scope using valid by simp
  moreover have "(linked ?b)\<lparr>ru_server := i\<rparr> = meant s i" for i
    using d q(1) k(1)
    by (auto simp: linked_def normalize_condition_def created_base_def meant_def minutes_of_def payload_operator_def
        payload_threshold_def number_or_0_def isSpecialMetric_def state_metric_def Let_def)
  moreover have "ru_server ?b = payloadServerId s" "ru_servers ?b = payloadServerIds s"
    "ru_channels ?b = selectedChannelIds (form s)"
    by (simp_all add: created_base_def Let_def)
  ultimately show thesis using that [of ?b] by blast
qed

lemma known_each: "takeWhile (server_known st) (map Some ids) = map Some (takeWhile (\<lambda>i. i \<in> set (user_servers st)) ids)"
  by (simp add: takeWhile_map server_known_def comp_def)

lemma row_fits_meant: "(\<And>i. (linked b)\<lparr>ru_server := i\<rparr> = meant s i) \<Longrightarrow> row_fits (meant s i) = row_fits b"
proof -
  assume b: "\<And>i. (linked b)\<lparr>ru_server := i\<rparr> = meant s i"
  have "row_fits ((linked b)\<lparr>ru_server := i\<rparr>) = row_fits b" by (simp add: row_fits_def linked_def)
  with b [of i] show ?thesis by simp
qed

lemma linked_self: "(linked b)\<lparr>ru_server := ru_server b\<rparr> = linked b"
  by (cases b) (simp add: linked_def)

lemma created_exact:
  fixes st :: alert_store
  assumes sent: "createRule_begin s = (s', Some rq)" and known: "known_metric (ruleMetric (form s))"
    and name: "trim (ruleName (form s)) \<noteq> []" and interval: "ruleRepeatInterval (form s) \<in> set repeat_options"
    and ids: "list_all clean_id (selectedServerIds (form s))" "distinct (selectedServerIds (form s))"
    and chans: "[] \<notin> set (selectedChannelIds (form s))"
    and role: "guard_passed With_admin role" and cond: "\<not> refused_condition (form s)"
  defines "n \<equiv> (if channels_on st (selectedChannelIds (form s)) \<and> row_fits (meant s None)
                 then length (takeWhile (server_known st) (targets s)) else 0)"
  shows "appended st (map (meant s) (take n (targets s))) (fst (CreateRule new_id role st (the (req_body rq)))) \<and>
    (if n = length (targets s)
     then snd (CreateRule new_id role st (the (req_body rq))) = Inr (map (meant s) (targets s))
     else \<exists>m. snd (CreateRule new_id role st (the (req_body rq))) = Inl m)"
proof -
  have check: "createRule_check (form s) = None" and rq: "the (req_body rq) = createRule_body s"
    using sent by (simp_all add: createRule_begin_Some request_send_def)
  obtain b where b: "rule_of_create (createRule_body s) = Inr b" "\<And>i. (linked b)\<lparr>ru_server := i\<rparr> = meant s i"
    "ru_server b = payloadServerId s" "ru_servers b = payloadServerIds s" "ru_channels b = selectedChannelIds (form s)"
    using rule_of_create_exact [OF check known name interval ids] cond by metis
  have ch: "ru_channels b \<noteq> []" "[] \<notin> set (ru_channels b)"
    using check [unfolded createRule_check_None] chans b(5) by simp_all
  have good: "good_row st b \<longleftrightarrow> channels_on st (selectedChannelIds (form s)) \<and> row_fits (meant s None)"
    using row_fits_meant [OF b(2), of None] by (simp add: good_row_def b(5))
  show ?thesis
  proof (cases "payloadServerIds s")
    case Nil
    then have ts: "targets s = [payloadServerId s]" by (simp add: targets_def)
    have stored: "linked b = meant s (payloadServerId s)"
      using b(2) [of "payloadServerId s"] b(3) linked_self [of b] by simp
    have c: "CreateRule new_id role st (createRule_body s) =
        (case repo_CreateRule new_id st b of
           Inl e \<Rightarrow> (st, Inl (create_message False e)) | Inr (st1, q) \<Rightarrow> (st1, Inr [q]))"
      using role b(1,4) Nil by (simp add: CreateRule_def)
    show ?thesis
    proof (cases "good_row st b \<and> server_known st (ru_server b)")
      case True
      then show ?thesis
        using repo_create_exact(1) [OF ch True, of new_id] good b(3)
        by (auto simp: c rq ts n_def stored appended_def)
    next
      case False
      then show ?thesis
        using repo_create_exact(2) [OF ch False, of new_id] good b(3)
        by (auto simp: c rq ts n_def appended_nil)
    qed
  next
    case (Cons i is')
    have "length (payloadServerIds s) \<noteq> 1" by (rule payload_ids(3) [OF ids])
    with Cons have many: "1 < length (payloadServerIds s)" by (cases is') auto
    let ?ids = "payloadServerIds s"
    have ts: "targets s = map Some ?ids" using Cons by (simp add: targets_def)
    have c: "CreateRule new_id role st (createRule_body s) =
        (case create_each new_id st b ?ids of
           (st1, Inl e) \<Rightarrow> (st1, Inl (create_message True e)) | (st1, Inr rs) \<Rightarrow> (st1, Inr rs))"
      using role b(1,4) many by (simp add: CreateRule_def)
    have n: "n = (if good_row st b then length (takeWhile (\<lambda>i. i \<in> set (user_servers st)) ?ids) else 0)"
      by (simp add: n_def good ts known_each)
    obtain st1 a where each: "create_each new_id st b ?ids = (st1, a)" by fastforce
    have rules: "map (\<lambda>i. (linked b)\<lparr>ru_server := Some i\<rparr>) xs = map (meant s) (map Some xs)" for xs
      using b(2) by simp
    have "appended st (map (meant s) (take n (targets s))) st1 \<and>
        (if n = length (targets s) then a = Inr (map (meant s) (targets s)) else \<exists>e. a = Inl e)"
      using create_each_exact [OF ch, of st ?ids new_id]
      unfolding each fst_conv snd_conv n [symmetric] rules ts take_map length_map .
    then show ?thesis by (cases a) (auto simp: c rq each split: if_splits)
  qed
qed


definition demo_store :: "(string \<times> bool) list \<Rightarrow> alert_store" where
  "demo_store chans = \<lparr>user_servers = [''a'', ''b''], user_channels = chans, user_rules = []\<rparr>"


section \<open>The dialog that edits a rule\<close>

lemma number_accepted_int:
  assumes "number_accepted lo hi v"
  obtains i where "v = Fin (of_int i)" "int lo \<le> i" "i \<le> int hi"
proof -
  obtain q where q: "v = Fin q" "q = of_int \<lfloor>q\<rfloor>" "of_nat lo \<le> q" "q \<le> of_nat hi"
    using assms by (cases v) (auto simp: number_accepted_def)
  then have "(of_int (int lo) :: rat) \<le> of_int \<lfloor>q\<rfloor>" "(of_int \<lfloor>q\<rfloor> :: rat) \<le> of_int (int hi)" by simp_all
  then have "int lo \<le> \<lfloor>q\<rfloor>" "\<lfloor>q\<rfloor> \<le> int hi" unfolding of_int_le_iff by simp_all
  with q(1,2) that [of "\<lfloor>q\<rfloor>"] show thesis by metis
qed

definition refused_operator :: "rule_edit \<Rightarrow> bool" where
  "refused_operator e \<longleftrightarrow> editMetric e \<in> {''cpu'', ''ram'', ''disk''} \<and> editOperator e \<in> {''>='', ''<=''}"

lemma edit_decoded:
  assumes "editDuration e = Fin (of_int d)" "1 \<le> d" "d \<le> 1440"
    and "editRepeat e = Fin (of_int k)" "0 \<le> k" "k \<le> 1440"
  shows "decode_rule (editRule_body e) =
    Some \<lparr>ru_name = trim (editName e), ru_metric = editMetric e,
          ru_operator = (if isEventMetric (editMetric e) then ''=='' else editOperator e),
          ru_threshold = number_or_0 (if isEventMetric (editMetric e) then Fin 0 else editThreshold e),
          ru_duration = d, ru_repeat = k, ru_target = editTargetName_payload e,
          ru_server = editServerId_payload e, ru_servers = [], ru_channels = editChannelIds e\<rparr>"
proof -
  have "int64 (of_int d)" "int64 (of_int k)" using assms by (simp_all add: int64_minutes)
  from decode_edit [OF this] show ?thesis by (simp add: editRule_body_def assms(1,4))
qed

lemma measured_metrics:
  assumes "m \<in> insert ''network_latency'' (set percent_metrics)"
  shows "\<not> isEventMetric m" "\<not> state_metric m" "\<not> isSpecialMetric m"
    "edit_threshold_bounds m = Some (if m \<in> {''cpu'', ''ram'', ''disk''} then 1 else 0,
       if m = ''network_latency'' then 60000 else 100)"
    "edit_operators m = (if m \<in> {''cpu'', ''ram'', ''disk''} then [''>'', ''>='', ''<'', ''<=''] else [''>'', ''<''])"
  using assms
  by (auto simp: percent_metrics_def isEventMetric_def state_metric_def isSpecialMetric_def
      edit_threshold_bounds_def edit_operators_def)

lemma edit_threshold_range:
  assumes "m \<in> insert ''network_latency'' (set percent_metrics)"
    and "case edit_threshold_bounds m of Some (lo, hi) \<Rightarrow> number_accepted lo hi t | None \<Rightarrow> True"
  shows "0 \<le> number_or_0 t \<and> number_or_0 t \<le> (if m = ''network_latency'' then 60000 else 100)"
proof -
  have "number_accepted (if m \<in> {''cpu'', ''ram'', ''disk''} then 1 else 0) (if m = ''network_latency'' then 60000 else 100) t"
    using assms(2) by (simp add: measured_metrics(4) [OF assms(1)] split: if_splits)
  then obtain i where "t = Fin (of_int i)" "0 \<le> i" "i \<le> (if m = ''network_latency'' then 60000 else 100)"
    by (rule number_accepted_int) (auto split: if_splits)
  then show ?thesis by (auto simp: number_or_0_def)
qed

definition edited :: "rule_edit \<Rightarrow> api_rule" where
  \<comment> \<open>the rule the dialog describes\<close>
  "edited e =
     \<lparr>ru_name = trim (editName e), ru_metric = editMetric e,
      ru_operator = (if isEventMetric (editMetric e) then ''=='' else editOperator e),
      ru_threshold = number_or_0 (if isEventMetric (editMetric e) then Fin 0 else editThreshold e),
      ru_duration = minutes_of (editDuration e), ru_repeat = minutes_of (editRepeat e),
      ru_target = cleaned (editTargetName_payload e), ru_server = cleaned (editServerId_payload e),
      ru_servers = [], ru_channels = uniqueStrings (editChannelIds e)\<rparr>"

lemma event_state: "isEventMetric m \<longleftrightarrow> state_metric m"
  by (auto simp: isEventMetric_def state_metric_def)

lemma rule_of_update_exact:
  assumes submit: "edit_submittable e" and name: "trim (editName e) \<noteq> []" and chans: "editChannelIds e \<noteq> []"
    and metric: "known_metric (editMetric e)"
    and op: "editOperator e \<in> set (edit_operators (editMetric e)) \<or> isSpecialMetric (editMetric e)"
  obtains r where "rule_of_update (editRule_body e) =
      (if refused_operator e then Inl ''Unsupported alert condition'' else Inr r)"
    "linked r = edited e" "ru_server r = cleaned (editServerId_payload e)" "ru_channels r = editChannelIds e"
proof -
  obtain d where d: "editDuration e = Fin (of_int d)" "1 \<le> d" "d \<le> 1440"
    using submit number_accepted_int [of 1 1440 "editDuration e"] by (auto simp: edit_submittable_def)
  obtain k where k: "editRepeat e = Fin (of_int k)" "0 \<le> k" "k \<le> 1440"
    using submit number_accepted_int [of 0 1440 "editRepeat e"] by (auto simp: edit_submittable_def)
  note dec = edit_decoded [OF d k]
  let ?r0 = "the (decode_rule (editRule_body e))"
  define r where "r = normalize_condition (?r0\<lparr>ru_name := trim (ru_name ?r0), ru_server := cleaned (ru_server ?r0)\<rparr>)"
  have answer: "rule_of_update (editRule_body e) = (if validateRule r \<noteq> [] then Inl (validateRule r) else Inr r)"
    by (simp add: rule_of_update_def dec r_def Let_def)
  have range: "numbers_in_range r"
    using d k name chans by (simp add: r_def dec numbers_in_range_def)
  have stored: "linked r = edited e" "ru_server r = cleaned (editServerId_payload e)" "ru_channels r = editChannelIds e"
    using d(1) k(1)
    by (auto simp: r_def dec linked_def edited_def normalize_condition_def minutes_of_def number_or_0_def event_state)
  have m: "ru_metric r = editMetric e" by (simp add: r_def dec)
  have "validateRule r = (if refused_operator e then ''Unsupported alert condition'' else [])"
  proof (cases "isSpecialMetric (editMetric e)")
    case True
    then have "\<not> refused_operator e" by (auto simp: refused_operator_def isSpecialMetric_def)
    then show ?thesis using validate_special [OF range] True m by simp
  next
    case False
    then have measured: "editMetric e \<in> insert ''network_latency'' (set percent_metrics)"
      using metric by (simp add: known_metric_def)
    note mm = measured_metrics [OF measured]
    have fields: "ru_operator r = editOperator e" "ru_threshold r = number_or_0 (editThreshold e)"
      using mm(1,2) by (simp_all add: r_def dec)
    have "0 \<le> number_or_0 (editThreshold e) \<and>
        number_or_0 (editThreshold e) \<le> (if editMetric e = ''network_latency'' then 60000 else 100)"
      using submit by (intro edit_threshold_range [OF measured]) (simp add: edit_submittable_def)
    with fields have v: "validateRule r =
        (if editOperator e = ''>'' \<or> editOperator e = ''<'' then [] else ''Unsupported alert condition'')"
      using validate_measured [OF range] measured m by simp
    have "editOperator e \<in> set (edit_operators (editMetric e))" using False op by blast
    then have "refused_operator e \<longleftrightarrow> \<not> (editOperator e = ''>'' \<or> editOperator e = ''<'')"
      unfolding mm(5) by (auto simp: refused_operator_def split: if_splits)
    with v show ?thesis by simp
  qed
  then have "rule_of_update (editRule_body e) =
      (if refused_operator e then Inl ''Unsupported alert condition'' else Inr r)"
    using answer by simp
  with stored show thesis using that by blast
qed

lemma repo_update_exact:
  assumes "ru_channels r \<noteq> []" "[] \<notin> set (ru_channels r)" "uuid i = Some i"
  shows "repo_UpdateRule uuid st i r =
    (if \<not> server_known st (ru_server r) then Inl ErrInvalidServerSelection
     else if \<not> channels_on st (ru_channels r) then Inl ErrInvalidChannelSelection
     else if i \<notin> db_id ` set (user_rules st) then Inl ErrRuleNotFound
     else if \<not> row_fits r then Inl Query_failed
     else Inr (st\<lparr>user_rules := map (\<lambda>x. if db_id x = i then x\<lparr>db_rule := linked r\<rparr> else x) (user_rules st)\<rparr>, linked r))"
  using selection_exact [OF assms(1,2), of st] assms(3) by (simp add: repo_UpdateRule_def)

text \<open>
  C9. What the API answers to an edit that the dialog lets a user save, for a rule of one of the metrics and
  operators it offers: only an administrator's is taken; \<open>>=\<close> and \<open><=\<close>, which the dialog offers for a
  resource, are refused; then a server that is gone, a channel that is gone or switched off (the
  dialog lists those too), a rule that is gone, and a name or target of more than 255 characters (the
  dialog sets no limit).  Otherwise the row of this rule, and no other, becomes what the dialog shows.
\<close>

theorem edited_rule_answer:
  assumes "handleSaveEdit_begin s = (s', Some rq)" and "editingRule (edit s) = Some rule"
    and "edit_submittable (edit s)" and "known_metric (editMetric (edit s))"
    and "editOperator (edit s) \<in> set (edit_operators (editMetric (edit s))) \<or> isSpecialMetric (editMetric (edit s))"
    and "[] \<notin> set (editChannelIds (edit s))" and "clean_id (ar_id rule)" and "uuid (ar_id rule) = Some (ar_id rule)"
  shows "req_endpoint rq = ''/alerts/rules/'' @ ar_id rule \<and>
    UpdateRule uuid role st (ar_id rule) (the (req_body rq)) =
     (if \<not> guard_passed With_admin role then (st, Inl (forbidden role))
      else if refused_operator (edit s) then (st, Inl ''Unsupported alert condition'')
      else if \<not> server_known st (ru_server (edited (edit s)))
      then (st, Inl ''The selected agent is invalid or unavailable'')
      else if \<not> channels_on st (editChannelIds (edit s)) then (st, Inl channel_refusal)
      else if ar_id rule \<notin> db_id ` set (user_rules st) then (st, Inl ''Alert rule not found'')
      else if \<not> row_fits (edited (edit s)) then (st, Inl ''Failed to update alert rule'')
      else (st\<lparr>user_rules := map (\<lambda>x. if db_id x = ar_id rule then x\<lparr>db_rule := edited (edit s)\<rparr> else x)
                 (user_rules st)\<rparr>, Inr (edited (edit s))))"
proof -
  let ?e = "edit s"
  have sent: "trim (editName ?e) \<noteq> []" "editChannelIds ?e \<noteq> []" "the (req_body rq) = editRule_body ?e"
    "req_endpoint rq = ''/alerts/rules/'' @ ar_id rule"
    using assms(1,2) by (auto simp: handleSaveEdit_begin_def request_send_def split: if_splits)
  obtain r where r: "rule_of_update (editRule_body ?e) =
      (if refused_operator ?e then Inl ''Unsupported alert condition'' else Inr r)"
    "linked r = edited ?e" "ru_server r = cleaned (editServerId_payload ?e)" "ru_channels r = editChannelIds ?e"
    using rule_of_update_exact [OF assms(3) sent(1,2) assms(4,5)] .
  have fits: "row_fits r = row_fits (edited ?e)" using row_fits_fields(2) [of r] by (simp add: r(2))
  have srv: "ru_server r = ru_server (edited ?e)" by (simp add: r(3) edited_def)
  have i: "trim (ar_id rule) = ar_id rule" "ar_id rule \<noteq> []" using assms(7) by (simp_all add: clean_id_def)
  have ch: "ru_channels r \<noteq> []" "[] \<notin> set (ru_channels r)" using sent(2) assms(6) by (simp_all add: r(4))
  have "UpdateRule uuid role st (ar_id rule) (editRule_body ?e) =
     (if \<not> guard_passed With_admin role then (st, Inl (forbidden role))
      else if refused_operator ?e then (st, Inl ''Unsupported alert condition'')
      else (case repo_UpdateRule uuid st (ar_id rule) r of
              Inl e \<Rightarrow> (st, Inl (update_message e)) | Inr (st1, q) \<Rightarrow> (st1, Inr q)))"
    using i by (simp add: UpdateRule_def r(1))
  then show ?thesis
    unfolding sent(3,4) repo_update_exact [OF ch, where uuid = uuid and i = "ar_id rule", OF assms(8)] r(2,4) fits srv
    by (simp add: update_message_def)
qed

definition demo_edit :: "string \<Rightarrow> alerts" where
  "demo_edit op =
     edit_update (\<lambda>e. e\<lparr>editingRule := Some \<lparr>ar_id = ''r1'', ar_name = ''CPU'', ar_metric = ''cpu'', ar_operator = ''>'',
         ar_threshold = 90, ar_duration_minutes = 5, ar_enabled = True, ar_server_id = None, ar_server_name = None,
         ar_channel_ids = [''c''], ar_channels = [], ar_repeat_interval_minutes = None, ar_target_name = None\<rparr>,
         editName := ''CPU'', editMetric := ''cpu'', editOperator := op, editThreshold := Fin 90,
         editDuration := Fin 5, editRepeat := Fin 0, editChannelIds := [''c'']\<rparr>) (init_alerts ''admin'')"

definition demo_answer :: "bool \<Rightarrow> string \<Rightarrow> string + api_rule" where
  \<comment> \<open>the answer to the edit while its channel is switched on or off\<close>
  "demo_answer on op =
     snd (UpdateRule Some (Some ''admin'')
       ((demo_store [(''c'', on)])\<lparr>user_rules := [\<lparr>db_id = ''r1'', db_enabled = True, db_rule = edited (edit (demo_edit ''<''))\<rparr>]\<rparr>)
       ''r1'' (editRule_body (edit (demo_edit op))))"

theorem edited_rule_answer_witness:
  "demo_answer True ''>='' = Inl ''Unsupported alert condition'' \<and> demo_answer False ''>'' = Inl channel_refusal \<and>
   demo_answer True ''>'' = Inr (edited (edit (demo_edit ''>'')))"
proof -
  have "trim ''CPU'' \<noteq> []" by code_simp
  then have sent: "\<exists>s' rq rule. handleSaveEdit_begin (demo_edit op) = (s', Some rq) \<and>
      the (req_body rq) = editRule_body (edit (demo_edit op)) \<and>
      editingRule (edit (demo_edit op)) = Some rule \<and> ar_id rule = ''r1''" for op
    by (simp add: handleSaveEdit_begin_def demo_edit_def request_send_def)
  have ok: "edit_submittable (edit (demo_edit op))" "known_metric (editMetric (edit (demo_edit op)))"
    "editMetric (edit (demo_edit op)) = ''cpu''" "editOperator (edit (demo_edit op)) = op"
    "editChannelIds (edit (demo_edit op)) = [''c'']" for op
    by (simp_all add: demo_edit_def edit_submittable_def edit_threshold_bounds_def number_accepted_def known_metrics)
  have more: "clean_id ''r1''" "guard_passed With_admin (Some ''admin'')" "row_fits (edited (edit (demo_edit ''>'')))"
    by code_simp+
  have srv: "ru_server (edited (edit (demo_edit ''>''))) = None"
    by (simp add: edited_def demo_edit_def editServerId_payload_def init_alerts_def cleaned_def)
  have answer: "demo_answer on op =
      (if refused_operator (edit (demo_edit op)) then Inl ''Unsupported alert condition''
       else if \<not> on then Inl channel_refusal else Inr (edited (edit (demo_edit op))))"
    if "op \<in> {''>'', ''>=''}" and "op = ''>='' \<or> row_fits (edited (edit (demo_edit op))) \<and> ru_server (edited (edit (demo_edit op))) = None"
    for on op
  proof -
    obtain s' rq rule where s: "handleSaveEdit_begin (demo_edit op) = (s', Some rq)"
      "the (req_body rq) = editRule_body (edit (demo_edit op))"
      "editingRule (edit (demo_edit op)) = Some rule" "ar_id rule = ''r1''" using sent by blast
    have "editOperator (edit (demo_edit op)) \<in> set (edit_operators (editMetric (edit (demo_edit op))))"
      using that(1) unfolding ok by (auto simp: edit_operators_def)
    from edited_rule_answer [OF s(1,3) ok(1,2) disjI1 [OF this], of Some "Some ''admin''"
        "(demo_store [(''c'', on)])\<lparr>user_rules := [\<lparr>db_id = ''r1'', db_enabled = True, db_rule = edited (edit (demo_edit ''<''))\<rparr>]\<rparr>"]
    show ?thesis
      using that more(1,2) by (auto simp: s(2,4) ok demo_answer_def channels_on_def demo_store_def server_known_def refused_operator_def)
  qed
  show ?thesis
    using answer [of "''>=''" True] answer [of "''>''" False] answer [of "''>''" True] more(3) srv ok
    by (simp add: refused_operator_def)
qed

end
