(* ===== verification/AlertApiChannels.thy ===== *)
theory AlertApiChannels
  imports AlertApiProps
begin

text \<open>
  The channels of the Alert Center and the control plane together: a channel as the API shows it,
  opened in the dialog and saved, keeps its stored configuration; what the card shows of it; and the
  test that logs in as the mask.
\<close>

section \<open>A channel as the API lists it\<close>

definition listed :: "string \<Rightarrow> nat \<Rightarrow> api_channel \<Rightarrow> alert_channel" where
  \<comment> \<open>an entry of the answer of \<open>ListChannels\<close>\<close>
  "listed i used c =
     \<lparr>ac_id = i, ac_name = ch_name c, ac_type = ch_type c,
      ac_config = sanitizedChannelConfig (ch_type c) (case ch_config c of Some m \<Rightarrow> m | None \<Rightarrow> Map.empty),
      ac_enabled = True, ac_usage_count = used\<rparr>"

lemma types_lower [simp]:
  "to_lower (trim ''telegram'') = ''telegram''" "to_lower (trim ''discord'') = ''discord''"
  "to_lower (trim ''email'') = ''email''"
  by code_simp+

lemma decode_channel_body:
  "decode_channel (JObj [(''name'', JStr n), (''type'', JStr t), (''config'', JObj es)]) =
     Some \<lparr>ch_name = trim n, ch_type = to_lower (trim t), ch_config = Some (map_of (rev es))\<rparr>"
  by (simp add: decode_channel_def go_object_def lower_keys)

lemma decode_test_body:
  "decode_test (JObj [(''name'', JStr n), (''type'', JStr t), (''config'', JObj es)]) =
     Some \<lparr>ch_name = ''Test Channel'', ch_type = to_lower (trim t), ch_config = Some (map_of (rev es))\<rparr>"
  by (simp add: decode_test_def go_object_def lower_keys)

definition stored_config :: "channel_form \<Rightarrow> (string \<rightharpoonup> json)" where
  \<comment> \<open>the configuration \<open>getChannelConfig\<close> sends, as the API keeps it\<close>
  "stored_config f = (case getChannelConfig f of JObj es \<Rightarrow> map_of (rev es) | _ \<Rightarrow> Map.empty)"

lemma config_object: "\<exists>es. getChannelConfig f = JObj es"
  by (simp add: getChannelConfig_def)

lemma created_channel:
  assumes "createChannel_begin s = (s', Some rq)"
    and "CreateChannel we ma (the (req_body rq)) = Inr c"
  shows "c = \<lparr>ch_name = trim (channelName (cform s)), ch_type = to_lower (trim (channelType (cform s))),
              ch_config = Some (stored_config (cform s))\<rparr> \<and> validateChannel we ma c = []"
proof -
  let ?f = "cform s"
  obtain es where es: "getChannelConfig ?f = JObj es" using config_object by blast
  have "the (req_body rq) = JObj [(''name'', JStr (trim (channelName ?f))), (''type'', JStr (channelType ?f)),
      (''config'', getChannelConfig ?f)]"
    using assms(1) by (auto simp: createChannel_begin_def Let_def request_send_def split: if_splits)
  then show ?thesis
    using assms(2) by (simp add: CreateChannel_def es decode_channel_body stored_config_def Let_def split: if_splits)
qed

lemma create_accepted:
  assumes "createChannel_begin s = (s', Some rq)" "channelType (cform s) \<in> {''telegram'', ''discord'', ''email''}"
    and "validateChannel we ma \<lparr>ch_name = trim (channelName (cform s)), ch_type = channelType (cform s),
           ch_config = Some (stored_config (cform s))\<rparr> = []"
  shows "CreateChannel we ma (the (req_body rq)) =
    Inr \<lparr>ch_name = trim (channelName (cform s)), ch_type = channelType (cform s),
         ch_config = Some (stored_config (cform s))\<rparr>"
proof -
  let ?f = "cform s"
  obtain es where es: "getChannelConfig ?f = JObj es" using config_object by blast
  have ty: "to_lower (trim (channelType ?f)) = channelType ?f" using assms(2) types_lower by auto
  have "the (req_body rq) = JObj [(''name'', JStr (trim (channelName ?f))), (''type'', JStr (channelType ?f)),
      (''config'', getChannelConfig ?f)]"
    using assms(1) by (auto simp: createChannel_begin_def Let_def request_send_def split: if_splits)
  then show ?thesis
    using assms(3) by (simp add: CreateChannel_def es decode_channel_body stored_config_def ty Let_def)
qed

section \<open>The port\<close>

lemma smtp_port_int: "\<exists>n. smtp_port p = Fin (of_int n) \<and> n \<noteq> 0"
proof -
  consider "parse_int p = NaN" | i where "parse_int p = Fin (of_int i)" using parse_int_cases by blast
  then show ?thesis
  proof cases
    case 1
    then show ?thesis by (intro exI [of _ 587]) (simp add: smtp_port_def num_or_def)
  next
    case 2
    then show ?thesis
      by (cases "i = 0") (auto simp: smtp_port_def num_or_def intro: exI [of _ 587] exI [of _ i])
  qed
qed

lemma show_rat_nat: "0 \<le> n \<Longrightarrow> show_rat (of_int n) = show_nat (nat n)"
  by (simp add: show_rat_def Let_def)

section \<open>Saving a channel unchanged\<close>

lemma merge_same:
  assumes "\<And>k v. new k = Some v \<Longrightarrow> kept v \<or> old k = Some v"
  shows "merge_config old new = old"
proof
  fix k
  show "merge_config old new k = old k" using assms [of k] by (auto simp: merge_config_def split: option.split)
qed

lemma update_same:
  assumes "decode_channel body = Some \<lparr>ch_name = ch_name c, ch_type = ch_type c, ch_config = Some new\<rparr>"
    and "ch_config c = Some old" "ch_type c \<noteq> []" "validateChannel we ma c = []"
    and "\<And>k v. new k = Some v \<Longrightarrow> kept v \<or> old k = Some v"
  shows "UpdateChannel we ma c body = Inr c"
proof -
  have "merge_config old new = old" using assms(5) by (rule merge_same)
  then show ?thesis
    using assms(1-4) by (cases c) (simp add: UpdateChannel_def Let_def str_or_def)
qed

lemma saved_body:
  assumes "saveEditChannel_check (editChannel (cedit t)) = None" "editingChannel (cedit t) = Some ch" "\<not> isViewer t"
  shows "\<exists>t' rq. handleSaveEditChannel_begin t = (t', Some rq) \<and>
    the (req_body rq) = JObj [(''name'', JStr (trim (channelName (editChannel (cedit t))))),
      (''type'', JStr (channelType (editChannel (cedit t)))), (''config'', getEditChannelConfig (editChannel (cedit t)))]"
  using assms by (simp add: saveEditChannel_Some request_send_def)

definition keeps :: "channel_form \<Rightarrow> channel_form \<Rightarrow> bool" where
  \<comment> \<open>saving the fields \<open>e\<close> is accepted by the page and sends nothing that differs from what \<open>f\<close> stored\<close>
  "keeps f e \<longleftrightarrow>
     saveEditChannel_check e = None \<and>
     (\<exists>es. getEditChannelConfig e = JObj es \<and>
        (\<forall>k v. map_of (rev es) k = Some v \<longrightarrow> kept v \<or> stored_config f k = Some v))"

definition reopened :: "string \<Rightarrow> channel_form \<Rightarrow> channel_form \<Rightarrow> channel_form" where
  "reopened i f g = edit_channel_fields (listed i 0
     \<lparr>ch_name = trim (channelName f), ch_type = channelType f, ch_config = Some (stored_config f)\<rparr>) g"

lemma keeps_telegram:
  assumes "channelType f = ''telegram''" "trim (channelName f) \<noteq> []" "trim (channelChatId f) \<noteq> []"
  shows "keeps f (reopened i f g)"
  using assms
  by (simp add: keeps_def reopened_def listed_def edit_channel_fields_def stored_config_def getChannelConfig_def
      sanitizedChannelConfig_def or_null_def config_string_def field_def getEditChannelConfig_def
      saveEditChannel_check_def Let_def)

lemma keeps_discord:
  assumes "channelType f = ''discord''" "trim (channelName f) \<noteq> []"
  shows "keeps f (reopened i f g)"
  using assms
  by (simp add: keeps_def reopened_def listed_def edit_channel_fields_def getEditChannelConfig_def
      saveEditChannel_check_def Let_def)

lemma kept_mask: "kept (JStr (trim (maskConfiguredString v)))"
proof -
  have "trim ''configured'' = ''configured''" by code_simp
  then show ?thesis by (simp add: kept_def maskConfiguredString_def split: option.split json.split)
qed

lemma reopened_email:
  assumes "channelType f = ''email''" "smtp_port (channelSMTPPort f) = Fin (of_int n)" "1 \<le> n"
  shows "\<exists>u. kept (JStr (trim u)) \<and>
    reopened i f g = g\<lparr>channelName := trim (channelName f), channelType := ''email'', channelToken := [],
      channelWebhook := [], channelSMTPPassword := [], channelChatId := [],
      channelSMTPHost := trim (channelSMTPHost f), channelSMTPPort := show_rat (of_int n),
      channelSMTPUsername := u, channelEmailFrom := trim (channelEmailFrom f),
      channelEmailTo := trim (channelEmailTo f), channelUseTLS := channelUseTLS f\<rparr>"
proof -
  let ?u = "maskConfiguredString (Some (JStr (trim (channelSMTPUsername f))))"
  have "reopened i f g = g\<lparr>channelName := trim (channelName f), channelType := ''email'', channelToken := [],
      channelWebhook := [], channelSMTPPassword := [], channelChatId := [],
      channelSMTPHost := trim (channelSMTPHost f), channelSMTPPort := show_rat (of_int n),
      channelSMTPUsername := ?u, channelEmailFrom := trim (channelEmailFrom f),
      channelEmailTo := trim (channelEmailTo f), channelUseTLS := channelUseTLS f\<rparr>"
    using assms
    by (simp add: reopened_def listed_def edit_channel_fields_def stored_config_def getChannelConfig_def
        sanitizedChannelConfig_def or_null_def config_string_def config_port_def field_def Let_def)
  then show ?thesis using kept_mask by blast
qed

lemma keeps_email:
  assumes "channelType f = ''email''" "trim (channelName f) \<noteq> []" "\<not> smtp_incomplete f"
    and "smtp_port (channelSMTPPort f) = Fin (of_int n)" "1 \<le> n"
  shows "keeps f (reopened i f g)"
proof -
  obtain u where u: "kept (JStr (trim u))" and r: "reopened i f g = g\<lparr>channelName := trim (channelName f),
      channelType := ''email'', channelToken := [],
      channelWebhook := [], channelSMTPPassword := [], channelChatId := [],
      channelSMTPHost := trim (channelSMTPHost f), channelSMTPPort := show_rat (of_int n),
      channelSMTPUsername := u, channelEmailFrom := trim (channelEmailFrom f),
      channelEmailTo := trim (channelEmailTo f), channelUseTLS := channelUseTLS f\<rparr>"
    using reopened_email [OF assms(1,4,5)] by blast
  have "smtp_port (show_rat (of_int n)) = Fin (of_int n)"
    using parse_int_show_nat [of "[]" "nat n"] show_rat_nat [of n] assms(5) by (simp add: smtp_port_def num_or_def)
  then show ?thesis
    using assms(1-4) u
    by (simp add: keeps_def r saveEditChannel_check_def smtp_incomplete_def getEditChannelConfig_def
        stored_config_def getChannelConfig_def)
qed

lemma stored_email:
  assumes "channelType f = ''email''" "smtp_port (channelSMTPPort f) = Fin (of_int n)"
  shows "stored_config f = map_of [(''use_tls'', JBool (channelUseTLS f)), (''to'', JStr (trim (channelEmailTo f))),
      (''from'', JStr (trim (channelEmailFrom f))), (''password'', JStr (channelSMTPPassword f)),
      (''username'', JStr (trim (channelSMTPUsername f))), (''smtp_port'', JNum (of_int n)),
      (''smtp_host'', JStr (trim (channelSMTPHost f)))]"
  using assms by (simp add: stored_config_def getChannelConfig_def)

lemma validateEmail_port:
  assumes "validateEmail ma cfg = []" "cfg ''smtp_port'' = Some (JNum (of_int n))"
  shows "1 \<le> n"
proof -
  have "int_of_float (of_int n) = n" by (simp add: int_of_float_def)
  then show ?thesis using assms by (simp add: validateEmail_def split: if_splits)
qed

lemma valid_email:
  assumes "validateChannel we ma \<lparr>ch_name = nm, ch_type = ''email'', ch_config = Some (stored_config f)\<rparr> = []"
    and "channelType f = ''email''" "\<not> ma []"
  obtains n where "smtp_port (channelSMTPPort f) = Fin (of_int n)" "1 \<le> n" "\<not> smtp_incomplete f" "nm \<noteq> []"
    "validateEmail ma (stored_config f) = []"
proof -
  obtain n where n: "smtp_port (channelSMTPPort f) = Fin (of_int n)" using smtp_port_int by blast
  note st = stored_email [OF assms(2) n]
  have v: "nm \<noteq> []" "validateEmail ma (stored_config f) = []"
    using assms(1) by (auto simp: validateChannel_def split: if_splits)
  have "1 \<le> n" using v(2) by (rule validateEmail_port) (simp add: st)
  moreover have "\<not> smtp_incomplete f"
    using v(2) assms(3)
    by (auto simp: validateEmail_def smtp_incomplete_def st config_text_def split: if_splits)
  ultimately show thesis using that [of n] n v by blast
qed

lemma keeps_created:
  assumes "validateChannel we ma \<lparr>ch_name = trim (channelName f), ch_type = channelType f, ch_config = Some (stored_config f)\<rparr> = []"
    and "channelType f \<in> {''telegram'', ''discord'', ''email''}" "\<not> ma []"
  shows "keeps f (reopened i f g)"
proof -
  have name: "trim (channelName f) \<noteq> []"
    using assms(1) by (auto simp: validateChannel_def)
  consider "channelType f = ''telegram''" | "channelType f = ''discord''" | "channelType f = ''email''"
    using assms(2) by blast
  then show ?thesis
  proof cases
    case 1
    then have "trim (channelChatId f) \<noteq> []"
      using assms(1)
      by (auto simp: validateChannel_def stored_config_def getChannelConfig_def config_text_def Let_def split: if_splits)
    with 1 name show ?thesis by (intro keeps_telegram)
  next
    case 2
    with name show ?thesis by (intro keeps_discord)
  next
    case 3
    obtain n where "smtp_port (channelSMTPPort f) = Fin (of_int n)" "1 \<le> n" "\<not> smtp_incomplete f"
      using valid_email [OF assms(1) [unfolded 3] 3 assms(3)] .
    with 3 name show ?thesis by (intro keeps_email)
  qed
qed

lemma listed_fields: "edit_channel_fields (listed i n c) g = edit_channel_fields (listed i 0 c) g"
  by (simp add: edit_channel_fields_def listed_def Let_def)

lemma type_plain: "t \<in> {''telegram'', ''discord'', ''email''} \<Longrightarrow> to_lower (trim t) = t \<and> t \<noteq> []"
  using types_lower by auto

text \<open>
  C32. A notification channel survives the dialog: created by the page, stored by the control plane,
  listed with its secrets masked, opened and saved without a change, it is stored exactly as it was,
  secrets included.
\<close>

theorem channel_edit_roundtrip:
  assumes "createChannel_begin s = (s', Some rq)"
    and "channelType (cform s) \<in> {''telegram'', ''discord'', ''email''}"
    and "CreateChannel we ma (the (req_body rq)) = Inr c" and "\<not> ma []" and "\<not> isViewer u"
  shows "\<exists>t rq2. handleSaveEditChannel_begin (openEditChannelModal (listed i n c) u) = (t, Some rq2) \<and>
    UpdateChannel we ma c (the (req_body rq2)) = Inr c"
proof -
  let ?f = "cform s" and ?t = "openEditChannelModal (listed i n c) u"
  note ty = type_plain [OF assms(2)]
  have c: "c = \<lparr>ch_name = trim (channelName ?f), ch_type = channelType ?f, ch_config = Some (stored_config ?f)\<rparr>"
    using conjunct1 [OF created_channel [OF assms(1,3)]] ty by simp
  have valid: "validateChannel we ma c = []"
    by (rule conjunct2 [OF created_channel [OF assms(1,3)]])
  define e where "e = edit_channel_fields (listed i n c) (editChannel (cedit u))"
  have e: "e = reopened i ?f (editChannel (cedit u))"
    unfolding e_def reopened_def listed_fields [of i n] c ..
  have "keeps ?f e" unfolding e by (rule keeps_created [OF valid [unfolded c] assms(2,4)])
  then obtain es where ok: "saveEditChannel_check e = None" and es: "getEditChannelConfig e = JObj es"
    and same: "\<And>k v. map_of (rev es) k = Some v \<Longrightarrow> kept v \<or> stored_config ?f k = Some v"
    unfolding keeps_def by blast
  have t: "editChannel (cedit ?t) = e" "editingChannel (cedit ?t) = Some (listed i n c)" "\<not> isViewer ?t"
    using assms(5) by (simp_all add: openEditChannelModal_def e_def isViewer_def)
  have fields: "channelName e = ch_name c" "channelType e = ch_type c"
    by (simp_all add: e_def edit_channel_fields_secrets listed_def)
  obtain t' rq2 where sent: "handleSaveEditChannel_begin ?t = (t', Some rq2)"
    "the (req_body rq2) = JObj [(''name'', JStr (trim (ch_name c))), (''type'', JStr (ch_type c)), (''config'', JObj es)]"
    using saved_body [of ?t, unfolded t(1) fields es, OF ok t(2,3)] by blast
  have "UpdateChannel we ma c (the (req_body rq2)) = Inr c"
  proof (rule update_same [OF _ _ _ valid])
    show "decode_channel (the (req_body rq2)) =
        Some \<lparr>ch_name = ch_name c, ch_type = ch_type c, ch_config = Some (map_of (rev es))\<rparr>"
      using ty by (simp add: sent(2) decode_channel_body c)
    show "ch_config c = Some (stored_config ?f)" "ch_type c \<noteq> []" using ty by (simp_all add: c)
    show "kept v \<or> stored_config ?f k = Some v" if "map_of (rev es) k = Some v" for k v
      using same [OF that] .
  qed
  with sent(1) show ?thesis by blast
qed

definition with_channel :: "channel_form \<Rightarrow> alerts" where
  "with_channel f = cform_update (\<lambda>_. f) (init_alerts ''admin'')"

definition demo_bot :: channel_form where
  "demo_bot = init_channel_form\<lparr>channelName := ''ops'', channelChatId := ''42'',
     channelToken := ''12345678:'' @ replicate 35 CHR ''x''\<rparr>"

definition demo_mail :: channel_form where
  "demo_mail = init_channel_form\<lparr>channelName := ''mail'', channelType := ''email'', channelSMTPHost := ''smtp'',
     channelSMTPUsername := ''ops'', channelSMTPPassword := ''old'', channelEmailFrom := ''a'', channelEmailTo := ''b''\<rparr>"

lemma created_demo:
  assumes "f = demo_bot \<or> f = demo_mail"
  obtains rq s' c where "createChannel_begin (with_channel f) = (s', Some rq)" "cform (with_channel f) = f"
    "CreateChannel (\<lambda>_. []) (\<lambda>t. t \<noteq> []) (the (req_body rq)) = Inr c"
    "ch_config c = Some (stored_config f)"
proof -
  have f: "cform (with_channel f) = f" by (simp add: with_channel_def)
  have ty: "channelType f \<in> {''telegram'', ''discord'', ''email''}" "channelType f \<noteq> ''discord''"
    using assms by (auto simp: demo_bot_def demo_mail_def init_channel_form_def)
  have "validateChannel (\<lambda>_. []) (\<lambda>t. t \<noteq> []) \<lparr>ch_name = trim (channelName f), ch_type = channelType f,
      ch_config = Some (stored_config f)\<rparr> = []"
    using assms by (elim disjE) (simp_all only:, code_simp+)
  moreover obtain s' rq where "createChannel_begin (with_channel f) = (s', Some rq)"
    using ty(2) by (simp add: createChannel_begin_def f Let_def)
  ultimately show thesis using that create_accepted [of "with_channel f"] ty(1) f by simp
qed

theorem channel_edit_roundtrip_witness:
  "\<exists>c t rq2. handleSaveEditChannel_begin (openEditChannelModal (listed ''c1'' 0 c) (init_alerts ''admin'')) = (t, Some rq2) \<and>
     UpdateChannel (\<lambda>_. []) (\<lambda>t. t \<noteq> []) c (the (req_body rq2)) = Inr c \<and>
     config_text (the (ch_config c)) ''chat_id'' = ''42''"
proof -
  obtain rq s' c where c: "createChannel_begin (with_channel demo_bot) = (s', Some rq)"
      "cform (with_channel demo_bot) = demo_bot"
      "CreateChannel (\<lambda>_. []) (\<lambda>t. t \<noteq> []) (the (req_body rq)) = Inr c" "ch_config c = Some (stored_config demo_bot)"
    using created_demo by blast
  have ty: "channelType (cform (with_channel demo_bot)) \<in> {''telegram'', ''discord'', ''email''}"
    unfolding c(2) by (simp add: demo_bot_def init_channel_form_def)
  have "\<not> isViewer (init_alerts ''admin'')" by (simp add: isViewer_def init_alerts_def)
  then obtain t rq2 where
    "handleSaveEditChannel_begin (openEditChannelModal (listed ''c1'' 0 c) (init_alerts ''admin'')) = (t, Some rq2)"
    "UpdateChannel (\<lambda>_. []) (\<lambda>t. t \<noteq> []) c (the (req_body rq2)) = Inr c"
    using channel_edit_roundtrip [OF c(1) ty c(3), of "init_alerts ''admin''" "''c1''" 0] by auto
  moreover have "config_text (stored_config demo_bot) ''chat_id'' = ''42''" by code_simp
  ultimately show ?thesis using c(4) by (intro exI [of _ c] exI [of _ t] exI [of _ rq2]) simp
qed

section \<open>Testing an edited channel\<close>

lemma masked: "trim v \<noteq> [] \<Longrightarrow> maskConfiguredString (Some (JStr (trim v))) = ''configured''"
  by (simp add: maskConfiguredString_def)

text \<open>
  C33. The test button of the dialog with a new password does not test the channel: the user name of
  an email channel reaches the page as the mask \<open>configured\<close>, and the test, which unlike a save is
  not merged with what is stored, logs in under that name.
\<close>

theorem tested_under_mask:
  assumes "createChannel_begin s = (s', Some rq)" and "channelType (cform s) = ''email''"
    and "CreateChannel we ma (the (req_body rq)) = Inr c" and "\<not> ma []"
    and "trim (channelSMTPUsername (cform s)) \<noteq> []" and "p \<noteq> []"
    and "t = fst (run (Channel_modal_input (Field_password p)) (openEditChannelModal (listed i n c) u))"
  shows "\<exists>t' rq2 d. testEditChannel_begin t = (t', Some rq2) \<and> req_endpoint rq2 = ''/alerts/channels/test'' \<and>
    TestChannelConfig we ma (the (req_body rq2)) = Inr d \<and>
    config_text (the (ch_config d)) ''username'' = ''configured'' \<and>
    config_text (the (ch_config c)) ''username'' = trim (channelSMTPUsername (cform s)) \<and>
    config_text (the (ch_config d)) ''password'' = p"
proof -
  let ?f = "cform s"
  have c: "c = \<lparr>ch_name = trim (channelName ?f), ch_type = ''email'', ch_config = Some (stored_config ?f)\<rparr>"
    using conjunct1 [OF created_channel [OF assms(1,3)]] assms(2) by simp
  have valid: "validateChannel we ma c = []"
    by (rule conjunct2 [OF created_channel [OF assms(1,3)]])
  obtain m where m: "smtp_port (channelSMTPPort ?f) = Fin (of_int m)" "1 \<le> m" "validateEmail ma (stored_config ?f) = []"
    using valid_email [OF valid [unfolded c] assms(2,4)] .
  note st = stored_email [OF assms(2) m(1)]
  define e where "e = (editChannel (cedit (openEditChannelModal (listed i n c) u)))\<lparr>channelSMTPPassword := p\<rparr>"
  have ed: "editChannel (cedit t) = e" "editingChannel (cedit t) = Some (listed i n c)"
    by (simp_all add: assms(7) e_def no_request_def) (simp add: openEditChannelModal_def)
  have fields: "channelType e = ''email''" "channelSMTPPassword e = p" "channelSMTPUsername e = ''configured''"
    "channelSMTPHost e = trim (channelSMTPHost ?f)" "channelEmailFrom e = trim (channelEmailFrom ?f)"
    "channelEmailTo e = trim (channelEmailTo ?f)" "channelSMTPPort e = show_rat (of_int m)"
    using assms(5) m(2)
    by (simp_all add: e_def openEditChannelModal_def listed_def c edit_channel_fields_def st sanitizedChannelConfig_def
        or_null_def config_string_def config_port_def field_def masked Let_def)
  have port: "smtp_port (channelSMTPPort e) = Fin (of_int m)"
    using parse_int_show_nat [of "[]" "nat m"] show_rat_nat [of m] m(2) by (simp add: fields smtp_port_def num_or_def)
  have mask: "trim ''configured'' = ''configured''" by code_simp
  let ?es = "[(''smtp_host'', JStr (trim (channelSMTPHost ?f))), (''smtp_port'', JNum (of_int m)),
      (''username'', JStr ''configured''), (''from'', JStr (trim (channelEmailFrom ?f))),
      (''to'', JStr (trim (channelEmailTo ?f))), (''use_tls'', JBool (channelUseTLS e)), (''password'', JStr p)]"
  have cfg: "getEditChannelConfig e = JObj ?es"
    using assms(6) by (simp add: getEditChannelConfig_def fields(1-6) port mask)
  obtain t' rq2 nm where sent: "testEditChannel_begin t = (t', Some rq2)" "req_endpoint rq2 = ''/alerts/channels/test''"
    "the (req_body rq2) = JObj [(''name'', JStr nm), (''type'', JStr ''email''), (''config'', JObj ?es)]"
    using assms(6) by (simp add: testEditChannel_begin_def ed hasNewSecret_def fields(1,2) cfg request_send_def Let_def)
  let ?new = "map_of (rev ?es)"
  have "validateEmail ma ?new = validateEmail ma (stored_config ?f)"
    by (simp add: validateEmail_def config_text_def st)
  then have "TestChannelConfig we ma (the (req_body rq2)) =
      Inr \<lparr>ch_name = ''Test Channel'', ch_type = ''email'', ch_config = Some ?new\<rparr>"
    using m(3) by (simp add: sent(3) TestChannelConfig_def decode_test_body validateChannel_def Let_def)
  moreover have "config_text ?new ''username'' = ''configured''" "config_text ?new ''password'' = p"
    by (simp_all add: config_text_def)
  moreover have "config_text (the (ch_config c)) ''username'' = trim (channelSMTPUsername ?f)"
    by (simp add: c st config_text_def)
  ultimately show ?thesis using sent(1,2) by fastforce
qed

theorem tested_under_mask_witness:
  "\<exists>c rq2 d. snd (testEditChannel_begin (fst (run (Channel_modal_input (Field_password ''new''))
       (openEditChannelModal (listed ''c1'' 0 c) (init_alerts ''admin''))))) = Some rq2 \<and>
     config_text (the (ch_config c)) ''username'' = ''ops'' \<and>
     TestChannelConfig (\<lambda>_. []) (\<lambda>t. t \<noteq> []) (the (req_body rq2)) = Inr d \<and>
     config_text (the (ch_config d)) ''username'' = ''configured''"
proof -
  obtain rq s' c where c: "createChannel_begin (with_channel demo_mail) = (s', Some rq)"
      "cform (with_channel demo_mail) = demo_mail"
      "CreateChannel (\<lambda>_. []) (\<lambda>t. t \<noteq> []) (the (req_body rq)) = Inr c"
    using created_demo by blast
  have f: "channelType demo_mail = ''email''" "trim (channelSMTPUsername demo_mail) = ''ops''" by code_simp+
  define t where "t = fst (run (Channel_modal_input (Field_password ''new''))
      (openEditChannelModal (listed ''c1'' 0 c) (init_alerts ''admin'')))"
  obtain t' rq2 d where "testEditChannel_begin t = (t', Some rq2)"
    "TestChannelConfig (\<lambda>_. []) (\<lambda>t. t \<noteq> []) (the (req_body rq2)) = Inr d"
    "config_text (the (ch_config d)) ''username'' = ''configured''"
    "config_text (the (ch_config c)) ''username'' = ''ops''"
    using tested_under_mask [OF c(1) _ c(3) _ _ _ t_def, unfolded c(2) f] by auto
  then show ?thesis
    by (intro exI [of _ c] exI [of _ rq2] exI [of _ d]) (simp only: t_def [symmetric] snd_conv simp_thms)
qed

section \<open>The card of a listed channel\<close>

text \<open>The card of a Discord channel never shows the id of its webhook once the list was loaded.\<close>

lemma listed_discord_card: "ch_type c = ''discord'' \<Longrightarrow> detailText (listed i n c) = ''Discord Webhook''"
proof -
  have "webhook_id ''configured'' = []" by code_simp
  then show "ch_type c = ''discord'' \<Longrightarrow> ?thesis"
    by (simp add: detailText_def listed_def sanitizedChannelConfig_def config_string_def field_def Let_def)
qed

section \<open>Operators\<close>

text \<open>
  The page counts an operator among the users who may write, the routes do not: of all the requests
  of the Alert Center an operator's pass only the reads and the read marks.
\<close>

definition operator_may :: "string \<times> string \<times> alert_guard \<Rightarrow> bool" where
  "operator_may route \<longleftrightarrow> guard_passed (snd (snd route)) (Some ''operator'')"

lemma operator_refused:
  "map (\<lambda>(m, p, g). (m, p)) (filter operator_may alert_routes) =
     [(''GET'', ''/alerts/rules''), (''GET'', ''/alerts/channels''), (''GET'', ''/alerts/notifications''),
      (''PATCH'', ''/alerts/notifications/{id}/read''), (''POST'', ''/alerts/notifications/read-all'')]"
  by code_simp

lemma operator_not_viewer: "\<not> isViewer (init_alerts ''operator'')"
  by (simp add: isViewer_def init_alerts_def)

end
