(* ===== verification/TaskChecks.thy ===== *)
theory TaskChecks
  imports TaskContract JsVersion GoJson
begin

text \<open>
  The second half of \<open>CreateTask\<close> of \<open>backend/internal/core/server/handler.go\<close>: what it checks against
  the server a task is for, up to the insertion of the task.  \<open>json_parse\<close> is the JSON parser; the
  decoding into Go's structs is that of \<open>GoJson\<close>.
\<close>

section \<open>Versions\<close>

definition atoi :: "string \<Rightarrow> int option" where
  \<comment> \<open>\<open>strconv.Atoi\<close>, with 64 bits\<close>
  "atoi s =
     (let (neg, t) = split_sign s; v = (if neg then - digits_val t else digits_val t) in
      if t \<noteq> [] \<and> list_all is_digit t \<and> - (2 ^ 63) \<le> v \<and> v < 2 ^ 63 then Some v else None)"

definition parseVersionParts :: "string \<Rightarrow> int list" where
  "parseVersionParts version =
     (let core = hd (split_on CHR ''-'' (trim version));
          core' = hd (split_on CHR ''+'' core)
      in map (\<lambda>p. case atoi p of Some v \<Rightarrow> v | None \<Rightarrow> 0) (split_on CHR ''.'' core'))"

fun compare_from :: "nat \<Rightarrow> nat \<Rightarrow> int list \<Rightarrow> int list \<Rightarrow> int" where
  \<comment> \<open>the loop of \<open>compareVersions\<close> from \<open>index\<close> with \<open>n\<close> rounds left\<close>
  "compare_from 0 i a b = 0"
| "compare_from (Suc n) i a b =
     (if part_at a i > part_at b i then 1
      else if part_at a i < part_at b i then - 1
      else compare_from n (Suc i) a b)"

definition compareVersions :: "string \<Rightarrow> string \<Rightarrow> int" where
  "compareVersions l r =
     (let a = parseVersionParts l; b = parseVersionParts r
      in compare_from (max (length a) (length b)) 0 a b)"

section \<open>The stored server\<close>

record stored_server =
  st_os_info :: "string option"
  st_snapshot :: "string option"
  st_deletion_status :: string

definition agentVersionFromOSInfo :: "(string \<Rightarrow> json option) \<Rightarrow> string option \<Rightarrow> string" where
  "agentVersionFromOSInfo json_parse raw =
     (case raw of
        None \<Rightarrow> []
      | Some t \<Rightarrow>
          if trim t = [] then []
          else case Option.bind (go_struct json_parse t) (go_text ''version'' []) of
                 Some v \<Rightarrow> trim v | None \<Rightarrow> [])"

definition osFamilyFromServer :: "(string \<Rightarrow> json option) \<Rightarrow> stored_server \<Rightarrow> string" where
  "osFamilyFromServer json_parse srv =
     (case Option.bind (st_os_info srv) (go_struct json_parse) of
        None \<Rightarrow> ''unknown''
      | Some kvs \<Rightarrow>
          (case (go_text ''os_family'' [] kvs, go_text ''os_name'' [] kvs) of
             (Some fam, Some nam) \<Rightarrow>
               (let family = to_lower (trim fam); name = to_lower nam in
                if family \<noteq> [] then family
                else if str_includes name ''windows'' then ''windows''
                else if str_includes name ''darwin'' \<or> str_includes name ''mac'' then ''macos''
                else if str_includes name ''linux'' \<or> str_includes name ''ubuntu'' \<or> str_includes name ''debian''
                then ''linux''
                else ''unknown'')
           | _ \<Rightarrow> ''unknown''))"

definition minimumLogReadAgentVersion :: string where
  "minimumLogReadAgentVersion = ''1.5.2''"

definition validateAgentFeatureVersion ::
  "(string \<Rightarrow> json option) \<Rightarrow> stored_server \<Rightarrow> string \<Rightarrow> string \<Rightarrow> string + unit" where
  "validateAgentFeatureVersion json_parse srv minimum feature =
     (let current = agentVersionFromOSInfo json_parse (st_os_info srv) in
      if current = [] then
        Inl (feature @ '' requires Agent '' @ minimum @ '' or newer. This agent has not reported a running version yet'')
      else if compareVersions current minimum < 0 then
        Inl (feature @ '' requires Agent '' @ minimum @ '' or newer. This agent reports version '' @ current)
      else Inr ())"

section \<open>Service tasks\<close>

record service_entry =
  se_name :: string
  se_status :: string
  se_source :: string

definition go_entry :: "json \<Rightarrow> service_entry option" where
  "go_entry v =
     Option.bind (go_object v) (\<lambda>kvs.
       case (go_text ''name'' [] kvs, go_text ''status'' [] kvs, go_text ''source'' [] kvs) of
         (Some n, Some t, Some c) \<Rightarrow> Some \<lparr>se_name = n, se_status = t, se_source = c\<rparr>
       | _ \<Rightarrow> None)"

definition go_services :: "(string \<Rightarrow> json option) \<Rightarrow> string \<Rightarrow> service_entry list option" where
  \<comment> \<open>the list \<open>services\<close> of a snapshot\<close>
  "go_services json_parse raw =
     Option.bind (go_struct json_parse raw) (\<lambda>kvs.
       case go_last ''services'' kvs of
         None \<Rightarrow> Some []
       | Some JNull \<Rightarrow> Some []
       | Some (JArr vs) \<Rightarrow> those (map go_entry vs)
       | _ \<Rightarrow> None)"

definition own_services :: "string list" where
  "own_services =
     [''datrixops-agent'', ''datrixops-agent.service'', ''com.datrixops.agent'', ''datrixopsagent'',
      ''datrixops-self-monitor'', ''datrixops-self-monitor.service'']"

definition validateServiceTask ::
  "(string \<Rightarrow> json option) \<Rightarrow> stored_server \<Rightarrow> string \<Rightarrow> string \<Rightarrow> string + unit" where
  "validateServiceTask json_parse srv task_type raw =
     (case Option.bind (go_struct json_parse raw)
          (\<lambda>kvs. case (go_text ''service_name'' [] kvs, go_text ''service_manager'' [] kvs) of
             (Some n, Some m) \<Rightarrow> Some (n, m) | _ \<Rightarrow> None) of
        None \<Rightarrow> Inl ''invalid service task payload''
      | Some (name, manager) \<Rightarrow>
          if name = [] \<or> manager = [] then Inl ''service_name and service_manager are required''
          else if to_lower name \<in> set own_services
          then Inl ''the DatrixOps Agent cannot control its own service''
          else if manager \<notin> set [''systemd'', ''launchd'', ''windows-scm''] then Inl ''unsupported service manager''
          else if task_type = ''service_reload'' \<and> manager = ''windows-scm''
          then Inl ''Windows services do not support a generic reload action''
          else (case st_snapshot srv of
              None \<Rightarrow> Inl ''service inventory is unavailable for this server''
            | Some snapshot \<Rightarrow>
                if snapshot = [] then Inl ''service inventory is unavailable for this server''
                else (case go_services json_parse snapshot of
                    None \<Rightarrow> Inl ''service inventory is invalid''
                  | Some services \<Rightarrow>
                      (case find (\<lambda>e. se_name e = name \<and> se_source e = manager) services of
                         None \<Rightarrow> Inl ''service is not present in the agent-reported inventory''
                       | Some e \<Rightarrow> if se_status e = ''not_installed'' then Inl ''service is not installed'' else Inr ()))))"

section \<open>Log tasks\<close>

definition id_first :: "char \<Rightarrow> bool" where
  "id_first c \<longleftrightarrow> is_digit c \<or> (let k = char_code c in 65 \<le> k \<and> k \<le> 90 \<or> 97 \<le> k \<and> k \<le> 122)"

definition service_identifier :: "string \<Rightarrow> bool" where
  \<comment> \<open>\<open>^[a-zA-Z0-9*][a-zA-Z0-9_.@:$ *\-]{0,199}$\<close>\<close>
  "service_identifier s \<longleftrightarrow>
     (case s of
        [] \<Rightarrow> False
      | c # cs \<Rightarrow> (id_first c \<or> c = CHR ''*'') \<and> length cs \<le> 199 \<and>
          list_all (\<lambda>d. id_first d \<or> d \<in> set ''_.@:$ *-'') cs)"

definition container_identifier :: "string \<Rightarrow> bool" where
  \<comment> \<open>\<open>^[a-zA-Z0-9][a-zA-Z0-9_.-]{0,127}$\<close>\<close>
  "container_identifier s \<longleftrightarrow>
     (case s of
        [] \<Rightarrow> False
      | c # cs \<Rightarrow> id_first c \<and> length cs \<le> 127 \<and> list_all (\<lambda>d. id_first d \<or> d \<in> set ''_.-'') cs)"

record log_payload =
  lp_source :: string
  lp_unit :: string
  lp_grep :: string
  lp_since :: string
  lp_container_id :: string
  lp_lines :: string

definition go_log_payload :: "(string \<Rightarrow> json option) \<Rightarrow> string \<Rightarrow> log_payload option" where
  "go_log_payload json_parse raw =
     Option.bind (go_struct json_parse raw) (\<lambda>kvs.
       case (go_text ''source'' [] kvs, go_text ''unit'' [] kvs, go_text ''grep'' [] kvs, go_text ''since'' [] kvs,
             go_text ''container_id'' [] kvs, go_text ''lines'' [] kvs) of
         (Some a, Some b, Some c, Some d, Some e, Some f) \<Rightarrow>
           Some \<lparr>lp_source = a, lp_unit = b, lp_grep = c, lp_since = d, lp_container_id = e, lp_lines = f\<rparr>
       | _ \<Rightarrow> None)"

definition validateLogReadTask ::
  "(string \<Rightarrow> json option) \<Rightarrow> stored_server \<Rightarrow> string \<Rightarrow> string + unit" where
  "validateLogReadTask json_parse srv raw =
     (if osFamilyFromServer json_parse srv \<noteq> ''linux''
      then Inl ''read-only log viewer is currently supported only on Linux agents''
      else case go_log_payload json_parse raw of
          None \<Rightarrow> Inl ''invalid log task payload''
        | Some p \<Rightarrow>
            if lp_source p \<notin> set [''journal'', ''nginx_access'', ''nginx_error'', ''mysql_error'', ''docker'']
            then Inl ''unsupported log source''
            else if lp_source p = ''journal'' \<and> trim (lp_unit p) \<noteq> [] \<and> \<not> service_identifier (lp_unit p)
            then Inl ''invalid journal unit''
            else if length (lp_grep p) > 200 then Inl ''grep filter must not exceed 200 characters''
            else if length (lp_since p) > 60 then Inl ''since filter must not exceed 60 characters''
            else if lp_source p = ''docker'' \<and> trim (lp_container_id p) = []
            then Inl ''container_id is required for Docker logs''
            else if lp_source p = ''docker'' \<and> \<not> container_identifier (trim (lp_container_id p))
            then Inl ''invalid container_id''
            else (case atoi (trim (lp_lines p)) of
                None \<Rightarrow> Inl ''lines must be between 1 and 500''
              | Some n \<Rightarrow> if n < 1 \<or> n > 500 then Inl ''lines must be between 1 and 500'' else Inr ()))"

section \<open>The whole of \<open>CreateTask\<close> up to the insertion\<close>

datatype task_refusal =
  Refused_request task_error | Server_not_found | Deletion_in_progress | Agent_update_required string | Refused_task string

definition check_against_server ::
  "(string \<Rightarrow> json option) \<Rightarrow> stored_server option \<Rightarrow> create_task_request \<Rightarrow> task_refusal + create_task_request" where
  \<comment> \<open>\<open>found\<close> is the user's server with the id of the address\<close>
  "check_against_server json_parse found q =
     (case found of
        None \<Rightarrow> Inl Server_not_found
      | Some srv \<Rightarrow>
          if st_deletion_status srv \<in> set [''pending'', ''uninstalling''] then Inl Deletion_in_progress
          else if ct_type q \<in> set serviceTaskTypes then
            (case validateServiceTask json_parse srv (ct_type q) (ct_payload q) of
               Inl m \<Rightarrow> Inl (Refused_task m) | Inr _ \<Rightarrow> Inr q)
          else if ct_type q = ''log_read'' then
            (case validateAgentFeatureVersion json_parse srv minimumLogReadAgentVersion ''Read-only Log Viewer'' of
               Inl m \<Rightarrow> Inl (Agent_update_required m)
             | Inr _ \<Rightarrow>
                 (case validateLogReadTask json_parse srv (ct_payload q) of
                    Inl m \<Rightarrow> Inl (Refused_task m)
                  | Inr _ \<Rightarrow> Inr (q\<lparr>ct_timeout_seconds := min (ct_timeout_seconds q) 120\<rparr>)))
          else Inr q)"

definition CreateTask ::
  "(string \<Rightarrow> json option) \<Rightarrow> (json \<Rightarrow> string) \<Rightarrow> task_config \<Rightarrow> stored_server option \<Rightarrow> json \<Rightarrow>
   task_refusal + create_task_request" where
  "CreateTask json_parse stringify cfg found body =
     (case createTask_check json_parse stringify cfg body of
        Inl e \<Rightarrow> Inl (Refused_request e)
      | Inr q \<Rightarrow> check_against_server json_parse found q)"

definition queued :: "task_refusal + create_task_request \<Rightarrow> bool" where
  "queued r \<longleftrightarrow> (case r of Inl _ \<Rightarrow> False | Inr _ \<Rightarrow> True)"

end
