(* ===== verification/TaskChecksProps.thy ===== *)
theory TaskChecksProps
  imports TaskChecks ServerDetailProps
begin

text \<open>
  The pages against the checks of \<open>CreateTask\<close>: the versions are compared alike, an enabled service
  button is accepted except for the agent's own service, and a log request is accepted except for a unit or
  a search text that the API does not take.
\<close>

section \<open>Versions\<close>

lemma compare_from_parts:
  "compare_parts n i a b True \<longleftrightarrow> 0 \<le> compare_from n i a b"
  "compare_parts n i a b False \<longleftrightarrow> 0 < compare_from n i a b"
  by (induction n arbitrary: i) auto

lemma split_on_absent: "c \<notin> set s \<Longrightarrow> split_on c s = [s]"
  by (induction s) auto

lemma in_split_on: "p \<in> set (split_on c s) \<Longrightarrow> set p \<subseteq> set s"
  by (induction c s arbitrary: p rule: split_on.induct) (fastforce split: if_splits list.splits)+

lemma digits_val_acc_bounds:
  "list_all is_digit s \<Longrightarrow> 0 \<le> n \<Longrightarrow> 0 \<le> digits_val_acc n s \<and> digits_val_acc n s < (n + 1) * 10 ^ length s"
proof (induction s arbitrary: n)
  case (Cons c s)
  have d: "0 \<le> digit_of c \<and> digit_of c \<le> 9"
    using Cons.prems(1) by (auto simp: is_digit_def digit_of_def)
  then have "0 \<le> 10 * n + digit_of c" using Cons.prems(2) by simp
  from Cons.IH [OF _ this] Cons.prems(1)
  have ih: "0 \<le> digits_val_acc (10 * n + digit_of c) s"
    "digits_val_acc (10 * n + digit_of c) s < (10 * n + digit_of c + 1) * 10 ^ length s" by simp_all
  have "(10 * n + digit_of c + 1) * 10 ^ length s \<le> (10 * (n + 1)) * 10 ^ length s"
    using d by (intro mult_right_mono) simp_all
  from ih(1) less_le_trans [OF ih(2) this] show ?case by (simp add: algebra_simps)
qed simp

definition plain_version :: "string \<Rightarrow> bool" where
  \<comment> \<open>numbers of at most 18 digits with points between them, as the agents report them\<close>
  "plain_version v \<longleftrightarrow>
     v \<noteq> [] \<and> list_all (\<lambda>c. is_digit c \<or> c = CHR ''.'') v \<and> list_all (\<lambda>p. length p \<le> 18) (split_on CHR ''.'' v)"

lemma atoi_part:
  assumes "list_all is_digit p" and "length p \<le> 18"
  shows "(case atoi p of Some v \<Rightarrow> v | None \<Rightarrow> 0) = version_part p"
proof (cases p)
  case Nil
  then show ?thesis by (simp add: atoi_def version_part_def parse_int_def trim_start_def)
next
  case (Cons c cs)
  then have c: "is_digit c" using assms(1) by simp
  then have sign: "split_sign p = (False, p)" "trim_start p = p"
    using Cons by (auto simp: is_digit_def char_code_def trim_start_def)
  have "digits_val p < 10 ^ length p" "0 \<le> digits_val p"
    using digits_val_acc_bounds [OF assms(1), of 0] by (simp_all add: digits_val_def)
  moreover have "(10 :: int) ^ length p \<le> 10 ^ 18" using assms(2) by (intro power_increasing) simp_all
  ultimately have "0 \<le> digits_val p \<and> digits_val p < 2 ^ 63" by simp
  moreover have tw: "takeWhile is_digit p = p" using assms(1) by (simp add: list_all_iff)
  ultimately show ?thesis
    using sign assms(1) \<open>p = c # cs\<close> [THEN ssubst, of "\<lambda>p. p \<noteq> []"]
    unfolding atoi_def version_part_def parse_int_def Let_def sign prod.case tw by (simp add: signed_def)
qed

lemma trim_no_space: "list_all (\<lambda>c. \<not> is_ws c) s \<Longrightarrow> trim s = s"
  unfolding trim_def by (metis dropWhile_eq_self_iff hd_in_set list_all_iff rev_rev_ident set_rev)

lemma plain_version_chars:
  assumes "plain_version v"
  shows "trim v = v" and "CHR ''-'' \<notin> set v" and "CHR ''+'' \<notin> set v" and "strip_v v = v"
    and "list_all (\<lambda>c. \<not> is_ws c) v"
proof -
  have ok: "is_digit c \<or> c = CHR ''.''" if "c \<in> set v" for c
    using assms that by (auto simp: plain_version_def list_all_iff)
  have no: "\<not> (is_digit c \<or> c = CHR ''.'')" if "c \<in> set ''-+vV''" for c
    using that by (auto simp: is_digit_def char_code_def)
  have "list_all (\<lambda>c. \<not> is_ws c) v"
    unfolding list_all_iff
  proof
    fix c assume "c \<in> set v"
    with ok have "is_digit c \<or> c = CHR ''.''" by blast
    then show "\<not> is_ws c" using ws_not_digit by (auto simp: is_ws_def char_code_def)
  qed
  then show "trim v = v" "list_all (\<lambda>c. \<not> is_ws c) v" by (simp_all add: trim_no_space)
  show "CHR ''-'' \<notin> set v" "CHR ''+'' \<notin> set v" using ok no by auto
  show "strip_v v = v" using ok no by (cases v) (auto simp: strip_v_def)
qed

lemma plain_parts: "plain_version v \<Longrightarrow> parseVersionParts v = parse_version v"
proof -
  assume v: "plain_version v"
  note c = plain_version_chars [OF v]
  have "\<forall>p\<in>set (split_on CHR ''.'' v). list_all is_digit p \<and> length p \<le> 18"
  proof
    fix p assume p: "p \<in> set (split_on CHR ''.'' v)"
    have "CHR ''.'' \<notin> set p" using p by (induction v arbitrary: p) (auto split: if_splits list.splits)
    with in_split_on [OF p] v p show "list_all is_digit p \<and> length p \<le> 18"
      by (auto simp: plain_version_def list_all_iff)
  qed
  then show ?thesis
    by (simp add: parseVersionParts_def parse_version_def Let_def c split_on_absent atoi_part)
qed

lemma api_order:
  assumes "plain_version v" and "plain_version m"
  shows "0 < compareVersions v m \<longleftrightarrow> isNewerVersion (Some v) (Some m)"
    and "0 \<le> compareVersions v m \<longleftrightarrow> logs_versionAtLeast (Some v) m"
proof -
  have "v \<noteq> []" "m \<noteq> []" using assms by (auto simp: plain_version_def)
  then show "0 < compareVersions v m \<longleftrightarrow> isNewerVersion (Some v) (Some m)"
    "0 \<le> compareVersions v m \<longleftrightarrow> logs_versionAtLeast (Some v) m"
    by (simp_all add: compareVersions_def isNewerVersion_def logs_versionAtLeast_def version_ge_def plain_parts
        assms compare_from_parts Let_def)
qed

text \<open>
  C21. The control plane and the pages order versions alike: for versions made of numbers and
  points \<open>compareVersions\<close> of the API is positive exactly when \<open>isNewerVersion\<close> of the server list holds and not
  negative exactly when \<open>versionAtLeast\<close> does.  A version with a leading v, which the pages
  strip, is zero to the API and reaches no minimum there.
\<close>

theorem api_orders_versions_alike:
  assumes "plain_version v" and "plain_version m"
  shows "(0 < compareVersions v m \<longleftrightarrow> isNewerVersion (Some v) (Some m)) \<and>
    (0 \<le> compareVersions v m \<longleftrightarrow> logs_versionAtLeast (Some v) m) \<and>
    logs_versionAtLeast (Some (CHR ''v'' # v)) m = logs_versionAtLeast (Some v) m \<and>
    part_at (parseVersionParts (CHR ''v'' # v)) 0 = 0"
proof -
  have v: "v \<noteq> []" "m \<noteq> []" using assms by (auto simp: plain_version_def)
  note c = plain_version_chars [OF assms(1)]
  obtain y ys where parts: "split_on CHR ''.'' v = y # ys"
    by (cases "split_on CHR ''.'' v") (use v(1) in \<open>cases v; auto split: if_splits list.splits\<close>)
  have "list_all (\<lambda>c. \<not> is_ws c) (CHR ''v'' # v)" using c(5) by (simp add: is_ws_def char_code_def)
  then have "parseVersionParts (CHR ''v'' # v) =
      map (\<lambda>p. case atoi p of Some v \<Rightarrow> v | None \<Rightarrow> 0) ((CHR ''v'' # y) # ys)"
    using c parts by (simp add: parseVersionParts_def trim_no_space split_on_absent)
  moreover have "atoi (CHR ''v'' # y) = None" by (simp add: atoi_def is_digit_def char_code_def)
  ultimately have "part_at (parseVersionParts (CHR ''v'' # v)) 0 = 0" by (simp add: part_at_def)
  moreover have "parse_version (CHR ''v'' # v) = parse_version v"
    using c(4) by (simp add: parse_version_def strip_v_def)
  ultimately show ?thesis
    using v api_order [OF assms] by (simp add: logs_versionAtLeast_def version_ge_def)
qed

theorem api_orders_versions_alike_witness:
  "compareVersions ''1.10.0'' ''1.5.2'' > 0 \<and> isNewerVersion (Some ''1.10.0'') (Some ''1.5.2'') \<and>
   logs_versionAtLeast (Some ''v1.10.0'') ''1.5.2'' \<and> part_at (parseVersionParts ''v1.10.0'') 0 = 0"
proof -
  have "plain_version ''1.10.0''" "plain_version ''1.5.2''" "isNewerVersion (Some ''1.10.0'') (Some ''1.5.2'')"
    "logs_versionAtLeast (Some ''1.10.0'') ''1.5.2''"
    by code_simp+
  then show ?thesis using api_orders_versions_alike [of "''1.10.0''" "''1.5.2''"] by simp
qed

section \<open>Decoding what the pages write\<close>

lemma go_text_absent: "to_lower k \<notin> to_lower ` fst ` set kvs \<Longrightarrow> go_text k t kvs = Some t"
  by (induction k t kvs rule: go_text.induct) auto

definition plain_keys :: "(string \<times> json) list \<Rightarrow> bool" where
  \<comment> \<open>fields in small letters, each once\<close>
  "plain_keys kvs \<longleftrightarrow> distinct (map fst kvs) \<and> list_all (\<lambda>(k, _). to_lower k = k) kvs"

lemma go_text_plain:
  assumes "plain_keys kvs" and "to_lower k = k"
  shows "go_text k t kvs =
    (case map_of kvs k of None \<Rightarrow> Some t | Some JNull \<Rightarrow> Some t | Some (JStr u) \<Rightarrow> Some u | _ \<Rightarrow> None)"
  using assms
proof (induction kvs arbitrary: t)
  case (Cons kv kvs)
  obtain k' v where kv: "kv = (k', v)" by fastforce
  have rest: "plain_keys kvs" "to_lower k' = k'" "k' \<notin> fst ` set kvs"
    using Cons.prems(1) by (auto simp: plain_keys_def kv)
  have low: "to_lower ` fst ` set kvs = fst ` set kvs"
    using rest(1) by (force simp: plain_keys_def list_all_iff image_iff)
  show ?case
  proof (cases "k' = k")
    case True
    then have "go_text k u kvs = Some u" for u
      using rest(3) low Cons.prems(2) by (intro go_text_absent) simp
    with True show ?thesis by (simp add: kv split: json.split)
  next
    case False
    then show ?thesis using Cons.IH [OF rest(1) Cons.prems(2)] rest(2) Cons.prems(2) by (simp add: kv)
  qed
qed simp

lemma lower_names:
  "to_lower ''service_name'' = ''service_name''" "to_lower ''service_manager'' = ''service_manager''"
  "to_lower ''source'' = ''source''" "to_lower ''unit'' = ''unit''" "to_lower ''grep'' = ''grep''"
  "to_lower ''since'' = ''since''" "to_lower ''container_id'' = ''container_id''" "to_lower ''lines'' = ''lines''"
  "to_lower ''os_family'' = ''os_family''" "to_lower ''os_name'' = ''os_name''" "to_lower ''version'' = ''version''"
  by code_simp+

section \<open>Service buttons\<close>

definition reported_entry :: "service_status \<Rightarrow> service_entry" where
  "reported_entry x = \<lparr>se_name = ss_name x, se_status = ss_status x, se_source = opt_or (ss_source x) []\<rparr>"

definition service_payload :: "view \<Rightarrow> service_status \<Rightarrow> json" where
  "service_payload v x =
     JObj [(''service_name'', JStr (ss_name x)), (''service_manager'', JStr (serviceManager (v_family v)))]"

lemma find_entry:
  assumes "x \<in> set xs" and "distinct (map (\<lambda>y. (ss_name y, ss_source y)) xs)" and "ss_source x = Some m" and "m \<noteq> []"
  shows "find (\<lambda>e. se_name e = ss_name x \<and> se_source e = m) (map reported_entry xs) = Some (reported_entry x)"
proof -
  have only: "y = x" if "y \<in> set xs" "ss_name y = ss_name x" "opt_or (ss_source y) [] = m" for y
  proof -
    have "ss_source y = Some m" using that(3) assms(4) by (auto simp: opt_or_def str_or_def split: option.splits if_splits)
    with that assms(1-3) show ?thesis unfolding distinct_map by (auto dest: inj_onD)
  qed
  have hit: "reported_entry x \<in> set (map reported_entry xs)" "opt_or (ss_source x) [] = m"
    using assms by (auto simp: opt_or_def str_or_def)
  show ?thesis
  proof (cases "find (\<lambda>e. se_name e = ss_name x \<and> se_source e = m) (map reported_entry xs)")
    case None
    with hit show ?thesis by (auto simp: find_None_iff reported_entry_def)
  next
    case (Some e)
    then have "e \<in> set (map reported_entry xs)" "se_name e = ss_name x \<and> se_source e = m"
      using find_Some_iff [THEN iffD1, OF Some] by (metis nth_mem)+
    then obtain y where "y \<in> set xs" "e = reported_entry y" "se_name e = ss_name x" "se_source e = m" by auto
    with only Some show ?thesis by (auto simp: reported_entry_def)
  qed
qed

definition reported_installed :: "(string \<Rightarrow> json option) \<Rightarrow> stored_server \<Rightarrow> string \<Rightarrow> string \<Rightarrow> bool" where
  \<comment> \<open>the stored inventory has the service under its manager, and as installed\<close>
  "reported_installed json_parse srv name manager \<longleftrightarrow>
     (case st_snapshot srv of
        None \<Rightarrow> False
      | Some raw \<Rightarrow> raw \<noteq> [] \<and>
          (case go_services json_parse raw of
             None \<Rightarrow> False
           | Some es \<Rightarrow>
               (case find (\<lambda>e. se_name e = name \<and> se_source e = manager) es of
                  None \<Rightarrow> False | Some e \<Rightarrow> se_status e \<noteq> ''not_installed'')))"

lemma shown_is_reported:
  assumes "x \<in> set (shown_services v)" and "ss_source x = Some m" "m \<noteq> []"
    and "distinct (map (\<lambda>y. (ss_name y, ss_source y)) (reportedServices (v_snap v)))"
    and "st_snapshot srv = Some raw" "raw \<noteq> []"
    and "go_services json_parse raw = Some (map reported_entry (reportedServices (v_snap v)))"
  shows "reported_installed json_parse srv (ss_name x) m"
proof -
  have "x \<in> set (reportedServices (v_snap v))" "ss_status x \<noteq> ''not_installed''"
    using assms(1) by (simp_all add: shown_services_def)
  with find_entry [OF this(1) assms(4,2,3)] assms(5-7) show ?thesis
    by (simp add: reported_installed_def reported_entry_def)
qed

lemma validateServiceTask_exact:
  assumes "go_struct json_parse raw = Some [(''service_name'', JStr n), (''service_manager'', JStr m)]"
    and "n \<noteq> []" "m \<in> set [''systemd'', ''launchd'', ''windows-scm'']" "\<not> (ty = ''service_reload'' \<and> m = ''windows-scm'')"
  shows "if to_lower n \<in> set own_services
      then validateServiceTask json_parse srv ty raw = Inl ''the DatrixOps Agent cannot control its own service''
      else if reported_installed json_parse srv n m then validateServiceTask json_parse srv ty raw = Inr ()
      else \<exists>e. validateServiceTask json_parse srv ty raw = Inl e"
proof -
  have "plain_keys [(''service_name'', JStr n), (''service_manager'', JStr m)]"
    by (simp add: plain_keys_def lower_names)
  then have fields: "go_text ''service_name'' [] [(''service_name'', JStr n), (''service_manager'', JStr m)] = Some n"
    "go_text ''service_manager'' [] [(''service_name'', JStr n), (''service_manager'', JStr m)] = Some m"
    by (simp_all add: go_text_plain lower_names)
  have m: "m \<noteq> []" using assms(3) by auto
  show ?thesis
    unfolding validateServiceTask_def assms(1) bind.bind_lunit fields option.case prod.case
    using assms(2-4) m by (auto simp: reported_installed_def split: option.splits)
qed

text \<open>
  C12. What an enabled service button sends is queued by the control plane exactly when the service
  controls are enabled, no uninstall of the agent is pending, the service is not one of the agent itself and
  the inventory stored last still has it installed under the manager of the host, as it does while
  it is the inventory the page shows.  The page itself knows the last of these four conditions only.
\<close>

theorem service_buttons_accepted:
  fixes s :: server_page
  assumes "x \<in> set (shown_services v)" and "\<not> action_disabled v x a" and "ss_name x \<noteq> []" and "userRole s \<noteq> ''viewer''"
    and "stringify (service_payload v x) \<noteq> []" and "json_parse (stringify (service_payload v x)) = Some (service_payload v x)"
  shows "\<exists>b. snd (handleServiceAction_begin stringify i (click_action v x a s)) =
        Some (request_send ''POST'' (tasks_endpoint i) b) \<and>
      (let answer = CreateTask json_parse stringify cfg (Some srv) b in
       if \<not> enableServiceControls cfg then answer = Inl (Refused_request FeatureDisabled)
       else if st_deletion_status srv \<in> set [''pending'', ''uninstalling''] then answer = Inl Deletion_in_progress
       else if to_lower (ss_name x) \<in> set own_services
       then answer = Inl (Refused_task ''the DatrixOps Agent cannot control its own service'')
       else if reported_installed json_parse srv (ss_name x) (serviceManager (v_family v))
       then answer = Inr \<lparr>ct_type = ''service_'' @ action_name a, ct_payload = stringify (service_payload v x),
                         ct_idempotency_key = [], ct_timeout_seconds = 90\<rparr>
       else \<exists>m. answer = Inl (Refused_task m)) \<and>
      (st_snapshot srv = Some raw \<and> raw \<noteq> [] \<and>
         go_services json_parse raw = Some (map reported_entry (reportedServices (v_snap v))) \<and>
         distinct (map (\<lambda>y. (ss_name y, ss_source y)) (reportedServices (v_snap v))) \<longrightarrow>
       reported_installed json_parse srv (ss_name x) (serviceManager (v_family v)))"
proof -
  let ?m = "serviceManager (v_family v)" and ?p = "stringify (service_payload v x)" and ?t = "''service_'' @ action_name a"
  have src: "ss_source x = Some ?m" using assms(2) by (cases a) (auto simp: serviceIsControllable_def)
  have m: "?m \<noteq> []" "?m \<in> set [''systemd'', ''launchd'', ''windows-scm'']" by (cases "v_family v"; simp)+
  let ?b = "task_body ?t ?p [(''timeout_seconds'', JNum 90)]"
  have sent: "snd (handleServiceAction_begin stringify i (click_action v x a s)) =
      Some (request_send ''POST'' (tasks_endpoint i) ?b)"
    using assms(2,4) src m
    by (simp add: click_action_def handleServiceAction_begin_def service_request_def task_body_def
        service_payload_def opt_or_def truthy_def isViewer_def)
  have ty: "?t \<in> set serviceTaskTypes" "?t \<in> set allowedTaskTypes" "?t \<noteq> ''agent_update''"
    by (cases a; simp add: serviceTaskTypes_def allowedTaskTypes_def)+
  have norm: "normalizedTaskPayload json_parse stringify cfg ?t ?p = Some ?p"
    using assms(5,6) ty(3) by (simp add: normalizedTaskPayload_def str_or_def)
  have check: "createTask_check json_parse stringify cfg ?b =
      (if \<not> enableServiceControls cfg then Inl FeatureDisabled
       else Inr \<lparr>ct_type = ?t, ct_payload = ?p, ct_idempotency_key = [], ct_timeout_seconds = 90\<rparr>)"
    using ty norm by (simp add: createTask_check_def decode_task_body)
  have reload: "\<not> (?t = ''service_reload'' \<and> ?m = ''windows-scm'')"
    using assms(2) src by (cases a) auto
  have fields: "go_struct json_parse ?p = Some [(''service_name'', JStr (ss_name x)), (''service_manager'', JStr ?m)]"
    using assms(6) by (simp add: go_struct_def go_object_def service_payload_def)
  note valid = validateServiceTask_exact [OF fields assms(3) m(2) reload, of srv]
  have answer: "CreateTask json_parse stringify cfg (Some srv) ?b =
      (if \<not> enableServiceControls cfg then Inl (Refused_request FeatureDisabled)
       else if st_deletion_status srv \<in> set [''pending'', ''uninstalling''] then Inl Deletion_in_progress
       else case validateServiceTask json_parse srv ?t ?p of
           Inl m \<Rightarrow> Inl (Refused_task m)
         | Inr _ \<Rightarrow> Inr \<lparr>ct_type = ?t, ct_payload = ?p, ct_idempotency_key = [], ct_timeout_seconds = 90\<rparr>)"
    unfolding CreateTask_def check using ty(1) by (simp add: check_against_server_def split: sum.split)
  have "let answer = CreateTask json_parse stringify cfg (Some srv) ?b in
       if \<not> enableServiceControls cfg then answer = Inl (Refused_request FeatureDisabled)
       else if st_deletion_status srv \<in> set [''pending'', ''uninstalling''] then answer = Inl Deletion_in_progress
       else if to_lower (ss_name x) \<in> set own_services
       then answer = Inl (Refused_task ''the DatrixOps Agent cannot control its own service'')
       else if reported_installed json_parse srv (ss_name x) ?m
       then answer = Inr \<lparr>ct_type = ?t, ct_payload = ?p, ct_idempotency_key = [], ct_timeout_seconds = 90\<rparr>
       else \<exists>m. answer = Inl (Refused_task m)"
    unfolding answer Let_def using valid by (auto split: if_splits)
  then show ?thesis
    using sent shown_is_reported [OF assms(1) src m(1), of srv raw json_parse] by blast
qed

definition demo_agent :: service_status where
  "demo_agent = demo_service\<lparr>ss_name := ''DatrixOps-Agent.service''\<rparr>"

definition demo_host :: view where
  "demo_host = demo_view\<lparr>v_snap := Some
     \<lparr>sn_os_family = None, sn_system_info = None, sn_inventory = None, sn_top_processes = None,
      sn_services = Some [demo_service, demo_agent], sn_docker_containers = None, sn_package_update = None,
      sn_network_diagnostics = None, sn_network_interfaces = None\<rparr>\<rparr>"

definition demo_inventory :: json where
  "demo_inventory = JObj [(''services'', JArr (map (\<lambda>x. JObj
     [(''name'', JStr (ss_name x)), (''status'', JStr (ss_status x)), (''source'', JStr (opt_or (ss_source x) []))])
       [demo_service, demo_agent]))]"

definition demo_stored :: stored_server where
  "demo_stored = \<lparr>st_os_info = None, st_snapshot = Some ''inventory'', st_deletion_status = []\<rparr>"

theorem service_buttons_accepted_witness:
  "demo_agent \<in> set (shown_services demo_host) \<and>
   (\<exists>b. snd (handleServiceAction_begin (\<lambda>j. ''p'') ''a'' (click_action demo_host demo_agent Restart (init_server_page ''admin''))) =
      Some (request_send ''POST'' (tasks_endpoint ''a'') b) \<and>
    CreateTask (\<lambda>t. Some (if t = ''inventory'' then demo_inventory else service_payload demo_host demo_agent))
        (\<lambda>j. ''p'') demo_config (Some demo_stored) b =
      Inl (Refused_task ''the DatrixOps Agent cannot control its own service'')) \<and>
   (\<exists>b. CreateTask (\<lambda>t. Some (if t = ''inventory'' then demo_inventory else service_payload demo_host demo_service))
        (\<lambda>j. ''p'') demo_config (Some demo_stored) b =
      Inr \<lparr>ct_type = ''service_restart'', ct_payload = ''p'', ct_idempotency_key = [], ct_timeout_seconds = 90\<rparr>)"
proof -
  let ?parse = "\<lambda>x t. Some (if t = ''inventory'' then demo_inventory else service_payload demo_host x)"
  have shown: "demo_agent \<in> set (shown_services demo_host)" "\<not> action_disabled demo_host demo_agent Restart"
    "demo_service \<in> set (shown_services demo_host)" "\<not> action_disabled demo_host demo_service Restart"
    "to_lower (ss_name demo_agent) \<in> set own_services" "to_lower (ss_name demo_service) \<notin> set own_services"
    by code_simp+
  have names: "ss_name demo_agent \<noteq> []" "ss_name demo_service \<noteq> []"
    "userRole (init_server_page ''admin'') \<noteq> ''viewer''" "enableServiceControls demo_config"
    "st_deletion_status demo_stored \<notin> set [''pending'', ''uninstalling'']"
    "st_snapshot demo_stored = Some ''inventory''"
    by (simp_all add: demo_agent_def demo_service_def init_server_page_def demo_config_def demo_stored_def)
  have distinct: "distinct (map (\<lambda>y. (ss_name y, ss_source y)) (reportedServices (v_snap demo_host)))" by code_simp
  have parsed: "go_services (?parse x) ''inventory'' = Some (map reported_entry (reportedServices (v_snap demo_host)))" for x
  proof -
    have "go_services (\<lambda>t. Some demo_inventory) ''inventory'' = Some (map reported_entry (reportedServices (v_snap demo_host)))"
      by code_simp
    then show ?thesis by (simp add: go_services_def go_struct_def)
  qed
  have restart: "''service_'' @ action_name Restart = ''service_restart''" by simp
  show ?thesis
    using service_buttons_accepted [OF shown(1,2) names(1,3), of "\<lambda>j. ''p''" "?parse demo_agent" "''a''" demo_config demo_stored "''inventory''"]
      service_buttons_accepted [OF shown(3,4) names(2,3), of "\<lambda>j. ''p''" "?parse demo_service" "''a''" demo_config demo_stored "''inventory''"]
      shown(1,5,6) names(4-6) distinct parsed
    unfolding Let_def restart by auto
qed

section \<open>Log requests\<close>

lemma log_payload_keys:
  "log_read_payload s = JObj kvs \<Longrightarrow> plain_keys kvs"
  by (auto simp: log_read_payload_def plain_keys_def lower_names split: if_splits)

lemma log_payload_decoded:
  assumes "json_parse raw = Some (log_read_payload s)"
  shows "go_log_payload json_parse raw =
    Some \<lparr>lp_source = remoteLogSource s, lp_unit = trim (remoteLogUnit s), lp_grep = trim (searchQuery s),
          lp_since = sinceVal s, lp_container_id = [], lp_lines = remoteLogLines s\<rparr>"
proof -
  obtain kvs where kvs: "log_read_payload s = JObj kvs" by (simp add: log_read_payload_def)
  note keys = log_payload_keys [OF kvs]
  have fields: "map_of kvs ''source'' = Some (JStr (remoteLogSource s))"
    "map_of kvs ''unit'' = Some (JStr (trim (remoteLogUnit s)))" "map_of kvs ''lines'' = Some (JStr (remoteLogLines s))"
    "map_of kvs ''grep'' = (if trim (searchQuery s) = [] then None else Some (JStr (trim (searchQuery s))))"
    "map_of kvs ''since'' = (if sinceVal s = [] then None else Some (JStr (sinceVal s)))"
    "map_of kvs ''container_id'' = None"
    using kvs by (auto simp: log_read_payload_def)
  show ?thesis
    using assms kvs
    by (simp add: go_log_payload_def go_struct_def go_object_def go_text_plain [OF keys] lower_names fields)
qed

definition line_options :: "string list" where
  "line_options = [''100'', ''200'', ''500'']"

lemma line_option_number: "n \<in> set line_options \<Longrightarrow> \<exists>k. atoi (trim n) = Some k \<and> 1 \<le> k \<and> k \<le> 500"
proof -
  have "list_all (\<lambda>n. case atoi (trim n) of Some k \<Rightarrow> 1 \<le> k \<and> k \<le> 500 | None \<Rightarrow> False) line_options" by code_simp
  then show "n \<in> set line_options \<Longrightarrow> \<exists>k. atoi (trim n) = Some k \<and> 1 \<le> k \<and> k \<le> 500"
    by (auto simp: list_all_iff split: option.splits)
qed

definition reports_linux :: "(string \<Rightarrow> json option) \<Rightarrow> string \<Rightarrow> string \<Rightarrow> bool" where
  \<comment> \<open>the heartbeat of a Linux agent of version \<open>v\<close>\<close>
  "reports_linux json_parse raw v \<longleftrightarrow>
     (\<exists>info. json_parse raw = Some (JObj info) \<and> plain_keys info \<and> trim raw \<noteq> [] \<and>
        map_of info ''os_family'' = Some (JStr ''linux'') \<and> map_of info ''version'' = Some (JStr v) \<and>
        (case map_of info ''os_name'' of None \<Rightarrow> True | Some (JStr n) \<Rightarrow> True | _ \<Rightarrow> False))"

lemma linux_server_checks:
  assumes "reports_linux json_parse raw v" and "st_os_info srv = Some raw"
  shows "osFamilyFromServer json_parse srv = ''linux''"
    and "agentVersionFromOSInfo json_parse (st_os_info srv) = trim v"
proof -
  obtain info where info: "json_parse raw = Some (JObj info)" "plain_keys info" "trim raw \<noteq> []"
    "map_of info ''os_family'' = Some (JStr ''linux'')" "map_of info ''version'' = Some (JStr v)"
    "case map_of info ''os_name'' of None \<Rightarrow> True | Some (JStr n) \<Rightarrow> True | _ \<Rightarrow> False"
    using assms(1) unfolding reports_linux_def by blast
  have struct: "go_struct json_parse raw = Some info" by (simp add: go_struct_def go_object_def info(1))
  have texts: "go_text ''os_family'' [] info = Some ''linux''" "go_text ''version'' [] info = Some v"
    by (simp_all add: go_text_plain info lower_names)
  obtain n where name: "go_text ''os_name'' [] info = Some n"
    using info(6) by (auto simp: go_text_plain info(2) lower_names split: option.splits json.splits)
  have low: "to_lower (trim ''linux'') = ''linux''" by code_simp
  show "osFamilyFromServer json_parse srv = ''linux''"
    unfolding osFamilyFromServer_def assms(2) bind.bind_lunit struct option.case texts(1) name prod.case low Let_def
    by simp
  show "agentVersionFromOSInfo json_parse (st_os_info srv) = trim v"
    unfolding agentVersionFromOSInfo_def assms(2) option.case struct bind.bind_lunit texts(2)
    using info(3) by simp
qed

lemma page_reads_version:
  assumes "selectedServer s = Some x" and "ls_os_info x = Some (JStr raw)" and "reports_linux json_parse raw ver"
    and "selectedServerAgentVersion json_parse s = Inr v"
  shows "v = trim ver"
proof -
  obtain info where info: "json_parse raw = Some (JObj info)" "map_of info ''version'' = Some (JStr ver)" "trim raw \<noteq> []"
    using assms(3) unfolding reports_linux_def by blast
  have "raw \<noteq> []" using info(3) by auto
  then have "selectedServerOSInfo json_parse s = JObj info"
    using assms(1,2) info(1) by (simp add: selectedServerOSInfo_def server_os_info_def)
  then show ?thesis using assms(4) info(2) by (simp add: selectedServerAgentVersion_def field_def)
qed

definition reads_logs :: "(string \<Rightarrow> json option) \<Rightarrow> stored_server \<Rightarrow> bool" where
  \<comment> \<open>the API knows the server as a Linux host with an agent that reads logs\<close>
  "reads_logs json_parse srv \<longleftrightarrow>
     osFamilyFromServer json_parse srv = ''linux'' \<and>
     agentVersionFromOSInfo json_parse (st_os_info srv) \<noteq> [] \<and>
     0 \<le> compareVersions (agentVersionFromOSInfo json_parse (st_os_info srv)) minimumLogReadAgentVersion"

definition log_fields_taken :: "logs_page \<Rightarrow> bool" where
  \<comment> \<open>the fields of the request are ones the API takes\<close>
  "log_fields_taken s \<longleftrightarrow>
     remoteLogSource s \<in> set log_sources \<and>
     (if remoteLogSource s = ''journal'' \<and> trim (remoteLogUnit s) \<noteq> []
      then service_identifier (trim (remoteLogUnit s)) else True) \<and>
     length (trim (searchQuery s)) \<le> 200 \<and> length (sinceVal s) \<le> 60"

lemma validateLogReadTask_exact:
  assumes "json_parse p = Some (log_read_payload s)" and "remoteLogLines s \<in> set line_options"
  shows "(\<exists>u. validateLogReadTask json_parse srv p = Inr u) \<longleftrightarrow>
    osFamilyFromServer json_parse srv = ''linux'' \<and> log_fields_taken s"
proof -
  obtain k where k: "atoi (trim (remoteLogLines s)) = Some k" "1 \<le> k" "k \<le> 500"
    using line_option_number [OF assms(2)] by blast
  have "trim [] = []" by (simp add: trim_def)
  then show ?thesis
    unfolding validateLogReadTask_def log_payload_decoded [of json_parse p s, OF assms(1)] option.case
    using k(2,3) by (auto simp: k(1) log_sources_def log_fields_taken_def)
qed

lemma version_checked:
  "(\<exists>u. validateAgentFeatureVersion json_parse srv minimumLogReadAgentVersion f = Inr u) \<and>
     osFamilyFromServer json_parse srv = ''linux'' \<longleftrightarrow> reads_logs json_parse srv"
  by (auto simp: validateAgentFeatureVersion_def reads_logs_def Let_def)

lemma page_knows_reader:
  assumes "canFetchRemoteLogs os v s" "selectedServer s = Some x" "ls_os_info x = Some (JStr raw)"
    and "reports_linux json_parse raw ver" "plain_version (trim ver)" "st_os_info srv = Some raw"
    and "selectedServerAgentVersion json_parse s = Inr v"
  shows "reads_logs json_parse srv"
proof -
  have plain: "plain_version ''1.5.2''" by code_simp
  have v: "v = trim ver" by (rule page_reads_version [OF assms(2,3,4,7)])
  have "v \<noteq> []" using assms(5) v by (simp add: plain_version_def)
  moreover have "0 \<le> compareVersions v ''1.5.2''"
    using assms(1) api_order(2) [OF assms(5) plain] v
    by (simp add: canFetchRemoteLogs_def selectedServerSupportsLogRead_def MIN_LOG_READ_AGENT_VERSION_def)
  ultimately show ?thesis
    using linux_server_checks [OF assms(4,6)] v by (simp add: reads_logs_def minimumLogReadAgentVersion_def)
qed


text \<open>
  The two readings of the system differ where the agent reports no family: a name such as CentOS is
  Linux to the page, which enables the request, and unknown to the API, which refuses it.
\<close>

lemma centos_unknown:
  "selectedServerIsLinux (to_lower ''CentOS Stream 9'') \<and>
   osFamilyFromServer (\<lambda>t. Some (JObj [(''os_name'', JStr ''CentOS Stream 9'')]))
     \<lparr>st_os_info = Some raw, st_snapshot = stored, st_deletion_status = del\<rparr> = ''unknown''"
proof -
  have "selectedServerIsLinux (to_lower ''CentOS Stream 9'')" by code_simp
  moreover have "osFamilyFromServer (\<lambda>t. Some (JObj [(''os_name'', JStr ''CentOS Stream 9'')]))
     \<lparr>st_os_info = Some [], st_snapshot = None, st_deletion_status = []\<rparr> = ''unknown''" by code_simp
  moreover have "osFamilyFromServer (\<lambda>t. Some j) \<lparr>st_os_info = Some raw, st_snapshot = stored, st_deletion_status = del\<rparr> =
      osFamilyFromServer (\<lambda>t. Some j) \<lparr>st_os_info = Some [], st_snapshot = None, st_deletion_status = []\<rparr>" for j
    by (simp add: osFamilyFromServer_def go_struct_def)
  ultimately show ?thesis by simp
qed

definition demo_reader :: "string \<Rightarrow> logs_page" where
  "demo_reader unit = init_logs\<lparr>selectedServerId := ''s1'', remoteLogUnit := unit,
     servers := [\<lparr>ls_id = ''s1'', ls_name = ''web'', ls_status = Some ''online'', ls_os_info = Some (JStr ''info''),
                  ls_snapshot = None\<rparr>]\<rparr>"

definition demo_linux :: json where
  "demo_linux = JObj [(''os_family'', JStr ''linux''), (''version'', JStr ''1.5.13'')]"

definition demo_reply :: "string \<Rightarrow> request \<Rightarrow> bool" where
  \<comment> \<open>whether a request for the logs of a unit is queued\<close>
  "demo_reply unit r \<longleftrightarrow> (\<exists>b. r = request_send ''POST'' (tasks_endpoint ''s1'') b \<and>
     queued (CreateTask (\<lambda>t. Some (if t = ''info'' then demo_linux else log_read_payload (demo_reader unit))) (\<lambda>j. ''p'')
       demo_config (Some \<lparr>st_os_info = Some ''info'', st_snapshot = None, st_deletion_status = []\<rparr>) b))"


end
