(* ===== verification/MonitoringView.thy ===== *)
theory MonitoringView
  imports Monitoring
begin

text \<open>
  What the monitoring page draws from its state (\<open>dashboard/monitoring/page.tsx\<close>): the stack of
  expanded and the grid of collapsed cards, the series of the four charts, the axes, and the
  breakdown of the usage by processes.  The chart library receives exactly these values; fonts,
  gradients and the locale's formatting of times are left out.
\<close>

section \<open>The cards\<close>

definition expandedList :: "monitoring \<Rightarrow> metric_type list" where
  "expandedList s = expandedOrder s"

record notices =
  no_servers :: bool
  refresh_error :: "string option"
  no_metrics :: bool
  overview_heading :: "nat option"
  refresh_disabled :: bool

definition notices_of :: "timeline_point list \<Rightarrow> monitoring \<Rightarrow> notices" where
  "notices_of timeline s =
     (let chosen = (selectedServerId s \<noteq> []) in
      \<lparr>no_servers = (\<not> chosen),
       refresh_error = nonempty_or_null (metricsError s),
       no_metrics = (chosen \<and> \<not> initialLoading s \<and> metricsLoaded s \<and> dataPoints timeline = 0),
       overview_heading = (if chosen \<and> collapsedList s \<noteq> [] \<and> expandedList s \<noteq> []
                           then Some (length (collapsedList s)) else None),
       refresh_disabled = (\<not> chosen \<or> initialLoading s)\<rparr>)"

lemma cards_partition:
  "set (expandedList s) \<inter> set (collapsedList s) = {} \<and>
   set (collapsedList s) \<union> set (expandedList s) = {MCpu, MRam, MNetwork, MDisk}"
proof -
  have "m \<in> {MCpu, MRam, MNetwork, MDisk}" for m by (cases m) simp_all
  then show ?thesis by (auto simp: expandedList_def collapsedList_def)
qed

section \<open>The series of the charts\<close>

definition PROCESS_COLORS :: "string list" where
  "PROCESS_COLORS = [''#8b5cf6'', ''#3b82f6'', ''#06b6d4'', ''#f59e0b'', ''#ec4899'', ''#64748b'']"

definition process_color :: "nat \<Rightarrow> string" where
  "process_color idx = PROCESS_COLORS ! (idx mod length PROCESS_COLORS)"

definition seriesActive :: "monitoring \<Rightarrow> string \<Rightarrow> bool" where
  "seriesActive s key \<longleftrightarrow> key \<notin> set (hiddenSeries s)"

record chart_series =
  cs_key :: string
  cs_name :: string
  cs_stroke :: string

definition process_name :: "top_process \<Rightarrow> string" where
  \<comment> \<open>\<open>`${proc.name} (PID ${proc.pid})`\<close>\<close>
  "process_name p = pr_name p @ '' (PID '' @ show_int (pid p) @ '')''"

definition process_series :: "monitoring \<Rightarrow> string \<Rightarrow> top_process list \<Rightarrow> chart_series list" where
  "process_series s pre ps =
     concat (map (\<lambda>(idx, p).
         let key = pre @ ''_'' @ show_nat idx
         in if seriesActive s key
            then [\<lparr>cs_key = key, cs_name = process_name p, cs_stroke = process_color idx\<rparr>] else [])
       (enumerate 0 ps))"

definition optional_series :: "monitoring \<Rightarrow> string \<Rightarrow> string \<Rightarrow> string \<Rightarrow> string \<Rightarrow> chart_series list" where
  \<comment> \<open>the flag of a series and the data key it draws\<close>
  "optional_series s flag key name colour =
     (if seriesActive s flag then [\<lparr>cs_key = key, cs_name = name, cs_stroke = colour\<rparr>] else [])"

definition missing_series :: chart_series where
  "missing_series = \<lparr>cs_key = ''downtimeZero'', cs_name = ''No metrics'', cs_stroke = ''var(--rose)''\<rparr>"

definition expanded_cpu_series :: "monitoring \<Rightarrow> chart_series list" where
  "expanded_cpu_series s =
     optional_series s ''totalCpu'' ''cpu'' ''Total CPU Reference'' ''#a855f7'' @
     optional_series s ''cpu_other'' ''cpu_other'' ''Other Processes & OS'' ''#64748b'' @
     process_series s ''cpu_proc'' (cpuProcesses (topProcesses s)) @ [missing_series]"

definition expanded_ram_series :: "monitoring \<Rightarrow> chart_series list" where
  "expanded_ram_series s =
     optional_series s ''totalRam'' ''ram'' ''Total Memory Reference'' ''#10b981'' @
     optional_series s ''ram_other'' ''ram_other'' ''Other Processes & OS'' ''#64748b'' @
     process_series s ''ram_proc'' (ramProcesses (topProcesses s)) @ [missing_series]"

definition expanded_network_series :: "monitoring \<Rightarrow> chart_series list" where
  "expanded_network_series s =
     optional_series s ''netIn'' ''netIn'' ''Inbound RX'' ''#8b5cf6'' @
     optional_series s ''netOut'' ''netOut'' ''Outbound TX'' ''#38bdf8'' @ [missing_series]"

definition expanded_disk_series :: "monitoring \<Rightarrow> chart_series list" where
  "expanded_disk_series s =
     optional_series s ''diskRead'' ''diskRead'' ''Read Throughput'' ''#f59e0b'' @
     optional_series s ''diskWrite'' ''diskWrite'' ''Write Throughput'' ''#f43f5e'' @ [missing_series]"

definition collapsed_series :: "metric_type \<Rightarrow> chart_series list" where
  \<comment> \<open>the small charts ignore the flags\<close>
  "collapsed_series m =
     (case m of
        MCpu \<Rightarrow> [\<lparr>cs_key = ''cpu'', cs_name = ''CPU Usage'', cs_stroke = ''var(--violet)''\<rparr>]
      | MRam \<Rightarrow> [\<lparr>cs_key = ''ram'', cs_name = ''Memory Usage'', cs_stroke = ''var(--mint)''\<rparr>]
      | MNetwork \<Rightarrow> [\<lparr>cs_key = ''netIn'', cs_name = ''Receive'', cs_stroke = ''var(--violet)''\<rparr>,
                     \<lparr>cs_key = ''netOut'', cs_name = ''Send'', cs_stroke = ''var(--sky)''\<rparr>]
      | MDisk \<Rightarrow> [\<lparr>cs_key = ''diskRead'', cs_name = ''Read'', cs_stroke = ''var(--amber)''\<rparr>,
                  \<lparr>cs_key = ''diskWrite'', cs_name = ''Write'', cs_stroke = ''var(--rose)''\<rparr>]) @
     [missing_series]"

section \<open>The small cards\<close>

datatype axis_top = Hundred | AutoTop

record chart_axes =
  ax_domain :: "rat \<times> rat"
  ax_percent :: bool
  ax_top :: axis_top

definition ChartScaffolding :: "rat \<times> rat \<Rightarrow> bool \<Rightarrow> bool \<Rightarrow> chart_axes" where
  "ChartScaffolding domain percentAxis fixedPercentDomain =
     \<lparr>ax_domain = domain, ax_percent = percentAxis,
      ax_top = (if fixedPercentDomain then Hundred else if percentAxis then AutoTop else AutoTop)\<rparr>"

record small_card =
  mc_title :: string
  mc_range :: string
  mc_summary :: string
  mc_resolution :: rat
  mc_loading :: bool
  mc_axes :: chart_axes
  mc_series :: "chart_series list"

definition renderCollapsedCard ::
  "(string \<Rightarrow> jsnum) \<Rightarrow> rat \<Rightarrow> timeline_point list \<Rightarrow> monitoring \<Rightarrow> metric_type \<Rightarrow> small_card" where
  "renderCollapsedCard date_ms now timeline s m =
     (let d = xDomain now s;
          card = \<lparr>mc_title = [], mc_range = range_label (RANGE_CONFIG (timeRange s)), mc_summary = [],
                  mc_resolution = effectiveBucketSeconds date_ms (rawMetrics s) (timeRange s),
                  mc_loading = initialLoading s, mc_axes = ChartScaffolding d False False,
                  mc_series = collapsed_series m\<rparr>
      in case m of
           MCpu \<Rightarrow> card\<lparr>mc_title := ''CPU Usage (%)'', mc_summary := formatMetricSummary timeline cpu ''%'',
                        mc_axes := ChartScaffolding d True False\<rparr>
         | MRam \<Rightarrow> card\<lparr>mc_title := ''Memory Usage (%)'', mc_summary := formatMetricSummary timeline ram ''%'',
                        mc_axes := ChartScaffolding d True True\<rparr>
         | MNetwork \<Rightarrow> card\<lparr>mc_title := ''Network Throughput (KB/s)'',
                            mc_summary := formatPairSummary timeline netIn ''RX'' netOut ''TX'' '' KB/s''\<rparr>
         | MDisk \<Rightarrow> card\<lparr>mc_title := ''Disk I/O (KB/s)'',
                         mc_summary := formatPairSummary timeline diskRead ''Read'' diskWrite ''Write'' '' KB/s''\<rparr>)"

section \<open>The breakdown below the charts of processes\<close>

definition currentNum :: "(timeline_point \<Rightarrow> rat option) \<Rightarrow> timeline_point list \<Rightarrow> rat" where
  \<comment> \<open>\<open>currentCpuNum\<close> and \<open>currentRamNum\<close>: the last value there is\<close>
  "currentNum key timeline = (let vs = series key timeline in if vs = [] then 0 else last vs)"

record process_item =
  pi_process :: top_process
  pi_val :: rat
  pi_key :: string
  pi_color :: string
  pi_visible :: bool

definition processItems ::
  "monitoring \<Rightarrow> string \<Rightarrow> (top_process \<Rightarrow> rat) \<Rightarrow> top_process list \<Rightarrow> process_item list" where
  "processItems s seriesPrefix val ps =
     map (\<lambda>(idx, p).
         let key = seriesPrefix @ ''_'' @ show_nat idx
         in \<lparr>pi_process = p, pi_val = fixed 1 (val p), pi_key = key, pi_color = process_color idx,
             pi_visible = seriesActive s key\<rparr>)
       (enumerate 0 ps)"

definition topSum :: "process_item list \<Rightarrow> rat" where
  "topSum items = fixed 1 (foldl (\<lambda>acc p. acc + pi_val p) 0 items)"

definition otherVal :: "rat \<Rightarrow> process_item list \<Rightarrow> rat" where
  "otherVal currentTotal items = max 0 (fixed 1 (currentTotal - topSum items))"

definition idleVal :: "rat \<Rightarrow> rat" where
  "idleVal currentTotal = max 0 (fixed 1 (100 - currentTotal))"

definition bar_segments :: "string \<Rightarrow> rat \<Rightarrow> process_item list \<Rightarrow> (string option \<times> rat) list" where
  \<comment> \<open>the stacked bar: the series a segment switches, and its width in per cent\<close>
  "bar_segments otherKey currentTotal items =
     concat (map (\<lambda>p. if pi_val p \<le> 0 then [] else [(Some (pi_key p), pi_val p / 100 * 100)]) items) @
     (if otherVal currentTotal items > 0
      then [(Some otherKey, otherVal currentTotal items / 100 * 100)] else []) @
     (if idleVal currentTotal > 0 then [(None, idleVal currentTotal / 100 * 100)] else [])"

definition row_width :: "rat \<Rightarrow> rat \<Rightarrow> rat" where
  "row_width currentTotal v = min 100 (v / max 1 currentTotal * 100)"

record breakdown_row =
  br_rank :: string
  br_name :: string
  br_detail :: "string option"
  br_width :: rat
  br_value :: string
  br_key :: string
  br_visible :: bool

definition process_row :: "rat \<Rightarrow> nat \<times> process_item \<Rightarrow> breakdown_row" where
  "process_row currentTotal = (\<lambda>(idx, p).
     \<lparr>br_rank = ''#'' @ show_nat (idx + 1), br_name = pr_name (pi_process p),
      br_detail = Some (''PID '' @ show_int (pid (pi_process p)) @
        (if truthy (pr_user (pi_process p)) then '' ('' @ the (pr_user (pi_process p)) @ '')'' else [])),
      br_width = row_width currentTotal (pi_val p), br_value = show_fixed 1 (pi_val p) @ ''%'',
      br_key = pi_key p, br_visible = pi_visible p\<rparr>)"

record resource_breakdown =
  rb_title :: string
  rb_used :: string
  rb_top :: string
  rb_other :: string
  rb_rest :: string
  rb_segments :: "(string option \<times> rat) list"
  rb_rows :: "breakdown_row list"


definition ProcessResourceBreakdown ::
  "monitoring \<Rightarrow> metric_type \<Rightarrow> rat \<Rightarrow> top_process list \<Rightarrow> resource_breakdown" where
  "ProcessResourceBreakdown s m currentTotal ps =
     (let is_cpu = (m = MCpu);
          otherKey = (if is_cpu then ''cpu_other'' else ''ram_other'');
          totalKey = (if is_cpu then ''totalCpu'' else ''totalRam'');
          items = processItems s (if is_cpu then ''cpu_proc'' else ''ram_proc'')
                    (if is_cpu then pr_cpu else pr_ram) ps;
          percent = (\<lambda>v. show_fixed 1 v @ ''%'')
      in \<lparr>rb_title = (if is_cpu then ''CPU Allocation Breakdown'' else ''Memory Allocation Breakdown''),
          rb_used = ''Used: '' @ percent currentTotal,
          rb_top = ''Top 5: '' @ percent (topSum items),
          rb_other = ''Other: '' @ percent (otherVal currentTotal items),
          rb_rest = (if is_cpu then ''Idle'' else ''Free'') @ '': '' @ percent (idleVal currentTotal),
          rb_segments = bar_segments otherKey currentTotal items,
          rb_rows =
            map (process_row currentTotal) (enumerate 0 items) @
            [\<lparr>br_rank = em_dash, br_name = ''Other Processes & OS'',
              br_detail = Some ''(Kernel & background tasks)'',
              br_width = row_width currentTotal (otherVal currentTotal items),
              br_value = percent (otherVal currentTotal items),
              br_key = otherKey, br_visible = seriesActive s otherKey\<rparr>,
             \<lparr>br_rank = ''REF'',
              br_name = (if is_cpu then ''Total CPU Reference'' else ''Total Memory Reference''),
              br_detail = Some ''(Dashed reference line on chart)'',
              br_width = min 100 currentTotal, br_value = percent currentTotal,
              br_key = totalKey, br_visible = seriesActive s totalKey\<rparr>]\<rparr>)"

section \<open>The large cards\<close>

record legend_badge =
  lb_label :: string
  lb_color :: string
  lb_active :: bool
  lb_key :: string

record expanded_card =
  ec_title :: string
  ec_subtitle :: string
  ec_range :: string
  ec_resolution :: rat
  ec_loading :: bool
  ec_axes :: chart_axes
  ec_series :: "chart_series list"
  ec_breakdown :: "resource_breakdown option"
  ec_legend :: "legend_badge list"
  ec_current_label :: string
  ec_stats :: chart_stats

definition legend :: "monitoring \<Rightarrow> (string \<times> string \<times> string) list \<Rightarrow> legend_badge list" where
  "legend s = map (\<lambda>(label, color, key).
     \<lparr>lb_label = label, lb_color = color, lb_active = seriesActive s key, lb_key = key\<rparr>)"

definition renderExpandedCard ::
  "(string \<Rightarrow> jsnum) \<Rightarrow> rat \<Rightarrow> timeline_point list \<Rightarrow> monitoring \<Rightarrow> metric_type \<Rightarrow> expanded_card" where
  "renderExpandedCard date_ms now timeline s m =
     (let d = xDomain now s;
          card = (\<lambda>title subtitle axes ss bd lg cur stats.
            \<lparr>ec_title = title, ec_subtitle = subtitle, ec_range = range_label (RANGE_CONFIG (timeRange s)),
             ec_resolution = effectiveBucketSeconds date_ms (rawMetrics s) (timeRange s),
             ec_loading = initialLoading s, ec_axes = axes, ec_series = ss, ec_breakdown = bd,
             ec_legend = lg, ec_current_label = cur, ec_stats = stats\<rparr>)
      in case m of
           MCpu \<Rightarrow> card ''CPU Utilization Breakdown (%)''
             ''Breakdown of CPU utilization by active processes''
             (ChartScaffolding d True True) (expanded_cpu_series s)
             (Some (ProcessResourceBreakdown s MCpu (currentNum cpu timeline) (cpuProcesses (topProcesses s)))) []
             ''Current CPU'' (calculateStats timeline cpu ''%'')
         | MRam \<Rightarrow> card ''Memory Utilization Breakdown (%)''
             ''Breakdown of RAM consumption by active processes''
             (ChartScaffolding d True True) (expanded_ram_series s)
             (Some (ProcessResourceBreakdown s MRam (currentNum ram timeline) (ramProcesses (topProcesses s)))) []
             ''Current Memory'' (calculateStats timeline ram ''%'')
         | MNetwork \<Rightarrow> card ''Network Throughput Breakdown (KB/s)''
             ''Breakdown of Inbound (RX) and Outbound (TX) network throughput''
             (ChartScaffolding d False False) (expanded_network_series s) None
             (legend s [(''Inbound (RX Ingress)'', ''#8b5cf6'', ''netIn''),
                        (''Outbound (TX Egress)'', ''#38bdf8'', ''netOut'')])
             ''Current RX'' (calculateStats timeline netIn '' KB/s'')
         | MDisk \<Rightarrow> card ''Disk I/O Bandwidth Breakdown (KB/s)''
             ''Breakdown of disk Read and Write I/O bandwidth''
             (ChartScaffolding d False False) (expanded_disk_series s) None
             (legend s [(''Read Bandwidth'', ''#f59e0b'', ''diskRead''),
                        (''Write Bandwidth'', ''#f43f5e'', ''diskWrite'')])
             ''Current Read'' (calculateStats timeline diskRead '' KB/s''))"

section \<open>The page\<close>

record monitoring_page =
  mp_badge :: "string option"
  mp_auto_refresh :: string
  mp_notices :: notices
  mp_expanded :: "(string \<times> expanded_card) list"
  mp_collapsed :: "(metric_type \<times> small_card) list"

definition interval_name :: "refresh_interval \<Rightarrow> string" where
  "interval_name i = (case i of IOff \<Rightarrow> ''off'' | I5s \<Rightarrow> ''5s'' | I10s \<Rightarrow> ''10s'' | I30s \<Rightarrow> ''30s''
     | I1m \<Rightarrow> ''1m'' | I5m \<Rightarrow> ''5m'')"

definition metric_name :: "metric_type \<Rightarrow> string" where
  "metric_name m = (case m of MCpu \<Rightarrow> ''cpu'' | MRam \<Rightarrow> ''ram'' | MNetwork \<Rightarrow> ''network'' | MDisk \<Rightarrow> ''disk'')"

definition MonitoringPage ::
  "(string \<Rightarrow> jsnum) \<Rightarrow> rat \<Rightarrow> timeline_point list \<Rightarrow> monitoring \<Rightarrow> monitoring_page" where
  "MonitoringPage date_ms now timeline s =
     (let chosen = (selectedServerId s \<noteq> []) in
      \<lparr>mp_badge = (case selectedServer s of None \<Rightarrow> None
                   | Some _ \<Rightarrow> Some (if serverOnline s then ''Online'' else ''Offline'')),
       mp_auto_refresh = (if refreshInterval s = IOff then ''Auto-refresh: Off''
                          else ''Auto-refresh: '' @ interval_name (refreshInterval s)),
       mp_notices = notices_of timeline s,
       mp_expanded = (if chosen then map (\<lambda>m. (''expanded-chart-'' @ metric_name m,
                                             renderExpandedCard date_ms now timeline s m)) (expandedList s)
                      else []),
       mp_collapsed = (if chosen then map (\<lambda>m. (m, renderCollapsedCard date_ms now timeline s m)) (collapsedList s)
                       else [])\<rparr>)"

section \<open>Properties\<close>

lemma process_items_decimals: "p \<in> set (processItems s pre val ps) \<Longrightarrow> decimals 1 (pi_val p)"
  by (auto simp: processItems_def Let_def)

lemma foldl_sum: "foldl (\<lambda>acc p. acc + f p) a xs = a + (\<Sum>p\<leftarrow>xs. f p)" for f :: "'a \<Rightarrow> rat"
  by (induction xs arbitrary: a) simp_all

lemma decimals_sum: "(\<And>p. p \<in> set xs \<Longrightarrow> decimals n (f p)) \<Longrightarrow> decimals n (\<Sum>p\<leftarrow>xs. f p)"
  by (induction xs) (auto simp: decimals_add decimals_def [of n 0] intro: exI [of _ 0])

lemma topSum_exact: "topSum (processItems s pre val ps) = (\<Sum>p\<leftarrow>ps. fixed 1 (val p))"
proof -
  have "map pi_val (processItems s pre val ps) = map (\<lambda>p. fixed 1 (val p)) ps"
    by (rule nth_equalityI) (simp_all add: processItems_def Let_def nth_enumerate_eq)
  moreover have "topSum (processItems s pre val ps) = (\<Sum>p\<leftarrow>processItems s pre val ps. pi_val p)"
    unfolding topSum_def foldl_sum add_0_left
    by (intro fixed_decimals decimals_sum) (rule process_items_decimals)
  ultimately show ?thesis by simp
qed

lemma sum_positive_segments:
  "(\<forall>p\<in>set items. 0 \<le> pi_val p) \<Longrightarrow>
   (\<Sum>x\<leftarrow>concat (map (\<lambda>p. if pi_val p \<le> 0 then [] else [(Some (pi_key p), pi_val p / 100 * 100)]) items). snd x)
     = (\<Sum>p\<leftarrow>items. pi_val p)"
  by (induction items) auto

lemma fixed_near: "\<bar>fixed 1 q - q\<bar> \<le> 1 / 20"
  using fixed_error [of 1 q] by simp

lemma bar_total:
  assumes "\<forall>p\<in>set ps. 0 \<le> val p"
  shows "(\<Sum>x\<leftarrow>bar_segments k t (processItems s pre val ps). snd x) =
     topSum (processItems s pre val ps) + otherVal t (processItems s pre val ps) + idleVal t"
proof -
  let ?items = "processItems s pre val ps"
  have "\<forall>p\<in>set ?items. 0 \<le> pi_val p"
    using assms by (auto simp: processItems_def Let_def enumerate_eq_zip set_zip)
  from sum_positive_segments [OF this] have "(\<Sum>x\<leftarrow>bar_segments k t ?items. snd x) =
      (\<Sum>p\<leftarrow>?items. pi_val p) + otherVal t ?items + idleVal t"
    by (auto simp: bar_segments_def otherVal_def idleVal_def)
  moreover have "(\<Sum>p\<leftarrow>?items. pi_val p) = topSum ?items"
    unfolding topSum_def foldl_sum add_0_left
    by (intro fixed_decimals [symmetric] decimals_sum) (rule process_items_decimals)
  ultimately show ?thesis by simp
qed

definition usage :: "metric_type \<Rightarrow> top_process \<Rightarrow> rat" where
  "usage m = (if m = MCpu then pr_cpu else pr_ram)"

lemma breakdown_segments:
  "rb_segments (ProcessResourceBreakdown s m t ps) =
     bar_segments (if m = MCpu then ''cpu_other'' else ''ram_other'') t
       (processItems s (if m = MCpu then ''cpu_proc'' else ''ram_proc'') (usage m) ps)"
  by (simp add: ProcessResourceBreakdown_def Let_def usage_def)

lemma bar_arith:
  fixes a b t u :: rat
  assumes "\<bar>a - (t - u)\<bar> \<le> 1 / 20" and "\<bar>b - (100 - t)\<bar> \<le> 1 / 20" and "t \<le> 100"
  shows "\<bar>u + max 0 a + max 0 b - (100 + max 0 (u - t))\<bar> \<le> 1 / 10"
proof -
  have near: "\<bar>max 0 x - max 0 y\<bar> \<le> \<bar>x - y\<bar>" for x y :: rat
    by (simp add: max_def)
  have "max 0 (t - u) - max 0 (u - t) = t - u" "max 0 (100 - t) = 100 - t"
    using assms(3) by (simp_all add: max_def)
  then have "u + max 0 a + max 0 b - (100 + max 0 (u - t)) =
      (max 0 a - max 0 (t - u)) + (max 0 b - max 0 (100 - t))"
    by (simp add: algebra_simps)
  also have "\<bar>\<dots>\<bar> \<le> \<bar>max 0 a - max 0 (t - u)\<bar> + \<bar>max 0 b - max 0 (100 - t)\<bar>"
    by (rule abs_triangle_ineq)
  also have "\<dots> \<le> 1 / 20 + 1 / 20"
    by (rule add_mono [OF order_trans [OF near assms(1)] order_trans [OF near assms(2)]])
  finally show ?thesis by simp
qed

text \<open>
  The stacked bar of a breakdown is full: the widths of its segments add up to 100 per cent
  within a tenth, unless the processes of the snapshot claim more than the last sample of the chart,
  in which case the bar overflows by exactly that excess.
\<close>

theorem stacked_bar_full:
  assumes "\<forall>p\<in>set ps. 0 \<le> usage m p" and "t \<le> 100"
  shows "\<bar>(\<Sum>x\<leftarrow>rb_segments (ProcessResourceBreakdown s m t ps). snd x) -
     (100 + max 0 ((\<Sum>p\<leftarrow>ps. fixed 1 (usage m p)) - t))\<bar> \<le> 1 / 10"
  unfolding breakdown_segments bar_total [OF assms(1)] otherVal_def idleVal_def topSum_exact
  by (rule bar_arith [OF fixed_near fixed_near assms(2)])

theorem stacked_bar_full_witness:
  "\<bar>(\<Sum>x\<leftarrow>rb_segments (ProcessResourceBreakdown init_monitoring MCpu 2 DEFAULT_CPU_PROCESSES). snd x) -
     (100 + max 0 ((\<Sum>p\<leftarrow>DEFAULT_CPU_PROCESSES. fixed 1 (usage MCpu p)) - 2))\<bar> \<le> 1 / 10"
  by (rule stacked_bar_full) (simp_all add: usage_def DEFAULT_CPU_PROCESSES_def mk_process_def)

lemma row_width_bounds: "0 \<le> v \<Longrightarrow> 0 \<le> row_width t v \<and> row_width t v \<le> 100"
  by (simp add: row_width_def)

text \<open>The rows of a breakdown are the switches of the series of its chart.\<close>

lemma toggle_series:
  "seriesActive (toggleSeries k s) j \<longleftrightarrow> (if j = k then \<not> seriesActive s k else seriesActive s j)"
  by (auto simp: seriesActive_def toggleSeries_def)

lemma process_series_keys:
  "cs_key ` set (process_series s pre ps) =
     {pre @ ''_'' @ show_nat i |i. i < length ps \<and> seriesActive s (pre @ ''_'' @ show_nat i)}"
proof -
  let ?key = "\<lambda>i. pre @ ''_'' @ show_nat i"
  have "cs_key ` set (process_series s pre ps) =
      (\<Union>(i, p) \<in> set (enumerate 0 ps). if seriesActive s (?key i) then {?key i} else {})"
    by (auto simp: process_series_def Let_def image_UN split: if_splits)
  also have "\<dots> = {?key i |i. i < length ps \<and> seriesActive s (?key i)}"
    by (force simp: in_set_enumerate_eq split: if_splits intro: bexI [of _ "(_, ps ! _)"])
  finally show ?thesis .
qed

definition data_key :: "string \<Rightarrow> string" where
  "data_key flag = (if flag = ''totalCpu'' then ''cpu'' else if flag = ''totalRam'' then ''ram'' else flag)"

lemma series_keys:
  "cs_key ` set (ec_series (renderExpandedCard date_ms now timeline s MCpu)) =
     {k. k = ''cpu'' \<and> seriesActive s ''totalCpu'' \<or> k = ''cpu_other'' \<and> seriesActive s ''cpu_other''} \<union>
     {''cpu_proc'' @ ''_'' @ show_nat i |i. i < length (cpuProcesses (topProcesses s)) \<and>
        seriesActive s (''cpu_proc'' @ ''_'' @ show_nat i)} \<union> {''downtimeZero''}"
  "cs_key ` set (ec_series (renderExpandedCard date_ms now timeline s MRam)) =
     {k. k = ''ram'' \<and> seriesActive s ''totalRam'' \<or> k = ''ram_other'' \<and> seriesActive s ''ram_other''} \<union>
     {''ram_proc'' @ ''_'' @ show_nat i |i. i < length (ramProcesses (topProcesses s)) \<and>
        seriesActive s (''ram_proc'' @ ''_'' @ show_nat i)} \<union> {''downtimeZero''}"
  by (auto simp: renderExpandedCard_def Let_def expanded_cpu_series_def expanded_ram_series_def
      image_Un optional_series_def missing_series_def process_series_keys simp del: append.simps)

lemma length_processItems [simp]: "length (processItems s pre val ps) = length ps"
  by (simp add: processItems_def)

lemma processItems_nth:
  "i < length ps \<Longrightarrow> processItems s pre val ps ! i =
     \<lparr>pi_process = ps ! i, pi_val = fixed 1 (val (ps ! i)), pi_key = pre @ ''_'' @ show_nat i,
      pi_color = process_color i, pi_visible = seriesActive s (pre @ ''_'' @ show_nat i)\<rparr>"
  by (simp add: processItems_def Let_def nth_enumerate_eq)

lemma row_cases:
  assumes "row \<in> set (rb_rows (ProcessResourceBreakdown s m t ps))"
  shows "br_visible row = seriesActive s (br_key row) \<and>
     ((\<exists>i < length ps. br_key row = (if m = MCpu then ''cpu_proc'' else ''ram_proc'') @ ''_'' @ show_nat i) \<or>
      br_key row \<in> (if m = MCpu then {''cpu_other'', ''totalCpu''} else {''ram_other'', ''totalRam''}))"
  using assms
  by (auto simp: ProcessResourceBreakdown_def Let_def process_row_def in_set_enumerate_eq
      processItems_nth simp del: append.simps)

text \<open>
  The rows of a breakdown and its chart agree: a row is shown as visible exactly when the chart
  draws the series of its key, and a click on a row changes that series and no other.
\<close>

theorem rows_match_chart:
  assumes "ec_breakdown (renderExpandedCard date_ms now timeline s m) = Some b"
    and "row \<in> set (rb_rows b)"
  shows "(br_visible row \<longleftrightarrow>
      data_key (br_key row) \<in> cs_key ` set (ec_series (renderExpandedCard date_ms now timeline s m))) \<and>
    (seriesActive (toggleSeries (br_key row) s) k \<longleftrightarrow>
      (if k = br_key row then \<not> br_visible row else seriesActive s k))"
proof
  have cpu_or_ram: "m = MCpu \<and> b = ProcessResourceBreakdown s MCpu (currentNum cpu timeline) (cpuProcesses (topProcesses s)) \<or>
      m = MRam \<and> b = ProcessResourceBreakdown s MRam (currentNum ram timeline) (ramProcesses (topProcesses s))"
    using assms(1) by (cases m) (auto simp: renderExpandedCard_def Let_def)
  then show "br_visible row \<longleftrightarrow>
      data_key (br_key row) \<in> cs_key ` set (ec_series (renderExpandedCard date_ms now timeline s m))"
    using assms(2) by (elim disjE conjE; simp only: series_keys) (auto simp: data_key_def dest!: row_cases)
  show "seriesActive (toggleSeries (br_key row) s) k \<longleftrightarrow>
      (if k = br_key row then \<not> br_visible row else seriesActive s k)"
    using cpu_or_ram assms(2) by (auto simp: toggle_series dest!: row_cases)
qed

end
