(* ===== verification/DeepLinks.thy ===== *)
theory DeepLinks
  imports AlertForm Network Logs ServerDetail ServerView Monitoring Servers
begin

text \<open>
  The pages of the dashboard are joined by links with query parameters.  This theory has the links
  as the pages write them, the reading of a query by \<open>URLSearchParams\<close>, and the theorem that what one
  page writes is what the other page opens with: \<open>servers/page.tsx\<close>, \<open>servers/[id]/page.tsx\<close> and
  \<open>network/page.tsx\<close> write, \<open>alerts/page.tsx\<close>, \<open>logs/page.tsx\<close>, \<open>monitoring/page.tsx\<close>,
  \<open>network/page.tsx\<close> and \<open>servers/[id]/page.tsx\<close> read.
\<close>

section \<open>Reading a query\<close>

fun percent_decode :: "string \<Rightarrow> string" where
  \<comment> \<open>on the bytes; a per cent sign without two hexadecimal digits stands for itself\<close>
  "percent_decode [] = []"
| "percent_decode (c # cs) =
     (if c = CHR ''%'' then
        (case cs of
           a # b # ds \<Rightarrow>
             (case (hex_val a, hex_val b) of
                (Some h, Some l) \<Rightarrow> char_of (nat (16 * h + l)) # percent_decode ds
              | _ \<Rightarrow> c # percent_decode cs)
         | _ \<Rightarrow> c # percent_decode cs)
      else c # percent_decode cs)"

definition query_decode :: "string \<Rightarrow> string" where
  "query_decode t = percent_decode (map (\<lambda>c. if c = CHR ''+'' then CHR '' '' else c) t)"

definition query_pair :: "string \<Rightarrow> string \<times> string" where
  "query_pair t =
     (query_decode (takeWhile (\<lambda>c. c \<noteq> CHR ''='') t),
      query_decode (drop 1 (dropWhile (\<lambda>c. c \<noteq> CHR ''='') t)))"

definition URLSearchParams :: "string \<Rightarrow> (string \<times> string) list" where
  \<comment> \<open>of a query without its question mark\<close>
  "URLSearchParams q = map query_pair (filter (\<lambda>t. t \<noteq> []) (split_at (CHR ''&'') q))"

definition search_get :: "string \<Rightarrow> (string \<times> string) list \<Rightarrow> string option" where
  "search_get k ps = map_of ps k"

definition location_search :: "string \<Rightarrow> string" where
  \<comment> \<open>what follows the question mark of an address, up to a fragment\<close>
  "location_search address =
     drop 1 (dropWhile (\<lambda>c. c \<noteq> CHR ''?'') (takeWhile (\<lambda>c. c \<noteq> CHR ''#'') address))"

definition params_of :: "string \<Rightarrow> (string \<times> string) list" where
  "params_of address = URLSearchParams (location_search address)"

section \<open>The links\<close>

definition with_query :: "string \<Rightarrow> (string \<times> string) list \<Rightarrow> string" where
  \<comment> \<open>a template literal with its parameters, as they stand in it\<close>
  "with_query path ps = path @ CHR ''?'' # join ''&'' (map (\<lambda>(k, v). k @ CHR ''='' # v) ps)"

definition probe_alert_link :: "string \<Rightarrow> target_probe \<Rightarrow> string" where
  "probe_alert_link sid probe =
     with_query ''/dashboard/alerts''
       [(''tab'', ''create''), (''category'', ''network''), (''target'', encodeURIComponent (np_name probe)),
        (''server_id'', sid), (''metric'', ''network_latency'')]"

definition target_alert_link :: "net_target \<Rightarrow> string" where
  "target_alert_link target =
     with_query ''/dashboard/alerts''
       [(''tab'', ''create''), (''category'', ''network''), (''target'', encodeURIComponent (net_target.nt_name target)),
        (''server_id'', net_target.nt_agent_id target), (''metric'', ''network_latency'')]"

definition tag_alert_link :: "string \<Rightarrow> string" where
  "tag_alert_link tag =
     with_query ''/dashboard/alerts''
       [(''tab'', ''create''), (''category'', ''network''), (''target'', encodeURIComponent tag),
        (''metric'', ''network_latency'')]"

definition rule_button_link :: "string \<Rightarrow> string" where
  \<comment> \<open>over the network tab\<close>
  "rule_button_link sid =
     with_query ''/dashboard/alerts'' [(''tab'', ''create''), (''category'', ''network''), (''server_id'', sid)]"

definition rules_link :: string where
  "rules_link = with_query ''/dashboard/alerts'' [(''tab'', ''rules''), (''category'', ''network'')]"

definition service_logs_link :: "string \<Rightarrow> service_status \<Rightarrow> string" where
  "service_logs_link sid service =
     with_query ''/dashboard/logs''
       [(''server_id'', sid), (''source'', ''journal''), (''unit'', encodeURIComponent (ss_name service))]"

definition monitoring_link :: "string \<Rightarrow> string" where
  "monitoring_link sid = with_query ''/dashboard/monitoring'' [(''server_id'', sid)]"

definition terminal_link :: "string \<Rightarrow> string" where
  "terminal_link sid = with_query (''/dashboard/servers/'' @ sid) [(''view'', ''terminal'')]"

definition network_link :: "string \<Rightarrow> string" where
  "network_link sid = with_query ''/dashboard/network'' [(''agent_id'', sid)]"

section \<open>The readers\<close>

definition alert_params :: "string \<Rightarrow> AlertForm.url_params" where
  "alert_params address =
     (let get = (\<lambda>k. search_get k (params_of address)) in
      \<lparr>paramTab = get ''tab'', paramCategory = get ''category'', paramTarget = get ''target'',
       paramServerId = get ''server_id'', paramMetric = get ''metric''\<rparr>)"

definition logs_params :: "string \<Rightarrow> Logs.url_params" where
  "logs_params address =
     (let get = (\<lambda>k. search_get k (params_of address)) in
      \<lparr>up_server_id = get ''server_id'', up_source = get ''source'', up_unit = get ''unit'', up_q = get ''q''\<rparr>)"

definition monitoring_target :: "string \<Rightarrow> string option" where
  "monitoring_target address =
     url_target (search_get ''server_id'' (params_of address)) (search_get ''id'' (params_of address))"

definition open_server_page :: "string \<Rightarrow> server_page \<Rightarrow> server_page" where
  "open_server_page address =
     open_from_url (search_get ''tab'' (params_of address)) (search_get ''view'' (params_of address))"

definition open_network :: "string \<Rightarrow> network" where
  "open_network address = init_network (search_get ''agent_id'' (params_of address))"

section \<open>Encoding and decoding\<close>

lemma hex_all: "list_all (\<lambda>n. hex_val (hex_digit n) = Some (int n)) [0..<16]"
  by code_simp

lemma hex_roundtrip: "n < 16 \<Longrightarrow> hex_val (hex_digit n) = Some (int n)"
  using hex_all by (simp add: list_all_iff)

lemma percent_code: "\<not> uri_unreserved (CHR ''%'')"
  by code_simp

lemma char_of_code: "char_of (nat (char_code c)) = c"
  by (simp add: char_code_def)

lemma high_nibble: "nat (char_code c) div 16 < 16"
  using char_code_range(1) [of c] by linarith

lemma decode_byte:
  "percent_decode (CHR ''%'' # hex_digit (nat (char_code c) div 16) # hex_digit (nat (char_code c) mod 16) # t) =
     c # percent_decode t"
proof -
  have "nat (char_code c) div 16 < 16" "nat (char_code c) mod 16 < 16" by (simp_all add: high_nibble)
  moreover have "nat (16 * int (nat (char_code c) div 16) + int (nat (char_code c) mod 16)) = nat (char_code c)"
    by (metis mult_div_mod_eq nat_int of_nat_add of_nat_mult of_nat_numeral)
  ultimately show ?thesis by (simp add: hex_roundtrip char_of_code)
qed

lemma percent_decode_encode: "percent_decode (encodeURIComponent s @ t) = s @ percent_decode t"
proof (induction s)
  case Nil
  then show ?case by (simp add: encodeURIComponent_def)
next
  case (Cons c s)
  have step: "encodeURIComponent (c # s) @ t =
      (if uri_unreserved c then [c]
       else [CHR ''%'', hex_digit (nat (char_code c) div 16), hex_digit (nat (char_code c) mod 16)]) @
      (encodeURIComponent s @ t)"
    by (simp add: encodeURIComponent_def)
  show ?case
  proof (cases "uri_unreserved c")
    case True
    then have "c \<noteq> CHR ''%''" using percent_code by auto
    with True Cons show ?thesis unfolding step by simp
  next
    case False
    with Cons show ?thesis unfolding step by (simp only: if_False append_Cons append_Nil decode_byte)
  qed
qed

definition plain :: "char \<Rightarrow> bool" where
  "plain c \<longleftrightarrow> uri_unreserved c \<or> c = CHR ''%''"

lemma plain_not_special: "plain c \<Longrightarrow> c \<notin> set ''&=+#?''"
proof -
  have "list_all (\<lambda>c. \<not> plain c) ''&=+#?''" by code_simp
  then show "plain c \<Longrightarrow> c \<notin> set ''&=+#?''" by (auto simp: list_all_iff)
qed

lemma hex_plain: "n < 16 \<Longrightarrow> plain (hex_digit n)"
proof -
  have "list_all (\<lambda>n. plain (hex_digit n)) [0..<16]" by code_simp
  then show "n < 16 \<Longrightarrow> plain (hex_digit n)" by (simp add: list_all_iff)
qed

lemma percent_plain: "plain (CHR ''%'')"
  by (simp add: plain_def)

lemma encode_plain: "list_all plain (encodeURIComponent s)"
  unfolding encodeURIComponent_def list_all_iff
proof (intro ballI)
  fix c
  assume "c \<in> set (concat (map (\<lambda>c. if uri_unreserved c then [c]
    else [CHR ''%'', hex_digit (nat (char_code c) div 16), hex_digit (nat (char_code c) mod 16)]) s))"
  then obtain d where "c = d \<and> uri_unreserved d \<or> c = CHR ''%'' \<or>
      c = hex_digit (nat (char_code d) div 16) \<or> c = hex_digit (nat (char_code d) mod 16)"
    by (auto split: if_splits)
  then show "plain c"
    using hex_plain [OF high_nibble] hex_plain [of "nat (char_code d) mod 16"] percent_plain
    by (auto simp: plain_def)
qed

lemma query_decode_encode: "query_decode (encodeURIComponent s) = s"
proof -
  have "map (\<lambda>c. if c = CHR ''+'' then CHR '' '' else c) (encodeURIComponent s) = encodeURIComponent s"
    using encode_plain [of s] plain_not_special by (intro map_idI) (auto simp: list_all_iff)
  with percent_decode_encode [of s "[]"] show ?thesis by (simp add: query_decode_def)
qed

lemma decode_literal: "list_all uri_unreserved s \<Longrightarrow> query_decode s = s"
proof -
  assume s: "list_all uri_unreserved s"
  then have "encodeURIComponent s = s"
    by (induction s) (auto simp: encodeURIComponent_def)
  then show ?thesis using query_decode_encode [of s] by simp
qed

lemma unreserved_plain: "list_all uri_unreserved s \<Longrightarrow> list_all plain s"
  by (auto simp: list_all_iff plain_def)

lemma split_join:
  "ts \<noteq> [] \<Longrightarrow> (\<forall>t\<in>set ts. d \<notin> set t) \<Longrightarrow> split_at d (join [d] ts) = ts"
proof (induction ts rule: induct_list012)
  case (3 t u ts)
  then show ?case using split_at_append [of d t "join [d] (u # ts)"] by simp
qed (simp_all add: split_at_plain)

lemma pair_plain:
  assumes "list_all plain k"
  shows "query_pair (k @ CHR ''='' # v) = (query_decode k, query_decode v)"
proof -
  have "\<forall>c\<in>set k. c \<noteq> CHR ''=''" using assms plain_not_special by (auto simp: list_all_iff)
  then show ?thesis by (simp add: query_pair_def takeWhile_append2 dropWhile_append2)
qed

definition plain_text :: "string \<Rightarrow> bool" where
  "plain_text t \<longleftrightarrow> list_all plain t"

definition literal_text :: "string \<Rightarrow> bool" where
  "literal_text t \<longleftrightarrow> list_all uri_unreserved t"

lemma literal_plain: "literal_text t \<Longrightarrow> plain_text t"
  by (simp add: literal_text_def plain_text_def unreserved_plain)

lemma literal_decode: "literal_text t \<Longrightarrow> query_decode t = t"
  by (simp add: literal_text_def decode_literal)

lemma encoded_plain: "plain_text (encodeURIComponent t)"
  by (simp add: plain_text_def encode_plain)

lemma params_with_query:
  assumes path: "list_all (\<lambda>c. c \<noteq> CHR ''?'' \<and> c \<noteq> CHR ''#'') path" and "ps \<noteq> []"
    and plain: "list_all (\<lambda>(k, v). plain_text k \<and> plain_text v) ps"
  shows "params_of (with_query path ps) = map (\<lambda>(k, v). (query_decode k, query_decode v)) ps"
proof -
  let ?ts = "map (\<lambda>(k, v). k @ CHR ''='' # v) ps"
  have clean: "c \<notin> set ''&+#?''" if "t \<in> set ?ts" "c \<in> set t" for t c
    using that plain plain_not_special by (fastforce simp: list_all_iff plain_text_def)
  have joined: "c \<in> set (join ''&'' ts) \<Longrightarrow> c = CHR ''&'' \<or> (\<exists>t\<in>set ts. c \<in> set t)" for ts c
    by (induction ts rule: induct_list012) auto
  have "CHR ''#'' \<notin> set (join ''&'' ?ts)"
    using joined [of "CHR ''#''" ?ts] clean [of _ "CHR ''#''"] by fastforce
  then have "location_search (with_query path ps) = join ''&'' ?ts"
    using path by (simp add: location_search_def with_query_def list_all_iff takeWhile_append2 dropWhile_append2)
      (metis takeWhile_eq_all_conv)
  moreover have "split_at (CHR ''&'') (join ''&'' ?ts) = ?ts"
    using assms(2) clean by (intro split_join) (auto simp del: set_map)
  moreover have "filter (\<lambda>t. t \<noteq> []) ?ts = ?ts"
    by (auto simp: filter_id_conv)
  ultimately show ?thesis
    using plain by (auto simp: params_of_def URLSearchParams_def list_all_iff plain_text_def pair_plain)
qed

section \<open>The links arrive\<close>

definition plain_id :: "string \<Rightarrow> bool" where
  \<comment> \<open>the identifiers of servers are UUIDs\<close>
  "plain_id i \<longleftrightarrow> i \<noteq> [] \<and> literal_text i"

lemma literal_values:
  "literal_text ''tab''" "literal_text ''create''" "literal_text ''category''"
  "literal_text ''network''" "literal_text ''target''" "literal_text ''server_id''"
  "literal_text ''metric''" "literal_text ''network_latency''"
  "literal_text ''source''" "literal_text ''journal''" "literal_text ''unit''"
  "literal_text ''view''" "literal_text ''terminal''" "literal_text ''agent_id''"
  "literal_text ''rules''"
  by code_simp+

lemma literal_paths:
  "list_all (\<lambda>c. c \<noteq> CHR ''?'' \<and> c \<noteq> CHR ''#'') ''/dashboard/alerts''"
  "list_all (\<lambda>c. c \<noteq> CHR ''?'' \<and> c \<noteq> CHR ''#'') ''/dashboard/logs''"
  "list_all (\<lambda>c. c \<noteq> CHR ''?'' \<and> c \<noteq> CHR ''#'') ''/dashboard/monitoring''"
  "list_all (\<lambda>c. c \<noteq> CHR ''?'' \<and> c \<noteq> CHR ''#'') ''/dashboard/network''"
  "list_all (\<lambda>c. c \<noteq> CHR ''?'' \<and> c \<noteq> CHR ''#'') ''/dashboard/servers/''"
  by code_simp+

lemmas literals = literal_values [THEN literal_plain] literal_values [THEN literal_decode]

lemma id_text: "plain_id i \<Longrightarrow> plain_text i \<and> query_decode i = i \<and> i \<noteq> []"
  by (simp add: plain_id_def literal_plain literal_decode)

lemmas link_simps = literals literal_paths encoded_plain query_decode_encode params_with_query

lemma alert_link_params:
  "plain_id sid \<Longrightarrow> params_of (probe_alert_link sid probe) =
     [(''tab'', ''create''), (''category'', ''network''), (''target'', np_name probe), (''server_id'', sid),
      (''metric'', ''network_latency'')]"
  "plain_id (net_target.nt_agent_id target) \<Longrightarrow> params_of (target_alert_link target) =
     [(''tab'', ''create''), (''category'', ''network''), (''target'', net_target.nt_name target),
      (''server_id'', net_target.nt_agent_id target), (''metric'', ''network_latency'')]"
  "params_of (tag_alert_link tag) =
     [(''tab'', ''create''), (''category'', ''network''), (''target'', tag), (''metric'', ''network_latency'')]"
  "plain_id sid \<Longrightarrow> params_of (rule_button_link sid) =
     [(''tab'', ''create''), (''category'', ''network''), (''server_id'', sid)]"
  "params_of rules_link = [(''tab'', ''rules''), (''category'', ''network'')]"
  by (simp_all add: probe_alert_link_def target_alert_link_def tag_alert_link_def rule_button_link_def rules_link_def link_simps id_text)

lemma other_link_params:
  assumes "plain_id sid"
  shows "params_of (service_logs_link sid service) =
      [(''server_id'', sid), (''source'', ''journal''), (''unit'', ss_name service)]"
    and "params_of (monitoring_link sid) = [(''server_id'', sid)]"
    and "params_of (network_link sid) = [(''agent_id'', sid)]"
    and "params_of (terminal_link sid) = [(''view'', ''terminal'')]"
proof -
  have path: "list_all (\<lambda>c. c \<noteq> CHR ''?'' \<and> c \<noteq> CHR ''#'') (''/dashboard/servers/'' @ sid)"
    using id_text [OF assms] literal_paths(5) plain_not_special
    by (fastforce simp: plain_text_def list_all_iff simp del: append.simps)
  show "params_of (terminal_link sid) = [(''view'', ''terminal'')]"
    using path by (simp add: terminal_link_def link_simps del: append.simps)
qed (simp_all add: service_logs_link_def monitoring_link_def network_link_def link_simps id_text assms)

lemma create_form_opened:
  assumes "sid \<noteq> []"
  shows "let a' = effect_url \<lparr>paramTab = Some ''create'', paramCategory = Some ''network'', paramTarget = Some n,
        paramServerId = Some sid, paramMetric = Some ''network_latency''\<rparr> a in
      alert_ui.activeTab (ui a') = TabCreate \<and> selectedCategory (form a') = CatNetwork \<and>
      ruleMetric (form a') = ''network_latency'' \<and> ruleTargetName (form a') = n \<and>
      rule_form.selectedServerIds (form a') = [sid]"
  using assms
  by (simp add: effect_url_def tab_of_def category_of_def url_network_def truthy_def opt_or_def
      str_or_def Let_def)

lemma explorer_opened:
  assumes "sid \<noteq> []"
  shows "apply_url_params \<lparr>up_server_id = Some sid, up_source = Some ''journal'', up_unit = Some u, up_q = None\<rparr> l =
     l\<lparr>logs_page.selectedServerId := sid, remoteLogSource := ''journal'', remoteLogUnit := str_or u (remoteLogUnit l)\<rparr>"
  using assms by (cases l) (simp add: apply_url_params_def opt_or_def str_or_def)

definition network_form :: "string \<Rightarrow> string list \<Rightarrow> alerts \<Rightarrow> bool" where
  \<comment> \<open>the form of a new rule is open for the latency of a target\<close>
  "network_form target sel a \<longleftrightarrow>
     alert_ui.activeTab (ui a) = TabCreate \<and> selectedCategory (form a) = CatNetwork \<and>
     ruleMetric (form a) = ''network_latency'' \<and> ruleTargetName (form a) = target \<and>
     rule_form.selectedServerIds (form a) = sel"

lemma network_form_opened:
  "network_form (opt_or tgt []) (if truthy srv then [the srv] else rule_form.selectedServerIds (form a))
     (effect_url \<lparr>paramTab = Some ''create'', paramCategory = Some ''network'', paramTarget = tgt,
        paramServerId = srv, paramMetric = m\<rparr> a)"
  if "m \<noteq> Some ''network_loss''"
  using that
  by (simp add: network_form_def effect_url_def tab_of_def category_of_def url_network_def Let_def)

lemma rules_tab_opened:
  assumes "a' = effect_url (alert_params rules_link) a"
  shows "ui a' = (ui a)\<lparr>alert_ui.activeTab := TabRules\<rparr> \<and> data a' = data a"
  using assms
  by (simp add: effect_url_def alert_params_def search_get_def alert_link_params tab_of_def category_of_def Let_def)

text \<open>
  C14. Each of the links with a query that one page of the dashboard has to another opens that page on
  what the first one showed, whatever characters a name has: the bells of a probe, of a network target
  and of a tag the form of a new network rule for that name and that server (the tag's for the servers
  selected there), the rule button of the network tab the form for its server and all targets; the rules
  links the list of all rules, whose data the category of the link leaves as they are; the log
  button the log explorer on the journal of the service and its server; the others the charts, the network page and the
  terminal tab of the server.
\<close>

theorem links_arrive:
  assumes "plain_id sid" and "plain_id (net_target.nt_agent_id target)"
  shows "network_form (np_name probe) [sid] (effect_url (alert_params (probe_alert_link sid probe)) a) \<and>
    network_form (net_target.nt_name target) [net_target.nt_agent_id target]
      (effect_url (alert_params (target_alert_link target)) a) \<and>
    network_form tag (rule_form.selectedServerIds (form a)) (effect_url (alert_params (tag_alert_link tag)) a) \<and>
    network_form [] [sid] (effect_url (alert_params (rule_button_link sid)) a) \<and>
    ui (effect_url (alert_params rules_link) a) = (ui a)\<lparr>alert_ui.activeTab := TabRules\<rparr> \<and>
    data (effect_url (alert_params rules_link) a) = data a \<and>
    apply_url_params (logs_params (service_logs_link sid service)) l =
      l\<lparr>logs_page.selectedServerId := sid, remoteLogSource := ''journal'',
        remoteLogUnit := str_or (ss_name service) (remoteLogUnit l)\<rparr> \<and>
    monitoring_target (monitoring_link sid) = Some sid \<and>
    selectedAgentId (open_network (network_link sid)) = sid \<and>
    server_page.activeTab (open_server_page (terminal_link sid) p) = ''terminal''"
proof -
  have sid: "sid \<noteq> []" "net_target.nt_agent_id target \<noteq> []" using id_text assms by simp_all
  have read: "alert_params (probe_alert_link sid probe) =
      \<lparr>paramTab = Some ''create'', paramCategory = Some ''network'', paramTarget = Some (np_name probe),
       paramServerId = Some sid, paramMetric = Some ''network_latency''\<rparr>"
    "alert_params (target_alert_link target) =
      \<lparr>paramTab = Some ''create'', paramCategory = Some ''network'', paramTarget = Some (net_target.nt_name target),
       paramServerId = Some (net_target.nt_agent_id target), paramMetric = Some ''network_latency''\<rparr>"
    "alert_params (tag_alert_link tag) =
      \<lparr>paramTab = Some ''create'', paramCategory = Some ''network'', paramTarget = Some tag,
       paramServerId = None, paramMetric = Some ''network_latency''\<rparr>"
    "alert_params (rule_button_link sid) =
      \<lparr>paramTab = Some ''create'', paramCategory = Some ''network'', paramTarget = None,
       paramServerId = Some sid, paramMetric = None\<rparr>"
    "logs_params (service_logs_link sid service) =
      \<lparr>up_server_id = Some sid, up_source = Some ''journal'', up_unit = Some (ss_name service), up_q = None\<rparr>"
    by (simp_all add: alert_params_def logs_params_def search_get_def alert_link_params other_link_params assms)
  note opened = network_form_opened [of "Some ''network_latency''" _ _ a] network_form_opened [of None _ _ a]
  have forms: "network_form (np_name probe) [sid] (effect_url (alert_params (probe_alert_link sid probe)) a)"
    "network_form (net_target.nt_name target) [net_target.nt_agent_id target]
      (effect_url (alert_params (target_alert_link target)) a)"
    "network_form tag (rule_form.selectedServerIds (form a)) (effect_url (alert_params (tag_alert_link tag)) a)"
    "network_form [] [sid] (effect_url (alert_params (rule_button_link sid)) a)"
    using opened(1) [of "Some (np_name probe)" "Some sid"] opened(1) [of "Some tag" None]
      opened(1) [of "Some (net_target.nt_name target)" "Some (net_target.nt_agent_id target)"]
      opened(2) [of None "Some sid"] sid
    unfolding read by (simp_all add: opt_or_def str_or_def truthy_def)
  have rest: "monitoring_target (monitoring_link sid) = Some sid \<and>
      selectedAgentId (open_network (network_link sid)) = sid \<and>
      server_page.activeTab (open_server_page (terminal_link sid) p) = ''terminal''"
    using sid by (simp add: monitoring_target_def url_target_def open_network_def init_network_def
        open_server_page_def open_from_url_def search_get_def other_link_params assms truthy_def opt_or_def)
  show ?thesis
    unfolding read(5) explorer_opened [OF sid(1)] using forms rest rules_tab_opened [OF refl, of a] by blast
qed

text \<open>An example with a name that has every kind of special character.\<close>

definition odd_probe :: target_probe where
  "odd_probe = \<lparr>np_id = ''p'', np_target_id = None, np_name = ''a&b=c+d#e?f %'', np_tag = [], np_host = [],
     np_port = 0, np_location = None, np_is_gateway = False, np_probe_method = ''ICMP'', np_probe_status = [],
     np_total_probes = 5, np_successful_probes = 5, np_failed_probes = 0, np_packet_loss = None, np_latency_ms = 1,
     np_min_latency_ms = 1, np_max_latency_ms = 1, np_status = ''optimal'', np_error_message = None\<rparr>"

definition odd_target :: net_target where
  "odd_target =
     \<lparr>nt_id = ''t'', nt_agent_id = ''7f-2'', nt_server_name = None, nt_name = ''a&b'', nt_host = ''1.1.1.1'',
      nt_port = 53, nt_tag = [], nt_probe_method = ''TCP'', nt_probes_per_run = 5, nt_warning_ms = None,
      nt_critical_ms = None, nt_loss_pct = None, nt_enabled = True, nt_is_gateway = False, nt_latest_result = None\<rparr>"

theorem links_arrive_witness:
  "ruleTargetName (form (effect_url (alert_params (probe_alert_link ''7f-2'' odd_probe)) (init_alerts ''admin''))) =
     ''a&b=c+d#e?f %''"
proof -
  have id: "plain_id ''7f-2''" by code_simp
  then have "plain_id (net_target.nt_agent_id odd_target)" by (simp add: odd_target_def)
  from links_arrive [OF id this, of odd_probe "init_alerts ''admin''"]
  show ?thesis by (simp add: network_form_def odd_probe_def)
qed

end
