(* ===== verification/NetworkView.thy ===== *)
theory NetworkView
  imports NetworkProps AlertCreate DeepLinks
begin

text \<open>
  What \<open>dashboard/network/page.tsx\<close> shows: header, overview cards by tag, filter bar, table of targets,
  the form, the history dialog and the confirmation of a deletion.  The theorem joins it to the Alert
  Center: a rule created through the bell of a target or the link of a tag is counted there again.
\<close>

section \<open>Header and overview by tag\<close>

definition alert_count_label :: "nat \<Rightarrow> string" where
  "alert_count_label n = show_nat n @ '' Alert'' @ (if 1 < n then ''s'' else [])"

record network_header =
  nh_rule_count :: "nat option"
  nh_refresh_disabled :: bool

definition network_header_of :: "network \<Rightarrow> network_header" where
  "network_header_of s =
     (let n = length (networkAlertRules s) in
      \<lparr>nh_rule_count = (if 0 < n then Some n else None), nh_refresh_disabled = nrefreshing s\<rparr>)"

definition loadData_requests :: "string option \<Rightarrow> network \<Rightarrow> request list" where
  "loadData_requests agentFilterOverride s =
     map request_get
       [''/servers'', ''/network-targets'', overview_url agentFilterOverride s, ''/network-targets/presets'',
        ''/alerts/rules'']"

definition press_network_refresh :: "network \<Rightarrow> network \<times> request list" where
  "press_network_refresh s =
     (if nrefreshing s then (s, []) else (s\<lparr>nrefreshing := True\<rparr>, loadData_requests None s))"

definition without_targets :: "network \<Rightarrow> bool" where
  "without_targets s \<longleftrightarrow> targets s = [] \<and> \<not> nloading s"

datatype card_border = Wide_area | Border_critical | Border_warning | Border_plain

definition card_border_of :: "tag_overview \<Rightarrow> card_border" where
  "card_border_of ov =
     (if to_is_wide_area_issue ov then Wide_area
      else if to_status ov = ''critical'' then Border_critical
      else if to_status ov = ''warning'' then Border_warning
      else Border_plain)"

record bell_link =
  bl_href :: string
  bl_title :: string
  bl_text :: string

definition tag_bell :: "string \<Rightarrow> network \<Rightarrow> bell_link" where
  "tag_bell tag s =
     (let n = length (getTagAlerts tag s) in
      if 0 < n
      then \<lparr>bl_href = rules_link, bl_title = show_nat n @ '' alert rule(s) active for tag '' @ tag,
            bl_text = alert_count_label n\<rparr>
      else \<lparr>bl_href = tag_alert_link tag, bl_title = ''Set alert rule for tag '' @ tag, bl_text = ''+ Set Alert''\<rparr>)"

record tag_card =
  tc_tag :: string
  tc_badge :: badge
  tc_border :: card_border
  tc_wide_area :: bool
  tc_latency :: string
  tc_agents :: "nat option"
  tc_targets :: nat
  tc_loss :: string
  tc_loss_red :: bool
  tc_bell :: bell_link

definition tag_card_of :: "network \<Rightarrow> tag_overview \<Rightarrow> tag_card" where
  "tag_card_of s ov =
     \<lparr>tc_tag = to_tag ov, tc_badge = renderStatusBadge (Some (to_status ov)), tc_border = card_border_of ov,
      tc_wide_area = to_is_wide_area_issue ov, tc_latency = show_fixed 1 (to_avg_latency_ms ov),
      tc_agents = (if selectedAgentId s = [] then Some (to_total_agents ov) else None),
      tc_targets = to_total_targets ov, tc_loss = show_fixed 1 (to_max_loss_pct ov) @ ''%'',
      tc_loss_red = (0 < to_max_loss_pct ov), tc_bell = tag_bell (to_tag ov) s\<rparr>"

definition overview_heading :: "network \<Rightarrow> string" where
  "overview_heading s =
     (case nselectedServer s of
        Some sv \<Rightarrow> ''Network Overview by Tag '' @ em_dash @ '' '' @ so_name sv
      | None \<Rightarrow> ''Fleet Network Overview by Tag'')"

datatype overview_section = No_overview | Placeholders nat | Tag_cards "tag_card list"

definition overview_section_of :: "network \<Rightarrow> overview_section" where
  "overview_section_of s =
     (if nloading s then Placeholders 4
      else if overviews s = [] then No_overview
      else Tag_cards (map (tag_card_of s) (overviews s)))"

definition filter_by_tag :: "tag_overview \<Rightarrow> network \<Rightarrow> network" where
  "filter_by_tag ov s = s\<lparr>selectedTag := to_tag ov\<rparr>"

definition type_network_search :: "string \<Rightarrow> network \<Rightarrow> network" where
  "type_network_search q s = s\<lparr>nsearchQuery := q\<rparr>"

definition pick_tag_filter :: "string \<Rightarrow> network \<Rightarrow> network" where
  "pick_tag_filter v s = s\<lparr>selectedTag := v\<rparr>"

definition pick_status_filter :: "string \<Rightarrow> network \<Rightarrow> network" where
  "pick_status_filter v s = s\<lparr>selectedStatus := v\<rparr>"

definition reset_offered :: "network \<Rightarrow> bool" where
  "reset_offered s \<longleftrightarrow>
     selectedAgentId s \<noteq> [] \<or> selectedTag s \<noteq> ''all'' \<or> selectedStatus s \<noteq> ''all'' \<or> nsearchQuery s \<noteq> []"

section \<open>The table of targets\<close>

record target_row =
  rw_name :: string
  rw_gateway :: bool
  rw_alerts :: "(string \<times> string) option"
    \<comment> \<open>label and title of the link to the rules\<close>
  rw_address :: string
  rw_server_link :: string
  rw_server :: string
  rw_tag :: string
  rw_method :: string
  rw_method_tcp :: bool
  rw_badge :: badge
  rw_latency :: string
  rw_loss :: string
  rw_loss_red :: bool
  rw_probes :: string
  rw_bell :: string
  rw_test_disabled :: bool

definition target_alert_names :: "net_target \<Rightarrow> network \<Rightarrow> (string \<times> string) option" where
  "target_alert_names target s =
     (let found = getTargetAlerts target s; n = length found in
      if 0 < n
      then Some (alert_count_label n,
             show_nat n @ '' alert rule(s) active: '' @ join '', '' (map nr_name found))
      else None)"

definition latency_text :: "target_result option \<Rightarrow> string" where
  "latency_text res =
     (case Option.bind res tr_latency_ms of Some q \<Rightarrow> show_fixed 1 q @ '' ms'' | None \<Rightarrow> ''N/A'')"

definition loss_text :: "target_result option \<Rightarrow> string" where
  "loss_text res =
     (case Option.bind res tr_packet_loss of Some q \<Rightarrow> show_rat q @ ''%'' | None \<Rightarrow> ''N/A'')"

definition loss_red :: "target_result option \<Rightarrow> bool" where
  "loss_red res = (case Option.bind res tr_packet_loss of Some q \<Rightarrow> 0 < q | None \<Rightarrow> False)"

definition probes_text :: "net_target \<Rightarrow> string" where
  "probes_text target =
     (case net_target.nt_latest_result target of
        Some r \<Rightarrow> show_nat (tr_successful_probes r) @ ''/'' @ show_nat (tr_total_probes r)
      | None \<Rightarrow> show_rat (net_target.nt_probes_per_run target) @ ''p'')"

definition target_server :: "net_target \<Rightarrow> string" where
  "target_server target = opt_or (net_target.nt_server_name target) (net_target.nt_agent_id target)"

definition target_row_of :: "network \<Rightarrow> net_target \<Rightarrow> target_row" where
  "target_row_of s target =
     (let res = net_target.nt_latest_result target in
      \<lparr>rw_name = net_target.nt_name target, rw_gateway = net_target.nt_is_gateway target,
       rw_alerts = target_alert_names target s,
       rw_address = net_target.nt_host target @ (if net_target.nt_port target \<noteq> 0 then '':'' @ show_rat (net_target.nt_port target) else []),
       rw_server_link = ''/dashboard/servers/'' @ net_target.nt_agent_id target, rw_server = target_server target,
       rw_tag = net_target.nt_tag target, rw_method = net_target.nt_probe_method target,
       rw_method_tcp = (net_target.nt_probe_method target = ''TCP''),
       rw_badge = renderStatusBadge (map_option tr_status res),
       rw_latency = latency_text res, rw_loss = loss_text res, rw_loss_red = loss_red res,
       rw_probes = probes_text target, rw_bell = target_alert_link target,
       rw_test_disabled = (testingTargetId s = Some (net_target.nt_id target))\<rparr>)"

datatype target_table = No_match | Target_rows "target_row list"

definition target_table_of :: "network \<Rightarrow> nat \<times> target_table" where
  "target_table_of s =
     (let shown = filteredTargets s in
      (length shown, if shown = [] then No_match else Target_rows (map (target_row_of s) shown)))"

definition press_test :: "net_target \<Rightarrow> network \<Rightarrow> network \<times> request option" where
  "press_test target s =
     (if testingTargetId s = Some (net_target.nt_id target) then (s, None)
      else (let (s', rq) = handleTestTargetNow_begin target s in (s', Some rq)))"

section \<open>The form\<close>

record target_modal =
  tm_title :: string
  tm_presets :: "string list"
  tm_host_required :: bool
  tm_host_disabled :: bool
  tm_host_placeholder :: string
  tm_agents :: "(string \<times> string \<times> bool) list option"
    \<comment> \<open>name, address and tick of each server, in the form of a new target\<close>
  tm_agent_count :: string
  tm_submit_text :: string
  tm_submit_disabled :: bool

definition target_modal_of :: "network \<Rightarrow> target_modal option" where
  "target_modal_of s =
     (if targetModalOpen s then
        (let f = formData s; creating = (editingTarget s = None) in
         Some
          \<lparr>tm_title =
             (case editingTarget s of Some t \<Rightarrow> ''Edit Target: '' @ net_target.nt_name t | None \<Rightarrow> ''Add Network Probe Target''),
           tm_presets = (if creating then map target_preset.tp_name (presets s) else []),
           tm_host_required = (\<not> tf_is_gateway f), tm_host_disabled = tf_is_gateway f,
           tm_host_placeholder =
             (if tf_is_gateway f then ''gateway (auto-resolved)'' else ''e.g. 1.1.1.1 or api.github.com''),
           tm_agents =
             (if creating
              then Some (map (\<lambda>o'. (so_name o', opt_or (so_ip_address o') (so_id o'), so_id o' \<in> set (selectedAgentIds s)))
                     (nservers s))
              else None),
           tm_agent_count =
             ''Assign to Servers ('' @ show_nat (length (selectedAgentIds s)) @ ''/'' @
             show_nat (length (nservers s)) @ '' selected)'',
           tm_submit_text =
             (if savingTarget s then ''Saving...'' else if creating then ''Create Target(s)'' else ''Save Changes''),
           tm_submit_disabled = savingTarget s\<rparr>)
      else None)"

definition set_target_form :: "(target_form \<Rightarrow> target_form) \<Rightarrow> network \<Rightarrow> network" where
  "set_target_form g s = s\<lparr>formData := g (formData s)\<rparr>"

definition type_target_name :: "string \<Rightarrow> network \<Rightarrow> network" where
  "type_target_name t = set_target_form (\<lambda>f. f\<lparr>tf_name := t\<rparr>)"

definition type_target_host :: "string \<Rightarrow> network \<Rightarrow> network" where
  \<comment> \<open>the field is disabled for a gateway\<close>
  "type_target_host t s =
     (if tf_is_gateway (formData s) then s else set_target_form (\<lambda>f. f\<lparr>tf_host := t\<rparr>) s)"

definition TARGET_TAGS :: "string list" where
  "TARGET_TAGS = [''International'', ''Domestic'', ''Infrastructure'', ''Custom'']"

definition type_target_tag :: "string \<Rightarrow> network \<Rightarrow> network" where
  "type_target_tag t = set_target_form (\<lambda>f. f\<lparr>tf_tag := t\<rparr>)"

definition PROBE_METHODS :: "(string \<times> string) list" where
  "PROBE_METHODS =
     [(''ICMP'', ''ICMP Ping (Loss + Latency)''), (''TCP'', ''TCP Connect (Reachability + RTT)'')]"

definition pick_probe_method :: "string \<Rightarrow> network \<Rightarrow> network" where
  "pick_probe_method v = set_target_form (\<lambda>f. f\<lparr>tf_probe_method := v\<rparr>)"

definition port_of_text :: "string \<Rightarrow> rat" where
  \<comment> \<open>\<open>parseInt(text) || 0\<close>\<close>
  "port_of_text t = (case parse_int t of Fin q \<Rightarrow> q | _ \<Rightarrow> 0)"

definition type_target_port :: "string \<Rightarrow> network \<Rightarrow> network" where
  "type_target_port t = set_target_form (\<lambda>f. f\<lparr>tf_port := port_of_text t\<rparr>)"

definition type_warning_ms :: "string \<Rightarrow> network \<Rightarrow> network" where
  "type_warning_ms t = set_target_form (\<lambda>f. f\<lparr>tf_warning_ms := t\<rparr>)"

definition type_critical_ms :: "string \<Rightarrow> network \<Rightarrow> network" where
  "type_critical_ms t = set_target_form (\<lambda>f. f\<lparr>tf_critical_ms := t\<rparr>)"

definition type_loss_pct :: "string \<Rightarrow> network \<Rightarrow> network" where
  "type_loss_pct t = set_target_form (\<lambda>f. f\<lparr>tf_loss_pct := t\<rparr>)"

definition check_enabled :: "bool \<Rightarrow> network \<Rightarrow> network" where
  "check_enabled b = set_target_form (\<lambda>f. f\<lparr>tf_enabled := b\<rparr>)"

definition close_target_modal :: "network \<Rightarrow> network" where
  "close_target_modal s = s\<lparr>targetModalOpen := False\<rparr>"

section \<open>History and deletion\<close>

datatype history_chart = Chart_loading | Chart_empty | Chart_points "target_result list"

record history_modal =
  hm_title :: string
  hm_subtitle :: string
  hm_ranges :: "(string \<times> Network.history_range \<times> bool) list"
  hm_count :: string
  hm_chart :: history_chart

definition history_modal_of :: "network \<Rightarrow> history_modal option" where
  "history_modal_of s =
     (if historyModalOpen s then
        map_option (\<lambda>t.
          \<lparr>hm_title = net_target.nt_name t @ '' '' @ em_dash @ '' Latency History'',
           hm_subtitle = ''Host: '' @ net_target.nt_host t @ '' '' @ middle_dot @ '' Server: '' @ target_server t,
           hm_ranges = map (\<lambda>(l, r). (l, r, network.historyRange s = r)) [(''6H'', Network.H6h), (''24H'', Network.H24h), (''7D'', Network.H7d)],
           hm_count = show_nat (length (network.historyData s)) @ '' data points'',
           hm_chart = (if network.loadingHistory s then Chart_loading
                       else if network.historyData s = [] then Chart_empty else Chart_points (network.historyData s))\<rparr>)
          (historyTarget s)
      else None)"

definition history_tick :: "(string \<Rightarrow> nat \<times> nat) \<Rightarrow> string \<Rightarrow> string" where
  \<comment> \<open>\<open>clock\<close> gives the hours and minutes of a timestamp in the zone of the browser\<close>
  "history_tick clock t =
     (case clock t of (h, m) \<Rightarrow> show_nat h @ '':'' @ (if m < 10 then ''0'' else []) @ show_nat m)"

definition history_tooltip :: "(string \<Rightarrow> string) \<Rightarrow> target_result \<Rightarrow> string list" where
  "history_tooltip locale_string pt =
     [locale_string (tr_measured_at pt),
      ''Latency: '' @ (case tr_latency_ms pt of Some q \<Rightarrow> show_fixed 1 q | None \<Rightarrow> ''N/A'') @ '' ms''] @
     (case tr_packet_loss pt of Some q \<Rightarrow> [''Packet Loss: '' @ show_rat q @ ''%''] | None \<Rightarrow> []) @
     [''Status: '' @ to_upper (tr_status pt) @ '' ('' @ show_nat (tr_successful_probes pt) @ ''/'' @
      show_nat (tr_total_probes pt) @ '' probes)'']"

definition close_history_modal :: "network \<Rightarrow> network" where
  "close_history_modal s = s\<lparr>historyModalOpen := False\<rparr>"

definition ask_delete_target :: "net_target \<Rightarrow> network \<Rightarrow> network" where
  "ask_delete_target t s = s\<lparr>deleteConfirmTarget := Some t\<rparr>"

definition cancel_delete_target :: "network \<Rightarrow> network" where
  "cancel_delete_target s = s\<lparr>deleteConfirmTarget := None\<rparr>"

record target_delete_dialog =
  dd_name :: string
  dd_server :: string
  dd_disabled :: bool
  dd_text :: string

definition target_delete_dialog_of :: "network \<Rightarrow> target_delete_dialog option" where
  "target_delete_dialog_of s =
     map_option (\<lambda>t.
       \<lparr>dd_name = net_target.nt_name t, dd_server = target_server t, dd_disabled = deletingTarget s,
        dd_text = (if deletingTarget s then ''Deleting...'' else ''Confirm Delete'')\<rparr>)
       (deleteConfirmTarget s)"

section \<open>What follows\<close>

text \<open>An empty table is always explained by a filter, and the reset button is there and empties them.\<close>

lemma reset_shows_all_targets:
  assumes "targets s \<noteq> []" and "filteredTargets s = []"
  shows "reset_offered s" and "filteredTargets (reset_filters s) = targets s"
    and "\<not> reset_offered (reset_filters s)"
proof -
  have all: "filteredTargets u = targets u" if "\<not> reset_offered u" for u
    using that by (simp add: filteredTargets_def target_shown_def reset_offered_def filter_id_conv Let_def)
  show "reset_offered s" using assms all [of s] by auto
  show "\<not> reset_offered (reset_filters s)" by (simp add: reset_offered_def reset_filters_def)
  with all [of "reset_filters s"] show "filteredTargets (reset_filters s) = targets s"
    by (simp add: reset_filters_def)
qed

text \<open>
  Two defects of the page.  After a load that failed it says that no target is configured.  The answer
  to a request closes whatever dialog is open by then, and frees the test button of every target.
\<close>

lemma failed_load_reads_empty: "without_targets (loadData_finish b (Inl e) (init_network a))"
  by (simp add: without_targets_def loadData_finish_def Network.toast_def init_network_def)

lemma late_answer_closes_other_dialog:
  "\<not> targetModalOpen (handleSaveTarget_finish (Inr u) (target_openEditModal t (close_target_modal s)))"
  "deleteConfirmTarget (handleDeleteTarget_finish t' (Inr u) (ask_delete_target t (cancel_delete_target s))) = None"
  by (simp_all add: handleSaveTarget_finish_def handleDeleteTarget_finish_def Network.toast_def Let_def)

lemma late_test_frees_other:
  "snd (press_test t (handleTestTargetNow_finish t' reply (fst (handleTestTargetNow_begin t s)))) =
     Some (request_bare ''POST'' (''/network-targets/'' @ net_target.nt_id t @ ''/test-now''))"
  by (simp add: press_test_def handleTestTargetNow_begin_def handleTestTargetNow_finish_def)

section \<open>The bell and the Alert Center\<close>

lemma trim_part: "str_includes t (trim t)"
proof -
  have "str_includes t (dropWhile is_ws t)"
    by (metis str_includes_append append_Nil2 takeWhile_dropWhile_id)
  moreover have "str_includes u (rev (dropWhile is_ws (rev u)))" for u
    by (metis str_includes_append append_Nil rev_append rev_rev_ident takeWhile_dropWhile_id)
  ultimately show ?thesis unfolding trim_def using str_includes_trans by blast
qed

lemma lower_part: "str_includes s q \<Longrightarrow> str_includes (to_lower s) (to_lower q)"
  unfolding str_includes_sublist to_lower_def by (rule map_mono_sublist)

lemma filter_text_part:
  assumes "nr_target_name r = nonempty_or_null (trim n)"
  shows "universal_rule r \<or> str_includes (to_lower n) (rule_filter_text r)"
proof (cases "trim n = []")
  case True
  then show ?thesis using assms by (simp add: universal_rule_def truthy_def nonempty_or_null_def)
next
  case False
  then have "rule_filter_text r = trim (to_lower (trim n))"
    using assms by (simp add: rule_filter_text_def nonempty_or_null_def)
  then show ?thesis
    using str_includes_trans [OF lower_part [OF trim_part] trim_part] by simp
qed

definition rule_of_form :: "net_rule \<Rightarrow> alerts \<Rightarrow> bool" where
  \<comment> \<open>a stored rule with the metric, the target and the server that \<open>createRule\<close> sends\<close>
  "rule_of_form r a \<longleftrightarrow>
     nr_enabled r \<and> nr_metric r = ruleMetric (form a) \<and> nr_target_name r = payloadTargetName a \<and>
     nr_server_id r = payloadServerId a"

lemma bell_payload:
  assumes "plain_id (net_target.nt_agent_id target)"
  shows "ruleMetric (form (effect_url (alert_params (target_alert_link target)) a)) = ''network_latency'' \<and>
      payloadTargetName (effect_url (alert_params (target_alert_link target)) a) =
        nonempty_or_null (trim (net_target.nt_name target)) \<and>
      payloadServerId (effect_url (alert_params (target_alert_link target)) a) = Some (net_target.nt_agent_id target)"
proof -
  have sid: "net_target.nt_agent_id target \<noteq> []" using id_text [OF assms] by simp
  have "alert_params (target_alert_link target) =
      \<lparr>paramTab = Some ''create'', paramCategory = Some ''network'', paramTarget = Some (net_target.nt_name target),
       paramServerId = Some (net_target.nt_agent_id target), paramMetric = Some ''network_latency''\<rparr>"
    using id_text [OF assms]
    by (simp add: target_alert_link_def link_simps alert_params_def search_get_def)
  then show ?thesis
    using create_form_opened [OF sid, of "net_target.nt_name target" a]
    by (simp add: Let_def payloadTargetName_def payloadServerId_def)
qed

lemma bell_rules:
  assumes "r \<in> set (alertRules s)"
  shows "plain_id (net_target.nt_agent_id target) \<Longrightarrow>
      rule_of_form r (effect_url (alert_params (target_alert_link target)) a) \<Longrightarrow>
      r \<in> set (getTargetAlerts target s)"
    and "rule_of_form r (effect_url (alert_params (tag_alert_link tag)) a) \<Longrightarrow> r \<in> set (getTagAlerts tag s)"
proof -
  assume "plain_id (net_target.nt_agent_id target)"
    and "rule_of_form r (effect_url (alert_params (target_alert_link target)) a)"
  then show "r \<in> set (getTargetAlerts target s)"
    using bell_payload [of target a] filter_text_part [of r "net_target.nt_name target"] assms
    by (auto simp: getTargetAlerts_def networkAlertRules_def rule_of_form_def truthy_def)
next
  let ?a = "effect_url (alert_params (tag_alert_link tag)) a"
  assume r: "rule_of_form r ?a"
  have "alert_params (tag_alert_link tag) =
      \<lparr>paramTab = Some ''create'', paramCategory = Some ''network'', paramTarget = Some tag,
       paramServerId = None, paramMetric = Some ''network_latency''\<rparr>"
    by (simp add: alert_params_def search_get_def alert_link_params)
  then have "ruleMetric (form ?a) = ''network_latency'' \<and>
      payloadTargetName ?a = nonempty_or_null (trim tag)"
    by (simp add: effect_url_def tab_of_def category_of_def url_network_def truthy_def opt_or_def
        str_or_def Let_def payloadTargetName_def)
  then show "r \<in> set (getTagAlerts tag s)"
    using filter_text_part [of r tag] r assms
    by (auto simp: getTagAlerts_def networkAlertRules_def rule_of_form_def)
qed

text \<open>
  C15. A rule created through the bell of a target is counted at that target, whatever the name, the
  white space around it and the case of its letters, and so is a rule created through the link of a tag
  at its card.
\<close>

theorem bell_rule_counted:
  assumes "r \<in> set (alertRules s)"
  shows "(plain_id (net_target.nt_agent_id target) \<and>
        rule_of_form r (effect_url (alert_params (target_alert_link target)) a) \<longrightarrow>
        r \<in> set (getTargetAlerts target s)) \<and>
      (rule_of_form r (effect_url (alert_params (tag_alert_link tag)) a) \<longrightarrow> r \<in> set (getTagAlerts tag s))"
  using bell_rules [OF assms] by blast

definition bell_rule :: "string option \<Rightarrow> string option \<Rightarrow> net_rule" where
  "bell_rule name sid =
     \<lparr>nr_id = ''r'', nr_name = ''latency'', nr_metric = ''network_latency'', nr_target_name = name, nr_server_id = sid, nr_enabled = True\<rparr>"

theorem bell_rule_counted_witness:
  "bell_rule (Some ''dns'') (Some ''a'') \<in> set (getTargetAlerts demo_target
      ((init_network None)\<lparr>alertRules := [bell_rule (Some ''dns'') (Some ''a'')]\<rparr>)) \<and>
   bell_rule (Some ''Domestic'') None \<in> set (getTagAlerts ''Domestic''
      ((init_network None)\<lparr>alertRules := [bell_rule (Some ''Domestic'') None]\<rparr>))"
proof
  have trims: "trim ''dns'' = ''dns''" "trim ''Domestic'' = ''Domestic''" by code_simp+
  have id: "plain_id (net_target.nt_agent_id demo_target)"
    unfolding demo_target_def net_target.simps by code_simp
  have "rule_of_form (bell_rule (Some ''dns'') (Some ''a''))
      (effect_url (alert_params (target_alert_link demo_target)) (init_alerts ''admin''))"
    using bell_payload [OF id, of "init_alerts ''admin''"] trims
    by (simp add: rule_of_form_def bell_rule_def demo_target_def nonempty_or_null_def)
  then show "bell_rule (Some ''dns'') (Some ''a'') \<in> set (getTargetAlerts demo_target
      ((init_network None)\<lparr>alertRules := [bell_rule (Some ''dns'') (Some ''a'')]\<rparr>))"
    using bell_rule_counted [of _ "(init_network None)\<lparr>alertRules := [bell_rule (Some ''dns'') (Some ''a'')]\<rparr>"] id
    by simp
  have "rule_of_form (bell_rule (Some ''Domestic'') None)
      (effect_url (alert_params (tag_alert_link ''Domestic'')) (init_alerts ''admin''))"
    using trims
    by (simp add: rule_of_form_def bell_rule_def nonempty_or_null_def alert_params_def search_get_def alert_link_params
        effect_url_def tab_of_def category_of_def url_network_def truthy_def opt_or_def str_or_def Let_def
        payloadTargetName_def payloadServerId_def init_alerts_def init_rule_form_def)
  then show "bell_rule (Some ''Domestic'') None \<in> set (getTagAlerts ''Domestic''
      ((init_network None)\<lparr>alertRules := [bell_rule (Some ''Domestic'') None]\<rparr>))"
    using bell_rule_counted [of _ "(init_network None)\<lparr>alertRules := [bell_rule (Some ''Domestic'') None]\<rparr>"]
    by simp
qed

end
