(* ===== verification/WebsitesView.thy ===== *)
theory WebsitesView
  imports Websites JsJson
begin

text \<open>
  What the uptime page (\<open>dashboard/websites/page.tsx\<close>) shows of its state: the overview cards, the
  rows of status bars and the tables of both tabs, the popover over a bar, the dialogs; and its
  controls, with the conditions under which the markup enables them, as a step relation.
\<close>

section \<open>State of the view\<close>

datatype web_tab = Websites_Tab | Servers_Tab

record hovered_day =
  hv_item :: string
  hv_day :: day_bar
  hv_index :: nat

record websites_view =
  wv_tab :: web_tab
  wv_table :: bool
  wv_hovered :: "hovered_day option"

definition init_websites_view :: websites_view where
  "init_websites_view = \<lparr>wv_tab = Websites_Tab, wv_table = False, wv_hovered = None\<rparr>"

section \<open>Badges\<close>

datatype web_tone = Emerald | Amber | Rose | Slate

record web_badge =
  bg_text :: string
  bg_tone :: web_tone
  bg_shield_ok :: bool

definition ssl_tone :: "rat \<Rightarrow> web_tone" where
  "ssl_tone daysLeft = (if daysLeft > 30 then Emerald else if daysLeft > 15 then Amber else Rose)"

definition ssl_badge :: "rat option \<Rightarrow> web_badge option" where
  \<comment> \<open>over the bars\<close>
  "ssl_badge d =
     map_option (\<lambda>daysLeft. \<lparr>bg_text = (if daysLeft > 0 then show_rat daysLeft @ ''d SSL'' else ''SSL Expired''),
       bg_tone = ssl_tone daysLeft, bg_shield_ok = (daysLeft > 15)\<rparr>) d"

definition ssl_cell :: "rat option \<Rightarrow> web_badge" where
  \<comment> \<open>in the table\<close>
  "ssl_cell d =
     (case d of
        None \<Rightarrow> \<lparr>bg_text = ''No SSL info'', bg_tone = Slate, bg_shield_ok = False\<rparr>
      | Some daysLeft \<Rightarrow>
          \<lparr>bg_text = (if daysLeft > 0 then show_rat daysLeft @ ''d left'' else ''Expired''),
           bg_tone = ssl_tone daysLeft, bg_shield_ok = (daysLeft > 15)\<rparr>)"

definition bar_tone :: "day_status \<Rightarrow> web_tone" where
  "bar_tone st = (case st of Outage \<Rightarrow> Rose | Degraded \<Rightarrow> Amber | NoData \<Rightarrow> Slate | Operational \<Rightarrow> Emerald)"

section \<open>The overview cards\<close>

record overview_cards =
  oc_websites :: nat
  oc_websites_text :: string
  oc_servers :: nat
  oc_servers_text :: string
  oc_availability :: string
  oc_valid_ssl :: int
  oc_ssl_alert :: "nat option"

definition up_down_text :: "string \<Rightarrow> string \<Rightarrow> nat \<Rightarrow> nat \<Rightarrow> string" where
  "up_down_text up_word down_word up down =
     show_nat up @ '' '' @ up_word @ (if down > 0 then middle_dot @ show_nat down @ '' '' @ down_word else [])"

definition overview_cards_of :: "websites_page \<Rightarrow> overview_cards" where
  "overview_cards_of s =
     \<lparr>oc_websites = length (websites s),
      oc_websites_text = up_down_text ''Operational'' ''Down'' (length (upWebsites s)) (length (downWebsites s)),
      oc_servers = length (servers s),
      oc_servers_text = up_down_text ''Online'' ''Offline'' (length (onlineServers s)) (length (offlineServers s)),
      oc_availability = overallAvailability s,
      oc_valid_ssl = int (length (websites s)) - int (expiringSslCount s),
      oc_ssl_alert = (if expiringSslCount s > 0 then Some (expiringSslCount s) else None)\<rparr>"

section \<open>The popover over a bar\<close>

definition bar_percent :: "nat \<Rightarrow> rat" where
  "bar_percent idx = (of_nat idx + 1 / 2) / 90 * 100"

definition clampedBoxLeft :: "nat \<Rightarrow> rat" where
  "clampedBoxLeft idx = max 18 (min 82 (bar_percent idx))"

definition arrowOffsetPct :: "nat \<Rightarrow> rat" where
  "arrowOffsetPct idx = bar_percent idx - clampedBoxLeft idx"

record popover =
  po_left :: rat
  po_arrow :: rat
  po_date :: string
  po_tone :: web_tone
  po_status :: string
  po_figure :: string
  po_related :: string

definition website_popover :: "hovered_day \<Rightarrow> popover" where
  "website_popover h =
     (let day = hv_day h; st = db_status day in
      \<lparr>po_left = clampedBoxLeft (hv_index h), po_arrow = arrowOffsetPct (hv_index h),
       po_date = formatTooltipDate (db_date day), po_tone = bar_tone st,
       po_status = (case st of Outage \<Rightarrow> ''Major outage'' | Degraded \<Rightarrow> ''Partial outage''
                    | Operational \<Rightarrow> ''Operational'' | NoData \<Rightarrow> ''No data''),
       po_figure = (if st = Outage \<or> st = Degraded then formatOutageDuration (db_downtime_seconds day)
                    else if db_avg_latency_ms day > 0
                    then show_int (js_round (db_avg_latency_ms day)) @ ''ms avg''
                    else ''100% uptime''),
       po_related = opt_or (db_incident_title day)
                      (if st = Operational then ''No downtime recorded''
                       else if st = NoData then ''No monitoring data'' else ''Service probe failures'')\<rparr>)"

definition server_popover :: "string \<Rightarrow> hovered_day \<Rightarrow> popover" where
  \<comment> \<open>\<open>up\<close> is the formatted uptime of the host\<close>
  "server_popover up h =
     (let day = hv_day h; st = db_status day in
      \<lparr>po_left = clampedBoxLeft (hv_index h), po_arrow = arrowOffsetPct (hv_index h),
       po_date = formatTooltipDate (db_date day), po_tone = bar_tone st,
       po_status = (case st of Outage \<Rightarrow> ''Host offline'' | Degraded \<Rightarrow> ''Partial downtime''
                    | Operational \<Rightarrow> ''Operational'' | NoData \<Rightarrow> ''Before enrollment''),
       po_figure = (if st = Operational then ''100% SLA'' else formatOutageDuration (db_downtime_seconds day)),
       po_related = (if st = Operational
                     then ''Heartbeat active'' @ middle_dot @ ''Continuous uptime: '' @ up
                     else if st = NoData then ''Host not yet enrolled''
                     else ''Agent heartbeat interrupted'')\<rparr>)"

definition hovered_over :: "string \<Rightarrow> websites_view \<Rightarrow> hovered_day option" where
  "hovered_over i v = (case wv_hovered v of Some h \<Rightarrow> if hv_item h = i then Some h else None | None \<Rightarrow> None)"

section \<open>Rows of websites\<close>

record row_buttons =
  edit_disabled :: bool
  check_disabled :: bool
  delete_disabled :: bool

definition buttons_of :: "string \<Rightarrow> websites_page \<Rightarrow> row_buttons" where
  "buttons_of i s =
     \<lparr>edit_disabled = isViewer s, check_disabled = (checkingId s = Some i), delete_disabled = isViewer s\<rparr>"

record website_row =
  wr_id :: string
  wr_up :: bool
  wr_name :: string
  wr_link :: "string option"
  wr_ssl :: "web_badge option"
  wr_status :: string
  wr_buttons :: row_buttons
  wr_bars :: "(web_tone \<times> bool) list"
  wr_popover :: "popover option"
  wr_uptime :: string
  wr_end :: string

definition item_up :: "summary_item \<Rightarrow> bool" where
  "item_up it \<longleftrightarrow> to_upper (si_current_status it) = ''UP'' \<or> to_lower (si_current_status it) = ''online''"

definition bars_of :: "string \<Rightarrow> websites_view \<Rightarrow> day_status list \<Rightarrow> (web_tone \<times> bool) list" where
  \<comment> \<open>the colour of each bar and whether the pointer is over it\<close>
  "bars_of i v sts = map (\<lambda>(k, st).
     (bar_tone st, case hovered_over i v of Some h \<Rightarrow> hv_index h = k | None \<Rightarrow> False)) (enumerate 0 sts)"

definition uptime_text :: "rat \<Rightarrow> string" where
  "uptime_text pct =
     (if of_int \<lfloor>pct\<rfloor> = pct then show_int (js_round pct) else show_rat (fixed 2 pct)) @ ''% uptime''"

definition end_label :: "websites_page \<Rightarrow> string list \<Rightarrow> string" where
  "end_label s dates =
     (if selectedEndDate s = [] then ''Today''
      else if dates = [] then ''Today'' else str_or (last dates) ''Today'')"

definition website_row_of :: "websites_page \<Rightarrow> websites_view \<Rightarrow> summary_item \<Rightarrow> website_row" where
  "website_row_of s v it =
     (let website = find_by ws_id (si_id it) (websites s) in
      \<lparr>wr_id = si_id it, wr_up = item_up it, wr_name = si_name it,
       wr_link = (if truthy (si_url it) then si_url it else None),
       wr_ssl = ssl_badge (Option.bind website ws_ssl_days_remaining),
       wr_status = (if item_up it then ''Operational'' else ''Major outage''),
       wr_buttons = buttons_of (si_id it) s,
       wr_bars = bars_of (si_id it) v (map db_status (si_days it)),
       wr_popover = map_option website_popover (hovered_over (si_id it) v),
       wr_uptime = uptime_text (si_overall_uptime_pct it),
       wr_end = end_label s (map db_date (si_days it))\<rparr>)"

record website_cells =
  wc_name :: string
  wc_url :: string
  wc_status :: string
  wc_since :: "string option"
  wc_uptime :: string
  wc_latency :: string
  wc_ssl :: web_badge
  wc_buttons :: row_buttons

definition website_cells_of ::
  "(string \<Rightarrow> rat option) \<Rightarrow> websites_page \<Rightarrow> website \<Rightarrow> website_cells" where
  \<comment> \<open>the uptime is one of two literals, a missing latency is 45\<close>
  "website_cells_of date_ms s w =
     \<lparr>wc_name = ws_name w, wc_url = ws_url w,
      wc_status = (if is_up w then ''OPERATIONAL'' else ''DOWN''),
      wc_since = (if is_up w then None else formatDowntime date_ms (ws_down_started_at w) s),
      wc_uptime = (if is_up w then ''100.0%'' else ''98.5%''),
      wc_latency = (case ws_response_time_ms w of Some q \<Rightarrow> show_rat (if q = 0 then 45 else q) | None \<Rightarrow> ''45'') @ ''ms'',
      wc_ssl = ssl_cell (ws_ssl_days_remaining w), wc_buttons = buttons_of (ws_id w) s\<rparr>"

section \<open>Rows of servers\<close>

record server_status_row =
  sr_online :: bool
  sr_name :: string
  sr_address :: string
  sr_version :: "string option"
  sr_status :: string
  sr_uptime :: string
  sr_href :: string
  sr_bars :: "(web_tone \<times> bool) list"
  sr_popover :: "popover option"
  sr_availability :: string
  sr_end :: string

definition host_address :: "(string \<Rightarrow> json option) \<Rightarrow> host \<Rightarrow> string" where
  "host_address json_parse h =
     opt_or (ho_ip_address h)
       (text_or (chain (chain (parseJSON json_parse (ho_snapshot h)) ''system_info'') ''public_ip'') ''127.0.0.1'')"

definition host_version :: "(string \<Rightarrow> json option) \<Rightarrow> host \<Rightarrow> string option" where
  "host_version json_parse h =
     nonempty_or_null (json_text (chain (chain (parseJSON json_parse (ho_snapshot h)) ''inventory'') ''agent_version''))"

definition hover_server :: "string \<Rightarrow> host \<Rightarrow> nat \<Rightarrow> server_bar \<Rightarrow> websites_view \<Rightarrow> websites_view" where
  \<comment> \<open>the pointer enters bar \<open>k\<close>\<close>
  "hover_server up h k b v =
     v\<lparr>wv_hovered := Some \<lparr>hv_item = ho_id h,
         hv_day = \<lparr>db_date = sb_date b, db_status = sb_status b,
           db_uptime_pct = (if sb_status b = Operational then 100 else 0),
           db_downtime_seconds = sb_downtime_seconds b, db_avg_latency_ms = 0,
           db_incident_title = Some (if is_online h then ''Host uptime: '' @ up else ''Agent offline'')\<rparr>,
         hv_index = k\<rparr>\<rparr>"

definition hover_website :: "string \<Rightarrow> nat \<Rightarrow> day_bar \<Rightarrow> websites_view \<Rightarrow> websites_view" where
  "hover_website i k day v = v\<lparr>wv_hovered := Some \<lparr>hv_item = i, hv_day = day, hv_index = k\<rparr>\<rparr>"

definition leave_bar :: "websites_view \<Rightarrow> websites_view" where
  "leave_bar v = v\<lparr>wv_hovered := None\<rparr>"

definition server_status_row_of ::
  "(string \<Rightarrow> rat option) \<Rightarrow> (string \<Rightarrow> json option) \<Rightarrow> rat \<Rightarrow> websites_page \<Rightarrow> websites_view \<Rightarrow> host \<Rightarrow>
     server_status_row option" where
  "server_status_row_of date_ms json_parse now s v h =
     (let up = formatUptimeSeconds (host_uptime json_parse h) in
      map_option (\<lambda>bars.
        \<lparr>sr_online = is_online h, sr_name = ho_name h, sr_address = host_address json_parse h,
         sr_version = map_option (\<lambda>x. CHR ''v'' # x) (host_version json_parse h),
         sr_status = (if is_online h then ''Operational'' else ''Host offline''),
         sr_uptime = ''Up: '' @ (if is_online h then up else em_dash),
         sr_href = ''/dashboard/servers/'' @ ho_id h,
         sr_bars = bars_of (ho_id h) v (map sb_status bars),
         sr_popover = map_option (server_popover up) (hovered_over (ho_id h) v),
         sr_availability = formatPercent (Some (availability h)) @ '' availability'',
         sr_end = end_label s (map sb_date bars)\<rparr>)
      (serverBars date_ms json_parse now s h))"

record server_cells =
  sc_name :: string
  sc_address :: string
  sc_status :: string
  sc_availability :: string
  sc_tone :: web_tone
  sc_downtime :: string
  sc_uptime :: string
  sc_uptime_note :: string
  sc_href :: string

definition server_cells_of :: "(string \<Rightarrow> json option) \<Rightarrow> host \<Rightarrow> server_cells" where
  "server_cells_of json_parse h =
     (let down = (case ho_downtime_seconds_30d h of Some q \<Rightarrow> q | None \<Rightarrow> 0); a = availability h in
      \<lparr>sc_name = ho_name h, sc_address = host_address json_parse h,
       sc_status = (if is_online h then ''ONLINE'' else ''OFFLINE''),
       sc_availability = formatPercent (Some a),
       sc_tone = (if a \<ge> 99 then Emerald else if a \<ge> 95 then Amber else Rose),
       sc_downtime = (if down > 0 then formatDowntimeDuration (Some down) else ''100% SLA target''),
       sc_uptime = (if is_online h then formatUptimeSeconds (host_uptime json_parse h) else em_dash),
       sc_uptime_note = (if is_online h then ''Since last boot'' else ''Offline / down''),
       sc_href = ''/dashboard/servers/'' @ ho_id h\<rparr>)"

section \<open>The bodies of the tabs\<close>

datatype tab_body =
    Spinner
  | Nothing_Yet string
  | Website_Bars "website_row list"
  | Website_Table "website_cells list"
  | Server_Bars "server_status_row option list"
  | Server_Table "server_cells list"

definition tab_body_of ::
  "(string \<Rightarrow> rat option) \<Rightarrow> (string \<Rightarrow> json option) \<Rightarrow> rat \<Rightarrow> websites_page \<Rightarrow> websites_view \<Rightarrow> tab_body" where
  "tab_body_of date_ms json_parse now s v =
     (case wv_tab v of
        Websites_Tab \<Rightarrow>
          (if loadingWebsites s \<and> loadingUptimeSummary s \<and> websites s = [] then Spinner
           else if websites s = [] then Nothing_Yet ''No monitored websites yet''
           else if wv_table v then Website_Table (map (website_cells_of date_ms s) (websites s))
           else Website_Bars (map (website_row_of s v) (displayItems now s)))
      | Servers_Tab \<Rightarrow>
          (if loadingServers s then Spinner
           else if servers s = [] then Nothing_Yet ''No servers enrolled yet''
           else if wv_table v then Server_Table (map (server_cells_of json_parse) (servers s))
           else Server_Bars (map (server_status_row_of date_ms json_parse now s v) (servers s))))"

record window_header =
  wh_range :: string
  wh_next_disabled :: bool
  wh_today :: bool

definition window_header_of :: "websites_page \<Rightarrow> window_header" where
  "window_header_of s =
     \<lparr>wh_range = formatMonthYearRange (Option.bind (uptimeSummary s) us_start_date)
                  (Option.bind (uptimeSummary s) us_end_date),
      wh_next_disabled = (selectedEndDate s = []), wh_today = (selectedEndDate s \<noteq> [])\<rparr>"

definition delete_message :: "websites_page \<Rightarrow> string" where
  "delete_message s =
     ''Are you sure you want to remove \"'' @
     (case pendingDeleteWebsite s of Some (i, n) \<Rightarrow> n | None \<Rightarrow> ''undefined'') @
     ''\" from monitoring? All uptime and SSL alerts for this website will be stopped.''"

section \<open>The popover and the figures\<close>

lemma popover_inside:
  assumes "idx < 90"
  shows "18 \<le> clampedBoxLeft idx \<and> clampedBoxLeft idx \<le> 82 \<and> \<bar>arrowOffsetPct idx\<bar> < 18"
proof -
  have "0 \<le> (of_nat idx :: rat)" "(of_nat idx :: rat) \<le> 89"
    using assms of_nat_mono [of idx 89, where ?'a = rat] by simp_all
  then show ?thesis
    by (simp add: clampedBoxLeft_def arrowOffsetPct_def bar_percent_def max_def min_def field_simps)
qed

text \<open>
  The arrow of the popover is placed in per cent of the width of the box, with an offset computed in
  per cent of the row: it points at its bar only where it is not offset at all, or where the box is
  as wide as the row.
\<close>

lemma arrow_hits_bar:
  "clampedBoxLeft idx * row + arrowOffsetPct idx * box = bar_percent idx * row \<longleftrightarrow>
     arrowOffsetPct idx = 0 \<or> box = row"
proof -
  have "clampedBoxLeft idx * row + arrowOffsetPct idx * box - bar_percent idx * row =
      arrowOffsetPct idx * (box - row)"
    by (simp add: arrowOffsetPct_def algebra_simps)
  then show ?thesis by auto
qed

text \<open>A day without data and without a latency is announced as no data with 100 per cent uptime.\<close>

lemma no_data_full_uptime:
  assumes "db_status (hv_day h) = NoData" and "db_avg_latency_ms (hv_day h) \<le> 0"
  shows "po_status (website_popover h) = ''No data'' \<and> po_figure (website_popover h) = ''100% uptime''"
  using assms by (simp add: website_popover_def Let_def)

text \<open>The uptime column of the table knows two values, whatever was measured.\<close>

lemma table_uptime_invented:
  "wc_uptime (website_cells_of date_ms s w) = (if is_up w then ''100.0%'' else ''98.5%'')"
  by (simp add: website_cells_of_def)

section \<open>The controls\<close>

definition role_reported :: "string option \<Rightarrow> websites_page \<Rightarrow> websites_page" where
  "role_reported role s = (if truthy role then s\<lparr>userRole := the role\<rparr> else s)"

definition close_add :: "websites_page \<Rightarrow> websites_page" where
  "close_add s = s\<lparr>isModalOpen := False\<rparr>"

definition close_edit :: "websites_page \<Rightarrow> websites_page" where
  "close_edit s = s\<lparr>isEditModalOpen := False, editingWebsite := None\<rparr>"

definition cancel_delete :: "websites_page \<Rightarrow> websites_page" where
  "cancel_delete s = s\<lparr>pendingDeleteWebsite := None\<rparr>"

text \<open>
  \<open>web_step role s rs s'\<close>: one event of the page, which sends the requests \<open>rs\<close>; \<open>role\<close> is the role
  the API reports.  The guards are the \<open>disabled\<close> attributes and the conditions under which the
  element is rendered.
\<close>

inductive web_step :: "string option \<Rightarrow> websites_page \<Rightarrow> request list \<Rightarrow> websites_page \<Rightarrow> bool"
  for role where
  role_read: "web_step role s [] (role_reported role s)"
| tick: "timer_tick now s = (s', rs) \<Longrightarrow> web_step role s rs s'"
| refresh: "refreshAll s = (s', rs) \<Longrightarrow> web_step role s rs s'"
| summary_done: "web_step role s [] (fetchUptimeSummary_finish reply1 s)"
| websites_done: "web_step role s [] (fetchWebsites_finish rnd reply2 s)"
| servers_done: "web_step role s [] (fetchServers_finish reply3 s)"
| previous_range: "handlePreviousDateRange today s = Some (s', r) \<Longrightarrow> web_step role s [r] s'"
| next_range: "selectedEndDate s \<noteq> [] \<Longrightarrow> handleNextDateRange today s = Some (s', Some r) \<Longrightarrow> web_step role s [r] s'"
| today_range: "selectedEndDate s \<noteq> [] \<Longrightarrow> handleResetDateRange s = (s', r) \<Longrightarrow> web_step role s [r] s'"
| check: "checkingId s \<noteq> Some i \<Longrightarrow> handleManualCheck_begin i s = (s', r) \<Longrightarrow> web_step role s [r] s'"
| check_done: "handleManualCheck_finish c n reply s = (s', rs) \<Longrightarrow> web_step role s rs s'"
| check_end: "web_step role s [] (handleManualCheck_end s)"
| add_header: "\<not> isViewer s \<Longrightarrow> web_step role s [] (openAddModal s)"
| add_empty: "websites s = [] \<Longrightarrow> web_step role s [] (openAddModal s)"
| add_name: "isModalOpen s \<Longrightarrow> web_step role s [] (s\<lparr>newName := x\<rparr>)"
| add_url: "isModalOpen s \<Longrightarrow> web_step role s [] (s\<lparr>newUrl := x\<rparr>)"
| add_close: "isModalOpen s \<Longrightarrow> web_step role s [] (close_add s)"
| add: "isModalOpen s \<Longrightarrow> \<not> submitting s \<Longrightarrow> handleAddWebsite_begin s = (s', r) \<Longrightarrow> web_step role s [r] s'"
| add_done: "handleAddWebsite_finish c reply s = (s', rs) \<Longrightarrow> web_step role s rs s'"
| add_end: "web_step role s [] (handleAddWebsite_end s)"
| edit_bar: "\<not> isViewer s \<Longrightarrow> web_step role s [] (openEditModal (edit_target it s) s)"
| edit_row: "\<not> isViewer s \<Longrightarrow> w \<in> set (websites s) \<Longrightarrow> web_step role s [] (openEditModal w s)"
| edit_name: "isEditModalOpen s \<Longrightarrow> web_step role s [] (s\<lparr>editName := x\<rparr>)"
| edit_url: "isEditModalOpen s \<Longrightarrow> web_step role s [] (s\<lparr>editUrl := x\<rparr>)"
| edit_close: "isEditModalOpen s \<Longrightarrow> web_step role s [] (close_edit s)"
| edit: "isEditModalOpen s \<Longrightarrow> editingWebsite s \<noteq> None \<Longrightarrow> \<not> updatingWebsite s \<Longrightarrow>
    handleEditWebsite_begin s = (s', Some r) \<Longrightarrow> web_step role s [r] s'"
| edit_done: "handleEditWebsite_finish c reply s = (s', rs) \<Longrightarrow> web_step role s rs s'"
| edit_end: "web_step role s [] (handleEditWebsite_end s)"
| ask: "\<not> isViewer s \<Longrightarrow> web_step role s [] (ask_delete i n s)"
| ask_cancel: "web_step role s [] (cancel_delete s)"
| delete: "pendingDeleteWebsite s \<noteq> None \<Longrightarrow> \<not> deletingWebsite s \<Longrightarrow>
    confirmDeleteWebsite_begin s = (s', Some r) \<Longrightarrow> web_step role s [r] s'"
| delete_done: "confirmDeleteWebsite_finish c n reply s = (s', rs) \<Longrightarrow> web_step role s rs s'"
| delete_end: "web_step role s [] (confirmDeleteWebsite_end s)"

inductive web_run :: "string option \<Rightarrow> websites_page \<Rightarrow> request list \<Rightarrow> websites_page \<Rightarrow> bool" for role s0 where
  start: "web_run role s0 [] s0"
| more: "web_run role s0 rs s \<Longrightarrow> web_step role s qs s' \<Longrightarrow> web_run role s0 (rs @ qs) s'"

definition viewer_closed :: "websites_page \<Rightarrow> bool" where
  \<comment> \<open>a viewer, with every dialog that writes closed\<close>
  "viewer_closed s \<longleftrightarrow> userRole s = ''viewer'' \<and> \<not> isModalOpen s \<and> \<not> isEditModalOpen s \<and>
     pendingDeleteWebsite s = None"

definition harmless :: "request \<Rightarrow> bool" where
  "harmless r \<longleftrightarrow> req_method r = ''GET'' \<or>
     req_method r = ''POST'' \<and> (\<exists>i. req_endpoint r = ''/websites/'' @ i @ ''/check'')"

lemmas web_requests = fetchUptimeSummary_begin_def summary_request_def show_window_def
  reload_requests_def request_get_def request_bare_def request_send_def

lemmas web_handlers = refreshAll_def timer_tick_def handlePreviousDateRange_def handleNextDateRange_def
  handleResetDateRange_def handleManualCheck_begin_def handleManualCheck_finish_def handleManualCheck_end_def
  openAddModal_def handleAddWebsite_begin_def handleAddWebsite_finish_def handleAddWebsite_end_def
  openEditModal_def handleEditWebsite_finish_def handleEditWebsite_end_def
  ask_delete_def confirmDeleteWebsite_finish_def confirmDeleteWebsite_end_def
  fetchUptimeSummary_finish_def fetchWebsites_finish_def fetchServers_finish_def
  role_reported_def close_add_def close_edit_def cancel_delete_def toast_def

lemma viewer_step:
  assumes "web_step (Some ''viewer'') s rs s'" and "viewer_closed s"
  shows "viewer_closed s' \<and> (\<forall>r\<in>set rs. harmless r)"
  using assms
  by (induction rule: web_step.induct)
    (auto simp: viewer_closed_def harmless_def Websites.isViewer_def web_handlers web_requests truthy_def Let_def
      split: if_splits option.splits sum.splits prod.splits)

text \<open>
  C25. What a viewer can send from the uptime page: in every run of the page, whatever the answers and
  their order, only reads and health checks leave it.
\<close>

theorem viewer_only_checks:
  assumes "web_run (Some ''viewer'') (init_websites ''viewer'') rs s"
  shows "(\<forall>r\<in>set rs. harmless r) \<and> viewer_closed s"
  using assms
proof induction
  case start
  show ?case by (simp add: init_websites_def viewer_closed_def)
next
  case (more rs s qs s')
  then show ?case using viewer_step [OF more.hyps(2)] by auto
qed

theorem viewer_only_checks_witness:
  "\<exists>s. web_run (Some ''viewer'') (init_websites ''viewer'')
      [request_bare ''POST'' ''/websites/7/check''] s \<and> viewer_closed s"
proof -
  let ?i = "init_websites ''viewer''"
  have "web_step (Some ''viewer'') ?i [request_bare ''POST'' ''/websites/7/check''] (?i\<lparr>checkingId := Some ''7''\<rparr>)"
    by (rule web_step.check [of _ "''7''"]) (simp_all add: init_websites_def handleManualCheck_begin_def)
  from web_run.more [OF web_run.start this]
  have run: "web_run (Some ''viewer'') ?i [request_bare ''POST'' ''/websites/7/check''] (?i\<lparr>checkingId := Some ''7''\<rparr>)"
    by simp
  with viewer_only_checks [OF run] show ?thesis by blast
qed

end
