(* ===== verification/ServersView.thy ===== *)
theory ServersView
  imports Servers
begin

text \<open>
  The rest of the server list (\<open>dashboard/servers/page.tsx\<close>): the effects of its first render, what
  a row of the table and a card of the grid show of one server and which of their buttons they
  enable, the toolbar, the texts and buttons of the dialogs, and the copy button of the install
  command.  \<open>ServerGates\<close> has the clicks.
\<close>

section \<open>The first render\<close>

definition system_info_effect ::
  "bool \<Rightarrow> system_info option outcome \<Rightarrow> string option outcome \<Rightarrow> servers_page \<Rightarrow> servers_page" where
  \<comment> \<open>the answers of the control plane and of the version file, and whether the page is still
      mounted when they come\<close>
  "system_info_effect mounted info_reply file_reply s =
     (if \<not> mounted then s
      else case info_reply of
             Inl e \<Rightarrow> s
           | Inr info \<Rightarrow>
               (let candidate = opt_or (Option.bind info si_agent_version) ''1.5.13'';
                    s1 = s\<lparr>systemData := info\<rparr>;
                    prev = (case info of Some d \<Rightarrow> d
                            | None \<Rightarrow> \<lparr>si_agent_version = None, si_agent_artifact_base_url = None,
                                      si_agent_release_layout = None, si_latest_agent_version = None\<rparr>)
                in case file_reply of
                     Inr (Some raw) \<Rightarrow>
                       (let txt = trim raw
                        in if looks_like_version txt \<and> isNewerVersion (Some txt) (Some candidate)
                           then s1\<lparr>systemData := Some (prev\<lparr>si_agent_version := Some (strip_v txt),
                                     si_agent_artifact_base_url := Some (release_url (strip_v txt))\<rparr>)\<rparr>
                           else s1)
                   | _ \<Rightarrow> s1))"

definition loadInitial_finish ::
  "bool \<Rightarrow> server_record list option outcome \<Rightarrow> servers_page \<Rightarrow> servers_page" where
  "loadInitial_finish cancelled reply s = (if cancelled then s else fetchServers_finish False reply s)"

section \<open>The update of one server\<close>

datatype update_icon = Loader | Cross | Upload | Circle_Check

record update_view =
  uv_inProgress :: bool
  uv_stalled :: bool
  uv_failed :: bool
  uv_checking :: bool
  uv_icon :: update_icon
  uv_title :: string
  uv_disabled :: bool

definition update_task_of :: "servers_page \<Rightarrow> server_record \<Rightarrow> update_task option" where
  "update_task_of s server =
     (case agentUpdateTasks s (sr_id server) of Some t \<Rightarrow> Some t | None \<Rightarrow> sr_active_task server)"

definition running_or_unknown :: "(string \<Rightarrow> json option) \<Rightarrow> server_record \<Rightarrow> string" where
  "running_or_unknown json_parse server =
     text_or (chain (parseJSON json_parse (sr_os_info server)) ''version'')
       (text_or (chain (chain (parseJSON json_parse (sr_snapshot server)) ''inventory'') ''agent_version'') ''Unknown'')"

definition row_update_of ::
  "(string \<Rightarrow> json option) \<Rightarrow> servers_page \<Rightarrow> server_record \<Rightarrow> update_view" where
  \<comment> \<open>in a row of the table, which counts a failure only while an update is available\<close>
  "row_update_of json_parse s server =
     (let updateAvailable = sr_update_available server;
          latest = opt_or (sr_latest_agent_version server) [];
          target = str_or latest ''latest version'';
          task = update_task_of s server;
          st = (case task of Some t \<Rightarrow> ut_status t | None \<Rightarrow> []);
          inProgress = (task \<noteq> None \<and> is_active_status st);
          stalled = (task \<noteq> None \<and> st = ''completed'' \<and> updateAvailable);
          failed = (task \<noteq> None \<and> (is_failed_status st \<or> stalled) \<and> updateAvailable);
          checking = (checkingUpdateServerId s = Some (sr_id server))
      in \<lparr>uv_inProgress = inProgress, uv_stalled = stalled, uv_failed = failed, uv_checking = checking,
          uv_icon = (if inProgress \<or> checking then Loader else if failed then Cross
                     else if updateAvailable then Upload else Circle_Check),
          uv_title =
            (if isViewer s then ''Updating agent requires Operator or Admin role''
             else if inProgress then ''Updating agent...''
             else if checking then ''Checking for updates...''
             else if failed then ''Update failed: click to retry updating agent to '' @ target
             else if updateAvailable then ''Update Agent to '' @ target
             else ''Agent is up to date ('' @ running_or_unknown json_parse server @ ''). Click to check for updates''),
          uv_disabled = (isViewer s \<or> inProgress \<or> checking)\<rparr>)"

definition card_update_of ::
  "(string \<Rightarrow> json option) \<Rightarrow> servers_page \<Rightarrow> server_record \<Rightarrow> update_view" where
  \<comment> \<open>in a card of the grid, which has its own copy of the computation\<close>
  "card_update_of json_parse s server =
     (let updateAvailable = sr_update_available server;
          latest = opt_or (sr_latest_agent_version server) [];
          target = str_or latest ''latest version'';
          task = update_task_of s server;
          st = (case task of Some t \<Rightarrow> ut_status t | None \<Rightarrow> []);
          inProgress = (task \<noteq> None \<and> is_active_status st);
          stalled = (task \<noteq> None \<and> st = ''completed'' \<and> updateAvailable);
          failed = (task \<noteq> None \<and> (is_failed_status st \<or> stalled));
          checking = (checkingUpdateServerId s = Some (sr_id server))
      in \<lparr>uv_inProgress = inProgress, uv_stalled = stalled, uv_failed = failed, uv_checking = checking,
          uv_icon = (if inProgress \<or> checking then Loader else if failed then Cross
                     else if updateAvailable then Upload else Circle_Check),
          uv_title =
            (if isViewer s then ''Updating agent requires Operator or Admin role''
             else if inProgress then ''Updating agent...''
             else if checking then ''Checking for updates...''
             else if failed then ''Update failed: click to retry updating agent to '' @ target
             else if updateAvailable then ''Update Agent to '' @ target
             else ''Agent is up to date ('' @ running_or_unknown json_parse server @ ''). Click to check for updates''),
          uv_disabled = (isViewer s \<or> inProgress \<or> checking)\<rparr>)"

section \<open>Rows and cards\<close>

record server_buttons =
  bt_meta :: bool
  bt_terminal :: bool
  bt_update :: bool
  bt_restart :: bool
  bt_delete :: bool
  bt_policy :: bool

definition table_buttons :: "(string \<Rightarrow> json option) \<Rightarrow> servers_page \<Rightarrow> server_record \<Rightarrow> server_buttons" where
  \<comment> \<open>which buttons are enabled\<close>
  "table_buttons json_parse s server =
     \<lparr>bt_meta = isAdmin s, bt_terminal = (\<not> isViewer s),
      bt_update = (\<not> uv_disabled (row_update_of json_parse s server)),
      bt_restart = (\<not> isViewer s),
      bt_delete = (isAdmin s \<and> \<not> deletion_pending server),
      bt_policy = (isAdmin s \<and> updatingAutoUpdatePolicyId s \<noteq> Some (sr_id server))\<rparr>"

definition card_buttons :: "(string \<Rightarrow> json option) \<Rightarrow> servers_page \<Rightarrow> server_record \<Rightarrow> server_buttons" where
  "card_buttons json_parse s server =
     \<lparr>bt_meta = True, bt_terminal = True,
      bt_update = (\<not> uv_disabled (card_update_of json_parse s server)),
      bt_restart = True, bt_delete = (\<not> deletion_pending server), bt_policy = True\<rparr>"

definition health_text :: "(string \<Rightarrow> json option) \<Rightarrow> servers_page \<Rightarrow> server_record \<Rightarrow> string" where
  "health_text json_parse s server =
     (if sr_status server = ''online''
      then (if row_isCritical (server_row_of json_parse s server) then ''CRITICAL'' else ''ONLINE'')
      else ''OFFLINE'')"

definition table_address :: "(string \<Rightarrow> json option) \<Rightarrow> server_record \<Rightarrow> string" where
  "table_address json_parse server =
     (let ip = opt_or (sr_ip_address server)
            (text_or (chain (chain (parseJSON json_parse (sr_snapshot server)) ''system_info'') ''public_ip'')
              (json_text (chain (chain (chain (parseJSON json_parse (sr_os_info server)) ''snapshot'')
                            ''system_info'') ''public_ip'')))
      in str_or ip dash)"

definition card_address :: "server_record \<Rightarrow> string" where
  "card_address server = opt_or (sr_ip_address server) dash"

definition deletion_badge :: "server_record \<Rightarrow> string option" where
  "deletion_badge server =
     (let st = opt_or (sr_deletion_status server) []
      in if st = [] \<or> st = ''active'' then None
         else Some (if st = ''pending'' then ''Waiting for Agent uninstall''
                    else if st = ''uninstalling'' then ''Uninstalling Agent'' else ''Agent uninstall failed''))"

definition update_badge :: "(string \<Rightarrow> json option) \<Rightarrow> servers_page \<Rightarrow> server_record \<Rightarrow> string option" where
  "update_badge json_parse s server =
     (let v = row_update_of json_parse s server
      in if uv_inProgress v \<or> uv_failed v then Some (row_badge (server_row_of json_parse s server)) else None)"

record resource_value =
  rv_label :: string
  rv_value :: string
  rv_tone :: string
  rv_width :: rat

definition ResourceValue :: "string \<Rightarrow> string \<Rightarrow> rat option \<Rightarrow> resource_value" where
  "ResourceValue label value numericValue =
     \<lparr>rv_label = label, rv_value = value,
      rv_tone = (case numericValue of None \<Rightarrow> ''var(--text-tertiary)''
                 | Some n \<Rightarrow> if n \<ge> 85 then ''var(--status-critical)''
                             else if n \<ge> 70 then ''var(--status-warning)'' else ''var(--text-primary)''),
      rv_width = max 0 (min 100 (case numericValue of None \<Rightarrow> 0 | Some n \<Rightarrow> n))\<rparr>"

definition resource_values ::
  "(string \<Rightarrow> json option) \<Rightarrow> servers_page \<Rightarrow> server_record \<Rightarrow> resource_value list" where
  \<comment> \<open>the percentages of memory and disk are the printed ones; numeric fields\<close>
  "resource_values json_parse s server =
     (let liveInfo = (if sr_status server \<noteq> ''online'' then None else parseJSON json_parse (sr_os_info server));
          known = js_truthy liveInfo; row = server_row_of json_parse s server
      in [ResourceValue ''CPU'' (row_cpuText row)
            (if known \<and> \<not> nullish (chain liveInfo ''cpu_usage'') then finite_number (chain liveInfo ''cpu_usage'') else None),
          ResourceValue ''RAM'' (row_ramText row)
            (if known \<and> pos_number liveInfo ''memory_total'' > 0
             then Some (fixed 1 (pos_number liveInfo ''memory_used'' / pos_number liveInfo ''memory_total'' * 100))
             else None),
          ResourceValue ''DISK'' (row_diskText row)
            (if known \<and> pos_number liveInfo ''disk_total'' > 0
             then Some (fixed 1 (pos_number liveInfo ''disk_usage'')) else None)])"

record table_row =
  tr_href :: string
  tr_selected :: bool
  tr_name :: string
  tr_group :: "string option"
  tr_tags :: "string list"
  tr_deletion :: "string option"
  tr_update_badge :: "string option"
  tr_address :: string
  tr_platform :: string
  tr_cores :: string
  tr_resources :: "resource_value list"
  tr_policy :: string
  tr_health :: string
  tr_update :: update_view
  tr_buttons :: server_buttons

definition table_row_of ::
  "(string \<Rightarrow> json option) \<Rightarrow> servers_page \<Rightarrow> server_record \<Rightarrow> table_row" where
  "table_row_of json_parse s server =
     (let osInfo = parseJSON json_parse (sr_os_info server) in
      \<lparr>tr_href = ''/dashboard/servers/'' @ sr_id server,
       tr_selected = (sr_id server \<in> set (selectedServerIds s)),
       tr_name = sr_name server,
       tr_group = (if truthy (sr_group_name server) then sr_group_name server else None),
       tr_tags = or_empty (sr_tags server),
       tr_deletion = deletion_badge server, tr_update_badge = update_badge json_parse s server,
       tr_address = table_address json_parse server,
       tr_platform = (if js_truthy osInfo then json_text (chain osInfo ''os_name'') else ''Unknown''),
       tr_cores = (if js_truthy osInfo
                   then (case chain osInfo ''cpu_cores'' of Some v \<Rightarrow> to_text v | None \<Rightarrow> ''undefined'') @ '' Cores''
                   else dash),
       tr_resources = resource_values json_parse s server,
       tr_policy = (if sr_auto_update_agent server then ''Enabled'' else ''Disabled''),
       tr_health = health_text json_parse s server,
       tr_update = row_update_of json_parse s server,
       tr_buttons = table_buttons json_parse s server\<rparr>)"

record server_card =
  ca_href :: string
  ca_selected :: bool
  ca_name :: string
  ca_group :: "string option"
  ca_tags :: "string list"
  ca_address :: string
  ca_health :: string
  ca_cpu :: string
  ca_cpu_hot :: bool
  ca_ram :: string
  ca_disk :: string
  ca_auto :: bool
  ca_update :: update_view
  ca_buttons :: server_buttons

definition server_card_of ::
  "(string \<Rightarrow> json option) \<Rightarrow> servers_page \<Rightarrow> server_record \<Rightarrow> server_card" where
  "server_card_of json_parse s server =
     (let osInfo = parseJSON json_parse (sr_os_info server);
          isOffline = (sr_status server \<noteq> ''online'');
          liveInfo = (if isOffline then None else osInfo);
          live = js_truthy liveInfo;
          isCritical = (live \<and> num_lt (Fin 90) (cpu_number liveInfo));
          used = pos_number liveInfo ''memory_used''; total = pos_number liveInfo ''memory_total''
      in \<lparr>ca_href = ''/dashboard/servers/'' @ sr_id server,
          ca_selected = (sr_id server \<in> set (selectedServerIds s)),
          ca_name = sr_name server,
          ca_group = (if truthy (sr_group_name server) then sr_group_name server else None),
          ca_tags = or_empty (sr_tags server), ca_address = card_address server,
          ca_health = (if sr_status server = ''online'' then (if isCritical then ''CRITICAL'' else ''ONLINE'')
                       else ''OFFLINE''),
          ca_cpu = (if live then show_fixed 1 (pos_number liveInfo ''cpu_usage'') @ ''%'' else dash),
          ca_cpu_hot = (live \<and> num_lt (Fin 90) (cpu_number liveInfo)),
          ca_ram = (if live \<and> total > 0 then show_fixed 1 (used / total * 100) @ ''%'' else dash),
          ca_disk = (if live \<and> pos_number liveInfo ''disk_total'' > 0
                     then show_fixed 1 (pos_number liveInfo ''disk_usage'') @ ''%'' else dash),
          ca_auto = sr_auto_update_agent server,
          ca_update = card_update_of json_parse s server,
          ca_buttons = card_buttons json_parse s server\<rparr>)"

section \<open>Header, toolbar and body\<close>

definition header_text :: "servers_page \<Rightarrow> string" where
  \<comment> \<open>without the time of the last refresh\<close>
  "header_text s =
     show_nat (length (servers s)) @ '' agents'' @ middle_dot @ show_nat (onlineCount s) @ '' online'' @ middle_dot @
     show_nat (offlineCount s) @ '' offline''"

record header_buttons =
  hb_self_monitor :: bool
  hb_update_all :: bool
  hb_add :: bool

definition header_buttons_of :: "servers_page \<Rightarrow> header_buttons" where
  "header_buttons_of s =
     \<lparr>hb_self_monitor = isAdmin s, hb_update_all = (isAdmin s \<and> servers s \<noteq> [] \<and> \<not> isUpdatingAll s),
      hb_add = isAdmin s\<rparr>"

record bulk_bar =
  bb_count :: nat
  bb_auto :: bool
  bb_update :: bool

definition bulk_bar_of :: "servers_page \<Rightarrow> bulk_bar option" where
  \<comment> \<open>shown while something is selected; which of its buttons are enabled\<close>
  "bulk_bar_of s =
     (if selectedServerIds s = [] then None
      else Some \<lparr>bb_count = length (selectedServerIds s), bb_auto = (isAdmin s \<and> \<not> isBulkProcessing s),
                 bb_update = (\<not> isViewer s \<and> \<not> isBulkProcessing s)\<rparr>)"

definition STATUS_FILTERS :: "(status_filter \<times> string) list" where
  "STATUS_FILTERS = [(FAll, ''All''), (FOnline, ''Online''), (FOffline, ''Offline''),
     (FCritical, ''Critical''), (FUpdate, ''Update Available'')]"

datatype list_body =
    No_Servers string
  | No_Match string
  | Table "table_row list"
  | Cards "server_card list"

definition list_body_of :: "bool \<Rightarrow> (string \<Rightarrow> json option) \<Rightarrow> servers_page \<Rightarrow> list_body" where
  "list_body_of table json_parse s =
     (if filteredServers json_parse s = []
      then (if servers s = [] then No_Servers ''No servers found. Add your first server to start monitoring.''
            else No_Match ''No servers match the active search or status filter.'')
      else if table then Table (map (table_row_of json_parse s) (filteredServers json_parse s))
      else Cards (map (server_card_of json_parse s) (filteredServers json_parse s)))"

section \<open>Dialogs\<close>

record delete_view =
  dv_title :: string
  dv_record_label :: string
  dv_record_enabled :: bool
  dv_uninstall_enabled :: "bool option"

definition delete_view_of :: "servers_page \<Rightarrow> delete_view option" where
  \<comment> \<open>the second button is there where the agent can uninstall itself\<close>
  "delete_view_of s =
     map_option (\<lambda>d.
       let typed = (confirmDeleteText s = dd_name d) in
       \<lparr>dv_title = (if dd_uninstallSupported d then ''Uninstall Agent and Delete Server?'' else ''Delete Server Record?''),
        dv_record_label = (if dd_uninstallSupported d then ''Delete Record Only'' else ''Confirm Delete''),
        dv_record_enabled = (typed \<and> \<not> isDeletingServer s),
        dv_uninstall_enabled =
          (if dd_uninstallSupported d
           then Some (typed \<and> \<not> isDeletingServer s \<and> dd_status d = ''online'') else None)\<rparr>)
     (serverToDelete s)"

definition restart_enabled :: "servers_page \<Rightarrow> bool" where
  "restart_enabled s \<longleftrightarrow>
     (case serverToRestart s of Some (i, n) \<Rightarrow> confirmRestartText s = n | None \<Rightarrow> False)"

definition cancel_restart :: "servers_page \<Rightarrow> servers_page" where
  "cancel_restart s = s\<lparr>serverToRestart := None, confirmRestartText := []\<rparr>"

record update_view_dialog =
  ux_title :: string
  ux_versions :: "string \<times> string"
  ux_start :: "(string \<times> bool) option"

definition update_dialog_of :: "servers_page \<Rightarrow> update_view_dialog option" where
  "update_dialog_of s =
     map_option (\<lambda>d.
       \<lparr>ux_title = (if ud_hasUpdate d then ''Update Available'' else ''Agent Up to Date''),
        ux_versions = (ud_currentVersion d, ud_targetVersion d),
        ux_start = (if ud_hasUpdate d
                    then Some (''Start Update ('' @ ud_targetVersion d @ '')'', \<not> isUpdatingAgent s) else None)\<rparr>)
     (serverToUpdate s)"

definition generate_enabled :: "servers_page \<Rightarrow> bool" where
  "generate_enabled s \<longleftrightarrow> trim (newServerName s) \<noteq> []"

definition service_char :: "char \<Rightarrow> bool" where
  \<comment> \<open>the class \<open>[A-Za-z0-9._@,$ \-]\<close>\<close>
  "service_char c \<longleftrightarrow>
     (let k = char_code c
      in 65 \<le> k \<and> k \<le> 90 \<or> 97 \<le> k \<and> k \<le> 122 \<or> is_digit c \<or> c \<in> set ''._@,$ -'')"

definition type_services :: "string \<Rightarrow> servers_page \<Rightarrow> servers_page" where
  "type_services t s = s\<lparr>customServices := filter service_char t\<rparr>"

definition services_placeholder :: "os_choice \<Rightarrow> string" where
  "services_placeholder os =
     (case os of Linux \<Rightarrow> ''nginx,postgresql,docker,ssh'' | MacOS \<Rightarrow> ''com.openssh.sshd,homebrew.mxcl.nginx''
      | Windows \<Rightarrow> ''EventLog,Schedule,WinRM,sshd'')"

definition close_add_server :: "servers_page \<Rightarrow> servers_page" where
  "close_add_server s =
     s\<lparr>isAddServerModalOpen := False, generatedAgentToken := None, newServerName := [], customServices := []\<rparr>"

definition self_monitor_status :: "servers_page \<Rightarrow> string \<times> string" where
  "self_monitor_status s =
     (case selfHostServer s of
        Some v \<Rightarrow> (str_or (sr_name v) ''Control Plane'', if sr_status v = ''online'' then ''ONLINE'' else ''OFFLINE'')
      | None \<Rightarrow> (''Control Plane'', ''OFFLINE''))"

section \<open>The copy button of the install command\<close>

record copy_state =
  installCommandCopied :: bool
  reset_timers :: nat
    \<comment> \<open>timeouts that have not fired yet\<close>

definition copyInstallCommand :: "unit outcome \<Rightarrow> copy_state \<Rightarrow> copy_state \<times> string" where
  "copyInstallCommand copied c =
     (case copied of
        Inr _ \<Rightarrow> (c\<lparr>installCommandCopied := True, reset_timers := Suc (reset_timers c)\<rparr>,
                  ''Install command copied to clipboard'')
      | Inl e \<Rightarrow> (c\<lparr>installCommandCopied := False\<rparr>, ''Unable to copy install command''))"

definition reset_copied :: "copy_state \<Rightarrow> copy_state" where
  \<comment> \<open>a timeout fires\<close>
  "reset_copied c = c\<lparr>installCommandCopied := False, reset_timers := reset_timers c - 1\<rparr>"

section \<open>Row and card\<close>

lemma failed_views:
  "uv_failed (card_update_of json_parse s server) \<longleftrightarrow>
     uv_failed (row_update_of json_parse s server) \<or>
     (\<exists>t. update_task_of s server = Some t \<and> is_failed_status (ut_status t)) \<and> \<not> sr_update_available server"
  by (auto simp: row_update_of_def card_update_of_def Let_def split: option.splits)

lemma view_same:
  "uv_disabled (card_update_of json_parse s server) = uv_disabled (row_update_of json_parse s server)"
  "uv_inProgress (card_update_of json_parse s server) = uv_inProgress (row_update_of json_parse s server)"
  "uv_stalled (card_update_of json_parse s server) = uv_stalled (row_update_of json_parse s server)"
  by (simp_all add: row_update_of_def card_update_of_def Let_def)

lemma update_texts:
  "(\<exists>t. update_task_of s server = Some t \<and> is_failed_status (ut_status t)) \<and> \<not> sr_update_available server \<or>
   card_update_of json_parse s server = row_update_of json_parse s server"
  by (auto simp: row_update_of_def card_update_of_def is_failed_status_def Let_def split: option.splits)

lemma admin_or_viewer: "isAdmin s \<longleftrightarrow> \<not> isViewer s"
  by (simp add: isAdmin_def isViewer_def)

lemma viewer_blocked:
  "isViewer s \<Longrightarrow> uv_disabled (row_update_of json_parse s server)"
  "isViewer s \<Longrightarrow> uv_disabled (card_update_of json_parse s server)"
  by (simp_all add: row_update_of_def card_update_of_def Let_def)

lemma row_and_card_buttons:
  "tr_buttons (table_row_of json_parse s server) = table_buttons json_parse s server"
  "ca_buttons (server_card_of json_parse s server) = card_buttons json_parse s server"
  by (simp_all add: table_row_of_def server_card_of_def Let_def)

lemma card_of_row:
  "ca_buttons (server_card_of json_parse s server) =
     (if isViewer s
      then \<lparr>bt_meta = True, bt_terminal = True, bt_update = False, bt_restart = True,
            bt_delete = (\<not> deletion_pending server), bt_policy = True\<rparr>
      else (tr_buttons (table_row_of json_parse s server))\<lparr>bt_policy := True\<rparr>)"
  using view_same(1) [of json_parse s server]
  by (cases "isViewer s")
    (simp_all add: row_and_card_buttons table_buttons_def card_buttons_def admin_or_viewer viewer_blocked)

lemma row_of_card:
  "tr_buttons (table_row_of json_parse s server) =
     (if isViewer s
      then \<lparr>bt_meta = False, bt_terminal = False, bt_update = False, bt_restart = False,
            bt_delete = False, bt_policy = False\<rparr>
      else (ca_buttons (server_card_of json_parse s server))
             \<lparr>bt_policy := (updatingAutoUpdatePolicyId s \<noteq> Some (sr_id server))\<rparr>)"
  using view_same(1) [of json_parse s server]
  by (cases "isViewer s")
    (simp_all add: row_and_card_buttons table_buttons_def card_buttons_def admin_or_viewer viewer_blocked)

lemma same_figures:
  "map rv_value (tr_resources (table_row_of json_parse s server)) =
     [ca_cpu (server_card_of json_parse s server), ca_ram (server_card_of json_parse s server),
      ca_disk (server_card_of json_parse s server)]"
  by (simp add: table_row_of_def server_card_of_def server_row_of_def Let_def resource_values_def ResourceValue_def)

lemma same_health:
  "tr_health (table_row_of json_parse s server) = ca_health (server_card_of json_parse s server)"
  by (simp add: table_row_of_def server_card_of_def health_text_def server_row_of_def Let_def)

lemma card_address_of_row:
  "ca_address (server_card_of json_parse s server) =
     (if truthy (sr_ip_address server) then tr_address (table_row_of json_parse s server) else dash)"
  by (auto simp: table_row_of_def server_card_of_def card_address_def table_address_def truthy_def opt_or_def
      str_or_def Let_def split: option.splits)


section \<open>The install command and what is typed into it\<close>

definition quoting :: string where
  \<comment> \<open>what ends or escapes a quoted argument of a shell or of PowerShell, and what separates commands\<close>
  "quoting = [CHR 0x22, CHR 0x27, CHR 0x60, CHR 0x5C, CHR 0x0A, CHR 0x0D] @ '';|&<>(){}''"

lemma service_char_quoting: "filter service_char quoting = []"
  by code_simp

lemma trim_subset: "list_all P t \<Longrightarrow> list_all P (trim t)"
  by (auto simp: trim_def list_all_iff dest!: set_dropWhileD)

lemma type_services_clean: "list_all service_char (trim (customServices (type_services t s)))"
  by (rule trim_subset) (simp add: type_services_def list_all_iff)

text \<open>
  C30. Whatever is typed into the field of services changes the install command only by one more quoted
  argument at its end, and that argument contains nothing that could end it.
\<close>

theorem services_stay_quoted:
  "\<exists>v flag. getInstallCommand origin (type_services t s) =
       getInstallCommand origin (s\<lparr>customServices := []\<rparr>) @
         (if v = [] then [] else flag @ [CHR 0x22] @ v @ [CHR 0x22]) \<and>
     flag = (if selectedOs s = Windows then '' -Services '' else '' --services '') \<and>
     list_all service_char v \<and> filter service_char quoting = []"
proof (intro exI conjI)
  let ?v = "trim (customServices (type_services t s))"
  have same: "install_version (type_services t s) = install_version (s\<lparr>customServices := []\<rparr>)"
    "artifact_url (type_services t s) = artifact_url (s\<lparr>customServices := []\<rparr>)"
    by (simp_all add: type_services_def install_version_def artifact_url_def Let_def)
  have fields: "systemData (type_services t s) = systemData s" "selectedOs (type_services t s) = selectedOs s"
    "generatedAgentToken (type_services t s) = generatedAgentToken s"
    by (simp_all add: type_services_def)
  show "getInstallCommand origin (type_services t s) =
       getInstallCommand origin (s\<lparr>customServices := []\<rparr>) @
         (if ?v = [] then [] else (if selectedOs s = Windows then '' -Services '' else '' --services '') @
           [CHR 0x22] @ ?v @ [CHR 0x22])"
    by (cases "selectedOs s")
      (simp_all add: getInstallCommand_def Let_def same fields trim_def)
qed (simp_all add: type_services_clean service_char_quoting)

text \<open>
  The dollar sign is let through, and both kinds of shell expand it inside double quotes: the name of a
  Windows service such as \<open>MSSQL$SQL\<close> does not arrive as it was typed.
\<close>

lemma dollar_is_kept: "customServices (type_services ''MSSQL$SQL'' s) = ''MSSQL$SQL''"
proof -
  have "filter service_char ''MSSQL$SQL'' = ''MSSQL$SQL''" by code_simp
  then show ?thesis by (simp add: type_services_def)
qed

end
