(* ===== verification/ServerPanels.thy ===== *)
theory ServerPanels
  imports ServerView DeepLinks
begin

text \<open>
  The panels of \<open>servers/[id]/page.tsx\<close>, put together from the values of \<open>ServerView\<close>: the header, the
  overview with its banner, the process and service tables with their buttons and links, the network
  tab with cards, targets and history, interfaces, containers, and the dialogs.
\<close>

section \<open>Header and overview\<close>

record page_header =
  ph_name :: string
  ph_ip :: string
  ph_status :: string
  ph_agent :: string
  ph_update_required :: bool
  ph_update_available :: "string option"
  ph_metrics_link :: string
  ph_tabs :: "(string \<times> string \<times> bool \<times> string option) list"
    \<comment> \<open>key, label, whether it is the open one, the mark on it\<close>

definition page_header_of :: "server_page \<Rightarrow> view \<Rightarrow> page_header" where
  "page_header_of s v =
     \<lparr>ph_name = sd_name (v_server v), ph_ip = shown_ip v,
      ph_status = (if online v then ''Online'' else ''Offline''),
      ph_agent = ''Agent '' @ opt_or (reportedAgentVersion v) ''version unknown'',
      ph_update_required = update_required_shown v,
      ph_update_available =
        (if banner_shown v then Some (''Update available: '' @ latestAgentVersion v) else None),
      ph_metrics_link = monitoring_link (sd_id (v_server v)),
      ph_tabs = map (\<lambda>(k, label). (k, label, server_page.activeTab s = k,
                      if k = ''network'' then net_tab_mark v else None)) (tabs v)\<rparr>"

record update_banner =
  ub_text :: string
  ub_task :: "string option"
  ub_cancel :: bool
  ub_button :: "string \<times> bool"

definition update_banner_of :: "server_page \<Rightarrow> view \<Rightarrow> update_banner option" where
  "update_banner_of s v =
     (if banner_shown v
      then Some \<lparr>ub_text = ''This server is running Agent '' @ opt_or (reportedAgentVersion v) ''Unknown'' @
                   ''. The current release is Agent '' @ latestAgentVersion v @ ''.'',
                 ub_task = banner_text s v, ub_cancel = agentUpdateInProgress s,
                 ub_button = (update_button_text s v, update_button_enabled s v)\<rparr>
      else None)"

record usage_card =
  uc_label :: string
  uc_note :: string
  uc_value :: string
  uc_width :: rat
  uc_alarm :: bool

definition gigabytes :: "rat \<Rightarrow> string" where
  "gigabytes q = show_fixed 1 (q / (1024 * 1024 * 1024))"

definition usage_cards :: "view \<Rightarrow> usage_card list" where
  "usage_cards v =
     (let cpu = info_number v ''cpu_usage''; disk = info_number v ''disk_usage'';
          total = info_number v ''memory_total''; used = info_number v ''memory_used''; space = info_number v ''disk_total''
      in [\<lparr>uc_label = ''CPU USAGE'', uc_note = cpu_badge v, uc_value = usage_text cpu, uc_width = bar_width cpu,
           uc_alarm = (case cpu of Some q \<Rightarrow> q > 90 | None \<Rightarrow> False)\<rparr>,
          \<lparr>uc_label = ''RAM USAGE'',
           uc_note = (case (total, used) of
               (Some m, Some u) \<Rightarrow> if m \<noteq> 0 \<and> u \<noteq> 0 then gigabytes u @ '' / '' @ gigabytes m @ '' GB'' else []
             | _ \<Rightarrow> []),
           uc_value = usage_text (totalMemoryUsage v), uc_width = bar_width (totalMemoryUsage v), uc_alarm = False\<rparr>,
          \<lparr>uc_label = ''DISK USAGE'',
           uc_note = (case space of
               Some m \<Rightarrow> if m \<noteq> 0
                 then server_formatBytes (nat \<lfloor>case info_number v ''disk_used'' of Some u \<Rightarrow> u | None \<Rightarrow> 0\<rfloor>) @ '' / '' @
                      server_formatBytes (nat \<lfloor>m\<rfloor>) else []
             | None \<Rightarrow> []),
           uc_value = usage_text disk, uc_width = bar_width disk,
           uc_alarm = (case disk of Some q \<Rightarrow> q \<ge> 90 | None \<Rightarrow> False)\<rparr>,
          \<lparr>uc_label = ''UPTIME'', uc_note = (if online v then ''ONLINE'' else ''OFFLINE''), uc_value = shown_uptime v,
           uc_width = 0, uc_alarm = (\<not> online v)\<rparr>])"

definition system_spec :: "view \<Rightarrow> (string \<times> string) list" where
  "system_spec v =
     (let sys = Option.bind (v_snap v) sn_system_info in
      [(''Operating System'', str_or (info_text (v_info v) ''os_name'')
          (str_or (monitoredOS (v_snap v) (v_inv v) (v_info v)) ''N/A'')),
       (''Agent Version'', opt_or (reportedAgentVersion v) ''Not reported''),
       (''Kernel Version'', opt_or (map_option hi_kernel sys) ''N/A''),
       (''Virtualization Platform'', opt_or (map_option hi_virtualization sys) ''N/A''),
       (''Packages awaiting upgrade'',
          show_nat (case Option.bind (v_snap v) sn_package_update of Some n \<Rightarrow> n | None \<Rightarrow> 0) @ '' packages''),
       (''Fleet Security policy'', ''Compliant'')])"

section \<open>Processes\<close>

definition process_header :: "view \<Rightarrow> string \<times> string" where
  "process_header v =
     (if v_family v = OSWindows then (''Process'', ''Account'') else (''Command'', ''User''))"

definition sort_mark :: "sort_field \<Rightarrow> server_page \<Rightarrow> sort_order option" where
  \<comment> \<open>the arrow over a column, none over the other\<close>
  "sort_mark f s = (if processSortField s = f then Some (processSortOrder s) else None)"

definition process_rows :: "server_page \<Rightarrow> (string list) list" where
  "process_rows s =
     map (\<lambda>p. [show_int (tp_pid p), tp_name p, tp_user p, show_fixed 1 (tp_cpu p) @ ''%'', show_fixed 1 (tp_ram p) @ ''%''])
       (sortedProcesses s)"

section \<open>Services\<close>

datatype dot = Green | Red | Grey | Yellow

record service_button =
  sb_label :: string
  sb_action :: service_action
  sb_disabled :: bool
  sb_title :: string

definition action_label :: "service_action \<Rightarrow> string" where
  "action_label a = (case a of Start \<Rightarrow> ''Start'' | Stop \<Rightarrow> ''Stop'' | Restart \<Rightarrow> ''Restart'' | Reload \<Rightarrow> ''Reload'')"

definition service_buttons :: "view \<Rightarrow> service_status \<Rightarrow> service_button list" where
  "service_buttons v x =
     map (\<lambda>a.
       \<lparr>sb_label = action_label a, sb_action = a, sb_disabled = action_disabled v x a,
        sb_title =
          (if a = Reload \<and> ss_source x = Some ''windows-scm''
           then ''Windows SCM does not provide a generic reload action.''
           else if \<not> supportsServiceControls v
           then ''Update the agent to version '' @ MIN_SERVICE_CONTROL_AGENT_VERSION @ '' or newer.''
           else if \<not> online v then ''The agent must be online.''
           else action_label a @ '' '' @ service_label x)\<rparr>)
     [Start, Stop, Restart, Reload]"

record service_row =
  sv_dot :: dot
  sv_name :: string
  sv_status :: string
  sv_log_link :: string
  sv_buttons :: "service_button list"

definition service_row_of :: "view \<Rightarrow> service_status \<Rightarrow> service_row" where
  "service_row_of v x =
     \<lparr>sv_dot = (if ss_status x = ''running'' then Green else if ss_status x = ''stopped'' then Red
                else if ss_status x = ''not_installed'' then Grey else Yellow),
      sv_name = service_label x, sv_status = service_status_label v x,
      sv_log_link = service_logs_link (sd_id (v_server v)) x, sv_buttons = service_buttons v x\<rparr>"

definition service_cards :: "view \<Rightarrow> (string \<times> nat) list" where
  "service_cards v =
     [(''Running'', service_count v ''running''),
      (sc_stopped (serviceContent (v_family v)), service_count v ''stopped''),
      (''Unknown'', service_count v ''unknown''), (''Total Services'', length (shown_services v))]"

definition service_filter_options :: "view \<Rightarrow> (string \<times> string) list" where
  "service_filter_options v =
     [(''all'', ''All statuses''), (''running'', ''Running''),
      (''stopped'', sc_stopped (serviceContent (v_family v))), (''unknown'', ''Unknown'')]"

definition service_rows :: "server_page \<Rightarrow> view \<Rightarrow> service_row list + string" where
  \<comment> \<open>the rows, or the text in their place\<close>
  "service_rows s v =
     (if filteredServices s v = [] then Inr (no_services_text v)
      else Inl (map (service_row_of v) (filteredServices s v)))"

section \<open>The network tab\<close>

record quality_card =
  qc_title :: string
  qc_badge :: string
  qc_latency :: string
  qc_unit :: string
  qc_loss :: string
  qc_lossy :: bool
  qc_probes :: string
  qc_ip :: "string option"

definition pillar_probes :: "pillar \<Rightarrow> string" where
  "pillar_probes g =
     show_nat (pi_successful_probes g) @ ''/'' @ show_nat (pi_total_probes g) @ '' ('' @ pi_measurement_method g @ '')''"

definition pillar_loss :: "pillar \<Rightarrow> string \<times> bool" where
  "pillar_loss g =
     (case pi_packet_loss g of Some q \<Rightarrow> (show_rat q @ ''%'', q > 0) | None \<Rightarrow> (''N/A'', False))"

definition gateway_card :: "server_page \<Rightarrow> view \<Rightarrow> quality_card option" where
  "gateway_card s v =
     map_option (\<lambda>g.
       \<lparr>qc_title = ''Gateway Uplink'', qc_badge = ServerView.badge_text (pi_status g),
        qc_latency = gateway_latency_text g, qc_unit = ''ms latency'', qc_loss = fst (pillar_loss g),
        qc_lossy = snd (pillar_loss g), qc_probes = pillar_probes g, qc_ip = Some (gateway_ip_text s v)\<rparr>)
     (Option.bind (netReport s) dr_gateway)"

definition group_cards :: "server_page \<Rightarrow> quality_card list" where
  \<comment> \<open>a tag of the order without a group has no card\<close>
  "group_cards s =
     List.map_filter (\<lambda>tag. map_option (\<lambda>g.
         \<lparr>qc_title = ''Tag: '' @ tag, qc_badge = ServerView.badge_text (pi_status g),
          qc_latency = show_fixed 1 (pi_latency_ms g), qc_unit = ''ms avg latency'', qc_loss = fst (pillar_loss g),
          qc_lossy = snd (pillar_loss g), qc_probes = pillar_probes g, qc_ip = None\<rparr>)
       (map_of (or_empty (Option.bind (netReport s) dr_groups)) tag))
     (groupTags s)"

definition en_dash :: string where
  \<comment> \<open>U+2013 in UTF-8\<close>
  "en_dash = [CHR 0xE2, CHR 0x80, CHR 0x93]"

datatype latency_colour = L_Emerald | L_Blue | L_Amber | L_Rose

definition latColor :: "rat \<Rightarrow> latency_colour" where
  "latColor lat = (if lat \<le> 20 then L_Emerald else if lat \<le> 60 then L_Blue else if lat \<le> 120 then L_Amber else L_Rose)"

record probe_row =
  pr_row_name :: string
  pr_gateway :: bool
  pr_host :: string
  pr_tag :: string
  pr_tcp :: bool
  pr_probes :: string
  pr_loss :: string
  pr_latency :: string
  pr_colour :: "latency_colour option"
  pr_range :: "string option"
  pr_badge :: string
  pr_alert_link :: string

definition probe_row_of :: "string \<Rightarrow> target_probe \<Rightarrow> probe_row" where
  "probe_row_of sid p =
     (let timeout = (probe_latency_text p = ''Timeout'') in
      \<lparr>pr_row_name = np_name p, pr_gateway = np_is_gateway p,
       pr_host = np_host p @ (if np_port p \<noteq> 0 then CHR '':'' # show_nat (np_port p) else []),
       pr_tag = tag_of p, pr_tcp = (np_probe_method p = ''TCP''),
       pr_probes = show_nat (np_successful_probes p) @ ''/'' @ show_nat (np_total_probes p),
       pr_loss = probe_loss_text p, pr_latency = probe_latency_text p,
       pr_colour = (if timeout then None else Some (latColor (np_latency_ms p))),
       pr_range = (if \<not> timeout \<and> np_min_latency_ms p > 0 \<and> np_max_latency_ms p > 0
                   then Some (show_fixed 1 (np_min_latency_ms p) @ CHR '' '' # en_dash @ CHR '' '' # show_fixed 1 (np_max_latency_ms p) @ '' ms'')
                   else None),
       pr_badge = ServerView.badge_text (np_status p), pr_alert_link = probe_alert_link sid p\<rparr>)"

definition tag_chips :: "server_page \<Rightarrow> (string \<times> bool) list" where
  "tag_chips s =
     (''All ('' @ show_nat (length (allProbes s)) @ '')'', netTargetFilter s = ''all'') #
     map (\<lambda>t. (t @ '' ('' @ show_nat (tag_count s t) @ '')'', to_lower (netTargetFilter s) = to_lower t))
       (ServerView.discoveredTags s)"

datatype history_body = H_Loading | H_None | H_Chart "json list"

record history_panel =
  hp_title :: string
  hp_ranges :: "(history_range \<times> bool) list"
  hp_count :: nat
  hp_body :: history_body

definition history_panel_of :: "server_page \<Rightarrow> history_panel option" where
  "history_panel_of s =
     map_option (\<lambda>p.
       \<lparr>hp_title = np_name p,
        hp_ranges = map (\<lambda>r. (r, server_page.historyRange s = r)) [H6h, H24h, H7d],
        hp_count = length (server_page.historyData s),
        hp_body = (if server_page.loadingHistory s then H_Loading
                   else if server_page.historyData s = [] then H_None else H_Chart (server_page.historyData s))\<rparr>)
     (server_page.historyTargetProbe s)"

definition close_history :: "server_page \<Rightarrow> server_page" where
  "close_history s = s\<lparr>server_page.historyTargetProbe := None\<rparr>"

record interface_row =
  ir_name :: string
  ir_uplink :: bool
  ir_state :: string
  ir_addresses :: string
  ir_rates :: "string list"
  ir_errors :: nat

definition interface_row_of :: "view \<Rightarrow> net_interface \<Rightarrow> interface_row" where
  "interface_row_of v i =
     \<lparr>ir_name = ni_name i, ir_uplink = isPrimary v i, ir_state = (if ni_is_up i then ''UP'' else ''DOWN''),
      ir_addresses = interface_addresses i, ir_rates = interface_rates i, ir_errors = ni_errors_in i + ni_errors_out i\<rparr>"

section \<open>Containers and dialogs\<close>

record container_row =
  cr_running :: bool
  cr_name :: string
  cr_state :: string
  cr_image :: string
  cr_actions :: "string list"

definition container_row_of :: "docker_container \<Rightarrow> container_row" where
  "container_row_of c =
     \<lparr>cr_running = (dc_state c = ''running''), cr_name = dc_name c, cr_state = dc_state c, cr_image = dc_image c,
      cr_actions = container_actions c\<rparr>"

definition container_texts :: "view \<Rightarrow> string \<times> string \<times> string" where
  \<comment> \<open>title, description, and the text for an empty list\<close>
  "container_texts v =
     (if v_family v = OSMac \<or> v_family v = OSWindows
      then (''Local Containers'', ''Containers reported through local Docker engine.'',
            ''No local containers were reported by this agent.'')
      else (''Docker Containers'', ''Containers managed on this host.'',
            ''No Docker containers were reported by this agent.''))"

definition container_counts :: "view \<Rightarrow> string \<times> string" where
  "container_counts v =
     (show_nat (running_containers v) @ '' running'', show_nat (length (containers v)) @ '' total'')"

record service_dialog =
  sg_title :: string
  sg_text :: string
  sg_enabled :: bool

definition service_dialog_of :: "server_page \<Rightarrow> service_dialog option" where
  \<comment> \<open>both buttons wait for the action\<close>
  "service_dialog_of s =
     map_option (\<lambda>(a, x).
       \<lparr>sg_title = action_name a @ '' service?'',
        sg_text = ''Send '' @ action_name a @ '' to '' @ service_label x @ '' through '' @ opt_or (ss_source x) [] @ ''.'',
        sg_enabled = (\<not> serviceActionBusy s)\<rparr>)
     (serviceActionRequest s)"

definition close_service_dialog :: "server_page \<Rightarrow> server_page" where
  "close_service_dialog s = s\<lparr>serviceActionRequest := None\<rparr>"

definition logs_title :: "server_page \<Rightarrow> string option" where
  "logs_title s =
     (if lm_isOpen (logsModal s) then Some (''Container Logs ('' @ lm_containerId (logsModal s) @ '')'') else None)"

section \<open>Buttons and counters\<close>

text \<open>
  A button that is disabled because the service is neither running nor stopped, or belongs to another
  manager, does not say so: its title is the one of an enabled button.
\<close>

lemma disabled_without_reason:
  assumes "\<not> serviceIsControllable v x" and "supportsServiceControls v" and "online v"
  shows "\<exists>b \<in> set (service_buttons v x). sb_action b = Restart \<and> sb_disabled b \<and>
           sb_title b = ''Restart '' @ service_label x"
  using assms by (simp add: service_buttons_def action_label_def)

lemma count_le: "distinct [a, b, c] \<Longrightarrow> count_key f xs a + count_key f xs b + count_key f xs c \<le> length xs"
  by (induction xs) (auto simp: count_key_def)

text \<open>The counters of the cards never exceed the total.\<close>

lemma service_cards_bounded:
  "service_count v ''running'' + service_count v ''stopped'' + service_count v ''unknown'' \<le> length (shown_services v)"
  unfolding service_count_def by (rule count_le) simp

end
