(* ===== verification/DocsText.thy ===== *)
theory DocsText
  imports JsString
begin

text \<open>
  The text functions of \<open>frontend/src/lib/docs.ts\<close> and \<open>frontend/src/app/docs/MarkdownArticle.tsx\<close>:
  anchors of headings, the headings of an article, the words the search runs over.  Articles are
  Vietnamese and English, so a text is the list of its Unicode code points.  The regular
  expressions are recursive functions; lower casing (\<open>lower\<close>), the decomposition \<open>nfd\<close> of
  \<open>normalize('NFD')\<close> and the property classes \<open>\\p{L}\\p{N}\<close> (\<open>wordy\<close>) come from the Unicode
  tables of the engine and are parameters.
\<close>

type_synonym utext = "nat list"

definition units :: "string \<Rightarrow> utext" where
  "units s = map of_char s"

section \<open>White space, lines and trimming\<close>

definition js_space :: "nat \<Rightarrow> bool" where
  \<comment> \<open>the class \<open>\\s\<close>, which is also what \<open>trim\<close> removes\<close>
  "js_space c \<longleftrightarrow> 9 \<le> c \<and> c \<le> 13 \<or> c = 32 \<or> c = 160 \<or> c = 5760 \<or> 8192 \<le> c \<and> c \<le> 8202 \<or>
     c = 8232 \<or> c = 8233 \<or> c = 8239 \<or> c = 8287 \<or> c = 12288 \<or> c = 65279"

definition line_end :: "nat \<Rightarrow> bool" where
  \<comment> \<open>what \<open>.\<close> does not match\<close>
  "line_end c \<longleftrightarrow> c = 10 \<or> c = 13 \<or> c = 8232 \<or> c = 8233"

definition trim_by :: "('a \<Rightarrow> bool) \<Rightarrow> 'a list \<Rightarrow> 'a list" where
  "trim_by p s = rev (dropWhile p (rev (dropWhile p s)))"

definition utrim :: "utext \<Rightarrow> utext" where
  "utrim = trim_by js_space"

lemma dropWhile_trim_by: "dropWhile p s = trim_by p s @ rev (takeWhile p (rev (dropWhile p s)))"
  unfolding trim_by_def by (metis rev_append rev_rev_ident takeWhile_dropWhile_id)

lemma trim_by_split:
  obtains xs ys where "s = xs @ trim_by p s @ ys" "\<forall>c\<in>set xs. p c" "\<forall>c\<in>set ys. p c"
proof
  let ?t = "rev (dropWhile p s)"
  show "s = takeWhile p s @ trim_by p s @ rev (takeWhile p ?t)"
    unfolding dropWhile_trim_by [symmetric] by simp
  show "\<forall>c\<in>set (takeWhile p s). p c" using set_takeWhileD by fast
  show "\<forall>c\<in>set (rev (takeWhile p ?t)). p c" unfolding set_rev using set_takeWhileD by fast
qed

lemma set_trim_by: "set (trim_by p s) \<subseteq> set s"
proof -
  obtain xs ys where s: "s = xs @ trim_by p s @ ys" by (rule trim_by_split)
  have "set (trim_by p s) \<subseteq> set (xs @ trim_by p s @ ys)" by auto
  with s show ?thesis by simp
qed

lemma hd_trim_by: "trim_by p s \<noteq> [] \<Longrightarrow> \<not> p (hd (trim_by p s))"
  by (metis append_is_Nil_conv dropWhile_trim_by hd_append2 hd_dropWhile)

lemma last_trim_by: "trim_by p s \<noteq> [] \<Longrightarrow> \<not> p (last (trim_by p s))"
  unfolding trim_by_def by (metis hd_dropWhile last_rev rev_is_Nil_conv)

section \<open>Anchors\<close>

definition slug_unit :: "nat \<Rightarrow> bool" where
  \<comment> \<open>the class \<open>[a-z0-9]\<close>\<close>
  "slug_unit c \<longleftrightarrow> 97 \<le> c \<and> c \<le> 122 \<or> 48 \<le> c \<and> c \<le> 57"

function dash_runs :: "utext \<Rightarrow> utext" where
  \<comment> \<open>\<open>replace(/[^a-z0-9]+/g, '-')\<close>\<close>
  "dash_runs [] = []"
| "dash_runs (c # cs) =
     (if slug_unit c then c # dash_runs cs
      else 45 # dash_runs (dropWhile (\<lambda>d. \<not> slug_unit d) cs))"
  by pat_completeness auto
termination
  by (relation "measure length") (auto simp: less_Suc_eq_le length_dropWhile_le)

definition trim_dashes :: "utext \<Rightarrow> utext" where
  \<comment> \<open>\<open>replace(/^-+|-+$/g, '')\<close>\<close>
  "trim_dashes = trim_by (\<lambda>c. c = 45)"

definition drop_accents :: "utext \<Rightarrow> utext" where
  \<comment> \<open>\<open>replace(/[\\u0300-\\u036f]/g, '')\<close> and the d with a stroke, which has no decomposition\<close>
  "drop_accents s = map (\<lambda>c. if c = 273 then 100 else c) (filter (\<lambda>c. \<not> (768 \<le> c \<and> c \<le> 879)) s)"

fun strip_marks :: "utext \<Rightarrow> utext" where
  \<comment> \<open>\<open>/`|\\*\\*|__|\\[|\\]|\\(|\\)/g\<close> removed: back quotes, brackets, doubled stars and underscores\<close>
  "strip_marks [] = []"
| "strip_marks [c] = (if c \<in> {96, 91, 93, 40, 41} then [] else [c])"
| "strip_marks (c # d # cs) =
     (if c \<in> {96, 91, 93, 40, 41} then strip_marks (d # cs)
      else if c = d \<and> c \<in> {42, 95} then strip_marks cs
      else c # strip_marks (d # cs))"

definition slugifyHeading :: "(utext \<Rightarrow> utext) \<Rightarrow> (utext \<Rightarrow> utext) \<Rightarrow> utext \<Rightarrow> utext" where
  \<comment> \<open>\<open>lib/docs.ts\<close>: the anchors of the table of contents\<close>
  "slugifyHeading lower nfd v =
     trim_dashes (dash_runs (strip_marks (drop_accents (nfd (lower v)))))"

definition article_slugifyHeading :: "(utext \<Rightarrow> utext) \<Rightarrow> (utext \<Rightarrow> utext) \<Rightarrow> utext \<Rightarrow> utext" where
  \<comment> \<open>\<open>MarkdownArticle.tsx\<close>: the ids of the headings in the article\<close>
  "article_slugifyHeading lower nfd v = trim_dashes (dash_runs (drop_accents (nfd (lower v))))"

text \<open>
  An anchor consists of lower case letters, digits and single dashes between them, whatever the
  Unicode tables say.
\<close>

definition anchor :: "utext \<Rightarrow> bool" where
  "anchor a \<longleftrightarrow> (\<forall>c\<in>set a. slug_unit c \<or> c = 45) \<and>
     successively (\<lambda>c d. \<not> (c = 45 \<and> d = 45)) a \<and>
     (a \<noteq> [] \<longrightarrow> hd a \<noteq> 45 \<and> last a \<noteq> 45)"

lemma not_slug_dash [simp]: "\<not> slug_unit 45"
  by (simp add: slug_unit_def)

lemma set_dash_runs: "c \<in> set (dash_runs s) \<Longrightarrow> slug_unit c \<or> c = 45"
  by (induction s rule: dash_runs.induct) (auto split: if_splits)

lemma hd_dash_runs: "s \<noteq> [] \<Longrightarrow> slug_unit (hd s) \<Longrightarrow> hd (dash_runs s) = hd s"
  by (cases s) auto

lemma dash_runs_Nil [simp]: "dash_runs s = [] \<longleftrightarrow> s = []"
  by (cases s) auto

lemma dash_runs_spaced: "successively (\<lambda>c d. \<not> (c = 45 \<and> d = 45)) (dash_runs s)"
proof (induction s rule: dash_runs.induct)
  case (2 c cs)
  let ?r = "dropWhile (\<lambda>d. \<not> slug_unit d) cs"
  show ?case
  proof (cases "slug_unit c")
    case True
    then have "c \<noteq> 45" by auto
    with 2(1) True show ?thesis by (auto simp: successively_Cons)
  next
    case False
    have "?r \<noteq> [] \<Longrightarrow> hd (dash_runs ?r) \<noteq> 45"
      using hd_dropWhile [of "\<lambda>d. \<not> slug_unit d" cs] hd_dash_runs [of ?r] not_slug_dash by metis
    with 2(2) False show ?thesis by (auto simp: successively_Cons)
  qed
qed simp

lemma anchor_of_runs: "anchor (trim_dashes (dash_runs s))"
proof -
  let ?p = "\<lambda>c::nat. c = 45"
  obtain xs ys where s: "dash_runs s = xs @ trim_by ?p (dash_runs s) @ ys"
    by (rule trim_by_split)
  have "successively (\<lambda>c d. \<not> (c = 45 \<and> d = 45)) (xs @ trim_by ?p (dash_runs s) @ ys)"
    using dash_runs_spaced [of s] s by simp
  then have "successively (\<lambda>c d. \<not> (c = 45 \<and> d = 45)) (trim_by ?p (dash_runs s))"
    by (simp add: successively_append_iff)
  then show ?thesis
    using set_trim_by [of ?p "dash_runs s"] set_dash_runs [of _ s]
      hd_trim_by [of ?p "dash_runs s"] last_trim_by [of ?p "dash_runs s"]
    by (auto simp: anchor_def trim_dashes_def)
qed

lemma slugifyHeading_anchor: "anchor (slugifyHeading lower nfd v)"
  by (simp add: slugifyHeading_def anchor_of_runs)

lemma article_slugifyHeading_anchor: "anchor (article_slugifyHeading lower nfd v)"
  by (simp add: article_slugifyHeading_def anchor_of_runs)

text \<open>
  The two copies of \<open>slugifyHeading\<close> differ in the marks the first one removes; where the
  folded text has none they agree.
\<close>

definition marked :: "nat \<Rightarrow> bool" where
  "marked c \<longleftrightarrow> c \<in> {96, 91, 93, 40, 41} \<or> c \<in> {42, 95}"

lemma strip_marks_plain: "\<forall>c\<in>set s. \<not> marked c \<Longrightarrow> strip_marks s = s"
proof (induction s rule: strip_marks.induct)
  case (3 c d cs)
  then have "c \<notin> {96, 91, 93, 40, 41}" "c \<notin> {42, 95}" by (simp_all add: marked_def)
  with 3 show ?case by (simp del: insert_iff)
qed (simp_all add: marked_def)

lemma drop_accents_plain:
  assumes "\<forall>c\<in>set s. \<not> marked c" shows "\<forall>c\<in>set (drop_accents s). \<not> marked c"
proof -
  have "\<not> marked 100" by (simp add: marked_def)
  with assms show ?thesis by (auto simp: drop_accents_def)
qed

lemma slugify_copies_agree:
  "\<forall>c\<in>set (nfd (lower v)). \<not> marked c \<Longrightarrow> slugifyHeading lower nfd v = article_slugifyHeading lower nfd v"
  by (simp only: slugifyHeading_def article_slugifyHeading_def strip_marks_plain [OF drop_accents_plain])

section \<open>The headings of an article\<close>

record doc_heading =
  heading_id :: utext
  heading_text :: utext
  heading_level :: nat

function drop_parens :: "utext \<Rightarrow> utext" where
  \<comment> \<open>\<open>replace(/\\(([^)]+)\\)/g, '')\<close>\<close>
  "drop_parens [] = []"
| "drop_parens (c # cs) =
     (let inner = takeWhile (\<lambda>d. d \<noteq> 41) cs; rest = dropWhile (\<lambda>d. d \<noteq> 41) cs
      in if c = 40 \<and> inner \<noteq> [] \<and> rest \<noteq> [] then drop_parens (tl rest)
         else c # drop_parens cs)"
  by pat_completeness auto
termination
  by (relation "measure length")
    (auto simp: less_Suc_eq_le intro: le_trans [OF diff_le_self length_dropWhile_le])

definition match_heading :: "utext \<Rightarrow> (nat \<times> utext) option" where
  \<comment> \<open>\<open>/^(##|###)\\s+(.+)$/.exec(line)\<close> of a trimmed line: the level and the second group\<close>
  "match_heading line =
     (let level = length (takeWhile (\<lambda>c. c = 35) line);
          rest = drop level line;
          group2 = dropWhile js_space rest
      in if (level = 2 \<or> level = 3) \<and> group2 \<noteq> rest \<and> group2 \<noteq> [] \<and> \<not> list_ex line_end group2
         then Some (level, group2) else None)"

definition toc_text :: "utext \<Rightarrow> utext" where
  \<comment> \<open>\<open>match[2].replace(/[*_`[\\]]/g, '').replace(/\\(([^)]+)\\)/g, '').trim()\<close>\<close>
  "toc_text t = utrim (drop_parens (filter (\<lambda>c. c \<notin> {42, 95, 96, 91, 93}) t))"

definition heading_of_line :: "(utext \<Rightarrow> utext) \<Rightarrow> (utext \<Rightarrow> utext) \<Rightarrow> utext \<Rightarrow> doc_heading option" where
  "heading_of_line lower nfd line =
     (case match_heading (utrim line) of
        None \<Rightarrow> None
      | Some (level, t) \<Rightarrow>
          Some \<lparr>heading_id = slugifyHeading lower nfd (toc_text t),
                heading_text = toc_text t, heading_level = level\<rparr>)"

definition extractHeadings :: "(utext \<Rightarrow> utext) \<Rightarrow> (utext \<Rightarrow> utext) \<Rightarrow> utext \<Rightarrow> doc_heading list" where
  "extractHeadings lower nfd content = List.map_filter (heading_of_line lower nfd) (split_at 10 content)"

lemma match_heading_level: "match_heading l = Some (n, t) \<Longrightarrow> n = 2 \<or> n = 3"
  by (auto simp: match_heading_def Let_def split: if_splits)

lemma heading_of_line_Some:
  "heading_of_line lower nfd l = Some h \<Longrightarrow>
     (heading_level h = 2 \<or> heading_level h = 3) \<and> anchor (heading_id h) \<and>
     heading_id h = slugifyHeading lower nfd (heading_text h)"
  by (auto simp: heading_of_line_def slugifyHeading_anchor dest: match_heading_level split: option.splits)

lemma in_extractHeadings:
  "h \<in> set (extractHeadings lower nfd content) \<Longrightarrow>
     \<exists>l\<in>set (split_at 10 content). heading_of_line lower nfd l = Some h"
  by (force simp: extractHeadings_def List.map_filter_def)

lemma extracted_heading:
  "h \<in> set (extractHeadings lower nfd content) \<Longrightarrow>
     (heading_level h = 2 \<or> heading_level h = 3) \<and> anchor (heading_id h) \<and>
     heading_id h = slugifyHeading lower nfd (heading_text h)"
  using in_extractHeadings heading_of_line_Some by blast

lemma length_extractHeadings: "length (extractHeadings lower nfd content) \<le> length (split_at 10 content)"
  by (simp add: extractHeadings_def List.map_filter_def)

section \<open>The words of an article\<close>

fun after_fence :: "utext \<Rightarrow> utext option" where
  \<comment> \<open>what follows the first group of three back quotes\<close>
  "after_fence [] = None"
| "after_fence (c # cs) = (if take 3 (c # cs) = [96, 96, 96] then Some (drop 2 cs) else after_fence cs)"

lemma after_fence_length: "after_fence s = Some r \<Longrightarrow> length r \<le> length s"
  by (induction s) (auto split: if_splits)

function strip_fences :: "utext \<Rightarrow> utext" where
  \<comment> \<open>\<open>replace(/```[\\s\\S]*?```/g, ' ')\<close>\<close>
  "strip_fences [] = []"
| "strip_fences (c # cs) =
     (if take 3 (c # cs) = [96, 96, 96]
      then (case after_fence (drop 2 cs) of
              Some rest \<Rightarrow> 32 # strip_fences rest
            | None \<Rightarrow> c # strip_fences cs)
      else c # strip_fences cs)"
  by pat_completeness auto
termination
  by (relation "measure length") (auto dest!: after_fence_length)

function collapse_spaces :: "utext \<Rightarrow> utext" where
  \<comment> \<open>\<open>replace(/\\s+/g, ' ')\<close>\<close>
  "collapse_spaces [] = []"
| "collapse_spaces (c # cs) =
     (if js_space c then 32 # collapse_spaces (dropWhile js_space cs) else c # collapse_spaces cs)"
  by pat_completeness auto
termination
  by (relation "measure length") (auto simp: less_Suc_eq_le length_dropWhile_le)

definition search_words :: "(nat \<Rightarrow> bool) \<Rightarrow> utext \<Rightarrow> utext" where
  "search_words wordy content =
     utrim (collapse_spaces (map (\<lambda>c. if wordy c \<or> js_space c then c else 32) (strip_fences content)))"

lemma set_collapse_spaces: "c \<in> set (collapse_spaces s) \<Longrightarrow> c = 32 \<or> c \<in> set s \<and> \<not> js_space c"
proof (induction s rule: collapse_spaces.induct)
  case (2 d ds)
  have "set (dropWhile js_space ds) \<subseteq> set ds" by (rule set_dropWhileD [THEN subsetI])
  with 2 show ?case by (auto split: if_splits)
qed simp

lemma search_words_chars: "c \<in> set (search_words wordy content) \<Longrightarrow> c = 32 \<or> wordy c \<and> \<not> js_space c"
  unfolding search_words_def utrim_def
  by (drule subsetD [OF set_trim_by], drule set_collapse_spaces) (auto split: if_splits)

end
