(* ===== verification/Docs.thy ===== *)
theory Docs
  imports DocsText JsPrelude
begin

text \<open>
  The catalogue of the documentation, \<open>frontend/src/lib/docs.ts\<close>: the two navigation trees,
  the flat list in reading order, the access to the articles on disk and the neighbours of an
  article.  The file system (\<open>fs\<close>, a path and its contents) and the front matter parser
  \<open>gray-matter\<close> (\<open>matter\<close>) are parameters; of the front matter the code uses the title and
  the description, \<open>None\<close> standing for a falsy value and \<open>Some\<close> for the text \<open>String\<close> makes of
  a truthy one.
\<close>

datatype doc_locale = Vi | En

record doc_item =
  slug :: string
  title :: utext
  description :: utext
  group :: string
  order :: int

record doc_entry = doc_item +
  groupLabel :: utext
  searchText :: "utext option"

record doc_page = doc_entry +
  content :: utext
  headings :: "doc_heading list"

record nav_group =
  label :: utext
  group_slug :: string
  items :: "doc_item list"

type_synonym docs_navigation = "nav_group list"

section \<open>The two navigation trees\<close>

definition viNavigation :: docs_navigation where
  "viNavigation = [
    \<lparr>label = units ''Gi'' @ [7899] @ units ''i thi'' @ [7879] @ units ''u'', group_slug = ''introduction'', items = [
      \<lparr>slug = ''introduction/overview'', title = units ''T'' @ [7893] @ units ''ng quan & Kh'' @ [7843] @ units '' n'' @ [259] @
          units ''ng'',
        description = units ''DatrixOps l'' @ [224] @ units '' g'' @ [236] @ units '', c'' @ [225] @
          units ''c n'' @ [7873] @ units ''n t'' @ [7843] @ units ''ng h'' @ [7895] @ units '' tr'' @
          [7907] @ units '' v'' @ [224] @ units '' m'' @ [244] @ units '' h'' @ [236] @
          units ''nh ho'' @ [7841] @ units ''t '' @ [273, 7897] @ units ''ng.'',
        group = ''introduction'', order = 10\<rparr>]\<rparr>,
    \<lparr>label = units ''B'' @ [7855] @ units ''t '' @ [273, 7847] @ units ''u nhanh'', group_slug = ''getting-started'', items = [
      \<lparr>slug = ''getting-started/quickstart'', title = units ''C'' @ [224] @ units ''i '' @ [273, 7863] @ units ''t nhanh m'' @ [225] @
          units ''y ch'' @ [7911] @ units '' DatrixOps'',
        description = units ''Kh'' @ [7903] @ units ''i ch'' @ [7841] @ units ''y DatrixOps v'' @ [7899] @
          units ''i Docker Compose v'' @ [224] @ units '' c'' @ [7845] @ units ''u h'' @ [236] @
          units ''nh t'' @ [224] @ units ''i kho'' @ [7843] @ units ''n qu'' @ [7843] @
          units ''n tr'' @ [7883] @ units '' ban '' @ [273, 7847] @ units ''u.'',
        group = ''getting-started'', order = 20\<rparr>,
      \<lparr>slug = ''getting-started/add-server'', title = units ''Th'' @ [234] @ units ''m m'' @ [225] @ units ''y ch'' @ [7911] @ units '' c'' @
          [7847] @ units ''n gi'' @ [225] @ units ''m s'' @ [225] @ units ''t'',
        description = units ''T'' @ [7841] @ units ''o m'' @ [227] @ units '' Agent Token v'' @ [224] @
          units '' c'' @ [224] @ units ''i '' @ [273, 7863] @ units ''t Agent 1 d'' @ [242] @
          units ''ng l'' @ [7879] @ units ''nh tr'' @ [234] @ units ''n Linux, macOS, Windows.'',
        group = ''getting-started'', order = 25\<rparr>]\<rparr>,
    \<lparr>label = units ''T'' @ [237] @ units ''nh n'' @ [259] @ units ''ng'', group_slug = ''features'', items = [
      \<lparr>slug = ''features/servers'', title = units ''Gi'' @ [225] @ units ''m s'' @ [225] @ units ''t m'' @ [225] @ units ''y ch'' @
          [7911] @ units '' & D'' @ [7883] @ units ''ch v'' @ [7909],
        description = units ''Theo d'' @ [245] @ units ''i ch'' @ [7881] @ units '' s'' @ [7889] @
          units '' CPU, RAM, '' @ [7893] @ units '' '' @ [273, 297] @ units ''a, m'' @ [7841] @
          units ''ng, d'' @ [7883] @ units ''ch v'' @ [7909] @ units '' h'' @ [7879] @ units '' th'' @
          [7889] @ units ''ng v'' @ [224] @ units '' container Docker.'',
        group = ''features'', order = 30\<rparr>,
      \<lparr>slug = ''features/network-quality'', title = units ''Ch'' @ [7849] @ units ''n '' @ [273] @ units ''o'' @ [225] @ units ''n ch'' @
          [7845] @ units ''t l'' @ [432, 7907] @ units ''ng m'' @ [7841] @ units ''ng'',
        description = [272] @ units ''o l'' @ [432, 7901] @ units ''ng '' @ [273, 7897] @ units '' tr'' @ [7877] @
          units '' ICMP/TCP, Gateway uplink, ph'' @ [226] @ units ''n nh'' @ [243] @ units ''m th'' @
          [7867] @ units '' v'' @ [224] @ units '' t'' @ [7927] @ units '' l'' @ [7879] @
          units '' m'' @ [7845] @ units ''t g'' @ [243] @ units ''i.'',
        group = ''features'', order = 32\<rparr>,
      \<lparr>slug = ''features/uptime'', title = units ''Gi'' @ [225] @ units ''m s'' @ [225] @ units ''t Website & SSL'',
        description = units ''Ki'' @ [7875] @ units ''m tra Uptime website, m'' @ [227] @ units '' HTTP, th'' @
          [7901] @ units ''i gian ph'' @ [7843] @ units ''n h'' @ [7891] @ units ''i v'' @ [224] @
          units '' h'' @ [7841] @ units ''n ch'' @ [7913] @ units ''ng ch'' @ [7881] @
          units '' SSL.'',
        group = ''features'', order = 34\<rparr>,
      \<lparr>slug = ''features/alerts'', title = units ''C'' @ [7843] @ units ''nh b'' @ [225] @ units ''o & K'' @ [234] @ units ''nh th'' @
          [244] @ units ''ng b'' @ [225] @ units ''o'',
        description = units ''C'' @ [7845] @ units ''u h'' @ [236] @ units ''nh ng'' @ [432, 7905] @
          units ''ng c'' @ [7843] @ units ''nh b'' @ [225] @ units ''o t'' @ [7921] @ units '' '' @
          [273, 7897] @ units ''ng g'' @ [7917] @ units ''i qua Telegram, Discord, Email v'' @ [224] @
          units '' Webhook.'',
        group = ''features'', order = 36\<rparr>,
      \<lparr>slug = ''features/web-terminal'', title = units ''Web Terminal t'' @ [7915] @ units '' xa'',
        description = units ''Truy c'' @ [7853] @ units ''p shell d'' @ [242] @ units ''ng l'' @ [7879] @
          units ''nh an to'' @ [224] @ units ''n tr'' @ [7921] @ units ''c ti'' @ [7871] @
          units ''p t'' @ [7915] @ units '' tr'' @ [236] @ units ''nh duy'' @ [7879] @
          units ''t qua WebSocket '' @ [273, 7843] @ units ''o chi'' @ [7873] @ units ''u.'',
        group = ''features'', order = 38\<rparr>,
      \<lparr>slug = ''features/cron-monitoring'', title = units ''Gi'' @ [225] @ units ''m s'' @ [225] @ units ''t t'' @ [225] @ units ''c v'' @
          [7909] @ units '' Cron'',
        description = units ''Theo d'' @ [245] @ units ''i l'' @ [7883] @ units ''ch s'' @ [7917] @ units '' ch'' @
          [7841] @ units ''y, th'' @ [7901] @ units ''i gian th'' @ [7921] @ units ''c thi v'' @
          [224] @ units '' m'' @ [227] @ units '' tho'' @ [225] @ units ''t l'' @ [7895] @
          units ''i c'' @ [7911] @ units ''a Cron job.'',
        group = ''features'', order = 40\<rparr>]\<rparr>,
    \<lparr>label = units ''H'' @ [432, 7899] @ units ''ng d'' @ [7851] @ units ''n'', group_slug = ''guides'', items = [
      \<lparr>slug = ''guides/agent-updates'', title = units ''C'' @ [7853] @ units ''p nh'' @ [7853] @ units ''t phi'' @ [234] @ units ''n b'' @
          [7843] @ units ''n Agent'',
        description = units ''N'' @ [226] @ units ''ng c'' @ [7845] @ units ''p Agent t'' @ [7921] @ units '' '' @
          [273, 7897] @ units ''ng t'' @ [7915] @ units '' Dashboard ho'' @ [7863] @ units ''c b'' @
          [7857] @ units ''ng l'' @ [7879] @ units ''nh th'' @ [7911] @ units '' c'' @ [244] @
          units ''ng.'',
        group = ''guides'', order = 50\<rparr>,
      \<lparr>slug = ''guides/uninstall-server'', title = units ''G'' @ [7905] @ units '' b'' @ [7887] @ units '' Agent & X'' @ [243] @ units ''a m'' @
          [225] @ units ''y ch'' @ [7911],
        description = units ''G'' @ [7905] @ units '' b'' @ [7887] @ units '' Agent an to'' @ [224] @
          units ''n, d'' @ [7885] @ units ''n d'' @ [7865] @ units ''p ti'' @ [7871] @ units ''n tr'' @
          [236] @ units ''nh v'' @ [224] @ units '' x'' @ [243] @ units ''a m'' @ [225] @
          units ''y ch'' @ [7911] @ units '' kh'' @ [7887] @ units ''i Dashboard.'',
        group = ''guides'', order = 52\<rparr>,
      \<lparr>slug = ''guides/backup-restore'', title = units ''Sao l'' @ [432] @ units ''u & Kh'' @ [244] @ units ''i ph'' @ [7909] @
          units ''c d'' @ [7919] @ units '' li'' @ [7879] @ units ''u'',
        description = units ''Sao l'' @ [432] @ units ''u d'' @ [7919] @ units '' li'' @ [7879] @
          units ''u SQLite, c'' @ [7845] @ units ''u h'' @ [236] @ units ''nh h'' @ [7879] @
          units '' th'' @ [7889] @ units ''ng v'' @ [224] @ units '' di chuy'' @ [7875] @
          units ''n sang m'' @ [225] @ units ''y ch'' @ [7911] @ units '' m'' @ [7899] @ units ''i.'',
        group = ''guides'', order = 54\<rparr>]\<rparr>,
    \<lparr>label = units ''Tham chi'' @ [7871] @ units ''u'', group_slug = ''reference'', items = [
      \<lparr>slug = ''reference/cli'', title = units ''L'' @ [7879] @ units ''nh CLI datrix'',
        description = units ''Danh m'' @ [7909] @ units ''c c'' @ [225] @ units ''c l'' @ [7879] @
          units ''nh ki'' @ [7875] @ units ''m tra, kh'' @ [7903] @ units ''i '' @ [273, 7897] @
          units ''ng, d'' @ [7915] @ units ''ng v'' @ [224] @ units '' g'' @ [7905] @ units '' l'' @
          [7895] @ units ''i Agent.'',
        group = ''reference'', order = 60\<rparr>,
      \<lparr>slug = ''reference/configuration'', title = units ''Bi'' @ [7871] @ units ''n m'' @ [244] @ units ''i tr'' @ [432, 7901] @
          units ''ng .env'',
        description = units ''B'' @ [7843] @ units ''ng tham chi'' @ [7871] @ units ''u '' @ [273, 7847] @
          units ''y '' @ [273, 7911] @ units '' c'' @ [225] @ units ''c bi'' @ [7871] @ units ''n m'' @
          [244] @ units ''i tr'' @ [432, 7901] @ units ''ng c'' @ [7911] @ units ''a m'' @ [225] @
          units ''y ch'' @ [7911] @ units '' DatrixOps.'',
        group = ''reference'', order = 62\<rparr>]\<rparr>,
    \<lparr>label = units ''X'' @ [7917] @ units '' l'' @ [253] @ units '' s'' @ [7921] @ units '' c'' @ [7889] @
      units '' & FAQ'', group_slug = ''troubleshooting'', items = [
      \<lparr>slug = ''troubleshooting/common-issues'', title = units ''X'' @ [7917] @ units '' l'' @ [253] @ units '' s'' @ [7921] @ units '' c'' @ [7889] @
          units '' th'' @ [432, 7901] @ units ''ng g'' @ [7863] @ units ''p'',
        description = units ''Kh'' @ [7855] @ units ''c ph'' @ [7909] @ units ''c l'' @ [7895] @
          units ''i Agent offline, l'' @ [7895] @ units ''i k'' @ [7871] @ units ''t n'' @ [7889] @
          units ''i m'' @ [7841] @ units ''ng, terminal v'' @ [224] @ units '' c'' @ [7845] @
          units ''p ph'' @ [225] @ units ''t ch'' @ [7913] @ units ''ng ch'' @ [7881] @ units ''.'',
        group = ''troubleshooting'', order = 70\<rparr>,
      \<lparr>slug = ''troubleshooting/faq'', title = units ''C'' @ [226] @ units ''u h'' @ [7887] @ units ''i th'' @ [432, 7901] @
          units ''ng g'' @ [7863] @ units ''p'',
        description = units ''Gi'' @ [7843] @ units ''i '' @ [273, 225] @ units ''p c'' @ [225] @ units ''c th'' @
          [7855] @ units ''c m'' @ [7855] @ units ''c v'' @ [7873] @ units '' t'' @ [224] @
          units ''i nguy'' @ [234] @ units ''n, c'' @ [7893] @ units ''ng m'' @ [7841] @
          units ''ng, l'' @ [432] @ units ''u tr'' @ [7919] @ units '' v'' @ [224] @ units '' b'' @
          [7843] @ units ''o m'' @ [7853] @ units ''t.'',
        group = ''troubleshooting'', order = 72\<rparr>]\<rparr>]"

definition enNavigation :: docs_navigation where
  "enNavigation = [
    \<lparr>label = units ''Introduction'', group_slug = ''introduction'', items = [
      \<lparr>slug = ''introduction/overview'', title = units ''Overview & Capabilities'',
        description = units ''What is DatrixOps, supported platforms, and how the platform works.'',
        group = ''introduction'', order = 10\<rparr>]\<rparr>,
    \<lparr>label = units ''Getting started'', group_slug = ''getting-started'', items = [
      \<lparr>slug = ''getting-started/quickstart'', title = units ''Quickstart Deployment'',
        description = units ''Deploy DatrixOps using Docker Compose and complete initial administrator setup.'',
        group = ''getting-started'', order = 20\<rparr>,
      \<lparr>slug = ''getting-started/add-server'', title = units ''Adding Monitored Servers'',
        description = units ''Generate Agent Tokens and install the Agent on Linux, macOS, and Windows with one command.'',
        group = ''getting-started'', order = 25\<rparr>]\<rparr>,
    \<lparr>label = units ''Features'', group_slug = ''features'', items = [
      \<lparr>slug = ''features/servers'', title = units ''Server & Resource Monitoring'',
        description = units ''Real-time CPU, RAM, disk, network metrics, system services, and Docker containers.'',
        group = ''features'', order = 30\<rparr>,
      \<lparr>slug = ''features/network-quality'', title = units ''Network Quality Diagnostics'',
        description = units ''Measure ICMP/TCP latency, Gateway uplink, dynamic tag targets, and packet loss.'',
        group = ''features'', order = 32\<rparr>,
      \<lparr>slug = ''features/uptime'', title = units ''Website & SSL Monitoring'',
        description = units ''Track website uptime, HTTP response codes, latency, and SSL certificate expiration.'',
        group = ''features'', order = 34\<rparr>,
      \<lparr>slug = ''features/alerts'', title = units ''Alerts & Notifications'',
        description = units ''Set up incident alert rules with dispatch to Telegram, Discord, Email, and Webhooks.'',
        group = ''features'', order = 36\<rparr>,
      \<lparr>slug = ''features/web-terminal'', title = units ''Remote Web Terminal'',
        description = units ''Securely open a browser-based shell via reverse WebSocket without open inbound ports.'',
        group = ''features'', order = 38\<rparr>,
      \<lparr>slug = ''features/cron-monitoring'', title = units ''Cron Execution Telemetry'',
        description = units ''Record real cron job run times, exit codes, and execution history with the agent wrapper.'',
        group = ''features'', order = 40\<rparr>]\<rparr>,
    \<lparr>label = units ''Guides'', group_slug = ''guides'', items = [
      \<lparr>slug = ''guides/agent-updates'', title = units ''Updating the Agent'',
        description = units ''Upgrade agents automatically from the Dashboard or manually with CLI commands.'',
        group = ''guides'', order = 50\<rparr>,
      \<lparr>slug = ''guides/uninstall-server'', title = units ''Uninstalling & Removing Servers'',
        description = units ''Safely uninstall the agent, clean up background services, and remove servers from Dashboard.'',
        group = ''guides'', order = 52\<rparr>,
      \<lparr>slug = ''guides/backup-restore'', title = units ''Backup & Disaster Recovery'',
        description = units ''Back up SQLite data and configuration, and restore them to a new host.'',
        group = ''guides'', order = 54\<rparr>]\<rparr>,
    \<lparr>label = units ''Reference'', group_slug = ''reference'', items = [
      \<lparr>slug = ''reference/cli'', title = units ''The datrix CLI'',
        description = units ''Command-line options for running, testing, stopping, and debugging the agent.'',
        group = ''reference'', order = 60\<rparr>,
      \<lparr>slug = ''reference/configuration'', title = units ''Environment Variables (.env)'',
        description = units ''Complete reference for DatrixOps server configuration and environment settings.'',
        group = ''reference'', order = 62\<rparr>]\<rparr>,
    \<lparr>label = units ''Troubleshooting & FAQ'', group_slug = ''troubleshooting'', items = [
      \<lparr>slug = ''troubleshooting/common-issues'', title = units ''Common Issues & Solutions'',
        description = units ''Diagnose offline agents, network probe errors, web terminal timeouts, and SSL renewal.'',
        group = ''troubleshooting'', order = 70\<rparr>,
      \<lparr>slug = ''troubleshooting/faq'', title = units ''Frequently Asked Questions'',
        description = units ''Common questions about hardware overhead, firewall ports, storage, and security.'',
        group = ''troubleshooting'', order = 72\<rparr>]\<rparr>]"

definition docsNavigationByLocale :: "doc_locale \<Rightarrow> docs_navigation" where
  "docsNavigationByLocale loc = (case loc of Vi \<Rightarrow> viNavigation | En \<Rightarrow> enNavigation)"

section \<open>The flat catalogue\<close>

definition entry_of :: "utext \<Rightarrow> doc_item \<Rightarrow> doc_entry" where
  \<comment> \<open>\<open>{ ...item, groupLabel: group.label }\<close>\<close>
  "entry_of l i =
     \<lparr>slug = slug i, title = title i, description = description i, group = group i, order = order i,
      groupLabel = l, searchText = None\<rparr>"

definition flatNavigation :: "doc_locale \<Rightarrow> doc_entry list" where
  \<comment> \<open>the sort is stable, as \<open>Array.prototype.sort\<close> is\<close>
  "flatNavigation loc =
     sort_key order (concat (map (\<lambda>g. map (entry_of (label g)) (items g)) (docsNavigationByLocale loc)))"

lemma entry_of_fields [simp]:
  "slug (entry_of l i) = slug i" "title (entry_of l i) = title i" "order (entry_of l i) = order i"
  "group (entry_of l i) = group i" "groupLabel (entry_of l i) = l" "searchText (entry_of l i) = None"
  by (simp_all add: entry_of_def)

text \<open>Reading order: the trees list the articles by their order already, in both languages alike.\<close>

definition reading_order :: "string list" where
  "reading_order =
     [''introduction/overview'', ''getting-started/quickstart'', ''getting-started/add-server'',
      ''features/servers'', ''features/network-quality'', ''features/uptime'', ''features/alerts'',
      ''features/web-terminal'', ''features/cron-monitoring'', ''guides/agent-updates'',
      ''guides/uninstall-server'', ''guides/backup-restore'', ''reference/cli'',
      ''reference/configuration'', ''troubleshooting/common-issues'', ''troubleshooting/faq'']"

lemma nav_items:
  "map slug (concat (map items (docsNavigationByLocale loc))) = reading_order"
  "map order (concat (map items (docsNavigationByLocale loc))) =
     [10, 20, 25, 30, 32, 34, 36, 38, 40, 50, 52, 54, 60, 62, 70, 72]"
  by (cases loc; simp add: docsNavigationByLocale_def viNavigation_def enNavigation_def reading_order_def)+

lemma map_entries:
  assumes "\<And>l i. f (entry_of l i) = g i"
  shows "map f (concat (map (\<lambda>n. map (entry_of (label n)) (items n)) nav)) = map g (concat (map items nav))"
  by (induction nav) (simp_all add: assms)

lemma flatNavigation_unsorted:
  "flatNavigation loc = concat (map (\<lambda>g. map (entry_of (label g)) (items g)) (docsNavigationByLocale loc))"
  unfolding flatNavigation_def
  by (rule sort_key_id_if_sorted) (simp add: map_entries nav_items(2) del: map_concat)

lemma flat_slugs: "map slug (flatNavigation loc) = reading_order"
  unfolding flatNavigation_unsorted by (simp add: map_entries nav_items(1) del: map_concat)

lemma distinct_reading_order: "distinct reading_order"
  by (simp add: reading_order_def)

lemma distinct_flat: "distinct (map slug (flatNavigation loc))"
  by (simp add: flat_slugs distinct_reading_order)

lemma length_flat: "length (flatNavigation loc) = 16"
  using arg_cong [OF flat_slugs, of length] by (simp add: reading_order_def)

section \<open>Slugs and files\<close>

definition slug_char :: "char \<Rightarrow> bool" where
  "slug_char c \<longleftrightarrow> slug_unit (of_char c)"

definition safeSlug :: "string list \<Rightarrow> string option" where
  \<comment> \<open>\<open>/^[a-z0-9][a-z0-9/-]*$/\<close> and no two dots\<close>
  "safeSlug parts =
     (let s = join ''/'' parts
      in if \<not> (s \<noteq> [] \<and> slug_char (hd s) \<and>
               list_all (\<lambda>c. slug_char c \<or> c = CHR ''/'' \<or> c = CHR ''-'') (tl s)) \<or>
            str_includes s ''..''
         then None else Some s)"

definition getDocsDirectory :: "string \<Rightarrow> doc_locale \<Rightarrow> string" where
  \<comment> \<open>\<open>cwd\<close> is the normalised working directory, empty for the root\<close>
  "getDocsDirectory cwd loc =
     (let root = cwd @ ''/docs/public'' in if loc = En then root @ ''/en'' else root)"

definition doc_file :: "string \<Rightarrow> doc_locale \<Rightarrow> string \<Rightarrow> string" where
  \<comment> \<open>\<open>path.join(docsDirectory, `${slug}.md`)\<close> of a slug of the catalogue\<close>
  "doc_file cwd loc s = getDocsDirectory cwd loc @ ''/'' @ s @ ''.md''"

record front_matter =
  fm_title :: "utext option"
  fm_description :: "utext option"

type_synonym file_system = "string \<Rightarrow> utext option"
type_synonym matter_parser = "utext \<Rightarrow> front_matter \<times> utext"

definition text_or_entry :: "utext option \<Rightarrow> utext \<Rightarrow> utext" where
  \<comment> \<open>\<open>String(data.k || entry.k)\<close> of a text field; the empty text counts as absent\<close>
  "text_or_entry v d = (case v of None \<Rightarrow> d | Some t \<Rightarrow> if t = [] then d else t)"

definition getAllDocs ::
  "(nat \<Rightarrow> bool) \<Rightarrow> matter_parser \<Rightarrow> file_system \<Rightarrow> string \<Rightarrow> doc_locale \<Rightarrow> doc_entry list" where
  "getAllDocs wordy matter fs cwd loc =
     map (\<lambda>e. case fs (doc_file cwd loc (slug e)) of
                None \<Rightarrow> e
              | Some raw \<Rightarrow> e\<lparr>searchText := Some (search_words wordy (snd (matter raw)))\<rparr>)
       (flatNavigation loc)"

definition getDocBySlug ::
  "(utext \<Rightarrow> utext) \<Rightarrow> (utext \<Rightarrow> utext) \<Rightarrow> matter_parser \<Rightarrow> file_system \<Rightarrow> string \<Rightarrow>
   string list \<Rightarrow> doc_locale \<Rightarrow> doc_page option" where
  "getDocBySlug lower nfd matter fs cwd parts loc =
     (case safeSlug parts of
        None \<Rightarrow> None
      | Some s \<Rightarrow>
          (case find (\<lambda>e. slug e = s) (flatNavigation loc) of
             None \<Rightarrow> None
           | Some e \<Rightarrow>
               (case fs (doc_file cwd loc s) of
                  None \<Rightarrow> None
                | Some raw \<Rightarrow>
                    (let (fm, body) = matter raw
                     in Some \<lparr>slug = slug e,
                          title = text_or_entry (fm_title fm) (title e),
                          description = text_or_entry (fm_description fm) (description e),
                          group = group e, order = order e, groupLabel = groupLabel e,
                          searchText = searchText e,
                          content = body, headings = extractHeadings lower nfd body\<rparr>))))"

text \<open>The dots are already outside the class of the expression.\<close>

lemma slug_char_not_dot [simp]: "\<not> slug_char CHR ''.''"
  by (simp add: slug_char_def slug_unit_def)

lemma safeSlug_Some:
  "safeSlug parts = Some s \<longleftrightarrow>
     s = join ''/'' parts \<and> s \<noteq> [] \<and> slug_char (hd s) \<and>
     list_all (\<lambda>c. slug_char c \<or> c = CHR ''/'' \<or> c = CHR ''-'') (tl s)"
proof -
  have "\<not> str_includes s ''..''"
    if "slug_char (hd s)" "list_all (\<lambda>c. slug_char c \<or> c = CHR ''/'' \<or> c = CHR ''-'') (tl s)" for s
  proof
    assume "str_includes s ''..''"
    then have "CHR ''.'' \<in> set s" by (auto simp: str_includes_sublist sublist_def)
    with that show False by (cases s) (auto simp: list_all_iff)
  qed
  then show ?thesis by (auto simp: safeSlug_def Let_def)
qed

lemma reading_order_safe: "s \<in> set reading_order \<Longrightarrow> safeSlug [s] = Some s"
proof -
  have "list_all (\<lambda>s. safeSlug [s] = Some s) reading_order" by code_simp
  then show "s \<in> set reading_order \<Longrightarrow> safeSlug [s] = Some s" by (simp add: list_all_iff)
qed

lemma in_flat: "(\<exists>e\<in>set (flatNavigation loc). slug e = s) \<longleftrightarrow> s \<in> set reading_order"
  using arg_cong [OF flat_slugs [of loc], of set] by (simp add: set_eq_iff image_iff eq_commute)

lemma find_flat: "e \<in> set (flatNavigation loc) \<Longrightarrow> find (\<lambda>f. slug f = slug e) (flatNavigation loc) = Some e"
proof -
  have "distinct (map slug xs) \<Longrightarrow> e \<in> set xs \<Longrightarrow> find (\<lambda>f. slug f = slug e) xs = Some e" for xs
    by (induction xs) (auto simp: image_iff)
  then show "e \<in> set (flatNavigation loc) \<Longrightarrow> ?thesis" using distinct_flat by blast
qed

text \<open>An article is found exactly for the parts of a slug of the catalogue whose file is there.\<close>

lemma getDocBySlug_Some:
  assumes "getDocBySlug lower nfd matter fs cwd parts loc = Some p"
  shows "slug p = join ''/'' parts" and "slug p \<in> set reading_order"
    and "fs (doc_file cwd loc (slug p)) \<noteq> None"
    and "content p = snd (matter (the (fs (doc_file cwd loc (slug p)))))"
    and "headings p = extractHeadings lower nfd (content p)"
proof -
  obtain s e raw fm body where *: "safeSlug parts = Some s"
    "find (\<lambda>e. slug e = s) (flatNavigation loc) = Some e" "fs (doc_file cwd loc s) = Some raw"
    "matter raw = (fm, body)" and p: "slug p = slug e" "content p = body"
      "headings p = extractHeadings lower nfd body"
    using assms by (auto simp: getDocBySlug_def split: option.splits prod.splits)
  then have e: "slug e = s" "e \<in> set (flatNavigation loc)" by (auto simp: find_Some_iff)
  then show "slug p \<in> set reading_order" using p in_flat by force
  show "slug p = join ''/'' parts" using * e p by (simp add: safeSlug_Some)
  show "fs (doc_file cwd loc (slug p)) \<noteq> None"
    and "content p = snd (matter (the (fs (doc_file cwd loc (slug p)))))"
    and "headings p = extractHeadings lower nfd (content p)"
    using * e p by simp_all
qed

lemma getDocBySlug_found:
  assumes "join ''/'' parts \<in> set reading_order" "fs (doc_file cwd loc (join ''/'' parts)) \<noteq> None"
  shows "\<exists>p. getDocBySlug lower nfd matter fs cwd parts loc = Some p \<and> slug p = join ''/'' parts"
proof -
  let ?s = "join ''/'' parts"
  have "safeSlug parts = Some ?s" using reading_order_safe [OF assms(1)] by (simp add: safeSlug_Some)
  moreover obtain e where "e \<in> set (flatNavigation loc)" "slug e = ?s"
    using assms(1) in_flat by blast
  then have "find (\<lambda>f. slug f = ?s) (flatNavigation loc) = Some e" "slug e = ?s" using find_flat by force+
  ultimately show ?thesis using assms(2) by (auto simp: getDocBySlug_def split: prod.split)
qed

section \<open>Neighbours\<close>

definition find_index :: "('a \<Rightarrow> bool) \<Rightarrow> 'a list \<Rightarrow> int" where
  \<comment> \<open>\<open>findIndex\<close>\<close>
  "find_index p xs = (if list_ex p xs then int (length (takeWhile (\<lambda>x. \<not> p x) xs)) else -1)"

record adjacent_docs =
  previous :: "doc_entry option"
  next_doc :: "doc_entry option"

definition getAdjacentDocs :: "string \<Rightarrow> doc_locale \<Rightarrow> adjacent_docs" where
  "getAdjacentDocs s loc =
     (let entries = flatNavigation loc; index = find_index (\<lambda>e. slug e = s) entries
      in \<lparr>previous = (if index > 0 then Some (entries ! nat (index - 1)) else None),
          next_doc = (if index \<ge> 0 \<and> index < int (length entries) - 1
                      then Some (entries ! nat (index + 1)) else None)\<rparr>)"

lemma find_index_nth:
  "distinct (map f xs) \<Longrightarrow> i < length xs \<Longrightarrow> find_index (\<lambda>x. f x = f (xs ! i)) xs = int i"
proof (induction xs arbitrary: i)
  case (Cons x xs)
  show ?case
  proof (cases i)
    case (Suc j)
    with Cons.prems have "f x \<noteq> f (xs ! j)" "j < length xs" by auto
    then show ?thesis using Cons.IH [of j] Cons.prems Suc
      by (auto simp: find_index_def list_ex_iff in_set_conv_nth split: if_splits)
  qed (simp add: find_index_def)
qed simp

lemma find_index_none: "\<not> list_ex p xs \<Longrightarrow> find_index p xs = -1"
  by (simp add: find_index_def)

lemma adjacent_nth:
  assumes "i < length (flatNavigation loc)"
  shows "getAdjacentDocs (slug (flatNavigation loc ! i)) loc =
    \<lparr>previous = (if i = 0 then None else Some (flatNavigation loc ! (i - 1))),
     next_doc = (if Suc i = length (flatNavigation loc) then None else Some (flatNavigation loc ! Suc i))\<rparr>"
  using assms find_index_nth [OF distinct_flat assms]
  by (auto simp: getAdjacentDocs_def Let_def nat_diff_distrib nat_add_distrib)

lemma adjacent_unknown:
  assumes "s \<notin> set reading_order"
  shows "getAdjacentDocs s loc = \<lparr>previous = None, next_doc = None\<rparr>"
proof -
  have "\<not> list_ex (\<lambda>e. slug e = s) (flatNavigation loc)"
    using assms in_flat [of loc s] by (auto simp: list_ex_iff)
  then show ?thesis by (simp add: getAdjacentDocs_def find_index_none)
qed

lemma distinct_flatNavigation: "distinct (flatNavigation loc)"
  using distinct_flat distinct_map by blast

text \<open>
  The links to the previous and the next article undo each other: within a language the articles
  form one chain in reading order, which begins and ends at the two articles with one link only.
\<close>

theorem neighbours_chain:
  assumes "e \<in> set (flatNavigation loc)" "f \<in> set (flatNavigation loc)"
  shows "next_doc (getAdjacentDocs (slug e) loc) = Some f \<longleftrightarrow> previous (getAdjacentDocs (slug f) loc) = Some e"
    and "next_doc (getAdjacentDocs (slug e) loc) = None \<longleftrightarrow> slug e = ''troubleshooting/faq''"
    and "previous (getAdjacentDocs (slug e) loc) = None \<longleftrightarrow> slug e = ''introduction/overview''"
    and "s \<notin> set reading_order \<Longrightarrow>
      next_doc (getAdjacentDocs s loc) = None \<and> previous (getAdjacentDocs s loc) = None"
proof -
  let ?es = "flatNavigation loc"
  obtain i j where i: "i < 16" "e = ?es ! i" and j: "j < 16" "f = ?es ! j"
    using assms by (auto simp: in_set_conv_nth length_flat)
  have eq: "?es ! m = ?es ! n \<longleftrightarrow> m = n" if "m < 16" "n < 16" for m n
    using that distinct_flatNavigation by (simp add: nth_eq_iff_index_eq length_flat)
  show "next_doc (getAdjacentDocs (slug e) loc) = Some f \<longleftrightarrow> previous (getAdjacentDocs (slug f) loc) = Some e"
    using i j eq [of "Suc i" j] eq [of "j - 1" i] by (auto simp: adjacent_nth length_flat)
  have sl: "slug (?es ! n) = reading_order ! n" if "n < 16" for n
    using that flat_slugs [of loc] by (metis length_flat nth_map)
  have ro: "reading_order ! m = reading_order ! n \<longleftrightarrow> m = n" if "m < 16" "n < 16" for m n
    using that distinct_reading_order by (subst nth_eq_iff_index_eq) (simp_all add: reading_order_def)
  have "''troubleshooting/faq'' = reading_order ! 15" "''introduction/overview'' = reading_order ! 0"
    by (simp_all add: reading_order_def)
  then have ends: "slug e = ''troubleshooting/faq'' \<longleftrightarrow> i = 15" "slug e = ''introduction/overview'' \<longleftrightarrow> i = 0"
    using i sl [of i] ro [of i 15] ro [of i 0] by simp_all
  show "next_doc (getAdjacentDocs (slug e) loc) = None \<longleftrightarrow> slug e = ''troubleshooting/faq''"
    and "previous (getAdjacentDocs (slug e) loc) = None \<longleftrightarrow> slug e = ''introduction/overview''"
    unfolding ends using i by (auto simp: adjacent_nth length_flat)
  show "s \<notin> set reading_order \<Longrightarrow>
      next_doc (getAdjacentDocs s loc) = None \<and> previous (getAdjacentDocs s loc) = None"
    by (simp add: adjacent_unknown)
qed

end
