(* ===== verification/DocsPages.thy ===== *)
theory DocsPages
  imports Docs
begin

text \<open>
  The routes of the documentation under \<open>frontend/src/app/docs\<close>: the catch-all page
  \<open>[...slug]/page.tsx\<close> with its redirects of old addresses, the two home pages, the addresses the
  shell and the home pages link to, the switch of the language and the search of
  \<open>DocsShell.tsx\<close>.  A request is the list of the path segments behind \<open>/docs\<close>.
\<close>

section \<open>The pages\<close>

definition legacyRoutes :: "(string \<times> string) list" where
  "legacyRoutes =
     [(''introduction'', ''introduction/overview''),
      (''introduction/what-is-datrixops'', ''introduction/overview''),
      (''deployment/self-hosted'', ''getting-started/quickstart''),
      (''getting-started/account-and-first-server'', ''getting-started/add-server''),
      (''getting-started/installation'', ''getting-started/add-server''),
      (''dashboard/overview'', ''features/servers''),
      (''dashboard/network-quality'', ''features/network-quality''),
      (''dashboard/alerts-and-notifications'', ''features/alerts''),
      (''dashboard/website-monitoring'', ''features/uptime''),
      (''server-management/servers'', ''features/servers''),
      (''server-management/web-terminal'', ''features/web-terminal''),
      (''server-management/delete-server'', ''guides/uninstall-server''),
      (''server-management/cron-telemetry'', ''features/cron-monitoring''),
      (''agent-management/updates'', ''guides/agent-updates''),
      (''security/agent-and-updates'', ''reference/configuration''),
      (''troubleshooting/common-issues'', ''troubleshooting/common-issues''),
      (''faq'', ''troubleshooting/faq'')]"

definition inherited_functions :: "string list" where
  \<comment> \<open>the functions an object literal inherits from \<open>Object.prototype\<close>\<close>
  "inherited_functions =
     [''__defineGetter__'', ''__defineSetter__'', ''hasOwnProperty'', ''__lookupGetter__'',
      ''__lookupSetter__'', ''isPrototypeOf'', ''propertyIsEnumerable'', ''toString'', ''valueOf'',
      ''toLocaleString'']"

definition legacy_target :: "string \<Rightarrow> string option" where
  \<comment> \<open>\<open>legacyRoutes[key]\<close> as the template string renders it: own entries, then inherited members\<close>
  "legacy_target key =
     (case map_of legacyRoutes key of
        Some t \<Rightarrow> Some t
      | None \<Rightarrow>
          if key \<in> set inherited_functions then Some (''function '' @ key @ ''() { [native code] }'')
          else if key = ''constructor'' then Some ''function Object() { [native code] }''
          else if key = ''__proto__'' then Some ''[object Object]''
          else None)"

record local_params =
  lp_locale :: doc_locale
  contentSlug :: "string list"
  lp_prefix :: string

definition localizedParams :: "string list \<Rightarrow> local_params" where
  "localizedParams s =
     (case s of
        [] \<Rightarrow> \<lparr>lp_locale = En, contentSlug = s, lp_prefix = ''/docs''\<rparr>
      | x # xs \<Rightarrow>
          if x = ''vi'' then \<lparr>lp_locale = Vi, contentSlug = xs, lp_prefix = ''/docs/vi''\<rparr>
          else if x = ''en'' then \<lparr>lp_locale = En, contentSlug = xs, lp_prefix = ''/docs''\<rparr>
          else \<lparr>lp_locale = En, contentSlug = s, lp_prefix = ''/docs''\<rparr>)"

record article_view =
  shown :: doc_page
  shown_locale :: doc_locale
  breadcrumb :: string
  previous_href :: "string option"
  next_href :: "string option"
  toc :: "(utext \<times> utext) list"

datatype page_answer = Home doc_locale | Redirect string | NotFound | Article article_view

text \<open>What the pages take from the outside: the Unicode tables, the parser, the file system.\<close>

record docs_env =
  lower :: "utext \<Rightarrow> utext"
  nfd :: "utext \<Rightarrow> utext"
  matter :: matter_parser
  files :: file_system
  cwd :: string

definition find_doc :: "docs_env \<Rightarrow> string list \<Rightarrow> doc_locale \<Rightarrow> doc_page option" where
  "find_doc e = getDocBySlug (lower e) (nfd e) (matter e) (files e) (cwd e)"

definition DocPage :: "docs_env \<Rightarrow> string list \<Rightarrow> page_answer" where
  "DocPage e s =
     (let lp = localizedParams s; prefix = lp_prefix lp in
      if s \<noteq> [] \<and> hd s = ''en'' \<and> contentSlug lp = [] then Redirect ''/docs''
      else case legacy_target (join ''/'' (contentSlug lp)) of
             Some t \<Rightarrow> Redirect (prefix @ ''/'' @ t)
           | None \<Rightarrow>
               (case find_doc e (contentSlug lp) (lp_locale lp) of
                  None \<Rightarrow> NotFound
                | Some doc \<Rightarrow>
                    (let adjacent = getAdjacentDocs (slug doc) (lp_locale lp);
                         link = map_option (\<lambda>d. prefix @ ''/'' @ slug d)
                     in Article \<lparr>shown = doc, shown_locale = lp_locale lp, breadcrumb = prefix,
                          previous_href = link (previous adjacent), next_href = link (next_doc adjacent),
                          toc = map (\<lambda>h. (35 # heading_id h, heading_text h)) (headings doc)\<rparr>)))"

record doc_metadata =
  meta_title :: utext
  meta_description :: "utext option"
  canonical :: "string option"
  languages :: "(string \<times> string) list"

definition generateMetadata :: "docs_env \<Rightarrow> string list \<Rightarrow> doc_metadata" where
  "generateMetadata e s =
     (let lp = localizedParams s; prefix = lp_prefix lp; loc = lp_locale lp in
      case find_doc e (contentSlug lp) loc of
        None \<Rightarrow>
          \<lparr>meta_title = (if loc = En then units ''Documentation not found | DatrixOps''
              else units ''Kh'' @ [244] @ units ''ng t'' @ [236] @ units ''m th'' @ [7845] @ units ''y t'' @ [224] @
                units ''i li'' @ [7879] @ units ''u | DatrixOps''),
           meta_description = None, canonical = None, languages = []\<rparr>
      | Some doc \<Rightarrow>
          \<lparr>meta_title = title doc @ units '' | DatrixOps Docs'', meta_description = Some (description doc),
           canonical = Some (prefix @ ''/'' @ slug doc),
           languages =
             [(''en-US'', (if loc = En then prefix else ''/docs'') @ ''/'' @ slug doc),
              (''vi-VN'', (if loc = Vi then prefix else ''/docs/vi'') @ ''/'' @ slug doc)]\<rparr>)"

definition docs_request :: "docs_env \<Rightarrow> string list \<Rightarrow> page_answer" where
  \<comment> \<open>\<open>page.tsx\<close>, \<open>vi/page.tsx\<close>, \<open>en/page.tsx\<close> and the catch-all \<open>[...slug]/page.tsx\<close>\<close>
  "docs_request e s =
     (if s = [] then Home En
      else if s = [''vi''] then Home Vi
      else if s = [''en''] then Redirect ''/docs''
      else DocPage e s)"

definition path_segments :: "string \<Rightarrow> string list option" where
  "path_segments p =
     (case split_at (CHR ''/'') p of
        a # b # segs \<Rightarrow> if a = [] \<and> b = ''docs'' then Some segs else None
      | _ \<Rightarrow> None)"

definition visit :: "docs_env \<Rightarrow> string \<Rightarrow> page_answer" where
  \<comment> \<open>opening an address of the documentation\<close>
  "visit e p = (case path_segments p of Some segs \<Rightarrow> docs_request e segs | None \<Rightarrow> NotFound)"

section \<open>The addresses the pages link to\<close>

definition localizedPath :: "doc_locale \<Rightarrow> string \<Rightarrow> string" where
  "localizedPath loc s = (if loc = Vi then ''/docs/vi/'' @ s else ''/docs/'' @ s)"

definition home_prefix :: "doc_locale \<Rightarrow> string" where
  \<comment> \<open>\<open>DocsHomeContent.tsx\<close>\<close>
  "home_prefix loc = (if loc = En then ''/docs/en'' else ''/docs'')"

definition home_actions :: "doc_locale \<Rightarrow> string list" where
  "home_actions loc =
     [home_prefix loc @ ''/getting-started/quickstart'', home_prefix loc @ ''/troubleshooting/common-issues'']"

definition home_links :: "doc_locale \<Rightarrow> (utext \<times> utext option \<times> (string \<times> utext) list) list" where
  \<comment> \<open>per group: its label, the description of its first article, the links\<close>
  "home_links loc =
     map (\<lambda>g. (label g, (case items g of [] \<Rightarrow> None | i # _ \<Rightarrow> Some (description i)),
               map (\<lambda>i. (home_prefix loc @ ''/'' @ slug i, title i)) (items g)))
       (docsNavigationByLocale loc)"

definition brand_link :: "doc_locale \<Rightarrow> string" where
  "brand_link loc = (if loc = En then ''/docs/en'' else ''/docs'')"

definition locale_of_path :: "string \<Rightarrow> doc_locale" where
  "locale_of_path pathname =
     (if pathname = ''/docs/vi'' \<or> starts_with pathname ''/docs/vi/'' then Vi else En)"

definition article_english :: "string \<Rightarrow> bool" where
  \<comment> \<open>\<open>MarkdownArticle.tsx\<close> chooses the words of its copy buttons by this test of its own\<close>
  "article_english pathname \<longleftrightarrow> pathname = ''/docs/en'' \<or> starts_with pathname ''/docs/en/''"

definition sidebar :: "string \<Rightarrow> (utext \<times> (string \<times> utext \<times> bool) list) list" where
  \<comment> \<open>per group the links, with the mark of the page shown\<close>
  "sidebar pathname =
     (let loc = locale_of_path pathname in
      map (\<lambda>g. (label g, map (\<lambda>i. (localizedPath loc (slug i), title i, pathname = localizedPath loc (slug i))) (items g)))
        (docsNavigationByLocale loc))"

section \<open>Which article an address shows\<close>

lemma join_split_at: "join [d] (split_at d s) = s"
proof (induction s)
  case (Cons c s)
  obtain x xs where "split_at d s = x # xs" using split_at_nonempty by (meson list.exhaust)
  with Cons show ?case by (cases xs) auto
qed simp

lemma path_segments_docs:
  "path_segments (''/docs/'' @ s) = Some (split_at (CHR ''/'') s)"
  "path_segments (''/docs/vi/'' @ s) = Some (''vi'' # split_at (CHR ''/'') s)"
  "path_segments (''/docs/en/'' @ s) = Some (''en'' # split_at (CHR ''/'') s)"
  by (simp_all add: path_segments_def)

definition common_issues :: string where
  "common_issues = ''troubleshooting/common-issues''"

lemma catalogue_segments:
  assumes "s \<in> set reading_order"
  shows "hd (split_at (CHR ''/'') s) \<notin> {''vi'', ''en''}" and "tl (split_at (CHR ''/'') s) \<noteq> []"
    and "s \<noteq> common_issues \<Longrightarrow> legacy_target s = None"
proof -
  have "list_all (\<lambda>s. hd (split_at (CHR ''/'') s) \<notin> {''vi'', ''en''} \<and> tl (split_at (CHR ''/'') s) \<noteq> [] \<and>
      (s = common_issues \<or> legacy_target s = None)) reading_order"
    by code_simp
  then have "hd (split_at (CHR ''/'') s) \<notin> {''vi'', ''en''} \<and> tl (split_at (CHR ''/'') s) \<noteq> [] \<and>
      (s = common_issues \<or> legacy_target s = None)"
    unfolding list_all_iff using assms by (rule bspec)
  then show "hd (split_at (CHR ''/'') s) \<notin> {''vi'', ''en''}" "tl (split_at (CHR ''/'') s) \<noteq> []"
    "s \<noteq> common_issues \<Longrightarrow> legacy_target s = None"
    by blast+
qed

definition page_segments :: "doc_locale \<Rightarrow> string \<Rightarrow> string list" where
  "page_segments loc s = (if loc = Vi then [''vi''] else []) @ split_at (CHR ''/'') s"

lemma localized_segments: "path_segments (localizedPath loc s) = Some (page_segments loc s)"
  by (cases loc) (simp_all add: localizedPath_def page_segments_def path_segments_def)

lemma localized_params:
  assumes "loc = Vi \<or> hd (split_at (CHR ''/'') s) \<notin> {''vi'', ''en''}"
  shows "localizedParams (page_segments loc s) =
    \<lparr>lp_locale = loc, contentSlug = split_at (CHR ''/'') s, lp_prefix = (if loc = Vi then ''/docs/vi'' else ''/docs'')\<rparr>"
proof -
  obtain x xs where "split_at (CHR ''/'') s = x # xs" using split_at_nonempty by (meson list.exhaust)
  with assms show ?thesis by (cases loc) (simp_all add: localizedParams_def page_segments_def)
qed

lemma localizedPath_prefix:
  "localizedPath loc s = (if loc = Vi then ''/docs/vi'' else ''/docs'') @ ''/'' @ s"
  by (simp add: localizedPath_def)

lemma visit_localized:
  assumes "hd (split_at (CHR ''/'') s) \<notin> {''vi'', ''en''}" "s \<noteq> []"
  shows "visit e (localizedPath loc s) = DocPage e (page_segments loc s)"
proof -
  obtain x xs where x: "split_at (CHR ''/'') s = x # xs" using split_at_nonempty by (meson list.exhaust)
  with assms show ?thesis
    by (simp add: visit_def localized_segments docs_request_def) (simp add: page_segments_def)
qed

lemma DocPage_localized:
  assumes "hd (split_at (CHR ''/'') s) \<notin> {''vi'', ''en''}"
  shows "DocPage e (page_segments loc s) =
    (case legacy_target s of
       Some t \<Rightarrow> Redirect (localizedPath loc t)
     | None \<Rightarrow>
         (case find_doc e (split_at (CHR ''/'') s) loc of
            None \<Rightarrow> NotFound
          | Some doc \<Rightarrow>
              Article \<lparr>shown = doc, shown_locale = loc,
                breadcrumb = (if loc = Vi then ''/docs/vi'' else ''/docs''),
                previous_href = map_option (\<lambda>d. localizedPath loc (slug d)) (previous (getAdjacentDocs (slug doc) loc)),
                next_href = map_option (\<lambda>d. localizedPath loc (slug d)) (next_doc (getAdjacentDocs (slug doc) loc)),
                toc = map (\<lambda>h. (35 # heading_id h, heading_text h)) (headings doc)\<rparr>))"
proof -
  have "\<not> (page_segments loc s \<noteq> [] \<and> hd (page_segments loc s) = ''en'' \<and> split_at (CHR ''/'') s = [])"
    by simp
  then show ?thesis
    using assms localized_params [of loc s] by (simp add: DocPage_def Let_def join_split_at localizedPath_prefix cong: option.case_cong)
qed

lemma DocPage_Article:
  assumes "DocPage e segs = Article v"
  shows "legacy_target (slug (shown v)) = None"
    and "find_doc e (contentSlug (localizedParams segs)) (shown_locale v) = Some (shown v)"
proof -
  let ?lp = "localizedParams segs"
  have a: "legacy_target (join ''/'' (contentSlug ?lp)) = None \<and>
      find_doc e (contentSlug ?lp) (lp_locale ?lp) = Some (shown v) \<and> shown_locale v = lp_locale ?lp"
    using assms by (auto simp: DocPage_def Let_def split: if_splits option.splits)
  then show "find_doc e (contentSlug ?lp) (shown_locale v) = Some (shown v)" by simp
  moreover have "slug (shown v) = join ''/'' (contentSlug ?lp)"
    using a getDocBySlug_Some(1) unfolding find_doc_def by blast
  ultimately show "legacy_target (slug (shown v)) = None" using a by simp
qed

lemma visit_Article:
  assumes "visit e p = Article v"
  obtains segs where "DocPage e segs = Article v"
  using assms by (auto simp: visit_def docs_request_def split: option.splits if_splits)

lemma legacy_common_issues: "legacy_target common_issues = Some common_issues"
  by (simp add: common_issues_def legacy_target_def legacyRoutes_def)

lemma metadata_localized:
  assumes "hd (split_at (CHR ''/'') s) \<notin> {''vi'', ''en''}" "find_doc e (split_at (CHR ''/'') s) loc = Some doc"
  shows "canonical (generateMetadata e (page_segments loc s)) = Some (localizedPath loc (slug doc))"
    and "languages (generateMetadata e (page_segments loc s)) =
      [(''en-US'', localizedPath En (slug doc)), (''vi-VN'', localizedPath Vi (slug doc))]"
  using assms localized_params [of loc s]
  by (cases loc; simp add: generateMetadata_def Let_def localizedPath_def)+

lemma articles_shown:
  shows "visit e p = Article v \<Longrightarrow>
      slug (shown v) \<in> set reading_order - {common_issues} \<and>
      (\<exists>raw. files e (doc_file (cwd e) (shown_locale v) (slug (shown v))) = Some raw \<and>
             content (shown v) = snd (matter e raw))"
    and "s \<in> set reading_order \<Longrightarrow> s \<noteq> common_issues \<Longrightarrow> files e (doc_file (cwd e) loc s) \<noteq> None \<Longrightarrow>
      \<exists>w. visit e (localizedPath loc s) = Article w \<and> slug (shown w) = s \<and> shown_locale w = loc \<and>
          next_href w = map_option (\<lambda>d. localizedPath loc (slug d)) (next_doc (getAdjacentDocs s loc)) \<and>
          canonical (generateMetadata e (page_segments loc s)) = Some (localizedPath loc s) \<and>
          languages (generateMetadata e (page_segments loc s)) =
            [(''en-US'', localizedPath En s), (''vi-VN'', localizedPath Vi s)]"
proof -
  assume "visit e p = Article v"
  then obtain segs where d: "DocPage e segs = Article v" by (rule visit_Article)
  note f = DocPage_Article(2) [OF d, unfolded find_doc_def]
  have "slug (shown v) \<noteq> common_issues"
    using DocPage_Article(1) [OF d] legacy_common_issues by auto
  then show "slug (shown v) \<in> set reading_order - {common_issues} \<and>
      (\<exists>raw. files e (doc_file (cwd e) (shown_locale v) (slug (shown v))) = Some raw \<and>
             content (shown v) = snd (matter e raw))"
    using getDocBySlug_Some(2-4) [OF f] by auto
next
  assume s: "s \<in> set reading_order" "s \<noteq> common_issues" and there: "files e (doc_file (cwd e) loc s) \<noteq> None"
  note seg = catalogue_segments [OF s(1)]
  let ?segs = "split_at (CHR ''/'') s"
  obtain doc where doc: "find_doc e ?segs loc = Some doc" "slug doc = s"
    using getDocBySlug_found [of ?segs "files e" "cwd e" loc "lower e" "nfd e" "matter e"] s(1) there
    unfolding find_doc_def by (auto simp: join_split_at)
  have "s \<noteq> []" using seg(2) by auto
  have "visit e (localizedPath loc s) = DocPage e (page_segments loc s)"
    by (rule visit_localized [OF seg(1) \<open>s \<noteq> []\<close>])
  then obtain w where "visit e (localizedPath loc s) = Article w" "slug (shown w) = s" "shown_locale w = loc"
    "next_href w = map_option (\<lambda>d. localizedPath loc (slug d)) (next_doc (getAdjacentDocs s loc))"
    using DocPage_localized [OF seg(1), of e loc] seg(3) [OF s(2)] doc by simp
  then show "\<exists>w. visit e (localizedPath loc s) = Article w \<and> slug (shown w) = s \<and> shown_locale w = loc \<and>
          next_href w = map_option (\<lambda>d. localizedPath loc (slug d)) (next_doc (getAdjacentDocs s loc)) \<and>
          canonical (generateMetadata e (page_segments loc s)) = Some (localizedPath loc s) \<and>
          languages (generateMetadata e (page_segments loc s)) =
            [(''en-US'', localizedPath En s), (''vi-VN'', localizedPath Vi s)]"
    using metadata_localized [OF seg(1) doc(1)] doc(2) by (intro exI [of _ w]) simp
qed

text \<open>
  C37. Where an address of the documentation shows an article, the article is one of the catalogue and
  its text is that of the file of this article in the language shown.  Conversely every article of
  the catalogue except one whose file exists is shown, in either language, at its localized address,
  with the link to its successor, and its metadata name this address as canonical.
\<close>

theorem docs_articles:
  shows "(\<forall>v. visit e p = Article v \<longrightarrow>
        slug (shown v) \<in> set reading_order - {common_issues} \<and>
        (\<exists>raw. files e (doc_file (cwd e) (shown_locale v) (slug (shown v))) = Some raw \<and>
               content (shown v) = snd (matter e raw))) \<and>
      (\<forall>s\<in>set reading_order. s \<noteq> common_issues \<and> files e (doc_file (cwd e) loc s) \<noteq> None \<longrightarrow>
        (\<exists>w. visit e (localizedPath loc s) = Article w \<and> slug (shown w) = s \<and> shown_locale w = loc \<and>
            next_href w = map_option (\<lambda>d. localizedPath loc (slug d)) (next_doc (getAdjacentDocs s loc)) \<and>
            canonical (generateMetadata e (page_segments loc s)) = Some (localizedPath loc s) \<and>
            languages (generateMetadata e (page_segments loc s)) =
              [(''en-US'', localizedPath En s), (''vi-VN'', localizedPath Vi s)]))"
  by (intro conjI allI ballI impI articles_shown(1)) (blast dest: articles_shown(2))+

definition sample_env :: docs_env where
  \<comment> \<open>a disk on which every file holds its own path\<close>
  "sample_env =
     \<lparr>lower = (\<lambda>t. t), nfd = (\<lambda>t. t), matter = (\<lambda>raw. (\<lparr>fm_title = None, fm_description = None\<rparr>, raw)),
      files = (\<lambda>p. Some (units p)), cwd = ''/app''\<rparr>"

theorem docs_articles_witness:
  "\<exists>w. visit sample_env ''/docs/vi/features/alerts'' = Article w \<and> slug (shown w) = ''features/alerts'' \<and>
     content (shown w) = units ''/app/docs/public/features/alerts.md'' \<and>
     next_href w = Some ''/docs/vi/features/web-terminal''"
proof -
  let ?s = "''features/alerts''"
  have s: "?s \<in> set reading_order" "?s \<noteq> common_issues" "localizedPath Vi ?s = ''/docs/vi/features/alerts''"
    by (simp_all add: reading_order_def common_issues_def localizedPath_def)
  have f: "files sample_env (doc_file (cwd sample_env) Vi ?s) = Some (units ''/app/docs/public/features/alerts.md'')"
    by (simp add: sample_env_def doc_file_def getDocsDirectory_def)
  then obtain w where w: "visit sample_env ''/docs/vi/features/alerts'' = Article w" "slug (shown w) = ?s"
    "shown_locale w = Vi" "next_href w = map_option (\<lambda>d. localizedPath Vi (slug d)) (next_doc (getAdjacentDocs ?s Vi))"
    using docs_articles [of sample_env p Vi] s by (auto dest!: bspec [of _ _ ?s])
  have "content (shown w) = units ''/app/docs/public/features/alerts.md''"
    using docs_articles [of sample_env "''/docs/vi/features/alerts''" Vi] w f by (auto simp: sample_env_def)
  moreover have "slug (flatNavigation Vi ! n) = reading_order ! n" if "n < 16" for n
    using that flat_slugs [of Vi] by (metis length_flat nth_map)
  from this [of 6] this [of 7] adjacent_nth [of 6 Vi]
  have "next_href w = Some ''/docs/vi/features/web-terminal''"
    by (simp add: w(4) length_flat reading_order_def localizedPath_def)
  ultimately show ?thesis using w(1,2) by blast
qed

section \<open>Redirects\<close>

inductive redirected :: "docs_env \<Rightarrow> string \<Rightarrow> string \<Rightarrow> bool" for e where
  stay: "redirected e p p"
| follow: "redirected e p q \<Longrightarrow> visit e q = Redirect r \<Longrightarrow> redirected e p r"

text \<open>
  The troubleshooting article is on the list of old addresses under its own address.  Opening it
  redirects to itself without end in both languages, so the one article the home page offers for
  trouble is never shown.
\<close>

lemma common_issues_segments: "hd (split_at (CHR ''/'') common_issues) \<notin> {''vi'', ''en''}" "common_issues \<noteq> []"
  by (simp_all add: common_issues_def)

lemma visit_common_issues: "visit e (localizedPath loc common_issues) = Redirect (localizedPath loc common_issues)"
  using visit_localized [OF common_issues_segments] DocPage_localized [OF common_issues_segments(1)]
  by (simp add: legacy_common_issues)

theorem common_issues_unreachable:
  "visit e (localizedPath loc common_issues) = Redirect (localizedPath loc common_issues) \<and>
   (redirected e (localizedPath loc common_issues) p \<longleftrightarrow> p = localizedPath loc common_issues) \<and>
   home_actions En ! 1 = ''/docs/en/'' @ common_issues \<and>
   visit e (home_actions En ! 1) = Redirect (localizedPath En common_issues)"
proof (intro conjI)
  show "visit e (localizedPath loc common_issues) = Redirect (localizedPath loc common_issues)"
    by (rule visit_common_issues)
  have "redirected e q p \<Longrightarrow> q = localizedPath loc common_issues \<Longrightarrow> p = localizedPath loc common_issues" for q
    by (induction rule: redirected.induct) (simp_all add: visit_common_issues)
  then show "redirected e (localizedPath loc common_issues) p \<longleftrightarrow> p = localizedPath loc common_issues"
    using stay by blast
  show h: "home_actions En ! 1 = ''/docs/en/'' @ common_issues"
    by (simp add: home_actions_def home_prefix_def common_issues_def)
  show "visit e (home_actions En ! 1) = Redirect (localizedPath En common_issues)"
    unfolding h
    by (simp add: visit_def path_segments_def docs_request_def DocPage_def localizedParams_def
        join_split_at legacy_common_issues localizedPath_def)
qed

text \<open>Every other old address leads to an article of the catalogue in one redirect, in the same language.\<close>

theorem legacy_redirects:
  assumes "(k, t) \<in> set legacyRoutes" "k \<noteq> common_issues"
  shows "visit e (localizedPath loc k) = Redirect (localizedPath loc t)"
    and "t \<in> set reading_order - {common_issues}"
proof -
  have "list_all (\<lambda>(k, t). k = common_issues \<or> hd (split_at (CHR ''/'') k) \<notin> {''vi'', ''en''} \<and> k \<noteq> [] \<and>
      legacy_target k = Some t \<and> t \<in> set reading_order \<and> t \<noteq> common_issues) legacyRoutes"
    by code_simp
  then have "hd (split_at (CHR ''/'') k) \<notin> {''vi'', ''en''} \<and> k \<noteq> [] \<and>
      legacy_target k = Some t \<and> t \<in> set reading_order \<and> t \<noteq> common_issues"
    unfolding list_all_iff using assms by fastforce
  then show "visit e (localizedPath loc k) = Redirect (localizedPath loc t)"
    and "t \<in> set reading_order - {common_issues}"
    using visit_localized [of k e loc] DocPage_localized [of k e loc] by simp_all
qed

theorem legacy_redirects_witness:
  "visit sample_env ''/docs/vi/faq'' = Redirect ''/docs/vi/troubleshooting/faq''"
  using legacy_redirects(1) [of "''faq''" "''troubleshooting/faq''" sample_env Vi]
  by (simp add: legacyRoutes_def common_issues_def localizedPath_def)

section \<open>The language of the links\<close>

text \<open>
  Both home pages and the brand of the header lead to English pages: the Vietnamese home page
  links to the addresses without a language.  The copy buttons test for \<open>/docs/en\<close>, so under the
  canonical address of an English article they speak Vietnamese.
\<close>

lemma home_hrefs: "map fst (concat (map (\<lambda>(_, _, ls). ls) (home_links loc))) = map (\<lambda>s. home_prefix loc @ ''/'' @ s) reading_order"
proof -
  have "map fst (concat (map (\<lambda>(_, _, ls). ls) (home_links loc))) =
      map (\<lambda>s. home_prefix loc @ ''/'' @ s) (map slug (concat (map items (docsNavigationByLocale loc))))"
    by (simp add: home_links_def map_concat comp_def)
  then show ?thesis by (simp only: nav_items)
qed

lemma visit_home_link:
  assumes "s \<in> set reading_order"
  shows "visit e (home_prefix loc @ ''/'' @ s) = visit e (localizedPath En s)"
proof (cases loc)
  case En
  note seg = catalogue_segments [OF assms]
  have ne: "s \<noteq> []" using seg(2) by auto
  obtain x xs where x: "split_at (CHR ''/'') s = x # xs" using split_at_nonempty by (meson list.exhaust)
  have "visit e (''/docs/en/'' @ s) = DocPage e (''en'' # split_at (CHR ''/'') s)"
    using x by (simp add: visit_def path_segments_def docs_request_def)
  also have "\<dots> = DocPage e (page_segments En s)"
    using localized_params [of En s] seg(1) x
    by (simp add: DocPage_def page_segments_def localizedParams_def)
  also have "\<dots> = visit e (localizedPath En s)" by (rule visit_localized [OF seg(1) ne, symmetric])
  finally show ?thesis using En by (simp add: home_prefix_def)
qed (simp add: home_prefix_def localizedPath_def)

theorem vietnamese_home_leaves_language:
  "(href \<in> set (map fst (concat (map (\<lambda>(_, _, ls). ls) (home_links Vi)))) \<longleftrightarrow>
      (\<exists>s\<in>set reading_order. href = localizedPath En s)) \<and>
   visit e (brand_link Vi) = Home En \<and> \<not> article_english (localizedPath En common_issues)"
proof (intro conjI)
  show "href \<in> set (map fst (concat (map (\<lambda>(_, _, ls). ls) (home_links Vi)))) \<longleftrightarrow>
      (\<exists>s\<in>set reading_order. href = localizedPath En s)"
    unfolding home_hrefs by (auto simp: home_prefix_def localizedPath_def)
  show "visit e (brand_link Vi) = Home En"
    by (simp add: visit_def brand_link_def path_segments_def docs_request_def)
  show "\<not> article_english (localizedPath En common_issues)"
    by (simp add: article_english_def localizedPath_def starts_with_def common_issues_def)
qed

end
