(* ===== verification/Shared.thy ===== *)
theory Shared
  imports DocsText JsPrelude
begin

text \<open>
  The shared helpers and components: \<open>frontend/src/lib/clipboard.ts\<close>, \<open>frontend/src/lib/edition.ts\<close>,
  \<open>CustomSelect.tsx\<close>, \<open>ConfirmModal.tsx\<close> and \<open>ThemeToggle.tsx\<close> of \<open>frontend/src/components\<close>.  Of the
  browser the clipboard helper uses the permission to write, the focused element, the nodes it
  appends to the body and the copy command, which are explicit here.
\<close>

section \<open>Copying to the clipboard\<close>

datatype focus = NoElement | Page_element nat | Textarea

record textarea =
  ta_value :: utext
  readOnly :: bool
  hidden_offscreen :: bool

record dom =
  body_nodes :: "textarea list"
  focused :: focus
  selection :: "utext option"
  system_clipboard :: utext

record browser =
  has_window :: bool
  has_document :: bool
  isSecureContext :: bool
  has_writeText :: bool
  writeText_granted :: bool
  execCommand :: "thrown + bool"

fun normalize_newlines :: "utext \<Rightarrow> utext" where
  \<comment> \<open>what a textarea makes of the text assigned to its \<open>value\<close>\<close>
  "normalize_newlines [] = []"
| "normalize_newlines [c] = (if c = 13 then [10] else [c])"
| "normalize_newlines (c # d # cs) =
     (if c = 13 then (if d = 10 then 10 # normalize_newlines cs else 10 # normalize_newlines (d # cs))
      else c # normalize_newlines (d # cs))"

definition clipboard_api :: "browser \<Rightarrow> bool" where
  "clipboard_api b \<longleftrightarrow> has_window b \<and> isSecureContext b \<and> has_writeText b"

definition append_textarea :: "utext \<Rightarrow> dom \<Rightarrow> dom" where
  \<comment> \<open>create, fill, append, focus, select, \<open>setSelectionRange(0, value.length)\<close>\<close>
  "append_textarea t d =
     (let v = normalize_newlines t
      in d\<lparr>body_nodes := body_nodes d @ [\<lparr>ta_value = v, readOnly = True, hidden_offscreen = True\<rparr>],
           focused := Textarea, selection := Some (take (length v) v)\<rparr>)"

definition remove_textarea :: "focus \<Rightarrow> dom \<Rightarrow> dom" where
  \<comment> \<open>the \<open>finally\<close> block: a removed element loses the focus, then the old one gets it back\<close>
  "remove_textarea old d =
     d\<lparr>body_nodes := butlast (body_nodes d), selection := None,
       focused := (case old of Page_element i \<Rightarrow> Page_element i | _ \<Rightarrow> NoElement)\<rparr>"

definition exec_copy :: "browser \<Rightarrow> dom \<Rightarrow> unit outcome \<times> dom" where
  "exec_copy b d =
     (case execCommand b of
        Inl e \<Rightarrow> (Inl e, d)
      | Inr ok \<Rightarrow>
          if ok then (Inr (), d\<lparr>system_clipboard := (case selection d of Some t \<Rightarrow> t | None \<Rightarrow> system_clipboard d)\<rparr>)
          else (Inl (ErrorObj ''Copy command was rejected''), d))"

definition copyTextToClipboard :: "browser \<Rightarrow> utext \<Rightarrow> dom \<Rightarrow> unit outcome \<times> dom" where
  "copyTextToClipboard b t d =
     (if t = [] then (Inl (ErrorObj ''Nothing to copy''), d)
      else if clipboard_api b \<and> writeText_granted b then (Inr (), d\<lparr>system_clipboard := t\<rparr>)
      else if \<not> has_document b then (Inl (ErrorObj ''Clipboard is unavailable''), d)
      else
        let old = focused d;
            (r, d') = exec_copy b (append_textarea t d)
        in (r, remove_textarea old d'))"

lemma normalize_newlines_id: "13 \<notin> set t \<Longrightarrow> normalize_newlines t = t"
  by (induction t rule: normalize_newlines.induct) auto

lemma normalize_newlines_no_cr: "13 \<notin> set (normalize_newlines t)"
  by (induction t rule: normalize_newlines.induct) auto

text \<open>
  On every path, errors included, the page is left as it was: no node stays behind, an element
  that had the focus has it again.  The call succeeds exactly when there is a text and one of the
  two ways works; then the clipboard holds the text, up to the line ends a textarea rewrites, and
  otherwise it is unchanged.
\<close>

theorem copy_leaves_page:
  assumes "copyTextToClipboard b t d = (r, d')" and "focused d \<noteq> Textarea"
  shows "body_nodes d' = body_nodes d" and "focused d' = focused d"
    and "(\<exists>u. r = Inr u) \<longleftrightarrow> t \<noteq> [] \<and>
      (clipboard_api b \<and> writeText_granted b \<or> has_document b \<and> execCommand b = Inr True)"
    and "system_clipboard d' =
      (if \<not> (\<exists>u. r = Inr u) then system_clipboard d
       else if clipboard_api b \<and> writeText_granted b then t else normalize_newlines t)"
  using assms
  by (auto simp: copyTextToClipboard_def exec_copy_def append_textarea_def remove_textarea_def Let_def
      split: if_splits sum.splits focus.splits)

theorem copy_leaves_page_witness:
  "body_nodes (snd (copyTextToClipboard
       \<lparr>has_window = True, has_document = True, isSecureContext = False, has_writeText = False,
        writeText_granted = False, execCommand = Inr False\<rparr>
       (units ''datrix'')
       \<lparr>body_nodes = [], focused = Page_element 4, selection = None, system_clipboard = []\<rparr>)) = [] \<and>
   focused (snd (copyTextToClipboard
       \<lparr>has_window = True, has_document = True, isSecureContext = False, has_writeText = False,
        writeText_granted = False, execCommand = Inr False\<rparr>
       (units ''datrix'')
       \<lparr>body_nodes = [], focused = Page_element 4, selection = None, system_clipboard = []\<rparr>)) = Page_element 4"
proof -
  let ?b = "\<lparr>has_window = True, has_document = True, isSecureContext = False, has_writeText = False,
        writeText_granted = False, execCommand = Inr False\<rparr> :: browser"
  let ?d = "\<lparr>body_nodes = [], focused = Page_element 4, selection = None, system_clipboard = []\<rparr> :: dom"
  obtain r d' where c: "copyTextToClipboard ?b (units ''datrix'') ?d = (r, d')" by (rule prod.exhaust)
  show ?thesis using copy_leaves_page(1,2) [OF c] unfolding c by simp
qed

section \<open>Editions\<close>

datatype edition = Community | Cloud

definition getEdition :: "string option \<Rightarrow> edition" where
  \<comment> \<open>of the variable \<open>NEXT_PUBLIC_DATRIXOPS_EDITION\<close>\<close>
  "getEdition env = (if env = Some ''cloud'' then Cloud else Community)"

definition isCommunityEdition :: "string option \<Rightarrow> bool" where
  "isCommunityEdition env \<longleftrightarrow> getEdition env = Community"

definition isCloudEdition :: "string option \<Rightarrow> bool" where
  "isCloudEdition env \<longleftrightarrow> getEdition env = Cloud"

definition edition_name :: "edition \<Rightarrow> string" where
  "edition_name e = (case e of Community \<Rightarrow> ''community'' | Cloud \<Rightarrow> ''cloud'')"

definition editionLabel :: "string option \<Rightarrow> string option \<Rightarrow> string" where
  "editionLabel env ed =
     (if (case ed of Some e \<Rightarrow> e | None \<Rightarrow> edition_name (getEdition env)) = ''cloud''
      then ''DatrixOps Cloud'' else ''Community Edition'')"

definition getAppVersion :: "string option \<Rightarrow> string" where
  \<comment> \<open>of the variable \<open>NEXT_PUBLIC_DATRIXOPS_VERSION\<close>\<close>
  "getAppVersion env = opt_or env ''1.8.46''"

definition deploymentLabel :: "string option \<Rightarrow> string" where
  "deploymentLabel mode = (if mode = Some ''managed'' then ''Managed'' else ''Self-hosted'')"

definition dataOwnershipLabel :: "string option \<Rightarrow> string" where
  "dataOwnershipLabel v = (if v = Some ''provider-managed'' then ''Provider managed'' else ''Customer controlled'')"

lemma edition_exclusive: "isCloudEdition env \<longleftrightarrow> \<not> isCommunityEdition env"
  by (cases "getEdition env") (simp_all add: isCloudEdition_def isCommunityEdition_def)

lemma editionLabel_default: "editionLabel env None = editionLabel env (Some (edition_name (getEdition env)))"
  by (simp add: editionLabel_def)

section \<open>The drop-down list\<close>

record select_option =
  opt_value :: string
  opt_label :: string
  subLabel :: "string option"

record coords =
  top :: int
  left :: int
  width :: int

record rect =
  rect_bottom :: int
  rect_left :: int
  rect_width :: int
  scrollX :: int
  scrollY :: int

record custom_select =
  sel_open :: bool
  sel_coords :: coords

definition init_select :: custom_select where
  "init_select = \<lparr>sel_open = False, sel_coords = \<lparr>top = 0, left = 0, width = 0\<rparr>\<rparr>"

definition updatePosition :: "rect option \<Rightarrow> custom_select \<Rightarrow> custom_select" where
  \<comment> \<open>the rectangle of the container, if it is mounted, and the scroll offsets\<close>
  "updatePosition r s =
     (case r of
        None \<Rightarrow> s
      | Some q \<Rightarrow> s\<lparr>sel_coords := \<lparr>top = rect_bottom q + scrollY q + 6, left = rect_left q + scrollX q,
                                 width = max (rect_width q) 200\<rparr>\<rparr>)"

definition handleToggle :: "bool \<Rightarrow> rect option \<Rightarrow> custom_select \<Rightarrow> custom_select" where
  "handleToggle disabled r s =
     (if disabled then s
      else let s' = (if sel_open s then s else updatePosition r s)
           in s'\<lparr>sel_open := \<not> sel_open s\<rparr>)"

definition handleScrollOrResize :: "rect option \<Rightarrow> custom_select \<Rightarrow> custom_select" where
  \<comment> \<open>the listeners exist while the list is open\<close>
  "handleScrollOrResize r s = (if sel_open s then updatePosition r s else s)"

definition handleClickOutside :: "bool \<Rightarrow> bool \<Rightarrow> custom_select \<Rightarrow> custom_select" where
  "handleClickOutside in_container in_dropdown s =
     (if sel_open s \<and> \<not> in_container \<and> \<not> in_dropdown then s\<lparr>sel_open := False\<rparr> else s)"

definition choose_option :: "select_option list \<Rightarrow> nat \<Rightarrow> custom_select \<Rightarrow> string option \<times> custom_select" where
  \<comment> \<open>a click on an entry of the open list: the value passed to \<open>onChange\<close>\<close>
  "choose_option options i s =
     (if sel_open s \<and> i < length options then (Some (opt_value (options ! i)), s\<lparr>sel_open := False\<rparr>)
      else (None, s))"

definition selectedOption :: "string \<Rightarrow> select_option list \<Rightarrow> select_option option" where
  "selectedOption v options = find (\<lambda>q. opt_value q = v) options"

definition button_label :: "string \<Rightarrow> select_option list \<Rightarrow> string \<Rightarrow> string" where
  "button_label v options placeholder =
     (case selectedOption v options of Some q \<Rightarrow> opt_label q | None \<Rightarrow> placeholder)"

definition dropdown :: "string \<Rightarrow> select_option list \<Rightarrow> custom_select \<Rightarrow> (string \<times> string option \<times> bool) list option" where
  \<comment> \<open>the entries of the open list: label, sub label, whether it is ticked\<close>
  "dropdown v options s =
     (if sel_open s
      then Some (map (\<lambda>q. (opt_label q, (case subLabel q of Some l \<Rightarrow> nonempty_or_null l | None \<Rightarrow> None),
                            opt_value q = v)) options)
      else None)"

datatype select_event =
    Toggle bool "rect option"
  | Scroll_resize "rect option"
  | Click_outside bool bool
  | Choose "select_option list" nat

fun select_step :: "select_event \<Rightarrow> custom_select \<Rightarrow> string option \<times> custom_select" where
  "select_step (Toggle dis r) s = (None, handleToggle dis r s)"
| "select_step (Scroll_resize r) s = (None, handleScrollOrResize r s)"
| "select_step (Click_outside c m) s = (None, handleClickOutside c m s)"
| "select_step (Choose os i) s = choose_option os i s"

lemma select_emits:
  "fst (select_step ev s) = Some v \<Longrightarrow>
     sel_open s \<and> \<not> sel_open (snd (select_step ev s)) \<and>
     (\<exists>os i. ev = Choose os i \<and> i < length os \<and> v = opt_value (os ! i) \<and> selectedOption v os \<noteq> None)"
  by (cases ev) (auto simp: choose_option_def selectedOption_def find_None_iff split: if_splits dest: nth_mem)

lemma open_list_wide:
  "(sel_open s \<longrightarrow> 200 \<le> width (sel_coords s)) \<Longrightarrow>
     (case ev of Toggle dis r \<Rightarrow> r \<noteq> None | _ \<Rightarrow> True) \<Longrightarrow>
     sel_open (snd (select_step ev s)) \<longrightarrow> 200 \<le> width (sel_coords (snd (select_step ev s)))"
  by (cases ev)
    (auto simp: handleToggle_def handleScrollOrResize_def handleClickOutside_def choose_option_def
       updatePosition_def split: option.splits)

section \<open>The confirmation dialog\<close>

datatype modal_variant = Danger | Warning | Primary

datatype modal_button = Close_button | Cancel_button | Confirm_button

datatype modal_call = OnCancel | OnConfirm

record confirm_modal =
  cm_isOpen :: bool
  cm_title :: "string option"
  cm_variant :: modal_variant
  cm_loading :: bool

definition finalTitle :: "confirm_modal \<Rightarrow> string" where
  "finalTitle m =
     opt_or (cm_title m)
       (case cm_variant m of Danger \<Rightarrow> ''Confirm Deletion'' | Warning \<Rightarrow> ''Warning''
          | Primary \<Rightarrow> ''Confirmation Required'')"

definition modal_click :: "modal_button \<Rightarrow> confirm_modal \<Rightarrow> modal_call option" where
  \<comment> \<open>all three buttons are disabled while the request runs\<close>
  "modal_click btn m =
     (if \<not> cm_isOpen m \<or> cm_loading m then None
      else Some (case btn of Confirm_button \<Rightarrow> OnConfirm | _ \<Rightarrow> OnCancel))"

lemma finalTitle_nonempty: "finalTitle m \<noteq> []"
  by (cases "cm_title m"; cases "cm_variant m") (auto simp: finalTitle_def str_or_def)

section \<open>The theme switch\<close>

definition isDark :: "bool \<Rightarrow> string option \<Rightarrow> bool" where
  \<comment> \<open>before mounting the page is taken for dark\<close>
  "isDark mounted resolvedTheme \<longleftrightarrow> \<not> mounted \<or> resolvedTheme \<noteq> Some ''light''"

definition targetTheme :: "bool \<Rightarrow> string option \<Rightarrow> string" where
  "targetTheme mounted resolvedTheme = (if isDark mounted resolvedTheme then ''light'' else ''dark'')"

definition theme_label :: "bool \<Rightarrow> string option \<Rightarrow> string" where
  "theme_label mounted resolvedTheme =
     (if mounted
      then ''Switch to '' @ (if targetTheme mounted resolvedTheme = ''light'' then ''light'' else ''dark'') @ '' mode''
      else ''Change theme'')"

lemma theme_alternates: "targetTheme True (Some (targetTheme True (Some (targetTheme True r)))) = targetTheme True r"
  by (simp add: targetTheme_def isDark_def)

end
