(* ===== verification/DocsShell.thy ===== *)
theory DocsShell
  imports DocsPages Shared
begin

text \<open>
  The client side of the documentation: the shell \<open>frontend/src/app/docs/DocsShell.tsx\<close> with its
  menu, its search dialog and the switch of the language, and the rendering decisions of
  \<open>MarkdownArticle.tsx\<close>.
\<close>

section \<open>The switch of the language\<close>

definition cut_prefix :: "string \<Rightarrow> string \<Rightarrow> string" where
  \<comment> \<open>\<open>s.replace(/^prefix\\/?/, '')\<close>: the prefix and one slash behind it\<close>
  "cut_prefix p s =
     (if starts_with s p
      then (case drop (length p) s of [] \<Rightarrow> [] | c # r \<Rightarrow> if c = CHR ''/'' then r else c # r)
      else s)"

definition contentPath :: "string \<Rightarrow> string" where
  "contentPath pathname =
     (if locale_of_path pathname = Vi then cut_prefix ''/docs/vi'' pathname
      else cut_prefix ''/docs'' (cut_prefix ''/docs/en'' pathname))"

definition locale_name :: "doc_locale \<Rightarrow> string" where
  "locale_name loc = (case loc of Vi \<Rightarrow> ''vi'' | En \<Rightarrow> ''en'')"

definition switchLocale :: "doc_locale \<Rightarrow> string \<Rightarrow> ((string \<times> string) \<times> string) option" where
  \<comment> \<open>the item written to \<open>localStorage\<close>, whose failure is ignored, and the address pushed\<close>
  "switchLocale nextLocale pathname =
     (if nextLocale = locale_of_path pathname then None
      else
        let c = contentPath pathname;
            rest = (if c = [] then [] else ''/'' @ c)
        in Some ((''datrixops_docs_lang'', locale_name nextLocale),
                 (if nextLocale = Vi then ''/docs/vi'' else ''/docs'') @ rest))"

definition other_locale :: "doc_locale \<Rightarrow> doc_locale" where
  "other_locale loc = (case loc of Vi \<Rightarrow> En | En \<Rightarrow> Vi)"

definition switched :: "string \<Rightarrow> string" where
  \<comment> \<open>the page after choosing the other language\<close>
  "switched pathname = (case switchLocale (other_locale (locale_of_path pathname)) pathname of
     Some (_, p) \<Rightarrow> p | None \<Rightarrow> pathname)"

lemma locale_of_localized:
  "locale_of_path (localizedPath Vi c) = Vi"
  "locale_of_path (localizedPath En c) = (if c = ''vi'' \<or> starts_with c ''vi/'' then Vi else En)"
  by (auto simp: locale_of_path_def localizedPath_def starts_with_def)

lemma contentPath_localized:
  "contentPath (localizedPath Vi c) = c"
  "\<not> starts_with c ''vi'' \<Longrightarrow> \<not> starts_with c ''en'' \<Longrightarrow> contentPath (localizedPath En c) = c"
proof -
  show "contentPath (localizedPath Vi c) = c"
    by (simp add: contentPath_def locale_of_localized(1)) (simp add: localizedPath_def cut_prefix_def starts_with_def)
  assume n: "\<not> starts_with c ''vi''" "\<not> starts_with c ''en''"
  then have "locale_of_path (localizedPath En c) = En"
    using prefix_order.trans [of "''vi''" "''vi/''" c] by (auto simp: locale_of_localized(2) starts_with_def)
  with n show "contentPath (localizedPath En c) = c"
    by (simp add: contentPath_def) (simp add: localizedPath_def cut_prefix_def starts_with_def)
qed

lemma switch_localized:
  assumes "\<not> starts_with c ''vi''" "\<not> starts_with c ''en''" "c \<noteq> []"
  shows "switched (localizedPath loc c) = localizedPath (other_locale loc) c"
proof -
  have "locale_of_path (localizedPath loc c) = loc"
    using assms(1) prefix_order.trans [of "''vi''" "''vi/''" c]
    by (cases loc) (auto simp: locale_of_localized starts_with_def)
  moreover have "contentPath (localizedPath loc c) = c"
    using assms contentPath_localized by (cases loc) simp_all
  ultimately show ?thesis using assms(3)
    by (cases loc) (simp_all add: switched_def switchLocale_def other_locale_def Let_def, simp_all add: localizedPath_def)
qed

text \<open>
  Choosing the other language twice leads back: for the address of every article, for the two
  home pages, and for any address whose first part does not begin with the letters of a language.
  The address in between is the one of the same article in the other language.
\<close>

theorem language_switch_roundtrip:
  shows "s \<in> set reading_order \<Longrightarrow>
      switched (localizedPath loc s) = localizedPath (other_locale loc) s \<and>
      switched (switched (localizedPath loc s)) = localizedPath loc s"
    and "switched ''/docs'' = ''/docs/vi'' \<and> switched ''/docs/vi'' = ''/docs''"
    and "c \<noteq> [] \<Longrightarrow> \<not> starts_with c ''vi'' \<Longrightarrow> \<not> starts_with c ''en'' \<Longrightarrow>
      switched (switched (localizedPath loc c)) = localizedPath loc c"
proof -
  have o: "other_locale (other_locale loc) = loc" by (cases loc) (simp_all add: other_locale_def)
  show twice: "switched (switched (localizedPath loc c)) = localizedPath loc c"
    if "c \<noteq> []" "\<not> starts_with c ''vi''" "\<not> starts_with c ''en''" for c
    using switch_localized [OF that(2,3,1)] o by simp
  show "switched ''/docs'' = ''/docs/vi'' \<and> switched ''/docs/vi'' = ''/docs''"
    by (simp add: switched_def switchLocale_def locale_of_path_def contentPath_def cut_prefix_def
        other_locale_def starts_with_def)
  assume s: "s \<in> set reading_order"
  have "list_all (\<lambda>s. s \<noteq> [] \<and> \<not> starts_with s ''vi'' \<and> \<not> starts_with s ''en'') reading_order"
    by (simp add: reading_order_def starts_with_def)
  then have "s \<noteq> [] \<and> \<not> starts_with s ''vi'' \<and> \<not> starts_with s ''en''"
    unfolding list_all_iff using s by (rule bspec)
  then show "switched (localizedPath loc s) = localizedPath (other_locale loc) s \<and>
      switched (switched (localizedPath loc s)) = localizedPath loc s"
    using switch_localized [of s loc] twice [of s] by simp
qed

theorem language_switch_roundtrip_witness:
  "switched ''/docs/features/alerts'' = ''/docs/vi/features/alerts'' \<and>
   switched (switched (localizedPath En ''runbooks'')) = ''/docs/runbooks''"
  using language_switch_roundtrip(1) [of "''features/alerts''" En]
    language_switch_roundtrip(3) [of "''runbooks''" En]
  by (simp add: reading_order_def localizedPath_def other_locale_def starts_with_def)

text \<open>The expression has no boundary behind \<open>en\<close>: an address that merely begins with it is cut.\<close>

lemma switch_cuts_words: "switched (switched ''/docs/vi/enterprise'') = ''/docs/vi/terprise''"
  by (simp add: switched_def switchLocale_def locale_of_path_def contentPath_def cut_prefix_def
      other_locale_def starts_with_def)

section \<open>The shell\<close>

record docs_shell =
  menuOpen :: bool
  searchOpen :: bool
  query :: utext

definition init_shell :: docs_shell where
  "init_shell = \<lparr>menuOpen = False, searchOpen = False, query = []\<rparr>"

record key_event =
  metaKey :: bool
  ctrlKey :: bool
  key :: string

definition onKeyDown :: "key_event \<Rightarrow> docs_shell \<Rightarrow> docs_shell" where
  "onKeyDown ev s =
     (let s1 = (if (metaKey ev \<or> ctrlKey ev) \<and> to_lower (key ev) = ''k'' then s\<lparr>searchOpen := True\<rparr> else s)
      in if key ev = ''Escape'' then s1\<lparr>searchOpen := False\<rparr> else s1)"

datatype shell_event =
    Key_down key_event
  | Menu_button | Menu_close | Scrim | Menu_link string
  | Search_trigger | Search_close | Overlay_mouse_down | Dialog_mouse_down
  | Type_query utext
  | Result_link string

fun shell_step :: "shell_event \<Rightarrow> docs_shell \<Rightarrow> docs_shell" where
  "shell_step (Key_down k) s = onKeyDown k s"
| "shell_step Menu_button s = s\<lparr>menuOpen := True\<rparr>"
| "shell_step Menu_close s = s\<lparr>menuOpen := False\<rparr>"
| "shell_step Scrim s = s\<lparr>menuOpen := False\<rparr>"
| "shell_step (Menu_link href) s = s\<lparr>menuOpen := False\<rparr>"
| "shell_step Search_trigger s = s\<lparr>searchOpen := True\<rparr>"
| "shell_step Search_close s = s\<lparr>searchOpen := False\<rparr>"
| "shell_step Overlay_mouse_down s = s\<lparr>searchOpen := False\<rparr>"
| "shell_step Dialog_mouse_down s = s"
| "shell_step (Type_query q) s = s\<lparr>query := q\<rparr>"
| "shell_step (Result_link href) s = s\<lparr>searchOpen := False, query := []\<rparr>"

definition search_text :: "doc_entry \<Rightarrow> utext" where
  \<comment> \<open>\<open>`${title} ${description} ${groupLabel} ${searchText ?? ''}`\<close>\<close>
  "search_text d =
     title d @ [32] @ description d @ [32] @ groupLabel d @ [32] @
     (case searchText d of Some t \<Rightarrow> t | None \<Rightarrow> [])"

definition search_results :: "(utext \<Rightarrow> utext) \<Rightarrow> utext \<Rightarrow> doc_entry list \<Rightarrow> doc_entry list" where
  "search_results low q searchIndex =
     (let normalizedQuery = low (utrim q)
      in if normalizedQuery \<noteq> [] then filter (\<lambda>d. sublist normalizedQuery (low (search_text d))) searchIndex
         else searchIndex)"

definition result_hrefs :: "(utext \<Rightarrow> utext) \<Rightarrow> string \<Rightarrow> utext \<Rightarrow> (doc_locale \<Rightarrow> doc_entry list) \<Rightarrow> string list" where
  "result_hrefs low pathname q index =
     (let loc = locale_of_path pathname
      in map (\<lambda>d. localizedPath loc (slug d)) (search_results low q (index loc)))"

definition search_hits :: "(nat \<Rightarrow> bool) \<Rightarrow> docs_env \<Rightarrow> string \<Rightarrow> utext \<Rightarrow> string list" where
  \<comment> \<open>with the index \<open>layout.tsx\<close> passes down\<close>
  "search_hits wordy e pathname q =
     result_hrefs (lower e) pathname q (getAllDocs wordy (matter e) (files e) (cwd e))"

lemma getAllDocs_slugs: "map slug (getAllDocs wordy m fs c loc) = reading_order"
proof -
  have "map slug (getAllDocs wordy m fs c loc) = map slug (flatNavigation loc)"
    by (auto simp: getAllDocs_def split: option.split)
  then show ?thesis by (simp add: flat_slugs)
qed

lemma search_results_filter: "\<exists>p. search_results low q = filter p"
proof (cases "low (utrim q) = []")
  case True
  then have "search_results low q = filter (\<lambda>_. True)" by (simp add: search_results_def fun_eq_iff)
  then show ?thesis by blast
next
  case False
  then have "search_results low q = filter (\<lambda>d. sublist (low (utrim q)) (low (search_text d)))"
    by (simp add: search_results_def fun_eq_iff Let_def)
  then show ?thesis by blast
qed

lemma slugs_of_results: "subseq (map slug (search_results low q (getAllDocs wordy m fs c loc))) reading_order"
proof -
  obtain p where p: "search_results low q = filter p" using search_results_filter by blast
  have "subseq (map slug (filter p (getAllDocs wordy m fs c loc))) (map slug (getAllDocs wordy m fs c loc))"
    by (rule subseq_map [OF subseq_filter_left])
  then show ?thesis by (simp add: p getAllDocs_slugs)
qed

text \<open>
  The index the layout hands to the shell keeps the catalogue, so every result of a search is the
  address of an article in the language of the page, each at most once and in reading order.
\<close>

theorem search_finds_articles:
  shows "subseq (search_hits wordy e pathname q) (map (localizedPath (locale_of_path pathname)) reading_order)"
    and "lower e (utrim q) = [] \<Longrightarrow> search_hits wordy e pathname q = map (localizedPath (locale_of_path pathname)) reading_order"
    and "d \<in> set (getAllDocs wordy (matter e) (files e) (cwd e) (locale_of_path pathname)) \<Longrightarrow>
      sublist (lower e (utrim q)) (lower e (search_text d)) \<Longrightarrow>
      localizedPath (locale_of_path pathname) (slug d) \<in> set (search_hits wordy e pathname q)"
proof -
  let ?loc = "locale_of_path pathname"
  let ?all = "getAllDocs wordy (matter e) (files e) (cwd e) ?loc"
  have h: "search_hits wordy e pathname q = map (localizedPath ?loc) (map slug (search_results (lower e) q ?all))"
    by (simp add: search_hits_def result_hrefs_def Let_def)
  show "subseq (search_hits wordy e pathname q) (map (localizedPath ?loc) reading_order)"
    unfolding h by (rule subseq_map [OF slugs_of_results])
  show "lower e (utrim q) = [] \<Longrightarrow> search_hits wordy e pathname q = map (localizedPath ?loc) reading_order"
    unfolding h by (simp add: search_results_def getAllDocs_slugs del: map_map)
  assume "d \<in> set ?all" "sublist (lower e (utrim q)) (lower e (search_text d))"
  then have "d \<in> set (search_results (lower e) q ?all)" by (simp add: search_results_def Let_def)
  then show "localizedPath ?loc (slug d) \<in> set (search_hits wordy e pathname q)" unfolding h by simp
qed

section \<open>The article\<close>

datatype react_node = Text utext | Element "react_node list" | Other_node

fun textFromChildren :: "react_node list \<Rightarrow> utext" where
  "textFromChildren [] = []"
| "textFromChildren (Text t # ns) = t @ textFromChildren ns"
| "textFromChildren (Element cs # ns) = textFromChildren cs @ textFromChildren ns"
| "textFromChildren (Other_node # ns) = textFromChildren ns"

lemma textFromChildren_append: "textFromChildren (xs @ ys) = textFromChildren xs @ textFromChildren ys"
  by (induction xs rule: textFromChildren.induct) simp_all

definition article_heading_id :: "(utext \<Rightarrow> utext) \<Rightarrow> (utext \<Rightarrow> utext) \<Rightarrow> react_node list \<Rightarrow> utext" where
  "article_heading_id low dec children = article_slugifyHeading low dec (textFromChildren children)"

definition callout_kind :: "(utext \<Rightarrow> utext) \<Rightarrow> react_node list \<Rightarrow> string" where
  "callout_kind low children =
     (let v = low (utrim (textFromChildren children))
      in if prefix (units ''warning:'') v then ''warning''
         else if prefix (units ''tip:'') v then ''tip''
         else if prefix (units ''important:'') v then ''important''
         else ''note'')"

definition external_link :: "string option \<Rightarrow> bool" where
  \<comment> \<open>\<open>/^https?:\\/\\//\<close> of the address, which defaults to the empty one\<close>
  "external_link href \<longleftrightarrow>
     starts_with (case href of Some h \<Rightarrow> h | None \<Rightarrow> []) ''http://'' \<or>
     starts_with (case href of Some h \<Rightarrow> h | None \<Rightarrow> []) ''https://''"

definition code_text :: "react_node list \<Rightarrow> utext" where
  \<comment> \<open>\<open>textFromChildren(children).replace(/\\n$/, '')\<close>\<close>
  "code_text children =
     (let t = textFromChildren children
      in if t \<noteq> [] \<and> last t = 10 then butlast t else t)"

record code_block =
  cb_copied :: bool
  cb_timers :: nat
    \<comment> \<open>pending timers, each of which ends the confirmation\<close>

definition copy_code :: "browser \<Rightarrow> react_node list \<Rightarrow> code_block \<times> dom \<Rightarrow> code_block \<times> dom" where
  \<comment> \<open>a rejected copy leaves the button as it is\<close>
  "copy_code b children sd =
     (let (r, d) = copyTextToClipboard b (code_text children) (snd sd)
      in (case r of
            Inl _ \<Rightarrow> fst sd
          | Inr _ \<Rightarrow> (fst sd)\<lparr>cb_copied := True, cb_timers := cb_timers (fst sd) + 1\<rparr>, d))"

definition copied_timeout :: "code_block \<Rightarrow> code_block" where
  "copied_timeout s = (if cb_timers s = 0 then s else s\<lparr>cb_copied := False, cb_timers := cb_timers s - 1\<rparr>)"

definition copy_button_text :: "bool \<Rightarrow> code_block \<Rightarrow> utext" where
  "copy_button_text english s =
     (if cb_copied s then (if english then units ''Copied'' else [272, 227] @ units '' sao ch'' @ [233] @ units ''p'')
      else (if english then units ''Copy'' else units ''Sao ch'' @ [233] @ units ''p''))"

lemma copied_ends:
  "cb_copied s \<longrightarrow> 0 < cb_timers s \<Longrightarrow>
     (cb_copied (fst (copy_code b cs (s, d))) \<longrightarrow> 0 < cb_timers (fst (copy_code b cs (s, d)))) \<and>
     \<not> cb_copied (copied_timeout s)"
  by (auto simp: copy_code_def copied_timeout_def split: prod.splits sum.splits)

definition ascii_lower :: "utext \<Rightarrow> utext" where
  \<comment> \<open>what the Unicode tables do to ASCII letters, for the examples\<close>
  "ascii_lower = map (\<lambda>c. if 65 \<le> c \<and> c \<le> 90 then c + 32 else c)"

text \<open>
  The links of the table of contents: for a heading of plain text they name the id of the heading
  in the article.  A heading with parentheses, a code name with an underscore or a link has an
  entry that leads nowhere, because the parenthesis is removed from the table only and the
  underscore from its text.
\<close>

theorem toc_links:
  shows "list_all (\<lambda>c. \<not> marked c) t \<Longrightarrow> utrim t = t \<Longrightarrow>
      list_all (\<lambda>c. \<not> marked c) (nf (low t)) \<Longrightarrow>
      slugifyHeading low nf (toc_text t) = article_heading_id low nf [Text t]"
    and "heading_id (the (heading_of_line ascii_lower (\<lambda>t. t)
          (units ''### 3. Email (SMTP)''))) = units ''3-email''"
    and "article_heading_id ascii_lower (\<lambda>t. t)
          [Text (units ''3. Email (SMTP)'')] = units ''3-email-smtp''"
    and "heading_id (the (heading_of_line ascii_lower (\<lambda>t. t)
          (units ''### `PUBLIC_URL`''))) = units ''publicurl''"
    and "article_heading_id ascii_lower (\<lambda>t. t)
          [Element [Text (units ''PUBLIC_URL'')]] = units ''public-url''"
proof -
  note eval = heading_of_line_def match_heading_def toc_text_def slugifyHeading_def article_heading_id_def
    article_slugifyHeading_def drop_accents_def trim_dashes_def utrim_def trim_by_def js_space_def
    line_end_def slug_unit_def units_def Let_def ascii_lower_def
  show "heading_id (the (heading_of_line ascii_lower (\<lambda>t. t)
          (units ''### 3. Email (SMTP)''))) = units ''3-email''"
    by (simp add: eval)
  show "article_heading_id ascii_lower (\<lambda>t. t)
          [Text (units ''3. Email (SMTP)'')] = units ''3-email-smtp''"
    by (simp add: eval)
  show "heading_id (the (heading_of_line ascii_lower (\<lambda>t. t)
          (units ''### `PUBLIC_URL`''))) = units ''publicurl''"
    by (simp add: eval)
  show "article_heading_id ascii_lower (\<lambda>t. t)
          [Element [Text (units ''PUBLIC_URL'')]] = units ''public-url''"
    by (simp add: eval)
  assume t: "list_all (\<lambda>c. \<not> marked c) t" "utrim t = t" and f: "list_all (\<lambda>c. \<not> marked c) (nf (low t))"
  have "filter (\<lambda>c. c \<notin> {42, 95, 96, 91, 93}) t = t"
    using t(1) by (auto simp: filter_id_conv list_all_iff marked_def)
  moreover have "40 \<notin> set t" using t(1) by (auto simp: list_all_iff marked_def)
  then have "drop_parens t = t" by (induction t) (auto simp: Let_def)
  ultimately have "toc_text t = t" using t(2) by (simp add: toc_text_def)
  then show "slugifyHeading low nf (toc_text t) = article_heading_id low nf [Text t]"
    using f slugify_copies_agree [of nf low t] by (simp add: article_heading_id_def list_all_iff)
qed

theorem toc_links_witness:
  "slugifyHeading (\<lambda>t. t) (\<lambda>t. t) (toc_text (units ''before you start'')) =
   article_heading_id (\<lambda>t. t) (\<lambda>t. t) [Text (units ''before you start'')]"
proof (rule toc_links(1))
  show "list_all (\<lambda>c. \<not> marked c) (units ''before you start'')" by (simp add: marked_def units_def)
  show "utrim (units ''before you start'') = units ''before you start''"
    by (simp add: utrim_def trim_by_def js_space_def units_def)
  show "list_all (\<lambda>c. \<not> marked c) (units ''before you start'')" by (simp add: marked_def units_def)
qed

end
