(* ===== verification/LayoutView.thy ===== *)
theory LayoutView
  imports Layout Shared
begin

text \<open>
  What the frame of the dashboard shows (\<open>dashboard/layout.tsx\<close>): the navigation and its marks, the
  menu of the bell, the menu of the user, and how clicks and keys open and close them.  Icons,
  colours and the page inside the frame are left out; \<open>time\<close> is \<open>formatNotificationTime\<close> at the moment
  of the render.
\<close>

section \<open>The navigation\<close>

record nav_definition =
  nav_label :: string
  nav_href :: string

definition nav_entry :: "string \<Rightarrow> string \<Rightarrow> nav_definition" where
  "nav_entry l h = \<lparr>nav_label = l, nav_href = h\<rparr>"

definition primaryNav :: "nav_definition list" where
  "primaryNav =
     [nav_entry ''Overview'' ''/dashboard'', nav_entry ''Servers'' ''/dashboard/servers'',
      nav_entry ''Network Quality'' ''/dashboard/network'', nav_entry ''Uptime'' ''/dashboard/websites'',
      nav_entry ''Metrics'' ''/dashboard/monitoring'', nav_entry ''Alerts'' ''/dashboard/alerts'',
      nav_entry ''Logs'' ''/dashboard/logs'']"

definition manageNav :: "nav_definition list" where
  "manageNav =
     [nav_entry ''Team'' ''/dashboard/manage/users'', nav_entry ''Audit trail'' ''/dashboard/manage/audit'',
      nav_entry ''API keys'' ''/dashboard/manage/api'', nav_entry ''Settings'' ''/dashboard/manage/settings'']"

definition nav_active :: "string \<Rightarrow> nav_definition \<Rightarrow> bool" where
  "nav_active pathname item \<longleftrightarrow>
     (if nav_href item = ''/dashboard'' then pathname = nav_href item else starts_with pathname (nav_href item))"

record shell =
  sh_collapsed :: bool
  sh_mobileOpen :: bool
  sh_userMenuOpen :: bool
  sh_paletteOpen :: bool
  sh_frame :: layout

record nav_shown =
  ns_href :: string
  ns_text :: "string option"    \<comment> \<open>the label, unless the sidebar is collapsed\<close>
  ns_title :: "string option"   \<comment> \<open>and the label as a title if it is\<close>
  ns_active :: bool

definition NavItem :: "shell \<Rightarrow> string \<Rightarrow> nav_definition \<Rightarrow> nav_shown" where
  "NavItem sh pathname item =
     \<lparr>ns_href = nav_href item,
      ns_text = (if sh_collapsed sh then None else Some (nav_label item)),
      ns_title = (if sh_collapsed sh then Some (nav_label item) else None),
      ns_active = nav_active pathname item\<rparr>"

definition nav_eyebrow :: "shell \<Rightarrow> string \<Rightarrow> string" where
  "nav_eyebrow sh t = (if sh_collapsed sh then [CHR 0xE2, CHR 0x80, CHR 0xA2] else t)"

datatype pulse = Pulse_failed | Pulse_online | Pulse_idle

definition fleet_pulse :: "layout \<Rightarrow> pulse" where
  "fleet_pulse s =
     (if fleetSyncFailed s then Pulse_failed
      else if 0 < (case fleetSummary s of Some f \<Rightarrow> online_servers f | None \<Rightarrow> 0) then Pulse_online
      else Pulse_idle)"

record sidebar_shown =
  sb_close_layer :: bool
  sb_pulse :: pulse
  sb_fleet :: "string option"
  sb_groups :: "(string \<times> nav_shown list) list"
  sb_footer :: "(string \<times> string) option"
  sb_toggle :: string

definition sidebar_of :: "string option \<Rightarrow> string \<Rightarrow> shell \<Rightarrow> sidebar_shown" where
  \<comment> \<open>\<open>env\<close> is the edition the build was made for\<close>
  "sidebar_of env pathname sh =
     (let s = sh_frame sh; items = map (NavItem sh pathname)
      in \<lparr>sb_close_layer = sh_mobileOpen sh,
          sb_pulse = fleet_pulse s,
          sb_fleet = (if sh_collapsed sh then None else Some (fleet_text s)),
          sb_groups = (nav_eyebrow sh ''Workspace'', items primaryNav) #
            (if isUserAdmin s then [(nav_eyebrow sh ''Manage'', items manageNav)] else []),
          sb_footer = (if sh_collapsed sh then None
                       else Some (editionLabel env (Some (workspaceEdition s)), CHR ''v'' # systemVersion s)),
          sb_toggle = (if sh_collapsed sh then ''Expand sidebar'' else ''Collapse sidebar'')\<rparr>)"

section \<open>The menu of the bell\<close>

definition serverUpdateAvailable :: "layout \<Rightarrow> bool" where
  "serverUpdateAvailable s \<longleftrightarrow> isUserAdmin s \<and> (case updateCheck s of Some u \<Rightarrow> uc_update_available u | None \<Rightarrow> False)"

definition agentUpdateAvailable :: "layout \<Rightarrow> bool" where
  "agentUpdateAvailable s \<longleftrightarrow>
     isUserAdmin s \<and> (case updateCheck s of Some u \<Rightarrow> uc_agent_update_available u | None \<Rightarrow> False)"

definition hasUpdateNotification :: "layout \<Rightarrow> bool" where
  "hasUpdateNotification s \<longleftrightarrow> serverUpdateAvailable s \<or> agentUpdateAvailable s"

definition shown_text :: "string option \<Rightarrow> string" where
  \<comment> \<open>an undefined value renders nothing\<close>
  "shown_text v = (case v of Some t \<Rightarrow> t | None \<Rightarrow> [])"

definition update_title :: string where
  "update_title =
     ''B'' @ [CHR 0xE1, CHR 0xBA, CHR 0xA3] @ ''n c'' @ [CHR 0xE1, CHR 0xBA, CHR 0xAD] @ ''p nh'' @
     [CHR 0xE1, CHR 0xBA, CHR 0xAD] @ ''t ''"

definition new_version_of :: string where
  "new_version_of =
     [CHR 0xC4, CHR 0x90, CHR 0xC3, CHR 0xA3] @ '' c'' @ [CHR 0xC3, CHR 0xB3] @ '' phi'' @ [CHR 0xC3, CHR 0xAA] @
     ''n b'' @ [CHR 0xE1, CHR 0xBA, CHR 0xA3] @ ''n ''"

definition server_update_card :: "layout \<Rightarrow> (string \<times> string) option" where
  "server_update_card s =
     (if \<not> serverUpdateAvailable s then None
      else Some (update_title @ ''Server v'' @ shown_text (Option.bind (updateCheck s) uc_latest_version),
        new_version_of @ ''DatrixOps Server m'' @ [CHR 0xE1, CHR 0xBB, CHR 0x9B] @ ''i (b'' @
        [CHR 0xE1, CHR 0xBA, CHR 0xA3] @ ''n hi'' @ [CHR 0xE1, CHR 0xBB, CHR 0x87] @ ''n t'' @
        [CHR 0xE1, CHR 0xBA, CHR 0xA1] @ ''i v'' @
        str_or (systemVersion s) (shown_text (Option.bind (updateCheck s) uc_current_version)) @ '').''))"

definition agent_update_card :: "layout \<Rightarrow> (string \<times> string) option" where
  "agent_update_card s =
     (if \<not> agentUpdateAvailable s then None
      else Some (update_title @ ''Agent v'' @ shown_text (Option.bind (updateCheck s) uc_latest_agent_version),
        new_version_of @ ''Datrix Agent m'' @ [CHR 0xE1, CHR 0xBB, CHR 0x9B] @ ''i '' @
        [CHR 0xC4, CHR 0x91, CHR 0xE1, CHR 0xBB, CHR 0x83] @ '' n'' @ [CHR 0xC3, CHR 0xA2] @ ''ng c'' @
        [CHR 0xE1, CHR 0xBA, CHR 0xA5] @ ''p cho c'' @ [CHR 0xC3, CHR 0xA1] @ ''c m'' @ [CHR 0xC3, CHR 0xA1] @
        ''y ch'' @ [CHR 0xE1, CHR 0xBB, CHR 0xA7] @ '' gi'' @ [CHR 0xC3, CHR 0xA1] @ ''m s'' @
        [CHR 0xC3, CHR 0xA1] @ ''t.''))"

record bell_item =
  bi_id :: string
  bi_unread :: bool
  bi_resolved :: bool
  bi_title :: string
  bi_message :: string
  bi_time :: string

definition bell_item_of :: "(string \<Rightarrow> string) \<Rightarrow> notification \<Rightarrow> bell_item" where
  "bell_item_of time n =
     \<lparr>bi_id = no_id n, bi_unread = is_unread n, bi_resolved = (no_severity n = ''resolved''),
      bi_title = no_title n, bi_message = no_message n, bi_time = time (no_created_at n)\<rparr>"

datatype bell_body = Bell_loading | Bell_failed | Bell_empty | Bell_items "bell_item list"

definition bell_body_of :: "(string \<Rightarrow> string) \<Rightarrow> layout \<Rightarrow> bell_body" where
  "bell_body_of time s =
     (if notificationsLoading s then Bell_loading
      else if notificationError s \<noteq> [] \<and> notifications s = [] \<and> \<not> hasUpdateNotification s then Bell_failed
      else if notifications s = [] \<and> \<not> hasUpdateNotification s then Bell_empty
      else Bell_items (map (bell_item_of time) (notifications s)))"

record bell_menu =
  bm_heading :: string
  bm_mark_all_disabled :: bool
  bm_updates :: "(string \<times> string) list"
  bm_body :: bell_body

definition option_list :: "'a option \<Rightarrow> 'a list" where
  "option_list v = (case v of Some x \<Rightarrow> [x] | None \<Rightarrow> [])"

definition bell_menu_of :: "(string \<Rightarrow> string) \<Rightarrow> layout \<Rightarrow> bell_menu option" where
  "bell_menu_of time s =
     (if \<not> notificationsOpen s then None
      else Some \<lparr>bm_heading = show_num (totalUnreadBadge s) @ '' unread'',
                 bm_mark_all_disabled = (unreadNotificationCount s = Fin 0),
                 bm_updates = option_list (server_update_card s) @ option_list (agent_update_card s),
                 bm_body = bell_body_of time s\<rparr>)"

definition bell_label :: "layout \<Rightarrow> string" where
  "bell_label s =
     (if num_lt (Fin 0) (totalUnreadBadge s)
      then ''Open notifications, '' @ show_num (totalUnreadBadge s) @ '' unread'' else ''Open notifications'')"

section \<open>The menu of the user\<close>

definition avatar_admin :: "string \<Rightarrow> bool" where
  "avatar_admin r \<longleftrightarrow> r = ''admin'' \<or> r = ''superadmin''"

definition initials :: "string \<Rightarrow> string" where
  "initials r = (if avatar_admin r then ''AD'' else if r = ''viewer'' then ''VW'' else ''OP'')"

record user_menu =
  um_initials :: string
  um_name :: string
  um_account :: string
  um_role :: string

definition before_at :: "string \<Rightarrow> string" where
  \<comment> \<open>\<open>userEmail.split('@')[0]\<close>\<close>
  "before_at t = takeWhile (\<lambda>c. c \<noteq> CHR ''@'') t"

definition user_menu_of :: "shell \<Rightarrow> user_menu option" where
  "user_menu_of sh =
     (let s = sh_frame sh; e = userEmail s; r = role s
      in if \<not> sh_userMenuOpen sh then None
         else Some \<lparr>um_initials = initials r,
                    um_name = str_or e (if avatar_admin r then ''Administrator'' else ''Operator''),
                    um_account = (if CHR ''@'' \<in> set e then before_at e else str_or e ''admin''),
                    um_role = str_or r ''admin''\<rparr>)"

section \<open>Opening and closing\<close>

datatype frame_event =
    Open_navigation | Close_navigation | Follow_nav nav_definition | Toggle_sidebar
  | Click_bell | Bell_link | Click_avatar | Docs_link | Quick_search | Sign_out
  | Mouse_down bool bool      \<comment> \<open>inside the menu of the bell, inside the menu of the user\<close>
  | Key_down string bool      \<comment> \<open>the key, whether Ctrl or Meta is held\<close>

definition close_bell :: "shell \<Rightarrow> shell" where
  "close_bell sh = sh\<lparr>sh_frame := (sh_frame sh)\<lparr>notificationsOpen := False\<rparr>\<rparr>"

fun frame_step :: "frame_event \<Rightarrow> shell \<Rightarrow> shell \<times> request option" where
  \<comment> \<open>the state of the frame; signing out also removes the tokens (\<open>clear_tokens\<close>) and leaves the page\<close>
  "frame_step Open_navigation sh = (sh\<lparr>sh_mobileOpen := True\<rparr>, None)"
| "frame_step Close_navigation sh = (sh\<lparr>sh_mobileOpen := False\<rparr>, None)"
| "frame_step (Follow_nav item) sh = (sh\<lparr>sh_mobileOpen := False\<rparr>, None)"
| "frame_step Toggle_sidebar sh = (sh\<lparr>sh_collapsed := \<not> sh_collapsed sh\<rparr>, None)"
| "frame_step Click_bell sh =
     (let (s, r) = toggle_bell (sh_frame sh) in (sh\<lparr>sh_frame := s\<rparr>, r))"
| "frame_step Bell_link sh = (close_bell sh, None)"
| "frame_step Click_avatar sh = (sh\<lparr>sh_userMenuOpen := \<not> sh_userMenuOpen sh\<rparr>, None)"
| "frame_step Docs_link sh = (sh\<lparr>sh_userMenuOpen := False\<rparr>, None)"
| "frame_step Quick_search sh = (sh\<lparr>sh_userMenuOpen := False, sh_paletteOpen := True\<rparr>, None)"
| "frame_step Sign_out sh = (sh\<lparr>sh_userMenuOpen := False\<rparr>, None)"
| "frame_step (Mouse_down in_bell in_user) sh =
     (let sh1 = (if notificationsOpen (sh_frame sh) \<and> \<not> in_bell then close_bell sh else sh)
      in (if sh_userMenuOpen sh \<and> \<not> in_user then sh1\<lparr>sh_userMenuOpen := False\<rparr> else sh1, None))"
| "frame_step (Key_down k held) sh =
     (let sh1 = (if held \<and> to_lower k = ''k'' then sh\<lparr>sh_paletteOpen := \<not> sh_paletteOpen sh\<rparr> else sh);
          sh2 = (if notificationsOpen (sh_frame sh) \<and> k = ''Escape'' then close_bell sh1 else sh1)
      in (if sh_userMenuOpen sh \<and> k = ''Escape'' then sh2\<lparr>sh_userMenuOpen := False\<rparr> else sh2, None))"

section \<open>Properties\<close>

text \<open>The path of a page marks at most one entry of the navigation.\<close>

lemma starts_prefix: "starts_with p h \<longleftrightarrow> (\<exists>r. p = h @ r)"
  by (simp add: starts_with_def prefix_def)

definition all_nav :: "nav_definition list" where
  "all_nav = primaryNav @ manageNav"

fun unlike :: "string \<Rightarrow> string \<Rightarrow> bool" where
  \<comment> \<open>the texts differ at a place both have\<close>
  "unlike (x # xs) (y # ys) \<longleftrightarrow> x \<noteq> y \<or> unlike xs ys"
| "unlike xs ys \<longleftrightarrow> False"

lemma unlike_no_prefix: "unlike a b \<Longrightarrow> a @ r \<noteq> b @ u"
  by (induction a b rule: unlike.induct) auto

lemma nav_unrelated:
  "list_all (\<lambda>a. list_all (\<lambda>b. a = b \<or> nav_href a = ''/dashboard'' \<or> nav_href b = ''/dashboard'' \<or>
     unlike (nav_href a) (nav_href b)) all_nav) all_nav"
  by (simp add: all_nav_def primaryNav_def manageNav_def nav_entry_def)

lemma nav_below: "list_all (\<lambda>a. nav_href a = ''/dashboard'' \<longleftrightarrow> a = nav_entry ''Overview'' ''/dashboard'') all_nav"
  by (simp add: all_nav_def primaryNav_def manageNav_def nav_entry_def)

lemma nav_longer: "list_all (\<lambda>a. nav_href a = ''/dashboard'' \<or> length ''/dashboard'' < length (nav_href a)) all_nav"
  by code_simp

theorem one_nav_active:
  assumes "a \<in> set all_nav" "b \<in> set all_nav" "nav_active p a" "nav_active p b"
  shows "a = b"
proof -
  have home: "nav_href x = ''/dashboard'' \<Longrightarrow> x = nav_entry ''Overview'' ''/dashboard''" if "x \<in> set all_nav" for x
    using nav_below that by (auto simp: list_all_iff)
  have deep: "p \<noteq> ''/dashboard''"
    if x: "x \<in> set all_nav" "nav_active p x" "nav_href x \<noteq> ''/dashboard''" for x
  proof -
    have "length ''/dashboard'' < length (nav_href x)"
      using nav_longer x(1,3) unfolding list_all_iff by blast
    moreover obtain r where "p = nav_href x @ r"
      using x(2,3) by (auto simp: nav_active_def starts_prefix)
    ultimately have "length ''/dashboard'' < length p" by simp
    then show ?thesis by blast
  qed
  show ?thesis
  proof (cases "nav_href a = ''/dashboard'' \<or> nav_href b = ''/dashboard''")
    case True
    then have "nav_href a = ''/dashboard'' \<and> nav_href b = ''/dashboard''"
      using assms deep [of a] deep [of b] by (cases "p = ''/dashboard''") (auto simp: nav_active_def)
    then show ?thesis using home assms(1,2) by metis
  next
    case False
    obtain r where "p = nav_href a @ r" using assms(3) False by (auto simp: nav_active_def starts_prefix)
    moreover obtain u where "p = nav_href b @ u" using assms(4) False by (auto simp: nav_active_def starts_prefix)
    ultimately have "\<not> unlike (nav_href a) (nav_href b)" using unlike_no_prefix by metis
    then show ?thesis using nav_unrelated False assms(1,2) unfolding list_all_iff by blast
  qed
qed

text \<open>A press outside both menus and the key Escape leave no menu open and send nothing.\<close>

lemma menus_close:
  "ev \<in> {Mouse_down False False, Key_down ''Escape'' held} \<Longrightarrow>
     \<not> notificationsOpen (sh_frame (fst (frame_step ev sh))) \<and> \<not> sh_userMenuOpen (fst (frame_step ev sh)) \<and>
     snd (frame_step ev sh) = None"
  by (auto simp: close_bell_def Let_def split: if_splits)

text \<open>Only opening the bell sends a request.\<close>

lemma frame_requests:
  "snd (frame_step ev sh) \<noteq> None \<longleftrightarrow> ev = Click_bell \<and> \<not> notificationsOpen (sh_frame sh)"
  by (cases ev) (auto simp: toggle_bell_def fetchNotifications_begin_def Let_def)

text \<open>The updates of the badge are the cards of the menu.\<close>

lemma update_cards_counted:
  "updateCount s = of_nat (length (option_list (server_update_card s) @ option_list (agent_update_card s)))"
  by (auto simp: updateCount_def server_update_card_def agent_update_card_def serverUpdateAvailable_def
      agentUpdateAvailable_def option_list_def split: option.split)

text \<open>
  With an update to announce a failed load of the notifications is not said: the menu shows the
  cards of the updates and an empty list.
\<close>

lemma failure_hidden_by_update:
  "notificationError s \<noteq> [] \<Longrightarrow> notifications s = [] \<Longrightarrow> \<not> notificationsLoading s \<Longrightarrow>
     bell_body_of time s = (if hasUpdateNotification s then Bell_items [] else Bell_failed)"
  by (simp add: bell_body_of_def)

text \<open>An owner, who sees the administration, is shown as an operator.\<close>

lemma owner_as_operator:
  "role (sh_frame sh) = ''owner'' \<Longrightarrow> userEmail (sh_frame sh) = [] \<Longrightarrow> sh_userMenuOpen sh \<Longrightarrow>
     isUserAdmin (sh_frame sh) \<and>
     user_menu_of sh = Some \<lparr>um_initials = ''OP'', um_name = ''Operator'', um_account = ''admin'', um_role = ''owner''\<rparr>"
  by (simp add: isUserAdmin_def user_menu_of_def initials_def avatar_admin_def str_or_def Let_def)

end
